(* ===== verification/Prelude.thy ===== *)
theory Prelude
  imports Errors "HOL-Library.Word"
begin

unbundle bit_operations_syntax

text \<open>
  What the components share: the machine integers, the checked, wrapping and saturating
  arithmetic of Rust's standard library on them, and the lemmas that read a machine
  operation as an operation on natural numbers.  Each checked operation is characterised
  by one equivalence (\<open>checked_add_eq_Some_iff\<close> and its siblings), collected in
  \<open>nat_arith\<close>, so that a component proof leaves words behind after one simplification.
\<close>

section \<open>Integer types\<close>

type_synonym u16 = "16 word"
type_synonym u32 = "32 word"
type_synonym u64 = "64 word"
type_synonym u128 = "128 word"
type_synonym i64 = "64 word"
type_synonym uuid = "128 word"

named_theorems nat_arith \<open>machine operations read as operations on natural numbers\<close>

section \<open>Unsigned arithmetic\<close>

definition checked_add :: "'a::len word \<Rightarrow> 'a word \<Rightarrow> 'a word option" where
  "checked_add a b = (if unat a + unat b < 2 ^ LENGTH('a) then Some (a + b) else None)"

definition checked_sub :: "'a::len word \<Rightarrow> 'a word \<Rightarrow> 'a word option" where
  "checked_sub a b = (if b \<le> a then Some (a - b) else None)"

definition checked_mul :: "'a::len word \<Rightarrow> 'a word \<Rightarrow> 'a word option" where
  "checked_mul a b = (if unat a * unat b < 2 ^ LENGTH('a) then Some (a * b) else None)"

definition overflowing_add :: "'a::len word \<Rightarrow> 'a word \<Rightarrow> 'a word \<times> bool" where
  "overflowing_add a b = (a + b, 2 ^ LENGTH('a) \<le> unat a + unat b)"

definition saturating_add :: "'a::len word \<Rightarrow> 'a word \<Rightarrow> 'a word" where
  "saturating_add a b = (if unat a + unat b < 2 ^ LENGTH('a) then a + b else - 1)"

definition saturating_sub :: "'a::len word \<Rightarrow> 'a word \<Rightarrow> 'a word" where
  "saturating_sub a b = (if b \<le> a then a - b else 0)"

definition is_multiple_of :: "'a::len word \<Rightarrow> 'a word \<Rightarrow> bool" where
  "is_multiple_of a b = (if b = 0 then a = 0 else a mod b = 0)"

lemma unat_lt128: "unat (x :: u128) < 2 ^ 128"
proof -
  have "unat x < 2 ^ LENGTH(128)" by (rule unsigned_less)
  then show ?thesis by (simp del: unsigned_less)
qed

lemma unat_of_nat_fits: "n < 2 ^ LENGTH('a) \<Longrightarrow> unat (word_of_nat n :: 'a::len word) = n"
  by (simp add: unsigned_of_nat take_bit_eq_mod)

lemma unat_add_no_wrap:
  "unat a + unat b < 2 ^ LENGTH('a) \<Longrightarrow> unat (a + b) = unat a + unat (b :: 'a::len word)"
  by (simp add: unat_word_ariths)

lemma unat_mul_no_wrap:
  "unat a * unat b < 2 ^ LENGTH('a) \<Longrightarrow> unat (a * b) = unat a * unat (b :: 'a::len word)"
  by (simp add: unat_word_ariths)

lemma unat_sub_no_wrap: "b \<le> a \<Longrightarrow> unat (a - b) = unat a - unat (b :: 'a::len word)"
  by (simp add: unat_sub)

lemma checked_add_eq_Some_iff [nat_arith]:
  "checked_add a b = Some c \<longleftrightarrow> unat a + unat b = unat (c :: 'a::len word)"
proof
  assume "checked_add a b = Some c"
  then show "unat a + unat b = unat c"
    by (auto simp: checked_add_def unat_add_no_wrap split: if_splits)
next
  assume eq: "unat a + unat b = unat c"
  then have lt: "unat a + unat b < 2 ^ LENGTH('a)" using unsigned_less [where 'a = nat, of c] by simp
  with eq have "a + b = c" by (metis unat_add_no_wrap word_unat_eq_iff)
  with lt show "checked_add a b = Some c" by (simp add: checked_add_def)
qed

lemma checked_add_eq_None_iff [nat_arith]:
  "checked_add a b = None \<longleftrightarrow> 2 ^ LENGTH('a) \<le> unat a + unat (b :: 'a::len word)"
  by (auto simp: checked_add_def)

lemma checked_sub_eq_Some_iff [nat_arith]:
  "checked_sub a b = Some c \<longleftrightarrow> unat a = unat b + unat (c :: 'a::len word)"
proof
  assume "checked_sub a b = Some c"
  then show "unat a = unat b + unat c"
    by (auto simp: checked_sub_def unat_sub_no_wrap word_le_nat_alt split: if_splits)
next
  assume eq: "unat a = unat b + unat c"
  then have le: "b \<le> a" by (simp add: word_le_nat_alt)
  then have "unat (a - b) = unat c" by (simp add: unat_sub_no_wrap eq)
  with le show "checked_sub a b = Some c"
    by (simp add: checked_sub_def word_unat_eq_iff)
qed

lemma checked_sub_eq_None_iff [nat_arith]:
  "checked_sub a b = None \<longleftrightarrow> unat a < unat (b :: 'a::len word)"
  by (auto simp: checked_sub_def word_le_nat_alt)

lemma checked_mul_eq_Some_iff [nat_arith]:
  "checked_mul a b = Some c \<longleftrightarrow> unat a * unat b = unat (c :: 'a::len word)"
proof
  assume "checked_mul a b = Some c"
  then show "unat a * unat b = unat c"
    by (auto simp: checked_mul_def unat_mul_no_wrap split: if_splits)
next
  assume eq: "unat a * unat b = unat c"
  then have lt: "unat a * unat b < 2 ^ LENGTH('a)" using unsigned_less [where 'a = nat, of c] by simp
  with eq have "a * b = c" by (metis unat_mul_no_wrap word_unat_eq_iff)
  with lt show "checked_mul a b = Some c" by (simp add: checked_mul_def)
qed

lemma checked_mul_eq_None_iff [nat_arith]:
  "checked_mul a b = None \<longleftrightarrow> 2 ^ LENGTH('a) \<le> unat a * unat (b :: 'a::len word)"
  by (auto simp: checked_mul_def)

lemma unat_saturating_sub [nat_arith]: "unat (saturating_sub a b) = unat a - unat b"
  by (simp add: saturating_sub_def unat_sub_no_wrap word_le_nat_alt)

lemma unat_saturating_add:
  "unat (saturating_add a b) = min (unat a + unat b) (2 ^ LENGTH('a) - 1)" for a b :: "'a::len word"
  by (auto simp: saturating_add_def unat_add_no_wrap unsigned_minus_1_eq_mask mask_eq_exp_minus_1 min_def)

lemma is_multiple_of_iff [nat_arith]: "is_multiple_of a b \<longleftrightarrow> unat b dvd unat a"
proof (cases "b = 0")
  case True
  then show ?thesis by (simp add: is_multiple_of_def unat_eq_0)
next
  case False
  have "a mod b = 0 \<longleftrightarrow> unat (a mod b) = 0" by (simp add: unat_eq_0)
  then show ?thesis
    using False by (simp add: is_multiple_of_def unat_mod_distrib dvd_eq_mod_eq_0)
qed

lemma unat_min [nat_arith]: "unat (min a b) = min (unat a) (unat b)"
  by (simp add: min_def word_le_nat_alt)

lemma unat_max [nat_arith]: "unat (max a b) = max (unat a) (unat b)"
  by (simp add: max_def word_le_nat_alt)

lemma unat_ucast_u32 [simp]: "unat (ucast (x :: u32) :: u128) = unat x"
proof -
  have "unat x < 2 ^ 32" using unsigned_less [of x] by simp
  then have "unat x < 2 ^ 128" by (rule less_trans) simp
  then show ?thesis by (simp add: unsigned_ucast_eq take_bit_eq_mod)
qed

section \<open>Signed arithmetic on 64 bits\<close>

text \<open>An \<^verbatim>\<open>i64\<close> is a 64-bit word read by \<open>sint\<close>.\<close>

definition i64_clamp :: "int \<Rightarrow> i64" where
  "i64_clamp k = word_of_int (max (- (2 ^ 63)) (min (2 ^ 63 - 1) k))"

definition i64_saturating_sub :: "i64 \<Rightarrow> i64 \<Rightarrow> i64" where
  "i64_saturating_sub a b = i64_clamp (sint a - sint b)"

definition i64_saturating_add :: "i64 \<Rightarrow> i64 \<Rightarrow> i64" where
  "i64_saturating_add a b = i64_clamp (sint a + sint b)"

definition i64_max :: "i64 \<Rightarrow> i64 \<Rightarrow> i64" where
  "i64_max a b = (if sint a \<le> sint b then b else a)"

definition u128_try_from_i64 :: "i64 \<Rightarrow> u128 option" where
  "u128_try_from_i64 a = (if sint a < 0 then None else Some (word_of_int (sint a)))"

lemma sint_i64_bounds: "- (2 ^ 63) \<le> sint (a :: i64)" "sint (a :: i64) < 2 ^ 63"
  using sint_range_size [of a] by (simp_all add: word_size)

lemma sint_i64_clamp: "sint (i64_clamp k) = max (- (2 ^ 63)) (min (2 ^ 63 - 1) k)"
  unfolding i64_clamp_def
  by (simp add: signed_of_int signed_take_bit_int_eq_self)

lemma floor_roundtrip:
  fixes due n S :: nat
  assumes "0 < n" "0 < S"
  shows "due * S div n * n div S \<le> due"
    and "(due - due * S div n * n div S) * S < n + S"
proof -
  define q cash where "q = due * S div n" and "cash = q * n div S"
  have "q * n \<le> due * S" by (simp add: q_def)
  then have "cash \<le> due * S div S" unfolding cash_def by (rule div_le_mono)
  then show "due * S div n * n div S \<le> due" using assms by (simp add: cash_def q_def)
  have "due * S < (q + 1) * n"
    unfolding q_def using assms(1) dividend_less_div_times [of n "due * S"] by (simp add: algebra_simps)
  moreover have "q * n < (cash + 1) * S"
    unfolding cash_def using assms(2) dividend_less_div_times [of S "q * n"] by (simp add: algebra_simps)
  ultimately have "due * S < cash * S + (n + S)" by (simp add: algebra_simps)
  moreover have "(due - cash) * S = due * S - cash * S" by (rule diff_mult_distrib)
  ultimately show "(due - due * S div n * n div S) * S < n + S"
    using assms by (simp add: cash_def q_def)
qed

end
