(* ===== verification/WideMul.thy ===== *)
theory WideMul
  imports Prelude
begin

text \<open>
  The 256-bit multiply-then-divide under every price and every rate
  (\<^verbatim>\<open>widening_mul\<close> and \<^verbatim>\<open>mul_div_floor\<close> of \<^verbatim>\<open>domain/src/money.rs\<close>),
  word for word, and the proof that the schoolbook product and the binary long division
  compute the mathematical floor of \<open>a * b / denom\<close>, failing exactly on a zero
  denominator or a quotient past 128 bits.
\<close>

section \<open>The code\<close>

definition widening_mul :: "u128 \<Rightarrow> u128 \<Rightarrow> u128 \<times> u128" where
  "widening_mul a b =
     (let m = 2 ^ 64 - 1;
          a_lo = a AND m; a_hi = drop_bit 64 a;
          b_lo = b AND m; b_hi = drop_bit 64 b;
          p0 = a_lo * b_lo;
          p1 = a_lo * b_hi;
          p2 = a_hi * b_lo;
          p3 = a_hi * b_hi;
          lo = p0;
          hi = p3;
          (s1, c1) = overflowing_add lo (push_bit 64 p1);
          lo = s1;
          hi = hi + (drop_bit 64 p1 + of_bool c1);
          (s2, c2) = overflowing_add lo (push_bit 64 p2);
          lo = s2;
          hi = hi + (drop_bit 64 p2 + of_bool c2)
      in (hi, lo))"

text \<open>The loop of the long division: \<open>k\<close> counts the bits of \<open>lo\<close> still to shift in.\<close>

fun div_loop :: "nat \<Rightarrow> u128 \<Rightarrow> u128 \<Rightarrow> u128 \<Rightarrow> u128 \<Rightarrow> u128" where
  "div_loop 0 lo denom rem quo = quo"
| "div_loop (Suc k) lo denom rem quo =
     (let carry_in = drop_bit k lo AND 1;
          top = drop_bit 127 rem;
          shifted = push_bit 1 rem OR carry_in
      in if top = 1 \<or> denom \<le> shifted
         then div_loop k lo denom (shifted - denom) (quo OR push_bit k 1)
         else div_loop k lo denom shifted quo)"

definition mul_div_floor :: "u128 \<Rightarrow> u128 \<Rightarrow> u128 \<Rightarrow> u128 option" where
  "mul_div_floor a b denom =
     (if denom = 0 then None
      else case checked_mul a b of
        Some product \<Rightarrow> Some (product div denom)
      | None \<Rightarrow>
          (let (hi, lo) = widening_mul a b
           in if denom \<le> hi then None else Some (div_loop 128 lo denom hi 0)))"

section \<open>The product\<close>

lemma unat_and_mask64: "unat (a AND (2 ^ 64 - 1) :: u128) = unat a mod 2 ^ 64"
proof -
  have "a AND (2 ^ 64 - 1) = take_bit 64 a"
    by (simp add: take_bit_eq_mask mask_eq_exp_minus_1)
  then have "unat (a AND (2 ^ 64 - 1)) = take_bit 64 (unat a)" by (simp only: unsigned_take_bit_eq)
  then show ?thesis by (simp only: take_bit_eq_mod)
qed

lemma unat_drop_bit_div: "unat (drop_bit n a) = unat (a :: 'a::len word) div 2 ^ n"
  by (subst unat_drop_bit_eq) (simp add: drop_bit_eq_div)

lemma unat_push_bit64: "unat (push_bit 64 p :: u128) = unat p mod 2 ^ 64 * 2 ^ 64"
proof -
  have "unat (push_bit 64 p :: u128) = (unat p * 2 ^ 64) mod 2 ^ 128"
    by (subst unsigned_push_bit_eq) (simp add: push_bit_eq_mult take_bit_eq_mod)
  also have "\<dots> = (unat p mod 2 ^ 64) * 2 ^ 64"
    using mult_mod_left [of "unat p" "2 ^ 64" "2 ^ 64"] by (simp flip: power_add)
  finally show ?thesis .
qed

lemma unat_of_bool_le: "unat (of_bool c :: u128) = of_bool c"
  by (cases c) simp_all

lemma partial_product_lt:
  fixes x y :: nat
  assumes "x < 2 ^ 64" "y < 2 ^ 64"
  shows "x * y \<le> (2 ^ 64 - 1) * (2 ^ 64 - 1)"
  using assms by (intro mult_le_mono) simp_all

lemma unat_half_product:
  fixes x y :: u128
  assumes "unat x < 2 ^ 64" "unat y < 2 ^ 64"
  shows "unat (x * y) = unat x * unat y"
  by (rule unat_mul_no_wrap) (use partial_product_lt [OF assms] in simp)

lemma overflowing_add_split:
  fixes x y :: "'a::len word"
  assumes "overflowing_add x y = (s, c)"
  shows "unat x + unat y = unat s + of_bool c * 2 ^ LENGTH('a)"
proof (cases "unat x + unat y < 2 ^ LENGTH('a)")
  case True
  with assms show ?thesis by (auto simp: overflowing_add_def unat_add_no_wrap)
next
  case False
  have "unat x + unat y - 2 ^ LENGTH('a) < 2 ^ LENGTH('a)"
    using unsigned_less [where 'a = nat, of x] unsigned_less [where 'a = nat, of y] by linarith
  with False have "(unat x + unat y) mod 2 ^ LENGTH('a) = unat x + unat y - 2 ^ LENGTH('a)"
    by (simp add: mod_if)
  with False assms show ?thesis by (auto simp: overflowing_add_def unat_word_ariths)
qed

text \<open>The schoolbook sum on natural numbers, with the carries of the two additions.\<close>

lemma schoolbook_linear:
  fixes B p0 p3 q1 r1 q2 r2 s1 s2 c1 c2 :: nat
  assumes "p0 + r1 * B = s1 + c1 * (B * B)" and "s1 + r2 * B = s2 + c2 * (B * B)"
  shows "(p3 + (q1 + c1) + (q2 + c2)) * (B * B) + s2
    = p3 * (B * B) + (q1 * B + r1) * B + (q2 * B + r2) * B + p0"
proof -
  have "s2 + c2 * (B * B) + c1 * (B * B) = p0 + r1 * B + r2 * B" using assms by linarith
  then show ?thesis by (simp add: algebra_simps)
qed

lemma schoolbook_nat:
  fixes al ah bl bh s1 s2 c1 c2 :: nat
  defines "p1 \<equiv> al * bh" and "p2 \<equiv> ah * bl"
  assumes "al * bl + p1 mod B * B = s1 + c1 * (B * B)" and "s1 + p2 mod B * B = s2 + c2 * (B * B)"
  shows "(ah * bh + (p1 div B + c1) + (p2 div B + c2)) * (B * B) + s2 = (ah * B + al) * (bh * B + bl)"
proof -
  have "(ah * B + al) * (bh * B + bl) = ah * bh * (B * B) + p1 * B + p2 * B + al * bl"
    by (simp add: p1_def p2_def algebra_simps)
  also have "\<dots> = ah * bh * (B * B) + (p1 div B * B + p1 mod B) * B + (p2 div B * B + p2 mod B) * B + al * bl"
    by simp
  finally show ?thesis
    using schoolbook_linear [OF assms(3,4), of "ah * bh" "p1 div B" "p2 div B"] by simp
qed

lemma unat_sum5:
  "unat (a + (b + c) + (d + e) :: u128) = (unat a + (unat b + unat c) + (unat d + unat e)) mod 2 ^ 128"
  by (simp add: unat_word_ariths mod_simps)

lemma widening_mul_eq:
  assumes "widening_mul a b = (hi, lo)"
  shows "unat hi * 2 ^ 128 + unat lo = unat a * unat b"
proof -
  define al ah bl bh where "al = a AND (2 ^ 64 - 1)" and "ah = drop_bit 64 a"
    and "bl = b AND (2 ^ 64 - 1)" and "bh = drop_bit 64 b"
  note halves = al_def ah_def bl_def bh_def
  obtain s1 c1 where s1: "overflowing_add (al * bl) (push_bit 64 (al * bh)) = (s1, c1)" by fastforce
  obtain s2 c2 where s2: "overflowing_add s1 (push_bit 64 (ah * bl)) = (s2, c2)" by fastforce
  define h where "h = ah * bh + (drop_bit 64 (al * bh) + of_bool c1) + (drop_bit 64 (ah * bl) + of_bool c2)"
  have out: "hi = h" "lo = s2"
    using assms s1 s2 by (simp_all add: widening_mul_def h_def halves Let_def)
  have lt: "unat al < 2 ^ 64" "unat ah < 2 ^ 64" "unat bl < 2 ^ 64" "unat bh < 2 ^ 64"
    using unat_lt128 [of a] unat_lt128 [of b]
    unfolding halves unat_and_mask64 unat_drop_bit_div by (simp_all add: less_mult_imp_div_less)
  note prods = unat_half_product [OF lt(1,3)] unat_half_product [OF lt(1,4)]
    unat_half_product [OF lt(2,3)] unat_half_product [OF lt(2,4)]
  have whole: "unat a = unat ah * 2 ^ 64 + unat al" "unat b = unat bh * 2 ^ 64 + unat bl"
    unfolding halves unat_and_mask64 unat_drop_bit_div by simp_all
  define hn where "hn = unat ah * unat bh + (unat al * unat bh div 2 ^ 64 + of_bool c1)
      + (unat ah * unat bl div 2 ^ 64 + of_bool c2)"
  have total: "hn * 2 ^ 128 + unat s2 = unat a * unat b"
    unfolding hn_def whole
    using schoolbook_nat [of "unat al" "unat bl" "unat bh" "2 ^ 64" "unat s1" "of_bool c1" "unat ah" "unat s2" "of_bool c2"]
      overflowing_add_split [OF s1] overflowing_add_split [OF s2]
    by (simp add: prods unat_push_bit64)
  have "unat a * unat b < 2 ^ 128 * 2 ^ 128"
    using unat_lt128 [of a] unat_lt128 [of b] by (intro mult_strict_mono) simp_all
  with total have "hn * 2 ^ 128 < 2 ^ 128 * 2 ^ 128" by linarith
  then have "hn < 2 ^ 128" by simp
  moreover have "unat h = hn mod 2 ^ 128"
    unfolding h_def hn_def unat_sum5 unat_drop_bit_div prods unat_of_bool_le ..
  ultimately show ?thesis using total out by simp
qed

section \<open>The division\<close>

text \<open>
  The invariant of the loop with \<open>k\<close> bits to go: \<open>quo\<close> and \<open>rem\<close> are quotient and
  remainder of the bits consumed so far, the quotient already shifted into place.
\<close>

definition div_inv :: "nat \<Rightarrow> nat \<Rightarrow> nat \<Rightarrow> u128 \<Rightarrow> u128 \<Rightarrow> bool" where
  "div_inv k n d rem quo \<longleftrightarrow>
     unat rem = n div 2 ^ k mod d \<and> unat quo = n div 2 ^ k div d * 2 ^ k"

lemma long_division_step:
  fixes m c d :: nat
  assumes "0 < d" "c < 2"
  shows "(2 * m + c) div d = 2 * (m div d) + of_bool (d \<le> 2 * (m mod d) + c)"
    and "(2 * m + c) mod d = 2 * (m mod d) + c - of_bool (d \<le> 2 * (m mod d) + c) * d"
proof -
  define q r where "q = m div d" and "r = m mod d"
  have m: "m = q * d + r" and r: "r < d" using assms by (simp_all add: q_def r_def)
  have "2 * r + c < 2 * d" using r assms(2) by linarith
  have whole: "2 * m + c = (2 * r + c) + (2 * q) * d" by (simp add: m algebra_simps)
  have "(2 * m + c) div d = 2 * q + (2 * r + c) div d"
    unfolding whole by (rule div_mult_self1) (use assms(1) in simp)
  moreover have "(2 * m + c) mod d = (2 * r + c) mod d"
    unfolding whole by (rule mod_mult_self1)
  moreover have "(2 * r + c) div d = of_bool (d \<le> 2 * r + c)"
    using \<open>2 * r + c < 2 * d\<close> assms(1) by (auto simp: div_if)
  moreover have "(2 * r + c) mod d = 2 * r + c - of_bool (d \<le> 2 * r + c) * d"
    using \<open>2 * r + c < 2 * d\<close> assms(1) by (auto simp: mod_if)
  ultimately show "(2 * m + c) div d = 2 * (m div d) + of_bool (d \<le> 2 * (m mod d) + c)"
    and "(2 * m + c) mod d = 2 * (m mod d) + c - of_bool (d \<le> 2 * (m mod d) + c) * d"
    by (simp_all add: q_def r_def)
qed

lemma unat_bit_at: "unat (drop_bit k lo AND 1 :: u128) = unat lo div 2 ^ k mod 2"
  by (simp add: and_one_eq unat_mod_distrib unat_drop_bit_div)

lemma shift_in: "push_bit 1 r OR (x AND 1) = 2 * r + (x AND 1)" for r x :: u128
proof -
  have "\<not> (bit (push_bit 1 r) n \<and> bit (x AND 1) n)" for n
    by (cases n) (simp_all only: bit_push_bit_iff bit_and_iff bit_1_iff, simp_all)
  then have "push_bit 1 r AND (x AND 1) = 0"
    by (intro bit_eqI) (metis bit_and_iff bit_0_eq bot_apply bot_bool_def)
  then have "push_bit 1 r OR (x AND 1) = push_bit 1 r + (x AND 1)"
    by (rule disjunctive_add_eq_or [symmetric])
  then show ?thesis by (simp add: push_bit_eq_mult)
qed

lemma top_bit_iff: "drop_bit 127 r = 1 \<longleftrightarrow> 2 ^ 127 \<le> unat (r :: u128)"
proof -
  have "unat (drop_bit 127 r) = unat r div 2 ^ 127" by (rule unat_drop_bit_div)
  moreover have "drop_bit 127 r = 1 \<longleftrightarrow> unat (drop_bit 127 r) = 1"
    by (simp add: word_unat_eq_iff)
  moreover have "unat r div 2 ^ 127 = 1 \<longleftrightarrow> 2 ^ 127 \<le> unat r"
    using unat_lt128 [of r] by (auto simp: div_nat_eqI div_greater_zero_iff intro: less_imp_le)
  ultimately show ?thesis by simp
qed

lemma or_new_bit:
  fixes q :: u128
  assumes "2 ^ Suc k dvd unat q"
  shows "q OR push_bit k 1 = q + 2 ^ k"
proof -
  from assms obtain t where "unat q = 2 ^ Suc k * t" by blast
  then have "\<not> bit (unat q) k" by (simp add: bit_iff_odd)
  then have "\<not> bit q k" if "k < 128" using that by (simp add: bit_unsigned_iff)
  then have "q AND push_bit k 1 = 0"
    by (intro bit_eqI) (auto simp: bit_simps)
  then have "q OR push_bit k 1 = q + push_bit k 1" by (rule disjunctive_add_eq_or [symmetric])
  then show ?thesis by (simp add: push_bit_eq_mult)
qed

lemma unat_pow2: "k < 128 \<Longrightarrow> unat (2 ^ k :: u128) = 2 ^ k"
proof -
  assume "k < 128"
  then have "(2::nat) ^ k < 2 ^ 128" by (intro power_strict_increasing) simp_all
  then have "unat (word_of_nat (2 ^ k) :: u128) = 2 ^ k" by (intro unat_of_nat_fits) simp
  then show ?thesis by (simp only: of_nat_power of_nat_numeral)
qed

text \<open>One turn of the loop keeps the invariant.\<close>

lemma div_inv_step:
  fixes denom lo rem quo :: u128 and k n :: nat
  defines "c \<equiv> drop_bit k lo AND 1"
  defines "shifted \<equiv> push_bit 1 rem OR c"
  assumes inv: "div_inv (Suc k) n (unat denom) rem quo"
    and d0: "denom \<noteq> 0" and bitk: "unat c = n div 2 ^ k mod 2"
    and small: "n < unat denom * 2 ^ 128" and k128: "k < 128"
  shows "drop_bit 127 rem = 1 \<or> denom \<le> shifted \<Longrightarrow>
      div_inv k n (unat denom) (shifted - denom) (quo OR push_bit k 1)"
    and "\<not> (drop_bit 127 rem = 1 \<or> denom \<le> shifted) \<Longrightarrow> div_inv k n (unat denom) shifted quo"
proof -
  define d m where "d = unat denom" and "m = n div 2 ^ Suc k"
  have d: "0 < d" using d0 by (simp add: d_def unat_gt_0)
  have rem: "unat rem = m mod d" and quo: "unat quo = m div d * 2 ^ Suc k"
    using inv by (simp_all add: div_inv_def d_def m_def)
  have c2: "unat c < 2" by (simp add: bitk)
  have nk: "n div 2 ^ k = 2 * m + unat c"
    unfolding bitk m_def power_Suc2 div_mult2_eq by simp
  have sh: "shifted = 2 * rem + c" unfolding shifted_def c_def by (rule shift_in)
  then have ush: "unat shifted = (2 * unat rem + unat c) mod 2 ^ 128"
    by (simp add: unat_word_ariths mod_simps)
  have cond: "drop_bit 127 rem = 1 \<or> denom \<le> shifted \<longleftrightarrow> d \<le> 2 * unat rem + unat c"
  proof (cases "2 ^ 127 \<le> unat rem")
    case True
    moreover have "d < 2 ^ 128" using unat_lt128 [of denom] by (simp add: d_def)
    ultimately show ?thesis using True by (simp add: top_bit_iff)
  next
    case False
    with c2 have "unat shifted = 2 * unat rem + unat c" by (simp add: ush)
    with False show ?thesis by (simp add: top_bit_iff word_le_nat_alt d_def)
  qed
  note step = long_division_step [OF d c2, of m]
  {
    assume "drop_bit 127 rem = 1 \<or> denom \<le> shifted"
    then have ge: "d \<le> 2 * unat rem + unat c" using cond by blast
    show "div_inv k n (unat denom) (shifted - denom) (quo OR push_bit k 1)"
    proof -
      have "2 * unat rem + unat c - d = (2 * m + unat c) mod d" using step(2) ge by (simp add: rem)
      also have "\<dots> < d" using d by (rule mod_less_divisor)
      also have "\<dots> < 2 ^ 128" using unat_lt128 [of denom] by (simp add: d_def)
      finally have v: "2 * unat rem + unat c - d < 2 ^ 128" .
      have "shifted - denom = word_of_nat (2 * unat rem + unat c - d)"
        using ge by (simp add: sh d_def)
      with v have r: "unat (shifted - denom) = 2 * unat rem + unat c - d"
        by (simp add: unat_of_nat)
      have "n div 2 ^ k div d * 2 ^ k = n div d div 2 ^ k * 2 ^ k"
        by (simp add: div_mult2_eq [symmetric] mult.commute)
      also have "\<dots> \<le> n div d" by simp
      also have "\<dots> < 2 ^ 128" using small by (simp add: d_def less_mult_imp_div_less mult.commute)
      finally have qlt: "n div 2 ^ k div d * 2 ^ k < 2 ^ 128" .
      have two: "unat (2 ^ k :: u128) = 2 ^ k" using k128 by (rule unat_pow2)
      have qn: "n div 2 ^ k div d * 2 ^ k = unat quo + 2 ^ k"
        using step(1) ge by (simp add: nk quo rem algebra_simps)
      have "unat (quo OR push_bit k 1) = unat quo + 2 ^ k"
        using qlt qn two by (subst or_new_bit) (simp_all add: quo unat_add_no_wrap)
      with r qn step(2) ge show ?thesis by (simp add: div_inv_def nk rem flip: d_def)
    qed
  }
  {
    assume "\<not> (drop_bit 127 rem = 1 \<or> denom \<le> shifted)"
    then have lt: "2 * unat rem + unat c < d" using cond by fastforce
    moreover have "d < 2 ^ 128" using unat_lt128 [of denom] by (simp add: d_def)
    ultimately have "unat shifted = 2 * unat rem + unat c" by (simp add: ush)
    then show "div_inv k n (unat denom) shifted quo"
      using lt step by (simp add: div_inv_def nk rem quo flip: d_def)
  }
qed

lemma div_loop_floor:
  fixes denom lo rem quo :: u128
  assumes "div_inv k n (unat denom) rem quo" "denom \<noteq> 0" "k \<le> 128"
    and "unat lo = n mod 2 ^ 128" "n < unat denom * 2 ^ 128"
  shows "unat (div_loop k lo denom rem quo) = n div unat denom"
  using assms(1,3)
proof (induction k arbitrary: rem quo)
  case 0
  then show ?case by (simp add: div_inv_def)
next
  case (Suc k)
  have "unat (drop_bit k lo AND 1) = n mod 2 ^ 128 div 2 ^ k mod 2"
    by (simp add: unat_bit_at assms(4))
  also have "\<dots> = n div 2 ^ k mod 2"
    using Suc.prems(2) bit_take_bit_iff [of 128 n k]
    by (simp add: bit_iff_odd take_bit_eq_mod mod_2_eq_odd)
  finally have bitk: "unat (drop_bit k lo AND 1) = n div 2 ^ k mod 2" .
  have "k < 128" using Suc.prems(2) by simp
  note step = div_inv_step [OF Suc.prems(1) assms(2) bitk assms(5) this]
  show ?case
  proof (cases "drop_bit 127 rem = 1 \<or> denom \<le> push_bit 1 rem OR (drop_bit k lo AND 1)")
    case True
    with Suc.IH [OF step(1) [OF True]] Suc.prems(2) show ?thesis by (simp add: Let_def)
  next
    case False
    with Suc.IH [OF step(2) [OF False]] Suc.prems(2) show ?thesis by (simp add: Let_def)
  qed
qed

section \<open>The specification\<close>

text \<open>
  \<open>mul_div_floor\<close> is multiplication and floored division on natural numbers: it answers
  exactly when the denominator is positive and the quotient fits, and then with the quotient.
\<close>

theorem mul_div_floor_spec:
  "mul_div_floor a b denom =
     (if denom = 0 \<or> 2 ^ 128 \<le> unat a * unat b div unat denom then None
      else Some (word_of_nat (unat a * unat b div unat denom)))"
proof (cases "denom = 0")
  case True
  then show ?thesis by (simp add: mul_div_floor_def)
next
  case False
  define n d where "n = unat a * unat b" and "d = unat denom"
  have d: "0 < d" using False by (simp add: d_def unat_gt_0)
  show ?thesis
  proof (cases "checked_mul a b")
    case (Some p)
    then have p: "n = unat p" by (simp add: checked_mul_eq_Some_iff n_def)
    then have "n div d < 2 ^ 128"
      using le_less_trans [OF div_le_dividend unat_lt128 [of p]] by simp
    moreover have "p div denom = word_of_nat (n div d)"
      by (simp add: p d_def word_unat_eq_iff unat_div_distrib flip: unat_div_distrib)
    ultimately show ?thesis using False Some by (simp add: mul_div_floor_def n_def d_def)
  next
    case None
    obtain hi lo where w: "widening_mul a b = (hi, lo)" by fastforce
    then have n: "n = unat hi * 2 ^ 128 + unat lo" using widening_mul_eq by (simp add: n_def)
    have hi: "unat hi = n div 2 ^ 128" and lo: "unat lo = n mod 2 ^ 128"
      unfolding n using unat_lt128 [of lo] by simp_all
    have fits: "unat hi < d \<longleftrightarrow> n div d < 2 ^ 128"
      unfolding hi using d by (simp add: div_less_iff_less_mult mult.commute)
    show ?thesis
    proof (cases "denom \<le> hi")
      case True
      then have "\<not> n div d < 2 ^ 128" using fits by (simp add: d_def word_le_nat_alt)
      with True False None w show ?thesis by (simp add: mul_div_floor_def n_def d_def)
    next
      case neg: False
      then have lt: "unat hi < d" by (simp add: d_def word_le_nat_alt)
      then have small: "n < d * 2 ^ 128" unfolding hi by (simp add: div_less_iff_less_mult)
      have "div_inv 128 n (unat denom) hi 0"
        using lt unfolding div_inv_def hi [symmetric] d_def [symmetric] by simp
      from div_loop_floor [OF this False order_refl lo] small
      have "unat (div_loop 128 lo denom hi 0) = n div d" by (simp add: d_def)
      with lt fits have "div_loop 128 lo denom hi 0 = word_of_nat (n div d)"
        by (simp add: word_unat_eq_iff unat_of_nat_fits)
      with neg False None w fits lt show ?thesis by (simp add: mul_div_floor_def n_def d_def)
    qed
  qed
qed

lemma mul_div_floor_eq_Some_iff [nat_arith]:
  "mul_div_floor a b denom = Some q \<longleftrightarrow> denom \<noteq> 0 \<and> unat q = unat a * unat b div unat denom"
  using unat_lt128 [of q]
  by (auto simp: mul_div_floor_spec unat_of_nat_fits not_le word_unat_eq_iff simp del: unat_lt128)

lemma mul_div_floor_eq_None_iff [nat_arith]:
  "mul_div_floor a b denom = None \<longleftrightarrow> denom = 0 \<or> 2 ^ 128 \<le> unat a * unat b div unat denom"
  by (simp add: mul_div_floor_spec)

text \<open>
  C18: The 256-bit multiply-then-divide under every price and rate is exact: it is the floor of the
  mathematical quotient whenever the denominator is positive and the quotient fits 128 bits, and
  refuses otherwise.
\<close>
theorem mul_div_floor_exact:
  "map_option unat (mul_div_floor a b denom) =
     (if unat denom = 0 \<or> 2 ^ 128 \<le> unat a * unat b div unat denom then None
      else Some (unat a * unat b div unat denom))"
  by (cases "mul_div_floor a b denom") (auto simp: nat_arith unat_eq_0)

end
