(* ===== verification/RustStr.thy ===== *)
theory RustStr
  imports Prelude "HOL-Library.Sublist"
begin

text \<open>
  The string operations of Rust's standard library that the source uses.  A \<^verbatim>\<open>str\<close> is
  the list of its UTF-8 bytes, so \<open>length\<close> is \<^verbatim>\<open>str::len\<close>, an ASCII literal is the
  literal itself, and \<^verbatim>\<open>trim\<close> strips the encodings of the Unicode white-space characters.
  The second half proves what decimal rendering and parsing need: the value of a digit
  string, its padding and its trimming.
\<close>

section \<open>Bytes\<close>

definition byte :: "char \<Rightarrow> nat" where
  "byte c = of_char c"

definition is_ascii_digit :: "char \<Rightarrow> bool" where
  "is_ascii_digit c \<longleftrightarrow> 48 \<le> byte c \<and> byte c \<le> 57"

definition is_ascii_alphabetic :: "char \<Rightarrow> bool" where
  "is_ascii_alphabetic c \<longleftrightarrow> (65 \<le> byte c \<and> byte c \<le> 90) \<or> (97 \<le> byte c \<and> byte c \<le> 122)"

definition is_ascii_alphanumeric :: "char \<Rightarrow> bool" where
  "is_ascii_alphanumeric c \<longleftrightarrow> is_ascii_alphabetic c \<or> is_ascii_digit c"

definition is_ascii_hexdigit :: "char \<Rightarrow> bool" where
  "is_ascii_hexdigit c \<longleftrightarrow>
     is_ascii_digit c \<or> (65 \<le> byte c \<and> byte c \<le> 70) \<or> (97 \<le> byte c \<and> byte c \<le> 102)"

definition to_ascii_lowercase :: "string \<Rightarrow> string" where
  "to_ascii_lowercase = map (\<lambda>c. if 65 \<le> byte c \<and> byte c \<le> 90 then char_of (byte c + 32) else c)"

text \<open>\<^verbatim>\<open>s.chars().count()\<close>: the bytes that do not continue a character.\<close>

definition chars_count :: "string \<Rightarrow> nat" where
  "chars_count s = length (filter (\<lambda>c. \<not> (128 \<le> byte c \<and> byte c < 192)) s)"

section \<open>White space\<close>

definition whitespace :: "string list" where
  "whitespace =
     [[CHR 0x09], [CHR 0x0A], [CHR 0x0B], [CHR 0x0C], [CHR 0x0D], [CHR 0x20],
      [CHR 0xC2, CHR 0x85], [CHR 0xC2, CHR 0xA0], [CHR 0xE1, CHR 0x9A, CHR 0x80],
      [CHR 0xE2, CHR 0x80, CHR 0x80], [CHR 0xE2, CHR 0x80, CHR 0x81], [CHR 0xE2, CHR 0x80, CHR 0x82],
      [CHR 0xE2, CHR 0x80, CHR 0x83], [CHR 0xE2, CHR 0x80, CHR 0x84], [CHR 0xE2, CHR 0x80, CHR 0x85],
      [CHR 0xE2, CHR 0x80, CHR 0x86], [CHR 0xE2, CHR 0x80, CHR 0x87], [CHR 0xE2, CHR 0x80, CHR 0x88],
      [CHR 0xE2, CHR 0x80, CHR 0x89], [CHR 0xE2, CHR 0x80, CHR 0x8A], [CHR 0xE2, CHR 0x80, CHR 0xA8],
      [CHR 0xE2, CHR 0x80, CHR 0xA9], [CHR 0xE2, CHR 0x80, CHR 0xAF], [CHR 0xE2, CHR 0x81, CHR 0x9F],
      [CHR 0xE3, CHR 0x80, CHR 0x80]]"

definition leading :: "string list \<Rightarrow> string \<Rightarrow> string option" where
  "leading ws s = find (\<lambda>w. w \<noteq> [] \<and> take (length w) s = w) ws"

lemma leading_Some: "leading ws s = Some w \<Longrightarrow> w \<in> set ws \<and> w \<noteq> [] \<and> take (length w) s = w"
  by (auto simp: leading_def find_Some_iff)

function strip :: "string list \<Rightarrow> string \<Rightarrow> string" where
  "strip ws s = (case leading ws s of None \<Rightarrow> s | Some w \<Rightarrow> strip ws (drop (length w) s))"
  by pat_completeness auto
termination
proof (relation "measure (\<lambda>(ws, s). length s)")
  fix ws s w assume "leading ws s = Some w"
  then have "w \<noteq> []" "take (length w) s = w" by (auto dest: leading_Some)
  then have "s \<noteq> []" by auto
  with \<open>w \<noteq> []\<close> show "((ws, drop (length w) s), (ws, s)) \<in> measure (\<lambda>(ws, s). length s)" by simp
qed simp

declare strip.simps [simp del]

definition trim :: "string \<Rightarrow> string" where
  "trim s = rev (strip (map rev whitespace) (rev (strip whitespace s)))"

section \<open>Searching and splitting\<close>

fun split_once :: "char \<Rightarrow> string \<Rightarrow> (string \<times> string) option" where
  "split_once c [] = None"
| "split_once c (x # xs) =
     (if x = c then Some ([], xs) else map_option (\<lambda>(a, b). (x # a, b)) (split_once c xs))"

definition starts_with :: "string \<Rightarrow> string \<Rightarrow> bool" where
  "starts_with p s \<longleftrightarrow> take (length p) s = p"

definition contains :: "string \<Rightarrow> string \<Rightarrow> bool" where
  "contains p s \<longleftrightarrow> list_ex (starts_with p) (suffixes s)"

text \<open>\<^verbatim>\<open>chars().any(char::is_control)\<close> on UTF-8: C0, delete, and C1 (\<^verbatim>\<open>C2 80..9F\<close>).\<close>

fun has_control :: "string \<Rightarrow> bool" where
  "has_control [] \<longleftrightarrow> False"
| "has_control (c # s) \<longleftrightarrow>
     byte c < 32 \<or> byte c = 127 \<or>
     (byte c = 194 \<and> s \<noteq> [] \<and> 128 \<le> byte (hd s) \<and> byte (hd s) < 160) \<or> has_control s"

section \<open>Decimal numerals\<close>

definition digit_value :: "char \<Rightarrow> nat" where
  "digit_value c = byte c - 48"

definition digit_char :: "nat \<Rightarrow> char" where
  "digit_char d = char_of (48 + d)"

fun decimal_value :: "string \<Rightarrow> nat \<Rightarrow> nat" where
  "decimal_value [] acc = acc"
| "decimal_value (c # s) acc = decimal_value s (acc * 10 + digit_value c)"

fun show_nat :: "nat \<Rightarrow> string" where
  "show_nat n = (if n < 10 then [digit_char n] else show_nat (n div 10) @ [digit_char (n mod 10)])"

declare show_nat.simps [simp del]

definition show_u128 :: "u128 \<Rightarrow> string" where
  "show_u128 x = show_nat (unat x)"

text \<open>\<^verbatim>\<open>str::parse::<u128>\<close>: an optional plus sign, then at least one digit, in range.\<close>

definition parse_u128 :: "string \<Rightarrow> u128 option" where
  "parse_u128 s =
     (let ds = (if starts_with ''+'' s then drop 1 s else s) in
      if ds \<noteq> [] \<and> list_all is_ascii_digit ds \<and> decimal_value ds 0 < 2 ^ 128
      then Some (word_of_nat (decimal_value ds 0)) else None)"

text \<open>The dash of the source's messages, in UTF-8.\<close>

definition em_dash :: string where
  "em_dash = [CHR 0xE2, CHR 0x80, CHR 0x94]"

definition show_i64 :: "i64 \<Rightarrow> string" where
  "show_i64 a = (if sint a < 0 then ''-'' @ show_nat (nat (- sint a)) else show_nat (nat (sint a)))"

text \<open>\<^verbatim>\<open>str::parse\<close> of the narrower unsigned types, \<^verbatim>\<open>str::split\<close> on a character, ASCII case.\<close>

definition parse_u64 :: "string \<Rightarrow> u64 option" where
  "parse_u64 s = Option.bind (parse_u128 s) (\<lambda>v. if unat v < 2 ^ 64 then Some (ucast v) else None)"

fun split_char :: "char \<Rightarrow> string \<Rightarrow> string list" where
  "split_char c [] = [[]]"
| "split_char c (x # xs) =
     (if x = c then [] # split_char c xs
      else case split_char c xs of [] \<Rightarrow> [[x]] | w # ws \<Rightarrow> (x # w) # ws)"

definition eq_ignore_ascii_case :: "string \<Rightarrow> string \<Rightarrow> bool" where
  "eq_ignore_ascii_case a b \<longleftrightarrow> to_ascii_lowercase a = to_ascii_lowercase b"

text \<open>The paddings \<^verbatim>\<open>{:0<n}\<close> and \<^verbatim>\<open>{:0n}\<close>, and \<^verbatim>\<open>trim_end_matches('0')\<close>.\<close>

definition pad_right0 :: "nat \<Rightarrow> string \<Rightarrow> string" where
  "pad_right0 n s = s @ replicate (n - length s) CHR ''0''"

definition pad_left0 :: "nat \<Rightarrow> string \<Rightarrow> string" where
  "pad_left0 n s = replicate (n - length s) CHR ''0'' @ s"

definition trim_end0 :: "string \<Rightarrow> string" where
  "trim_end0 s = rev (dropWhile (\<lambda>c. c = CHR ''0'') (rev s))"

section \<open>Facts about trimming\<close>

text \<open>A string of printable ASCII other than blanks is left alone, and trimming is idempotent.\<close>

definition graphic :: "char \<Rightarrow> bool" where
  "graphic c \<longleftrightarrow> 33 \<le> byte c \<and> byte c < 127"

lemma strip_none: "leading ws s = None \<Longrightarrow> strip ws s = s"
  by (subst strip.simps) simp

lemma leading_none_iff: "leading ws s = None \<longleftrightarrow> (\<forall>w \<in> set ws. w = [] \<or> take (length w) s \<noteq> w)"
  by (auto simp: leading_def find_None_iff)

lemma strip_end: "leading ws (strip ws s) = None"
proof (induction ws s rule: strip.induct)
  case (1 ws s)
  then show ?case by (cases "leading ws s") (simp_all add: strip.simps [of ws s])
qed

lemma strip_suffix: "suffix (strip ws s) s"
proof (induction ws s rule: strip.induct)
  case (1 ws s)
  then show ?case
    by (cases "leading ws s")
      (auto simp: strip.simps [of ws s] intro: suffix_order.trans suffix_drop)
qed

lemma leading_none_prefix: "leading ws s = None \<Longrightarrow> prefix t s \<Longrightarrow> leading ws t = None"
proof -
  assume "leading ws s = None" and "prefix t s"
  then obtain u where "s = t @ u" by (auto simp: prefix_def)
  moreover have "take (length w) (t @ u) = w" if "take (length w) t = w" for w
  proof -
    have "length w \<le> length t" using that by (metis length_take min.cobounded1)
    with that show ?thesis by simp
  qed
  ultimately show ?thesis using \<open>leading ws s = None\<close> by (auto simp: leading_none_iff)
qed

lemma trim_trim [simp]: "trim (trim s) = trim s"
proof -
  define u v where "u = strip whitespace s" and "v = strip (map rev whitespace) (rev u)"
  have "leading whitespace u = None" by (simp add: u_def strip_end)
  moreover have "prefix (rev v) u"
    using strip_suffix [of "map rev whitespace" "rev u"] by (simp add: v_def suffix_to_prefix)
  ultimately have "leading whitespace (rev v) = None" by (rule leading_none_prefix)
  moreover have "leading (map rev whitespace) v = None" by (simp add: v_def strip_end)
  ultimately show ?thesis by (simp add: trim_def strip_none flip: u_def v_def)
qed

lemma leading_graphic:
  assumes "\<forall>w \<in> set ws. w \<noteq> [] \<longrightarrow> \<not> graphic (hd w)" "list_all graphic s"
  shows "leading ws s = None"
  unfolding leading_none_iff
proof (intro ballI)
  fix w assume "w \<in> set ws"
  with assms show "w = [] \<or> take (length w) s \<noteq> w"
    by (cases w; cases s) auto
qed

lemma trim_graphic: "list_all graphic s \<Longrightarrow> trim s = s"
proof -
  assume g: "list_all graphic s"
  have "leading whitespace s = None"
    by (rule leading_graphic [OF _ g]) (simp add: whitespace_def graphic_def byte_def)
  moreover have "leading (map rev whitespace) (rev s) = None"
    by (rule leading_graphic) (simp_all add: whitespace_def graphic_def byte_def g)
  ultimately show ?thesis by (simp add: trim_def strip_none)
qed

section \<open>Facts about splitting\<close>

lemma split_once_None_iff: "split_once c s = None \<longleftrightarrow> c \<notin> set s"
  by (induction s) auto

lemma split_once_Some_iff: "split_once c s = Some (i, f) \<longleftrightarrow> s = i @ c # f \<and> c \<notin> set i"
proof (induction s arbitrary: i)
  case Nil
  then show ?case by simp
next
  case (Cons x s)
  then show ?case by (cases i) auto
qed

lemma split_once_append: "c \<notin> set i \<Longrightarrow> split_once c (i @ c # f) = Some (i, f)"
  by (simp add: split_once_Some_iff)

section \<open>Facts about digits\<close>

lemma byte_lt [simp]: "byte c < 256"
  by (simp add: byte_def)

lemma byte_digit_char: "d < 10 \<Longrightarrow> byte (digit_char d) = 48 + d"
  by (simp add: byte_def digit_char_def)

lemma digit_value_digit_char [simp]: "d < 10 \<Longrightarrow> digit_value (digit_char d) = d"
  by (simp add: digit_value_def byte_digit_char)

lemma is_ascii_digit_digit_char [simp]: "d < 10 \<Longrightarrow> is_ascii_digit (digit_char d)"
  by (simp add: is_ascii_digit_def byte_digit_char)

lemma digit_char_0 [simp]: "digit_char 0 = CHR ''0''"
  by (simp add: digit_char_def char_of_eq_iff)

lemma digit_value_zero [simp]: "digit_value CHR ''0'' = 0"
  by (simp add: digit_value_def byte_def)

lemma is_ascii_digit_zero [simp]: "is_ascii_digit CHR ''0''"
  by (simp add: is_ascii_digit_def byte_def)

lemma digit_value_lt: "is_ascii_digit c \<Longrightarrow> digit_value c < 10"
  by (auto simp: is_ascii_digit_def digit_value_def)

lemma decimal_value_acc: "decimal_value s acc = acc * 10 ^ length s + decimal_value s 0"
proof (induction s arbitrary: acc)
  case Nil
  then show ?case by simp
next
  case (Cons c s)
  show ?case
    using Cons.IH [of "acc * 10 + digit_value c"] Cons.IH [of "digit_value c"]
    by (simp add: algebra_simps)
qed

lemma decimal_value_append: "decimal_value (s @ t) acc = decimal_value t (decimal_value s acc)"
  by (induction s arbitrary: acc) auto

lemma decimal_value_replicate0: "decimal_value (replicate k CHR ''0'') acc = acc * 10 ^ k"
  by (induction k arbitrary: acc) auto

lemma decimal_value_lt: "list_all is_ascii_digit s \<Longrightarrow> decimal_value s 0 < 10 ^ length s"
proof (induction s rule: rev_induct)
  case Nil
  then show ?case by simp
next
  case (snoc c s)
  then have "decimal_value s 0 + 1 \<le> 10 ^ length s" "digit_value c < 10"
    by (simp_all add: digit_value_lt Suc_leI)
  then show ?case by (simp add: decimal_value_append)
qed

lemma digits_show_nat: "list_all is_ascii_digit (show_nat n)"
proof (induction n rule: show_nat.induct)
  case (1 n)
  then show ?case by (cases "n < 10") (simp_all add: show_nat.simps [of n])
qed

lemma show_nat_nonempty [simp]: "show_nat n \<noteq> []"
  by (subst show_nat.simps) simp

lemma decimal_value_show_nat: "decimal_value (show_nat n) 0 = n"
proof (induction n rule: show_nat.induct)
  case (1 n)
  then show ?case
    by (cases "n < 10") (simp_all add: show_nat.simps [of n] decimal_value_append)
qed

lemma length_show_nat: "n < 10 ^ Suc k \<Longrightarrow> length (show_nat n) \<le> Suc k"
proof (induction k arbitrary: n)
  case 0
  then show ?case by (simp add: show_nat.simps [of n])
next
  case (Suc k)
  then have "n div 10 < 10 ^ Suc k" by (simp add: less_mult_imp_div_less)
  from Suc.IH [OF this] show ?case by (simp add: show_nat.simps [of n])
qed

text \<open>Padding on the left keeps the value, trimming zeros and padding on the right undo each other.\<close>

lemma decimal_value_pad_left0: "decimal_value (pad_left0 n s) 0 = decimal_value s 0"
  by (simp add: pad_left0_def decimal_value_append decimal_value_replicate0)

lemma length_pad_left0: "length s \<le> n \<Longrightarrow> length (pad_left0 n s) = n"
  by (simp add: pad_left0_def)

lemma digits_pad_left0: "list_all is_ascii_digit s \<Longrightarrow> list_all is_ascii_digit (pad_left0 n s)"
  by (auto simp: pad_left0_def list_all_iff)

lemma trim_end0_split: "\<exists>k. s = trim_end0 s @ replicate k CHR ''0''"
proof -
  have "takeWhile (\<lambda>c. c = CHR ''0'') (rev s)
      = replicate (length (takeWhile (\<lambda>c. c = CHR ''0'') (rev s))) CHR ''0''"
    by (rule replicate_eqI) (auto dest: set_takeWhileD)
  then obtain k where "takeWhile (\<lambda>c. c = CHR ''0'') (rev s) = replicate k CHR ''0''" by blast
  then have "rev s = replicate k CHR ''0'' @ dropWhile (\<lambda>c. c = CHR ''0'') (rev s)"
    by (metis takeWhile_dropWhile_id)
  then have "s = rev (dropWhile (\<lambda>c. c = CHR ''0'') (rev s)) @ replicate k CHR ''0''"
    by (metis rev_append rev_replicate rev_rev_ident)
  then show ?thesis unfolding trim_end0_def by blast
qed

lemma pad_right0_trim_end0: "length s = n \<Longrightarrow> pad_right0 n (trim_end0 s) = s"
  using trim_end0_split [of s] by (auto simp: pad_right0_def) (metis add_diff_cancel_left' length_append length_replicate)

lemma trim_end0_digits: "list_all is_ascii_digit s \<Longrightarrow> list_all is_ascii_digit (trim_end0 s)"
  using trim_end0_split [of s] by (metis list_all_append)

lemma trim_end0_length: "length (trim_end0 s) \<le> length s"
  using length_dropWhile_le [of _ "rev s"] by (simp add: trim_end0_def)

lemma trim_end0_nonzero: "decimal_value s 0 \<noteq> 0 \<Longrightarrow> trim_end0 s \<noteq> []"
  using trim_end0_split [of s] decimal_value_replicate0 by (metis append_Nil mult_zero_left)

lemma starts_with_char: "starts_with [c] s \<longleftrightarrow> s \<noteq> [] \<and> hd s = c"
  by (cases s) (auto simp: starts_with_def)

lemma parse_u128_digits:
  assumes "s \<noteq> []" "list_all is_ascii_digit s"
  shows "parse_u128 s = (if decimal_value s 0 < 2 ^ 128 then Some (word_of_nat (decimal_value s 0)) else None)"
proof -
  have "hd s \<noteq> CHR ''+''" using assms by (cases s) (auto simp: is_ascii_digit_def byte_def)
  with assms show ?thesis by (simp add: parse_u128_def starts_with_char)
qed

lemma parse_u128_show_u128 [simp]: "parse_u128 (show_u128 x) = Some x"
  using unat_lt128 [of x]
  by (simp add: parse_u128_digits show_u128_def digits_show_nat decimal_value_show_nat)

lemma digit_not_point: "list_all is_ascii_digit s \<Longrightarrow> CHR ''.'' \<notin> set s"
  by (auto simp: list_all_iff is_ascii_digit_def byte_def)

lemma digit_graphic: "is_ascii_digit c \<Longrightarrow> graphic c"
  by (simp add: is_ascii_digit_def graphic_def)

lemma decimal_value_pad_right0: "decimal_value (pad_right0 n s) 0 = decimal_value s 0 * 10 ^ (n - length s)"
  by (simp add: pad_right0_def decimal_value_append decimal_value_replicate0)

lemma digits_pad_right0: "list_all is_ascii_digit s \<Longrightarrow> list_all is_ascii_digit (pad_right0 n s)"
  by (auto simp: pad_right0_def list_all_iff)

lemma pad_right0_nonempty: "s \<noteq> [] \<Longrightarrow> pad_right0 n s \<noteq> []"
  by (simp add: pad_right0_def)

lemma parse_u128_digits_iff:
  assumes "list_all is_ascii_digit s"
  shows "parse_u128 s = Some x \<longleftrightarrow> s \<noteq> [] \<and> unat x = decimal_value s 0"
proof (cases "s = []")
  case True
  then show ?thesis by (simp add: parse_u128_def starts_with_def)
next
  case False
  with assms show ?thesis
    using unat_lt128 [of x] by (auto simp: parse_u128_digits word_unat_eq_iff unat_of_nat_fits)
qed

end
