(* ===== verification/Money.thy ===== *)
theory Money
  imports WideMul RustStr
begin

text \<open>
  The money kernel (\<^verbatim>\<open>domain/src/money.rs\<close>): networks and their scales, the canonical
  18-decimal amounts \<^verbatim>\<open>Usdt\<close>, \<^verbatim>\<open>Shares\<close> and \<^verbatim>\<open>Nav\<close>, wallet addresses and
  transaction references.  Each newtype over \<^verbatim>\<open>u128\<close> is a datatype of its own with a
  linear order; \<open>usdt_val\<close>, \<open>shares_val\<close> and \<open>nav_val\<close> read one as a natural
  number, and the lemmas of \<open>nat_arith\<close> state every operation in those terms.
\<close>

section \<open>Networks\<close>

definition CANONICAL_DECIMALS :: nat where
  "CANONICAL_DECIMALS = 18"

definition SCALE :: u128 where
  "SCALE = 10 ^ 18"

datatype network = Bep20 | Trc20 | Ton | Polygon

definition network_all :: "network list" where
  "network_all = [Bep20, Trc20, Ton, Polygon]"

fun onchain_decimals :: "network \<Rightarrow> nat" where
  "onchain_decimals Bep20 = 18"
| "onchain_decimals Trc20 = 6"
| "onchain_decimals Ton = 6"
| "onchain_decimals Polygon = 6"

definition scale_to_canonical :: "network \<Rightarrow> u128" where
  "scale_to_canonical n = 10 ^ (CANONICAL_DECIMALS - onchain_decimals n)"

fun min_confirmations :: "network \<Rightarrow> u64" where
  "min_confirmations Bep20 = 15"
| "min_confirmations Trc20 = 19"
| "min_confirmations Ton = 16"
| "min_confirmations Polygon = 128"

fun native_coin :: "network \<Rightarrow> string" where
  "native_coin Bep20 = ''BNB''"
| "native_coin Trc20 = ''TRX''"
| "native_coin Ton = ''TON''"
| "native_coin Polygon = ''POL''"

fun network_str :: "network \<Rightarrow> string" where
  "network_str Bep20 = ''bep20''"
| "network_str Trc20 = ''trc20''"
| "network_str Ton = ''ton''"
| "network_str Polygon = ''polygon''"

definition network_parse :: "string \<Rightarrow> network result" where
  "network_parse raw =
     (if raw = ''bep20'' then Inr Bep20
      else if raw = ''trc20'' then Inr Trc20
      else if raw = ''ton'' then Inr Ton
      else if raw = ''polygon'' then Inr Polygon
      else Inl (Validation (''unknown network: '' @ raw)))"

section \<open>The canonical amounts\<close>

datatype usdt = Usdt (usdt_units: u128)
datatype shares = Shares (shares_units: u128)
datatype nav = Nav (nav_units: u128)

instantiation usdt :: linorder
begin

definition less_eq_usdt :: "usdt \<Rightarrow> usdt \<Rightarrow> bool" where
  "less_eq_usdt a b \<longleftrightarrow> usdt_units a \<le> usdt_units b"

definition less_usdt :: "usdt \<Rightarrow> usdt \<Rightarrow> bool" where
  "less_usdt a b \<longleftrightarrow> usdt_units a < usdt_units b"

instance
  by standard (auto simp: less_eq_usdt_def less_usdt_def usdt.expand)

end

instantiation shares :: linorder
begin

definition less_eq_shares :: "shares \<Rightarrow> shares \<Rightarrow> bool" where
  "less_eq_shares a b \<longleftrightarrow> shares_units a \<le> shares_units b"

definition less_shares :: "shares \<Rightarrow> shares \<Rightarrow> bool" where
  "less_shares a b \<longleftrightarrow> shares_units a < shares_units b"

instance
  by standard (auto simp: less_eq_shares_def less_shares_def shares.expand)

end

instantiation nav :: linorder
begin

definition less_eq_nav :: "nav \<Rightarrow> nav \<Rightarrow> bool" where
  "less_eq_nav a b \<longleftrightarrow> nav_units a \<le> nav_units b"

definition less_nav :: "nav \<Rightarrow> nav \<Rightarrow> bool" where
  "less_nav a b \<longleftrightarrow> nav_units a < nav_units b"

instance
  by standard (auto simp: less_eq_nav_def less_nav_def nav.expand)

end

abbreviation usdt_val :: "usdt \<Rightarrow> nat" where
  "usdt_val a \<equiv> unat (usdt_units a)"

abbreviation shares_val :: "shares \<Rightarrow> nat" where
  "shares_val a \<equiv> unat (shares_units a)"

abbreviation nav_val :: "nav \<Rightarrow> nat" where
  "nav_val a \<equiv> unat (nav_units a)"

section \<open>USDT amounts\<close>

definition USDT_ZERO :: usdt where
  "USDT_ZERO = Usdt 0"

definition usdt_is_zero :: "usdt \<Rightarrow> bool" where
  "usdt_is_zero a \<longleftrightarrow> usdt_units a = 0"

definition usdt_checked_add :: "usdt \<Rightarrow> usdt \<Rightarrow> usdt option" where
  "usdt_checked_add a b = map_option Usdt (checked_add (usdt_units a) (usdt_units b))"

definition usdt_checked_sub :: "usdt \<Rightarrow> usdt \<Rightarrow> usdt option" where
  "usdt_checked_sub a b = map_option Usdt (checked_sub (usdt_units a) (usdt_units b))"

definition usdt_scale :: "usdt \<Rightarrow> u128 \<Rightarrow> u128 \<Rightarrow> usdt result" where
  "usdt_scale a numer denom =
     ok_or (map_option Usdt (mul_div_floor (usdt_units a) numer denom))
       (Validation ''amount scaling overflows or divides by zero'')"

definition from_onchain :: "network \<Rightarrow> u128 \<Rightarrow> usdt result" where
  "from_onchain n raw =
     ok_or (map_option Usdt (checked_mul raw (scale_to_canonical n)))
       (Validation ''amount overflows canonical units'')"

definition to_onchain :: "usdt \<Rightarrow> network \<Rightarrow> u128 result" where
  "to_onchain a n =
     (let factor = scale_to_canonical n in
      if \<not> is_multiple_of (usdt_units a) factor
      then Inl (Validation (''amount not representable on '' @ network_str n @ '' (sub-precision dust)''))
      else Inr (usdt_units a div factor))"

definition parse_decimal :: "string \<Rightarrow> usdt result" where
  "parse_decimal raw =
     (let trimmed = trim raw in
      rbind (guard (trimmed \<noteq> []) (Validation ''amount must not be empty'')) (\<lambda>_.
      let (int_part, frac_part) =
            (case split_once CHR ''.'' trimmed of Some (i, f) \<Rightarrow> (i, f) | None \<Rightarrow> (trimmed, [])) in
      rbind (guard (\<not> (int_part = [] \<and> frac_part = [])) (Validation ''amount must have digits'')) (\<lambda>_.
      rbind (guard (unat (word_of_nat (length frac_part) :: u32) \<le> CANONICAL_DECIMALS)
               (Validation ''amount has more than 18 decimal places'')) (\<lambda>_.
      rbind (guard (list_all is_ascii_digit int_part \<and> list_all is_ascii_digit frac_part)
               (Validation ''amount must be a decimal number'')) (\<lambda>_.
      rbind (ok_or (parse_u128 int_part) (Validation ''amount integer part too large'')) (\<lambda>int_units.
      rbind (ok_or (checked_mul int_units (10 ^ CANONICAL_DECIMALS)) (Validation ''amount too large'')) (\<lambda>scaled_int.
      rbind (if frac_part = [] then Inr 0
             else ok_or (parse_u128 (pad_right0 18 frac_part)) (Validation ''invalid amount fraction'')) (\<lambda>frac_units.
      ok_or (map_option Usdt (checked_add scaled_int frac_units)) (Validation ''amount too large'')))))))))"

definition to_decimal_string :: "usdt \<Rightarrow> string" where
  "to_decimal_string a =
     (let scale = 10 ^ CANONICAL_DECIMALS :: u128;
          int = usdt_units a div scale;
          frac = usdt_units a mod scale
      in if frac = 0 then show_u128 int
         else show_u128 int @ ''.'' @ trim_end0 (pad_left0 18 (show_u128 frac)))"

text \<open>The stored form is the decimal count of base units (\<^verbatim>\<open>Serialize\<close> and \<^verbatim>\<open>Deserialize\<close>).\<close>

definition usdt_serialize :: "usdt \<Rightarrow> string" where
  "usdt_serialize a = show_u128 (usdt_units a)"

definition usdt_deserialize :: "string \<Rightarrow> usdt option" where
  "usdt_deserialize raw = map_option Usdt (parse_u128 raw)"

section \<open>Fund units and their price\<close>

definition SHARES_ZERO :: shares where
  "SHARES_ZERO = Shares 0"

definition shares_is_zero :: "shares \<Rightarrow> bool" where
  "shares_is_zero a \<longleftrightarrow> shares_units a = 0"

definition shares_checked_add :: "shares \<Rightarrow> shares \<Rightarrow> shares option" where
  "shares_checked_add a b = map_option Shares (checked_add (shares_units a) (shares_units b))"

definition shares_checked_sub :: "shares \<Rightarrow> shares \<Rightarrow> shares option" where
  "shares_checked_sub a b = map_option Shares (checked_sub (shares_units a) (shares_units b))"

definition shares_from_cash :: "usdt \<Rightarrow> nav \<Rightarrow> shares result" where
  "shares_from_cash cash n =
     ok_or (map_option Shares (mul_div_floor (usdt_units cash) SCALE (nav_units n)))
       (Validation ''cannot price shares (nav is zero or amount overflows)'')"

definition parse_fixed_point :: "string \<Rightarrow> u128 result" where
  "parse_fixed_point raw = rmap usdt_units (parse_decimal raw)"

definition render_fixed_point :: "u128 \<Rightarrow> string" where
  "render_fixed_point units = to_decimal_string (Usdt units)"

definition shares_parse_decimal :: "string \<Rightarrow> shares result" where
  "shares_parse_decimal raw = rmap Shares (parse_fixed_point raw)"

definition shares_to_decimal_string :: "shares \<Rightarrow> string" where
  "shares_to_decimal_string a = render_fixed_point (shares_units a)"

definition NAV_SEED :: nav where
  "NAV_SEED = Nav SCALE"

definition nav_is_zero :: "nav \<Rightarrow> bool" where
  "nav_is_zero n \<longleftrightarrow> nav_units n = 0"

definition nav_from_aum :: "usdt \<Rightarrow> shares \<Rightarrow> nav result" where
  "nav_from_aum aum units =
     (if shares_is_zero units then Inl (Validation ''nav undefined: no units outstanding'')
      else ok_or (map_option Nav (mul_div_floor (usdt_units aum) SCALE (shares_units units)))
        (Validation ''nav overflows''))"

definition nav_value :: "nav \<Rightarrow> shares \<Rightarrow> usdt result" where
  "nav_value n units =
     ok_or (map_option Usdt (mul_div_floor (shares_units units) (nav_units n) SCALE))
       (Validation ''share value overflows'')"

definition nav_checked_sub :: "nav \<Rightarrow> nav \<Rightarrow> nav option" where
  "nav_checked_sub a b = map_option Nav (checked_sub (nav_units a) (nav_units b))"

definition nav_scale :: "nav \<Rightarrow> u128 \<Rightarrow> u128 \<Rightarrow> nav result" where
  "nav_scale n numer denom =
     ok_or (map_option Nav (mul_div_floor (nav_units n) numer denom))
       (Validation ''nav scaling overflows or divides by zero'')"

definition nav_checked_add :: "nav \<Rightarrow> nav \<Rightarrow> nav option" where
  "nav_checked_add a b = map_option Nav (checked_add (nav_units a) (nav_units b))"

definition nav_parse_decimal :: "string \<Rightarrow> nav result" where
  "nav_parse_decimal raw = rmap Nav (parse_fixed_point raw)"

definition nav_to_decimal_string :: "nav \<Rightarrow> string" where
  "nav_to_decimal_string n = render_fixed_point (nav_units n)"

section \<open>Addresses and references\<close>

definition BASE58_ALPHABET :: string where
  "BASE58_ALPHABET = ''123456789ABCDEFGHJKLMNPQRSTUVWXYZabcdefghijkmnopqrstuvwxyz''"

record wallet_address =
  wa_network :: network
  wa_value :: string

definition is_ton_friendly :: "string \<Rightarrow> bool" where
  "is_ton_friendly v \<longleftrightarrow>
     length v = 48 \<and> list_all (\<lambda>b. is_ascii_alphanumeric b \<or> b = CHR ''-'' \<or> b = CHR ''_'') v"

definition is_ton_raw :: "string \<Rightarrow> bool" where
  "is_ton_raw v =
     (case split_once CHR '':'' v of
        Some (wc, hash) \<Rightarrow>
          (wc = ''0'' \<or> wc = ''-1'') \<and> length hash = 64 \<and> list_all is_ascii_hexdigit hash
      | None \<Rightarrow> False)"

definition is_evm_address :: "string \<Rightarrow> bool" where
  "is_evm_address v \<longleftrightarrow> length v = 42 \<and> starts_with ''0x'' v \<and> list_all is_ascii_hexdigit (drop 2 v)"

definition is_tron_address :: "string \<Rightarrow> bool" where
  "is_tron_address v \<longleftrightarrow>
     length v = 34 \<and> starts_with ''T'' v \<and> list_all (\<lambda>b. b \<in> set BASE58_ALPHABET) v"

definition wallet_address_parse :: "network \<Rightarrow> string \<Rightarrow> wallet_address result" where
  "wallet_address_parse n raw =
     (let v = trim raw;
          ok = (case n of
                  Bep20 \<Rightarrow> is_evm_address v
                | Polygon \<Rightarrow> is_evm_address v
                | Trc20 \<Rightarrow> is_tron_address v
                | Ton \<Rightarrow> is_ton_friendly v \<or> is_ton_raw v)
      in if \<not> ok then Inl (Validation (''invalid '' @ network_str n @ '' wallet address''))
         else Inr \<lparr>wa_network = n, wa_value = v\<rparr>)"

datatype tx_ref = TxRef (tx_ref_str: string)

definition contains_url :: "string \<Rightarrow> bool" where
  "contains_url v \<longleftrightarrow>
     (let lower = to_ascii_lowercase v in contains ''://'' lower \<or> contains ''www.'' lower)"

definition tx_ref_parse :: "string \<Rightarrow> tx_ref result" where
  "tx_ref_parse raw =
     (let trimmed = trim raw in
      if trimmed = [] then Inl (Validation ''tx ref must not be empty'')
      else if 128 < length trimmed then Inl (Validation ''tx ref too long'')
      else if contains_url trimmed then Inl (Validation ''tx ref must not contain a link'')
      else Inr (TxRef trimmed))"

section \<open>Operations as arithmetic\<close>

lemma unat_SCALE [simp]: "unat SCALE = 10 ^ 18"
  by (simp add: SCALE_def)

lemma SCALE_nonzero [simp]: "SCALE \<noteq> 0"
  by (simp add: SCALE_def)

lemma usdt_eq_iff: "a = b \<longleftrightarrow> usdt_val a = usdt_val b"
  by (metis unsigned_word_eqI usdt.expand)

lemma shares_eq_iff: "a = b \<longleftrightarrow> shares_val a = shares_val b"
  by (metis unsigned_word_eqI shares.expand)

lemma nav_eq_iff: "a = b \<longleftrightarrow> nav_val a = nav_val b"
  by (metis unsigned_word_eqI nav.expand)

lemma usdt_order [nat_arith]:
  "a \<le> b \<longleftrightarrow> usdt_val a \<le> usdt_val b" "a < b \<longleftrightarrow> usdt_val a < usdt_val b"
  by (simp_all add: less_eq_usdt_def less_usdt_def word_le_nat_alt word_less_nat_alt)

lemma shares_order [nat_arith]:
  "a \<le> b \<longleftrightarrow> shares_val a \<le> shares_val b" "a < b \<longleftrightarrow> shares_val a < shares_val b"
  by (simp_all add: less_eq_shares_def less_shares_def word_le_nat_alt word_less_nat_alt)

lemma nav_order [nat_arith]:
  "a \<le> b \<longleftrightarrow> nav_val a \<le> nav_val b" "a < b \<longleftrightarrow> nav_val a < nav_val b"
  by (simp_all add: less_eq_nav_def less_nav_def word_le_nat_alt word_less_nat_alt)

lemma shares_val_min [nat_arith]: "shares_val (min a b) = min (shares_val a) (shares_val b)"
  by (simp add: min_def shares_order)

lemma zero_iffs [nat_arith]:
  "usdt_is_zero a \<longleftrightarrow> usdt_val a = 0" "shares_is_zero s \<longleftrightarrow> shares_val s = 0" "nav_is_zero n \<longleftrightarrow> nav_val n = 0"
  by (simp_all add: usdt_is_zero_def shares_is_zero_def nav_is_zero_def unat_eq_0)

lemma zero_vals [simp]: "usdt_val USDT_ZERO = 0" "shares_val SHARES_ZERO = 0" "nav_val NAV_SEED = 10 ^ 18"
  by (simp_all add: USDT_ZERO_def SHARES_ZERO_def NAV_SEED_def)

lemma newtype_eq_iff:
  "Usdt x = a \<longleftrightarrow> x = usdt_units a" "Shares x = s \<longleftrightarrow> x = shares_units s" "Nav x = n \<longleftrightarrow> x = nav_units n"
  by (cases a; cases s; cases n; simp)+

lemma usdt_checked_add_iff [nat_arith]:
  "usdt_checked_add a b = Some c \<longleftrightarrow> usdt_val a + usdt_val b = usdt_val c"
  "usdt_checked_add a b = None \<longleftrightarrow> 2 ^ 128 \<le> usdt_val a + usdt_val b"
  by (simp_all add: usdt_checked_add_def newtype_eq_iff nat_arith)

lemma usdt_checked_sub_iff [nat_arith]:
  "usdt_checked_sub a b = Some c \<longleftrightarrow> usdt_val a = usdt_val b + usdt_val c"
  "usdt_checked_sub a b = None \<longleftrightarrow> usdt_val a < usdt_val b"
  by (simp_all add: usdt_checked_sub_def newtype_eq_iff nat_arith)

lemma shares_checked_add_iff [nat_arith]:
  "shares_checked_add a b = Some c \<longleftrightarrow> shares_val a + shares_val b = shares_val c"
  "shares_checked_add a b = None \<longleftrightarrow> 2 ^ 128 \<le> shares_val a + shares_val b"
  by (simp_all add: shares_checked_add_def newtype_eq_iff nat_arith)

lemma shares_checked_sub_iff [nat_arith]:
  "shares_checked_sub a b = Some c \<longleftrightarrow> shares_val a = shares_val b + shares_val c"
  "shares_checked_sub a b = None \<longleftrightarrow> shares_val a < shares_val b"
  by (simp_all add: shares_checked_sub_def newtype_eq_iff nat_arith)

lemma nav_checked_iff [nat_arith]:
  "nav_checked_add m n = Some k \<longleftrightarrow> nav_val m + nav_val n = nav_val k"
  "nav_checked_sub m n = Some k \<longleftrightarrow> nav_val m = nav_val n + nav_val k"
  "nav_checked_sub m n = None \<longleftrightarrow> nav_val m < nav_val n"
  by (simp_all add: nav_checked_add_def nav_checked_sub_def newtype_eq_iff nat_arith)

lemma usdt_scale_iff [nat_arith]:
  "usdt_scale a numer denom = Inr b \<longleftrightarrow>
     denom \<noteq> 0 \<and> usdt_val b = usdt_val a * unat numer div unat denom"
  by (simp add: usdt_scale_def newtype_eq_iff nat_arith)

lemma nav_scale_iff [nat_arith]:
  "nav_scale a numer denom = Inr b \<longleftrightarrow>
     denom \<noteq> 0 \<and> nav_val b = nav_val a * unat numer div unat denom"
  by (simp add: nav_scale_def newtype_eq_iff nat_arith)

lemma shares_from_cash_iff [nat_arith]:
  "shares_from_cash cash n = Inr s \<longleftrightarrow>
     nav_val n \<noteq> 0 \<and> shares_val s = usdt_val cash * 10 ^ 18 div nav_val n"
  by (simp add: shares_from_cash_def newtype_eq_iff nat_arith unat_eq_0)

lemma nav_from_aum_iff [nat_arith]:
  "nav_from_aum aum units = Inr n \<longleftrightarrow>
     shares_val units \<noteq> 0 \<and> nav_val n = usdt_val aum * 10 ^ 18 div shares_val units"
  by (simp add: nav_from_aum_def newtype_eq_iff nat_arith unat_eq_0)

lemma nav_value_iff [nat_arith]:
  "nav_value n units = Inr cash \<longleftrightarrow> usdt_val cash = shares_val units * nav_val n div 10 ^ 18"
  by (simp add: nav_value_def newtype_eq_iff nat_arith)

lemma unat_scale_to_canonical: "unat (scale_to_canonical n) = 10 ^ (18 - onchain_decimals n)"
  by (cases n) (simp_all add: scale_to_canonical_def CANONICAL_DECIMALS_def)

lemma from_onchain_iff [nat_arith]:
  "from_onchain n raw = Inr a \<longleftrightarrow> usdt_val a = unat raw * 10 ^ (18 - onchain_decimals n)"
  by (auto simp: from_onchain_def newtype_eq_iff nat_arith unat_scale_to_canonical)

lemma to_onchain_iff [nat_arith]:
  "to_onchain a n = Inr raw \<longleftrightarrow> usdt_val a = unat raw * 10 ^ (18 - onchain_decimals n)"
proof -
  define f where "f = unat (scale_to_canonical n)"
  have f: "0 < f" "f = 10 ^ (18 - onchain_decimals n)" by (simp_all add: f_def unat_scale_to_canonical)
  have "usdt_units a div scale_to_canonical n = raw \<longleftrightarrow> usdt_val a div f = unat raw"
    by (simp add: word_unat_eq_iff unat_div_distrib f_def)
  moreover have "f dvd usdt_val a \<and> usdt_val a div f = unat raw \<longleftrightarrow> usdt_val a = unat raw * f"
    using f(1) by (auto simp: dvd_div_eq_iff)
  ultimately show ?thesis
    by (auto simp: to_onchain_def Let_def nat_arith f(2) simp flip: f_def)
qed

section \<open>Names\<close>

lemma network_parse_str [simp]: "network_parse (network_str n) = Inr n"
  by (cases n) (simp_all add: network_parse_def)

lemma network_parse_iff: "network_parse raw = Inr n \<longleftrightarrow> raw = network_str n"
  by (cases n) (auto simp: network_parse_def)

section \<open>Decimal text\<close>

text \<open>
  \<open>decimal_text i f t\<close>: the text \<open>t\<close> is the digits \<open>i\<close> alone, or \<open>i\<close>, a point and
  the digits \<open>f\<close>.  \<open>decimal_units\<close> is what such a text counts in base units.
\<close>

definition decimal_text :: "string \<Rightarrow> string \<Rightarrow> string \<Rightarrow> bool" where
  "decimal_text i f t \<longleftrightarrow>
     (t = i @ ''.'' @ f \<or> t = i \<and> f = []) \<and> i \<noteq> [] \<and> length f \<le> 18 \<and>
     list_all is_ascii_digit i \<and> list_all is_ascii_digit f"

definition decimal_units :: "string \<Rightarrow> string \<Rightarrow> nat" where
  "decimal_units i f = decimal_value i 0 * 10 ^ 18 + decimal_value f 0 * 10 ^ (18 - length f)"

lemma decimal_text_split:
  assumes "decimal_text i f t"
  shows "(case split_once CHR ''.'' t of Some (i, f) \<Rightarrow> (i, f) | None \<Rightarrow> (t, [])) = (i, f)"
proof -
  have "CHR ''.'' \<notin> set i" using assms by (intro digit_not_point) (simp add: decimal_text_def)
  then show ?thesis
    using assms by (auto simp: decimal_text_def split_once_append split_once_None_iff [THEN iffD2])
qed

lemma unat_ten18: "unat (10 ^ CANONICAL_DECIMALS :: u128) = 10 ^ 18"
  by (simp add: CANONICAL_DECIMALS_def)

lemma frac_units_iff:
  assumes "list_all is_ascii_digit f"
  shows "(if f = [] then Inr 0 else ok_or (parse_u128 (pad_right0 18 f)) e) = Inr x
    \<longleftrightarrow> unat x = decimal_value f 0 * 10 ^ (18 - length f)"
proof (cases "f = []")
  case True
  then show ?thesis by (auto simp: unat_eq_0)
next
  case False
  then show ?thesis
    by (simp add: parse_u128_digits_iff digits_pad_right0 assms pad_right0_nonempty decimal_value_pad_right0)
qed

text \<open>The accepting branch of the parser, from the text and its two halves.\<close>

lemma parse_decimal_accepts:
  assumes parts: "decimal_text i f (trim raw)" and units: "decimal_units i f = usdt_val a"
  shows "parse_decimal raw = Inr a"
proof -
  have i: "i \<noteq> []" "list_all is_ascii_digit i" and f: "length f \<le> 18" "list_all is_ascii_digit f"
    and ne: "trim raw \<noteq> []"
    using parts by (auto simp: decimal_text_def)
  have lt: "decimal_units i f < 2 ^ 128" using units unat_lt128 by simp
  define iu su fu :: u128 where "iu = word_of_nat (decimal_value i 0)"
    and "su = word_of_nat (decimal_value i 0 * 10 ^ 18)"
    and "fu = word_of_nat (decimal_value f 0 * 10 ^ (18 - length f))"
  have "decimal_value i 0 < 2 ^ LENGTH(128)" "decimal_value i 0 * 10 ^ 18 < 2 ^ LENGTH(128)"
    "decimal_value f 0 * 10 ^ (18 - length f) < 2 ^ LENGTH(128)"
    using lt by (simp_all add: decimal_units_def)
  then have vals: "unat iu = decimal_value i 0" "unat su = decimal_value i 0 * 10 ^ 18"
    "unat fu = decimal_value f 0 * 10 ^ (18 - length f)"
    unfolding iu_def su_def fu_def by (simp_all only: unat_of_nat_fits)
  have len: "unat (word_of_nat (length f) :: u32) = length f"
    using f(1) by (intro unat_of_nat_fits) simp
  have "parse_u128 i = Some iu" using i vals(1) by (simp add: parse_u128_digits_iff)
  moreover have "checked_mul iu (10 ^ CANONICAL_DECIMALS) = Some su"
    using vals by (simp add: nat_arith unat_ten18)
  moreover have "(if f = [] then Inr 0 else ok_or (parse_u128 (pad_right0 18 f)) e) = Inr fu" for e :: domain_error
    using f vals(3) by (simp only: frac_units_iff)
  moreover have "map_option Usdt (checked_add su fu) = Some a"
    using vals units by (simp add: newtype_eq_iff nat_arith decimal_units_def)
  ultimately show ?thesis
    using ne i f by (simp add: parse_decimal_def decimal_text_split [OF parts] len CANONICAL_DECIMALS_def Let_def)
qed

lemma split_once_decimal_text:
  assumes "(case split_once CHR ''.'' t of Some (i, f) \<Rightarrow> (i, f) | None \<Rightarrow> (t, [])) = (i, f)"
    and "i \<noteq> []" "length f \<le> 18" "list_all is_ascii_digit i" "list_all is_ascii_digit f"
  shows "decimal_text i f t"
  using assms by (auto simp: decimal_text_def split_once_Some_iff split: option.splits)

lemma length_strip: "length (strip ws s) \<le> length s"
  using strip_suffix [of ws s] by (auto dest: suffix_length_le)

lemma length_trim: "length (trim s) \<le> length s"
  using length_strip [of "map rev whitespace" "rev (strip whitespace s)"] length_strip [of whitespace s]
  by (simp add: trim_def)

lemma split_once_length: "split_once c t = Some (i, f) \<Longrightarrow> length f \<le> length t"
  by (auto simp: split_once_Some_iff)

lemma parse_decimal_exact:
  assumes ok: "parse_decimal raw = Inr a" and short: "length raw < 2 ^ 32"
  shows "\<exists>i f. decimal_text i f (trim raw) \<and> decimal_units i f = usdt_val a"
proof -
  obtain i f where split: "(case split_once CHR ''.'' (trim raw) of Some (i, f) \<Rightarrow> (i, f)
      | None \<Rightarrow> (trim raw, [])) = (i, f)"
    by fastforce
  have "length f \<le> length (trim raw)"
    using split split_once_length [of "CHR ''.''" "trim raw"] by (auto split: option.splits)
  then have "length f < 2 ^ 32" using short length_trim [of raw] by linarith
  then have len: "unat (word_of_nat (length f) :: u32) = length f" by (intro unat_of_nat_fits) simp
  from ok split len obtain iu su fu where i: "list_all is_ascii_digit i" and f: "list_all is_ascii_digit f"
    and f18: "length f \<le> 18" and iu: "parse_u128 i = Some iu"
    and su: "checked_mul iu (10 ^ CANONICAL_DECIMALS) = Some su"
    and fu: "(if f = [] then Inr 0 else ok_or (parse_u128 (pad_right0 18 f))
        (Validation ''invalid amount fraction'')) = Inr fu"
    and sum: "checked_add su fu = Some (usdt_units a)"
    by (auto simp: parse_decimal_def Let_def rbind_eq_Inr_iff newtype_eq_iff CANONICAL_DECIMALS_def)
  have "decimal_text i f (trim raw)"
    using split iu i f f18 by (intro split_once_decimal_text) (auto simp: parse_u128_digits_iff)
  moreover have "decimal_units i f = usdt_val a"
    using iu su fu sum i f
    by (simp add: parse_u128_digits_iff frac_units_iff nat_arith unat_ten18 decimal_units_def)
  ultimately show ?thesis by blast
qed

lemma parse_decimal_iff:
  assumes "length raw < 2 ^ 32"
  shows "parse_decimal raw = Inr a \<longleftrightarrow>
    (\<exists>i f. decimal_text i f (trim raw) \<and> decimal_units i f = usdt_val a)"
  using parse_decimal_exact [OF _ assms] parse_decimal_accepts by blast

lemma to_decimal_string_text:
  "\<exists>i f. decimal_text i f (to_decimal_string a) \<and> decimal_units i f = usdt_val a"
proof -
  define n where "n = usdt_val a"
  define i where "i = show_nat (n div 10 ^ 18)"
  define f where "f = trim_end0 (pad_left0 18 (show_nat (n mod 10 ^ 18)))"
  have units: "unat (usdt_units a div 10 ^ CANONICAL_DECIMALS) = n div 10 ^ 18"
    "unat (usdt_units a mod 10 ^ CANONICAL_DECIMALS) = n mod 10 ^ 18"
    by (simp_all add: unat_div_distrib unat_mod_distrib n_def CANONICAL_DECIMALS_def)
  have digits: "list_all is_ascii_digit i" "list_all is_ascii_digit f" "i \<noteq> []"
    by (simp_all add: i_def f_def digits_show_nat digits_pad_left0 trim_end0_digits)
  show ?thesis
  proof (cases "n mod 10 ^ 18 = 0")
    case True
    then have "to_decimal_string a = i"
      using units by (simp add: to_decimal_string_def Let_def show_u128_def i_def unat_eq_0)
    moreover have "decimal_units i [] = n"
      using True div_mult_mod_eq [of n "10 ^ 18"]
      by (simp only: decimal_units_def i_def decimal_value_show_nat decimal_value.simps mult_zero_left)
    ultimately show ?thesis
      using digits by (intro exI [of _ i] exI [of _ "[]"]) (simp add: decimal_text_def n_def)
  next
    case False
    have "length (show_nat (n mod 10 ^ 18)) \<le> Suc 17" by (rule length_show_nat) simp
    then have len: "length (pad_left0 18 (show_nat (n mod 10 ^ 18))) = 18"
      by (simp add: length_pad_left0)
    then have f18: "length f \<le> 18" using trim_end0_length by (metis f_def)
    have "pad_right0 18 f = pad_left0 18 (show_nat (n mod 10 ^ 18))"
      unfolding f_def by (rule pad_right0_trim_end0) (rule len)
    then have "decimal_value f 0 * 10 ^ (18 - length f) = n mod 10 ^ 18"
      using decimal_value_pad_right0 [of 18 f]
      by (simp add: decimal_value_pad_left0 decimal_value_show_nat)
    then have "decimal_units i f = n"
      by (simp only: decimal_units_def i_def decimal_value_show_nat div_mult_mod_eq)
    moreover have "to_decimal_string a = i @ ''.'' @ f"
      using False units by (simp add: to_decimal_string_def Let_def show_u128_def i_def f_def flip: unat_eq_0)
    ultimately show ?thesis
      using digits f18 by (intro exI [of _ i] exI [of _ f]) (simp add: decimal_text_def n_def)
  qed
qed

lemma graphic_point: "graphic CHR ''.''"
  by (simp add: graphic_def byte_def)

lemma trim_decimal_text: "decimal_text i f t \<Longrightarrow> trim t = t"
  by (rule trim_graphic)
    (auto simp: decimal_text_def list_all_iff graphic_point digit_graphic)

lemma parse_to_decimal_string [simp]: "parse_decimal (to_decimal_string a) = Inr a"
  using to_decimal_string_text [of a] by (auto simp: trim_decimal_text intro: parse_decimal_accepts)

lemma usdt_deserialize_serialize [simp]: "usdt_deserialize (usdt_serialize a) = Some a"
  by (simp add: usdt_deserialize_def usdt_serialize_def)

section \<open>The properties\<close>

text \<open>
  C19: Amount texts are exact: whatever amount is printed is read back, in the decimal form as in
  the stored one, and a text of under four gigabytes is accepted precisely when, trimmed, it is
  digits with at most eighteen more after a point, and then as the number it writes.
\<close>
theorem amount_text_exact:
  "parse_decimal (to_decimal_string a) = Inr a \<and> usdt_deserialize (usdt_serialize a) = Some a \<and>
   (length raw < 2 ^ 32 \<longrightarrow>
     (parse_decimal raw = Inr b \<longleftrightarrow> (\<exists>i f. decimal_text i f (trim raw) \<and> decimal_units i f = usdt_val b)))"
  using parse_decimal_iff [of raw b] by simp

theorem amount_text_exact_witness:
  "parse_decimal '' 12.5'' = Inr (Usdt 12500000000000000000)"
proof -
  have "trim '' 12.5'' = ''12.5''" by code_simp
  then have "\<exists>i f. decimal_text i f (trim '' 12.5'') \<and> decimal_units i f = usdt_val (Usdt 12500000000000000000)"
    by (intro exI [of _ "''12''"] exI [of _ "''5''"])
      (simp add: decimal_text_def decimal_units_def decimal_value.simps is_ascii_digit_def byte_def digit_value_def)
  then show ?thesis
    using amount_text_exact [of "Usdt 0" "'' 12.5''" "Usdt 12500000000000000000"] by simp
qed

text \<open>
  Canonical and on-chain amounts convert exactly or not at all: reading a raw on-chain amount
  and paying it out are inverse to one another on every network, and a payout is refused precisely
  when the amount has digits the token does not.
\<close>
lemma onchain_exact:
  "(to_onchain a n = Inr raw \<longleftrightarrow> from_onchain n raw = Inr a) \<and>
   (is_ok (to_onchain a n) \<longleftrightarrow> 10 ^ (18 - onchain_decimals n) dvd usdt_val a)"
proof
  show "to_onchain a n = Inr raw \<longleftrightarrow> from_onchain n raw = Inr a" by (simp add: nat_arith)
  show "is_ok (to_onchain a n) \<longleftrightarrow> 10 ^ (18 - onchain_decimals n) dvd usdt_val a"
    by (simp add: to_onchain_def Let_def nat_arith unat_scale_to_canonical)
qed

text \<open>
  C20: Pricing fund units never creates value: the units bought for an amount of cash are worth at
  most that cash at the same price, and less than it only by the rounding of one unit and one base
  unit.
\<close>
theorem units_never_overpriced:
  assumes "shares_from_cash cash n = Inr units" "nav_value n units = Inr worth"
  shows "worth \<le> cash \<and> (usdt_val cash - usdt_val worth) * 10 ^ 18 < nav_val n + 10 ^ 18"
proof -
  have "0 < nav_val n" "shares_val units = usdt_val cash * 10 ^ 18 div nav_val n"
    "usdt_val worth = usdt_val cash * 10 ^ 18 div nav_val n * nav_val n div 10 ^ 18"
    using assms by (simp_all add: nat_arith unat_gt_0)
  then show ?thesis using floor_roundtrip [of "nav_val n" "10 ^ 18" "usdt_val cash"] by (simp add: nat_arith)
qed

theorem units_never_overpriced_witness:
  "Usdt 999999999999999999 \<le> Usdt 1000000000000000000"
proof -
  have "shares_from_cash (Usdt 1000000000000000000) (Nav 3000000000000000000) = Inr (Shares 333333333333333333)"
    "nav_value (Nav 3000000000000000000) (Shares 333333333333333333) = Inr (Usdt 999999999999999999)"
    by (simp_all add: shares_from_cash_iff nav_value_iff unat_eq_0)
  from units_never_overpriced [OF this] show ?thesis by simp
qed

end
