(* ===== verification/Codec.thy ===== *)
theory Codec
  imports RustStr
begin

text \<open>
  The interface every enumeration with a stored name implements (\<^verbatim>\<open>as_str\<close> and
  \<^verbatim>\<open>parse\<close> in the domain crate): printing then parsing returns the value, and, for the
  exact ones, no other text parses.  The clients' facts (injective names, what a name parses
  to) are proved once here and reached through an interpretation per type.  The theory also
  holds the \<^verbatim>\<open>{:?}\<close> rendering of a string that refusal messages carry.
\<close>

section \<open>Printing and parsing\<close>

locale text_codec =
  fixes render :: "'a \<Rightarrow> string"
    and parse :: "string \<Rightarrow> 'a result"
  assumes parse_show: "parse (render x) = Inr x"
begin

lemma show_inject: "render x = render y \<longleftrightarrow> x = y"
proof
  assume "render x = render y"
  then have "parse (render x) = parse (render y)" by simp
  then show "x = y" by (simp add: parse_show)
qed simp

lemma parse_surj: "\<exists>s. parse s = Inr x"
  using parse_show by blast

end

locale exact_codec = text_codec +
  assumes show_parse: "parse s = Inr x \<Longrightarrow> render x = s"
begin

lemma parse_iff: "parse s = Inr x \<longleftrightarrow> s = render x"
  using parse_show show_parse by blast

lemma parse_inject: "parse s = Inr x \<Longrightarrow> parse t = Inr x \<Longrightarrow> s = t"
  by (simp add: parse_iff)

end

section \<open>Debug rendering of a string\<close>

text \<open>
  \<^verbatim>\<open>format!("{raw:?}")\<close>: the quoted text with its quotes, backslashes and control bytes
  escaped.  Bytes past ASCII are passed through, as the standard library does for printable
  characters.
\<close>

definition hex_char :: "nat \<Rightarrow> char" where
  "hex_char d = (if d < 10 then char_of (48 + d) else char_of (87 + d))"

definition debug_byte :: "char \<Rightarrow> string" where
  "debug_byte c =
     (if c = CHR 0x22 then [CHR 0x5C, CHR 0x22]
      else if c = CHR 0x5C then [CHR 0x5C, CHR 0x5C]
      else if c = CHR 0x00 then [CHR 0x5C, CHR ''0'']
      else if c = CHR 0x09 then [CHR 0x5C, CHR ''t'']
      else if c = CHR 0x0A then [CHR 0x5C, CHR ''n'']
      else if c = CHR 0x0D then [CHR 0x5C, CHR ''r'']
      else if byte c < 16 then [CHR 0x5C, CHR ''u'', CHR 0x7B, hex_char (byte c), CHR 0x7D]
      else if byte c < 32 \<or> byte c = 127
      then [CHR 0x5C, CHR ''u'', CHR 0x7B, hex_char (byte c div 16), hex_char (byte c mod 16), CHR 0x7D]
      else [c])"

definition debug_str :: "string \<Rightarrow> string" where
  "debug_str s = CHR 0x22 # concat (map debug_byte s) @ [CHR 0x22]"

end
