(* ===== verification/ScopeIds.thy ===== *)
theory ScopeIds
  imports Codec
begin

text \<open>
  The names of a scope and of its accounts (\<^verbatim>\<open>ScopeId\<close> and \<^verbatim>\<open>ScopeAccountLabel\<close> of
  \<^verbatim>\<open>domain/src/scopes.rs\<close>).  Both constructors are private to their parsers and to a few
  constants, so a well-formed value is one its parser returns; \<open>scope_id_ok\<close> and
  \<open>scope_label_ok\<close> say what that is.
\<close>

definition is_ascii_lowercase :: "char \<Rightarrow> bool" where
  "is_ascii_lowercase c \<longleftrightarrow> 97 \<le> byte c \<and> byte c \<le> 122"

section \<open>Scope ids\<close>

datatype scope_id = ScopeId (scope_id_str: string)

definition MAIN :: string where
  "MAIN = ''main''"

definition scope_id_parse :: "string \<Rightarrow> scope_id result" where
  "scope_id_parse raw =
     (let shaped = raw \<noteq> [] \<and> length raw \<le> 32 \<and> is_ascii_lowercase (hd raw) \<and>
            list_all (\<lambda>b. is_ascii_lowercase b \<or> is_ascii_digit b \<or> b = CHR ''_'') raw
      in if \<not> shaped
         then Inl (Validation (''scope id must match [a-z][a-z0-9_]{0,31}: '' @ debug_str raw))
         else Inr (ScopeId raw))"

definition scope_main :: scope_id where
  "scope_main = ScopeId MAIN"

definition scope_is_main :: "scope_id \<Rightarrow> bool" where
  "scope_is_main s \<longleftrightarrow> scope_id_str s = MAIN"

definition scope_id_ok :: "scope_id \<Rightarrow> bool" where
  "scope_id_ok s \<longleftrightarrow> is_ok (scope_id_parse (scope_id_str s))"

section \<open>Labels of scope accounts\<close>

datatype scope_label = ScopeAccountLabel (scope_label_str: string)

definition scope_label_parse :: "string \<Rightarrow> scope_label result" where
  "scope_label_parse raw =
     (let shaped = raw \<noteq> [] \<and> length raw \<le> 64 \<and>
            list_all (\<lambda>b. is_ascii_lowercase b \<or> is_ascii_digit b \<or> b \<in> set ''_:.-'') raw
      in if \<not> shaped
         then Inl (Validation (''scope account label must match [a-z0-9_:.-]{1,64}: '' @ debug_str raw))
         else Inr (ScopeAccountLabel raw))"

definition label_treasury :: scope_label where
  "label_treasury = ScopeAccountLabel ''treasury''"

definition label_fee :: scope_label where
  "label_fee = ScopeAccountLabel ''fee''"

definition label_fee_allocation :: scope_label where
  "label_fee_allocation = ScopeAccountLabel ''alloc:fee''"

definition label_is_reserved :: "scope_label \<Rightarrow> bool" where
  "label_is_reserved l \<longleftrightarrow> scope_label_str l = ''fee'' \<or> scope_label_str l = ''treasury''"

definition scope_label_ok :: "scope_label \<Rightarrow> bool" where
  "scope_label_ok l \<longleftrightarrow> is_ok (scope_label_parse (scope_label_str l))"

section \<open>What the parsers accept\<close>

lemma scope_id_parse_Inr [simp]: "scope_id_parse raw = Inr s \<longleftrightarrow> scope_id_ok s \<and> scope_id_str s = raw"
  by (cases s) (auto simp: scope_id_parse_def scope_id_ok_def Let_def)

lemma scope_label_parse_Inr [simp]:
  "scope_label_parse raw = Inr l \<longleftrightarrow> scope_label_ok l \<and> scope_label_str l = raw"
  by (cases l) (auto simp: scope_label_parse_def scope_label_ok_def Let_def)

lemma scope_id_parse_ok [simp]: "scope_id_ok s \<Longrightarrow> scope_id_parse (scope_id_str s) = Inr s"
  by simp

lemma scope_label_parse_ok [simp]: "scope_label_ok l \<Longrightarrow> scope_label_parse (scope_label_str l) = Inr l"
  by simp

lemma scope_id_no_colon: "scope_id_ok s \<Longrightarrow> CHR '':'' \<notin> set (scope_id_str s)"
  by (auto simp: scope_id_ok_def scope_id_parse_def Let_def list_all_iff is_ascii_lowercase_def
      is_ascii_digit_def byte_def split: if_splits)

lemma scope_constants_ok [simp]:
  "scope_id_ok scope_main" "scope_label_ok label_treasury" "scope_label_ok label_fee"
  "scope_label_ok label_fee_allocation"
  by (simp_all add: scope_id_ok_def scope_label_ok_def scope_id_parse_def scope_label_parse_def
      scope_main_def MAIN_def label_treasury_def label_fee_def label_fee_allocation_def
      is_ascii_lowercase_def is_ascii_digit_def byte_def)

lemma scope_is_main_iff [simp]: "scope_is_main s \<longleftrightarrow> s = scope_main"
  by (cases s) (auto simp: scope_is_main_def scope_main_def)

lemma label_is_reserved_iff: "label_is_reserved l \<longleftrightarrow> l = label_fee \<or> l = label_treasury"
  by (cases l) (auto simp: label_is_reserved_def label_fee_def label_treasury_def)

end
