(* ===== verification/Balance.thy ===== *)
theory Balance
  imports Money ScopeIds
begin

text \<open>
  The chart of accounts (\<^verbatim>\<open>domain/src/balance.rs\<close>): services, parties, fee payees, the
  accounts' ledgers, codes and normal sides, and the stable text key of each account.  User ids
  are UUIDs; how the \<^verbatim>\<open>uuid\<close> crate prints and reads one is an argument (\<open>show_uuid\<close>,
  \<open>parse_uuid\<close>) of the operations that use it, and the round trips ask of the pair what
  \<open>uuid_text\<close> states: a printed id is read back, and holds no colon.
\<close>

section \<open>Services\<close>

datatype service_id = ServiceId (service_id_str: string)

definition service_id_parse :: "string \<Rightarrow> service_id result" where
  "service_id_parse raw =
     (let value = trim raw in
      if value = [] \<or> 64 < length value then Inl (Validation ''service id must be 1..64 chars'')
      else if \<not> list_all (\<lambda>b. is_ascii_alphanumeric b \<or> b = CHR ''-'' \<or> b = CHR ''_'') value
      then Inl (Validation ''service id must be alphanumeric/-/_'')
      else Inr (ServiceId value))"

definition RESERVED_FEE :: string where
  "RESERVED_FEE = ''fee''"

definition RESERVED_FUND :: string where
  "RESERVED_FUND = ''fund''"

definition service_fee :: service_id where
  "service_fee = ServiceId RESERVED_FEE"

definition service_fund :: service_id where
  "service_fund = ServiceId RESERVED_FUND"

definition service_is_reserved :: "service_id \<Rightarrow> bool" where
  "service_is_reserved s \<longleftrightarrow> service_id_str s = RESERVED_FEE \<or> service_id_str s = RESERVED_FUND"

text \<open>A well-formed id is one the parser returns.\<close>

definition service_id_ok :: "service_id \<Rightarrow> bool" where
  "service_id_ok s \<longleftrightarrow> service_id_parse (service_id_str s) = Inr s"

section \<open>Ledgers, codes, sides\<close>

datatype ledger = Usdt_Ledger | UsdMock | Share

fun ledger_id :: "ledger \<Rightarrow> u32" where
  "ledger_id Usdt_Ledger = 1"
| "ledger_id UsdMock = 2"
| "ledger_id Share = 3"

datatype account_code =
    RetiredFundClaim | CryptoWalletCode | BankCustodyCode | UserClaimCode | ServiceClaimCode
  | RetiredFeeClaim | WithdrawalClearingCode | UserSharesCode | SharesOutstandingCode
  | FeeSharesCode | RetiredCompanyStake | BookSharesCode | BookCashCode | ScopeClaimCode
  | ScopeAccountCode | HoldClearingCode

fun account_code_num :: "account_code \<Rightarrow> u16" where
  "account_code_num RetiredFundClaim = 1"
| "account_code_num CryptoWalletCode = 10"
| "account_code_num BankCustodyCode = 11"
| "account_code_num UserClaimCode = 20"
| "account_code_num ScopeClaimCode = 21"
| "account_code_num ServiceClaimCode = 30"
| "account_code_num ScopeAccountCode = 31"
| "account_code_num RetiredFeeClaim = 40"
| "account_code_num WithdrawalClearingCode = 50"
| "account_code_num HoldClearingCode = 51"
| "account_code_num UserSharesCode = 60"
| "account_code_num SharesOutstandingCode = 61"
| "account_code_num FeeSharesCode = 62"
| "account_code_num RetiredCompanyStake = 63"
| "account_code_num BookSharesCode = 64"
| "account_code_num BookCashCode = 65"

definition account_code_from :: "u16 \<Rightarrow> account_code option" where
  "account_code_from code =
     (if code = 1 then Some RetiredFundClaim
      else if code = 10 then Some CryptoWalletCode
      else if code = 11 then Some BankCustodyCode
      else if code = 20 then Some UserClaimCode
      else if code = 21 then Some ScopeClaimCode
      else if code = 30 then Some ServiceClaimCode
      else if code = 31 then Some ScopeAccountCode
      else if code = 40 then Some RetiredFeeClaim
      else if code = 50 then Some WithdrawalClearingCode
      else if code = 51 then Some HoldClearingCode
      else if code = 60 then Some UserSharesCode
      else if code = 61 then Some SharesOutstandingCode
      else if code = 62 then Some FeeSharesCode
      else if code = 63 then Some RetiredCompanyStake
      else if code = 64 then Some BookSharesCode
      else if code = 65 then Some BookCashCode
      else None)"

definition account_code_is_retired :: "account_code \<Rightarrow> bool" where
  "account_code_is_retired c \<longleftrightarrow> c \<in> {RetiredFundClaim, RetiredFeeClaim, RetiredCompanyStake}"

datatype normal = Debit_Normal | Credit_Normal

datatype transfer_code =
    Deposit | Withdraw | WithdrawFee | UserAllocate | UserRevoke | ServiceReserve | ServiceSettle
  | ServiceCancel | ServiceTransfer | Bridge | Subscribe | Redeem | ShareMint | ShareBurn
  | FeeClawback | FeeSettle | PaymentTransfer | UnitIssue | BookLock | BookRelease | BookFill
  | BookFee | UnitRetire | CompartmentMoveCode | ScopeTransfer | ScopeHold | ScopePayout
  | InvoicePayment | ScopeCharge | WindowMigration

definition TRANSFER_RETIRED :: "u16 list" where
  "TRANSFER_RETIRED = [1, 52, 54]"

fun transfer_code_num :: "transfer_code \<Rightarrow> u16" where
  "transfer_code_num Deposit = 2"
| "transfer_code_num Withdraw = 3"
| "transfer_code_num WithdrawFee = 4"
| "transfer_code_num UserAllocate = 10"
| "transfer_code_num UserRevoke = 11"
| "transfer_code_num ServiceReserve = 20"
| "transfer_code_num ServiceSettle = 21"
| "transfer_code_num ServiceCancel = 22"
| "transfer_code_num ServiceTransfer = 23"
| "transfer_code_num Bridge = 30"
| "transfer_code_num Subscribe = 40"
| "transfer_code_num Redeem = 41"
| "transfer_code_num ShareMint = 42"
| "transfer_code_num ShareBurn = 43"
| "transfer_code_num FeeClawback = 44"
| "transfer_code_num FeeSettle = 45"
| "transfer_code_num PaymentTransfer = 46"
| "transfer_code_num UnitIssue = 47"
| "transfer_code_num BookLock = 48"
| "transfer_code_num BookRelease = 49"
| "transfer_code_num BookFill = 50"
| "transfer_code_num BookFee = 51"
| "transfer_code_num UnitRetire = 53"
| "transfer_code_num CompartmentMoveCode = 55"
| "transfer_code_num ScopeTransfer = 56"
| "transfer_code_num ScopeHold = 57"
| "transfer_code_num ScopePayout = 59"
| "transfer_code_num InvoicePayment = 58"
| "transfer_code_num ScopeCharge = 60"
| "transfer_code_num WindowMigration = 61"

section \<open>Accounts\<close>

datatype account_key =
    CryptoWallet network
  | UserClaim uuid
  | ServiceClaim service_id
  | WithdrawalClearing
  | BankCustody
  | UserShares service_id uuid
  | SharesOutstanding service_id
  | FeeShares service_id
  | BookShares service_id uuid
  | BookCash uuid
  | ScopeClaim uuid scope_id
  | ScopeAccount scope_id scope_label
  | HoldClearing

fun logical_key :: "(uuid \<Rightarrow> string) \<Rightarrow> account_key \<Rightarrow> string" where
  "logical_key show_uuid (CryptoWallet net) = ''wallet:'' @ network_str net"
| "logical_key show_uuid (UserClaim user) = ''user:'' @ show_uuid user"
| "logical_key show_uuid (ServiceClaim service) = ''service:'' @ service_id_str service"
| "logical_key show_uuid WithdrawalClearing = ''clearing''"
| "logical_key show_uuid BankCustody = ''bank''"
| "logical_key show_uuid (UserShares service user) =
     ''shares:'' @ service_id_str service @ '':'' @ show_uuid user"
| "logical_key show_uuid (SharesOutstanding service) = ''shares_outstanding:'' @ service_id_str service"
| "logical_key show_uuid (FeeShares service) = ''shares_fee:'' @ service_id_str service"
| "logical_key show_uuid (BookShares service user) =
     ''book_shares:'' @ service_id_str service @ '':'' @ show_uuid user"
| "logical_key show_uuid (BookCash user) = ''book_cash:'' @ show_uuid user"
| "logical_key show_uuid (ScopeClaim user scope) =
     ''scope_claim:'' @ scope_id_str scope @ '':'' @ show_uuid user"
| "logical_key show_uuid (ScopeAccount scope label) =
     ''scope_account:'' @ scope_id_str scope @ '':'' @ scope_label_str label"
| "logical_key show_uuid HoldClearing = ''hold_clearing''"

fun key_ledger :: "account_key \<Rightarrow> ledger" where
  "key_ledger BankCustody = UsdMock"
| "key_ledger (UserShares _ _) = Share"
| "key_ledger (SharesOutstanding _) = Share"
| "key_ledger (FeeShares _) = Share"
| "key_ledger (BookShares _ _) = Share"
| "key_ledger _ = Usdt_Ledger"

fun key_account_code :: "account_key \<Rightarrow> account_code" where
  "key_account_code (CryptoWallet _) = CryptoWalletCode"
| "key_account_code BankCustody = BankCustodyCode"
| "key_account_code (UserClaim _) = UserClaimCode"
| "key_account_code (ServiceClaim _) = ServiceClaimCode"
| "key_account_code WithdrawalClearing = WithdrawalClearingCode"
| "key_account_code (UserShares _ _) = UserSharesCode"
| "key_account_code (SharesOutstanding _) = SharesOutstandingCode"
| "key_account_code (FeeShares _) = FeeSharesCode"
| "key_account_code (BookShares _ _) = BookSharesCode"
| "key_account_code (BookCash _) = BookCashCode"
| "key_account_code (ScopeClaim _ _) = ScopeClaimCode"
| "key_account_code (ScopeAccount _ _) = ScopeAccountCode"
| "key_account_code HoldClearing = HoldClearingCode"

fun key_normal :: "account_key \<Rightarrow> normal" where
  "key_normal (CryptoWallet _) = Debit_Normal"
| "key_normal BankCustody = Debit_Normal"
| "key_normal (UserShares _ _) = Debit_Normal"
| "key_normal (FeeShares _) = Debit_Normal"
| "key_normal (BookShares _ _) = Debit_Normal"
| "key_normal (UserClaim _) = Credit_Normal"
| "key_normal (ServiceClaim _) = Credit_Normal"
| "key_normal WithdrawalClearing = Credit_Normal"
| "key_normal (SharesOutstanding _) = Credit_Normal"
| "key_normal (BookCash _) = Credit_Normal"
| "key_normal (ScopeClaim _ _) = Credit_Normal"
| "key_normal (ScopeAccount _ _) = Credit_Normal"
| "key_normal HoldClearing = Credit_Normal"

fun key_network :: "account_key \<Rightarrow> network option" where
  "key_network (CryptoWallet net) = Some net"
| "key_network _ = None"

text \<open>Reading a key back (\<^verbatim>\<open>parse_logical_key\<close> and its two helpers).\<close>

definition key_user_id :: "(string \<Rightarrow> uuid option) \<Rightarrow> string \<Rightarrow> uuid result" where
  "key_user_id parse_uuid raw =
     ok_or (parse_uuid raw) (Validation (''invalid user id in logical key: '' @ raw))"

definition service_and_user :: "(string \<Rightarrow> uuid option) \<Rightarrow> string \<Rightarrow> (service_id \<times> uuid) result" where
  "service_and_user parse_uuid rest =
     rbind (ok_or (split_once CHR '':'' rest) (Validation (''malformed holding key: '' @ rest))) (\<lambda>(service, user).
     rbind (service_id_parse service) (\<lambda>s.
     rbind (key_user_id parse_uuid user) (\<lambda>u. Inr (s, u))))"

definition parse_prefixed :: "(string \<Rightarrow> uuid option) \<Rightarrow> string \<Rightarrow> string \<Rightarrow> string \<Rightarrow> account_key result" where
  "parse_prefixed parse_uuid raw head rest =
     (if head = ''wallet'' then rmap CryptoWallet (network_parse rest)
      else if head = ''user'' then rmap UserClaim (key_user_id parse_uuid rest)
      else if head = ''service'' then rmap ServiceClaim (service_id_parse rest)
      else if head = ''shares'' then rmap (\<lambda>(s, u). UserShares s u) (service_and_user parse_uuid rest)
      else if head = ''shares_outstanding'' then rmap SharesOutstanding (service_id_parse rest)
      else if head = ''shares_fee'' then rmap FeeShares (service_id_parse rest)
      else if head = ''book_shares'' then rmap (\<lambda>(s, u). BookShares s u) (service_and_user parse_uuid rest)
      else if head = ''book_cash'' then rmap BookCash (key_user_id parse_uuid rest)
      else if head = ''scope_claim'' then
        rbind (ok_or (split_once CHR '':'' rest) (Validation (''malformed scope claim key: '' @ raw))) (\<lambda>(scope, user).
        rbind (scope_id_parse scope) (\<lambda>scope.
        if scope_is_main scope then Inl (Validation (''main has no scope claim: '' @ raw))
        else rbind (key_user_id parse_uuid user) (\<lambda>u. Inr (ScopeClaim u scope))))
      else if head = ''scope_account'' then
        rbind (ok_or (split_once CHR '':'' rest) (Validation (''malformed scope account key: '' @ raw))) (\<lambda>(scope, label).
        rbind (scope_id_parse scope) (\<lambda>scope.
        rbind (scope_label_parse label) (\<lambda>label. Inr (ScopeAccount scope label))))
      else Inl (Validation (''unknown logical key: '' @ raw)))"

definition parse_logical_key :: "(string \<Rightarrow> uuid option) \<Rightarrow> string \<Rightarrow> account_key result" where
  "parse_logical_key parse_uuid raw =
     (if raw = ''clearing'' then Inr WithdrawalClearing
      else if raw = ''hold_clearing'' then Inr HoldClearing
      else if raw = ''bank'' then Inr BankCustody
      else
        rbind (ok_or (split_once CHR '':'' raw) (Validation (''unknown logical key: '' @ raw)))
          (\<lambda>(head, rest). parse_prefixed parse_uuid raw head rest))"

section \<open>Parties and payees\<close>

datatype party = User_Party uuid | Service_Party service_id | Treasury

definition TREASURY_ID :: string where
  "TREASURY_ID = ''main:treasury''"

fun party_kind_str :: "party \<Rightarrow> string" where
  "party_kind_str (User_Party _) = ''user''"
| "party_kind_str (Service_Party _) = ''service''"
| "party_kind_str Treasury = ''treasury''"

fun party_id_str :: "(uuid \<Rightarrow> string) \<Rightarrow> party \<Rightarrow> string" where
  "party_id_str show_uuid (User_Party user) = show_uuid user"
| "party_id_str show_uuid (Service_Party service) = service_id_str service"
| "party_id_str show_uuid Treasury = TREASURY_ID"

definition party_from_parts ::
  "(string \<Rightarrow> uuid option) \<Rightarrow> string \<Rightarrow> string option \<Rightarrow> party result" where
  "party_from_parts parse_uuid kind ident =
     (case ident of
        Some raw \<Rightarrow>
          if kind = ''user'' then
            rmap User_Party (ok_or (parse_uuid raw) (Validation ''invalid user party id''))
          else if kind = ''service'' then rmap Service_Party (service_id_parse raw)
          else if kind = ''treasury'' \<and> raw = TREASURY_ID then Inr Treasury
          else Inl (Validation (''invalid party: '' @ kind))
      | None \<Rightarrow> Inl (Validation (''invalid party: '' @ kind)))"

datatype fee_payee = Service_Payee service_id | ScopeAccount_Payee scope_id scope_label

definition payee_treasury :: fee_payee where
  "payee_treasury = ScopeAccount_Payee scope_main label_treasury"

fun payee_claim_key :: "fee_payee \<Rightarrow> account_key" where
  "payee_claim_key (Service_Payee service) = ServiceClaim service"
| "payee_claim_key (ScopeAccount_Payee scope label) = ScopeAccount scope label"

definition party_fee_payee :: party where
  "party_fee_payee = Service_Party service_fee"

fun party_claim_key :: "party \<Rightarrow> account_key" where
  "party_claim_key (User_Party user) = UserClaim user"
| "party_claim_key (Service_Party service) = ServiceClaim service"
| "party_claim_key Treasury = payee_claim_key payee_treasury"

datatype ledger_event = Deposited party network usdt

section \<open>Well-formed names\<close>

lemma service_id_parse_Inr:
  "service_id_parse raw = Inr s \<longleftrightarrow> service_id_ok s \<and> service_id_str s = trim raw"
  by (cases s) (auto simp: service_id_ok_def service_id_parse_def Let_def)

lemma service_id_parse_ok [simp]: "service_id_ok s \<Longrightarrow> service_id_parse (service_id_str s) = Inr s"
  by (simp add: service_id_ok_def)

lemma service_id_no_colon: "service_id_ok s \<Longrightarrow> CHR '':'' \<notin> set (service_id_str s)"
  by (cases s)
    (auto simp: service_id_ok_def service_id_parse_def Let_def list_all_iff is_ascii_alphanumeric_def
      is_ascii_alphabetic_def is_ascii_digit_def byte_def split: if_splits)

lemma reserved_services [simp]: "service_id_ok service_fee" "service_id_ok service_fund"
proof -
  have "trim ''fee'' = ''fee''" "trim ''fund'' = ''fund''"
    by (rule trim_graphic, simp add: graphic_def byte_def)+
  then show "service_id_ok service_fee" "service_id_ok service_fund"
    by (simp_all add: service_id_ok_def service_id_parse_def service_fee_def service_fund_def
        RESERVED_FEE_def RESERVED_FUND_def is_ascii_alphanumeric_def is_ascii_alphabetic_def byte_def)
qed

lemma service_is_reserved_iff: "service_is_reserved s \<longleftrightarrow> s = service_fee \<or> s = service_fund"
  by (cases s) (auto simp: service_is_reserved_def service_fee_def service_fund_def)

text \<open>What the model asks of the \<^verbatim>\<open>uuid\<close> crate's text form.\<close>

definition uuid_text :: "(uuid \<Rightarrow> string) \<Rightarrow> (string \<Rightarrow> uuid option) \<Rightarrow> bool" where
  "uuid_text show_uuid parse_uuid \<longleftrightarrow>
     (\<forall>u. parse_uuid (show_uuid u) = Some u \<and> CHR '':'' \<notin> set (show_uuid u))"

lemma uuid_textD:
  assumes "uuid_text sh ps"
  shows "ps (sh u) = Some u" "CHR '':'' \<notin> set (sh u)"
  using assms by (auto simp: uuid_text_def)

lemma uuid_text_decimal: "uuid_text show_u128 parse_u128"
proof -
  have "CHR '':'' \<notin> set (show_u128 u)" for u
    using digits_show_nat [of "unat u"]
    by (auto simp: show_u128_def list_all_iff is_ascii_digit_def byte_def)
  then show ?thesis by (simp add: uuid_text_def)
qed

fun key_ok :: "account_key \<Rightarrow> bool" where
  "key_ok (ServiceClaim service) = service_id_ok service"
| "key_ok (UserShares service _) = service_id_ok service"
| "key_ok (SharesOutstanding service) = service_id_ok service"
| "key_ok (FeeShares service) = service_id_ok service"
| "key_ok (BookShares service _) = service_id_ok service"
| "key_ok (ScopeClaim _ scope) = (scope_id_ok scope \<and> scope \<noteq> scope_main)"
| "key_ok (ScopeAccount scope label) = (scope_id_ok scope \<and> scope_label_ok label)"
| "key_ok _ = True"

fun party_ok :: "party \<Rightarrow> bool" where
  "party_ok (Service_Party service) = service_id_ok service"
| "party_ok _ = True"

section \<open>Reading keys back\<close>

lemma service_and_user_render:
  assumes "uuid_text sh ps" "service_id_ok s"
  shows "service_and_user ps (service_id_str s @ CHR '':'' # sh u) = Inr (s, u)"
  using assms
  by (simp add: service_and_user_def split_once_append service_id_no_colon key_user_id_def uuid_textD)

lemma service_and_user_Inr:
  "service_and_user ps rest = Inr (s, u) \<Longrightarrow> service_id_ok s"
  by (auto simp: service_and_user_def result_iffs service_id_parse_Inr)

lemma parse_logical_key_render:
  assumes "uuid_text sh ps" "key_ok k"
  shows "parse_logical_key ps (logical_key sh k) = Inr k"
  using assms
  by (cases k)
    (simp_all add: parse_logical_key_def parse_prefixed_def service_and_user_render key_user_id_def uuid_textD
      split_once_append scope_id_no_colon)

lemma parse_scope_claim_ok:
  "(if x = scope_main then Inl e else rbind n (\<lambda>u. Inr (ScopeClaim u x))) = Inr k
    \<Longrightarrow> scope_id_ok x \<Longrightarrow> key_ok k"
  by (auto simp: result_iffs split: if_splits)

lemma parse_prefixed_ok: "parse_prefixed ps raw head rest = Inr k \<Longrightarrow> key_ok k"
  unfolding parse_prefixed_def
  by (elim if_InrE rbind_InrE)
    (auto simp: result_iffs service_id_parse_Inr dest: service_and_user_Inr parse_scope_claim_ok)

lemma parse_logical_key_ok: "parse_logical_key ps raw = Inr k \<Longrightarrow> key_ok k"
  unfolding parse_logical_key_def
  by (elim if_InrE rbind_InrE) (auto dest: parse_prefixed_ok)

lemma logical_key_inj:
  assumes "uuid_text sh ps" "key_ok k" "key_ok k'" and eq: "logical_key sh k = logical_key sh k'"
  shows "k = k'"
proof -
  have "parse_logical_key ps (logical_key sh k) = Inr k'"
    unfolding eq by (rule parse_logical_key_render [OF assms(1,3)])
  then show ?thesis by (simp only: parse_logical_key_render [OF assms(1,2)] sum.inject)
qed

lemma party_from_parts_render:
  assumes "uuid_text sh ps" "party_ok p"
  shows "party_from_parts ps (party_kind_str p) (Some (party_id_str sh p)) = Inr p"
  using assms by (cases p) (simp_all add: party_from_parts_def uuid_textD)

lemma party_claim_key_ok: "party_ok p \<Longrightarrow> key_ok (party_claim_key p)"
  by (cases p) (simp_all add: payee_treasury_def)

section \<open>Codes\<close>

lemma account_code_from_num [simp]: "account_code_from (account_code_num c) = Some c"
  by (cases c) (simp_all add: account_code_from_def)

lemma account_code_from_Some: "account_code_from n = Some c \<longleftrightarrow> n = account_code_num c"
proof
  show "account_code_from n = Some c \<Longrightarrow> n = account_code_num c"
    by (auto simp: account_code_from_def split: if_splits)
qed simp

lemma account_code_num_inject [simp]: "account_code_num c = account_code_num d \<longleftrightarrow> c = d"
  by (metis account_code_from_num option.inject)

lemma key_account_code_live [simp]: "\<not> account_code_is_retired (key_account_code k)"
  by (cases k) (simp_all add: account_code_is_retired_def)

lemma transfer_code_num_inject [simp]: "transfer_code_num c = transfer_code_num d \<longleftrightarrow> c = d"
  by (cases c; cases d) simp_all

lemma transfer_code_live [simp]: "transfer_code_num c \<notin> set TRANSFER_RETIRED"
  by (cases c) (simp_all add: TRANSFER_RETIRED_def)

text \<open>A claim a party is paid into or out of lies on the USDT ledger and is credit-normal.\<close>

lemma party_claim_key_cash:
  "key_ledger (party_claim_key p) = Usdt_Ledger" "key_normal (party_claim_key p) = Credit_Normal"
  by (cases p; simp add: payee_treasury_def)+

lemma payee_claim_key_cash:
  "key_ledger (payee_claim_key p) = Usdt_Ledger" "key_normal (payee_claim_key p) = Credit_Normal"
  by (cases p; simp)+

section \<open>The properties\<close>

text \<open>
  The text key of a ledger account names one account: reading back what was printed gives the
  account, two well-formed accounts with one text are the same account, and whatever text is
  accepted names a well-formed account.
\<close>
theorem account_keys_unique:
  assumes "uuid_text show_uuid parse_uuid" "key_ok k" "key_ok k'"
  shows "parse_logical_key parse_uuid (logical_key show_uuid k) = Inr k \<and>
    (logical_key show_uuid k = logical_key show_uuid k' \<longleftrightarrow> k = k') \<and>
    (parse_logical_key parse_uuid raw = Inr k'' \<longrightarrow> key_ok k'')"
  using parse_logical_key_render [OF assms(1,2)] logical_key_inj [OF assms] parse_logical_key_ok by blast

theorem account_keys_unique_witness:
  "parse_logical_key parse_u128 (logical_key show_u128 (ScopeClaim 7 (ScopeId ''acme''))) =
     Inr (ScopeClaim 7 (ScopeId ''acme'')) \<and>
   logical_key show_u128 (UserClaim 7) \<noteq> logical_key show_u128 (BookCash 7)"
proof -
  have "key_ok (ScopeClaim 7 (ScopeId ''acme''))"
    by (simp add: scope_main_def MAIN_def scope_id_ok_def scope_id_parse_def is_ascii_lowercase_def byte_def)
  then show ?thesis
    using account_keys_unique [OF uuid_text_decimal, of "ScopeClaim 7 (ScopeId ''acme'')" "UserClaim 7"]
      account_keys_unique [OF uuid_text_decimal, of "UserClaim 7" "BookCash 7"] by simp
qed

text \<open>
  Stored account and transfer codes are unambiguous: an account code is read back as itself and
  nothing else reads as it, no two transfer kinds share a number, and a live account or transfer is
  never given a retired number.
\<close>
theorem codes_unambiguous:
  "(account_code_from n = Some c \<longleftrightarrow> n = account_code_num c) \<and>
   (transfer_code_num s = transfer_code_num t \<longleftrightarrow> s = t) \<and>
   \<not> account_code_is_retired (key_account_code k) \<and> transfer_code_num t \<notin> set TRANSFER_RETIRED"
  by (simp add: account_code_from_Some)

end
