(* ===== verification/Canonical.thy ===== *)
theory Canonical
  imports Codec
begin

text \<open>
  The canonical encodings the payload hashes are taken over (\<^verbatim>\<open>push_field\<close> and
  \<^verbatim>\<open>hex32\<close> of \<^verbatim>\<open>domain/src/lib.rs\<close>, and Rust's \<^verbatim>\<open>to_be_bytes\<close>).  What a hashed
  subject relies on is that no two distinct values have the same bytes.  The locale
  \<open>prefix_code\<close> states the law that composes (equal encodings followed by anything
  are encodings of equal values followed by the same), and each building block is an
  interpretation of it, so that a subject's injectivity is read off field by field.
\<close>

section \<open>Big-endian bytes\<close>

fun be_bytes :: "nat \<Rightarrow> nat \<Rightarrow> string" where
  "be_bytes 0 x = []"
| "be_bytes (Suc n) x = be_bytes n (x div 256) @ [char_of (x mod 256)]"

definition u32_to_be_bytes :: "u32 \<Rightarrow> string" where
  "u32_to_be_bytes x = be_bytes 4 (unat x)"

definition u64_to_be_bytes :: "u64 \<Rightarrow> string" where
  "u64_to_be_bytes x = be_bytes 8 (unat x)"

definition u128_to_be_bytes :: "u128 \<Rightarrow> string" where
  "u128_to_be_bytes x = be_bytes 16 (unat x)"

definition push_field :: "string \<Rightarrow> string \<Rightarrow> string" where
  "push_field out bytes = out @ u64_to_be_bytes (word_of_nat (length bytes)) @ bytes"

definition hex32 :: "string \<Rightarrow> string" where
  "hex32 bytes = concat (map (\<lambda>b. [hex_char (byte b div 16), hex_char (byte b mod 16)]) bytes)"

lemma length_be_bytes [simp]: "length (be_bytes n x) = n"
  by (induction n arbitrary: x) auto

lemma be_bytes_inject: "be_bytes n x = be_bytes n y \<Longrightarrow> x < 256 ^ n \<Longrightarrow> y < 256 ^ n \<Longrightarrow> x = y"
proof (induction n arbitrary: x y)
  case 0
  then show ?case by simp
next
  case (Suc n)
  from Suc.prems(1) have "be_bytes n (x div 256) = be_bytes n (y div 256)"
    and last: "(char_of (x mod 256) :: char) = char_of (y mod 256)"
    by (simp_all only: be_bytes.simps append1_eq_conv)
  from arg_cong [OF last, of "of_char :: char \<Rightarrow> nat"] have "x mod 256 = y mod 256"
    by simp
  note this \<open>be_bytes n (x div 256) = be_bytes n (y div 256)\<close>
  moreover have "x div 256 < 256 ^ n" "y div 256 < 256 ^ n"
    using Suc.prems by (simp_all add: less_mult_imp_div_less mult.commute)
  ultimately show ?case using Suc.IH by (metis div_mult_mod_eq)
qed

section \<open>Encodings that concatenate\<close>

locale prefix_code =
  fixes enc :: "'a \<Rightarrow> string"
    and ok :: "'a \<Rightarrow> bool"
  assumes prefix_free: "ok x \<Longrightarrow> ok y \<Longrightarrow> enc x @ r = enc y @ s \<Longrightarrow> x = y \<and> r = s"
begin

lemma cancel: "ok x \<Longrightarrow> ok y \<Longrightarrow> enc x @ r = enc y @ s \<longleftrightarrow> x = y \<and> r = s"
  using prefix_free [of x y r s] by auto

lemma inject: "ok x \<Longrightarrow> ok y \<Longrightarrow> enc x = enc y \<longleftrightarrow> x = y"
  using cancel [of x y "[]" "[]"] by simp

end

text \<open>A fixed-width injective encoding is one.\<close>

locale fixed_code =
  fixes enc :: "'a \<Rightarrow> string"
    and width :: nat
  assumes width: "length (enc x) = width"
    and enc_inj: "enc x = enc y \<Longrightarrow> x = y"

sublocale fixed_code \<subseteq> prefix_code enc "\<lambda>_. True"
proof
  fix x y r s
  assume "enc x @ r = enc y @ s"
  moreover have "length (enc x) = length (enc y)" by (simp add: width)
  ultimately show "x = y \<and> r = s" using enc_inj by simp
qed

interpretation u32_bytes: fixed_code u32_to_be_bytes 4
proof
  show "length (u32_to_be_bytes x) = 4" for x by (simp add: u32_to_be_bytes_def)
  show "u32_to_be_bytes x = u32_to_be_bytes y \<Longrightarrow> x = y" for x y
    using be_bytes_inject [of 4 "unat x" "unat y"] unsigned_less [of x] unsigned_less [of y]
    by (simp add: u32_to_be_bytes_def word_unat_eq_iff del: unsigned_less)
qed

interpretation u64_bytes: fixed_code u64_to_be_bytes 8
proof
  show "length (u64_to_be_bytes x) = 8" for x by (simp add: u64_to_be_bytes_def)
  show "u64_to_be_bytes x = u64_to_be_bytes y \<Longrightarrow> x = y" for x y
    using be_bytes_inject [of 8 "unat x" "unat y"] unsigned_less [of x] unsigned_less [of y]
    by (simp add: u64_to_be_bytes_def word_unat_eq_iff del: unsigned_less)
qed

interpretation u128_bytes: fixed_code u128_to_be_bytes 16
proof
  show "length (u128_to_be_bytes x) = 16" for x by (simp add: u128_to_be_bytes_def)
  show "u128_to_be_bytes x = u128_to_be_bytes y \<Longrightarrow> x = y" for x y
    using be_bytes_inject [of 16 "unat x" "unat y"] unat_lt128 [of x] unat_lt128 [of y]
    by (simp add: u128_to_be_bytes_def word_unat_eq_iff)
qed

section \<open>Length-prefixed fields\<close>

text \<open>A byte slice is shorter than the address space, so its length survives the cast to 64 bits.\<close>

definition fits_usize :: "string \<Rightarrow> bool" where
  "fits_usize s \<longleftrightarrow> length s < 2 ^ 64"

lemma push_field_append: "push_field out bytes = out @ push_field [] bytes"
  by (simp add: push_field_def)

interpretation field: prefix_code "push_field []" fits_usize
proof
  fix x y r s :: string
  assume ok: "fits_usize x" "fits_usize y" and eq: "push_field [] x @ r = push_field [] y @ s"
  then have "(word_of_nat (length x) :: u64) = word_of_nat (length y)" and rest: "x @ r = y @ s"
    by (simp_all add: push_field_def u64_bytes.cancel)
  moreover have "unat (word_of_nat (length z) :: u64) = length z" if "fits_usize z" for z
    using that by (intro unat_of_nat_fits) (simp add: fits_usize_def)
  ultimately have "length x = length y" using ok by metis
  with rest show "x = y \<and> r = s" by simp
qed

end
