(* ===== verification/FeeTerms.thy ===== *)
theory FeeTerms
  imports Balance Canonical
begin

text \<open>
  The terms of a product's fee and who may change them (the first half of
  \<^verbatim>\<open>domain/src/fees.rs\<close>): the policy and its ceilings, the house envelope, the rule
  that sends a change to the owners' consilium, the notice holders get, the states of a
  change and the bytes the owners sign.
\<close>

section \<open>Rates and periods\<close>

definition BPS :: u128 where
  "BPS = 10000"

definition SECONDS_PER_YEAR :: u128 where
  "SECONDS_PER_YEAR = 365 * 24 * 60 * 60"

definition HOUSE_MANAGEMENT_BPS :: u32 where
  "HOUSE_MANAGEMENT_BPS = 200"

definition HOUSE_PERFORMANCE_BPS :: u32 where
  "HOUSE_PERFORMANCE_BPS = 2000"

definition MAX_MANAGEMENT_BPS :: u32 where
  "MAX_MANAGEMENT_BPS = 500"

definition MAX_PERFORMANCE_BPS :: u32 where
  "MAX_PERFORMANCE_BPS = 5000"

definition MIN_NOTICE_SECS :: i64 where
  "MIN_NOTICE_SECS = 24 * 60 * 60"

datatype management_basis = InvestedCapital | MarketValue

fun management_basis_str :: "management_basis \<Rightarrow> string" where
  "management_basis_str InvestedCapital = ''invested_capital''"
| "management_basis_str MarketValue = ''market_value''"

definition management_basis_parse :: "string \<Rightarrow> management_basis result" where
  "management_basis_parse raw =
     (if raw = ''invested_capital'' then Inr InvestedCapital
      else if raw = ''market_value'' then Inr MarketValue
      else Inl (Validation (''unknown management basis: '' @ raw)))"

datatype crystallization_period = Monthly | Quarterly | SemiAnnual | Annual

fun period_seconds :: "crystallization_period \<Rightarrow> u128" where
  "period_seconds Monthly = SECONDS_PER_YEAR div 12"
| "period_seconds Quarterly = SECONDS_PER_YEAR div 4"
| "period_seconds SemiAnnual = SECONDS_PER_YEAR div 2"
| "period_seconds Annual = SECONDS_PER_YEAR"

fun period_str :: "crystallization_period \<Rightarrow> string" where
  "period_str Monthly = ''monthly''"
| "period_str Quarterly = ''quarterly''"
| "period_str SemiAnnual = ''semi_annual''"
| "period_str Annual = ''annual''"

definition period_parse :: "string \<Rightarrow> crystallization_period result" where
  "period_parse raw =
     (if raw = ''monthly'' then Inr Monthly
      else if raw = ''quarterly'' then Inr Quarterly
      else if raw = ''semi_annual'' then Inr SemiAnnual
      else if raw = ''annual'' then Inr Annual
      else Inl (Validation (''unknown crystallization period: '' @ raw)))"

section \<open>The policy\<close>

record fee_policy =
  management_bps :: u32
  performance_bps :: u32
  hurdle_bps :: u32
  basis :: management_basis
  crystallization :: crystallization_period

definition HOUSE :: fee_policy where
  "HOUSE = \<lparr>management_bps = HOUSE_MANAGEMENT_BPS, performance_bps = HOUSE_PERFORMANCE_BPS,
     hurdle_bps = 0, basis = InvestedCapital, crystallization = Annual\<rparr>"

definition NONE :: fee_policy where
  "NONE = \<lparr>management_bps = 0, performance_bps = 0, hurdle_bps = 0,
     basis = InvestedCapital, crystallization = Annual\<rparr>"

definition show_u32 :: "u32 \<Rightarrow> string" where
  "show_u32 x = show_nat (unat x)"

definition policy_new ::
  "u32 \<Rightarrow> u32 \<Rightarrow> u32 \<Rightarrow> management_basis \<Rightarrow> crystallization_period \<Rightarrow> fee_policy result" where
  "policy_new management performance hurdle b c =
     (if MAX_MANAGEMENT_BPS < management
      then Inl (Validation (''management rate must be 0..='' @ show_u32 MAX_MANAGEMENT_BPS @ '' bps''))
      else if MAX_PERFORMANCE_BPS < performance
      then Inl (Validation (''performance rate must be 0..='' @ show_u32 MAX_PERFORMANCE_BPS @ '' bps''))
      else if BPS < ucast hurdle
      then Inl (Validation (''hurdle rate must be 0..='' @ show_u128 BPS @ '' bps''))
      else Inr \<lparr>management_bps = management, performance_bps = performance, hurdle_bps = hurdle,
                basis = b, crystallization = c\<rparr>)"

definition stored_rate_check :: "string \<Rightarrow> u32 \<Rightarrow> unit result" where
  "stored_rate_check label bps =
     guard (\<not> BPS < ucast bps)
       (Validation (''stored '' @ label @ '' rate exceeds 100%: '' @ show_u32 bps @ '' bps''))"

definition policy_from_stored ::
  "u32 \<Rightarrow> u32 \<Rightarrow> u32 \<Rightarrow> management_basis \<Rightarrow> crystallization_period \<Rightarrow> fee_policy result" where
  "policy_from_stored management performance hurdle b c =
     rbind (stored_rate_check ''management'' management) (\<lambda>_.
     rbind (stored_rate_check ''performance'' performance) (\<lambda>_.
     rbind (stored_rate_check ''hurdle'' hurdle) (\<lambda>_.
     Inr \<lparr>management_bps = management, performance_bps = performance, hurdle_bps = hurdle,
          basis = b, crystallization = c\<rparr>)))"

definition policy_is_zero :: "fee_policy \<Rightarrow> bool" where
  "policy_is_zero p \<longleftrightarrow> management_bps p = 0 \<and> performance_bps p = 0"

definition within_house_envelope :: "fee_policy \<Rightarrow> bool" where
  "within_house_envelope p \<longleftrightarrow>
     management_bps p \<le> HOUSE_MANAGEMENT_BPS \<and> performance_bps p \<le> HOUSE_PERFORMANCE_BPS \<and>
     basis p = InvestedCapital \<and> crystallization p = Annual"

definition tightens_from :: "fee_policy \<Rightarrow> fee_policy \<Rightarrow> bool" where
  "tightens_from p current \<longleftrightarrow>
     management_bps current < management_bps p \<or>
     performance_bps current < performance_bps p \<or>
     hurdle_bps p < hurdle_bps current \<or>
     (basis current = InvestedCapital \<and> basis p = MarketValue) \<or>
     period_seconds (crystallization p) < period_seconds (crystallization current)"

section \<open>Changing the terms\<close>

datatype change_requirement = Admin | OwnerConsilium

fun change_requirement_str :: "change_requirement \<Rightarrow> string" where
  "change_requirement_str Admin = ''admin''"
| "change_requirement_str OwnerConsilium = ''owner_consilium''"

definition change_requirement_parse :: "string \<Rightarrow> change_requirement result" where
  "change_requirement_parse raw =
     (if raw = ''admin'' then Inr Admin
      else if raw = ''owner_consilium'' then Inr OwnerConsilium
      else Inl (Validation (''unknown fee-policy change requirement: '' @ raw)))"

definition requirement_for :: "fee_policy option \<Rightarrow> fee_policy \<Rightarrow> change_requirement" where
  "requirement_for current new =
     (let current = (case current of None \<Rightarrow> NONE | Some p \<Rightarrow> p);
          hurdle_lowered = hurdle_bps new < hurdle_bps current
      in if hurdle_lowered \<or> (tightens_from new current \<and> \<not> within_house_envelope new)
         then OwnerConsilium else Admin)"

definition MAX_EFFECTIVE_FROM_HORIZON_SECS :: i64 where
  "MAX_EFFECTIVE_FROM_HORIZON_SECS = 366 * 24 * 60 * 60"

definition earliest_effective_from :: "i64 \<Rightarrow> i64 \<Rightarrow> bool \<Rightarrow> i64" where
  "earliest_effective_from scheduled_at requested_effective_from has_holders =
     (let earliest = (if has_holders then i64_saturating_add scheduled_at MIN_NOTICE_SECS else scheduled_at)
      in i64_max requested_effective_from earliest)"

definition MAX_REASON_BYTES :: nat where
  "MAX_REASON_BYTES = 500"

definition validate_reason :: "string \<Rightarrow> bool \<Rightarrow> unit result" where
  "validate_reason reason required =
     (if required \<and> trim reason = []
      then Inl (Validation ''a change that needs the owners' approval must state a reason'')
      else if MAX_REASON_BYTES < length reason
      then Inl (Validation (''reason exceeds '' @ show_nat MAX_REASON_BYTES @ '' bytes''))
      else if has_control reason then Inl (Validation ''reason may not contain control characters'')
      else Inr ())"

datatype change_state = AwaitingConsilium | Scheduled | Active | Superseded | Rejected | Cancelled

fun change_state_str :: "change_state \<Rightarrow> string" where
  "change_state_str AwaitingConsilium = ''awaiting_consilium''"
| "change_state_str Scheduled = ''scheduled''"
| "change_state_str Active = ''active''"
| "change_state_str Superseded = ''superseded''"
| "change_state_str Rejected = ''rejected''"
| "change_state_str Cancelled = ''cancelled''"

definition change_state_parse :: "string \<Rightarrow> change_state result" where
  "change_state_parse raw =
     (if raw = ''awaiting_consilium'' then Inr AwaitingConsilium
      else if raw = ''scheduled'' then Inr Scheduled
      else if raw = ''active'' then Inr Active
      else if raw = ''superseded'' then Inr Superseded
      else if raw = ''rejected'' then Inr Rejected
      else if raw = ''cancelled'' then Inr Cancelled
      else Inl (Validation (''unknown fee-policy change state: '' @ raw)))"

fun change_state_is_pending :: "change_state \<Rightarrow> bool" where
  "change_state_is_pending AwaitingConsilium = True"
| "change_state_is_pending Scheduled = True"
| "change_state_is_pending _ = False"

section \<open>What the owners sign\<close>

record fee_subject =
  fs_change_id :: uuid
  fs_service :: service_id
  fs_from :: "fee_policy option"
  fs_to :: fee_policy
  fs_reason :: string
  fs_effective_from :: i64

definition FEE_SUBJECT_DOMAIN :: string where
  "FEE_SUBJECT_DOMAIN = ''banking.v1.FeePolicySubject'' @ [CHR 0x00]"

definition push_policy :: "string \<Rightarrow> fee_policy option \<Rightarrow> string" where
  "push_policy out policy =
     (case policy of
        None \<Rightarrow> out @ [CHR 0x00]
      | Some p \<Rightarrow>
          (let out = out @ [CHR 0x01];
               out = out @ u32_to_be_bytes (management_bps p);
               out = out @ u32_to_be_bytes (performance_bps p);
               out = out @ u32_to_be_bytes (hurdle_bps p);
               out = push_field out (management_basis_str (basis p))
           in push_field out (period_str (crystallization p))))"

definition fee_subject_bytes :: "fee_subject \<Rightarrow> string" where
  "fee_subject_bytes s =
     (let out = FEE_SUBJECT_DOMAIN;
          out = push_field out (u128_to_be_bytes (fs_change_id s));
          out = push_field out (service_id_str (fs_service s));
          out = push_policy out (fs_from s);
          out = push_policy out (Some (fs_to s));
          out = push_field out (fs_reason s)
      in out @ u64_to_be_bytes (fs_effective_from s))"

section \<open>Stored names\<close>

interpretation management_basis_text: exact_codec management_basis_str management_basis_parse
proof
  show "management_basis_parse (management_basis_str x) = Inr x" for x
    by (cases x) (simp_all add: management_basis_parse_def)
  show "management_basis_parse s = Inr x \<Longrightarrow> management_basis_str x = s" for s x
    by (auto simp: management_basis_parse_def split: if_splits)
qed

interpretation period_text: exact_codec period_str period_parse
proof
  show "period_parse (period_str x) = Inr x" for x
    by (cases x) (simp_all add: period_parse_def)
  show "period_parse s = Inr x \<Longrightarrow> period_str x = s" for s x
    by (auto simp: period_parse_def split: if_splits)
qed

interpretation change_requirement_text: exact_codec change_requirement_str change_requirement_parse
proof
  show "change_requirement_parse (change_requirement_str x) = Inr x" for x
    by (cases x) (simp_all add: change_requirement_parse_def)
  show "change_requirement_parse s = Inr x \<Longrightarrow> change_requirement_str x = s" for s x
    by (auto simp: change_requirement_parse_def split: if_splits)
qed

interpretation change_state_text: exact_codec change_state_str change_state_parse
proof
  show "change_state_parse (change_state_str x) = Inr x" for x
    by (cases x) (simp_all add: change_state_parse_def)
  show "change_state_parse s = Inr x \<Longrightarrow> change_state_str x = s" for s x
    by (auto simp: change_state_parse_def split: if_splits)
qed

section \<open>Rates as numbers\<close>

lemma rate_vals [simp]:
  "unat BPS = 10000" "unat SECONDS_PER_YEAR = 31536000" "unat MAX_MANAGEMENT_BPS = 500"
  "unat MAX_PERFORMANCE_BPS = 5000" "unat HOUSE_MANAGEMENT_BPS = 200" "unat HOUSE_PERFORMANCE_BPS = 2000"
  "sint MIN_NOTICE_SECS = 86400"
  by (simp_all add: BPS_def SECONDS_PER_YEAR_def MAX_MANAGEMENT_BPS_def MAX_PERFORMANCE_BPS_def
      HOUSE_MANAGEMENT_BPS_def HOUSE_PERFORMANCE_BPS_def MIN_NOTICE_SECS_def)

lemma period_seconds_vals [simp]:
  "unat (period_seconds Monthly) = 2628000" "unat (period_seconds Quarterly) = 7884000"
  "unat (period_seconds SemiAnnual) = 15768000" "unat (period_seconds Annual) = 31536000"
  by (simp_all add: unat_div_distrib)

text \<open>Terms a policy can hold: the ceilings on the way in, one hundred percent once stored.\<close>

definition policy_ok :: "fee_policy \<Rightarrow> bool" where
  "policy_ok p \<longleftrightarrow> unat (management_bps p) \<le> 10000 \<and> unat (performance_bps p) \<le> 10000 \<and> unat (hurdle_bps p) \<le> 10000"

lemma policy_new_Inr:
  "policy_new m f h b c = Inr p \<longleftrightarrow>
     unat m \<le> 500 \<and> unat f \<le> 5000 \<and> unat h \<le> 10000 \<and>
     p = \<lparr>management_bps = m, performance_bps = f, hurdle_bps = h, basis = b, crystallization = c\<rparr>"
  by (auto simp: policy_new_def not_less word_le_nat_alt word_less_nat_alt)

lemma policy_from_stored_Inr:
  "policy_from_stored m f h b c = Inr p \<longleftrightarrow>
     unat m \<le> 10000 \<and> unat f \<le> 10000 \<and> unat h \<le> 10000 \<and>
     p = \<lparr>management_bps = m, performance_bps = f, hurdle_bps = h, basis = b, crystallization = c\<rparr>"
  by (auto simp: policy_from_stored_def stored_rate_check_def result_iffs not_less
      word_le_nat_alt word_less_nat_alt)

lemma policy_new_ok: "policy_new m f h b c = Inr p \<Longrightarrow> policy_ok p"
  by (simp add: policy_new_Inr policy_ok_def)

lemma policy_from_stored_ok: "policy_from_stored m f h b c = Inr p \<Longrightarrow> policy_ok p"
  by (simp add: policy_from_stored_Inr policy_ok_def)

section \<open>The signed bytes\<close>

definition policy_bytes :: "fee_policy option \<Rightarrow> string" where
  "policy_bytes policy = push_policy [] policy"

lemma push_policy_append: "push_policy out policy = out @ policy_bytes policy"
  by (cases policy) (simp_all add: policy_bytes_def push_policy_def Let_def push_field_append [of "_ @ _"]
      push_field_append [of "_ # _"])

lemma fits_names [simp]: "fits_usize (management_basis_str b)" "fits_usize (period_str c)"
  by (cases b; simp add: fits_usize_def) (cases c; simp add: fits_usize_def)

interpretation policy_code: prefix_code policy_bytes "\<lambda>_. True"
proof
  fix x y :: "fee_policy option" and r s :: string
  assume eq: "policy_bytes x @ r = policy_bytes y @ s"
  show "x = y \<and> r = s"
  proof (cases x; cases y)
    fix p q assume xy: "x = Some p" "y = Some q"
    have "management_bps p = management_bps q" "performance_bps p = performance_bps q"
      "hurdle_bps p = hurdle_bps q" "management_basis_str (basis p) = management_basis_str (basis q)"
      "period_str (crystallization p) = period_str (crystallization q)" "r = s"
      using eq unfolding xy policy_bytes_def push_policy_def Let_def option.case
        push_field_append [of "push_field _ _"] push_field_append [of "_ @ _"]
      by (simp_all add: u32_bytes.cancel field.cancel)
    with xy show ?thesis
      by (simp add: management_basis_text.show_inject period_text.show_inject fee_policy.equality)
  qed (use eq in \<open>simp_all add: policy_bytes_def push_policy_def Let_def push_field_def\<close>)
qed

text \<open>The service and the reason are byte slices; the rest has a fixed width.\<close>

definition subject_fits :: "fee_subject \<Rightarrow> bool" where
  "subject_fits s \<longleftrightarrow> fits_usize (service_id_str (fs_service s)) \<and> fits_usize (fs_reason s)"

lemma fee_subject_bytes_split:
  "fee_subject_bytes s = FEE_SUBJECT_DOMAIN @ push_field [] (u128_to_be_bytes (fs_change_id s)) @
     push_field [] (service_id_str (fs_service s)) @ policy_bytes (fs_from s) @
     policy_bytes (Some (fs_to s)) @ push_field [] (fs_reason s) @ u64_to_be_bytes (fs_effective_from s)"
  unfolding fee_subject_bytes_def Let_def
  by (subst (1 2 3) push_field_append) (simp only: push_policy_append append_assoc)

lemma fits_u128 [simp]: "fits_usize (u128_to_be_bytes x)"
  by (simp add: fits_usize_def u128_bytes.width)

lemma fee_subject_bytes_inj:
  assumes "subject_fits s" "subject_fits u" and "fee_subject_bytes s = fee_subject_bytes u"
  shows "fs_change_id s = fs_change_id u \<and> fs_service s = fs_service u \<and> fs_from s = fs_from u \<and>
    fs_to s = fs_to u \<and> fs_reason s = fs_reason u \<and> fs_effective_from s = fs_effective_from u"
  using assms
  by (simp add: fee_subject_bytes_split subject_fits_def field.cancel policy_code.cancel
      u64_bytes.inject u128_bytes.inject service_id.expand)

section \<open>Administrators alone\<close>

lemma period_le_annual: "period_seconds c \<le> SECONDS_PER_YEAR"
  by (cases c) (simp_all add: word_le_nat_alt unat_div_distrib)

text \<open>One change an administrator may schedule without the owners, and any number of them.\<close>

inductive admin_changes :: "fee_policy option \<Rightarrow> fee_policy option \<Rightarrow> bool" where
  none: "admin_changes p p"
| change: "admin_changes p q \<Longrightarrow> policy_new m f h b c = Inr new \<Longrightarrow> requirement_for q new = Admin
    \<Longrightarrow> admin_changes p (Some new)"

definition terms_of :: "fee_policy option \<Rightarrow> fee_policy" where
  "terms_of p = (case p of None \<Rightarrow> NONE | Some q \<Rightarrow> q)"

text \<open>No leg is dearer than it was or than the house rule has it.\<close>

definition no_dearer_than_house :: "fee_policy \<Rightarrow> fee_policy \<Rightarrow> bool" where
  "no_dearer_than_house old new \<longleftrightarrow>
     management_bps new \<le> max (management_bps old) HOUSE_MANAGEMENT_BPS \<and>
     performance_bps new \<le> max (performance_bps old) HOUSE_PERFORMANCE_BPS \<and>
     hurdle_bps old \<le> hurdle_bps new \<and>
     (basis new = MarketValue \<longrightarrow> basis old = MarketValue) \<and>
     period_seconds (crystallization old) \<le> period_seconds (crystallization new)"

lemma admin_change_step:
  assumes "requirement_for p new = Admin"
  shows "no_dearer_than_house (terms_of p) new"
proof -
  have cond: "\<not> hurdle_bps new < hurdle_bps (terms_of p)"
    "\<not> tightens_from new (terms_of p) \<or> within_house_envelope new"
    using assms by (auto simp: requirement_for_def terms_of_def Let_def split: if_splits)
  from cond(2) show ?thesis
  proof
    assume "\<not> tightens_from new (terms_of p)"
    then show ?thesis
      by (cases "basis (terms_of p)")
        (auto simp: tightens_from_def no_dearer_than_house_def max.coboundedI1)
  next
    assume "within_house_envelope new"
    with cond(1) show ?thesis
      by (auto simp: within_house_envelope_def no_dearer_than_house_def period_le_annual max.coboundedI2)
  qed
qed

lemma no_dearer_trans:
  assumes "no_dearer_than_house a b" "no_dearer_than_house b c"
  shows "no_dearer_than_house a c"
  using assms by (auto simp: no_dearer_than_house_def le_max_iff_disj intro: order_trans)

lemma no_dearer_refl: "no_dearer_than_house a a"
  by (simp add: no_dearer_than_house_def)

section \<open>Properties of a change of terms\<close>

text \<open>C25: However many changes administrators make on their own, no leg of the fee ends up
  dearer than both what it was and what the house rule allows: the rates stay under the old ones
  or under 2 and 20, the hurdle is never lowered, the basis is never moved onto the mark, and
  crystallization never becomes more frequent.\<close>

theorem admin_changes_bounded:
  assumes "admin_changes p q"
  shows "no_dearer_than_house (terms_of p) (terms_of q)"
  using assms
proof (induction rule: admin_changes.induct)
  case (none p)
  show ?case by (rule no_dearer_refl)
next
  case (change p q m f h b c new)
  from admin_change_step [OF change.hyps(3)] have "no_dearer_than_house (terms_of q) (terms_of (Some new))"
    by (simp add: terms_of_def)
  with change.IH show ?case by (rule no_dearer_trans)
qed

text \<open>Two fee-policy changes whose signed bytes agree are the same change: the same
  change id, product, old terms, new terms, reason and requested moment.  An approval of one is
  never an approval of another.\<close>

theorem fee_subject_bytes_unique:
  fixes s u :: fee_subject
  assumes "subject_fits s" "subject_fits u" and "fee_subject_bytes s = fee_subject_bytes u"
  shows "s = u"
  using fee_subject_bytes_inj [OF assms] by (simp add: fee_subject.equality)

text \<open>The moment a change binds is never before the one asked for, and while anyone
  holds units never before a day after it was scheduled, short of the end of time.\<close>

theorem holders_get_notice:
  "sint requested \<le> sint (earliest_effective_from scheduled requested holders) \<and>
   min (2 ^ 63 - 1) (sint scheduled + (if holders then 86400 else 0))
     \<le> sint (earliest_effective_from scheduled requested holders)"
  using sint_i64_bounds [of scheduled]
  by (auto simp: earliest_effective_from_def Let_def i64_max_def i64_saturating_add_def sint_i64_clamp min_def max_def)

section \<open>Witnesses\<close>

definition cheap_terms :: fee_policy where
  "cheap_terms = \<lparr>management_bps = 100, performance_bps = 1000, hurdle_bps = 0,
     basis = InvestedCapital, crystallization = Annual\<rparr>"

lemma house_by_admin: "admin_changes (Some cheap_terms) (Some HOUSE)"
proof (rule admin_changes.change [OF admin_changes.none])
  show "policy_new 200 2000 0 InvestedCapital Annual = Inr HOUSE"
    by (simp add: policy_new_Inr HOUSE_def HOUSE_MANAGEMENT_BPS_def HOUSE_PERFORMANCE_BPS_def)
  show "requirement_for (Some cheap_terms) HOUSE = Admin"
    by (simp add: requirement_for_def within_house_envelope_def HOUSE_def cheap_terms_def)
qed

theorem admin_changes_bounded_witness: "no_dearer_than_house cheap_terms HOUSE"
  using admin_changes_bounded [OF house_by_admin] by (simp add: terms_of_def)

definition sample_subject :: "string \<Rightarrow> fee_subject" where
  "sample_subject reason = \<lparr>fs_change_id = 7, fs_service = service_fund, fs_from = None, fs_to = HOUSE,
     fs_reason = reason, fs_effective_from = 0\<rparr>"

theorem fee_subject_bytes_unique_witness:
  "fee_subject_bytes (sample_subject ''audit'') \<noteq> fee_subject_bytes (sample_subject ''growth'')"
proof
  have fits: "subject_fits (sample_subject ''audit'')" "subject_fits (sample_subject ''growth'')"
    by (simp_all add: subject_fits_def sample_subject_def fits_usize_def service_fund_def RESERVED_FUND_def)
  assume "fee_subject_bytes (sample_subject ''audit'') = fee_subject_bytes (sample_subject ''growth'')"
  from fee_subject_bytes_unique [OF fits this] show False by (simp add: sample_subject_def)
qed

end
