(* ===== verification/Fees.thy ===== *)
theory Fees
  imports FeeTerms
begin

text \<open>
  Assessing and recording a fee (the second half of \<^verbatim>\<open>domain/src/fees.rs\<close>):
  \<open>assess\<close> with its three legs, and the assessment and settlement aggregates.  The
  lemmas read a charge as arithmetic: what is due is exactly what is taken plus what is
  carried, nothing past the collectable units is touched, and the mark only rises.
\<close>

section \<open>The snapshot and the charge\<close>

record position_snapshot =
  ps_units :: shares
  ps_collectable :: shares
  ps_cost_basis :: usdt
  ps_high_water_mark :: nav
  ps_debt :: usdt
  ps_accrued_at :: i64
  ps_crystallized_at :: i64

datatype trigger = Period | Redemption shares

fun trigger_str :: "trigger \<Rightarrow> string" where
  "trigger_str Period = ''period''"
| "trigger_str (Redemption _) = ''redemption''"

record fee_charge =
  fc_management :: usdt
  fc_performance :: usdt
  fc_performance_accrued :: usdt
  fc_debt_opening :: usdt
  fc_due :: usdt
  fc_charged_units :: shares
  fc_charged_cash :: usdt
  fc_debt_carried :: usdt
  fc_high_water_mark :: nav
  fc_crystallized :: bool

definition charge_is_empty :: "fee_charge \<Rightarrow> bool" where
  "charge_is_empty c \<longleftrightarrow> usdt_is_zero (fc_due c)"

section \<open>The three legs\<close>

text \<open>\<^verbatim>\<open>u128::try_from(now.saturating_sub(since).max(0)).unwrap_or(0)\<close>, the elapsed seconds.\<close>

definition elapsed_secs :: "i64 \<Rightarrow> i64 \<Rightarrow> u128" where
  "elapsed_secs now_unix since =
     (case u128_try_from_i64 (i64_max (i64_saturating_sub now_unix since) 0) of
        Some s \<Rightarrow> s | None \<Rightarrow> 0)"

definition management_due :: "fee_policy \<Rightarrow> position_snapshot \<Rightarrow> nav \<Rightarrow> i64 \<Rightarrow> usdt result" where
  "management_due policy snapshot n now_unix =
     (if management_bps policy = 0 then Inr USDT_ZERO
      else let elapsed = elapsed_secs now_unix (ps_accrued_at snapshot) in
      if elapsed = 0 then Inr USDT_ZERO
      else rbind (case basis policy of
                    InvestedCapital \<Rightarrow> Inr (ps_cost_basis snapshot)
                  | MarketValue \<Rightarrow> nav_value n (ps_units snapshot)) (\<lambda>base.
           usdt_scale base (ucast (management_bps policy) * elapsed) (BPS * SECONDS_PER_YEAR)))"

definition hurdle_floor :: "fee_policy \<Rightarrow> position_snapshot \<Rightarrow> i64 \<Rightarrow> nav result" where
  "hurdle_floor policy snapshot now_unix =
     (if hurdle_bps policy = 0 then Inr (ps_high_water_mark snapshot)
      else let elapsed = elapsed_secs now_unix (ps_crystallized_at snapshot) in
      rbind (nav_scale (ps_high_water_mark snapshot) (ucast (hurdle_bps policy) * elapsed)
               (BPS * SECONDS_PER_YEAR)) (\<lambda>lift.
      ok_or (nav_checked_add (ps_high_water_mark snapshot) lift)
        (Validation ''hurdle lifts the mark past the representable range'')))"

definition performance_due :: "fee_policy \<Rightarrow> nav \<Rightarrow> nav \<Rightarrow> shares \<Rightarrow> usdt result" where
  "performance_due policy floor_nav n units =
     (if performance_bps policy = 0 \<or> shares_is_zero units then Inr USDT_ZERO
      else case nav_checked_sub n floor_nav of
        None \<Rightarrow> Inr USDT_ZERO
      | Some gain_per_unit \<Rightarrow>
          rbind (nav_value gain_per_unit units) (\<lambda>profit.
          usdt_scale profit (ucast (performance_bps policy)) BPS))"

section \<open>The assessment\<close>

definition assess :: "fee_policy \<Rightarrow> position_snapshot \<Rightarrow> nav \<Rightarrow> trigger \<Rightarrow> i64 \<Rightarrow> fee_charge result" where
  "assess policy snapshot n trig now_unix =
     (if nav_is_zero n then Inl (Validation ''cannot assess fees at a zero nav'')
      else
      rbind (management_due policy snapshot n now_unix) (\<lambda>management.
      rbind (shares_from_cash management n) (\<lambda>management_units.
      let units_net = (case shares_checked_sub (ps_units snapshot) management_units of
                         Some u \<Rightarrow> u | None \<Rightarrow> SHARES_ZERO) in
      rbind (hurdle_floor policy snapshot now_unix) (\<lambda>floor_nav.
      let scope = (case trig of Period \<Rightarrow> units_net | Redemption units \<Rightarrow> min units units_net) in
      rbind (performance_due policy floor_nav n scope) (\<lambda>performance_accrued.
      let crystallized = (case trig of
                            Period \<Rightarrow> period_seconds (crystallization policy)
                              \<le> elapsed_secs now_unix (ps_crystallized_at snapshot)
                          | Redemption _ \<Rightarrow> True);
          performance = (if crystallized then performance_accrued else USDT_ZERO);
          high_water_mark = (if crystallized \<and> trig = Period \<and> ps_high_water_mark snapshot < n
                             then n else ps_high_water_mark snapshot) in
      rbind (ok_or (Option.bind (usdt_checked_add management performance)
                      (\<lambda>sum. usdt_checked_add sum (ps_debt snapshot)))
               (Validation ''fee total overflows'')) (\<lambda>due.
      rbind (shares_from_cash due n) (\<lambda>due_units.
      let charged_units = min due_units (ps_collectable snapshot) in
      rbind (nav_value n charged_units) (\<lambda>charged_cash.
      let debt_carried = (case usdt_checked_sub due charged_cash of
                            Some d \<Rightarrow> d | None \<Rightarrow> USDT_ZERO) in
      Inr \<lparr>fc_management = management, fc_performance = performance,
           fc_performance_accrued = performance_accrued, fc_debt_opening = ps_debt snapshot,
           fc_due = due, fc_charged_units = charged_units, fc_charged_cash = charged_cash,
           fc_debt_carried = debt_carried, fc_high_water_mark = high_water_mark,
           fc_crystallized = crystallized\<rparr>))))))))"

section \<open>Aggregates and events\<close>

datatype fee_event =
    Charged uuid uuid service_id shares nav usdt usdt usdt
  | SharesSettled uuid service_id shares nav usdt party

record fee_assessment =
  fa_id :: uuid
  fa_user :: uuid
  fa_service :: service_id
  fa_nav :: nav
  fa_trigger :: trigger
  fa_charge :: fee_charge
  fa_pending :: "fee_event list"

definition assessment_rehydrate ::
  "uuid \<Rightarrow> uuid \<Rightarrow> service_id \<Rightarrow> nav \<Rightarrow> trigger \<Rightarrow> fee_charge \<Rightarrow> fee_assessment" where
  "assessment_rehydrate i user service n trig charge =
     \<lparr>fa_id = i, fa_user = user, fa_service = service, fa_nav = n, fa_trigger = trig,
      fa_charge = charge, fa_pending = []\<rparr>"

definition assessment_record ::
  "uuid \<Rightarrow> uuid \<Rightarrow> service_id \<Rightarrow> nav \<Rightarrow> trigger \<Rightarrow> fee_charge \<Rightarrow> fee_assessment result" where
  "assessment_record i user service n trig charge =
     (if charge_is_empty charge then Inl (Validation ''nothing to charge'')
      else let assessment = assessment_rehydrate i user service n trig charge in
      Inr (if \<not> shares_is_zero (fc_charged_units charge)
           then assessment\<lparr>fa_pending := fa_pending assessment @
                  [Charged i user service (fc_charged_units charge) n (fc_management charge)
                     (fc_performance charge) (fc_charged_cash charge)]\<rparr>
           else assessment))"

record fee_settlement =
  fst_id :: uuid
  fst_service :: service_id
  fst_units :: shares
  fst_nav :: nav
  fst_cash :: usdt
  fst_pending :: "fee_event list"

definition settlement_record :: "uuid \<Rightarrow> service_id \<Rightarrow> shares \<Rightarrow> nav \<Rightarrow> fee_settlement result" where
  "settlement_record i service units n =
     (if shares_is_zero units then Inl (Validation ''fee settlement units must be positive'')
      else rbind (nav_value n units) (\<lambda>cash.
      if usdt_is_zero cash then Inl (Validation ''fee units are worth nothing at this nav'')
      else Inr \<lparr>fst_id = i, fst_service = service, fst_units = units, fst_nav = n, fst_cash = cash,
                fst_pending = [SharesSettled i service units n cash party_fee_payee]\<rparr>))"

text \<open>\<^verbatim>\<open>drain_events\<close>: the pending facts, and the aggregate without them.\<close>

definition assessment_drain :: "fee_assessment \<Rightarrow> fee_event list \<times> fee_assessment" where
  "assessment_drain a = (fa_pending a, a\<lparr>fa_pending := []\<rparr>)"

definition settlement_drain :: "fee_settlement \<Rightarrow> fee_event list \<times> fee_settlement" where
  "settlement_drain s = (fst_pending s, s\<lparr>fst_pending := []\<rparr>)"

section \<open>The legs as arithmetic\<close>

lemma sint_i64_max [simp]: "sint (i64_max a b) = max (sint a) (sint b)"
  by (simp add: i64_max_def)

lemma unat_of_nonneg_int: "0 \<le> k \<Longrightarrow> k < 2 ^ 128 \<Longrightarrow> unat (word_of_int k :: u128) = nat k"
  by (simp add: unsigned_of_int take_bit_int_eq_self)

lemma unat_elapsed: "unat (elapsed_secs t since) = nat (min (2 ^ 63 - 1) (sint t - sint since))"
proof -
  define k where "k = max 0 (min (2 ^ 63 - 1) (sint t - sint since))"
  have "sint (i64_max (i64_saturating_sub t since) 0) = k"
    by (simp add: k_def i64_saturating_sub_def sint_i64_clamp)
  then have "elapsed_secs t since = word_of_int k"
    by (simp add: elapsed_secs_def u128_try_from_i64_def k_def del: sint_i64_max of_int_sint)
  moreover have "0 \<le> k" "k < 2 ^ 128" by (simp_all add: k_def)
  ultimately show ?thesis by (simp only: unat_of_nonneg_int) (simp add: k_def)
qed

lemma unat_elapsed_lt: "unat (elapsed_secs t since) < 2 ^ 63"
  by (simp add: unat_elapsed nat_less_iff)

lemma unat_rate_elapsed:
  "unat (ucast (r :: u32) * elapsed_secs t since) = unat r * unat (elapsed_secs t since)"
proof -
  have "unat r < 2 ^ 32" using unsigned_less [of r] by simp
  then have "unat r * unat (elapsed_secs t since) < 2 ^ 32 * 2 ^ 63"
    using unat_elapsed_lt [of t since] by (intro mult_strict_mono) simp_all
  then have "unat r * unat (elapsed_secs t since) < 2 ^ LENGTH(128)" by (rule less_trans) simp
  then show ?thesis by (subst unat_mul_no_wrap) simp_all
qed

lemma unat_year_bps: "unat (BPS * SECONDS_PER_YEAR) = 315360000000"
  by (simp add: BPS_def SECONDS_PER_YEAR_def)

lemma year_bps_nonzero: "BPS * SECONDS_PER_YEAR \<noteq> 0"
  by (simp add: BPS_def SECONDS_PER_YEAR_def)

fun management_base :: "management_basis \<Rightarrow> position_snapshot \<Rightarrow> nav \<Rightarrow> nat" where
  "management_base InvestedCapital s n = usdt_val (ps_cost_basis s)"
| "management_base MarketValue s n = shares_val (ps_units s) * nav_val n div 10 ^ 18"

lemma management_due_val:
  assumes "management_due policy s n t = Inr m"
  shows "usdt_val m = management_base (basis policy) s n
    * (unat (management_bps policy) * unat (elapsed_secs t (ps_accrued_at s))) div 315360000000"
  using assms
  by (auto simp: management_due_def Let_def result_iffs nat_arith unat_rate_elapsed unat_year_bps
      unat_eq_0 split: if_splits management_basis.splits)

lemma hurdle_floor_val:
  assumes "hurdle_floor policy s t = Inr f"
  shows "nav_val f = nav_val (ps_high_water_mark s) + nav_val (ps_high_water_mark s)
    * (unat (hurdle_bps policy) * unat (elapsed_secs t (ps_crystallized_at s))) div 315360000000"
  using assms
  by (auto simp: hurdle_floor_def Let_def result_iffs nat_arith unat_rate_elapsed unat_year_bps
      split: if_splits)

lemma performance_due_val:
  assumes "performance_due policy f n units = Inr p"
  shows "usdt_val p = shares_val units * (nav_val n - nav_val f) div 10 ^ 18
    * unat (performance_bps policy) div 10000"
  using assms
  by (auto simp: performance_due_def result_iffs nat_arith split: if_splits option.splits)

section \<open>The assessment as arithmetic\<close>

text \<open>The units the performance fee covers, and whether the period has crystallized.\<close>

fun performance_scope :: "position_snapshot \<Rightarrow> nav \<Rightarrow> usdt \<Rightarrow> trigger \<Rightarrow> nat" where
  "performance_scope s n m Period = shares_val (ps_units s) - usdt_val m * 10 ^ 18 div nav_val n"
| "performance_scope s n m (Redemption u) =
     min (shares_val u) (shares_val (ps_units s) - usdt_val m * 10 ^ 18 div nav_val n)"

fun crystallizes :: "fee_policy \<Rightarrow> position_snapshot \<Rightarrow> trigger \<Rightarrow> i64 \<Rightarrow> bool" where
  "crystallizes policy s Period t \<longleftrightarrow>
     unat (period_seconds (crystallization policy)) \<le> unat (elapsed_secs t (ps_crystallized_at s))"
| "crystallizes policy s (Redemption _) t \<longleftrightarrow> True"

lemma option_default_sub:
  "shares_val (case shares_checked_sub a b of Some u \<Rightarrow> u | None \<Rightarrow> SHARES_ZERO) = shares_val a - shares_val b"
  "usdt_val (case usdt_checked_sub x y of Some d \<Rightarrow> d | None \<Rightarrow> USDT_ZERO) = usdt_val x - usdt_val y"
  by (simp_all add: nat_arith split: option.splits)

lemma assess_InrE:
  assumes "assess policy s n trig t = Inr c"
  obtains f scope where "nav_val n \<noteq> 0"
    and "management_due policy s n t = Inr (fc_management c)"
    and "hurdle_floor policy s t = Inr f"
    and "performance_due policy f n scope = Inr (fc_performance_accrued c)"
    and "shares_val scope = performance_scope s n (fc_management c) trig"
    and "fc_crystallized c \<longleftrightarrow> crystallizes policy s trig t"
    and "fc_performance c = (if fc_crystallized c then fc_performance_accrued c else USDT_ZERO)"
    and "fc_high_water_mark c = (if fc_crystallized c \<and> trig = Period \<and> ps_high_water_mark s < n
      then n else ps_high_water_mark s)"
    and "fc_debt_opening c = ps_debt s"
    and "usdt_val (fc_due c) = usdt_val (fc_management c) + usdt_val (fc_performance c) + usdt_val (ps_debt s)"
    and "shares_val (fc_charged_units c) =
      min (usdt_val (fc_due c) * 10 ^ 18 div nav_val n) (shares_val (ps_collectable s))"
    and "usdt_val (fc_charged_cash c) = shares_val (fc_charged_units c) * nav_val n div 10 ^ 18"
    and "usdt_val (fc_debt_carried c) = usdt_val (fc_due c) - usdt_val (fc_charged_cash c)"
proof -
  define mu where "mu m = (case shares_checked_sub (ps_units s) m of Some u \<Rightarrow> u | None \<Rightarrow> SHARES_ZERO)" for m
  from assms obtain m munits f p due dunits cash
    where n0: "\<not> nav_is_zero n"
      and m: "management_due policy s n t = Inr m"
      and mu: "shares_from_cash m n = Inr munits"
      and f: "hurdle_floor policy s t = Inr f"
      and p: "performance_due policy f n (case trig of Period \<Rightarrow> mu munits
        | Redemption units \<Rightarrow> min units (mu munits)) = Inr p"
      and due: "Option.bind (usdt_checked_add m (if crystallizes policy s trig t then p else USDT_ZERO))
        (\<lambda>sum. usdt_checked_add sum (ps_debt s)) = Some due"
      and du: "shares_from_cash due n = Inr dunits"
      and cash: "nav_value n (min dunits (ps_collectable s)) = Inr cash"
      and c: "c = \<lparr>fc_management = m,
           fc_performance = (if crystallizes policy s trig t then p else USDT_ZERO),
           fc_performance_accrued = p, fc_debt_opening = ps_debt s, fc_due = due,
           fc_charged_units = min dunits (ps_collectable s), fc_charged_cash = cash,
           fc_debt_carried = (case usdt_checked_sub due cash of Some d \<Rightarrow> d | None \<Rightarrow> USDT_ZERO),
           fc_high_water_mark = (if crystallizes policy s trig t \<and> trig = Period \<and> ps_high_water_mark s < n
              then n else ps_high_water_mark s),
           fc_crystallized = crystallizes policy s trig t\<rparr>"
    by (cases trig) (auto simp: assess_def Let_def result_iffs mu_def word_le_nat_alt split: if_splits)
  show thesis
  proof (rule that)
    show "nav_val n \<noteq> 0" using n0 by (simp add: nat_arith)
    show "shares_val (case trig of Period \<Rightarrow> mu munits | Redemption units \<Rightarrow> min units (mu munits))
        = performance_scope s n (fc_management c) trig"
      using mu by (cases trig) (simp_all add: c mu_def option_default_sub nat_arith)
    show "usdt_val (fc_due c) = usdt_val (fc_management c) + usdt_val (fc_performance c) + usdt_val (ps_debt s)"
      using due by (auto simp: c nat_arith bind_eq_Some_conv)
    show "shares_val (fc_charged_units c) =
      min (usdt_val (fc_due c) * 10 ^ 18 div nav_val n) (shares_val (ps_collectable s))"
      using du by (simp add: c nat_arith)
    show "usdt_val (fc_charged_cash c) = shares_val (fc_charged_units c) * nav_val n div 10 ^ 18"
      using cash by (simp add: c nat_arith)
    show "usdt_val (fc_debt_carried c) = usdt_val (fc_due c) - usdt_val (fc_charged_cash c)"
      by (simp add: c option_default_sub)
  qed (use m f p in \<open>simp_all add: c\<close>)
qed

lemma value_le_due:
  fixes due n S k :: nat
  assumes "0 < n" "0 < S" "k \<le> due * S div n"
  shows "k * n div S \<le> due"
  using floor_roundtrip(1) [OF assms(1,2), of due] assms(3)
  by (meson div_le_mono le_trans mult_le_mono1)

lemma hurdle_floor_mark: "hurdle_floor policy s t = Inr f \<Longrightarrow> nav_val (ps_high_water_mark s) \<le> nav_val f"
  by (simp add: hurdle_floor_val)

lemma performance_due_bound:
  assumes "performance_due policy f n units = Inr p"
  shows "usdt_val p * 10000 * 10 ^ 18
    \<le> unat (performance_bps policy) * ((nav_val n - nav_val f) * shares_val units)"
proof -
  define profit where "profit = shares_val units * (nav_val n - nav_val f) div 10 ^ 18"
  have "usdt_val p * 10000 \<le> profit * unat (performance_bps policy)"
    unfolding performance_due_val [OF assms] profit_def by simp
  then have "usdt_val p * 10000 * 10 ^ 18 \<le> profit * unat (performance_bps policy) * 10 ^ 18"
    by (rule mult_le_mono1)
  also have "\<dots> = unat (performance_bps policy) * (profit * 10 ^ 18)" by (simp add: algebra_simps)
  also have "\<dots> \<le> unat (performance_bps policy) * ((nav_val n - nav_val f) * shares_val units)"
    unfolding profit_def by (intro mult_le_mono2) (metis div_times_less_eq_dividend mult.commute)
  finally show ?thesis .
qed

lemma performance_scope_le: "performance_scope s n m trig \<le> shares_val (ps_units s)"
  by (cases trig) (simp_all add: min.coboundedI2)

section \<open>Properties of an assessment\<close>

text \<open>C22: What an assessment finds due is the management leg, the performance leg and the
  debt brought in; all of it is either taken now or carried, to the last base unit; no more units
  are taken than the holding can give up; and when the holding could give up more, what is carried
  is only the rounding residue, worth less than one base unit of the fund plus one of cash.\<close>

theorem assess_conserves:
  assumes "assess policy s n trig t = Inr c"
  shows "usdt_val (fc_due c) =
      usdt_val (fc_management c) + usdt_val (fc_performance c) + usdt_val (ps_debt s) \<and>
    usdt_val (fc_charged_cash c) + usdt_val (fc_debt_carried c) = usdt_val (fc_due c) \<and>
    shares_val (fc_charged_units c) \<le> shares_val (ps_collectable s) \<and>
    (shares_val (fc_charged_units c) < shares_val (ps_collectable s) \<longrightarrow>
      usdt_val (fc_debt_carried c) * 10 ^ 18 < nav_val n + 10 ^ 18)"
proof -
  obtain n0: "nav_val n \<noteq> 0"
    and due: "usdt_val (fc_due c) =
      usdt_val (fc_management c) + usdt_val (fc_performance c) + usdt_val (ps_debt s)"
    and units: "shares_val (fc_charged_units c) =
      min (usdt_val (fc_due c) * 10 ^ 18 div nav_val n) (shares_val (ps_collectable s))"
    and cash: "usdt_val (fc_charged_cash c) = shares_val (fc_charged_units c) * nav_val n div 10 ^ 18"
    and debt: "usdt_val (fc_debt_carried c) = usdt_val (fc_due c) - usdt_val (fc_charged_cash c)"
    by (rule assess_InrE [OF assms])
  from n0 have n: "0 < nav_val n" by simp
  have "usdt_val (fc_charged_cash c) \<le> usdt_val (fc_due c)"
    unfolding cash by (rule value_le_due [OF n]) (simp_all add: units)
  moreover have "usdt_val (fc_debt_carried c) * 10 ^ 18 < nav_val n + 10 ^ 18"
    if "shares_val (fc_charged_units c) < shares_val (ps_collectable s)"
  proof -
    have "shares_val (fc_charged_units c) = usdt_val (fc_due c) * 10 ^ 18 div nav_val n"
      using that units by (simp add: min_def split: if_splits)
    then show ?thesis
      unfolding debt cash using floor_roundtrip(2) [OF n, of "10 ^ 18" "usdt_val (fc_due c)"] by simp
  qed
  ultimately show ?thesis using due units debt by simp
qed

text \<open>C23: The high-water mark never falls; it moves only when a periodic assessment
  crystallizes, and then to the price assessed at; and at a price not above the holder's own mark
  there is no performance fee, crystallized or accrued, whatever the hurdle.\<close>

theorem assess_mark:
  assumes "assess policy s n trig t = Inr c"
  shows "ps_high_water_mark s \<le> fc_high_water_mark c \<and>
    (fc_high_water_mark c \<noteq> ps_high_water_mark s \<longrightarrow>
      trig = Period \<and> fc_crystallized c \<and> fc_high_water_mark c = n) \<and>
    (n \<le> ps_high_water_mark s \<longrightarrow>
      fc_performance_accrued c = USDT_ZERO \<and> fc_performance c = USDT_ZERO)"
proof -
  obtain f scope where f: "hurdle_floor policy s t = Inr f"
    and p: "performance_due policy f n scope = Inr (fc_performance_accrued c)"
    and perf: "fc_performance c = (if fc_crystallized c then fc_performance_accrued c else USDT_ZERO)"
    and mark: "fc_high_water_mark c = (if fc_crystallized c \<and> trig = Period \<and> ps_high_water_mark s < n
      then n else ps_high_water_mark s)"
    by (rule assess_InrE [OF assms])
  have "usdt_val (fc_performance_accrued c) = 0" if "n \<le> ps_high_water_mark s"
    using that hurdle_floor_mark [OF f] performance_due_val [OF p] by (simp add: nat_arith)
  then show ?thesis using mark perf by (simp add: nav_order usdt_eq_iff)
qed

text \<open>Each leg is the rate the policy names on the base it names: management is the basis
  times the rate times the elapsed seconds over the year, floored, with no machine overflow and
  zero when the clock ran backwards; performance is at most its rate of the gain over the holder's
  own mark, on no more than the units held, and for a redemption on no more than the units leaving.\<close>

theorem assess_rates:
  assumes "assess policy s n trig t = Inr c"
  shows "usdt_val (fc_management c) = management_base (basis policy) s n
      * (unat (management_bps policy) * nat (min (2 ^ 63 - 1) (sint t - sint (ps_accrued_at s))))
      div (10000 * 31536000) \<and>
    usdt_val (fc_performance_accrued c) * 10000 * 10 ^ 18 \<le> unat (performance_bps policy)
      * ((nav_val n - nav_val (ps_high_water_mark s)) *
         (case trig of Period \<Rightarrow> shares_val (ps_units s)
          | Redemption u \<Rightarrow> min (shares_val u) (shares_val (ps_units s))))"
proof -
  obtain f scope where m: "management_due policy s n t = Inr (fc_management c)"
    and f: "hurdle_floor policy s t = Inr f"
    and p: "performance_due policy f n scope = Inr (fc_performance_accrued c)"
    and scope: "shares_val scope = performance_scope s n (fc_management c) trig"
    by (rule assess_InrE [OF assms])
  have gain: "nav_val n - nav_val f \<le> nav_val n - nav_val (ps_high_water_mark s)"
    using hurdle_floor_mark [OF f] by simp
  have "shares_val scope \<le> (case trig of Period \<Rightarrow> shares_val (ps_units s)
      | Redemption u \<Rightarrow> min (shares_val u) (shares_val (ps_units s)))"
    unfolding scope by (cases trig) (simp_all add: min.coboundedI2)
  with gain have "(nav_val n - nav_val f) * shares_val scope
      \<le> (nav_val n - nav_val (ps_high_water_mark s)) * (case trig of Period \<Rightarrow> shares_val (ps_units s)
         | Redemption u \<Rightarrow> min (shares_val u) (shares_val (ps_units s)))"
    by (rule mult_le_mono)
  from le_trans [OF performance_due_bound [OF p] mult_le_mono2 [OF this]]
  show ?thesis using management_due_val [OF m] by (simp add: unat_elapsed)
qed

section \<open>Witnesses\<close>

text \<open>
  A year at 2 and 20 on a thousand units bought at 1.0 and marked at 1.5, with a carried debt:
  every leg is positive and the whole charge is collectable.
\<close>

definition sample_snapshot :: position_snapshot where
  "sample_snapshot = \<lparr>ps_units = Shares 1000000000000000000000, ps_collectable = Shares 900000000000000000000,
     ps_cost_basis = Usdt 1000000000000000000000, ps_high_water_mark = Nav 1000000000000000000,
     ps_debt = Usdt 7, ps_accrued_at = 1000, ps_crystallized_at = 1000\<rparr>"

definition sample_charge :: fee_charge where
  "sample_charge = \<lparr>fc_management = Usdt 20000000000000000000,
     fc_performance = Usdt 98666666666666666666, fc_performance_accrued = Usdt 98666666666666666666,
     fc_debt_opening = Usdt 7, fc_due = Usdt 118666666666666666673,
     fc_charged_units = Shares 79111111111111111115, fc_charged_cash = Usdt 118666666666666666672,
     fc_debt_carried = Usdt 1, fc_high_water_mark = Nav 1500000000000000000, fc_crystallized = True\<rparr>"

lemma sample_elapsed: "elapsed_secs 31537000 1000 = 31536000"
  by (simp add: word_unat_eq_iff unat_elapsed)

lemmas sample_defs = sample_snapshot_def sample_charge_def HOUSE_def HOUSE_MANAGEMENT_BPS_def
  HOUSE_PERFORMANCE_BPS_def

lemma sample_assess: "assess HOUSE sample_snapshot (Nav 1500000000000000000) Period 31537000 = Inr sample_charge"
proof -
  define n where "n = Nav 1500000000000000000"
  have m: "management_due HOUSE sample_snapshot n 31537000 = Inr (Usdt 20000000000000000000)"
    by (simp add: management_due_def sample_defs sample_elapsed usdt_scale_iff unat_year_bps year_bps_nonzero)
  have mu: "shares_from_cash (Usdt 20000000000000000000) n = Inr (Shares 13333333333333333333)"
    and du: "shares_from_cash (Usdt 118666666666666666673) n = Inr (Shares 79111111111111111115)"
    and v: "nav_value n (Shares 79111111111111111115) = Inr (Usdt 118666666666666666672)"
    by (simp_all add: nat_arith n_def)
  have f: "hurdle_floor HOUSE sample_snapshot 31537000 = Inr (Nav 1000000000000000000)"
    by (simp add: hurdle_floor_def sample_defs)
  have gain: "nav_checked_sub n (Nav 1000000000000000000) = Some (Nav 500000000000000000)"
    by (simp add: nat_arith n_def)
  have "nav_value (Nav 500000000000000000) (Shares 986666666666666666667) = Inr (Usdt 493333333333333333333)"
    by (simp add: nat_arith)
  then have p: "performance_due HOUSE (Nav 1000000000000000000) n (Shares 986666666666666666667)
      = Inr (Usdt 98666666666666666666)"
    by (simp add: performance_due_def gain sample_defs zero_iffs usdt_scale_iff BPS_def)
  have net: "shares_checked_sub (ps_units sample_snapshot) (Shares 13333333333333333333)
      = Some (Shares 986666666666666666667)"
    by (simp add: nat_arith sample_defs)
  have year: "period_seconds (crystallization HOUSE) \<le> elapsed_secs 31537000 (ps_crystallized_at sample_snapshot)"
    by (simp add: sample_defs sample_elapsed SECONDS_PER_YEAR_def)
  have "usdt_checked_add (Usdt 20000000000000000000) (Usdt 98666666666666666666) = Some (Usdt 118666666666666666666)"
    "usdt_checked_add (Usdt 118666666666666666666) (Usdt 7) = Some (Usdt 118666666666666666673)"
    "usdt_checked_sub (Usdt 118666666666666666673) (Usdt 118666666666666666672) = Some (Usdt 1)"
    "min (Shares 79111111111111111115) (Shares 900000000000000000000) = Shares 79111111111111111115"
    "Nav 1000000000000000000 < n" "\<not> nav_is_zero n"
    by (simp_all add: nat_arith n_def min_def)
  then show ?thesis
    using m mu du v f p net year unfolding n_def [symmetric]
    by (simp add: assess_def Let_def sample_snapshot_def sample_charge_def n_def [symmetric])
qed

theorem assess_conserves_witness:
  "usdt_val (fc_charged_cash sample_charge) + usdt_val (fc_debt_carried sample_charge) = 118666666666666666673"
  using assess_conserves [OF sample_assess] by (simp add: sample_charge_def)

theorem assess_mark_witness: "ps_high_water_mark sample_snapshot \<le> fc_high_water_mark sample_charge"
  using assess_mark [OF sample_assess] by simp

theorem assess_rates_witness:
  "usdt_val (fc_performance_accrued sample_charge) * 10000 * 10 ^ 18
    \<le> 2000 * ((1500000000000000000 - 1000000000000000000) * 1000000000000000000000)"
  using assess_rates [OF sample_assess] by (simp add: sample_defs)

end
