(* ===== verification/LedgerPort.thy ===== *)
theory LedgerPort
  imports Balance
begin

text \<open>
  What the ledger port speaks of (\<^verbatim>\<open>piggybank/core/src/ports/ledger.rs\<close>): transfers and
  completions of two-phase ones, a balance on its natural side, what a spend may take of it, the
  error a read ends in, and the cash invariant as the chart of accounts splits it.  The ledger
  itself is a service outside the repository; what it answers is an argument of every definition
  that asks.
\<close>

section \<open>Errors\<close>

datatype ledger_error =
    Ledger_InsufficientFunds
  | Ledger_Unavailable string
  | Ledger_Retryable string
  | Ledger_Conflict string

fun ledger_error_domain :: "ledger_error \<Rightarrow> domain_error" where
  "ledger_error_domain Ledger_InsufficientFunds = Validation ''insufficient funds''"
| "ledger_error_domain (Ledger_Unavailable detail) = Repository detail"
| "ledger_error_domain (Ledger_Retryable detail) = Repository detail"
| "ledger_error_domain (Ledger_Conflict detail) = Repository detail"

definition from_ledger :: "ledger_error + 'a \<Rightarrow> 'a result" where
  "from_ledger m = (case m of Inl e \<Rightarrow> Inl (ledger_error_domain e) | Inr x \<Rightarrow> Inr x)"

lemma from_ledger_Inr [simp]: "from_ledger m = Inr x \<longleftrightarrow> m = Inr x"
  by (cases m) (simp_all add: from_ledger_def)

section \<open>Balances\<close>

record ledger_balance =
  lb_posted :: u128
  lb_pending :: u128
  lb_locked :: u128

definition lb_available :: "ledger_balance \<Rightarrow> u128" where
  "lb_available b = saturating_sub (lb_posted b) (lb_locked b)"

text \<open>The unapplied debits are read before the balance.\<close>

definition spendable_locked :: "ledger_error + u128 \<Rightarrow> ledger_error + ledger_balance \<Rightarrow> ledger_error + u128" where
  "spendable_locked unapplied_debits balance_locked =
     rbind unapplied_debits (\<lambda>unapplied.
     rbind balance_locked (\<lambda>balance. Inr (saturating_sub (lb_available balance) unapplied)))"

definition claim_covers_answer :: "u128 \<Rightarrow> string \<Rightarrow> u128 \<Rightarrow> unit result" where
  "claim_covers_answer amount refusal spendable =
     (if spendable < amount then Inl (Validation refusal) else Inr ())"

definition claim_covers_check :: "u128 \<Rightarrow> string \<Rightarrow> ledger_error + u128 \<Rightarrow> unit result" where
  "claim_covers_check amount refusal spendable =
     rbind (from_ledger spendable) (claim_covers_answer amount refusal)"

lemma claim_covers_Inr:
  "claim_covers_check amount refusal spendable = Inr u \<longleftrightarrow> (\<exists>s. spendable = Inr s \<and> unat amount \<le> unat s)"
  by (auto simp: claim_covers_check_def claim_covers_answer_def result_iffs word_le_nat_alt not_less)

lemma spendable_locked_Inr:
  "spendable_locked unapplied balance = Inr s \<longleftrightarrow>
     (\<exists>d b. unapplied = Inr d \<and> balance = Inr b \<and>
        unat s = unat (lb_posted b) - unat (lb_locked b) - unat d)"
  by (auto simp: spendable_locked_def result_iffs lb_available_def word_unat_eq_iff unat_saturating_sub)

section \<open>Transfers\<close>

record ledger_transfer =
  lt_id :: u128
  lt_debit :: account_key
  lt_credit :: account_key
  lt_amount :: u128
  lt_code :: transfer_code
  lt_reference :: u128

datatype completion_kind = Post_Pending | Void_Pending

record pending_completion =
  pc_id :: u128
  pc_pending_id :: u128
  pc_kind :: completion_kind
  pc_debit :: account_key
  pc_credit :: account_key
  pc_amount :: u128
  pc_code :: transfer_code
  pc_reference :: u128

datatype linked_leg = Leg_Post ledger_transfer | Leg_Reserve ledger_transfer | Leg_Complete pending_completion

fun linked_leg_id :: "linked_leg \<Rightarrow> u128" where
  "linked_leg_id (Leg_Post t) = lt_id t"
| "linked_leg_id (Leg_Reserve t) = lt_id t"
| "linked_leg_id (Leg_Complete c) = pc_id c"

section \<open>The cash invariant\<close>

datatype cash_side =
    Custody | UserClaims | ServiceClaims | Clearing | BookCashSide | ScopeClaims | ScopeAccounts
  | RetiredClaims

fun cash_side_of :: "account_code \<Rightarrow> cash_side option" where
  "cash_side_of CryptoWalletCode = Some Custody"
| "cash_side_of UserClaimCode = Some UserClaims"
| "cash_side_of ServiceClaimCode = Some ServiceClaims"
| "cash_side_of WithdrawalClearingCode = Some Clearing"
| "cash_side_of HoldClearingCode = Some Clearing"
| "cash_side_of BookCashCode = Some BookCashSide"
| "cash_side_of ScopeClaimCode = Some ScopeClaims"
| "cash_side_of ScopeAccountCode = Some ScopeAccounts"
| "cash_side_of RetiredFundClaim = Some RetiredClaims"
| "cash_side_of RetiredFeeClaim = Some RetiredClaims"
| "cash_side_of BankCustodyCode = None"
| "cash_side_of UserSharesCode = None"
| "cash_side_of SharesOutstandingCode = None"
| "cash_side_of FeeSharesCode = None"
| "cash_side_of RetiredCompanyStake = None"
| "cash_side_of BookSharesCode = None"

record cash_invariant =
  ci_custody :: u128
  ci_claims :: u128
  ci_user_claims :: u128
  ci_service_claims :: u128
  ci_clearing :: u128
  ci_book_cash :: u128
  ci_scope_claims :: u128
  ci_scope_accounts :: u128
  ci_retired_claims :: u128

definition cash_balanced :: "cash_invariant \<Rightarrow> bool" where
  "cash_balanced c \<longleftrightarrow> ci_custody c = ci_claims c"

definition cash_unclassified :: "cash_invariant \<Rightarrow> u128" where
  "cash_unclassified c =
     saturating_sub (saturating_sub (saturating_sub (saturating_sub (saturating_sub (saturating_sub (saturating_sub
       (ci_claims c) (ci_user_claims c)) (ci_service_claims c)) (ci_clearing c)) (ci_book_cash c))
       (ci_scope_claims c)) (ci_scope_accounts c)) (ci_retired_claims c)"

lemma cash_side_ledger: "cash_side_of (key_account_code k) \<noteq> None \<longleftrightarrow> key_ledger k = Usdt_Ledger"
  by (cases k) simp_all

lemma custody_iff_debit: "key_ledger k = Usdt_Ledger \<Longrightarrow>
    cash_side_of (key_account_code k) = Some Custody \<longleftrightarrow> key_normal k = Debit_Normal"
  by (cases k) simp_all

end
