(* ===== verification/FeeStore.thy ===== *)
theory FeeStore
  imports Fees LedgerPort
begin

text \<open>
  The fee plane over its rows: the reads an assessment makes and the use case around it
  (\<^verbatim>\<open>application/fees.rs\<close>), the transactions that store a charge and a settlement
  (\<^verbatim>\<open>infrastructure/fees.rs\<close>) and the accrual settled before a cost basis moves
  (\<^verbatim>\<open>infrastructure/fee_accrual.rs\<close>).  The position projection is a map, the audit
  tables and the outbox are lists, and a rolled-back transaction is the state it began in;
  what the ledger and the price service answer is passed in.
\<close>

section \<open>The store\<close>

text \<open>
  The rows one charge touches: the position projection, the audit table and the outbox.  A
  transaction that fails or finds the clock moved leaves all three as they were.
\<close>

record fund_position =
  fp_units :: shares
  fp_cost_basis :: usdt
  fp_fee_debt :: usdt
  fp_high_water_mark :: nav
  fp_accrued_at :: i64
  fp_crystallized_at :: i64

record fee_store =
  fund_positions :: "uuid \<times> service_id \<Rightarrow> fund_position option"
  fee_assessments :: "fee_assessment list"
  fee_settlements :: "fee_settlement list"
  fee_outbox :: "fee_event list"

definition lock_position ::
  "(uuid \<Rightarrow> string) \<Rightarrow> fee_store \<Rightarrow> uuid \<Rightarrow> service_id \<Rightarrow> shares result" where
  "lock_position show_uuid st user service =
     rmap fp_units
       (ok_or (fund_positions st (user, service))
         (NotFound ''fund position'' (show_uuid user @ ''/'' @ service_id_str service)))"

definition advance_position ::
  "fee_store \<Rightarrow> fee_assessment \<Rightarrow> shares \<Rightarrow> i64 \<Rightarrow> i64 \<Rightarrow> fee_store \<times> bool" where
  "advance_position st assessment units_before expected_accrued_at now_unix =
     (let charge = fa_charge assessment;
          units_after = (case shares_checked_sub units_before (fc_charged_units charge) of
                           Some u \<Rightarrow> u | None \<Rightarrow> SHARES_ZERO);
          key = (fa_user assessment, fa_service assessment)
      in case fund_positions st key of
           None \<Rightarrow> (st, False)
         | Some p \<Rightarrow>
             if fp_accrued_at p \<noteq> expected_accrued_at then (st, False)
             else (st\<lparr>fund_positions := (fund_positions st)(key \<mapsto>
                     p\<lparr>fp_units := units_after, fp_fee_debt := fc_debt_carried charge,
                       fp_high_water_mark := fc_high_water_mark charge, fp_accrued_at := now_unix,
                       fp_crystallized_at := (if fc_crystallized charge then now_unix
                                              else fp_crystallized_at p)\<rparr>)\<rparr>, True))"

definition charge_tx ::
  "(uuid \<Rightarrow> string) \<Rightarrow> fee_store \<Rightarrow> fee_assessment \<Rightarrow> i64 \<Rightarrow> i64 \<Rightarrow> fee_store \<times> bool result" where
  "charge_tx show_uuid st assessment expected_accrued_at now_unix =
     (case lock_position show_uuid st (fa_user assessment) (fa_service assessment) of
        Inl e \<Rightarrow> (st, Inl e)
      | Inr units_before \<Rightarrow>
          let inserted = st\<lparr>fee_assessments := fee_assessments st @ [assessment\<lparr>fa_pending := []\<rparr>]\<rparr>;
              (advanced, moved) =
                advance_position inserted assessment units_before expected_accrued_at now_unix
          in if \<not> moved then (st, Inr False)
             else let (events, _) = assessment_drain assessment
                  in (advanced\<lparr>fee_outbox := fee_outbox advanced @ events\<rparr>, Inr True))"

definition settle_tx :: "fee_store \<Rightarrow> fee_settlement \<Rightarrow> fee_store" where
  "settle_tx st settlement =
     (let (events, stored) = settlement_drain settlement
      in st\<lparr>fee_settlements := fee_settlements st @ [stored],
            fee_outbox := fee_outbox st @ events\<rparr>)"

section \<open>The use case\<close>

text \<open>
  The reads, in order: the policy, the position's accrual row, the dealing price, the two
  unit balances.  \<open>Inr None\<close> is every nothing-to-do case.
\<close>

definition load_assessment_inputs ::
  "fee_policy option \<Rightarrow> fee_store \<Rightarrow> (account_key \<Rightarrow> ledger_balance) \<Rightarrow> nav result
    \<Rightarrow> uuid \<Rightarrow> service_id \<Rightarrow> (fee_policy \<times> position_snapshot \<times> nav) option result" where
  "load_assessment_inputs policy st ledger dealing_nav user service =
     (case policy of
        None \<Rightarrow> Inr None
      | Some policy \<Rightarrow>
          if policy_is_zero policy then Inr None
          else case fund_positions st (user, service) of
            None \<Rightarrow> Inr None
          | Some accrual \<Rightarrow>
              rbind dealing_nav (\<lambda>price.
              let holding = ledger (UserShares service user);
                  escrowed = lb_posted (ledger (BookShares service user)) in
              rbind (ok_or (shares_checked_add (Shares (lb_posted holding)) (Shares escrowed))
                       (Validation ''position units overflow'')) (\<lambda>units.
              Inr (Some (policy,
                \<lparr>ps_units = units, ps_collectable = Shares (lb_available holding),
                 ps_cost_basis = fp_cost_basis accrual, ps_high_water_mark = fp_high_water_mark accrual,
                 ps_debt = fp_fee_debt accrual, ps_accrued_at = fp_accrued_at accrual,
                 ps_crystallized_at = fp_crystallized_at accrual\<rparr>, price)))))"

definition assess_position ::
  "(uuid \<Rightarrow> string) \<Rightarrow> fee_policy option \<Rightarrow> fee_store \<Rightarrow> (account_key \<Rightarrow> ledger_balance) \<Rightarrow> nav result
    \<Rightarrow> uuid \<Rightarrow> uuid \<Rightarrow> service_id \<Rightarrow> trigger \<Rightarrow> i64 \<Rightarrow> fee_store \<times> fee_assessment option result" where
  "assess_position show_uuid policy st ledger dealing_nav new_id user service trig now_unix =
     (case load_assessment_inputs policy st ledger dealing_nav user service of
        Inl e \<Rightarrow> (st, Inl e)
      | Inr None \<Rightarrow> (st, Inr None)
      | Inr (Some (policy, snapshot, price)) \<Rightarrow>
          (case assess policy snapshot price trig now_unix of
             Inl e \<Rightarrow> (st, Inl e)
           | Inr charge \<Rightarrow>
               if charge_is_empty charge then (st, Inr None)
               else case assessment_record new_id user service price trig charge of
                 Inl e \<Rightarrow> (st, Inl e)
               | Inr assessment \<Rightarrow>
                   (case charge_tx show_uuid st assessment (ps_accrued_at snapshot) now_unix of
                      (st, Inl e) \<Rightarrow> (st, Inl e)
                    | (st, Inr stored) \<Rightarrow>
                        (st, Inr (if stored then Some (snd (assessment_drain assessment)) else None)))))"

record accrued_fees =
  af_management :: usdt
  af_performance :: usdt
  af_debt :: usdt
  af_total :: usdt
  af_high_water_mark :: nav

definition disclose :: "fee_charge \<Rightarrow> nav \<Rightarrow> accrued_fees" where
  "disclose charge high_water_mark =
     (let total = (case Option.bind (usdt_checked_add (fc_management charge) (fc_performance_accrued charge))
                          (\<lambda>sum. usdt_checked_add sum (fc_debt_opening charge)) of
                     Some t \<Rightarrow> t | None \<Rightarrow> USDT_ZERO)
      in \<lparr>af_management = fc_management charge, af_performance = fc_performance_accrued charge,
          af_debt = fc_debt_opening charge, af_total = total, af_high_water_mark = high_water_mark\<rparr>)"

definition accrued_fees_of ::
  "fee_policy option \<Rightarrow> fee_store \<Rightarrow> (account_key \<Rightarrow> ledger_balance) \<Rightarrow> nav result
    \<Rightarrow> uuid \<Rightarrow> service_id \<Rightarrow> i64 \<Rightarrow> accrued_fees option result" where
  "accrued_fees_of policy st ledger dealing_nav user service now_unix =
     rbind (load_assessment_inputs policy st ledger dealing_nav user service) (\<lambda>inputs.
     case inputs of
       None \<Rightarrow> Inr None
     | Some (policy, snapshot, price) \<Rightarrow>
         rmap (\<lambda>charge. Some (disclose charge (ps_high_water_mark snapshot)))
           (assess policy snapshot price Period now_unix))"

section \<open>Settling the accrual before the basis moves\<close>

definition UNUSED_PRICE :: u128 where
  "UNUSED_PRICE = 1"

definition accrued_management ::
  "fee_policy option \<Rightarrow> nav option \<Rightarrow> fund_position \<Rightarrow> shares \<Rightarrow> i64 \<Rightarrow> usdt result" where
  "accrued_management stored latest_nav row units now_unix =
     (case stored of
        None \<Rightarrow> Inr USDT_ZERO
      | Some policy \<Rightarrow>
          if management_bps policy = 0 then Inr USDT_ZERO
          else
            let snapshot = \<lparr>ps_units = units, ps_collectable = units, ps_cost_basis = fp_cost_basis row,
                  ps_high_water_mark = fp_high_water_mark row, ps_debt = USDT_ZERO,
                  ps_accrued_at = fp_accrued_at row, ps_crystallized_at = fp_crystallized_at row\<rparr>
            in case basis policy of
                 InvestedCapital \<Rightarrow> management_due policy snapshot (Nav UNUSED_PRICE) now_unix
               | MarketValue \<Rightarrow>
                   (case latest_nav of
                      Some n \<Rightarrow> management_due policy snapshot n now_unix
                    | None \<Rightarrow>
                        rbind (policy_from_stored (management_bps policy) 0 0 InvestedCapital
                                 (crystallization policy)) (\<lambda>fallback.
                        management_due fallback snapshot (Nav UNUSED_PRICE) now_unix)))"

definition carry_accrual ::
  "fee_policy option \<Rightarrow> nav option \<Rightarrow> fee_store \<Rightarrow> uuid \<Rightarrow> service_id \<Rightarrow> i64 \<Rightarrow> fee_store result" where
  "carry_accrual stored latest_nav st user service now_unix =
     (case fund_positions st (user, service) of
        None \<Rightarrow> Inr st
      | Some row \<Rightarrow>
          let units = fp_units row in
          if shares_is_zero units
          then Inr (st\<lparr>fund_positions := (fund_positions st)((user, service) \<mapsto>
                      row\<lparr>fp_accrued_at := now_unix, fp_crystallized_at := now_unix\<rparr>)\<rparr>)
          else
            rbind (accrued_management stored latest_nav row units now_unix) (\<lambda>accrued.
            rbind (ok_or (usdt_checked_add (fp_fee_debt row) accrued)
                     (Repository ''carried fee debt overflows'')) (\<lambda>carried.
            Inr (st\<lparr>fund_positions := (fund_positions st)((user, service) \<mapsto>
                   row\<lparr>fp_fee_debt := carried, fp_accrued_at := now_unix\<rparr>)\<rparr>))))"

section \<open>What a stored charge does\<close>

lemma charge_tx_True:
  assumes "charge_tx sh st a e t = (st', Inr True)"
  obtains p where "fund_positions st (fa_user a, fa_service a) = Some p" and "fp_accrued_at p = e"
    and "fund_positions st' = (fund_positions st)((fa_user a, fa_service a) \<mapsto>
      p\<lparr>fp_units := (case shares_checked_sub (fp_units p) (fc_charged_units (fa_charge a)) of
           Some u \<Rightarrow> u | None \<Rightarrow> SHARES_ZERO),
        fp_fee_debt := fc_debt_carried (fa_charge a),
        fp_high_water_mark := fc_high_water_mark (fa_charge a), fp_accrued_at := t,
        fp_crystallized_at := (if fc_crystallized (fa_charge a) then t else fp_crystallized_at p)\<rparr>)"
    and "fee_outbox st' = fee_outbox st @ fa_pending a"
  using assms
  by (auto simp: charge_tx_def lock_position_def advance_position_def assessment_drain_def Let_def
      split: option.splits sum.splits prod.splits if_splits)

lemma assess_position_Some:
  assumes "assess_position sh policy st ledger price i u s trig t = (st', Inr (Some a))"
  obtains pol snap n c a' where
    "load_assessment_inputs policy st ledger price u s = Inr (Some (pol, snap, n))"
    and "assess pol snap n trig t = Inr c"
    and "assessment_record i u s n trig c = Inr a'"
    and "charge_tx sh st a' (ps_accrued_at snap) t = (st', Inr True)"
    and "a = a'\<lparr>fa_pending := []\<rparr>"
  using assms
  by (auto simp: assess_position_def assessment_drain_def split: sum.splits option.splits prod.splits if_splits)

lemma assessment_record_Inr:
  assumes "assessment_record i u s n trig c = Inr a"
  shows "fa_charge a = c" "fa_user a = u" "fa_service a = s"
  using assms by (auto simp: assessment_record_def assessment_rehydrate_def Let_def split: if_splits)

lemma load_inputs_Some:
  assumes "load_assessment_inputs policy st ledger price u s = Inr (Some (pol, snap, n))"
  obtains p where "policy = Some pol" and "fund_positions st (u, s) = Some p"
    and "ps_accrued_at snap = fp_accrued_at p" and "ps_crystallized_at snap = fp_crystallized_at p"
    and "ps_debt snap = fp_fee_debt p" and "ps_high_water_mark snap = fp_high_water_mark p"
  using assms
  by (auto simp: load_assessment_inputs_def Let_def result_iffs split: option.splits if_splits)

lemma elapsed_self: "unat (elapsed_secs t t) = 0"
  by (simp add: unat_elapsed)

lemma period_seconds_pos: "0 < unat (period_seconds c)"
  by (cases c) (simp_all add: unat_div_distrib)

text \<open>The position a stored charge leaves behind.\<close>

lemma charge_tx_position:
  assumes "charge_tx sh st a e t = (st', Inr True)"
  obtains p p' where "fund_positions st (fa_user a, fa_service a) = Some p"
    and "fund_positions st' (fa_user a, fa_service a) = Some p'"
    and "fp_accrued_at p' = t" and "fp_fee_debt p' = fc_debt_carried (fa_charge a)"
    and "fp_high_water_mark p' = fc_high_water_mark (fa_charge a)"
    and "fp_crystallized_at p' = (if fc_crystallized (fa_charge a) then t else fp_crystallized_at p)"
  by (rule charge_tx_True [OF assms]) (auto intro: that)

section \<open>Properties of the store\<close>


text \<open>Charging settles the moment it was assessed for: assess the same holding again at
  that moment, at any price and with any ledger balances, and no management and no performance
  fee is found, only the debt the first charge carried.\<close>

lemma charge_settles_moment:
  assumes "assess_position sh policy st ledger price i u s trig t = (st', Inr (Some a))"
    and "load_assessment_inputs policy st' ledger' price' u s = Inr (Some (pol, snap, n))"
    and "assess pol snap n Period t = Inr c"
  shows "fc_management c = USDT_ZERO \<and> fc_performance c = USDT_ZERO \<and>
    fc_due c = fc_debt_carried (fa_charge a)"
proof -
  obtain pol0 snap0 n0 c0 a0 where
    load0: "load_assessment_inputs policy st ledger price u s = Inr (Some (pol0, snap0, n0))"
    and ass0: "assess pol0 snap0 n0 trig t = Inr c0"
    and rec0: "assessment_record i u s n0 trig c0 = Inr a0"
    and tx: "charge_tx sh st a0 (ps_accrued_at snap0) t = (st', Inr True)"
    and a: "a = a0\<lparr>fa_pending := []\<rparr>"
    by (rule assess_position_Some [OF assms(1)])
  note a0 = assessment_record_Inr [OF rec0]
  obtain p0 where p0: "policy = Some pol0" "fund_positions st (u, s) = Some p0"
    "ps_crystallized_at snap0 = fp_crystallized_at p0"
    by (rule load_inputs_Some [OF load0])
  obtain p where p: "policy = Some pol" "fund_positions st' (u, s) = Some p"
    "ps_accrued_at snap = fp_accrued_at p" "ps_crystallized_at snap = fp_crystallized_at p"
    "ps_debt snap = fp_fee_debt p"
    by (rule load_inputs_Some [OF assms(2)])
  obtain p' where p': "fund_positions st' (u, s) = Some p'" "fp_accrued_at p' = t"
    "fp_fee_debt p' = fc_debt_carried c0"
    "fp_crystallized_at p' = (if fc_crystallized c0 then t else fp_crystallized_at p0)"
    by (rule charge_tx_position [OF tx]) (use p0 a0 in simp)
  with p have stored: "fp_accrued_at p = t" "fp_fee_debt p = fc_debt_carried c0"
    "fp_crystallized_at p = (if fc_crystallized c0 then t else fp_crystallized_at p0)" by simp_all
  have "fc_crystallized c0 \<longleftrightarrow> crystallizes pol0 snap0 trig t"
    by (rule assess_InrE [OF ass0])
  then have "\<not> crystallizes pol snap Period t"
    using stored p p0 period_seconds_pos [of "crystallization pol"]
    by (cases trig) (auto simp: elapsed_self)
  moreover obtain f scope where "management_due pol snap n t = Inr (fc_management c)"
    and "fc_crystallized c \<longleftrightarrow> crystallizes pol snap Period t"
    and "fc_performance c = (if fc_crystallized c then fc_performance_accrued c else USDT_ZERO)"
    and "usdt_val (fc_due c) = usdt_val (fc_management c) + usdt_val (fc_performance c) + usdt_val (ps_debt snap)"
    by (rule assess_InrE [OF assms(3)])
  ultimately show ?thesis
    using stored p a a0 management_due_val [of pol snap n t "fc_management c"]
    by (simp add: usdt_eq_iff elapsed_self)
qed

section \<open>Witnesses\<close>

definition sample_position :: fund_position where
  "sample_position = \<lparr>fp_units = Shares 1000000000000000000000, fp_cost_basis = Usdt 1000000000000000000000,
     fp_fee_debt = Usdt 7, fp_high_water_mark = Nav 1000000000000000000, fp_accrued_at = 1000,
     fp_crystallized_at = 1000\<rparr>"

definition sample_store :: fee_store where
  "sample_store = \<lparr>fund_positions = [(5, service_fund) \<mapsto> sample_position], fee_assessments = [],
     fee_settlements = [], fee_outbox = []\<rparr>"

definition sample_ledger :: "account_key \<Rightarrow> ledger_balance" where
  "sample_ledger k = (if k = UserShares service_fund 5
     then \<lparr>lb_posted = 1000000000000000000000, lb_pending = 0, lb_locked = 100000000000000000000\<rparr>
     else \<lparr>lb_posted = 0, lb_pending = 0, lb_locked = 0\<rparr>)"

definition sample_assessment :: fee_assessment where
  "sample_assessment = \<lparr>fa_id = 9, fa_user = 5, fa_service = service_fund, fa_nav = Nav 1500000000000000000,
     fa_trigger = Period, fa_charge = sample_charge,
     fa_pending = [Charged 9 5 service_fund (Shares 79111111111111111115) (Nav 1500000000000000000)
       (Usdt 20000000000000000000) (Usdt 98666666666666666666) (Usdt 118666666666666666672)]\<rparr>"

definition charged_position :: fund_position where
  "charged_position = \<lparr>fp_units = Shares 920888888888888888885, fp_cost_basis = Usdt 1000000000000000000000,
     fp_fee_debt = Usdt 1, fp_high_water_mark = Nav 1500000000000000000, fp_accrued_at = 31537000,
     fp_crystallized_at = 31537000\<rparr>"

definition charged_store :: fee_store where
  "charged_store = \<lparr>fund_positions = [(5, service_fund) \<mapsto> charged_position],
     fee_assessments = [sample_assessment\<lparr>fa_pending := []\<rparr>], fee_settlements = [],
     fee_outbox = fa_pending sample_assessment\<rparr>"

lemma sample_load:
  "load_assessment_inputs (Some HOUSE) sample_store sample_ledger (Inr (Nav 1500000000000000000)) 5 service_fund
    = Inr (Some (HOUSE, sample_snapshot, Nav 1500000000000000000))"
proof -
  have "shares_checked_add (Shares 1000000000000000000000) (Shares 0) = Some (Shares 1000000000000000000000)"
    by (simp add: nat_arith)
  moreover have "saturating_sub (1000000000000000000000 :: u128) 100000000000000000000 = 900000000000000000000"
    by (simp add: saturating_sub_def)
  ultimately show ?thesis
    by (simp add: load_assessment_inputs_def policy_is_zero_def sample_defs sample_store_def
        sample_position_def sample_ledger_def lb_available_def)
qed

lemma sample_record:
  "assessment_record 9 5 service_fund (Nav 1500000000000000000) Period sample_charge = Inr sample_assessment"
  by (simp add: assessment_record_def assessment_rehydrate_def charge_is_empty_def sample_assessment_def
      sample_charge_def zero_iffs)

lemma sample_charge_tx: "charge_tx sh sample_store sample_assessment 1000 31537000 = (charged_store, Inr True)"
proof -
  have "shares_checked_sub (Shares 1000000000000000000000) (Shares 79111111111111111115)
      = Some (Shares 920888888888888888885)"
    by (simp add: nat_arith)
  then show ?thesis
    by (simp add: charge_tx_def lock_position_def advance_position_def assessment_drain_def Let_def
        sample_store_def charged_store_def sample_position_def charged_position_def sample_assessment_def
        sample_charge_def)
qed

lemma sample_assess_position:
  "assess_position sh (Some HOUSE) sample_store sample_ledger (Inr (Nav 1500000000000000000)) 9 5
    service_fund Period 31537000 = (charged_store, Inr (Some (sample_assessment\<lparr>fa_pending := []\<rparr>)))"
proof -
  have "\<not> charge_is_empty sample_charge"
    by (simp add: charge_is_empty_def sample_charge_def zero_iffs)
  moreover have "ps_accrued_at sample_snapshot = 1000" by (simp add: sample_snapshot_def)
  ultimately show ?thesis
    by (simp add: assess_position_def sample_load sample_assess sample_record sample_charge_tx
        assessment_drain_def)
qed


definition later_snapshot :: position_snapshot where
  "later_snapshot = \<lparr>ps_units = Shares 1000000000000000000000, ps_collectable = Shares 900000000000000000000,
     ps_cost_basis = Usdt 1000000000000000000000, ps_high_water_mark = Nav 1500000000000000000,
     ps_debt = Usdt 1, ps_accrued_at = 31537000, ps_crystallized_at = 31537000\<rparr>"

definition later_charge :: fee_charge where
  "later_charge = \<lparr>fc_management = Usdt 0, fc_performance = Usdt 0,
     fc_performance_accrued = Usdt 20000000000000000000, fc_debt_opening = Usdt 1, fc_due = Usdt 1,
     fc_charged_units = Shares 0, fc_charged_cash = Usdt 0, fc_debt_carried = Usdt 1,
     fc_high_water_mark = Nav 1500000000000000000, fc_crystallized = False\<rparr>"

lemma later_load:
  "load_assessment_inputs (Some HOUSE) charged_store sample_ledger (Inr (Nav 1600000000000000000)) 5 service_fund
    = Inr (Some (HOUSE, later_snapshot, Nav 1600000000000000000))"
proof -
  have "shares_checked_add (Shares 1000000000000000000000) (Shares 0) = Some (Shares 1000000000000000000000)"
    by (simp add: nat_arith)
  moreover have "saturating_sub (1000000000000000000000 :: u128) 100000000000000000000 = 900000000000000000000"
    by (simp add: saturating_sub_def)
  ultimately show ?thesis
    by (simp add: load_assessment_inputs_def policy_is_zero_def sample_defs charged_store_def
        charged_position_def sample_ledger_def lb_available_def later_snapshot_def)
qed

lemma later_assess: "assess HOUSE later_snapshot (Nav 1600000000000000000) Period 31537000 = Inr later_charge"
proof -
  define n where "n = Nav 1600000000000000000"
  have e: "elapsed_secs 31537000 31537000 = 0" by (simp add: word_unat_eq_iff elapsed_self)
  have m: "management_due HOUSE later_snapshot n 31537000 = Inr (Usdt 0)"
    by (simp add: management_due_def later_snapshot_def e USDT_ZERO_def)
  have f: "hurdle_floor HOUSE later_snapshot 31537000 = Inr (Nav 1500000000000000000)"
    by (simp add: hurdle_floor_def later_snapshot_def HOUSE_def)
  have gain: "nav_checked_sub n (Nav 1500000000000000000) = Some (Nav 100000000000000000)"
    by (simp add: nat_arith n_def)
  have "nav_value (Nav 100000000000000000) (Shares 1000000000000000000000) = Inr (Usdt 100000000000000000000)"
    by (simp add: nat_arith)
  then have p: "performance_due HOUSE (Nav 1500000000000000000) n (Shares 1000000000000000000000)
      = Inr (Usdt 20000000000000000000)"
    by (simp add: performance_due_def gain sample_defs zero_iffs usdt_scale_iff BPS_def)
  have "shares_from_cash (Usdt 0) n = Inr (Shares 0)" "shares_from_cash (Usdt 1) n = Inr (Shares 0)"
    "nav_value n (Shares 0) = Inr (Usdt 0)"
    "shares_checked_sub (ps_units later_snapshot) (Shares 0) = Some (Shares 1000000000000000000000)"
    "usdt_checked_add (Usdt 0) USDT_ZERO = Some (Usdt 0)"
    "usdt_checked_add (Usdt 0) (Usdt 1) = Some (Usdt 1)"
    "usdt_checked_sub (Usdt 1) (Usdt 0) = Some (Usdt 1)"
    "min (Shares 0) (Shares 900000000000000000000) = Shares 0" "\<not> nav_is_zero n"
    by (simp_all add: nat_arith n_def min_def later_snapshot_def)
  moreover have "\<not> period_seconds (crystallization HOUSE) \<le> elapsed_secs 31537000 (ps_crystallized_at later_snapshot)"
    by (simp add: HOUSE_def later_snapshot_def e SECONDS_PER_YEAR_def)
  ultimately show ?thesis
    using m f p unfolding n_def [symmetric]
    by (simp add: assess_def Let_def later_snapshot_def later_charge_def USDT_ZERO_def)
qed

theorem charge_settles_moment_witness: "fc_due later_charge = fc_debt_carried sample_charge"
  using charge_settles_moment [OF sample_assess_position later_load later_assess]
  by (simp add: sample_assessment_def)

end
