(* ===== verification/Allocations.thy ===== *)
theory Allocations
  imports Balance
begin

text \<open>
  The registry of investable products (\<^verbatim>\<open>domain/src/allocations.rs\<close>), so far the part the
  book trades under: what stands behind a product's units.
\<close>

datatype allocation_backing = Cash | InKind

fun backing_str :: "allocation_backing \<Rightarrow> string" where
  "backing_str Cash = ''cash''"
| "backing_str InKind = ''in_kind''"

definition backing_parse :: "string \<Rightarrow> allocation_backing result" where
  "backing_parse raw =
     (if raw = ''cash'' then Inr Cash
      else if raw = ''in_kind'' then Inr InKind
      else Inl (Validation (''unknown allocation backing: '' @ raw)))"

interpretation backing_text: exact_codec backing_str backing_parse
proof
  show "backing_parse (backing_str x) = Inr x" for x
    by (cases x) (simp_all add: backing_parse_def)
  show "backing_parse s = Inr x \<Longrightarrow> backing_str x = s" for s x
    by (auto simp: backing_parse_def split: if_splits)
qed

end
