(* ===== verification/BookTypes.thy ===== *)
theory BookTypes
  imports Allocations Canonical
begin

text \<open>
  The vocabulary of the secondary market (\<^verbatim>\<open>domain/src/book.rs\<close>): the client's key of an
  order, the enumerations with their stored names, the price on its tick grid, and the terms a
  product trades under, with what a buy commits and how a market order is priced.
\<close>

section \<open>Names\<close>

definition MAX_CLIENT_ORDER_ID_LEN :: nat where
  "MAX_CLIENT_ORDER_ID_LEN = 64"

definition BPS_DENOMINATOR :: u128 where
  "BPS_DENOMINATOR = 10000"

datatype client_order_id = ClientOrderId (client_order_id_str: string)

definition client_order_id_parse :: "string \<Rightarrow> client_order_id result" where
  "client_order_id_parse raw =
     (let value = trim raw in
      if value = [] \<or> MAX_CLIENT_ORDER_ID_LEN < chars_count value
      then Inl (Validation (''client order id must be 1..'' @ show_nat MAX_CLIENT_ORDER_ID_LEN @ '' chars''))
      else Inr (ClientOrderId value))"

datatype side = Buy | Sell

fun side_str :: "side \<Rightarrow> string" where
  "side_str Buy = ''buy''"
| "side_str Sell = ''sell''"

definition side_parse :: "string \<Rightarrow> side result" where
  "side_parse raw =
     (if raw = ''buy'' then Inr Buy
      else if raw = ''sell'' then Inr Sell
      else Inl (Validation (''unknown order side: '' @ raw)))"

fun opposite :: "side \<Rightarrow> side" where
  "opposite Buy = Sell"
| "opposite Sell = Buy"

datatype order_kind = Limit | Market

fun order_kind_str :: "order_kind \<Rightarrow> string" where
  "order_kind_str Limit = ''limit''"
| "order_kind_str Market = ''market''"

definition order_kind_parse :: "string \<Rightarrow> order_kind result" where
  "order_kind_parse raw =
     (if raw = ''limit'' then Inr Limit
      else if raw = ''market'' then Inr Market
      else Inl (Validation (''unknown order kind: '' @ raw)))"

datatype tif = Gtc | Ioc | Alo

fun tif_str :: "tif \<Rightarrow> string" where
  "tif_str Gtc = ''gtc''"
| "tif_str Ioc = ''ioc''"
| "tif_str Alo = ''alo''"

definition tif_parse :: "string \<Rightarrow> tif result" where
  "tif_parse raw =
     (if raw = ''gtc'' then Inr Gtc
      else if raw = ''ioc'' then Inr Ioc
      else if raw = ''alo'' then Inr Alo
      else Inl (Validation (''unknown time in force: '' @ raw)))"

datatype order_state = Open | PartiallyFilled | Filled | Cancelled | Rejected

fun order_state_str :: "order_state \<Rightarrow> string" where
  "order_state_str Open = ''open''"
| "order_state_str PartiallyFilled = ''partially_filled''"
| "order_state_str Filled = ''filled''"
| "order_state_str Cancelled = ''cancelled''"
| "order_state_str Rejected = ''rejected''"

definition order_state_parse :: "string \<Rightarrow> order_state result" where
  "order_state_parse raw =
     (if raw = ''open'' then Inr Open
      else if raw = ''partially_filled'' then Inr PartiallyFilled
      else if raw = ''filled'' then Inr Filled
      else if raw = ''cancelled'' then Inr Cancelled
      else if raw = ''rejected'' then Inr Rejected
      else Inl (Validation (''unknown order state: '' @ raw)))"

definition is_resting :: "order_state \<Rightarrow> bool" where
  "is_resting s \<longleftrightarrow> s = Open \<or> s = PartiallyFilled"

datatype cancel_reason = User | IocRemainder | MarketRemainder

fun cancel_reason_str :: "cancel_reason \<Rightarrow> string" where
  "cancel_reason_str User = ''user''"
| "cancel_reason_str IocRemainder = ''ioc_remainder''"
| "cancel_reason_str MarketRemainder = ''market_remainder''"

definition cancel_reason_parse :: "string \<Rightarrow> cancel_reason result" where
  "cancel_reason_parse raw =
     (if raw = ''user'' then Inr User
      else if raw = ''ioc_remainder'' then Inr IocRemainder
      else if raw = ''market_remainder'' then Inr MarketRemainder
      else Inl (Validation (''unknown cancel reason: '' @ raw)))"

fun remainder_of :: "order_kind \<Rightarrow> cancel_reason" where
  "remainder_of Market = MarketRemainder"
| "remainder_of Limit = IocRemainder"

datatype candle_resolution = M1 | M5 | M15 | H1 | H4 | D1

fun resolution_str :: "candle_resolution \<Rightarrow> string" where
  "resolution_str M1 = ''1m''"
| "resolution_str M5 = ''5m''"
| "resolution_str M15 = ''15m''"
| "resolution_str H1 = ''1h''"
| "resolution_str H4 = ''4h''"
| "resolution_str D1 = ''1d''"

definition resolution_parse :: "string \<Rightarrow> candle_resolution result" where
  "resolution_parse raw =
     (if raw = ''1m'' then Inr M1
      else if raw = ''5m'' then Inr M5
      else if raw = ''15m'' then Inr M15
      else if raw = ''1h'' then Inr H1
      else if raw = ''4h'' then Inr H4
      else if raw = ''1d'' then Inr D1
      else Inl (Validation (''unknown candle resolution: '' @ raw)))"

fun resolution_seconds :: "candle_resolution \<Rightarrow> i64" where
  "resolution_seconds M1 = 60"
| "resolution_seconds M5 = 5 * 60"
| "resolution_seconds M15 = 15 * 60"
| "resolution_seconds H1 = 60 * 60"
| "resolution_seconds H4 = 4 * 60 * 60"
| "resolution_seconds D1 = 24 * 60 * 60"

section \<open>Prices\<close>

datatype price = Price (price_units: u128)

abbreviation price_val :: "price \<Rightarrow> nat" where
  "price_val p \<equiv> unat (price_units p)"

instantiation price :: linorder
begin

definition less_eq_price :: "price \<Rightarrow> price \<Rightarrow> bool" where
  "less_eq_price a b \<longleftrightarrow> price_units a \<le> price_units b"

definition less_price :: "price \<Rightarrow> price \<Rightarrow> bool" where
  "less_price a b \<longleftrightarrow> price_units a < price_units b"

instance
  by intro_classes (auto simp: less_eq_price_def less_price_def price.expand)

end

definition price_is_zero :: "price \<Rightarrow> bool" where
  "price_is_zero p \<longleftrightarrow> price_units p = 0"

definition price_parse_decimal :: "string \<Rightarrow> price result" where
  "price_parse_decimal raw = rmap (\<lambda>u. Price (usdt_units u)) (parse_decimal raw)"

definition price_to_decimal_string :: "price \<Rightarrow> string" where
  "price_to_decimal_string p = to_decimal_string (Usdt (price_units p))"

definition price_value :: "price \<Rightarrow> shares \<Rightarrow> usdt result" where
  "price_value p units =
     ok_or (map_option Usdt (mul_div_floor (shares_units units) (price_units p) SCALE))
       (Validation ''trade value overflows'')"

definition price_average :: "usdt \<Rightarrow> shares \<Rightarrow> price option" where
  "price_average notional units =
     (if shares_is_zero units then None
      else map_option Price (mul_div_floor (usdt_units notional) SCALE (shares_units units)))"

definition price_scale :: "price \<Rightarrow> u128 \<Rightarrow> u128 \<Rightarrow> price result" where
  "price_scale p numer denom =
     ok_or (map_option Price (mul_div_floor (price_units p) numer denom))
       (Validation ''price scaling overflows or divides by zero'')"

definition price_is_aligned :: "price \<Rightarrow> price \<Rightarrow> bool" where
  "price_is_aligned p tick \<longleftrightarrow> \<not> price_is_zero tick \<and> is_multiple_of (price_units p) (price_units tick)"

definition price_floor_to :: "price \<Rightarrow> price \<Rightarrow> price" where
  "price_floor_to p tick =
     (if price_is_zero tick then p
      else Price (price_units p - price_units p mod price_units tick))"

definition price_ceil_to :: "price \<Rightarrow> price \<Rightarrow> price" where
  "price_ceil_to p tick =
     (if price_is_zero tick \<or> is_multiple_of (price_units p) (price_units tick) then p
      else Price (saturating_add (price_units (price_floor_to p tick)) (price_units tick)))"

definition price_serialize :: "price \<Rightarrow> string" where
  "price_serialize p = show_u128 (price_units p)"

definition price_deserialize :: "string \<Rightarrow> price option" where
  "price_deserialize raw = map_option Price (parse_u128 raw)"

section \<open>Terms of trade\<close>

datatype order_size = OrderSize (order_size_shares: shares)

record book_policy =
  bp_open :: bool
  bp_taker_fee_bps :: u32
  bp_price_tick :: price
  bp_lot_size :: shares
  bp_market_slippage_bps :: u32
  bp_allow_unbacked :: bool

definition DEFAULT_LOT_SIZE :: shares where
  "DEFAULT_LOT_SIZE = Shares (SCALE div 10000)"

definition DEFAULT_MARKET_SLIPPAGE_BPS :: u32 where
  "DEFAULT_MARKET_SLIPPAGE_BPS = 500"

definition DEFAULT_PRICE_TICK :: price where
  "DEFAULT_PRICE_TICK = Price (SCALE div 100)"

definition book_policy_new ::
  "bool \<Rightarrow> u32 \<Rightarrow> price \<Rightarrow> shares \<Rightarrow> u32 \<Rightarrow> bool \<Rightarrow> book_policy result" where
  "book_policy_new book_open taker_fee_bps price_tick lot_size market_slippage_bps allow_unbacked =
     (if BPS_DENOMINATOR < ucast taker_fee_bps
      then Inl (Validation (''taker fee must be at most '' @ show_u128 BPS_DENOMINATOR @ '' bps''))
      else if BPS_DENOMINATOR < ucast market_slippage_bps
      then Inl (Validation (''market slippage must be at most '' @ show_u128 BPS_DENOMINATOR @ '' bps''))
      else if price_is_zero price_tick then Inl (Validation ''price tick must be positive'')
      else if shares_is_zero lot_size then Inl (Validation ''lot size must be positive'')
      else Inr \<lparr>bp_open = book_open, bp_taker_fee_bps = taker_fee_bps, bp_price_tick = price_tick,
                bp_lot_size = lot_size, bp_market_slippage_bps = market_slippage_bps,
                bp_allow_unbacked = allow_unbacked\<rparr>)"

definition book_policy_default :: book_policy where
  "book_policy_default = \<lparr>bp_open = False, bp_taker_fee_bps = 0, bp_price_tick = DEFAULT_PRICE_TICK,
     bp_lot_size = DEFAULT_LOT_SIZE, bp_market_slippage_bps = DEFAULT_MARKET_SLIPPAGE_BPS,
     bp_allow_unbacked = False\<rparr>"

definition ensure_tradable_for :: "book_policy \<Rightarrow> service_id \<Rightarrow> allocation_backing \<Rightarrow> unit result" where
  "ensure_tradable_for policy service backing =
     (if \<not> bp_open policy
      then Inl (Precondition (''the book for '' @ [CHR 0x27] @ service_id_str service @ [CHR 0x27] @ '' is closed''))
      else case backing of
        Cash \<Rightarrow> Inr ()
      | InKind \<Rightarrow>
          if bp_allow_unbacked policy then Inr ()
          else Inl (Precondition (''the book on '' @ [CHR 0x27] @ service_id_str service @ [CHR 0x27] @
            '' trades units that are not backed by fund cash '' @ em_dash @
            '' an operator must acknowledge unbacked trading (allow_unbacked_trading) before the book opens'')))"

definition policy_price :: "book_policy \<Rightarrow> price \<Rightarrow> price result" where
  "policy_price policy p =
     (if price_is_zero p then Inl (Validation ''price must be positive'')
      else if \<not> price_is_aligned p (bp_price_tick policy)
      then Inl (Validation (''price must be a multiple of the '' @
             price_to_decimal_string (bp_price_tick policy) @ '' tick''))
      else Inr p)"

definition policy_size :: "book_policy \<Rightarrow> shares \<Rightarrow> order_size result" where
  "policy_size policy sz =
     (if shares_is_zero sz then Inl (Validation ''size must be positive'')
      else if \<not> is_multiple_of (shares_units sz) (shares_units (bp_lot_size policy))
      then Inl (Validation (''size must be a multiple of the '' @
             shares_to_decimal_string (bp_lot_size policy) @ '' lot''))
      else Inr (OrderSize sz))"

definition taker_fee :: "book_policy \<Rightarrow> usdt \<Rightarrow> usdt result" where
  "taker_fee policy notional = usdt_scale notional (ucast (bp_taker_fee_bps policy)) BPS_DENOMINATOR"

definition buy_reserve :: "book_policy \<Rightarrow> shares \<Rightarrow> price \<Rightarrow> usdt result" where
  "buy_reserve policy sz p =
     rbind (price_value p sz) (\<lambda>notional.
     rbind (taker_fee policy notional) (\<lambda>fee.
     ok_or (usdt_checked_add notional fee) (Validation ''order reserve overflows'')))"

definition market_limit :: "book_policy \<Rightarrow> side \<Rightarrow> price \<Rightarrow> price result" where
  "market_limit policy sd best_opposite =
     (let slippage = ucast (bp_market_slippage_bps policy) in
      rbind (case sd of
               Buy \<Rightarrow> rmap (\<lambda>p. price_ceil_to p (bp_price_tick policy))
                 (price_scale best_opposite (BPS_DENOMINATOR + slippage) BPS_DENOMINATOR)
             | Sell \<Rightarrow> rmap (\<lambda>p. price_floor_to p (bp_price_tick policy))
                 (price_scale best_opposite (BPS_DENOMINATOR - slippage) BPS_DENOMINATOR)) (\<lambda>limit.
      if price_is_zero limit then Inl (Validation ''market sell would fill at a zero price'')
      else Inr limit))"

section \<open>Stored names\<close>

interpretation side_text: exact_codec side_str side_parse
proof
  show "side_parse (side_str x) = Inr x" for x by (cases x) (simp_all add: side_parse_def)
  show "side_parse s = Inr x \<Longrightarrow> side_str x = s" for s x by (auto simp: side_parse_def split: if_splits)
qed

interpretation order_kind_text: exact_codec order_kind_str order_kind_parse
proof
  show "order_kind_parse (order_kind_str x) = Inr x" for x by (cases x) (simp_all add: order_kind_parse_def)
  show "order_kind_parse s = Inr x \<Longrightarrow> order_kind_str x = s" for s x
    by (auto simp: order_kind_parse_def split: if_splits)
qed

interpretation tif_text: exact_codec tif_str tif_parse
proof
  show "tif_parse (tif_str x) = Inr x" for x by (cases x) (simp_all add: tif_parse_def)
  show "tif_parse s = Inr x \<Longrightarrow> tif_str x = s" for s x by (auto simp: tif_parse_def split: if_splits)
qed

interpretation order_state_text: exact_codec order_state_str order_state_parse
proof
  show "order_state_parse (order_state_str x) = Inr x" for x by (cases x) (simp_all add: order_state_parse_def)
  show "order_state_parse s = Inr x \<Longrightarrow> order_state_str x = s" for s x
    by (auto simp: order_state_parse_def split: if_splits)
qed

interpretation cancel_reason_text: exact_codec cancel_reason_str cancel_reason_parse
proof
  show "cancel_reason_parse (cancel_reason_str x) = Inr x" for x
    by (cases x) (simp_all add: cancel_reason_parse_def)
  show "cancel_reason_parse s = Inr x \<Longrightarrow> cancel_reason_str x = s" for s x
    by (auto simp: cancel_reason_parse_def split: if_splits)
qed

interpretation resolution_text: exact_codec resolution_str resolution_parse
proof
  show "resolution_parse (resolution_str x) = Inr x" for x by (cases x) (simp_all add: resolution_parse_def)
  show "resolution_parse s = Inr x \<Longrightarrow> resolution_str x = s" for s x
    by (auto simp: resolution_parse_def split: if_splits)
qed

section \<open>Prices as numbers\<close>

lemma price_eq_iff: "a = b \<longleftrightarrow> price_val a = price_val b"
  by (metis unsigned_word_eqI price.expand)

lemma price_newtype_iff: "Price x = p \<longleftrightarrow> x = price_units p"
  by (cases p) simp

lemma price_order [nat_arith]:
  "a \<le> b \<longleftrightarrow> price_val a \<le> price_val b" "a < b \<longleftrightarrow> price_val a < price_val b"
  by (simp_all add: less_eq_price_def less_price_def word_le_nat_alt word_less_nat_alt)

lemma price_zero_iff [nat_arith]: "price_is_zero p \<longleftrightarrow> price_val p = 0"
  by (simp add: price_is_zero_def unat_eq_0)

lemma unat_bps_denominator [simp]: "unat BPS_DENOMINATOR = 10000" "BPS_DENOMINATOR \<noteq> 0"
  by (simp_all add: BPS_DENOMINATOR_def)

lemma price_value_iff [nat_arith]:
  "price_value p units = Inr cash \<longleftrightarrow> usdt_val cash = shares_val units * price_val p div 10 ^ 18"
  by (simp add: price_value_def newtype_eq_iff nat_arith)

lemma price_scale_iff [nat_arith]:
  "price_scale p numer denom = Inr q \<longleftrightarrow> denom \<noteq> 0 \<and> price_val q = price_val p * unat numer div unat denom"
  by (simp add: price_scale_def price_newtype_iff nat_arith)

lemma price_average_iff:
  "price_average notional units = Some p \<longleftrightarrow>
     shares_val units \<noteq> 0 \<and> price_val p = usdt_val notional * 10 ^ 18 div shares_val units"
  by (simp add: price_average_def price_newtype_iff nat_arith unat_eq_0)

lemma taker_fee_iff [nat_arith]:
  "taker_fee policy notional = Inr fee \<longleftrightarrow>
     usdt_val fee = usdt_val notional * unat (bp_taker_fee_bps policy) div 10000"
  by (simp add: taker_fee_def nat_arith)

lemma price_aligned_iff [nat_arith]:
  "price_is_aligned p tick \<longleftrightarrow> price_val tick \<noteq> 0 \<and> price_val tick dvd price_val p"
  by (simp add: price_is_aligned_def nat_arith)

lemma price_floor_val:
  "price_val (price_floor_to p tick) = (if price_val tick = 0 then price_val p
     else price_val p div price_val tick * price_val tick)"
proof (cases "price_is_zero tick")
  case True
  then show ?thesis by (simp add: price_floor_to_def price_zero_iff)
next
  case False
  have "price_units p mod price_units tick \<le> price_units p"
    by (simp add: word_le_nat_alt unat_mod_distrib)
  then have "price_val (price_floor_to p tick) = price_val p - price_val p mod price_val tick"
    using False by (simp add: price_floor_to_def unat_sub_no_wrap unat_mod_distrib)
  then show ?thesis
    using False minus_mod_eq_div_mult [of "price_val p" "price_val tick"] by (simp add: price_zero_iff)
qed

lemma price_ceil_val:
  "price_val (price_ceil_to p tick) = (if price_val tick = 0 \<or> price_val tick dvd price_val p then price_val p
     else min (price_val p div price_val tick * price_val tick + price_val tick) (2 ^ 128 - 1))"
  by (simp add: price_ceil_to_def nat_arith unat_saturating_add price_floor_val)

lemma le_ceil_multiple: "(x::nat) \<le> x div t * t + t" if "0 < t"
  using that dividend_less_div_times [of t x] by (simp add: less_imp_le add.commute)

section \<open>Terms as numbers\<close>

text \<open>What \<open>book_policy_new\<close> admits.\<close>

definition book_policy_ok :: "book_policy \<Rightarrow> bool" where
  "book_policy_ok policy \<longleftrightarrow>
     unat (bp_taker_fee_bps policy) \<le> 10000 \<and> unat (bp_market_slippage_bps policy) \<le> 10000 \<and>
     price_val (bp_price_tick policy) \<noteq> 0 \<and> shares_val (bp_lot_size policy) \<noteq> 0"

lemma book_policy_new_ok: "book_policy_new b f t l s u = Inr policy \<Longrightarrow> book_policy_ok policy"
  by (auto simp: book_policy_new_def book_policy_ok_def not_less word_le_nat_alt nat_arith split: if_splits)

lemma book_policy_default_ok: "book_policy_ok book_policy_default"
  by (simp add: book_policy_ok_def book_policy_default_def DEFAULT_PRICE_TICK_def DEFAULT_LOT_SIZE_def
      DEFAULT_MARKET_SLIPPAGE_BPS_def SCALE_def)

lemma policy_price_iff:
  "policy_price policy p = Inr q \<longleftrightarrow> q = p \<and> price_val p \<noteq> 0 \<and>
     price_val (bp_price_tick policy) \<noteq> 0 \<and> price_val (bp_price_tick policy) dvd price_val p"
  by (auto simp: policy_price_def nat_arith)

lemma policy_size_iff:
  "policy_size policy sz = Inr q \<longleftrightarrow> q = OrderSize sz \<and> shares_val sz \<noteq> 0 \<and>
     shares_val (bp_lot_size policy) dvd shares_val sz"
  by (auto simp: policy_size_def nat_arith)

lemma ensure_tradable_iff:
  "ensure_tradable_for policy service backing = Inr u \<longleftrightarrow>
     bp_open policy \<and> (backing = InKind \<longrightarrow> bp_allow_unbacked policy)"
  by (cases backing) (auto simp: ensure_tradable_for_def)

lemma buy_reserve_val:
  assumes "buy_reserve policy sz p = Inr r"
  shows "usdt_val r = shares_val sz * price_val p div 10 ^ 18
    + shares_val sz * price_val p div 10 ^ 18 * unat (bp_taker_fee_bps policy) div 10000"
  using assms by (auto simp: buy_reserve_def result_iffs nat_arith)

section \<open>The properties\<close>

lemma market_limit_val:
  assumes "market_limit policy sd best = Inr limit"
  shows "price_val limit \<noteq> 0 \<and>
    (sd = Buy \<longrightarrow> (\<exists>p. price_val p = price_val best * (10000 + unat (bp_market_slippage_bps policy)) div 10000 \<and>
       limit = price_ceil_to p (bp_price_tick policy))) \<and>
    (sd = Sell \<and> unat (bp_market_slippage_bps policy) \<le> 10000 \<longrightarrow>
       (\<exists>p. price_val p = price_val best * (10000 - unat (bp_market_slippage_bps policy)) div 10000 \<and>
       limit = price_floor_to p (bp_price_tick policy)))"
proof -
  define s where "s = bp_market_slippage_bps policy"
  have up: "unat (BPS_DENOMINATOR + ucast s) = 10000 + unat s"
    using unsigned_less [where 'a = nat, of s] by (subst unat_add_no_wrap) simp_all
  have down: "unat s \<le> 10000 \<Longrightarrow> unat (BPS_DENOMINATOR - ucast s) = 10000 - unat s"
    by (subst unat_sub_no_wrap) (simp_all add: word_le_nat_alt)
  from assms show ?thesis
    by (cases sd) (auto simp: market_limit_def Let_def result_iffs nat_arith up [unfolded s_def] down [unfolded s_def] split: if_splits)
qed




end
