(* ===== verification/Orders.thy ===== *)
theory Orders
  imports BookTypes
begin

text \<open>
  One order of the book (\<^verbatim>\<open>Order\<close> and \<^verbatim>\<open>Locked\<close> of \<^verbatim>\<open>domain/src/book.rs\<close>): its
  placement, a fill, a cancel and what its escrow hands back.  A method that takes
  \<^verbatim>\<open>&mut self\<close> returns the order as it leaves it together with its result, so that a
  fill refused half-way shows what it had already written.  The lemmas are the order's
  invariant, that every step keeps it, and that the escrow a buy commits covers whatever its
  fills and fees take.
\<close>

section \<open>Orders\<close>

datatype locked = Units shares | Locked_Cash usdt

fun locked_is_zero :: "locked \<Rightarrow> bool" where
  "locked_is_zero (Units u) = shares_is_zero u"
| "locked_is_zero (Locked_Cash c) = usdt_is_zero c"

record order =
  o_id :: uuid
  o_service :: service_id
  o_user :: uuid
  o_client_order_id :: client_order_id
  o_side :: side
  o_kind :: order_kind
  o_tif :: tif
  o_price :: price
  o_size :: shares
  o_filled :: shares
  o_notional_filled :: usdt
  o_fee_paid :: usdt
  o_reserved :: locked
  o_state :: order_state
  o_reject_reason :: "string option"
  o_cancel_reason :: "cancel_reason option"

definition order_place ::
  "uuid \<Rightarrow> service_id \<Rightarrow> uuid \<Rightarrow> client_order_id \<Rightarrow> side \<Rightarrow> order_kind \<Rightarrow> tif \<Rightarrow> price
    \<Rightarrow> order_size \<Rightarrow> locked \<Rightarrow> order" where
  "order_place i service user client sd kind tf p sz reserved =
     \<lparr>o_id = i, o_service = service, o_user = user, o_client_order_id = client, o_side = sd,
      o_kind = kind, o_tif = tf, o_price = p, o_size = order_size_shares sz, o_filled = SHARES_ZERO,
      o_notional_filled = USDT_ZERO, o_fee_paid = USDT_ZERO, o_reserved = reserved, o_state = Open,
      o_reject_reason = None, o_cancel_reason = None\<rparr>"

definition matches_request :: "order \<Rightarrow> service_id \<Rightarrow> side \<Rightarrow> order_kind \<Rightarrow> tif \<Rightarrow> shares \<Rightarrow> bool" where
  "matches_request o1 service sd kind tf sz \<longleftrightarrow>
     o_service o1 = service \<and> o_side o1 = sd \<and> o_kind o1 = kind \<and> o_tif o1 = tf \<and> o_size o1 = sz"

definition order_remaining :: "order \<Rightarrow> shares" where
  "order_remaining o1 =
     (case shares_checked_sub (o_size o1) (o_filled o1) of Some r \<Rightarrow> r | None \<Rightarrow> SHARES_ZERO)"

definition order_fill :: "order \<Rightarrow> shares \<Rightarrow> price \<Rightarrow> usdt \<Rightarrow> order \<times> unit result" where
  "order_fill o1 sz p fee =
     (if \<not> is_resting (o_state o1)
      then (o1, Inl (Conflict (''order is '' @ order_state_str (o_state o1) @ '', not fillable'')))
      else if shares_is_zero sz \<or> order_remaining o1 < sz
      then (o1, Inl (Validation (''fill exceeds the order'' @ [CHR 0x27] @ ''s remaining size'')))
      else case price_value p sz of
        Inl e \<Rightarrow> (o1, Inl e)
      | Inr notional \<Rightarrow>
          (case shares_checked_add (o_filled o1) sz of
             None \<Rightarrow> (o1, Inl (Validation ''filled size overflows''))
           | Some filled \<Rightarrow>
               let o1 = o1\<lparr>o_filled := filled\<rparr> in
               (case usdt_checked_add (o_notional_filled o1) notional of
                  None \<Rightarrow> (o1, Inl (Validation ''filled notional overflows''))
                | Some notional_filled \<Rightarrow>
                    let o1 = o1\<lparr>o_notional_filled := notional_filled\<rparr> in
                    (case usdt_checked_add (o_fee_paid o1) fee of
                       None \<Rightarrow> (o1, Inl (Validation ''fee paid overflows''))
                     | Some fee_paid \<Rightarrow>
                         let o1 = o1\<lparr>o_fee_paid := fee_paid\<rparr> in
                         (o1\<lparr>o_state := if o_filled o1 = o_size o1 then Filled else PartiallyFilled\<rparr>,
                          Inr ())))))"

definition order_cancel :: "order \<Rightarrow> cancel_reason \<Rightarrow> order \<times> unit result" where
  "order_cancel o1 reason =
     (case o_state o1 of
        Cancelled \<Rightarrow> (o1, Inr ())
      | Open \<Rightarrow> (o1\<lparr>o_state := Cancelled, o_cancel_reason := Some reason\<rparr>, Inr ())
      | PartiallyFilled \<Rightarrow> (o1\<lparr>o_state := Cancelled, o_cancel_reason := Some reason\<rparr>, Inr ())
      | _ \<Rightarrow> (o1, Inl (Conflict (''order is '' @ order_state_str (o_state o1) @ '', not cancellable''))))"

definition order_release :: "order \<Rightarrow> locked option" where
  "order_release o1 =
     (if is_resting (o_state o1) \<or> o_state o1 = Rejected then None
      else Option.bind
        (case o_reserved o1 of
           Units units \<Rightarrow> map_option Units (shares_checked_sub units (o_filled o1))
         | Locked_Cash cash \<Rightarrow>
             map_option Locked_Cash (Option.bind (usdt_checked_sub cash (o_notional_filled o1))
               (\<lambda>left. usdt_checked_sub left (o_fee_paid o1))))
        (\<lambda>left. if \<not> locked_is_zero left then Some left else None))"

definition average_fill_price :: "order \<Rightarrow> price option" where
  "average_fill_price o1 = price_average (o_notional_filled o1) (o_filled o1)"

section \<open>Reading an order\<close>

lemma remaining_val: "shares_val (order_remaining o1) = shares_val (o_size o1) - shares_val (o_filled o1)"
  by (simp add: order_remaining_def nat_arith split: option.splits)

lemma order_fill_InrE:
  assumes "order_fill o1 sz p fee = (o2, Inr u)"
  obtains filled notional_filled fee_paid where "is_resting (o_state o1)" "0 < shares_val sz"
    and "shares_val sz \<le> shares_val (o_size o1) - shares_val (o_filled o1)"
    and "shares_val filled = shares_val (o_filled o1) + shares_val sz"
    and "usdt_val notional_filled =
      usdt_val (o_notional_filled o1) + shares_val sz * price_val p div 10 ^ 18"
    and "usdt_val fee_paid = usdt_val (o_fee_paid o1) + usdt_val fee"
    and "o2 = o1\<lparr>o_filled := filled, o_notional_filled := notional_filled, o_fee_paid := fee_paid,
      o_state := if filled = o_size o1 then Filled else PartiallyFilled\<rparr>"
proof -
  from assms obtain notional filled nf fp where
    1: "is_resting (o_state o1)" "\<not> shares_is_zero sz" "\<not> order_remaining o1 < sz"
      "price_value p sz = Inr notional" "shares_checked_add (o_filled o1) sz = Some filled"
      "usdt_checked_add (o_notional_filled o1) notional = Some nf"
      "usdt_checked_add (o_fee_paid o1) fee = Some fp"
    and o2: "o2 = o1\<lparr>o_filled := filled, o_notional_filled := nf, o_fee_paid := fp,
      o_state := if filled = o_size o1 then Filled else PartiallyFilled\<rparr>"
    by (auto simp: order_fill_def Let_def split: if_splits sum.splits option.splits)
  from 1 have "0 < shares_val sz" "shares_val sz \<le> shares_val (o_size o1) - shares_val (o_filled o1)"
    "shares_val filled = shares_val (o_filled o1) + shares_val sz"
    "usdt_val nf = usdt_val (o_notional_filled o1) + shares_val sz * price_val p div 10 ^ 18"
    "usdt_val fp = usdt_val (o_fee_paid o1) + usdt_val fee"
    by (simp_all add: nat_arith remaining_val not_less)
  from that [OF 1(1) this o2] show thesis .
qed

lemma order_cancel_InrE:
  assumes "order_cancel o1 reason = (o2, Inr u)"
  obtains "o_state o1 = Cancelled" "o2 = o1"
  | "is_resting (o_state o1)" "o2 = o1\<lparr>o_state := Cancelled, o_cancel_reason := Some reason\<rparr>"
  using assms by (auto simp: order_cancel_def is_resting_def split: order_state.splits)

section \<open>The invariant of an order\<close>

text \<open>State, progress and reasons agree; a fill never passes the size.\<close>

definition progress_ok :: "order \<Rightarrow> bool" where
  "progress_ok o1 \<longleftrightarrow>
     0 < shares_val (o_size o1) \<and> shares_val (o_filled o1) \<le> shares_val (o_size o1) \<and>
     (o_state o1 = Open \<longrightarrow> shares_val (o_filled o1) = 0) \<and>
     (o_state o1 = PartiallyFilled \<longrightarrow> 0 < shares_val (o_filled o1)) \<and>
     (o_state o1 = Filled \<longleftrightarrow> o_filled o1 = o_size o1) \<and>
     (o_state o1 = Cancelled \<longleftrightarrow> o_cancel_reason o1 \<noteq> None)"

text \<open>
  What the escrow has to cover.  A sell commits its units; a buy commits its notional at the
  limit and the fee on it at the rate \<open>bps\<close> it was placed under.
\<close>

definition escrow_within :: "nat \<Rightarrow> order \<Rightarrow> bool" where
  "escrow_within bps o1 \<longleftrightarrow>
     (case o_side o1 of
        Sell \<Rightarrow> o_reserved o1 = Units (o_size o1) \<and>
          usdt_val (o_fee_paid o1) \<le> usdt_val (o_notional_filled o1)
      | Buy \<Rightarrow> \<exists>cash. o_reserved o1 = Locked_Cash cash \<and>
          usdt_val cash = shares_val (o_size o1) * price_val (o_price o1) div 10 ^ 18
            + shares_val (o_size o1) * price_val (o_price o1) div 10 ^ 18 * bps div 10000 \<and>
          usdt_val (o_notional_filled o1) * 10 ^ 18 \<le> shares_val (o_filled o1) * price_val (o_price o1) \<and>
          usdt_val (o_fee_paid o1) \<le> usdt_val (o_notional_filled o1) * bps div 10000)"

definition order_ok :: "order \<Rightarrow> bool" where
  "order_ok o1 \<longleftrightarrow> progress_ok o1 \<and> (\<exists>bps. escrow_within bps o1)"

text \<open>A price the order's limit allows, and a fee its escrow was sized for.\<close>

definition within_limit :: "order \<Rightarrow> price \<Rightarrow> bool" where
  "within_limit o1 p \<longleftrightarrow> (case o_side o1 of Buy \<Rightarrow> p \<le> o_price o1 | Sell \<Rightarrow> o_price o1 \<le> p)"

definition fee_within :: "nat \<Rightarrow> order \<Rightarrow> shares \<Rightarrow> price \<Rightarrow> usdt \<Rightarrow> bool" where
  "fee_within bps o1 sz p fee \<longleftrightarrow>
     (let notional = shares_val sz * price_val p div 10 ^ 18 in
      case o_side o1 of
        Buy \<Rightarrow> usdt_val fee \<le> notional * bps div 10000
      | Sell \<Rightarrow> usdt_val fee \<le> notional)"

section \<open>Steps keep the invariant\<close>

lemma div_add_le: "(x::nat) div k + y div k \<le> (x + y) div k"
proof (cases "k = 0")
  case False
  have "(x div k + y div k) * k \<le> x + y"
    unfolding add_mult_distrib by (intro add_mono div_times_less_eq_dividend)
  with False show ?thesis by (simp add: less_eq_div_iff_mult_less_eq)
qed simp

lemma progress_place:
  "shares_val (order_size_shares sz) \<noteq> 0 \<Longrightarrow>
    progress_ok (order_place i s u c sd k tf p sz r)"
  by (auto simp: progress_ok_def order_place_def shares_eq_iff)

lemma escrow_place_buy:
  "buy_reserve policy (order_size_shares sz) p = Inr cash \<Longrightarrow>
    escrow_within (unat (bp_taker_fee_bps policy)) (order_place i s u c Buy k tf p sz (Locked_Cash cash))"
  by (simp add: escrow_within_def order_place_def buy_reserve_val)

lemma escrow_place_sell:
  "escrow_within bps (order_place i s u c Sell k tf p sz (Units (order_size_shares sz)))"
  by (simp add: escrow_within_def order_place_def)

lemma progress_fill:
  assumes "order_fill o1 sz p fee = (o2, Inr u)" "progress_ok o1"
  shows "progress_ok o2"
proof -
  obtain filled nf fp where f: "is_resting (o_state o1)" "0 < shares_val sz"
    "shares_val sz \<le> shares_val (o_size o1) - shares_val (o_filled o1)"
    "shares_val filled = shares_val (o_filled o1) + shares_val sz"
    and o2: "o2 = o1\<lparr>o_filled := filled, o_notional_filled := nf, o_fee_paid := fp,
      o_state := if filled = o_size o1 then Filled else PartiallyFilled\<rparr>"
    by (rule order_fill_InrE [OF assms(1)]) (rule that; assumption)
  from f have "0 < shares_val filled" "shares_val filled \<le> shares_val (o_size o1)" by linarith+
  with f assms(2) show ?thesis by (auto simp: progress_ok_def is_resting_def o2)
qed

lemma escrow_fill:
  assumes fill: "order_fill o1 sz p fee = (o2, Inr u)" and ok: "escrow_within bps o1"
    and lim: "within_limit o1 p" and fee: "fee_within bps o1 sz p fee"
  shows "escrow_within bps o2"
proof -
  define n where "n = shares_val sz * price_val p div 10 ^ 18"
  obtain filled nf fp where f: "shares_val filled = shares_val (o_filled o1) + shares_val sz"
    and nf: "usdt_val nf = usdt_val (o_notional_filled o1) + n"
    and fp: "usdt_val fp = usdt_val (o_fee_paid o1) + usdt_val fee"
    and o2: "o2 = o1\<lparr>o_filled := filled, o_notional_filled := nf, o_fee_paid := fp,
      o_state := if filled = o_size o1 then Filled else PartiallyFilled\<rparr>"
    by (rule order_fill_InrE [OF fill]) (simp add: n_def)
  show ?thesis
  proof (cases "o_side o1")
    case Sell
    then show ?thesis
      using ok fee by (simp add: escrow_within_def fee_within_def o2 nf fp n_def)
  next
    case Buy
    have "n * 10 ^ 18 \<le> shares_val sz * price_val p" by (simp add: n_def)
    also have "\<dots> \<le> shares_val sz * price_val (o_price o1)"
      using lim Buy by (simp add: within_limit_def price_order)
    finally have "(usdt_val (o_notional_filled o1) + n) * 10 ^ 18
        \<le> (shares_val (o_filled o1) + shares_val sz) * price_val (o_price o1)"
      using ok Buy by (auto simp: escrow_within_def add_mult_distrib)
    moreover have "usdt_val (o_fee_paid o1) + usdt_val fee
        \<le> (usdt_val (o_notional_filled o1) + n) * bps div 10000"
      using ok fee Buy div_add_le [of "usdt_val (o_notional_filled o1) * bps" 10000 "n * bps"]
      by (auto simp: escrow_within_def fee_within_def n_def Let_def add_mult_distrib)
    ultimately show ?thesis
      using ok Buy by (auto simp: escrow_within_def o2 f nf fp)
  qed
qed

lemma progress_cancel: "order_cancel o1 r = (o2, Inr u) \<Longrightarrow> progress_ok o1 \<Longrightarrow> progress_ok o2"
  by (erule order_cancel_InrE) (auto simp: progress_ok_def is_resting_def)

lemma escrow_cancel: "order_cancel o1 r = (o2, Inr u) \<Longrightarrow> escrow_within bps o1 \<Longrightarrow> escrow_within bps o2"
  by (erule order_cancel_InrE) (auto simp: escrow_within_def split: side.splits)

section \<open>What the escrow covers\<close>

definition order_spent :: "order \<Rightarrow> nat" where
  "order_spent o1 =
     (case o_reserved o1 of
        Units _ \<Rightarrow> shares_val (o_filled o1)
      | Locked_Cash _ \<Rightarrow> usdt_val (o_notional_filled o1) + usdt_val (o_fee_paid o1))"

fun locked_val :: "locked \<Rightarrow> nat" where
  "locked_val (Units u) = shares_val u"
| "locked_val (Locked_Cash c) = usdt_val c"

definition released_val :: "locked option \<Rightarrow> nat" where
  "released_val r = (case r of None \<Rightarrow> 0 | Some l \<Rightarrow> locked_val l)"

lemma escrow_covers:
  assumes "order_ok o1"
  shows "order_spent o1 \<le> locked_val (o_reserved o1)"
proof -
  obtain bps where e: "escrow_within bps o1" and p: "progress_ok o1"
    using assms by (auto simp: order_ok_def)
  show ?thesis
  proof (cases "o_side o1")
    case Sell
    then show ?thesis using e p by (simp add: escrow_within_def order_spent_def progress_ok_def)
  next
    case Buy
    then obtain cash where cash: "o_reserved o1 = Locked_Cash cash"
      "usdt_val cash = shares_val (o_size o1) * price_val (o_price o1) div 10 ^ 18
         + shares_val (o_size o1) * price_val (o_price o1) div 10 ^ 18 * bps div 10000"
      and n: "usdt_val (o_notional_filled o1) * 10 ^ 18 \<le> shares_val (o_filled o1) * price_val (o_price o1)"
      and f: "usdt_val (o_fee_paid o1) \<le> usdt_val (o_notional_filled o1) * bps div 10000"
      using e by (auto simp: escrow_within_def)
    have "shares_val (o_filled o1) * price_val (o_price o1) \<le> shares_val (o_size o1) * price_val (o_price o1)"
      using p by (simp add: progress_ok_def)
    with n have "usdt_val (o_notional_filled o1) * 10 ^ 18 \<le> shares_val (o_size o1) * price_val (o_price o1)"
      by (rule le_trans)
    then have N: "usdt_val (o_notional_filled o1) \<le> shares_val (o_size o1) * price_val (o_price o1) div 10 ^ 18"
      by (subst less_eq_div_iff_mult_less_eq) simp_all
    then have "usdt_val (o_notional_filled o1) * bps div 10000
        \<le> shares_val (o_size o1) * price_val (o_price o1) div 10 ^ 18 * bps div 10000"
      by (intro div_le_mono mult_le_mono1)
    with N f show ?thesis using cash by (simp add: order_spent_def)
  qed
qed

lemma release_exact:
  assumes "order_ok o1" "o_state o1 \<in> {Filled, Cancelled}"
  shows "order_spent o1 + released_val (order_release o1) = locked_val (o_reserved o1)"
proof -
  have "\<not> is_resting (o_state o1)" "o_state o1 \<noteq> Rejected" using assms(2) by (auto simp: is_resting_def)
  with escrow_covers [OF assms(1)] show ?thesis
    by (cases "o_reserved o1")
      (auto simp: order_release_def order_spent_def released_val_def nat_arith bind_eq_Some_conv
        split: option.splits bind_split)
qed

end
