(* ===== verification/Matching.thy ===== *)
theory Matching
  imports Orders
begin

text \<open>
  The matching seam (\<^verbatim>\<open>MatchingEngine\<close> and \<^verbatim>\<open>PriceTimeEngine\<close> of
  \<^verbatim>\<open>domain/src/book.rs\<close>).  The trait is a locale: what the persistence adapter relies on
  of any engine, with the consequences it uses.  The price-time engine is the code's loop; it is
  proved equal to a reference that hands out the incoming size down the crossing prefix of the
  book, and then interpreted as an engine.
\<close>

section \<open>The engine's view\<close>

record resting_order =
  r_id :: uuid
  r_user :: uuid
  r_price :: price
  r_remaining :: shares

record incoming_order =
  i_id :: uuid
  i_user :: uuid
  i_side :: side
  i_tif :: tif
  i_price :: price
  i_size :: shares

record fill =
  f_maker :: uuid
  f_maker_user :: uuid
  f_price :: price
  f_size :: shares

datatype rejection = SelfTrade | WouldCross

fun rejection_reason :: "rejection \<Rightarrow> string" where
  "rejection_reason SelfTrade = ''order would trade against your own resting order''"
| "rejection_reason WouldCross = ''post-only order would cross the book''"

record match_outcome =
  mo_fills :: "fill list"
  mo_remainder :: shares
  mo_rests :: bool

definition order_resting :: "order \<Rightarrow> resting_order" where
  "order_resting o1 = \<lparr>r_id = o_id o1, r_user = o_user o1, r_price = o_price o1,
     r_remaining = order_remaining o1\<rparr>"

section \<open>The price-time engine\<close>

definition crosses :: "incoming_order \<Rightarrow> resting_order \<Rightarrow> bool" where
  "crosses inc maker \<longleftrightarrow>
     (case i_side inc of
        Buy \<Rightarrow> r_price maker \<le> i_price inc
      | Sell \<Rightarrow> i_price inc \<le> r_price maker)"

fun match_loop ::
  "incoming_order \<Rightarrow> resting_order list \<Rightarrow> shares \<Rightarrow> fill list \<Rightarrow> rejection + (fill list \<times> shares)" where
  "match_loop inc [] remaining fills = Inr (fills, remaining)"
| "match_loop inc (maker # resting) remaining fills =
     (if shares_is_zero remaining \<or> \<not> crosses inc maker then Inr (fills, remaining)
      else if r_user maker = i_user inc then Inl SelfTrade
      else if i_tif inc = Alo then Inl WouldCross
      else if shares_is_zero (r_remaining maker) then match_loop inc resting remaining fills
      else
        let sz = min remaining (r_remaining maker) in
        match_loop inc resting
          (case shares_checked_sub remaining sz of Some left \<Rightarrow> left | None \<Rightarrow> SHARES_ZERO)
          (fills @ [\<lparr>f_maker = r_id maker, f_maker_user = r_user maker, f_price = r_price maker, f_size = sz\<rparr>]))"

definition price_time_match ::
  "incoming_order \<Rightarrow> resting_order list \<Rightarrow> book_policy \<Rightarrow> rejection + match_outcome" where
  "price_time_match inc resting policy =
     rbind (match_loop inc resting (i_size inc) []) (\<lambda>(fills, remaining).
     Inr \<lparr>mo_fills = fills, mo_remainder = remaining,
          mo_rests = (\<not> shares_is_zero remaining \<and> (case i_tif inc of Gtc \<Rightarrow> True | Alo \<Rightarrow> True | Ioc \<Rightarrow> False))\<rparr>)"

section \<open>Fills against a book\<close>

definition fills_total :: "fill list \<Rightarrow> nat" where
  "fills_total fills = sum_list (map (\<lambda>f. shares_val (f_size f)) fills)"

lemma fills_total_simps [simp]:
  "fills_total [] = 0" "fills_total (f # fills) = shares_val (f_size f) + fills_total fills"
  "fills_total (fills @ fills') = fills_total fills + fills_total fills'"
  by (simp_all add: fills_total_def)

text \<open>A fill taken from a resting order: that order's id, owner and price, at most what it has left.\<close>

definition fill_of :: "resting_order \<Rightarrow> fill \<Rightarrow> bool" where
  "fill_of maker f \<longleftrightarrow>
     f_maker f = r_id maker \<and> f_maker_user f = r_user maker \<and> f_price f = r_price maker \<and>
     0 < shares_val (f_size f) \<and> f_size f \<le> r_remaining maker"

section \<open>What the book relies on\<close>

locale matching_engine =
  fixes match_order :: "incoming_order \<Rightarrow> resting_order list \<Rightarrow> book_policy \<Rightarrow> rejection + match_outcome"
  assumes conserves: "match_order inc resting policy = Inr out \<Longrightarrow>
      fills_total (mo_fills out) + shares_val (mo_remainder out) = shares_val (i_size inc)"
    and from_book: "match_order inc resting policy = Inr out \<Longrightarrow> f \<in> set (mo_fills out) \<Longrightarrow>
      \<exists>maker \<in> set resting. fill_of maker f \<and> crosses inc maker \<and> r_user maker \<noteq> i_user inc"
    and once_each: "match_order inc resting policy = Inr out \<Longrightarrow> distinct (map r_id resting) \<Longrightarrow>
      distinct (map f_maker (mo_fills out))"
    and rests_iff: "match_order inc resting policy = Inr out \<Longrightarrow>
      mo_rests out \<longleftrightarrow> \<not> shares_is_zero (mo_remainder out) \<and> i_tif inc \<noteq> Ioc"
    and exhausts: "match_order inc resting policy = Inr out \<Longrightarrow> \<not> shares_is_zero (mo_remainder out) \<Longrightarrow>
      sorted_wrt (\<lambda>m m'. crosses inc m' \<longrightarrow> crosses inc m) resting \<Longrightarrow>
      maker \<in> set resting \<Longrightarrow> crosses inc maker \<Longrightarrow> \<not> shares_is_zero (r_remaining maker) \<Longrightarrow>
      \<exists>f \<in> set (mo_fills out). f_maker f = r_id maker \<and> f_size f = r_remaining maker"
begin

lemma fills_le_size: "match_order inc resting policy = Inr out \<Longrightarrow>
    fills_total (mo_fills out) \<le> shares_val (i_size inc)"
  using conserves [of inc resting policy out] by simp

lemma fills_positive: "match_order inc resting policy = Inr out \<Longrightarrow> f \<in> set (mo_fills out) \<Longrightarrow>
    0 < shares_val (f_size f)"
  using from_book [of inc resting policy out f] by (auto simp: fill_of_def)

lemma no_fill_no_loss: "match_order inc resting policy = Inr out \<Longrightarrow> mo_fills out = [] \<Longrightarrow>
    mo_remainder out = i_size inc"
  using conserves [of inc resting policy out] by (simp add: shares_eq_iff)

lemma empty_book: "match_order inc [] policy = Inr out \<Longrightarrow> mo_fills out = []"
  using from_book [of inc "[]" policy out] by (cases "mo_fills out") fastforce+

end

section \<open>The reference\<close>

text \<open>
  Down the crossing prefix of the book, each maker gives what it has or what is still wanted,
  whichever is less; makers that give nothing leave no fill.
\<close>

fun allocate :: "resting_order list \<Rightarrow> nat \<Rightarrow> (resting_order \<times> nat) list" where
  "allocate [] want = []"
| "allocate (maker # makers) want =
     (let give = min want (shares_val (r_remaining maker))
      in (maker, give) # allocate makers (want - give))"

definition given :: "resting_order \<times> nat \<Rightarrow> fill" where
  "given p = \<lparr>f_maker = r_id (fst p), f_maker_user = r_user (fst p), f_price = r_price (fst p),
     f_size = Shares (word_of_nat (snd p))\<rparr>"

definition reference_fills :: "incoming_order \<Rightarrow> resting_order list \<Rightarrow> fill list" where
  "reference_fills inc resting =
     map given (filter (\<lambda>p. 0 < snd p) (allocate (takeWhile (crosses inc) resting) (shares_val (i_size inc))))"

lemma allocate_zero: "filter (\<lambda>p. 0 < snd p) (allocate makers 0) = []"
  by (induction makers) simp_all

lemma remaining_sub:
  "shares_val (case shares_checked_sub a b of Some x \<Rightarrow> x | None \<Rightarrow> SHARES_ZERO) = shares_val a - shares_val b"
  by (simp add: nat_arith split: option.splits)

lemma match_loop_fills:
  assumes "match_loop inc resting remaining fills = Inr (fills', left)"
  shows "fills' = fills @ map given (filter (\<lambda>p. 0 < snd p)
    (allocate (takeWhile (crosses inc) resting) (shares_val remaining)))"
  using assms
proof (induction resting arbitrary: remaining fills)
  case Nil
  then show ?case by simp
next
  case (Cons maker resting)
  consider (zero) "shares_is_zero remaining" | (stop) "\<not> crosses inc maker"
    | (blank) "\<not> shares_is_zero remaining" "crosses inc maker" "shares_is_zero (r_remaining maker)"
    | (fill) "\<not> shares_is_zero remaining" "crosses inc maker" "\<not> shares_is_zero (r_remaining maker)"
    by blast
  then show ?case
  proof cases
    case zero
    then show ?thesis using Cons.prems by (simp add: zero_iffs allocate_zero)
  next
    case stop
    then show ?thesis using Cons.prems by simp
  next
    case blank
    then have "match_loop inc resting remaining fills = Inr (fills', left)"
      using Cons.prems by (simp split: if_splits)
    from Cons.IH [OF this] blank show ?thesis by (simp add: zero_iffs)
  next
    case fill
    define sz where "sz = min remaining (r_remaining maker)"
    have pos: "0 < min (shares_val remaining) (shares_val (r_remaining maker))"
      using fill by (simp add: zero_iffs)
    have "match_loop inc resting
        (case shares_checked_sub remaining sz of Some x \<Rightarrow> x | None \<Rightarrow> SHARES_ZERO)
        (fills @ [given (maker, shares_val sz)]) = Inr (fills', left)"
      using Cons.prems fill by (simp add: given_def sz_def Let_def split: if_splits)
    from Cons.IH [OF this] fill pos show ?thesis
      by (simp add: sz_def shares_val_min remaining_sub Let_def)
  qed
qed

lemma match_loop_left:
  assumes "match_loop inc resting remaining fills = Inr (fills', left)"
  shows "shares_val left = shares_val remaining
    - sum_list (map (\<lambda>m. shares_val (r_remaining m)) (takeWhile (crosses inc) resting))"
  using assms
proof (induction resting arbitrary: remaining fills)
  case Nil
  then show ?case by simp
next
  case (Cons maker resting)
  show ?case
  proof (cases "shares_is_zero remaining \<or> \<not> crosses inc maker")
    case True
    then show ?thesis using Cons.prems by (auto simp: zero_iffs)
  next
    case False
    then obtain remaining' fills'' where
      "match_loop inc resting remaining' fills'' = Inr (fills', left)"
      "shares_val remaining' = shares_val remaining - shares_val (r_remaining maker)"
      using Cons.prems
      by (auto simp: Let_def zero_iffs remaining_sub shares_val_min split: if_splits)
    with Cons.IH False show ?thesis by simp
  qed
qed

text \<open>The engine refuses only what the makers it would reach rule out.\<close>

lemma match_loop_taken:
  assumes "match_loop inc resting remaining fills = Inr (fills', left)"
    and "p \<in> set (allocate (takeWhile (crosses inc) resting) (shares_val remaining))" "0 < snd p"
  shows "r_user (fst p) \<noteq> i_user inc \<and> i_tif inc \<noteq> Alo"
  using assms
proof (induction resting arbitrary: remaining fills)
  case Nil
  then show ?case by simp
next
  case (Cons maker resting)
  show ?case
  proof (cases "shares_is_zero remaining \<or> \<not> crosses inc maker")
    case True
    then show ?thesis
      using Cons.prems allocate_zero [of "maker # takeWhile (crosses inc) resting"]
      by (auto simp: zero_iffs filter_empty_conv split: if_splits)
  next
    case False
    then obtain remaining' fills'' where rest:
      "match_loop inc resting remaining' fills'' = Inr (fills', left)"
      "shares_val remaining' = shares_val remaining - min (shares_val remaining) (shares_val (r_remaining maker))"
      and own: "r_user maker \<noteq> i_user inc" "i_tif inc \<noteq> Alo"
      using Cons.prems
      by (auto simp: Let_def zero_iffs remaining_sub shares_val_min split: if_splits)
    have "p = (maker, min (shares_val remaining) (shares_val (r_remaining maker))) \<or>
        p \<in> set (allocate (takeWhile (crosses inc) resting) (shares_val remaining'))"
      using Cons.prems(2) False by (auto simp: Let_def rest(2))
    with Cons.IH [OF rest(1) _ Cons.prems(3)] own show ?thesis by auto
  qed
qed

section \<open>The engine keeps its contract\<close>

lemma allocate_fst: "map fst (allocate makers want) = makers"
  by (induction makers arbitrary: want) (simp_all add: Let_def)

lemma allocate_mem:
  "p \<in> set (allocate makers want) \<Longrightarrow>
    fst p \<in> set makers \<and> snd p \<le> shares_val (r_remaining (fst p)) \<and> snd p \<le> want"
proof (induction makers arbitrary: want)
  case (Cons m makers)
  define rest where "rest = want - min want (shares_val (r_remaining m))"
  from Cons.prems have "p = (m, min want (shares_val (r_remaining m))) \<or> p \<in> set (allocate makers rest)"
    by (simp add: Let_def rest_def)
  with Cons.IH [of rest] show ?case by (auto simp: rest_def intro: le_trans)
qed simp

lemma allocate_sum:
  "sum_list (map snd (allocate makers want)) = min want (sum_list (map (\<lambda>m. shares_val (r_remaining m)) makers))"
  by (induction makers arbitrary: want) (simp_all add: Let_def)

lemma allocate_full:
  assumes "sum_list (map (\<lambda>m. shares_val (r_remaining m)) makers) < want" "m \<in> set makers"
  shows "(m, shares_val (r_remaining m)) \<in> set (allocate makers want)"
  using assms by (induction makers arbitrary: want) (auto simp: Let_def min_def)

lemma given_val:
  "p \<in> set (allocate makers want) \<Longrightarrow> shares_val (f_size (given p)) = snd p"
  using allocate_mem [of p makers want] unat_lt128 [of "shares_units (r_remaining (fst p))"]
  by (simp add: given_def unat_of_nat_fits)

lemma given_total:
  "fills_total (map given (filter (\<lambda>p. 0 < snd p) (allocate makers want))) = sum_list (map snd (allocate makers want))"
proof -
  have "fills_total (map given (filter (\<lambda>p. 0 < snd p) ps)) = sum_list (map snd ps)"
    if "\<And>p. p \<in> set ps \<Longrightarrow> shares_val (f_size (given p)) = snd p" for ps :: "(resting_order \<times> nat) list"
    using that by (induction ps) simp_all
  then show ?thesis using given_val by blast
qed

lemma fill_of_given:
  assumes "p \<in> set (allocate makers want)" "0 < snd p"
  shows "fill_of (fst p) (given p)"
proof -
  have "shares_val (f_size (given p)) = snd p" using assms(1) by (rule given_val)
  then show ?thesis
    using assms allocate_mem [OF assms(1)] by (simp add: fill_of_def shares_order) (simp add: given_def)
qed

lemma crossing_prefix:
  "sorted_wrt (\<lambda>m m'. crosses inc m' \<longrightarrow> crosses inc m) makers \<Longrightarrow> m \<in> set makers \<Longrightarrow> crosses inc m \<Longrightarrow>
    m \<in> set (takeWhile (crosses inc) makers)"
  by (induction makers) auto

lemma price_time_Inr:
  assumes "price_time_match inc resting policy = Inr out"
  shows "mo_fills out = reference_fills inc resting"
    and "shares_val (mo_remainder out) = shares_val (i_size inc)
      - sum_list (map (\<lambda>m. shares_val (r_remaining m)) (takeWhile (crosses inc) resting))"
    and "mo_rests out \<longleftrightarrow> \<not> shares_is_zero (mo_remainder out) \<and> i_tif inc \<noteq> Ioc"
    and "p \<in> set (allocate (takeWhile (crosses inc) resting) (shares_val (i_size inc))) \<Longrightarrow> 0 < snd p \<Longrightarrow>
      r_user (fst p) \<noteq> i_user inc \<and> i_tif inc \<noteq> Alo"
proof -
  from assms obtain fills left where m: "match_loop inc resting (i_size inc) [] = Inr (fills, left)"
    and out: "mo_fills out = fills" "mo_remainder out = left"
      "mo_rests out = (\<not> shares_is_zero left \<and> (case i_tif inc of Gtc \<Rightarrow> True | Alo \<Rightarrow> True | Ioc \<Rightarrow> False))"
    by (auto simp: price_time_match_def result_iffs)
  show "mo_fills out = reference_fills inc resting"
    using match_loop_fills [OF m] by (simp add: out reference_fills_def)
  show "shares_val (mo_remainder out) = shares_val (i_size inc)
      - sum_list (map (\<lambda>m. shares_val (r_remaining m)) (takeWhile (crosses inc) resting))"
    using match_loop_left [OF m] by (simp add: out)
  show "mo_rests out \<longleftrightarrow> \<not> shares_is_zero (mo_remainder out) \<and> i_tif inc \<noteq> Ioc"
    by (cases "i_tif inc") (simp_all add: out)
  show "r_user (fst p) \<noteq> i_user inc \<and> i_tif inc \<noteq> Alo"
    if "p \<in> set (allocate (takeWhile (crosses inc) resting) (shares_val (i_size inc)))" "0 < snd p"
    using match_loop_taken [OF m that] .
qed

interpretation price_time: matching_engine price_time_match
proof
  fix inc resting policy out
  assume m: "price_time_match inc resting policy = Inr out"
  note out = price_time_Inr [OF m]
  show "fills_total (mo_fills out) + shares_val (mo_remainder out) = shares_val (i_size inc)"
    by (simp add: out(1,2) reference_fills_def given_total allocate_sum)
  show "mo_rests out \<longleftrightarrow> \<not> shares_is_zero (mo_remainder out) \<and> i_tif inc \<noteq> Ioc" by (rule out(3))
  show "\<exists>maker \<in> set resting. fill_of maker f \<and> crosses inc maker \<and> r_user maker \<noteq> i_user inc"
    if mem: "f \<in> set (mo_fills out)" for f
  proof -
    obtain p where p: "p \<in> set (allocate (takeWhile (crosses inc) resting) (shares_val (i_size inc)))"
      "0 < snd p" and f: "f = given p"
      using mem by (auto simp: out(1) reference_fills_def)
    from allocate_mem [OF p(1)] have "fst p \<in> set resting" "crosses inc (fst p)"
      by (auto dest: set_takeWhileD)
    with out(4) [OF p] fill_of_given [OF p] f show ?thesis by blast
  qed
  show "distinct (map f_maker (mo_fills out))" if "distinct (map r_id resting)"
  proof -
    define ps where "ps = allocate (takeWhile (crosses inc) resting) (shares_val (i_size inc))"
    have "map (r_id \<circ> fst) ps = map r_id (takeWhile (crosses inc) resting)"
      using allocate_fst [of "takeWhile (crosses inc) resting"] unfolding ps_def by (metis map_map)
    then have "distinct (map (r_id \<circ> fst) ps)"
      using that by (metis distinct_append map_append takeWhile_dropWhile_id)
    then have "distinct (map (r_id \<circ> fst) (filter (\<lambda>p. 0 < snd p) ps))"
      by (rule distinct_map_filter)
    then show ?thesis
      by (simp add: out(1) reference_fills_def given_def comp_def flip: ps_def)
  qed
  show "\<exists>f \<in> set (mo_fills out). f_maker f = r_id maker \<and> f_size f = r_remaining maker"
    if left: "\<not> shares_is_zero (mo_remainder out)"
      and sorted: "sorted_wrt (\<lambda>m m'. crosses inc m' \<longrightarrow> crosses inc m) resting"
      and maker: "maker \<in> set resting" "crosses inc maker" "\<not> shares_is_zero (r_remaining maker)" for maker
  proof -
    let ?p = "(maker, shares_val (r_remaining maker))"
    have mem: "?p \<in> set (allocate (takeWhile (crosses inc) resting) (shares_val (i_size inc)))"
      using left out(2) crossing_prefix [OF sorted maker(1,2)] by (intro allocate_full) (simp_all add: zero_iffs)
    moreover have "0 < snd ?p" using maker(3) by (simp add: zero_iffs)
    ultimately have "given ?p \<in> set (mo_fills out)" by (auto simp: out(1) reference_fills_def)
    moreover have "f_maker (given ?p) = r_id maker" by (simp add: given_def)
    moreover have "f_size (given ?p) = r_remaining maker" by (simp add: given_def shares_eq_iff)
    ultimately show ?thesis by blast
  qed
qed

section \<open>The engine against the reference\<close>

text \<open>
  The makers the engine gets to: down the crossing prefix until nothing is wanted.  It refuses at
  the first of them that is the taker's own, or at once for a post-only order.
\<close>

fun reached :: "resting_order list \<Rightarrow> nat \<Rightarrow> resting_order list" where
  "reached [] want = []"
| "reached (maker # makers) want =
     (if want = 0 then [] else maker # reached makers (want - shares_val (r_remaining maker)))"

definition reference_refusal :: "incoming_order \<Rightarrow> resting_order list \<Rightarrow> rejection option" where
  "reference_refusal inc resting =
     map_option (\<lambda>maker. if r_user maker = i_user inc then SelfTrade else WouldCross)
       (find (\<lambda>maker. r_user maker = i_user inc \<or> i_tif inc = Alo)
          (reached (takeWhile (crosses inc) resting) (shares_val (i_size inc))))"

lemma reached_zero [simp]: "reached makers 0 = []"
  by (cases makers) simp_all

lemma match_loop_refusal:
  "match_loop inc resting remaining fills = Inl r \<longleftrightarrow>
     map_option (\<lambda>maker. if r_user maker = i_user inc then SelfTrade else WouldCross)
       (find (\<lambda>maker. r_user maker = i_user inc \<or> i_tif inc = Alo)
          (reached (takeWhile (crosses inc) resting) (shares_val remaining))) = Some r"
proof (induction resting arbitrary: remaining fills)
  case (Cons maker resting)
  show ?case
  proof (cases "shares_is_zero remaining \<or> \<not> crosses inc maker")
    case True
    then show ?thesis by (auto simp: zero_iffs)
  next
    case False
    show ?thesis
    proof (cases "r_user maker = i_user inc \<or> i_tif inc = Alo")
      case True
      with False show ?thesis by (auto simp: zero_iffs)
    next
      case pass: False
      have blank: "shares_is_zero (r_remaining maker) \<Longrightarrow> shares_val (r_remaining maker) = 0"
        by (simp add: zero_iffs)
      have left: "shares_val (case shares_checked_sub remaining (min remaining (r_remaining maker)) of
          Some x \<Rightarrow> x | None \<Rightarrow> SHARES_ZERO) = shares_val remaining - shares_val (r_remaining maker)"
        by (simp add: remaining_sub shares_val_min)
      show ?thesis
        using False pass Cons.IH by (auto simp: Let_def zero_iffs left blank)
    qed
  qed
qed simp

text \<open>
  C17: The engine is price-time priority, equal to a declarative reference on every book: down the
  resting orders that cross, each gives what it has or what is still wanted, and nothing past the
  first that does not cross is touched; the taker keeps the exact rest, which rests unless it is
  zero or the order is immediate-or-cancel; and it refuses precisely when it would reach one of the
  taker's own orders or, post-only, any order at all.
\<close>
theorem matching_equals_reference:
  "(\<forall>out. price_time_match inc resting policy = Inr out \<longrightarrow>
      mo_fills out = reference_fills inc resting \<and>
      shares_val (mo_remainder out) = shares_val (i_size inc) - fills_total (reference_fills inc resting) \<and>
      (mo_rests out \<longleftrightarrow> mo_remainder out \<noteq> SHARES_ZERO \<and> i_tif inc \<noteq> Ioc)) \<and>
   (\<forall>r. price_time_match inc resting policy = Inl r \<longleftrightarrow> reference_refusal inc resting = Some r)"
proof (intro conjI allI impI)
  fix out assume m: "price_time_match inc resting policy = Inr out"
  note out = price_time_Inr [OF m]
  show "mo_fills out = reference_fills inc resting" by (rule out(1))
  show "shares_val (mo_remainder out) = shares_val (i_size inc) - fills_total (reference_fills inc resting)"
    by (simp add: out(2) reference_fills_def given_total allocate_sum)
  show "mo_rests out \<longleftrightarrow> mo_remainder out \<noteq> SHARES_ZERO \<and> i_tif inc \<noteq> Ioc"
    by (simp add: out(3) shares_eq_iff nat_arith SHARES_ZERO_def)
next
  fix r
  show "price_time_match inc resting policy = Inl r \<longleftrightarrow> reference_refusal inc resting = Some r"
    using match_loop_refusal [of inc resting "i_size inc" "[]" r]
    by (auto simp: price_time_match_def reference_refusal_def rbind_def split: sum.splits)
qed

theorem matching_equals_reference_witness:
  "map f_maker (reference_fills
     \<lparr>i_id = 9, i_user = 1, i_side = Buy, i_tif = Gtc, i_price = Price 5, i_size = Shares 10\<rparr>
     [\<lparr>r_id = 1, r_user = 2, r_price = Price 4, r_remaining = Shares 6\<rparr>,
      \<lparr>r_id = 2, r_user = 3, r_price = Price 5, r_remaining = Shares 6\<rparr>,
      \<lparr>r_id = 3, r_user = 1, r_price = Price 6, r_remaining = Shares 6\<rparr>]) = [1, 2]"
proof -
  let ?inc = "\<lparr>i_id = 9, i_user = 1, i_side = Buy, i_tif = Gtc, i_price = Price 5, i_size = Shares 10\<rparr>"
  let ?book = "[\<lparr>r_id = 1, r_user = 2, r_price = Price 4, r_remaining = Shares 6\<rparr>,
      \<lparr>r_id = 2, r_user = 3, r_price = Price 5, r_remaining = Shares 6\<rparr>,
      \<lparr>r_id = 3, r_user = 1, r_price = Price 6, r_remaining = Shares 6\<rparr>]"
  have "price_time_match ?inc ?book book_policy_default = Inr \<lparr>mo_fills =
      [\<lparr>f_maker = 1, f_maker_user = 2, f_price = Price 4, f_size = Shares 6\<rparr>,
       \<lparr>f_maker = 2, f_maker_user = 3, f_price = Price 5, f_size = Shares 4\<rparr>],
      mo_remainder = Shares 0, mo_rests = False\<rparr>"
    by (simp add: price_time_match_def crosses_def price_order zero_iffs Let_def min_def shares_order
        shares_checked_sub_def checked_sub_def rbind_def)
  then have "[\<lparr>f_maker = 1, f_maker_user = 2, f_price = Price 4, f_size = Shares 6\<rparr>,
      \<lparr>f_maker = 2, f_maker_user = 3, f_price = Price 5, f_size = Shares 4\<rparr>] = reference_fills ?inc ?book"
    using matching_equals_reference [of ?inc ?book book_policy_default] by simp
  from this [symmetric] show ?thesis by simp
qed

end
