(* ===== verification/BookStore.thy ===== *)
theory BookStore
  imports Matching
begin

text \<open>
  The book's rows and the transactions that write them (\<^verbatim>\<open>PgBook\<close> of
  \<^verbatim>\<open>piggybank/core/src/infrastructure/book.rs\<close>).  The order table is a list in insertion
  order, so a row's position is its \<^verbatim>\<open>seq\<close>; the tape and the outbox are lists as well.
  Every write runs under the book's lock and commits as a whole: an operation returns the store
  it leaves, which is the store it began with whenever it returns an error.  The engine, the
  spend guard's answer, the minted trade ids and the clock are arguments.  How an order id prints
  in a not-found error is the \<^verbatim>\<open>uuid\<close> crate's, hence \<open>show_uuid\<close>.  The timestamp columns of
  an order, which nothing here reads, are left out, and the revision counter, a 64-bit column
  that grows by one per write, is an \<open>int\<close>.
\<close>

section \<open>Rows and facts\<close>

record trade =
  t_id :: uuid
  t_service :: service_id
  t_buyer :: uuid
  t_seller :: uuid
  t_buy_order :: uuid
  t_sell_order :: uuid
  t_taker_side :: side
  t_price :: price
  t_size :: shares
  t_notional :: usdt
  t_fee :: usdt

record trade_row =
  tr_trade :: trade
  tr_executed_at :: int

datatype book_event =
    OrderPlaced uuid service_id uuid side locked
  | TradeExecuted uuid service_id uuid uuid uuid uuid side shares price usdt usdt nav party
  | OrderReleased uuid service_id uuid side locked

record order_row =
  row_order :: order
  row_revision :: int

record book_store =
  bs_policies :: "service_id \<Rightarrow> book_policy option"
  bs_orders :: "order_row list"
  bs_trades :: "trade_row list"
  bs_revisions :: "service_id \<Rightarrow> int option"
  bs_outbox :: "book_event list"

datatype place_outcome =
    Placed order "trade_row list" nat
  | Engine_Rejected rejection
  | Existing order

record cancel_outcome =
  co_order :: order
  co_revision :: nat

section \<open>Reads\<close>

definition find_order :: "book_store \<Rightarrow> uuid \<Rightarrow> order option" where
  "find_order st i = find (\<lambda>o1. o_id o1 = i) (map row_order (bs_orders st))"

definition find_by_client_id :: "book_store \<Rightarrow> uuid \<Rightarrow> client_order_id \<Rightarrow> order option" where
  "find_by_client_id st user client =
     find (\<lambda>o1. o_user o1 = user \<and> o_client_order_id o1 = client) (map row_order (bs_orders st))"

definition order_not_found :: "(uuid \<Rightarrow> string) \<Rightarrow> uuid \<Rightarrow> domain_error" where
  "order_not_found show_uuid i = NotFound ''order'' (show_uuid i)"

definition load_order :: "(uuid \<Rightarrow> string) \<Rightarrow> book_store \<Rightarrow> uuid \<Rightarrow> order result" where
  "load_order show_uuid st i = ok_or (find_order st i) (order_not_found show_uuid i)"

definition resting_row :: "order \<Rightarrow> resting_order" where
  "resting_row o1 = \<lparr>r_id = o_id o1, r_user = o_user o1, r_price = o_price o1,
     r_remaining = Shares (saturating_sub (shares_units (o_size o1)) (shares_units (o_filled o1)))\<rparr>"

text \<open>
  The resting side an incoming order meets: best price first, and within a price in insertion
  order, which a stable sort of the table keeps.
\<close>

definition crossing_rows :: "book_store \<Rightarrow> order \<Rightarrow> resting_order list" where
  "crossing_rows st o1 =
     (let rows = filter (\<lambda>m. o_service m = o_service o1 \<and> is_resting (o_state m)) (map row_order (bs_orders st))
      in map resting_row
        (case o_side o1 of
           Buy \<Rightarrow> sort_key o_price (filter (\<lambda>m. o_side m = Sell \<and> o_price m \<le> o_price o1) rows)
         | Sell \<Rightarrow> sort_key (\<lambda>m. - int (price_val (o_price m)))
             (filter (\<lambda>m. o_side m = Buy \<and> o_price o1 \<le> o_price m) rows)))"

definition best_price :: "book_store \<Rightarrow> service_id \<Rightarrow> side \<Rightarrow> price option" where
  "best_price st service sd =
     (let rows = filter (\<lambda>m. o_service m = service \<and> o_side m = sd \<and> is_resting (o_state m))
            (map row_order (bs_orders st));
          sorted = (case sd of
              Buy \<Rightarrow> sort_key (\<lambda>m. - int (price_val (o_price m))) rows
            | Sell \<Rightarrow> sort_key o_price rows)
      in case sorted of [] \<Rightarrow> None | m # _ \<Rightarrow> Some (o_price m))"

definition current_revision :: "book_store \<Rightarrow> service_id \<Rightarrow> nat" where
  "current_revision st service = nat (case bs_revisions st service of Some r \<Rightarrow> r | None \<Rightarrow> 0)"

section \<open>Writes\<close>

definition bump_revision :: "book_store \<Rightarrow> service_id \<Rightarrow> book_store \<times> int" where
  "bump_revision st service =
     (let r = (case bs_revisions st service of None \<Rightarrow> 1 | Some r \<Rightarrow> r + 1)
      in (st\<lparr>bs_revisions := (bs_revisions st)(service \<mapsto> r)\<rparr>, r))"

definition reserved_units :: "order \<Rightarrow> u128" where
  "reserved_units o1 = (case o_reserved o1 of Units u \<Rightarrow> shares_units u | Locked_Cash c \<Rightarrow> usdt_units c)"

text \<open>What a row reads back as: the reserve is one column, its kind is the side's.\<close>

definition stored_order :: "order \<Rightarrow> order" where
  "stored_order o1 = o1\<lparr>o_reserved := (case o_side o1 of
       Sell \<Rightarrow> Units (Shares (reserved_units o1))
     | Buy \<Rightarrow> Locked_Cash (Usdt (reserved_units o1))),
     o_reject_reason := None, o_cancel_reason := None\<rparr>"

definition insert_order :: "book_store \<Rightarrow> order \<Rightarrow> int \<Rightarrow> book_store" where
  "insert_order st o1 revision =
     st\<lparr>bs_orders := bs_orders st @ [\<lparr>row_order = stored_order o1, row_revision = revision\<rparr>]\<rparr>"

definition update_row :: "order \<Rightarrow> int \<Rightarrow> order_row \<Rightarrow> order_row" where
  "update_row o1 revision row =
     (if o_id (row_order row) = o_id o1
      then row\<lparr>row_order := (row_order row)\<lparr>o_filled := o_filled o1,
               o_notional_filled := o_notional_filled o1, o_fee_paid := o_fee_paid o1,
               o_state := o_state o1, o_cancel_reason := o_cancel_reason o1\<rparr>,
             row_revision := revision\<rparr>
      else row)"

definition update_order :: "book_store \<Rightarrow> order \<Rightarrow> int \<Rightarrow> book_store result" where
  "update_order st o1 revision =
     (if find_order st (o_id o1) = None
      then Inl (Repository ''order row vanished under the book lock'')
      else Inr (st\<lparr>bs_orders := map (update_row o1 revision) (bs_orders st)\<rparr>))"

definition record_event :: "book_store \<Rightarrow> book_event \<Rightarrow> book_store" where
  "record_event st ev = st\<lparr>bs_outbox := bs_outbox st @ [ev]\<rparr>"

definition record_release :: "book_store \<Rightarrow> order \<Rightarrow> book_store" where
  "record_release st o1 =
     (case order_release o1 of
        None \<Rightarrow> st
      | Some released \<Rightarrow>
          record_event st (OrderReleased (o_id o1) (o_service o1) (o_user o1) (o_side o1) released))"

definition insert_trade :: "book_store \<Rightarrow> trade \<Rightarrow> int \<Rightarrow> book_store \<times> trade_row" where
  "insert_trade st t now =
     (let row = \<lparr>tr_trade = t, tr_executed_at = now\<rparr>
      in (st\<lparr>bs_trades := bs_trades st @ [row]\<rparr>, row))"

section \<open>Placing\<close>

text \<open>
  The trade a fill records, the buyer being the taker or the maker by side, and the fact the
  relay settles it from, which repeats the trade's fields and adds the mark and the payee.
\<close>

definition fill_trade :: "order \<Rightarrow> order \<Rightarrow> uuid \<Rightarrow> fill \<Rightarrow> usdt \<Rightarrow> usdt \<Rightarrow> trade" where
  "fill_trade o1 maker trade_id fl notional fee =
     (let (buyer, seller, buy_order, sell_order) =
           (case opposite (o_side o1) of
              Sell \<Rightarrow> (o_user o1, o_user maker, o_id o1, o_id maker)
            | Buy \<Rightarrow> (o_user maker, o_user o1, o_id maker, o_id o1))
      in \<lparr>t_id = trade_id, t_service = o_service o1, t_buyer = buyer, t_seller = seller,
          t_buy_order = buy_order, t_sell_order = sell_order, t_taker_side = o_side o1,
          t_price = f_price fl, t_size = f_size fl, t_notional = notional, t_fee = fee\<rparr>)"

definition trade_event :: "trade \<Rightarrow> nav \<Rightarrow> book_event" where
  "trade_event t n = TradeExecuted (t_id t) (t_service t) (t_buyer t) (t_seller t) (t_buy_order t)
     (t_sell_order t) (t_taker_side t) (t_size t) (t_price t) (t_notional t) (t_fee t) n party_fee_payee"

text \<open>One turn of the loop over the engine's fills.\<close>

definition apply_fill ::
  "(uuid \<Rightarrow> string) \<Rightarrow> book_policy \<Rightarrow> nav \<Rightarrow> int \<Rightarrow> int \<Rightarrow> uuid \<Rightarrow> fill \<Rightarrow> book_store \<Rightarrow> order
    \<Rightarrow> (book_store \<times> order \<times> trade_row) result" where
  "apply_fill show_uuid policy n now revision trade_id fl st o1 =
     rbind (load_order show_uuid st (f_maker fl)) (\<lambda>maker.
     rbind (price_value (f_price fl) (f_size fl)) (\<lambda>notional.
     rbind (taker_fee policy notional) (\<lambda>fee.
     case order_fill maker (f_size fl) (f_price fl) USDT_ZERO of (maker, maker_filled) \<Rightarrow>
     rbind maker_filled (\<lambda>_.
     case order_fill o1 (f_size fl) (f_price fl) fee of (o1, taker_filled) \<Rightarrow>
     rbind taker_filled (\<lambda>_.
     let t = fill_trade o1 maker trade_id fl notional fee;
         (st, row) = insert_trade st t now;
         st = record_event st (trade_event t n)
     in rbind (update_order st maker revision) (\<lambda>st.
        Inr (record_release st maker, o1, row)))))))"

fun apply_fills ::
  "(uuid \<Rightarrow> string) \<Rightarrow> book_policy \<Rightarrow> nav \<Rightarrow> int \<Rightarrow> int \<Rightarrow> (nat \<Rightarrow> uuid) \<Rightarrow> fill list \<Rightarrow> book_store \<Rightarrow> order
    \<Rightarrow> trade_row list \<Rightarrow> (book_store \<times> order \<times> trade_row list) result" where
  "apply_fills show_uuid policy n now revision ids [] st o1 trades = Inr (st, o1, trades)"
| "apply_fills show_uuid policy n now revision ids (fl # fills) st o1 trades =
     rbind (apply_fill show_uuid policy n now revision (ids (length trades)) fl st o1) (\<lambda>(st, o1, row).
     apply_fills show_uuid policy n now revision ids fills st o1 (trades @ [row]))"

text \<open>The transaction once the engine has answered.\<close>

definition settle_taker ::
  "(uuid \<Rightarrow> string) \<Rightarrow> match_outcome \<Rightarrow> int \<Rightarrow> book_store \<Rightarrow> order \<Rightarrow> trade_row list
    \<Rightarrow> (book_store \<times> order \<times> trade_row list \<times> int) result" where
  "settle_taker show_uuid out revision st o1 trades =
     (case (if \<not> mo_rests out \<and> is_resting (o_state o1)
            then order_cancel o1 (remainder_of (o_kind o1)) else (o1, Inr ())) of (o1, cancelled) \<Rightarrow>
      rbind cancelled (\<lambda>_.
      rbind (update_order st o1 revision) (\<lambda>st.
      let st = record_release st o1 in
      rbind (load_order show_uuid st (o_id o1)) (\<lambda>record.
      Inr (st, record, trades, revision)))))"

definition place_tx ::
  "(uuid \<Rightarrow> string) \<Rightarrow> book_policy \<Rightarrow> nav \<Rightarrow> int \<Rightarrow> (nat \<Rightarrow> uuid) \<Rightarrow> match_outcome \<Rightarrow> book_store \<Rightarrow> order
    \<Rightarrow> (book_store \<times> order \<times> trade_row list \<times> int) result" where
  "place_tx show_uuid policy n now ids out st o1 =
     (let (st, revision) = bump_revision st (o_service o1);
          st = insert_order st o1 revision;
          st = record_event st (OrderPlaced (o_id o1) (o_service o1) (o_user o1) (o_side o1) (o_reserved o1))
      in rbind (apply_fills show_uuid policy n now revision ids (mo_fills out) st o1 []) (\<lambda>(st, o1, trades).
         settle_taker show_uuid out revision st o1 trades))"

definition store_place ::
  "(uuid \<Rightarrow> string) \<Rightarrow> (incoming_order \<Rightarrow> resting_order list \<Rightarrow> book_policy \<Rightarrow> rejection + match_outcome)
    \<Rightarrow> book_store \<Rightarrow> order \<Rightarrow> book_policy \<Rightarrow> nav \<Rightarrow> unit result \<Rightarrow> int \<Rightarrow> (nat \<Rightarrow> uuid)
    \<Rightarrow> book_store \<times> place_outcome result" where
  "store_place show_uuid engine st o1 policy n spend_guard now ids =
     (case find_by_client_id st (o_user o1) (o_client_order_id o1) of
        Some existing \<Rightarrow> (st, Inr (Existing existing))
      | None \<Rightarrow>
          (case spend_guard of
             Inl e \<Rightarrow> (st, Inl e)
           | Inr _ \<Rightarrow>
               let resting = crossing_rows st o1;
                   incoming = \<lparr>i_id = o_id o1, i_user = o_user o1, i_side = o_side o1, i_tif = o_tif o1,
                               i_price = o_price o1, i_size = o_size o1\<rparr>
               in (case engine incoming resting policy of
                     Inl rejection \<Rightarrow> (st, Inr (Engine_Rejected rejection))
                   | Inr out \<Rightarrow>
                       (case place_tx show_uuid policy n now ids out st o1 of
                          Inl e \<Rightarrow> (st, Inl e)
                        | Inr (st', record, trades, revision) \<Rightarrow>
                            (st', Inr (Placed record trades (nat revision)))))))"

section \<open>Cancelling and rejecting\<close>

definition store_cancel ::
  "(uuid \<Rightarrow> string) \<Rightarrow> book_store \<Rightarrow> uuid \<Rightarrow> book_store \<times> cancel_outcome result" where
  "store_cancel show_uuid st i =
     (case load_order show_uuid st i of
        Inl e \<Rightarrow> (st, Inl e)
      | Inr o1 \<Rightarrow>
          if o_state o1 = Cancelled
          then (st, Inr \<lparr>co_order = o1, co_revision = current_revision st (o_service o1)\<rparr>)
          else (case order_cancel o1 User of
             (_, Inl e) \<Rightarrow> (st, Inl e)
           | (o1, Inr _) \<Rightarrow>
               let (bumped, revision) = bump_revision st (o_service o1) in
               (case update_order bumped o1 revision of
                  Inl e \<Rightarrow> (st, Inl e)
                | Inr st' \<Rightarrow>
                    let st' = record_release st' o1 in
                    (case load_order show_uuid st' i of
                       Inl e \<Rightarrow> (st, Inl e)
                     | Inr record \<Rightarrow>
                         (st', Inr \<lparr>co_order = record, co_revision = nat revision\<rparr>)))))"

definition mark_rejected :: "book_store \<Rightarrow> uuid \<Rightarrow> string \<Rightarrow> book_store" where
  "mark_rejected st i reason =
     (case find (\<lambda>o1. o_id o1 = i \<and> is_resting (o_state o1)) (map row_order (bs_orders st)) of
        None \<Rightarrow> st
      | Some o1 \<Rightarrow>
          let (bumped, revision) = bump_revision st (o_service o1)
          in bumped\<lparr>bs_orders := map (\<lambda>row.
               if o_id (row_order row) = i \<and> is_resting (o_state (row_order row))
               then row\<lparr>row_order := (row_order row)\<lparr>o_state := Rejected, o_reject_reason := Some reason\<rparr>,
                        row_revision := revision\<rparr>
               else row) (bs_orders bumped)\<rparr>)"

text \<open>The terms are upserted; the foreign key refuses a product nobody registered.\<close>

definition store_set_policy ::
  "(service_id \<Rightarrow> bool) \<Rightarrow> book_store \<Rightarrow> service_id \<Rightarrow> book_policy \<Rightarrow> book_store \<times> book_policy result" where
  "store_set_policy registered st service policy =
     (if 2 ^ 31 \<le> unat (bp_taker_fee_bps policy) then (st, Inl (Validation ''taker fee out of range''))
      else if 2 ^ 31 \<le> unat (bp_market_slippage_bps policy)
      then (st, Inl (Validation ''market slippage out of range''))
      else if \<not> registered service then (st, Inl (NotFound ''allocation'' (service_id_str service)))
      else (st\<lparr>bs_policies := (bs_policies st)(service \<mapsto> policy)\<rparr>,
            book_policy_new (bp_open policy) (bp_taker_fee_bps policy) (bp_price_tick policy)
              (bp_lot_size policy) (bp_market_slippage_bps policy) (bp_allow_unbacked policy)))"

end
