(* ===== verification/BookInv.thy ===== *)
theory BookInv
  imports BookStore
begin

text \<open>
  The invariant of the book's store.  The outbox is read as a ledger of each order's escrow:
  what was locked for it, what fills drew from it, what was released back.  Every write keeps
  that ledger in step with the order table, never lets a draw run ahead of its lock, and leaves
  no resting buy at or above a resting sell of the same product.
\<close>

section \<open>The outbox as a ledger of escrows\<close>

fun ev_locked :: "uuid \<Rightarrow> book_event \<Rightarrow> nat" where
  "ev_locked i (OrderPlaced j _ _ _ l) = (if j = i then locked_val l else 0)"
| "ev_locked i _ = 0"

fun ev_drawn :: "uuid \<Rightarrow> book_event \<Rightarrow> nat" where
  "ev_drawn i (TradeExecuted _ _ _ _ buy sell taker sz _ notional fee _ _) =
     (if buy = i then usdt_val notional + (if taker = Buy then usdt_val fee else 0) else 0) +
     (if sell = i then shares_val sz else 0)"
| "ev_drawn i _ = 0"

fun ev_released :: "uuid \<Rightarrow> book_event \<Rightarrow> nat" where
  "ev_released i (OrderReleased j _ _ _ l) = (if j = i then locked_val l else 0)"
| "ev_released i _ = 0"

fun mentioned :: "book_event \<Rightarrow> uuid set" where
  "mentioned (OrderPlaced i _ _ _ _) = {i}"
| "mentioned (TradeExecuted _ _ _ _ buy sell _ _ _ _ _ _ _) = {buy, sell}"
| "mentioned (OrderReleased i _ _ _ _) = {i}"

definition total :: "(uuid \<Rightarrow> book_event \<Rightarrow> nat) \<Rightarrow> book_event list \<Rightarrow> uuid \<Rightarrow> nat" where
  "total f evs i = sum_list (map (f i) evs)"

lemma total_simps [simp]:
  "total f [] i = 0" "total f (evs @ evs') i = total f evs i + total f evs' i"
  "total f (ev # evs) i = f i ev + total f evs i"
  by (simp_all add: total_def)

lemma unmentioned:
  "i \<notin> mentioned ev \<Longrightarrow> ev_locked i ev = 0" "i \<notin> mentioned ev \<Longrightarrow> ev_drawn i ev = 0"
  "i \<notin> mentioned ev \<Longrightarrow> ev_released i ev = 0"
  by (cases ev; auto)+

lemma total_unmentioned:
  assumes "\<And>ev. ev \<in> set evs \<Longrightarrow> i \<notin> mentioned ev"
  shows "total ev_locked evs i = 0" "total ev_drawn evs i = 0" "total ev_released evs i = 0"
  using assms by (induction evs) (auto simp: unmentioned)

text \<open>At no point of the outbox has more been taken out of an escrow than was put in.\<close>

definition covered :: "book_event list \<Rightarrow> bool" where
  "covered evs \<longleftrightarrow> (\<forall>k i. total ev_drawn (take k evs) i + total ev_released (take k evs) i
     \<le> total ev_locked (take k evs) i)"

lemma covered_Nil [simp]: "covered []"
  by (simp add: covered_def)

lemma coveredD: "covered evs \<Longrightarrow> total ev_drawn evs i + total ev_released evs i \<le> total ev_locked evs i"
  using spec [of _ "length evs"] unfolding covered_def by (metis order_refl take_all)

lemma covered_snoc:
  assumes "covered evs"
    and "\<And>i. i \<in> mentioned ev \<Longrightarrow> total ev_drawn (evs @ [ev]) i + total ev_released (evs @ [ev]) i
      \<le> total ev_locked (evs @ [ev]) i"
  shows "covered (evs @ [ev])"
  unfolding covered_def
proof (intro allI)
  fix k i
  have whole: "total ev_drawn (evs @ [ev]) i + total ev_released (evs @ [ev]) i \<le> total ev_locked (evs @ [ev]) i"
  proof (cases "i \<in> mentioned ev")
    case True
    then show ?thesis by (rule assms(2))
  next
    case False
    then show ?thesis using coveredD [OF assms(1), of i] by (simp add: unmentioned)
  qed
  show "total ev_drawn (take k (evs @ [ev])) i + total ev_released (take k (evs @ [ev])) i
     \<le> total ev_locked (take k (evs @ [ev])) i"
  proof (cases "k \<le> length evs")
    case True
    then show ?thesis using assms(1) by (simp add: covered_def)
  next
    case False
    then have "take k (evs @ [ev]) = evs @ [ev]" by simp
    with whole show ?thesis by (simp only:)
  qed
qed

section \<open>Orders against the ledger\<close>

abbreviation orders_of :: "book_store \<Rightarrow> order list" where
  "orders_of st \<equiv> map row_order (bs_orders st)"

abbreviation ids_of :: "book_store \<Rightarrow> uuid set" where
  "ids_of st \<equiv> o_id ` set (orders_of st)"

definition escrow_matches :: "book_event list \<Rightarrow> order \<Rightarrow> bool" where
  "escrow_matches evs x \<longleftrightarrow>
     total ev_locked evs (o_id x) = locked_val (o_reserved x) \<and>
     total ev_drawn evs (o_id x) = order_spent x \<and>
     total ev_released evs (o_id x) = released_val (order_release x)"

definition row_ok :: "book_event list \<Rightarrow> order \<Rightarrow> bool" where
  "row_ok evs x \<longleftrightarrow> order_ok x \<and> escrow_matches evs x \<and> (is_resting (o_state x) \<longrightarrow> o_tif x \<noteq> Ioc)"

lemma row_ok_append:
  assumes "\<And>ev. ev \<in> set new \<Longrightarrow> o_id x \<notin> mentioned ev"
  shows "row_ok (evs @ new) x = row_ok evs x"
  using total_unmentioned [of new "o_id x", OF assms] by (simp add: row_ok_def escrow_matches_def)

lemma resting_releases_nothing [simp]: "is_resting (o_state x) \<Longrightarrow> order_release x = None"
  by (simp add: order_release_def)

lemma released_None [simp]: "released_val None = 0"
  by (simp add: released_val_def)

text \<open>The facts a release leaves in the outbox.\<close>

definition release_events :: "order \<Rightarrow> book_event list" where
  "release_events x = (case order_release x of None \<Rightarrow> []
     | Some l \<Rightarrow> [OrderReleased (o_id x) (o_service x) (o_user x) (o_side x) l])"

lemma record_release_eq:
  "record_release st x = st\<lparr>bs_outbox := bs_outbox st @ release_events x\<rparr>"
  by (simp add: record_release_def release_events_def record_event_def split: option.splits)

lemma release_events_simps [simp]:
  "ev \<in> set (release_events x) \<Longrightarrow> mentioned ev = {o_id x}"
  "total ev_released (release_events x) (o_id x) = released_val (order_release x)"
  "total ev_drawn (release_events x) i = 0" "total ev_locked (release_events x) i = 0"
  by (auto simp: release_events_def released_val_def split: option.splits)

lemma covered_release:
  assumes "covered evs"
    and "total ev_released evs (o_id x) = 0"
    and "total ev_drawn evs (o_id x) + released_val (order_release x) \<le> total ev_locked evs (o_id x)"
  shows "covered (evs @ release_events x)"
proof (cases "order_release x")
  case None
  then show ?thesis using assms(1) by (simp add: release_events_def)
next
  case (Some l)
  then show ?thesis
    using assms by (auto simp: release_events_def released_val_def intro!: covered_snoc)
qed

section \<open>What a fill does to an order\<close>

text \<open>The fields no write after the insert touches.\<close>

definition same_terms :: "order \<Rightarrow> order \<Rightarrow> bool" where
  "same_terms x y \<longleftrightarrow> o_id y = o_id x \<and> o_service y = o_service x \<and> o_user y = o_user x \<and>
     o_client_order_id y = o_client_order_id x \<and> o_side y = o_side x \<and> o_kind y = o_kind x \<and>
     o_tif y = o_tif x \<and> o_price y = o_price x \<and> o_size y = o_size x \<and> o_reserved y = o_reserved x"

lemma same_terms_refl [simp]: "same_terms x x"
  by (simp add: same_terms_def)

lemma same_terms_trans: "same_terms x y \<Longrightarrow> same_terms y z \<Longrightarrow> same_terms x z"
  by (simp add: same_terms_def)

definition merge :: "order \<Rightarrow> order \<Rightarrow> order" where
  "merge row x = row\<lparr>o_filled := o_filled x, o_notional_filled := o_notional_filled x,
     o_fee_paid := o_fee_paid x, o_state := o_state x, o_cancel_reason := o_cancel_reason x\<rparr>"

lemma merge_self [simp]: "merge x x = x"
  by (simp add: merge_def)

lemma order_fill_frame:
  assumes "order_fill x sz p fee = (y, Inr u)"
  shows "same_terms x y" "merge row y = merge (merge row x) y" "merge x y = y" "is_resting (o_state x)"
    "o_reject_reason y = o_reject_reason x"
  by (rule order_fill_InrE [OF assms], simp add: same_terms_def merge_def)+

lemma order_fill_spent:
  assumes fill: "order_fill x sz p fee = (y, Inr u)" and "escrow_within bps x"
  shows "order_spent y = order_spent x + (case o_side x of
      Buy \<Rightarrow> shares_val sz * price_val p div 10 ^ 18 + usdt_val fee | Sell \<Rightarrow> shares_val sz)"
  using assms(2)
  by (auto simp: order_spent_def escrow_within_def split: side.splits intro: order_fill_InrE [OF fill])

lemma order_fill_done:
  assumes "order_fill x sz p fee = (y, Inr u)" and "sz = order_remaining x"
  shows "o_state y = Filled"
proof -
  obtain filled nf fp where "shares_val sz \<le> shares_val (o_size x) - shares_val (o_filled x)" "0 < shares_val sz"
    "shares_val filled = shares_val (o_filled x) + shares_val sz"
    and y: "y = x\<lparr>o_filled := filled, o_notional_filled := nf, o_fee_paid := fp,
      o_state := if filled = o_size x then Filled else PartiallyFilled\<rparr>"
    by (rule order_fill_InrE [OF assms(1)]) (rule that; assumption)
  with assms(2) have "filled = o_size x" by (simp add: shares_eq_iff remaining_val)
  then show ?thesis by (simp add: y)
qed

section \<open>Writing rows\<close>

text \<open>The order table with one order replaced, by id.\<close>

definition put :: "order \<Rightarrow> order list \<Rightarrow> order list" where
  "put x xs = map (\<lambda>y. if o_id y = o_id x then merge y x else y) xs"

lemma put_ids [simp]: "map o_id (put x xs) = map o_id xs"
  by (simp add: put_def merge_def)

lemma put_ids_set [simp]: "o_id ` set (put x xs) = o_id ` set xs"
  using arg_cong [OF put_ids [of x xs], of set] by (simp only: set_map)

lemma find_order_Some: "find_order st i = Some x \<Longrightarrow> x \<in> set (orders_of st) \<and> o_id x = i"
  by (auto simp: find_order_def find_Some_iff)

lemma find_order_None: "find_order st i = None \<longleftrightarrow> i \<notin> ids_of st"
  by (auto simp: find_order_def find_None_iff)

lemma update_order_Inr:
  assumes "update_order st x r = Inr st'"
  shows "orders_of st' = put x (orders_of st)" "bs_outbox st' = bs_outbox st"
    "bs_trades st' = bs_trades st" "bs_revisions st' = bs_revisions st" "bs_policies st' = bs_policies st"
    "o_id x \<in> ids_of st"
  using assms find_order_None [of st "o_id x"]
  by (auto simp: update_order_def put_def merge_def update_row_def split: if_splits)

lemma put_mem:
  assumes "distinct (map o_id xs)" "x \<in> set xs" "y \<in> set (put z xs)" "o_id y = o_id x"
  shows "y = (if o_id x = o_id z then merge x z else x)"
proof -
  obtain w where w: "w \<in> set xs" "y = (if o_id w = o_id z then merge w z else w)"
    using assms(3) by (auto simp: put_def)
  then have "o_id w = o_id x" using assms(4) by (auto simp: merge_def split: if_splits)
  then have "w = x" using assms(1,2) w(1) by (meson distinct_map inj_onD)
  with w(2) show ?thesis by simp
qed

lemma put_other: "y \<in> set (put z xs) \<Longrightarrow> o_id y \<noteq> o_id z \<Longrightarrow> y \<in> set xs"
  by (auto simp: put_def merge_def split: if_splits)

lemma put_same:
  assumes "distinct (map o_id xs)" "x \<in> set xs" "same_terms x z" "merge x z = z"
    and "y \<in> set (put z xs)" "o_id y = o_id z"
  shows "y = z"
  using put_mem [OF assms(1,2,5)] assms(3,4,6) by (simp add: same_terms_def)

section \<open>One fill\<close>

lemma apply_fill_Inr:
  assumes "apply_fill sh policy n now r tid fl st o1 = Inr (st', o2, row)"
  obtains maker maker' fee notional where
    "maker \<in> set (orders_of st)" "o_id maker = f_maker fl"
    and "order_fill maker (f_size fl) (f_price fl) USDT_ZERO = (maker', Inr ())"
    and "order_fill o1 (f_size fl) (f_price fl) fee = (o2, Inr ())"
    and "usdt_val notional = shares_val (f_size fl) * price_val (f_price fl) div 10 ^ 18"
    and "usdt_val fee = usdt_val notional * unat (bp_taker_fee_bps policy) div 10000"
    and "orders_of st' = put maker' (orders_of st)"
    and "bs_outbox st' = bs_outbox st @ [trade_event (fill_trade o2 maker' tid fl notional fee) n]
      @ release_events maker'"
    and "row = \<lparr>tr_trade = fill_trade o2 maker' tid fl notional fee, tr_executed_at = now\<rparr>"
    and "bs_trades st' = bs_trades st @ [row]"
    and "bs_revisions st' = bs_revisions st" "bs_policies st' = bs_policies st"
proof -
  obtain maker notional fee where
    load: "load_order sh st (f_maker fl) = Inr maker"
    and notional: "price_value (f_price fl) (f_size fl) = Inr notional"
    and fee: "taker_fee policy notional = Inr fee"
    using assms unfolding apply_fill_def by (elim rbind_InrE)
  obtain maker' r1 where m1: "order_fill maker (f_size fl) (f_price fl) USDT_ZERO = (maker', r1)" by fastforce
  obtain o3 r2 where o3: "order_fill o1 (f_size fl) (f_price fl) fee = (o3, r2)" by fastforce
  define t where "t = fill_trade o3 maker' tid fl notional fee"
  have "apply_fill sh policy n now r tid fl st o1 = rbind r1 (\<lambda>_. rbind r2 (\<lambda>_.
      rbind (update_order (record_event (fst (insert_trade st t now)) (trade_event t n)) maker' r)
        (\<lambda>st. Inr (record_release st maker', o3, \<lparr>tr_trade = t, tr_executed_at = now\<rparr>))))"
    by (simp add: apply_fill_def load notional fee m1 o3 Let_def insert_trade_def t_def)
  then have "rbind r1 (\<lambda>_. rbind r2 (\<lambda>_.
      rbind (update_order (record_event (fst (insert_trade st t now)) (trade_event t n)) maker' r)
        (\<lambda>st. Inr (record_release st maker', o3, \<lparr>tr_trade = t, tr_executed_at = now\<rparr>)))) = Inr (st', o2, row)"
    by (simp only: assms)
  then obtain u1 u2 st1 where r: "r1 = Inr u1" "r2 = Inr u2" and
    up: "update_order (record_event (fst (insert_trade st t now)) (trade_event t n)) maker' r = Inr st1"
    and out: "(record_release st1 maker', o3, \<lparr>tr_trade = t, tr_executed_at = now\<rparr>) = (st', o2, row)"
    by (elim rbind_InrE) (rule that, assumption, assumption, assumption, simp)
  from out have st': "st' = record_release st1 maker'" and o2: "o3 = o2"
    and row: "row = \<lparr>tr_trade = t, tr_executed_at = now\<rparr>" by (simp_all add: insert_trade_def)
  from m1 o3 have mf: "order_fill maker (f_size fl) (f_price fl) USDT_ZERO = (maker', Inr ())"
    and tf: "order_fill o1 (f_size fl) (f_price fl) fee = (o2, Inr ())" by (simp_all add: r o2)
  note u = update_order_Inr [OF up]
  have m: "maker \<in> set (orders_of st)" "o_id maker = f_maker fl"
    using load find_order_Some by (simp_all add: load_order_def)
  have st1: "orders_of st1 = put maker' (orders_of st)"
    "bs_outbox st1 = bs_outbox st @ [trade_event t n]" "bs_trades st1 = bs_trades st @ [row]"
    "bs_revisions st1 = bs_revisions st" "bs_policies st1 = bs_policies st"
    using u by (simp_all add: insert_trade_def record_event_def row Let_def)
  show thesis
    by (rule that [OF m mf tf]) (use notional fee st1 row in \<open>simp_all add: nat_arith st' record_release_eq t_def o2\<close>)
qed

lemma trade_event_simps [simp]:
  "mentioned (trade_event (fill_trade x y tid fl a b) n) = {o_id x, o_id y}"
  "ev_locked i (trade_event t n) = 0" "ev_released i (trade_event t n) = 0"
  by (auto simp: trade_event_def fill_trade_def Let_def split: side.splits)

lemma trade_drawn:
  assumes "o_id x \<noteq> o_id y"
  shows "ev_drawn (o_id x) (trade_event (fill_trade x y tid fl notional fee) n) =
      (case o_side x of Buy \<Rightarrow> usdt_val notional + usdt_val fee | Sell \<Rightarrow> shares_val (f_size fl))"
    and "ev_drawn (o_id y) (trade_event (fill_trade x y tid fl notional fee) n) =
      (case o_side x of Buy \<Rightarrow> shares_val (f_size fl) | Sell \<Rightarrow> usdt_val notional)"
  using assms by (auto simp: trade_event_def fill_trade_def Let_def split: side.splits)

section \<open>The loop over the fills\<close>

text \<open>
  The invariant in the middle of a placement: the taker \<open>o1\<close> is in memory, ahead of its row,
  and every other row agrees with the outbox.
\<close>

definition filling :: "nat \<Rightarrow> book_store \<Rightarrow> order \<Rightarrow> bool" where
  "filling bps st o1 \<longleftrightarrow>
     distinct (map o_id (orders_of st)) \<and> covered (bs_outbox st) \<and>
     (\<forall>ev \<in> set (bs_outbox st). mentioned ev \<subseteq> ids_of st) \<and>
     (\<forall>x \<in> set (orders_of st). o_id x \<noteq> o_id o1 \<longrightarrow> row_ok (bs_outbox st) x) \<and>
     (\<exists>x \<in> set (orders_of st). same_terms x o1 \<and> merge x o1 = o1) \<and>
     progress_ok o1 \<and> escrow_within bps o1 \<and>
     total ev_locked (bs_outbox st) (o_id o1) = locked_val (o_reserved o1) \<and>
     total ev_drawn (bs_outbox st) (o_id o1) = order_spent o1 \<and>
     total ev_released (bs_outbox st) (o_id o1) = 0"

text \<open>A fill the taker's limit allows, at the price of a resting order across the book.\<close>

definition fits :: "book_store \<Rightarrow> order \<Rightarrow> fill \<Rightarrow> bool" where
  "fits st o1 fl \<longleftrightarrow> f_maker fl \<noteq> o_id o1 \<and> within_limit o1 (f_price fl) \<and>
     (\<forall>x \<in> set (orders_of st). o_id x = f_maker fl \<longrightarrow>
        o_side x = opposite (o_side o1) \<and> o_price x = f_price fl)"

lemma put_terms:
  assumes "y \<in> set (put z xs)"
  obtains x where "x \<in> set xs" "same_terms x y"
  using assms by (auto simp: put_def merge_def same_terms_def split: if_splits)

lemma fits_put:
  assumes "fits st o1 fl" "orders_of st' = put z (orders_of st)" "same_terms o1 o2"
  shows "fits st' o2 fl"
  unfolding fits_def
proof (intro conjI ballI impI)
  show "f_maker fl \<noteq> o_id o2" "within_limit o2 (f_price fl)"
    using assms(1,3) by (auto simp: fits_def same_terms_def within_limit_def split: side.splits)
  fix x assume x: "x \<in> set (orders_of st')" "o_id x = f_maker fl"
  then obtain y where "y \<in> set (orders_of st)" "same_terms y x"
    using put_terms [of x z "orders_of st"] assms(2) by auto
  with assms(1,3) x show "o_side x = opposite (o_side o2)" "o_price x = f_price fl"
    by (auto simp: fits_def same_terms_def)
qed

lemma maker_fee_within: "fee_within bps x sz p USDT_ZERO"
  by (simp add: fee_within_def Let_def split: side.splits)

lemma row_ok_fill:
  assumes row: "row_ok evs maker" and fill: "order_fill maker sz p USDT_ZERO = (maker', Inr ())"
    and p: "o_price maker = p"
  shows "order_ok maker'" "is_resting (o_state maker') \<Longrightarrow> o_tif maker' \<noteq> Ioc"
    "order_spent maker' = order_spent maker + (case o_side maker of
       Buy \<Rightarrow> shares_val sz * price_val p div 10 ^ 18 | Sell \<Rightarrow> shares_val sz)"
proof -
  obtain bps where e: "escrow_within bps maker" and pr: "progress_ok maker"
    using row by (auto simp: row_ok_def order_ok_def)
  have "within_limit maker p" using p by (simp add: within_limit_def split: side.splits)
  from escrow_fill [OF fill e this maker_fee_within] progress_fill [OF fill pr]
  show "order_ok maker'" by (auto simp: order_ok_def)
  show "o_tif maker' \<noteq> Ioc" if "is_resting (o_state maker')"
    using order_fill_frame [OF fill] row by (simp add: row_ok_def same_terms_def)
  show "order_spent maker' = order_spent maker + (case o_side maker of
       Buy \<Rightarrow> shares_val sz * price_val p div 10 ^ 18 | Sell \<Rightarrow> shares_val sz)"
    using order_fill_spent [OF fill e] by (simp split: side.splits)
qed

lemma order_fill_state:
  "order_fill x sz p fee = (y, Inr u) \<Longrightarrow> o_state y = Filled \<or> o_state y = PartiallyFilled"
  by (erule order_fill_InrE) simp

lemma release_within:
  assumes "order_ok x" "o_state x \<noteq> Rejected"
  shows "order_spent x + released_val (order_release x) \<le> locked_val (o_reserved x)"
proof (cases "is_resting (o_state x)")
  case True
  then show ?thesis using escrow_covers [OF assms(1)] by simp
next
  case False
  then have "o_state x \<in> {Filled, Cancelled}" using assms(2) by (cases "o_state x") (auto simp: is_resting_def)
  from release_exact [OF assms(1) this] show ?thesis by simp
qed

lemma order_fill_filled:
  "order_fill x sz p fee = (y, Inr u) \<Longrightarrow> shares_val (o_filled y) = shares_val (o_filled x) + shares_val sz"
  by (erule order_fill_InrE) simp

text \<open>One turn keeps the invariant.\<close>

lemma filling_step:
  assumes inv: "filling (unat (bp_taker_fee_bps policy)) st o1" and fits: "fits st o1 fl"
    and rate: "unat (bp_taker_fee_bps policy) \<le> 10000"
    and step: "apply_fill sh policy n now r tid fl st o1 = Inr (st', o2, row)"
  shows "filling (unat (bp_taker_fee_bps policy)) st' o2"
proof -
  define bps where "bps = unat (bp_taker_fee_bps policy)"
  obtain maker maker' fee notional where
    m: "maker \<in> set (orders_of st)" "o_id maker = f_maker fl"
    and mf: "order_fill maker (f_size fl) (f_price fl) USDT_ZERO = (maker', Inr ())"
    and tf: "order_fill o1 (f_size fl) (f_price fl) fee = (o2, Inr ())"
    and notional: "usdt_val notional = shares_val (f_size fl) * price_val (f_price fl) div 10 ^ 18"
    and fee: "usdt_val fee = usdt_val notional * bps div 10000"
    and orders: "orders_of st' = put maker' (orders_of st)"
    and outbox: "bs_outbox st' = bs_outbox st @ [trade_event (fill_trade o2 maker' tid fl notional fee) n]
      @ release_events maker'"
    by (rule apply_fill_Inr [OF step]) (rule that; simp add: bps_def)
  define t where "t = trade_event (fill_trade o2 maker' tid fl notional fee) n"
  have terms: "same_terms maker maker'" "same_terms o1 o2" "merge maker maker' = maker'"
    using order_fill_frame [OF mf] order_fill_frame [OF tf] by simp_all
  have ids: "o_id maker' = o_id maker" "o_id o2 = o_id o1" "o_id maker' \<noteq> o_id o2"
    using terms fits m by (auto simp: same_terms_def fits_def)
  have rows: "row_ok (bs_outbox st) maker" and side: "o_side maker = opposite (o_side o1)"
    and price: "o_price maker = f_price fl"
    using inv fits m by (auto simp: filling_def fits_def)
  note mk = row_ok_fill [OF rows mf price]
  have resting: "is_resting (o_state maker)" using order_fill_frame [OF mf] by simp
  have e1: "escrow_within bps o1" and p1: "progress_ok o1" using inv by (simp_all add: filling_def bps_def)
  have "fee_within bps o1 (f_size fl) (f_price fl) fee"
    using fee notional rate by (auto simp: fee_within_def Let_def bps_def split: side.splits)
      (metis div_le_mono mult_le_mono2 nonzero_mult_div_cancel_right zero_neq_numeral)
  then have e2: "escrow_within bps o2"
    using escrow_fill [OF tf e1] fits by (simp add: fits_def)
  have p2: "progress_ok o2" by (rule progress_fill [OF tf p1])
  have spent2: "order_spent o2 = order_spent o1 + ev_drawn (o_id o2) t"
    using order_fill_spent [OF tf e1] trade_drawn(1) [of o2 maker'] ids terms(2) notional
    by (simp add: t_def same_terms_def split: side.splits)
  have spentm: "order_spent maker' = order_spent maker + ev_drawn (o_id maker') t"
    using mk(3) trade_drawn(2) [of o2 maker'] ids terms notional side
    by (simp add: t_def same_terms_def split: side.splits)
  have res: "o_reserved maker' = o_reserved maker" "o_reserved o2 = o_reserved o1"
    using terms by (simp_all add: same_terms_def)
  have ok2: "order_ok o2" using p2 e2 by (auto simp: order_ok_def)
  have mentions: "mentioned t = {o_id o2, o_id maker'}" by (simp add: t_def)
  have quiet: "ev_locked i t = 0" "ev_released i t = 0" for i by (simp_all add: t_def)
  have old: "total ev_locked (bs_outbox st) (o_id o2) = locked_val (o_reserved o2)"
    "total ev_drawn (bs_outbox st) (o_id o2) = order_spent o1" "total ev_released (bs_outbox st) (o_id o2) = 0"
    using inv ids res by (simp_all add: filling_def)
  have oldm: "total ev_locked (bs_outbox st) (o_id maker') = locked_val (o_reserved maker')"
    "total ev_drawn (bs_outbox st) (o_id maker') = order_spent maker"
    "total ev_released (bs_outbox st) (o_id maker') = 0"
    using rows ids res resting by (simp_all add: row_ok_def escrow_matches_def)
  have "covered (bs_outbox st @ [t])"
    using inv escrow_covers [OF ok2] escrow_covers [OF mk(1)] old oldm spent2 spentm
    by (intro covered_snoc) (auto simp: filling_def mentions quiet)
  moreover have "order_spent maker' + released_val (order_release maker') \<le> locked_val (o_reserved maker')"
    by (rule release_within [OF mk(1)]) (use order_fill_state [OF mf] in auto)
  ultimately have cov: "covered ((bs_outbox st @ [t]) @ release_events maker')"
    using oldm spentm by (intro covered_release) (simp_all add: quiet)
  have maker_row: "row_ok (bs_outbox st @ [t] @ release_events maker') maker'"
    using mk oldm spentm by (simp add: row_ok_def escrow_matches_def quiet)
  have others: "row_ok (bs_outbox st @ [t] @ release_events maker') x"
    if x: "x \<in> set (put maker' (orders_of st))" "o_id x \<noteq> o_id o2" for x
  proof (cases "o_id x = o_id maker'")
    case True
    have "distinct (map o_id (orders_of st))" using inv by (simp add: filling_def)
    from put_same [OF this m(1) terms(1,3) x(1) True] maker_row show ?thesis by simp
  next
    case False
    then have "x \<in> set (orders_of st)" using x(1) put_other by blast
    then have "row_ok (bs_outbox st) x" using inv x(2) ids by (auto simp: filling_def)
    then show ?thesis using False x(2) by (subst row_ok_append) (auto simp: mentions)
  qed
  obtain x0 where x0: "x0 \<in> set (orders_of st)" "same_terms x0 o1" "merge x0 o1 = o1"
    using inv by (auto simp: filling_def)
  have "x0 \<in> set (put maker' (orders_of st))"
    using x0(1,2) ids by (force simp: put_def same_terms_def)
  moreover have "same_terms x0 o2" using x0(2) terms(2) by (rule same_terms_trans)
  moreover have "merge x0 o2 = o2" using order_fill_frame(2,3) [OF tf] x0(3) by metis
  ultimately have taker_row: "\<exists>x \<in> set (orders_of st'). same_terms x o2 \<and> merge x o2 = o2"
    using orders by auto
  have "mentioned ev \<subseteq> ids_of st'" if "ev \<in> set (bs_outbox st')" for ev
  proof -
    have "ids_of st' = ids_of st" using orders put_ids_set by metis
    moreover have "o_id o2 \<in> ids_of st" using x0 ids by (auto simp: same_terms_def)
    moreover have "o_id maker' \<in> ids_of st" using m(1) ids(1) by auto
    ultimately show ?thesis
      using that inv by (auto simp: outbox filling_def mentions simp flip: t_def)
  qed
  then show ?thesis
    using inv cov others taker_row p2 e2 old spent2 ids
    unfolding filling_def orders outbox t_def [symmetric] bps_def [symmetric]
    by (simp add: quiet release_events_def released_val_def split: option.splits)
qed

text \<open>What a run of fills does to a row: terms kept, never back on the book, gone once used up.\<close>

definition evolves :: "fill list \<Rightarrow> order \<Rightarrow> order \<Rightarrow> bool" where
  "evolves fills x y \<longleftrightarrow> same_terms x y \<and>
     (is_resting (o_state y) \<longrightarrow> is_resting (o_state x)) \<and>
     (o_id x \<notin> f_maker ` set fills \<longrightarrow> y = x) \<and>
     (\<forall>fl \<in> set fills. f_maker fl = o_id x \<and> f_size fl = order_remaining x \<longrightarrow> o_state y = Filled)"

lemma evolves_one:
  assumes "distinct (map o_id xs)" "maker \<in> set xs" "o_id maker = f_maker fl"
    and fill: "order_fill maker (f_size fl) p fee = (maker', Inr u)"
  shows "list_all2 (evolves [fl]) xs (put maker' xs)"
proof -
  note fr = order_fill_frame [OF fill]
  have "evolves [fl] x (if o_id x = o_id maker' then merge x maker' else x)" if "x \<in> set xs" for x
  proof (cases "o_id x = o_id maker'")
    case True
    then have "x = maker" using assms(1,2) that fr(1) by (metis distinct_map inj_onD same_terms_def)
    with True fr assms(3) order_fill_done [OF fill] show ?thesis by (auto simp: evolves_def same_terms_def)
  next
    case False
    with assms(3) fr(1) show ?thesis by (auto simp: evolves_def same_terms_def)
  qed
  then show ?thesis
    by (simp add: put_def list_all2_map2 list_all2_same)
qed

lemma evolves_trans:
  assumes "evolves [fl] x y" "evolves fills y z" "f_maker fl \<notin> f_maker ` set fills"
  shows "evolves (fl # fills) x z"
proof (cases "o_id x = f_maker fl")
  case True
  then have "o_id y \<notin> f_maker ` set fills" using assms(1,3) by (auto simp: evolves_def same_terms_def)
  then have "z = y" using assms(2) by (simp add: evolves_def)
  moreover have "f_maker fl' \<noteq> o_id x" if "fl' \<in> set fills" for fl'
    using that True assms(3) by (metis imageI)
  ultimately show ?thesis using assms(1) True by (auto simp: evolves_def)
next
  case False
  then have "y = x" using assms(1) by (auto simp: evolves_def)
  with assms(2) False show ?thesis by (auto simp: evolves_def)
qed

lemma filling_loop:
  assumes "apply_fills sh policy n now r ids fills st o1 trades = Inr (st', o2, trades')"
    and "filling (unat (bp_taker_fee_bps policy)) st o1" "\<forall>fl \<in> set fills. fits st o1 fl"
    and "distinct (map f_maker fills)" and rate: "unat (bp_taker_fee_bps policy) \<le> 10000"
  shows "filling (unat (bp_taker_fee_bps policy)) st' o2 \<and> same_terms o1 o2 \<and>
    shares_val (o_filled o2) = shares_val (o_filled o1) + fills_total fills \<and>
    list_all2 (evolves fills) (orders_of st) (orders_of st') \<and>
    bs_revisions st' = bs_revisions st \<and> bs_policies st' = bs_policies st \<and>
    (fills \<noteq> [] \<longrightarrow> o_state o2 = Filled \<or> o_state o2 = PartiallyFilled) \<and> (fills = [] \<longrightarrow> o2 = o1)"
  using assms(1-4)
proof (induction fills arbitrary: st o1 trades)
  case Nil
  then show ?case by (simp add: list_all2_same evolves_def)
next
  case (Cons fl fills)
  from Cons.prems(1) obtain st1 o3 row where one: "apply_fill sh policy n now r (ids (length trades)) fl st o1 = Inr (st1, o3, row)"
    and rest: "apply_fills sh policy n now r ids fills st1 o3 (trades @ [row]) = Inr (st', o2, trades')"
    by (auto simp: result_iffs)
  obtain maker maker' fee where m: "maker \<in> set (orders_of st)" "o_id maker = f_maker fl"
    and mf: "order_fill maker (f_size fl) (f_price fl) USDT_ZERO = (maker', Inr ())"
    and tf: "order_fill o1 (f_size fl) (f_price fl) fee = (o3, Inr ())"
    and orders: "orders_of st1 = put maker' (orders_of st)"
    and same: "bs_revisions st1 = bs_revisions st" "bs_policies st1 = bs_policies st"
    by (rule apply_fill_Inr [OF one]) (rule that; assumption)
  have inv1: "filling (unat (bp_taker_fee_bps policy)) st1 o3"
    using filling_step [OF Cons.prems(2) _ rate one] Cons.prems(3) by simp
  have terms: "same_terms o1 o3" using order_fill_frame [OF tf] by simp
  have fit: "\<forall>fl \<in> set fills. fits st1 o3 fl" using Cons.prems(3) by (auto intro: fits_put [OF _ orders terms])
  from Cons.IH [OF rest inv1 fit] Cons.prems(4)
  have IH: "filling (unat (bp_taker_fee_bps policy)) st' o2 \<and> same_terms o3 o2 \<and>
    shares_val (o_filled o2) = shares_val (o_filled o3) + fills_total fills \<and>
    list_all2 (evolves fills) (orders_of st1) (orders_of st') \<and>
    bs_revisions st' = bs_revisions st1 \<and> bs_policies st' = bs_policies st1 \<and>
    (fills \<noteq> [] \<longrightarrow> o_state o2 = Filled \<or> o_state o2 = PartiallyFilled) \<and> (fills = [] \<longrightarrow> o2 = o3)" by simp
  have dist: "distinct (map o_id (orders_of st))" using Cons.prems(2) by (simp add: filling_def)
  have one_row: "list_all2 (evolves [fl]) (orders_of st) (orders_of st1)"
    unfolding orders by (rule evolves_one [OF dist m mf])
  have step: "evolves (fl # fills) x z" if "evolves [fl] x y" "evolves fills y z" for x y z
    by (rule evolves_trans [OF that]) (use Cons.prems(4) in simp)
  from IH have rest_rows: "list_all2 (evolves fills) (orders_of st1) (orders_of st')" by blast
  have "list_all2 (evolves (fl # fills)) (orders_of st) (orders_of st')"
    by (rule list_all2_trans [OF step one_row rest_rows])
  then show ?case
    using IH terms order_fill_filled [OF tf] order_fill_state [OF tf] same
    by (auto intro: same_terms_trans)
qed

end
