(* ===== verification/BookReach.thy ===== *)
theory BookReach
  imports BookInv
begin

text \<open>
  The invariant of the whole store, kept by every transaction whatever the engine, as long as
  the engine keeps the contract of \<open>matching_engine\<close>; and every store the book can reach.
\<close>

section \<open>The store's invariant\<close>

definition uncrossed :: "order list \<Rightarrow> bool" where
  "uncrossed xs \<longleftrightarrow> (\<forall>b \<in> set xs. \<forall>s \<in> set xs.
     o_side b = Buy \<and> o_side s = Sell \<and> o_service b = o_service s \<and>
     is_resting (o_state b) \<and> is_resting (o_state s) \<longrightarrow> o_price b < o_price s)"

definition store_ok :: "book_store \<Rightarrow> bool" where
  "store_ok st \<longleftrightarrow>
     distinct (map o_id (orders_of st)) \<and> covered (bs_outbox st) \<and>
     (\<forall>ev \<in> set (bs_outbox st). mentioned ev \<subseteq> ids_of st) \<and>
     (\<forall>x \<in> set (orders_of st). row_ok (bs_outbox st) x) \<and> uncrossed (orders_of st)"

definition book_empty :: book_store where
  "book_empty = \<lparr>bs_policies = Map.empty, bs_orders = [], bs_trades = [], bs_revisions = Map.empty,
     bs_outbox = []\<rparr>"

lemma store_ok_empty: "store_ok book_empty"
  by (simp add: store_ok_def book_empty_def uncrossed_def)

text \<open>An order as the use case builds it: just placed, its size positive, its escrow the policy's.\<close>

definition fresh_order :: "book_policy \<Rightarrow> order \<Rightarrow> bool" where
  "fresh_order policy o1 \<longleftrightarrow> (\<exists>i s u c k tf p sz.
     shares_val (order_size_shares sz) \<noteq> 0 \<and>
     (o1 = order_place i s u c Sell k tf p sz (Units (order_size_shares sz)) \<or>
      (\<exists>cash. buy_reserve policy (order_size_shares sz) p = Inr cash \<and>
         o1 = order_place i s u c Buy k tf p sz (Locked_Cash cash))))"

lemma fresh_order_facts:
  assumes "fresh_order policy o1"
  shows "progress_ok o1" "escrow_within (unat (bp_taker_fee_bps policy)) o1" "o_state o1 = Open"
    "order_spent o1 = 0" "stored_order o1 = o1"
  using assms
  by (auto simp: fresh_order_def progress_place escrow_place_buy escrow_place_sell)
    (auto simp: order_place_def order_spent_def stored_order_def reserved_units_def)

section \<open>The resting side\<close>

lemma crossing_rows_mem:
  "m \<in> set (crossing_rows st o1) \<longleftrightarrow> (\<exists>x \<in> set (orders_of st). m = resting_row x \<and>
     o_service x = o_service o1 \<and> is_resting (o_state x) \<and> o_side x = opposite (o_side o1) \<and>
     within_limit o1 (o_price x))"
  by (cases "o_side o1") (auto simp: crossing_rows_def Let_def within_limit_def)

lemma distinct_sorted_filter:
  "distinct (map f xs) \<Longrightarrow> distinct (map f (sort_key k (filter P (filter Q xs))))"
  by (simp add: distinct_map inj_on_def)

lemma crossing_rows_distinct:
  assumes "distinct (map o_id (orders_of st))"
  shows "distinct (map r_id (crossing_rows st o1))"
proof -
  have ids: "map r_id (map resting_row xs) = map o_id xs" for xs by (simp add: resting_row_def)
  show ?thesis
    unfolding crossing_rows_def Let_def ids
    by (cases "o_side o1") (simp_all only: side.case distinct_sorted_filter [OF assms])
qed

lemma resting_row_remaining [simp]: "r_remaining (resting_row x) = order_remaining x"
  by (simp add: resting_row_def shares_eq_iff remaining_val unat_saturating_sub)

lemma resting_row_simps [simp]: "r_id (resting_row x) = o_id x" "r_price (resting_row x) = o_price x"
  "r_user (resting_row x) = o_user x"
  by (simp_all add: resting_row_def)

definition incoming_of :: "order \<Rightarrow> incoming_order" where
  "incoming_of o1 = \<lparr>i_id = o_id o1, i_user = o_user o1, i_side = o_side o1, i_tif = o_tif o1,
     i_price = o_price o1, i_size = o_size o1\<rparr>"

lemma crosses_iff: "crosses (incoming_of o1) m \<longleftrightarrow> within_limit o1 (r_price m)"
  by (cases "o_side o1") (simp_all add: crosses_def incoming_of_def within_limit_def)

lemma resting_remaining:
  "progress_ok x \<Longrightarrow> is_resting (o_state x) \<Longrightarrow> \<not> shares_is_zero (order_remaining x)"
  by (auto simp: progress_ok_def is_resting_def zero_iffs remaining_val shares_eq_iff)

section \<open>A placement starts\<close>

definition opened :: "book_store \<Rightarrow> order \<Rightarrow> book_store" where
  "opened st o1 = record_event (insert_order (fst (bump_revision st (o_service o1))) o1
     (snd (bump_revision st (o_service o1))))
     (OrderPlaced (o_id o1) (o_service o1) (o_user o1) (o_side o1) (o_reserved o1))"

lemma opened_simps:
  assumes "fresh_order policy o1"
  shows "orders_of (opened st o1) = orders_of st @ [o1]"
    "bs_outbox (opened st o1) = bs_outbox st @
      [OrderPlaced (o_id o1) (o_service o1) (o_user o1) (o_side o1) (o_reserved o1)]"
  using fresh_order_facts [OF assms]
  by (simp_all add: opened_def record_event_def insert_order_def bump_revision_def Let_def)

lemma filling_opened:
  assumes ok: "store_ok st" and fresh: "fresh_order policy o1" and new: "o_id o1 \<notin> ids_of st"
  shows "filling (unat (bp_taker_fee_bps policy)) (opened st o1) o1"
proof -
  define ev where "ev = OrderPlaced (o_id o1) (o_service o1) (o_user o1) (o_side o1) (o_reserved o1)"
  note f = fresh_order_facts [OF fresh] and op = opened_simps [OF fresh, of st]
  have "o_id o1 \<notin> mentioned e" if "e \<in> set (bs_outbox st)" for e
    using ok new that by (auto simp: store_ok_def)
  note zero = total_unmentioned [of "bs_outbox st" "o_id o1", OF this]
  have "covered (bs_outbox st @ [ev])"
    using ok zero by (intro covered_snoc) (auto simp: store_ok_def ev_def)
  moreover have "row_ok (bs_outbox st @ [ev]) x" if x: "x \<in> set (orders_of st)" for x
  proof -
    have "o_id x \<noteq> o_id o1" using new x by (metis imageI)
    then show ?thesis using ok x by (subst row_ok_append) (auto simp: store_ok_def ev_def)
  qed
  ultimately show ?thesis
    using ok new f zero unfolding filling_def op ev_def [symmetric]
    by (auto simp: store_ok_def ev_def)
qed

lemma opened_mono: "uncrossed xs \<Longrightarrow> set ys \<subseteq> set xs \<Longrightarrow> uncrossed ys"
  by (auto simp: uncrossed_def)

text \<open>The end of a placement: the taker's row catches up and its release is recorded.\<close>

lemma filling_closed:
  assumes inv: "filling bps st o1" and up: "update_order st o1 r = Inr st1"
    and state: "o_state o1 \<noteq> Rejected" "is_resting (o_state o1) \<Longrightarrow> o_tif o1 \<noteq> Ioc"
    and unc: "uncrossed (orders_of st1)"
  shows "store_ok (record_release st1 o1)" "o1 \<in> set (orders_of st1)"
proof -
  note u = update_order_Inr [OF up]
  have ok: "order_ok o1" using inv by (auto simp: filling_def order_ok_def)
  obtain x0 where x0: "x0 \<in> set (orders_of st)" "same_terms x0 o1" "merge x0 o1 = o1"
    using inv by (auto simp: filling_def)
  have dist: "distinct (map o_id (orders_of st))" using inv by (simp add: filling_def)
  have taker: "y = o1" if "y \<in> set (put o1 (orders_of st))" "o_id y = o_id o1" for y
    using put_same [OF dist x0 that] .
  show "o1 \<in> set (orders_of st1)"
    using x0 unfolding u(1) put_def by (force simp: same_terms_def)
  have cov: "covered (bs_outbox st @ release_events o1)"
    using inv release_within [OF ok state(1)] by (intro covered_release) (simp_all add: filling_def)
  have own: "row_ok (bs_outbox st @ release_events o1) o1"
    using inv ok state by (simp add: row_ok_def escrow_matches_def filling_def)
  have rows: "row_ok (bs_outbox st @ release_events o1) y" if y: "y \<in> set (put o1 (orders_of st))" for y
  proof (cases "o_id y = o_id o1")
    case True
    with taker [OF y] own show ?thesis by simp
  next
    case False
    then have "row_ok (bs_outbox st) y" using inv put_other [OF y] by (auto simp: filling_def)
    with False show ?thesis by (subst row_ok_append) auto
  qed
  have "ids_of st1 = ids_of st" using u(1) put_ids_set by metis
  moreover have "o_id o1 \<in> ids_of st" using x0 by (auto simp: same_terms_def)
  ultimately have "mentioned ev \<subseteq> ids_of st1" if "ev \<in> set (bs_outbox st @ release_events o1)" for ev
    using that inv by (auto simp: filling_def)
  moreover have "distinct (map o_id (orders_of st1))" using dist u(1) put_ids by metis
  moreover have "row_ok (bs_outbox st @ release_events o1) y" if "y \<in> set (orders_of st1)" for y
    using rows that u(1) by metis
  moreover have "bs_orders (record_release st1 o1) = bs_orders st1"
    "bs_outbox (record_release st1 o1) = bs_outbox st @ release_events o1"
    by (simp_all add: record_release_eq u(2))
  ultimately show "store_ok (record_release st1 o1)"
    using cov unc unfolding store_ok_def by metis
qed

section \<open>A placement ends\<close>

lemma settle_taker_Inr:
  assumes "settle_taker sh out rv st2 o2 trades = Inr (st', record, trades', revision)"
  obtains o3 st3 where
    "if \<not> mo_rests out \<and> is_resting (o_state o2)
      then order_cancel o2 (remainder_of (o_kind o2)) = (o3, Inr ()) else o3 = o2"
    and "update_order st2 o3 rv = Inr st3"
    and "st' = record_release st3 o3" "load_order sh st' (o_id o3) = Inr record"
    and "trades' = trades" "revision = rv"
proof -
  obtain o3 c where o3: "(if \<not> mo_rests out \<and> is_resting (o_state o2)
      then order_cancel o2 (remainder_of (o_kind o2)) else (o2, Inr ())) = (o3, c)" by fastforce
  have "rbind c (\<lambda>_. rbind (update_order st2 o3 rv) (\<lambda>st. rbind (load_order sh (record_release st o3) (o_id o3))
      (\<lambda>r. Inr (record_release st o3, r, trades, rv)))) = Inr (st', record, trades', revision)"
    using assms by (simp only: settle_taker_def o3 prod.case Let_def)
  then obtain u where c: "c = Inr u"
    and 1: "rbind (update_order st2 o3 rv) (\<lambda>st. rbind (load_order sh (record_release st o3) (o_id o3))
      (\<lambda>r. Inr (record_release st o3, r, trades, rv))) = Inr (st', record, trades', revision)"
    by (rule rbind_InrE)
  obtain st3 where up: "update_order st2 o3 rv = Inr st3"
    and 2: "rbind (load_order sh (record_release st3 o3) (o_id o3))
      (\<lambda>r. Inr (record_release st3 o3, r, trades, rv)) = Inr (st', record, trades', revision)"
    by (rule rbind_InrE [OF 1])
  obtain r where load: "load_order sh (record_release st3 o3) (o_id o3) = Inr r"
    and "(Inr (record_release st3 o3, r, trades, rv) :: _ result) = Inr (st', record, trades', revision)"
    by (rule rbind_InrE [OF 2])
  then have out: "st' = record_release st3 o3" "r = record" "trades' = trades" "revision = rv" by simp_all
  show thesis
    by (rule that [of o3 st3]) (use o3 c up load out in \<open>auto split: if_splits\<close>)
qed

lemma place_tx_Inr:
  assumes "place_tx sh policy n now ids out st o1 = Inr (st', record, trades, revision)"
  obtains st2 o2 where
    "apply_fills sh policy n now (snd (bump_revision st (o_service o1))) ids (mo_fills out) (opened st o1) o1 []
      = Inr (st2, o2, trades)"
    and "settle_taker sh out (snd (bump_revision st (o_service o1))) st2 o2 trades
      = Inr (st', record, trades, revision)"
proof -
  define rv where "rv = snd (bump_revision st (o_service o1))"
  have "rbind (apply_fills sh policy n now rv ids (mo_fills out) (opened st o1) o1 [])
      (\<lambda>(st2, o2, tr). settle_taker sh out rv st2 o2 tr) = Inr (st', record, trades, revision)"
    using assms by (simp add: place_tx_def opened_def Let_def split_beta rv_def)
  then obtain w where w: "apply_fills sh policy n now rv ids (mo_fills out) (opened st o1) o1 [] = Inr w"
    and s: "(case w of (st2, o2, tr) \<Rightarrow> settle_taker sh out rv st2 o2 tr) = Inr (st', record, trades, revision)"
    by (rule rbind_InrE)
  obtain st2 o2 tr where w': "w = (st2, o2, tr)" by (cases w)
  with s have s: "settle_taker sh out rv st2 o2 tr = Inr (st', record, trades, revision)" by simp
  then have "tr = trades" by (rule settle_taker_Inr) simp
  with w s w' show thesis by (intro that [of st2 o2]) (simp_all add: rv_def)
qed

lemma order_cancel_update:
  assumes "order_cancel x r = (y, Inr u)"
  obtains reason where "y = x\<lparr>o_state := Cancelled, o_cancel_reason := reason\<rparr>"
proof (rule order_cancel_InrE [OF assms])
  assume "o_state x = Cancelled" "y = x"
  then show thesis by (intro that [of "o_cancel_reason x"]) (cases x, simp)
qed (rule that)

lemma filling_cancel:
  assumes inv: "filling bps st o1" and c: "order_cancel o1 r = (o2, Inr u)"
  shows "filling bps st o2" "same_terms o1 o2" "o_state o2 = Cancelled" "order_spent o2 = order_spent o1"
proof -
  obtain reason where o2: "o2 = o1\<lparr>o_state := Cancelled, o_cancel_reason := reason\<rparr>"
    by (rule order_cancel_update [OF c])
  show "o_state o2 = Cancelled" "same_terms o1 o2" "order_spent o2 = order_spent o1"
    by (simp_all add: o2 same_terms_def order_spent_def split: locked.splits)
  have merge: "merge x o2 = o2" if "merge x o1 = o1" for x
  proof -
    have "merge x o2 = (merge x o1)\<lparr>o_state := Cancelled, o_cancel_reason := reason\<rparr>"
      by (simp add: o2 merge_def)
    with that show ?thesis by (simp add: o2)
  qed
  have "same_terms x o2" if "same_terms x o1" for x using that by (simp add: o2 same_terms_def)
  with merge have "\<exists>x \<in> set (orders_of st). same_terms x o2 \<and> merge x o2 = o2"
    using inv unfolding filling_def by blast
  moreover have "o_id o2 = o_id o1" "o_reserved o2 = o_reserved o1" "order_spent o2 = order_spent o1"
    by (simp_all add: o2 order_spent_def split: locked.splits)
  ultimately show "filling bps st o2"
    using inv progress_cancel [OF c] escrow_cancel [OF c, of bps] by (simp add: filling_def)
qed

section \<open>A placement by an engine\<close>

lemma evolves_memE:
  assumes "list_all2 (evolves fills) xs ys" "y \<in> set ys"
  obtains x where "x \<in> set xs" "evolves fills x y"
proof -
  obtain k where k: "k < length ys" "y = ys ! k" using assms(2) by (auto simp: in_set_conv_nth)
  with list_all2_lengthD [OF assms(1)] list_all2_nthD2 [OF assms(1)] show thesis
    by (intro that [of "xs ! k"]) simp_all
qed

context matching_engine
begin

lemma engine_fits:
  assumes m: "match_order (incoming_of o1) (crossing_rows st o1) policy = Inr out"
    and dist: "distinct (map o_id (orders_of st))" and new: "o_id o1 \<notin> ids_of st"
    and opened: "orders_of st' = orders_of st @ [o1]"
  shows "\<forall>fl \<in> set (mo_fills out). fits st' o1 fl" "distinct (map f_maker (mo_fills out))"
proof -
  show "distinct (map f_maker (mo_fills out))"
    by (rule once_each [OF m crossing_rows_distinct [OF dist]])
  show "\<forall>fl \<in> set (mo_fills out). fits st' o1 fl"
  proof
    fix fl assume "fl \<in> set (mo_fills out)"
    from from_book [OF m this] obtain r where r: "r \<in> set (crossing_rows st o1)" "fill_of r fl" by blast
    then obtain x where x: "x \<in> set (orders_of st)" "r = resting_row x"
      "o_side x = opposite (o_side o1)" "within_limit o1 (o_price x)"
      unfolding crossing_rows_mem by blast
    with r(2) have fl: "f_maker fl = o_id x" "f_price fl = o_price x" by (simp_all add: fill_of_def)
    have ne: "o_id x \<noteq> o_id o1" using new x(1) by (metis imageI)
    have uniq: "y = x" if "y \<in> set (orders_of st')" "o_id y = o_id x" for y
      using that ne x(1) dist unfolding opened by (metis Un_iff distinct_map empty_iff empty_set inj_onD
          insert_iff list.simps(15) set_append)
    show "fits st' o1 fl"
      unfolding fits_def
    proof (intro conjI ballI impI)
      show "f_maker fl \<noteq> o_id o1" "within_limit o1 (f_price fl)" using fl ne x by simp_all
      fix y assume y: "y \<in> set (orders_of st')" "o_id y = f_maker fl"
      have "y = x" by (rule uniq) (use y fl in simp_all)
      with x fl show "o_side y = opposite (o_side o1)" "o_price y = f_price fl" by simp_all
    qed
  qed
qed

text \<open>A taker left on the book has used up every order it crossed.\<close>

lemma engine_clears:
  assumes m: "match_order (incoming_of o1) (crossing_rows st o1) policy = Inr out"
    and rests: "mo_rests out" and x: "x \<in> set (orders_of st)" "o_service x = o_service o1"
    "is_resting (o_state x)" "o_side x = opposite (o_side o1)" "progress_ok x"
    and ev: "evolves (mo_fills out) x y" "is_resting (o_state y)"
  shows "\<not> within_limit o1 (o_price x)"
proof
  assume lim: "within_limit o1 (o_price x)"
  have all: "crosses (incoming_of o1) r" if "r \<in> set (crossing_rows st o1)" for r
    using that by (auto simp: crosses_iff crossing_rows_mem)
  have left: "\<not> shares_is_zero (mo_remainder out)" using rests rests_iff [OF m] by simp
  have mem: "resting_row x \<in> set (crossing_rows st o1)"
    using x lim by (auto simp: crossing_rows_mem)
  have "sorted_wrt (\<lambda>r r'. crosses (incoming_of o1) r' \<longrightarrow> crosses (incoming_of o1) r) (crossing_rows st o1)"
    using all by (auto simp: sorted_wrt_iff_nth_less)
  from exhausts [OF m left this mem] all [OF mem] resting_remaining [OF x(5,3)]
  obtain fl where "fl \<in> set (mo_fills out)" "f_maker fl = o_id x" "f_size fl = order_remaining x" by auto
  with ev(1) have "o_state y = Filled" by (auto simp: evolves_def)
  with ev(2) show False by (simp add: is_resting_def)
qed

end

lemma uncrossed_put:
  assumes old: "uncrossed xs" and dist: "distinct (map o_id ys)"
    and ev: "list_all2 (evolves fills) (xs @ [o1]) ys" and new: "\<And>x. x \<in> set xs \<Longrightarrow> o_id x \<noteq> o_id o1"
    and o3: "same_terms o1 o3" "x0 \<in> set ys" "same_terms x0 o3" "merge x0 o3 = o3"
    and clear: "\<And>x y. x \<in> set xs \<Longrightarrow> evolves fills x y \<Longrightarrow> is_resting (o_state y) \<Longrightarrow> is_resting (o_state o3) \<Longrightarrow>
      o_service x = o_service o1 \<Longrightarrow> o_side x = opposite (o_side o1) \<Longrightarrow> \<not> within_limit o1 (o_price x)"
  shows "uncrossed (put o3 ys)"
proof -
  have split: "y = o3 \<or> (\<exists>x \<in> set xs. evolves fills x y)" if y: "y \<in> set (put o3 ys)" for y
  proof (cases "o_id y = o_id o3")
    case True
    with put_same [OF dist o3(2,3,4) y] show ?thesis by simp
  next
    case False
    then have "y \<in> set ys" using y put_other by blast
    then obtain x where x: "x \<in> set (xs @ [o1])" "evolves fills x y" using ev evolves_memE by metis
    have "x \<noteq> o1" using False x(2) o3(1) by (auto simp: evolves_def same_terms_def)
    with x show ?thesis by auto
  qed
  show ?thesis
    unfolding uncrossed_def
  proof (intro ballI impI, elim conjE)
    fix b s
    assume mem: "b \<in> set (put o3 ys)" "s \<in> set (put o3 ys)" and side: "o_side b = Buy" "o_side s = Sell"
      and svc: "o_service b = o_service s" and rest: "is_resting (o_state b)" "is_resting (o_state s)"
    show "o_price b < o_price s"
    proof (cases "b = o3"; cases "s = o3")
      assume "b = o3" "s = o3" then show ?thesis using side by simp
    next
      assume b: "b = o3" and "s \<noteq> o3"
      then obtain x where x: "x \<in> set xs" "evolves fills x s" using split mem by blast
      with clear [OF x rest(2)] b side svc rest o3(1) show ?thesis
        by (auto simp: evolves_def same_terms_def within_limit_def)
    next
      assume "b \<noteq> o3" and s: "s = o3"
      then obtain x where x: "x \<in> set xs" "evolves fills x b" using split mem by blast
      with clear [OF x rest(1)] s side svc rest o3(1) show ?thesis
        by (auto simp: evolves_def same_terms_def within_limit_def)
    next
      assume "b \<noteq> o3" "s \<noteq> o3"
      then obtain x x' where x: "x \<in> set xs" "x' \<in> set xs" and ev: "evolves fills x b" "evolves fills x' s"
        using split mem by blast
      have "o_side x = Buy \<and> o_side x' = Sell \<and> o_service x = o_service x' \<and> is_resting (o_state x) \<and>
          is_resting (o_state x')" "o_price x = o_price b" "o_price x' = o_price s"
        using ev side svc rest by (auto simp: evolves_def same_terms_def)
      moreover have "o_price x < o_price x'"
        using old x calculation(1) unfolding uncrossed_def by blast
      ultimately show ?thesis by simp
    qed
  qed
qed

lemma settled_state:
  assumes inv: "filling bps st o2" and not_rej: "o_state o2 \<noteq> Rejected"
    and o3: "if \<not> rests \<and> is_resting (o_state o2)
      then order_cancel o2 (remainder_of (o_kind o2)) = (o3, Inr ()) else o3 = o2"
  shows "filling bps st o3" "same_terms o2 o3" "o_state o3 \<noteq> Rejected" "is_resting (o_state o3) \<Longrightarrow> rests"
  using assms filling_cancel [OF inv, of "remainder_of (o_kind o2)" o3]
  by (auto simp: is_resting_def split: if_splits)

context matching_engine
begin

lemma place_keeps_ok:
  assumes ok: "store_ok st" and fresh: "fresh_order policy o1" and new: "o_id o1 \<notin> ids_of st"
    and rate: "unat (bp_taker_fee_bps policy) \<le> 10000"
    and m: "match_order (incoming_of o1) (crossing_rows st o1) policy = Inr out"
    and tx: "place_tx sh policy n now ids out st o1 = Inr (st', record, trades, revision)"
  shows "store_ok st'" "record \<in> set (orders_of st')" "same_terms o1 record"
proof -
  have dist: "distinct (map o_id (orders_of st))" using ok by (simp add: store_ok_def)
  note op = opened_simps [OF fresh, of st] and ff = fresh_order_facts [OF fresh]
  note fit = engine_fits [OF m dist new op(1)]
  obtain st2 o2 where fills: "apply_fills sh policy n now (snd (bump_revision st (o_service o1))) ids
      (mo_fills out) (opened st o1) o1 [] = Inr (st2, o2, trades)"
    and settle: "settle_taker sh out (snd (bump_revision st (o_service o1))) st2 o2 trades
      = Inr (st', record, trades, revision)"
    by (rule place_tx_Inr [OF tx])
  from filling_loop [OF fills filling_opened [OF ok fresh new] fit rate]
  have inv2: "filling (unat (bp_taker_fee_bps policy)) st2 o2" and terms2: "same_terms o1 o2"
    and rows: "list_all2 (evolves (mo_fills out)) (orders_of st @ [o1]) (orders_of st2)"
    and state2: "o_state o2 \<noteq> Rejected"
    using op(1) ff(3) by (auto simp del: map_append)
  obtain o3 st3 where o3: "if \<not> mo_rests out \<and> is_resting (o_state o2)
      then order_cancel o2 (remainder_of (o_kind o2)) = (o3, Inr ()) else o3 = o2"
    and up: "update_order st2 o3 (snd (bump_revision st (o_service o1))) = Inr st3"
    and st': "st' = record_release st3 o3" and load: "load_order sh st' (o_id o3) = Inr record"
    by (rule settle_taker_Inr [OF settle])
  note s3 = settled_state [OF inv2 state2 o3]
  have terms3: "same_terms o1 o3" using terms2 s3(2) by (rule same_terms_trans)
  have ioc: "o_tif o3 \<noteq> Ioc" if "is_resting (o_state o3)"
    using s3(4) [OF that] rests_iff [OF m] terms3 by (simp add: incoming_of_def same_terms_def)
  obtain x0 where x0: "x0 \<in> set (orders_of st2)" "same_terms x0 o3" "merge x0 o3 = o3"
    using s3(1) by (auto simp: filling_def)
  have "uncrossed (put o3 (orders_of st2))"
  proof (rule uncrossed_put [OF _ _ rows _ terms3 x0])
    show "uncrossed (orders_of st)" using ok by (simp add: store_ok_def)
    show "distinct (map o_id (orders_of st2))" using inv2 by (simp add: filling_def)
    show "o_id x \<noteq> o_id o1" if "x \<in> set (orders_of st)" for x using new that by (metis imageI)
    fix x y
    assume x: "x \<in> set (orders_of st)" "o_service x = o_service o1" "o_side x = opposite (o_side o1)"
      and y: "evolves (mo_fills out) x y" "is_resting (o_state y)" "is_resting (o_state o3)"
    have "progress_ok x" using ok x(1) by (auto simp: store_ok_def row_ok_def order_ok_def)
    moreover have "is_resting (o_state x)" using y by (simp add: evolves_def)
    ultimately show "\<not> within_limit o1 (o_price x)"
      using engine_clears [OF m s3(4) [OF y(3)] x(1,2) _ x(3) _ y(1,2)] by blast
  qed
  then have unc: "uncrossed (orders_of st3)" using update_order_Inr(1) [OF up] by simp
  note closed = filling_closed [OF s3(1) up s3(3) ioc unc]
  from closed(1) show ok': "store_ok st'" by (simp add: st')
  have same_orders: "orders_of st' = orders_of st3" by (simp add: st' record_release_eq)
  have found: "record \<in> set (orders_of st')" "o_id record = o_id o3"
    using load find_order_Some by (simp_all add: load_order_def)
  then show "record \<in> set (orders_of st')" by simp
  have "record = o3"
    using ok' found closed(2) same_orders unfolding store_ok_def by (metis distinct_map inj_onD)
  with terms3 show "same_terms o1 record" by simp
qed

end

section \<open>The other transactions\<close>

lemma bump_frame [simp]: "bs_orders (fst (bump_revision st s)) = bs_orders st"
    "bs_outbox (fst (bump_revision st s)) = bs_outbox st"
  by (simp_all add: bump_revision_def Let_def)

lemma uncrossed_put_gone:
  assumes "uncrossed xs" "\<not> is_resting (o_state z)"
  shows "uncrossed (put z xs)"
proof -
  have "y \<in> set xs" if "y \<in> set (put z xs)" "is_resting (o_state y)" for y
    using that assms(2) by (auto simp: put_def merge_def split: if_splits)
  with assms(1) show ?thesis unfolding uncrossed_def by blast
qed

lemma filling_resting:
  assumes ok: "store_ok st" and x: "x \<in> set (orders_of st)" "is_resting (o_state x)"
  obtains bps where "filling bps st x"
proof -
  have row: "row_ok (bs_outbox st) x" using ok x(1) unfolding store_ok_def by blast
  then obtain bps where e: "escrow_within bps x" "progress_ok x" by (auto simp: row_ok_def order_ok_def)
  have "same_terms x x" "merge x x = x" by simp_all
  with x(1) have "\<exists>y \<in> set (orders_of st). same_terms y x \<and> merge y x = x" by blast
  then have "filling bps st x"
    using ok row e x(2) by (simp add: filling_def store_ok_def row_ok_def escrow_matches_def)
  then show thesis by (rule that)
qed

lemma store_cancel_cases:
  assumes "store_cancel sh st i = (st', r)"
  obtains "st' = st"
  | o1 o2 rv st2 where "o1 \<in> set (orders_of st)" "is_resting (o_state o1)" "order_cancel o1 User = (o2, Inr ())"
      "update_order (fst (bump_revision st (o_service o1))) o2 rv = Inr st2" "st' = record_release st2 o2"
proof (cases "st' = st")
  case False
  then obtain o1 where load: "load_order sh st i = Inr o1"
    using assms by (cases "load_order sh st i") (auto simp: store_cancel_def)
  have not_cancelled: "o_state o1 \<noteq> Cancelled" using False assms load by (auto simp: store_cancel_def)
  obtain o2 c where c: "order_cancel o1 User = (o2, c)" by fastforce
  have "c = Inr ()" using False assms load c not_cancelled by (cases c) (auto simp: store_cancel_def)
  note c = c [unfolded this]
  have terms: "o_service o2 = o_service o1" by (rule order_cancel_InrE [OF c]) simp_all
  obtain st2 where up: "update_order (fst (bump_revision st (o_service o1))) o2
      (snd (bump_revision st (o_service o1))) = Inr st2"
    using False assms load c not_cancelled terms
    by (cases "update_order (fst (bump_revision st (o_service o1))) o2 (snd (bump_revision st (o_service o1)))")
      (auto simp: store_cancel_def Let_def split_beta)
  have st': "st' = record_release st2 o2"
    using False assms load c not_cancelled terms up
    by (auto simp: store_cancel_def Let_def split_beta split: sum.splits)
  have rest: "is_resting (o_state o1)" by (rule order_cancel_InrE [OF c]) (simp_all add: not_cancelled)
  have "o1 \<in> set (orders_of st)" using load find_order_Some by (simp add: load_order_def)
  from that(2) [OF this rest c up st'] show thesis .
qed (rule that(1))

lemma store_cancel_keeps_ok:
  assumes ok: "store_ok st" and c: "store_cancel sh st i = (st', r)"
  shows "store_ok st'"
  using c
proof (cases rule: store_cancel_cases)
  case 1
  with ok show ?thesis by simp
next
  case (2 o1 o2 rv st2)
  obtain bps where inv: "filling bps st o1" using filling_resting [OF ok 2(1,2)] .
  define st1 where "st1 = fst (bump_revision st (o_service o1))"
  have "filling bps st1 o1" using inv by (simp add: filling_def st1_def)
  note fc = filling_cancel [OF this 2(3)]
  have gone: "\<not> is_resting (o_state o2)" "o_state o2 \<noteq> Rejected" using fc(3) by (simp_all add: is_resting_def)
  note up = 2(4) [folded st1_def]
  have "uncrossed (orders_of st2)"
    unfolding update_order_Inr(1) [OF up] using ok gone
    by (intro uncrossed_put_gone) (simp_all add: store_ok_def st1_def)
  with filling_closed(1) [OF fc(1) up gone(2)] gone(1) show ?thesis by (simp add: 2(5))
qed

definition rejected :: "string \<Rightarrow> order \<Rightarrow> order" where
  "rejected reason x = x\<lparr>o_state := Rejected, o_reject_reason := Some reason\<rparr>"

lemma rejected_frame [simp]: "o_id (rejected reason x) = o_id x"
    "escrow_within bps (rejected reason x) = escrow_within bps x" "order_spent (rejected reason x) = order_spent x"
    "\<not> is_resting (o_state (rejected reason x))" "order_release (rejected reason x) = None"
    "o_reserved (rejected reason x) = o_reserved x"
  by (simp_all add: rejected_def escrow_within_def order_spent_def is_resting_def order_release_def
      split: side.splits locked.splits)

lemma progress_rejected: "progress_ok x \<Longrightarrow> is_resting (o_state x) \<Longrightarrow> progress_ok (rejected reason x)"
  by (auto simp: progress_ok_def rejected_def is_resting_def)

lemma row_ok_rejected: "row_ok evs x \<Longrightarrow> is_resting (o_state x) \<Longrightarrow> row_ok evs (rejected reason x)"
  by (auto simp: row_ok_def order_ok_def escrow_matches_def progress_rejected)

lemma mark_rejected_orders:
  "orders_of (mark_rejected st i reason) =
     map (\<lambda>x. if o_id x = i \<and> is_resting (o_state x) then rejected reason x else x) (orders_of st)"
  "bs_outbox (mark_rejected st i reason) = bs_outbox st"
proof -
  show "bs_outbox (mark_rejected st i reason) = bs_outbox st"
    by (simp add: mark_rejected_def Let_def split_beta split: option.splits)
  show "orders_of (mark_rejected st i reason) =
     map (\<lambda>x. if o_id x = i \<and> is_resting (o_state x) then rejected reason x else x) (orders_of st)"
    by (auto simp: mark_rejected_def Let_def split_beta rejected_def find_None_iff split: option.splits)
qed

lemma mark_rejected_keeps_ok:
  assumes ok: "store_ok st"
  shows "store_ok (mark_rejected st i reason)"
proof -
  define f where "f x = (if o_id x = i \<and> is_resting (o_state x) then rejected reason x else x)" for x
  have orders: "orders_of (mark_rejected st i reason) = map f (orders_of st)"
    unfolding mark_rejected_orders(1) f_def ..
  have ids: "o_id (f x) = o_id x" for x by (simp add: f_def rejected_def)
  then have "map o_id (map f (orders_of st)) = map o_id (orders_of st)" by simp
  then have distinct: "distinct (map o_id (map f (orders_of st)))" using ok by (simp only: store_ok_def)
  have idset: "o_id ` set (map f (orders_of st)) = ids_of st"
    unfolding set_map [of f] image_image ids ..
  have rows: "row_ok (bs_outbox st) (f x)" if "x \<in> set (orders_of st)" for x
    using ok that row_ok_rejected unfolding store_ok_def f_def by metis
  have "f x \<in> set (orders_of st)" if "x \<in> set (orders_of st)" "is_resting (o_state (f x))" for x
    using that unfolding f_def by (metis rejected_frame(4))
  then have "uncrossed (map f (orders_of st))"
    using ok unfolding store_ok_def uncrossed_def by (smt (verit) imageE list.set_map)
  then show ?thesis
    using ok distinct idset rows unfolding store_ok_def orders mark_rejected_orders(2) by auto
qed

lemma store_set_policy_keeps_ok:
  assumes "store_ok st" "store_set_policy registered st service policy = (st', r)"
  shows "store_ok st'"
proof -
  have "bs_orders st' = bs_orders st" "bs_outbox st' = bs_outbox st"
    using assms(2) by (auto simp: store_set_policy_def split: if_splits)
  with assms(1) show ?thesis unfolding store_ok_def by simp
qed

section \<open>Every store the book reaches\<close>

text \<open>
  One committed transaction, over any engine.  A placement brings an order the use case built
  under the terms then in force, with an id nothing in the table has; the notional the spend
  guard reads, the mark, the clock and the minted trade ids are whatever they are.
\<close>

inductive book_step ::
  "(incoming_order \<Rightarrow> resting_order list \<Rightarrow> book_policy \<Rightarrow> rejection + match_outcome)
    \<Rightarrow> book_store \<Rightarrow> book_store \<Rightarrow> bool" for engine where
  place: "fresh_order policy o1 \<Longrightarrow> book_policy_ok policy \<Longrightarrow> find_order st (o_id o1) = None \<Longrightarrow>
    store_place sh engine st o1 policy n spend_guard now ids = (st', placed) \<Longrightarrow> book_step engine st st'"
| cancel: "store_cancel sh st i = (st', cancelled) \<Longrightarrow> book_step engine st st'"
| reject: "mark_rejected st i reason = st' \<Longrightarrow> book_step engine st st'"
| set_policy: "store_set_policy registered st service policy = (st', r) \<Longrightarrow> book_step engine st st'"

inductive book_reach ::
  "(incoming_order \<Rightarrow> resting_order list \<Rightarrow> book_policy \<Rightarrow> rejection + match_outcome) \<Rightarrow> book_store \<Rightarrow> bool"
  for engine where
  start: "book_reach engine book_empty"
| step: "book_reach engine st \<Longrightarrow> book_step engine st st' \<Longrightarrow> book_reach engine st'"

inductive_cases book_stepE: "book_step engine st st'"

lemma store_place_cases:
  assumes "store_place sh engine st o1 policy n spend_guard now ids = (st', placed)"
  obtains "st' = st"
  | out stored trades revision where "engine (incoming_of o1) (crossing_rows st o1) policy = Inr out"
      "place_tx sh policy n now ids out st o1 = Inr (st', stored, trades, revision)"
      "placed = Inr (Placed stored trades (nat revision))"
  using assms unfolding store_place_def Let_def incoming_of_def [symmetric]
  by (auto split: option.splits sum.splits)

context matching_engine
begin

lemma step_keeps_ok:
  assumes "book_step match_order st st'" "store_ok st"
  shows "store_ok st'"
  using assms(1)
proof (rule book_stepE)
  fix policy o1 sh n spend_guard now ids placed
  assume o1: "fresh_order policy o1" "book_policy_ok policy" "find_order st (o_id o1) = None"
    and tx: "store_place sh match_order st o1 policy n spend_guard now ids = (st', placed)"
  from tx show ?thesis
  proof (rule store_place_cases)
    assume "st' = st"
    with assms(2) show ?thesis by simp
  next
    fix out stored trades revision
    assume m: "match_order (incoming_of o1) (crossing_rows st o1) policy = Inr out"
      "place_tx sh policy n now ids out st o1 = Inr (st', stored, trades, revision)"
    have "o_id o1 \<notin> ids_of st" using o1(3) unfolding find_order_None .
    moreover have "unat (bp_taker_fee_bps policy) \<le> 10000" using o1(2) by (simp add: book_policy_ok_def)
    ultimately show ?thesis using place_keeps_ok(1) [OF assms(2) o1(1) _ _ m] by blast
  qed
qed (use assms(2) store_cancel_keeps_ok mark_rejected_keeps_ok store_set_policy_keeps_ok in blast)+

lemma reach_ok: "book_reach match_order st \<Longrightarrow> store_ok st"
  by (induction rule: book_reach.induct) (simp_all add: store_ok_empty step_keeps_ok)

end

lemma row_of_reach:
  assumes "book_reach price_time_match st" "x \<in> set (orders_of st)"
  shows "row_ok (bs_outbox st) x"
  using price_time.reach_ok [OF assms(1)] assms(2) unfolding store_ok_def by blast

section \<open>A book with a trade in it\<close>

definition sample_policy :: book_policy where
  "sample_policy = \<lparr>bp_open = True, bp_taker_fee_bps = 100, bp_price_tick = Price 5, bp_lot_size = Shares 2,
     bp_market_slippage_bps = 500, bp_allow_unbacked = False\<rparr>"

definition sample_sell :: order where
  "sample_sell = order_place 1 (ServiceId ''fund'') 10 (ClientOrderId ''a'') Sell Limit Gtc
     (Price 2000000000000000000) (OrderSize (Shares 1000)) (Units (order_size_shares (OrderSize (Shares 1000))))"

definition sample_buy :: order where
  "sample_buy = order_place 2 (ServiceId ''fund'') 20 (ClientOrderId ''b'') Buy Limit Gtc
     (Price 3000000000000000000) (OrderSize (Shares 400)) (Locked_Cash (Usdt 1212))"

definition sample_place :: "book_store \<Rightarrow> order \<Rightarrow> book_store \<times> place_outcome result" where
  "sample_place st o1 =
     store_place (\<lambda>_. []) price_time_match st o1 sample_policy (Nav SCALE) (Inr ()) 0 (\<lambda>k. word_of_nat (100 + k))"

definition sample_bid :: order where
  "sample_bid = order_place 3 (ServiceId ''fund'') 20 (ClientOrderId ''c'') Buy Limit Gtc
     (Price 1000000000000000000) (OrderSize (Shares 500)) (Locked_Cash (Usdt 505))"

definition sample_book1 :: book_store where
  "sample_book1 = fst (sample_place book_empty sample_sell)"

definition sample_book2 :: book_store where
  "sample_book2 = fst (sample_place sample_book1 sample_buy)"

definition sample_book :: book_store where
  "sample_book = fst (sample_place sample_book2 sample_bid)"

lemma sample_values:
  "price_value (Price 3000000000000000000) (Shares 400) = Inr (Usdt 1200)"
  "price_value (Price 2000000000000000000) (Shares 400) = Inr (Usdt 800)"
  "price_value (Price 1000000000000000000) (Shares 500) = Inr (Usdt 500)"
  "taker_fee sample_policy (Usdt 1200) = Inr (Usdt 12)"
  "taker_fee sample_policy (Usdt 800) = Inr (Usdt 8)"
  "taker_fee sample_policy (Usdt 500) = Inr (Usdt 5)"
  by (simp_all add: price_value_iff taker_fee_iff sample_policy_def)

lemmas run_defs = sample_place_def store_place_def find_by_client_id_def crossing_rows_def
  price_time_match_def place_tx_def settle_taker_def bump_revision_def insert_order_def
  record_event_def record_release_def update_order_def update_row_def load_order_def
  find_order_def stored_order_def reserved_units_def apply_fill_def order_fill_def
  order_remaining_def fill_trade_def insert_trade_def trade_event_def order_release_def
  resting_row_def is_resting_def crosses_def order_place_def shares_checked_add_def
  shares_checked_sub_def usdt_checked_add_def usdt_checked_sub_def checked_add_def
  checked_sub_def Let_def shares_order price_order shares_is_zero_def usdt_is_zero_def
  SHARES_ZERO_def USDT_ZERO_def saturating_sub_def sample_values

lemma fresh_sell: "shares_val (order_size_shares sz) \<noteq> 0 \<Longrightarrow>
    fresh_order policy (order_place i s u c Sell k tf p sz (Units (order_size_shares sz)))"
  unfolding fresh_order_def by blast

lemma fresh_buy: "shares_val (order_size_shares sz) \<noteq> 0 \<Longrightarrow>
    buy_reserve policy (order_size_shares sz) p = Inr cash \<Longrightarrow>
    fresh_order policy (order_place i s u c Buy k tf p sz (Locked_Cash cash))"
  unfolding fresh_order_def by blast

lemma sample_orders_fresh: "fresh_order sample_policy sample_sell" "fresh_order sample_policy sample_buy"
    "fresh_order sample_policy sample_bid"
  unfolding sample_sell_def sample_buy_def sample_bid_def
  by (rule fresh_sell fresh_buy; simp add: buy_reserve_def usdt_checked_add_def checked_add_def sample_values)+

lemma sample_book1_rows:
  "bs_orders sample_book1 = [\<lparr>row_order = sample_sell, row_revision = 1\<rparr>]"
  "bs_trades sample_book1 = []"
  "bs_outbox sample_book1 = [OrderPlaced 1 (ServiceId ''fund'') 10 Sell (Units (Shares 1000))]"
  "bs_revisions sample_book1 = [ServiceId ''fund'' \<mapsto> 1]"
  by (simp_all add: sample_book1_def sample_sell_def book_empty_def run_defs)

definition sold_part :: order where
  "sold_part = sample_sell\<lparr>o_filled := Shares 400, o_notional_filled := Usdt 800, o_state := PartiallyFilled\<rparr>"

definition bought :: order where
  "bought = sample_buy\<lparr>o_filled := Shares 400, o_notional_filled := Usdt 800, o_fee_paid := Usdt 8,
     o_state := Filled\<rparr>"

lemma sample_book2_rows:
  "bs_orders sample_book2 = [\<lparr>row_order = sold_part, row_revision = 2\<rparr>, \<lparr>row_order = bought, row_revision = 2\<rparr>]"
  "bs_revisions sample_book2 = [ServiceId ''fund'' \<mapsto> 2]"
  "bs_outbox sample_book2 = bs_outbox sample_book1 @
     [OrderPlaced 2 (ServiceId ''fund'') 20 Buy (Locked_Cash (Usdt 1212)),
      TradeExecuted 100 (ServiceId ''fund'') 20 10 2 1 Buy (Shares 400) (Price 2000000000000000000)
        (Usdt 800) (Usdt 8) (Nav SCALE) party_fee_payee,
      OrderReleased 2 (ServiceId ''fund'') 20 Buy (Locked_Cash (Usdt 404))]"
  by (simp_all add: sample_book2_def sample_sell_def sample_buy_def sold_part_def bought_def run_defs
      sample_book1_rows)

lemma sample_book_rows:
  "bs_orders sample_book = bs_orders sample_book2 @ [\<lparr>row_order = sample_bid, row_revision = 3\<rparr>]"
  "bs_outbox sample_book = bs_outbox sample_book2 @
     [OrderPlaced 3 (ServiceId ''fund'') 20 Buy (Locked_Cash (Usdt 505))]"
  by (simp_all add: sample_book_def sample_bid_def sample_sell_def sample_buy_def sold_part_def bought_def run_defs
      sample_book2_rows)

lemma sample_place_step:
  assumes "fresh_order sample_policy o1" "find_order st (o_id o1) = None"
  shows "book_step price_time_match st (fst (sample_place st o1))"
proof -
  have "book_policy_ok sample_policy" by (simp add: book_policy_ok_def sample_policy_def)
  moreover have "sample_place st o1 = (fst (sample_place st o1), snd (sample_place st o1))" by simp
  ultimately show ?thesis using assms unfolding sample_place_def by (metis book_step.place)
qed

lemma sample_book_reached: "book_reach price_time_match sample_book"
proof -
  have "book_reach price_time_match sample_book1" unfolding sample_book1_def
    by (intro book_reach.step [OF book_reach.start] sample_place_step sample_orders_fresh)
      (simp add: book_empty_def find_order_def)
  then have "book_reach price_time_match sample_book2" unfolding sample_book2_def
    by (rule book_reach.step, intro sample_place_step sample_orders_fresh)
      (simp add: find_order_def sample_book1_rows sample_sell_def sample_buy_def order_place_def)
  then show ?thesis unfolding sample_book_def
    by (rule book_reach.step, intro sample_place_step sample_orders_fresh)
      (simp add: find_order_def sample_book2_rows sample_sell_def sample_buy_def sample_bid_def
        sold_part_def bought_def order_place_def)
qed

section \<open>What every reachable book keeps\<close>

text \<open>
  C5: the escrow behind an order is never overdrawn.  At every prefix of the outbox of a book
  reached through placements matched by the price-time engine, cancels, rejections and changes
  of terms, what trades have drawn from an order's escrow (a seller's units, a buyer's notional
  and, for a taking buyer, the fee) plus what was released back is at most what the placement
  locked.
\<close>

theorem escrow_never_overdrawn:
  assumes "book_reach price_time_match st"
  shows "total ev_drawn (take k (bs_outbox st)) i + total ev_released (take k (bs_outbox st)) i
    \<le> total ev_locked (take k (bs_outbox st)) i"
  using price_time.reach_ok [OF assms] by (simp add: store_ok_def covered_def)

theorem escrow_never_overdrawn_witness:
  "total ev_drawn (take 4 (bs_outbox sample_book)) 2 + total ev_released (take 4 (bs_outbox sample_book)) 2
      \<le> total ev_locked (take 4 (bs_outbox sample_book)) 2 \<and>
    total ev_drawn (take 4 (bs_outbox sample_book)) 2 = 808"
  using escrow_never_overdrawn [OF sample_book_reached, of 4 2]
  by (simp add: sample_book_rows sample_book2_rows sample_book1_rows)

text \<open>
  C26: an order that ended on the book gives back exactly what it did not spend.  In every
  reachable book, for every order filled in full or cancelled, what its placement locked is what
  its trades drew plus what was released.
\<close>

theorem ended_orders_settle:
  assumes "book_reach price_time_match st" "x \<in> set (orders_of st)" "o_state x \<in> {Filled, Cancelled}"
  shows "total ev_locked (bs_outbox st) (o_id x) =
    total ev_drawn (bs_outbox st) (o_id x) + total ev_released (bs_outbox st) (o_id x)"
  using row_of_reach [OF assms(1,2)] release_exact [of x] assms(3)
  by (simp add: row_ok_def escrow_matches_def)

theorem ended_orders_settle_witness:
  "total ev_locked (bs_outbox sample_book) 2 =
      total ev_drawn (bs_outbox sample_book) 2 + total ev_released (bs_outbox sample_book) 2 \<and>
    total ev_released (bs_outbox sample_book) 2 = 404"
  using ended_orders_settle [OF sample_book_reached, of bought]
  by (simp add: sample_book_rows sample_book2_rows sample_book1_rows bought_def sample_buy_def order_place_def)

text \<open>
  C27: the book is never crossed.  In every reachable book a resting buy is priced strictly below
  every resting sell of the same product, so an order that could have traded never rests.
\<close>

theorem book_never_crossed:
  assumes "book_reach price_time_match st" "b \<in> set (orders_of st)" "s \<in> set (orders_of st)"
    and "o_side b = Buy" "o_side s = Sell" "o_service b = o_service s"
    and "is_resting (o_state b)" "is_resting (o_state s)"
  shows "o_price b < o_price s"
  using price_time.reach_ok [OF assms(1)] assms(2-) unfolding store_ok_def uncrossed_def by blast

theorem book_never_crossed_witness:
  "o_price sample_bid < o_price sold_part \<and> is_resting (o_state sample_bid) \<and> is_resting (o_state sold_part)"
  using book_never_crossed [OF sample_book_reached, of sample_bid sold_part]
  by (simp add: sample_book_rows sample_book2_rows sold_part_def sample_sell_def sample_bid_def order_place_def
      is_resting_def)

text \<open>
  progress and state of every stored order agree.  In every reachable book an order is
  filled to at most its size, is Filled exactly when filled to it, is Open only when nothing
  filled, names a cancel reason exactly when Cancelled, and rests only if it is not
  immediate-or-cancel.
\<close>

theorem orders_make_sense:
  assumes "book_reach price_time_match st" "x \<in> set (orders_of st)"
  shows "o_filled x \<le> o_size x \<and> (o_state x = Filled \<longleftrightarrow> o_filled x = o_size x) \<and>
    (o_state x = Open \<longrightarrow> shares_is_zero (o_filled x)) \<and>
    (o_state x = Cancelled \<longleftrightarrow> o_cancel_reason x \<noteq> None) \<and>
    (is_resting (o_state x) \<longrightarrow> o_tif x \<noteq> Ioc)"
  using row_of_reach [OF assms]
  by (auto simp: row_ok_def order_ok_def progress_ok_def shares_order zero_iffs)

theorem orders_make_sense_witness:
  "o_filled bought \<le> o_size bought \<and> (o_state bought = Filled \<longleftrightarrow> o_filled bought = o_size bought) \<and>
    o_filled bought = Shares 400"
  using orders_make_sense [OF sample_book_reached, of bought]
  by (simp add: sample_book_rows sample_book2_rows bought_def)

end
