(* ===== verification/Scopes.thy ===== *)
theory Scopes
  imports Balance
begin

text \<open>
  Scope compartments (\<^verbatim>\<open>domain/src/scopes.rs\<close>): the two ends of a user's own move, a
  scope's lifecycle and policy, what a move in has to pass, and the recorded move with the fact
  it raises.
\<close>

section \<open>Compartments\<close>

datatype compartment = Main | Scope scope_id

definition compartment_parse :: "string \<Rightarrow> compartment result" where
  "compartment_parse raw =
     rbind (scope_id_parse raw) (\<lambda>i. Inr (if scope_is_main i then Main else Scope i))"

fun compartment_str :: "compartment \<Rightarrow> string" where
  "compartment_str Main = MAIN"
| "compartment_str (Scope i) = scope_id_str i"

fun compartment_scope :: "compartment \<Rightarrow> scope_id option" where
  "compartment_scope Main = None"
| "compartment_scope (Scope i) = Some i"

fun compartment_claim_key :: "compartment \<Rightarrow> uuid \<Rightarrow> account_key" where
  "compartment_claim_key Main user = UserClaim user"
| "compartment_claim_key (Scope i) user = ScopeClaim user i"

text \<open>What the parser can return: a scope that is not \<^verbatim>\<open>main\<close>.\<close>

fun compartment_ok :: "compartment \<Rightarrow> bool" where
  "compartment_ok Main \<longleftrightarrow> True"
| "compartment_ok (Scope i) \<longleftrightarrow> scope_id_ok i \<and> i \<noteq> scope_main"

section \<open>A scope's lifecycle\<close>

datatype move_refusal =
    KycLevel | MaxPerMove | MaxMovedIn24h | MaxBalance | ScopeFrozen | ScopeClosed | UserFrozen
  | InsufficientFunds | AmountBelowMinimum | RateLimited

fun refusal_reason :: "move_refusal \<Rightarrow> string" where
  "refusal_reason KycLevel = ''kyc_level''"
| "refusal_reason MaxPerMove = ''max_per_move''"
| "refusal_reason MaxMovedIn24h = ''max_moved_in_24h''"
| "refusal_reason MaxBalance = ''max_balance''"
| "refusal_reason ScopeFrozen = ''scope_frozen''"
| "refusal_reason ScopeClosed = ''scope_closed''"
| "refusal_reason UserFrozen = ''user_frozen''"
| "refusal_reason InsufficientFunds = ''insufficient_funds''"
| "refusal_reason AmountBelowMinimum = ''amount_below_minimum''"
| "refusal_reason RateLimited = ''rate_limited''"

datatype scope_state = Active | Frozen | Closed

fun scope_state_str :: "scope_state \<Rightarrow> string" where
  "scope_state_str Active = ''active''"
| "scope_state_str Frozen = ''frozen''"
| "scope_state_str Closed = ''closed''"

definition scope_state_parse :: "string \<Rightarrow> scope_state result" where
  "scope_state_parse raw =
     (if raw = ''active'' then Inr Active
      else if raw = ''frozen'' then Inr Frozen
      else if raw = ''closed'' then Inr Closed
      else Inl (Validation (''unknown scope state: '' @ raw)))"

fun refuses_money_in :: "scope_state \<Rightarrow> move_refusal option" where
  "refuses_money_in Active = None"
| "refuses_money_in Frozen = Some ScopeFrozen"
| "refuses_money_in Closed = Some ScopeClosed"

section \<open>Policies\<close>

record scope_policy =
  min_kyc_level :: u32
  max_per_move :: "usdt option"
  max_moved_in_24h :: "usdt option"
  max_balance :: "usdt option"
  auto_payout_per_op :: usdt
  auto_payout_24h :: usdt
  auto_transfer_per_op :: usdt
  auto_transfer_24h :: usdt
  scope_budget_24h :: usdt

record move_in_facts =
  mf_kyc_level :: u32
  mf_amount :: usdt
  mf_moved_in_24h :: usdt
  mf_balance :: usdt

definition MIN_MOVE :: usdt where
  "MIN_MOVE = Usdt 10000000000000000"

definition MAX_MOVES_PER_MINUTE :: int where
  "MAX_MOVES_PER_MINUTE = 10"

definition admits_kyc :: "scope_policy \<Rightarrow> u32 \<Rightarrow> bool" where
  "admits_kyc policy level \<longleftrightarrow> min_kyc_level policy \<le> level"

definition within_cap :: "usdt option \<Rightarrow> usdt \<Rightarrow> usdt \<Rightarrow> bool" where
  "within_cap cap base amount =
     (case cap of None \<Rightarrow> True
      | Some c \<Rightarrow> (case usdt_checked_add base amount of None \<Rightarrow> False | Some t \<Rightarrow> t \<le> c))"

definition admit_move_in :: "scope_policy \<Rightarrow> move_in_facts \<Rightarrow> move_refusal + unit" where
  "admit_move_in policy facts =
     (if \<not> admits_kyc policy (mf_kyc_level facts) then Inl KycLevel
      else if (case max_per_move policy of None \<Rightarrow> False | Some cap \<Rightarrow> cap < mf_amount facts)
      then Inl MaxPerMove
      else if \<not> within_cap (max_moved_in_24h policy) (mf_moved_in_24h facts) (mf_amount facts)
      then Inl MaxMovedIn24h
      else if \<not> within_cap (max_balance policy) (mf_balance facts) (mf_amount facts) then Inl MaxBalance
      else Inr ())"

section \<open>Moves\<close>

datatype move_state = Pending | Posted | Failed

fun move_state_str :: "move_state \<Rightarrow> string" where
  "move_state_str Pending = ''pending''"
| "move_state_str Posted = ''posted''"
| "move_state_str Failed = ''failed''"

definition move_state_parse :: "string \<Rightarrow> move_state result" where
  "move_state_parse raw =
     (if raw = ''pending'' then Inr Pending
      else if raw = ''posted'' then Inr Posted
      else if raw = ''failed'' then Inr Failed
      else Inl (Validation (''unknown move state: '' @ raw)))"

datatype compartment_event =
  Moved (moved_id: uuid) (moved_user: uuid) (moved_from: compartment) (moved_to: compartment) (moved_amount: usdt)

record compartment_move =
  cm_id :: uuid
  cm_user :: uuid
  cm_from :: compartment
  cm_to :: compartment
  cm_scope :: scope_id
  cm_amount :: usdt
  cm_pending :: "compartment_event list"

definition move_restore ::
  "uuid \<Rightarrow> uuid \<Rightarrow> compartment \<Rightarrow> compartment \<Rightarrow> usdt \<Rightarrow> compartment_move result" where
  "move_restore i user src dst amount =
     (if usdt_is_zero amount then Inl (Validation ''amount must be positive'')
      else rbind (case (src, dst) of
          (Main, Scope s) \<Rightarrow> Inr s
        | (Scope s, Main) \<Rightarrow> Inr s
        | _ \<Rightarrow> Inl (Validation ''exactly one side of a move must be main'')) (\<lambda>scope.
      Inr \<lparr>cm_id = i, cm_user = user, cm_from = src, cm_to = dst, cm_scope = scope, cm_amount = amount,
           cm_pending = []\<rparr>))"

definition move_request ::
  "uuid \<Rightarrow> uuid \<Rightarrow> compartment \<Rightarrow> compartment \<Rightarrow> usdt \<Rightarrow> compartment_move result" where
  "move_request i user src dst amount =
     rbind (move_restore i user src dst amount) (\<lambda>requested.
     Inr (requested\<lparr>cm_pending := cm_pending requested @
       [Moved i user (cm_from requested) (cm_to requested) amount]\<rparr>))"

definition is_move_in :: "compartment_move \<Rightarrow> bool" where
  "is_move_in m \<longleftrightarrow> cm_from m = Main"

definition move_same_terms :: "compartment_move \<Rightarrow> compartment \<Rightarrow> compartment \<Rightarrow> usdt \<Rightarrow> bool" where
  "move_same_terms m src dst amount \<longleftrightarrow> cm_from m = src \<and> cm_to m = dst \<and> cm_amount m = amount"

definition move_drain :: "compartment_move \<Rightarrow> compartment_event list \<times> compartment_move" where
  "move_drain m = (cm_pending m, m\<lparr>cm_pending := []\<rparr>)"

section \<open>Reading them\<close>

interpretation scope_state_text: exact_codec scope_state_str scope_state_parse
proof
  show "scope_state_parse (scope_state_str x) = Inr x" for x by (cases x) (simp_all add: scope_state_parse_def)
  show "scope_state_parse s = Inr x \<Longrightarrow> scope_state_str x = s" for s x
    by (auto simp: scope_state_parse_def split: if_splits)
qed

interpretation move_state_text: exact_codec move_state_str move_state_parse
proof
  show "move_state_parse (move_state_str x) = Inr x" for x by (cases x) (simp_all add: move_state_parse_def)
  show "move_state_parse s = Inr x \<Longrightarrow> move_state_str x = s" for s x
    by (auto simp: move_state_parse_def split: if_splits)
qed

lemma compartment_parse_str: "compartment_ok c \<Longrightarrow> compartment_parse (compartment_str c) = Inr c"
  by (cases c) (auto simp: compartment_parse_def rbind_def scope_id_parse_def MAIN_def scope_main_def
      is_ascii_lowercase_def byte_def is_ascii_digit_def scope_id_ok_def split: sum.splits if_splits)

lemma compartment_parse_ok: "compartment_parse s = Inr c \<Longrightarrow> compartment_ok c \<and> compartment_str c = s"
  by (auto simp: compartment_parse_def result_iffs scope_main_def split: if_splits)

lemma within_cap_iff:
  "within_cap cap base amount \<longleftrightarrow> (\<forall>c. cap = Some c \<longrightarrow> usdt_val base + usdt_val amount \<le> usdt_val c)"
proof (cases cap)
  case (Some c)
  have "usdt_val c < 2 ^ 128" using unsigned_less [of "usdt_units c"] by simp
  then show ?thesis
    using Some by (auto simp: within_cap_def nat_arith usdt_order split: option.splits)
qed (simp add: within_cap_def)

lemma admit_move_in_Inr:
  "admit_move_in policy facts = Inr u \<longleftrightarrow>
     admits_kyc policy (mf_kyc_level facts) \<and>
     (\<forall>cap. max_per_move policy = Some cap \<longrightarrow> mf_amount facts \<le> cap) \<and>
     (\<forall>cap. max_moved_in_24h policy = Some cap \<longrightarrow>
        usdt_val (mf_moved_in_24h facts) + usdt_val (mf_amount facts) \<le> usdt_val cap) \<and>
     (\<forall>cap. max_balance policy = Some cap \<longrightarrow>
        usdt_val (mf_balance facts) + usdt_val (mf_amount facts) \<le> usdt_val cap)"
  by (auto simp: admit_move_in_def within_cap_iff split: option.splits)

lemma move_restore_Inr:
  "move_restore i user src dst amount = Inr m \<longleftrightarrow>
     usdt_val amount \<noteq> 0 \<and> (src = Main \<and> dst = Scope (cm_scope m) \<or> src = Scope (cm_scope m) \<and> dst = Main) \<and>
     m = \<lparr>cm_id = i, cm_user = user, cm_from = src, cm_to = dst, cm_scope = cm_scope m, cm_amount = amount,
          cm_pending = []\<rparr>"
  by (cases src; cases dst; cases m) (auto simp: move_restore_def zero_iffs)

end
