(* ===== verification/Compartments.thy ===== *)
theory Compartments
  imports Scopes LedgerPort
begin

text \<open>
  A user's own move between \<^verbatim>\<open>main\<close> and a scope: the use case
  (\<^verbatim>\<open>application/compartments.rs\<close>) over its rows (\<^verbatim>\<open>infrastructure/compartments.rs\<close>).
  The move table and the outbox are lists, a clock reading is an integer of microseconds, and a
  refused transaction is the state it began in.  What the ledger answers about an account is an
  argument, as is how the \<^verbatim>\<open>uuid\<close> crate prints an id.
\<close>

section \<open>The rows\<close>

record scope_record =
  sr_state :: scope_state
  sr_display_name :: string
  sr_policy :: scope_policy
  sr_policy_updated_at :: int

record payout_standing =
  ps_blocked :: bool
  ps_kyc_level :: u32

record move_row =
  mv_id :: uuid
  mv_user :: uuid
  mv_from :: compartment
  mv_to :: compartment
  mv_amount :: usdt
  mv_key :: string
  mv_state :: move_state
  mv_failure :: "string option"
  mv_created :: int

record comp_store =
  cs_scopes :: "scope_id \<Rightarrow> scope_record option"
  cs_standing :: "uuid \<Rightarrow> payout_standing option"
  cs_moves :: "move_row list"
  cs_outbox :: "compartment_event list"

datatype move_error = Refused move_refusal | Domain domain_error

record recorded_move =
  rm_movement :: compartment_move
  rm_state :: move_state
  rm_failure :: "string option"
  rm_created :: int

datatype move_outcome = Recorded recorded_move | Existing_Move recorded_move

definition domain_err :: "'a result \<Rightarrow> move_error + 'a" where
  "domain_err m = (case m of Inl e \<Rightarrow> Inl (Domain e) | Inr x \<Rightarrow> Inr x)"

lemma domain_err_Inr [simp]: "domain_err m = Inr x \<longleftrightarrow> m = Inr x"
  by (cases m) (simp_all add: domain_err_def)

section \<open>Reads\<close>

definition MINUTE :: int where
  "MINUTE = 60 * 1000000"

definition DAY :: int where
  "DAY = 24 * 60 * MINUTE"

text \<open>What \<^verbatim>\<open>EXTRACT(EPOCH FROM created_at)::BIGINT\<close> reads: seconds, rounded by the cast.\<close>

definition epoch_seconds :: "int \<Rightarrow> int" where
  "epoch_seconds micros = (micros + 500000) div 1000000"

definition recorded_move_of :: "(uuid \<Rightarrow> string) \<Rightarrow> move_row \<Rightarrow> recorded_move result" where
  "recorded_move_of show_uuid row =
     (case move_restore (mv_id row) (mv_user row) (mv_from row) (mv_to row) (mv_amount row) of
        Inl e \<Rightarrow> Inl (Repository (''compartment move '' @ show_uuid (mv_id row) @ '': '' @ error_display e))
      | Inr movement \<Rightarrow> Inr \<lparr>rm_movement = movement, rm_state = mv_state row,
          rm_failure = mv_failure row, rm_created = epoch_seconds (mv_created row)\<rparr>)"

definition find_move :: "(uuid \<Rightarrow> string) \<Rightarrow> comp_store \<Rightarrow> uuid \<Rightarrow> string \<Rightarrow> recorded_move option result" where
  "find_move show_uuid st user key =
     (case find (\<lambda>row. mv_user row = user \<and> mv_key row = key) (cs_moves st) of
        None \<Rightarrow> Inr None
      | Some row \<Rightarrow> rmap Some (recorded_move_of show_uuid row))"

fun sum_amounts :: "string \<Rightarrow> usdt \<Rightarrow> usdt list \<Rightarrow> usdt result" where
  "sum_amounts what acc [] = Inr acc"
| "sum_amounts what acc (a # amounts) =
     rbind (ok_or (usdt_checked_add acc a) (Repository (''moves of '' @ what @ '' overflow''))) (\<lambda>acc.
     sum_amounts what acc amounts)"

definition pending_out :: "comp_store \<Rightarrow> uuid \<Rightarrow> compartment \<Rightarrow> usdt result" where
  "pending_out st user c = sum_amounts (compartment_str c) USDT_ZERO
     (map mv_amount (filter (\<lambda>r. mv_user r = user \<and> mv_from r = c \<and> mv_state r = Pending) (cs_moves st)))"

definition pending_in :: "comp_store \<Rightarrow> uuid \<Rightarrow> compartment \<Rightarrow> usdt result" where
  "pending_in st user c = sum_amounts (compartment_str c) USDT_ZERO
     (map mv_amount (filter (\<lambda>r. mv_user r = user \<and> mv_to r = c \<and> mv_state r = Pending) (cs_moves st)))"

definition counted_in :: "uuid \<Rightarrow> scope_id \<Rightarrow> int \<Rightarrow> move_row \<Rightarrow> bool" where
  "counted_in user scope since r \<longleftrightarrow> mv_user r = user \<and> mv_to r = Scope scope \<and>
     mv_state r \<in> {Pending, Posted} \<and> since < mv_created r"

definition moved_in_24h :: "comp_store \<Rightarrow> uuid \<Rightarrow> scope_id \<Rightarrow> int \<Rightarrow> usdt result" where
  "moved_in_24h st user scope now = sum_amounts (scope_id_str scope) USDT_ZERO
     (map mv_amount (filter (counted_in user scope (now - DAY)) (cs_moves st)))"

definition recent_moves :: "comp_store \<Rightarrow> uuid \<Rightarrow> int \<Rightarrow> int" where
  "recent_moves st user now =
     int (length (filter (\<lambda>r. mv_user r = user \<and> now - MINUTE < mv_created r) (cs_moves st)))"

section \<open>Admission\<close>

record in_flight =
  if_pending_into_target :: usdt
  if_moved_in_24h :: usdt
  if_scope :: "scope_record option"
  if_standing :: "payout_standing option"

definition in_flight_default :: in_flight where
  "in_flight_default = \<lparr>if_pending_into_target = USDT_ZERO, if_moved_in_24h = USDT_ZERO,
     if_scope = None, if_standing = None\<rparr>"

definition read_in_flight :: "comp_store \<Rightarrow> compartment_move \<Rightarrow> int \<Rightarrow> in_flight result" where
  "read_in_flight st m now =
     (if is_move_in m then
        rbind (pending_in st (cm_user m) (cm_to m)) (\<lambda>pending.
        rbind (moved_in_24h st (cm_user m) (cm_scope m) now) (\<lambda>moved.
        Inr \<lparr>if_pending_into_target = pending, if_moved_in_24h = moved,
             if_scope = cs_scopes st (cm_scope m), if_standing = cs_standing st (cm_user m)\<rparr>))
      else Inr in_flight_default)"

definition admit_source ::
  "(account_key \<Rightarrow> ledger_error + u128) \<Rightarrow> compartment_move \<Rightarrow> usdt \<Rightarrow> move_error + unit" where
  "admit_source spendable m amount =
     rbind (domain_err (from_ledger (spendable (compartment_claim_key (cm_from m) (cm_user m))))) (\<lambda>s.
     if Usdt s < amount then Inl (Refused InsufficientFunds) else Inr ())"

definition admit ::
  "(uuid \<Rightarrow> string) \<Rightarrow> (account_key \<Rightarrow> ledger_error + u128) \<Rightarrow> (account_key \<Rightarrow> ledger_error + ledger_balance)
    \<Rightarrow> compartment_move \<Rightarrow> in_flight \<Rightarrow> move_error + unit" where
  "admit show_uuid spendable balance m flight =
     (if is_move_in m then
        rbind (ok_or (if_scope flight) (Domain (NotFound ''scope'' (scope_id_str (cm_scope m))))) (\<lambda>scope.
        case refuses_money_in (sr_state scope) of
          Some refusal \<Rightarrow> Inl (Refused refusal)
        | None \<Rightarrow>
            rbind (ok_or (if_standing flight) (Domain (NotFound ''user'' (show_uuid (cm_user m))))) (\<lambda>standing.
            if ps_blocked standing then Inl (Refused UserFrozen)
            else
              rbind (admit_source spendable m (cm_amount m)) (\<lambda>_.
              rbind (domain_err (from_ledger (balance (compartment_claim_key (cm_to m) (cm_user m))))) (\<lambda>target.
              rbind (ok_or (usdt_checked_add (Usdt (saturating_add (lb_posted target) (lb_pending target)))
                              (if_pending_into_target flight))
                       (Domain (Repository ''compartment balance overflows''))) (\<lambda>bal.
              case admit_move_in (sr_policy scope) \<lparr>mf_kyc_level = ps_kyc_level standing,
                     mf_amount = cm_amount m, mf_moved_in_24h = if_moved_in_24h flight, mf_balance = bal\<rparr> of
                Inl refusal \<Rightarrow> Inl (Refused refusal)
              | Inr _ \<Rightarrow> Inr ())))))
      else admit_source spendable m (cm_amount m))"

section \<open>The transactions\<close>

definition record_move ::
  "(uuid \<Rightarrow> string) \<Rightarrow> comp_store \<Rightarrow> compartment_move \<Rightarrow> string \<Rightarrow> (in_flight \<Rightarrow> move_error + unit) \<Rightarrow> int
    \<Rightarrow> comp_store \<times> (move_error + move_outcome)" where
  "record_move show_uuid st m key admission now =
     (case find_move show_uuid st (cm_user m) key of
        Inl e \<Rightarrow> (st, Inl (Domain e))
      | Inr (Some existing) \<Rightarrow> (st, Inr (Existing_Move existing))
      | Inr None \<Rightarrow>
          if MAX_MOVES_PER_MINUTE \<le> recent_moves st (cm_user m) now then (st, Inl (Refused RateLimited))
          else (case read_in_flight st m now of
             Inl e \<Rightarrow> (st, Inl (Domain e))
           | Inr flight \<Rightarrow>
               (case admission flight of
                  Inl e \<Rightarrow> (st, Inl e)
                | Inr _ \<Rightarrow>
                    let row = \<lparr>mv_id = cm_id m, mv_user = cm_user m, mv_from = cm_from m, mv_to = cm_to m,
                          mv_amount = cm_amount m, mv_key = key, mv_state = Pending, mv_failure = None,
                          mv_created = now\<rparr>;
                        (events, _) = move_drain m;
                        st' = st\<lparr>cs_moves := cs_moves st @ [row], cs_outbox := cs_outbox st @ events\<rparr>
                    in (case move_restore (cm_id m) (cm_user m) (cm_from m) (cm_to m) (cm_amount m) of
                          Inl e \<Rightarrow> (st', Inl (Domain e))
                        | Inr recorded \<Rightarrow> (st', Inr (Recorded \<lparr>rm_movement = recorded, rm_state = Pending,
                            rm_failure = None, rm_created = epoch_seconds now\<rparr>))))))"

definition repeat_move :: "recorded_move \<Rightarrow> compartment_move \<Rightarrow> move_error + recorded_move" where
  "repeat_move original asked =
     (if move_same_terms (rm_movement original) (cm_from asked) (cm_to asked) (cm_amount asked)
      then Inr original
      else Inl (Domain (Conflict ''idempotency_key was used for a different move'')))"

definition MAX_IDEMPOTENCY_KEY :: nat where
  "MAX_IDEMPOTENCY_KEY = 128"

definition move_funds ::
  "(uuid \<Rightarrow> string) \<Rightarrow> comp_store \<Rightarrow> (account_key \<Rightarrow> ledger_error + u128)
    \<Rightarrow> (account_key \<Rightarrow> ledger_error + ledger_balance) \<Rightarrow> uuid \<Rightarrow> uuid \<Rightarrow> compartment \<Rightarrow> compartment \<Rightarrow> usdt
    \<Rightarrow> string \<Rightarrow> int \<Rightarrow> comp_store \<times> (move_error + recorded_move)" where
  "move_funds show_uuid st spendable balance new_id user src dst amount key now =
     (if key = [] \<or> MAX_IDEMPOTENCY_KEY < length key
      then (st, Inl (Domain (Validation (''idempotency_key must be 1..'' @ show_nat MAX_IDEMPOTENCY_KEY @ '' bytes''))))
      else if amount < MIN_MOVE then (st, Inl (Refused AmountBelowMinimum))
      else case move_request new_id user src dst amount of
        Inl e \<Rightarrow> (st, Inl (Domain e))
      | Inr m \<Rightarrow>
          (case find_move show_uuid st user key of
             Inl e \<Rightarrow> (st, Inl (Domain e))
           | Inr (Some original) \<Rightarrow> (st, repeat_move original m)
           | Inr None \<Rightarrow>
               if cs_scopes st (cm_scope m) = None
               then (st, Inl (Domain (NotFound ''scope'' (scope_id_str (cm_scope m)))))
               else (case record_move show_uuid st m key (admit show_uuid spendable balance m) now of
                  (st, Inl e) \<Rightarrow> (st, Inl e)
                | (st, Inr (Recorded recorded)) \<Rightarrow> (st, Inr recorded)
                | (st, Inr (Existing_Move original)) \<Rightarrow> (st, repeat_move original m))))"

definition set_pending :: "comp_store \<Rightarrow> uuid \<Rightarrow> (move_row \<Rightarrow> move_row) \<Rightarrow> comp_store" where
  "set_pending st i f =
     st\<lparr>cs_moves := map (\<lambda>r. if mv_id r = i \<and> mv_state r = Pending then f r else r) (cs_moves st)\<rparr>"

definition mark_posted :: "comp_store \<Rightarrow> uuid \<Rightarrow> comp_store" where
  "mark_posted st i = set_pending st i (\<lambda>r. r\<lparr>mv_state := Posted\<rparr>)"

definition mark_failed :: "comp_store \<Rightarrow> uuid \<Rightarrow> string \<Rightarrow> comp_store" where
  "mark_failed st i reason = set_pending st i (\<lambda>r. r\<lparr>mv_state := Failed, mv_failure := Some reason\<rparr>)"

definition redrive_one :: "(uuid \<Rightarrow> string) \<Rightarrow> comp_store \<Rightarrow> uuid \<Rightarrow> comp_store \<times> bool result" where
  "redrive_one show_uuid st i =
     (case find (\<lambda>r. mv_id r = i \<and> mv_state r = Pending) (cs_moves st) of
        None \<Rightarrow> (st, Inr False)
      | Some row \<Rightarrow>
          (case recorded_move_of show_uuid row of
             Inl e \<Rightarrow> (st, Inl e)
           | Inr recorded \<Rightarrow>
               let m = rm_movement recorded
               in (st\<lparr>cs_outbox := cs_outbox st @
                     [Moved (cm_id m) (cm_user m) (cm_from m) (cm_to m) (cm_amount m)]\<rparr>, Inr True)))"

section \<open>What a transaction did\<close>

lemma sum_amounts_Inr:
  "sum_amounts what acc xs = Inr t \<Longrightarrow> usdt_val t = usdt_val acc + sum_list (map usdt_val xs)"
  by (induction xs arbitrary: acc) (auto simp: result_iffs nat_arith)

text \<open>The rules a row was recorded under.\<close>

definition admitted :: "comp_store \<Rightarrow> move_row \<Rightarrow> bool" where
  "admitted st row \<longleftrightarrow>
     mv_state row = Pending \<and> mv_failure row = None \<and> usdt_val MIN_MOVE \<le> usdt_val (mv_amount row) \<and>
     (\<forall>r \<in> set (cs_moves st). \<not> (mv_user r = mv_user row \<and> mv_key r = mv_key row)) \<and>
     recent_moves st (mv_user row) (mv_created row) < 10 \<and>
     (\<exists>m. move_restore (mv_id row) (mv_user row) (mv_from row) (mv_to row) (mv_amount row) = Inr m) \<and>
     (\<forall>s. mv_to row = Scope s \<longrightarrow>
       (\<exists>scope moved. cs_scopes st s = Some scope \<and> sr_state scope = Active \<and>
          moved_in_24h st (mv_user row) s (mv_created row) = Inr moved \<and>
          (\<forall>cap. max_moved_in_24h (sr_policy scope) = Some cap \<longrightarrow>
             usdt_val moved + usdt_val (mv_amount row) \<le> usdt_val cap)))"

lemma find_move_None:
  "find_move sh st user key = Inr None \<Longrightarrow>
    \<forall>r \<in> set (cs_moves st). \<not> (mv_user r = user \<and> mv_key r = key)"
  by (auto simp: find_move_def result_iffs find_None_iff split: option.splits)

lemma refused_case_Inr [simp]:
  "(case m of Inl r \<Rightarrow> Inl (Refused r) | Inr _ \<Rightarrow> Inr ()) = Inr u \<longleftrightarrow> m = Inr ()"
  by (cases m) simp_all

lemma admit_in_Inr:
  assumes "admit sh sp bal m flight = Inr u" "is_move_in m"
  obtains scope standing source target where
    "if_scope flight = Some scope" "sr_state scope = Active"
    "if_standing flight = Some standing" "\<not> ps_blocked standing"
    "sp (compartment_claim_key (cm_from m) (cm_user m)) = Inr source"
    "usdt_val (cm_amount m) \<le> unat source"
    "bal (compartment_claim_key (cm_to m) (cm_user m)) = Inr target"
    "min_kyc_level (sr_policy scope) \<le> ps_kyc_level standing"
    "\<forall>cap. max_per_move (sr_policy scope) = Some cap \<longrightarrow> cm_amount m \<le> cap"
    "\<forall>cap. max_moved_in_24h (sr_policy scope) = Some cap \<longrightarrow>
       usdt_val (if_moved_in_24h flight) + usdt_val (cm_amount m) \<le> usdt_val cap"
    "\<forall>cap. max_balance (sr_policy scope) = Some cap \<longrightarrow>
       min (2 ^ 128 - 1) (unat (lb_posted target) + unat (lb_pending target))
         + usdt_val (if_pending_into_target flight) + usdt_val (cm_amount m) \<le> usdt_val cap"
proof -
  obtain scope where scope: "if_scope flight = Some scope"
    and 1: "(case refuses_money_in (sr_state scope) of
          Some refusal \<Rightarrow> Inl (Refused refusal)
        | None \<Rightarrow>
            rbind (ok_or (if_standing flight) (Domain (NotFound ''user'' (sh (cm_user m))))) (\<lambda>standing.
            if ps_blocked standing then Inl (Refused UserFrozen)
            else
              rbind (admit_source sp m (cm_amount m)) (\<lambda>_.
              rbind (domain_err (from_ledger (bal (compartment_claim_key (cm_to m) (cm_user m))))) (\<lambda>target.
              rbind (ok_or (usdt_checked_add (Usdt (saturating_add (lb_posted target) (lb_pending target)))
                              (if_pending_into_target flight))
                       (Domain (Repository ''compartment balance overflows''))) (\<lambda>bal.
              case admit_move_in (sr_policy scope) \<lparr>mf_kyc_level = ps_kyc_level standing,
                     mf_amount = cm_amount m, mf_moved_in_24h = if_moved_in_24h flight, mf_balance = bal\<rparr> of
                Inl refusal \<Rightarrow> Inl (Refused refusal)
              | Inr _ \<Rightarrow> Inr ()))))) = Inr u"
    using assms unfolding admit_def by (auto simp: rbind_eq_Inr_iff)
  have active: "sr_state scope = Active" using 1 by (cases "sr_state scope") simp_all
  with 1 obtain standing target b where s: "if_standing flight = Some standing" "\<not> ps_blocked standing"
    and src: "admit_source sp m (cm_amount m) = Inr ()"
    and t: "bal (compartment_claim_key (cm_to m) (cm_user m)) = Inr target"
    and b: "usdt_checked_add (Usdt (saturating_add (lb_posted target) (lb_pending target)))
              (if_pending_into_target flight) = Some b"
    and pol: "admit_move_in (sr_policy scope) \<lparr>mf_kyc_level = ps_kyc_level standing,
                     mf_amount = cm_amount m, mf_moved_in_24h = if_moved_in_24h flight, mf_balance = b\<rparr> = Inr ()"
    by (auto simp: rbind_eq_Inr_iff split: if_splits)
  from src obtain source where source: "sp (compartment_claim_key (cm_from m) (cm_user m)) = Inr source"
    "usdt_val (cm_amount m) \<le> unat source"
    by (auto simp: admit_source_def rbind_eq_Inr_iff usdt_order not_less split: if_splits)
  have bv: "usdt_val b = min (2 ^ 128 - 1) (unat (lb_posted target) + unat (lb_pending target))
      + usdt_val (if_pending_into_target flight)"
    using b by (simp add: nat_arith unat_saturating_add)
  show thesis
    by (rule that [OF scope active s source t]) (use pol bv in \<open>auto simp: admit_move_in_Inr admits_kyc_def\<close>)
qed

lemma record_move_Recorded:
  assumes "record_move sh st m key adm now = (st', Inr (Recorded rm))"
  obtains flight where "find_move sh st (cm_user m) key = Inr None" "recent_moves st (cm_user m) now < 10"
    "read_in_flight st m now = Inr flight" "adm flight = Inr ()"
    "cs_moves st' = cs_moves st @ [\<lparr>mv_id = cm_id m, mv_user = cm_user m, mv_from = cm_from m, mv_to = cm_to m,
       mv_amount = cm_amount m, mv_key = key, mv_state = Pending, mv_failure = None, mv_created = now\<rparr>]"
    "cs_outbox st' = cs_outbox st @ cm_pending m" "cs_scopes st' = cs_scopes st" "cs_standing st' = cs_standing st"
  using assms
  by (auto simp: record_move_def move_drain_def MAX_MOVES_PER_MINUTE_def not_le Let_def
      split: sum.splits option.splits if_splits)

lemma record_move_same:
  "record_move sh st m key adm now = (st', r) \<Longrightarrow> move_restore (cm_id m) (cm_user m) (cm_from m) (cm_to m) (cm_amount m) = Inr m0 \<Longrightarrow>
    \<nexists>rm. r = Inr (Recorded rm) \<Longrightarrow> st' = st"
  by (auto simp: record_move_def move_drain_def Let_def split: sum.splits option.splits if_splits)

lemma move_request_Inr:
  assumes "move_request i user src dst amount = Inr m"
  shows "cm_id m = i" "cm_user m = user" "cm_from m = src" "cm_to m = dst" "cm_amount m = amount"
    "cm_pending m = [Moved i user src dst amount]"
    "src = Main \<and> dst = Scope (cm_scope m) \<or> src = Scope (cm_scope m) \<and> dst = Main"
    "move_restore i user src dst amount = Inr (m\<lparr>cm_pending := []\<rparr>)"
proof -
  obtain m0 where m0: "move_restore i user src dst amount = Inr m0"
    "m = m0\<lparr>cm_pending := cm_pending m0 @ [Moved i user (cm_from m0) (cm_to m0) amount]\<rparr>"
    using assms by (auto simp: move_request_def result_iffs)
  from m0(1) have eq: "m0 = \<lparr>cm_id = i, cm_user = user, cm_from = src, cm_to = dst, cm_scope = cm_scope m0,
      cm_amount = amount, cm_pending = []\<rparr>"
    and side: "src = Main \<and> dst = Scope (cm_scope m0) \<or> src = Scope (cm_scope m0) \<and> dst = Main"
    by (simp_all add: move_restore_Inr)
  have fields: "cm_id m0 = i" "cm_user m0 = user" "cm_from m0 = src" "cm_to m0 = dst" "cm_amount m0 = amount"
    "cm_pending m0 = []"
    by (subst eq, simp)+
  have "m0\<lparr>cm_pending := []\<rparr> = m0" using fields(6) by (cases m0) simp
  with m0 fields side show "cm_id m = i" "cm_user m = user" "cm_from m = src" "cm_to m = dst" "cm_amount m = amount"
    "cm_pending m = [Moved i user src dst amount]"
    "src = Main \<and> dst = Scope (cm_scope m) \<or> src = Scope (cm_scope m) \<and> dst = Main"
    "move_restore i user src dst amount = Inr (m\<lparr>cm_pending := []\<rparr>)"
    by simp_all
qed

definition row_event :: "move_row \<Rightarrow> compartment_event" where
  "row_event r = Moved (mv_id r) (mv_user r) (mv_from r) (mv_to r) (mv_amount r)"

lemma read_in_flight_in:
  assumes "read_in_flight st m now = Inr flight" "is_move_in m"
  shows "moved_in_24h st (cm_user m) (cm_scope m) now = Inr (if_moved_in_24h flight)"
    "pending_in st (cm_user m) (cm_to m) = Inr (if_pending_into_target flight)"
    "if_scope flight = cs_scopes st (cm_scope m)" "if_standing flight = cs_standing st (cm_user m)"
  using assms by (auto simp: read_in_flight_def result_iffs)

lemma move_funds_recorded:
  assumes req: "move_request i user src dst amount = Inr m" and min: "MIN_MOVE \<le> amount"
    and rec: "record_move sh st m key (admit sh sp bal m) now = (st', Inr (Recorded rm))"
  obtains row where "cs_moves st' = cs_moves st @ [row]" "admitted st row"
    "cs_outbox st' = cs_outbox st @ [row_event row]" "cs_scopes st' = cs_scopes st"
proof -
  note m = move_request_Inr [OF req]
  obtain flight where f: "find_move sh st (cm_user m) key = Inr None" "recent_moves st (cm_user m) now < 10"
    "read_in_flight st m now = Inr flight" "admit sh sp bal m flight = Inr ()"
    and st': "cs_moves st' = cs_moves st @ [\<lparr>mv_id = cm_id m, mv_user = cm_user m, mv_from = cm_from m,
       mv_to = cm_to m, mv_amount = cm_amount m, mv_key = key, mv_state = Pending, mv_failure = None,
       mv_created = now\<rparr>]" "cs_outbox st' = cs_outbox st @ cm_pending m" "cs_scopes st' = cs_scopes st"
    by (rule record_move_Recorded [OF rec])
  have capped: "\<exists>scope moved. cs_scopes st s = Some scope \<and> sr_state scope = Active \<and>
      moved_in_24h st user s now = Inr moved \<and> (\<forall>cap. max_moved_in_24h (sr_policy scope) = Some cap \<longrightarrow>
        usdt_val moved + usdt_val amount \<le> usdt_val cap)"
    if dirs: "dst = Scope s" for s
  proof -
    have mi: "is_move_in m" and s: "cm_scope m = s" using m dirs by (auto simp: is_move_in_def)
    note r = read_in_flight_in [OF f(3) mi]
    obtain scope where "if_scope flight = Some scope" "sr_state scope = Active"
      "\<forall>cap. max_moved_in_24h (sr_policy scope) = Some cap \<longrightarrow>
        usdt_val (if_moved_in_24h flight) + usdt_val (cm_amount m) \<le> usdt_val cap"
      by (rule admit_in_Inr [OF f(4) mi]) (rule that; assumption)
    then have "cs_scopes st s = Some scope \<and> sr_state scope = Active \<and>
        moved_in_24h st user s now = Inr (if_moved_in_24h flight) \<and>
        (\<forall>cap. max_moved_in_24h (sr_policy scope) = Some cap \<longrightarrow>
          usdt_val (if_moved_in_24h flight) + usdt_val amount \<le> usdt_val cap)"
      using r m(2,5) s by simp
    then show ?thesis by blast
  qed
  have restored: "\<exists>m. move_restore i user src dst amount = Inr m" using m(8) by blast
  show thesis
    by (rule that [OF st'(1)])
      (use f(1,2) m(1-7) restored min st' capped find_move_None [OF f(1)] in \<open>auto simp: admitted_def row_event_def usdt_order\<close>)
qed

lemma move_funds_cases:
  assumes "move_funds sh st sp bal i user src dst amount key now = (st', r)"
  obtains (same) "st' = st"
  | (recorded) row where "cs_moves st' = cs_moves st @ [row]" "admitted st row"
      "cs_outbox st' = cs_outbox st @ [row_event row]" "cs_scopes st' = cs_scopes st"
proof (cases "st' = st")
  case False
  then obtain m where req: "move_request i user src dst amount = Inr m" and min: "MIN_MOVE \<le> amount"
    and new: "find_move sh st user key = Inr None"
    using assms by (auto simp: move_funds_def not_less split: if_splits sum.splits option.splits)
  obtain st1 q where rec: "record_move sh st m key (admit sh sp bal m) now = (st1, q)" by fastforce
  then have "st1 = st'"
    using assms req min new False
    by (auto simp: move_funds_def not_less split: if_splits sum.splits option.splits move_outcome.splits)
  note rec = rec [unfolded this]
  note m = move_request_Inr [OF req]
  obtain rm where "q = Inr (Recorded rm)"
    using record_move_same [OF rec m(8) [folded m(1-5)]] False by blast
  from recorded move_funds_recorded [OF req min rec [unfolded this]] show thesis by blast
qed (rule same)

section \<open>Steps and reachable stores\<close>

text \<open>
  One transaction of the component, or an announcement that replaces the scope registry and the
  users' standings, as long as the registry keeps to \<open>P\<close>.
\<close>

inductive comp_step :: "((scope_id \<Rightarrow> scope_record option) \<Rightarrow> bool) \<Rightarrow> comp_store \<Rightarrow> comp_store \<Rightarrow> bool" for P where
  move: "move_funds sh st sp bal i user src dst amount key now = (st', r) \<Longrightarrow> comp_step P st st'"
| posted: "mark_posted st i = st' \<Longrightarrow> comp_step P st st'"
| failed: "mark_failed st i reason = st' \<Longrightarrow> comp_step P st st'"
| redrive: "redrive_one sh st i = (st', done) \<Longrightarrow> comp_step P st st'"
| announce: "P scopes \<Longrightarrow> st' = st\<lparr>cs_scopes := scopes, cs_standing := standing\<rparr> \<Longrightarrow> comp_step P st st'"

inductive comp_reach :: "((scope_id \<Rightarrow> scope_record option) \<Rightarrow> bool) \<Rightarrow> comp_store \<Rightarrow> bool" for P where
  start: "P scopes \<Longrightarrow>
    comp_reach P \<lparr>cs_scopes = scopes, cs_standing = standing, cs_moves = [], cs_outbox = []\<rparr>"
| step: "comp_reach P st \<Longrightarrow> comp_step P st st' \<Longrightarrow> comp_reach P st'"

inductive_cases comp_stepE: "comp_step P st st'"

text \<open>Every step appends an admitted row, moves pending rows to an end state, or leaves the table.\<close>

definition settles :: "move_row \<Rightarrow> move_row \<Rightarrow> bool" where
  "settles r r' \<longleftrightarrow> r' = r \<or> mv_state r = Pending \<and> mv_state r' \<in> {Posted, Failed} \<and>
     (mv_failure r' \<noteq> None \<longleftrightarrow> mv_state r' = Failed) \<and>
     r' = r\<lparr>mv_state := mv_state r', mv_failure := mv_failure r'\<rparr>"

lemma set_pending_settles:
  assumes "\<And>r. mv_state r = Pending \<Longrightarrow> mv_failure r = None \<Longrightarrow> settles r (f r)"
    and "\<forall>r \<in> set (cs_moves st). mv_state r = Pending \<longrightarrow> mv_failure r = None"
  shows "list_all2 settles (cs_moves st) (cs_moves (set_pending st i f))"
  using assms by (auto simp: set_pending_def list_all2_map2 list.rel_refl_strong settles_def intro!: list.rel_refl_strong)

definition rows_ok :: "comp_store \<Rightarrow> bool" where
  "rows_ok st \<longleftrightarrow> distinct (map (\<lambda>r. (mv_user r, mv_key r)) (cs_moves st)) \<and>
     (\<forall>r \<in> set (cs_moves st). row_event r \<in> set (cs_outbox st) \<and>
       (\<exists>m. move_restore (mv_id r) (mv_user r) (mv_from r) (mv_to r) (mv_amount r) = Inr m) \<and>
       (mv_failure r \<noteq> None \<longleftrightarrow> mv_state r = Failed))"

lemma comp_step_cases:
  assumes "comp_step P st st'" "rows_ok st"
  obtains (settled) "list_all2 settles (cs_moves st) (cs_moves st')" "set (cs_outbox st) \<subseteq> set (cs_outbox st')"
      "P (cs_scopes st) \<Longrightarrow> P (cs_scopes st')"
  | (recorded) row where "cs_moves st' = cs_moves st @ [row]" "admitted st row"
      "cs_outbox st' = cs_outbox st @ [row_event row]" "cs_scopes st' = cs_scopes st"
proof -
  have refl: "list_all2 settles rs rs" for rs by (simp add: list_all2_same settles_def)
  have quiet: "\<forall>r \<in> set (cs_moves st). mv_state r = Pending \<longrightarrow> mv_failure r = None"
    using assms(2) by (auto simp: rows_ok_def)
  from assms(1) show thesis
  proof (rule comp_stepE)
    fix sh sp bal i user src dst amount key now r
    assume "move_funds sh st sp bal i user src dst amount key now = (st', r)"
    then show thesis by (cases rule: move_funds_cases) (auto intro: settled refl recorded)
  next
    fix i assume st': "mark_posted st i = st'"
    have "list_all2 settles (cs_moves st) (cs_moves st')"
      unfolding st' [symmetric] mark_posted_def by (rule set_pending_settles [OF _ quiet]) (simp add: settles_def)
    with st' show thesis by (intro settled) (auto simp: mark_posted_def set_pending_def)
  next
    fix i reason assume st': "mark_failed st i reason = st'"
    have "list_all2 settles (cs_moves st) (cs_moves st')"
      unfolding st' [symmetric] mark_failed_def by (rule set_pending_settles [OF _ quiet]) (simp add: settles_def)
    with st' show thesis by (intro settled) (auto simp: mark_failed_def set_pending_def)
  next
    fix sh i d assume "redrive_one sh st i = (st', d)"
    then show thesis by (intro settled) (auto simp: redrive_one_def Let_def refl split: option.splits sum.splits)
  next
    fix scopes standing assume "P scopes" "st' = st\<lparr>cs_scopes := scopes, cs_standing := standing\<rparr>"
    then show thesis by (intro settled) (simp_all add: refl)
  qed
qed

lemma settles_frame:
  assumes "settles r r'"
  shows "mv_id r' = mv_id r" "mv_user r' = mv_user r" "mv_from r' = mv_from r" "mv_to r' = mv_to r"
    "mv_amount r' = mv_amount r" "mv_key r' = mv_key r" "mv_created r' = mv_created r"
proof -
  obtain s f where "r' = r\<lparr>mv_state := s, mv_failure := f\<rparr>"
    using assms unfolding settles_def by (metis move_row.surjective move_row.update_convs(7,8))
  then show "mv_id r' = mv_id r" "mv_user r' = mv_user r" "mv_from r' = mv_from r" "mv_to r' = mv_to r"
    "mv_amount r' = mv_amount r" "mv_key r' = mv_key r" "mv_created r' = mv_created r" by simp_all
qed

section \<open>Rolling windows\<close>

definition in_window :: "int \<Rightarrow> int \<Rightarrow> (move_row \<Rightarrow> bool) \<Rightarrow> move_row \<Rightarrow> bool" where
  "in_window span t K r \<longleftrightarrow> K r \<and> t - span < mv_created r \<and> mv_created r \<le> t"

definition window :: "(move_row \<Rightarrow> nat) \<Rightarrow> int \<Rightarrow> int \<Rightarrow> (move_row \<Rightarrow> bool) \<Rightarrow> move_row list \<Rightarrow> nat" where
  "window f span t K rs = sum_list (map f (filter (in_window span t K) rs))"

lemma sum_filter_mono:
  fixes f :: "'a \<Rightarrow> nat"
  assumes "\<And>x. x \<in> set xs \<Longrightarrow> P x \<Longrightarrow> Q x"
  shows "sum_list (map f (filter P xs)) \<le> sum_list (map f (filter Q xs))"
  using assms by (induction xs) (auto simp: trans_le_add2)

lemma window_snoc:
  assumes "window f span t K rs \<le> c"
    and "K row \<Longrightarrow> sum_list (map f (filter (\<lambda>r. K r \<and> mv_created row - span < mv_created r) rs)) + f row \<le> c"
  shows "window f span t K (rs @ [row]) \<le> c"
proof (cases "in_window span t K row")
  case True
  then have "window f span t K rs \<le> sum_list (map f (filter (\<lambda>r. K r \<and> mv_created row - span < mv_created r) rs))"
    unfolding window_def by (intro sum_filter_mono) (auto simp: in_window_def)
  with True assms(2) show ?thesis by (simp add: window_def in_window_def)
qed (use assms(1) in \<open>simp add: window_def\<close>)

lemma window_settles:
  assumes "list_all2 settles rs rs'" "\<And>r r'. settles r r' \<Longrightarrow> K r' \<Longrightarrow> K r" "\<And>r r'. settles r r' \<Longrightarrow> f r' = f r"
  shows "window f span t K rs' \<le> window f span t K rs"
  using assms(1)
proof (induction rule: list_all2_induct)
  case (Cons r rs r' rs')
  have "mv_created r' = mv_created r" using Cons.hyps(1) by (rule settles_frame)
  with Cons assms(2,3) [OF Cons.hyps(1)] show ?case by (auto simp: window_def in_window_def)
qed (simp add: window_def)

section \<open>Invariants\<close>

lemma list_all2_back:
  assumes "list_all2 R xs ys" "y \<in> set ys"
  obtains x where "x \<in> set xs" "R x y"
  using assms by (induction rule: list_all2_induct) auto

lemma rows_ok_step:
  assumes "comp_step P st st'" "rows_ok st"
  shows "rows_ok st'"
  using assms
proof (cases rule: comp_step_cases)
  case settled
  have keys: "map (\<lambda>r. (mv_user r, mv_key r)) (cs_moves st') = map (\<lambda>r. (mv_user r, mv_key r)) (cs_moves st)"
    using settled(1) by (induction rule: list_all2_induct) (auto dest: settles_frame)
  have "row_event r' \<in> set (cs_outbox st') \<and>
      (\<exists>m. move_restore (mv_id r') (mv_user r') (mv_from r') (mv_to r') (mv_amount r') = Inr m) \<and>
      (mv_failure r' \<noteq> None \<longleftrightarrow> mv_state r' = Failed)"
    if r': "r' \<in> set (cs_moves st')" for r'
  proof -
    obtain r where r: "r \<in> set (cs_moves st)" "settles r r'"
      by (rule list_all2_back [OF settled(1) r'])
    have "row_event r' = row_event r" by (simp add: row_event_def settles_frame [OF r(2)])
    moreover have "\<exists>m. move_restore (mv_id r') (mv_user r') (mv_from r') (mv_to r') (mv_amount r') = Inr m"
      using assms(2) r(1) unfolding rows_ok_def settles_frame [OF r(2)] by blast
    moreover have "row_event r \<in> set (cs_outbox st')" "mv_failure r \<noteq> None \<longleftrightarrow> mv_state r = Failed"
      using assms(2) settled(2) r(1) unfolding rows_ok_def by blast+
    moreover have "mv_failure r' \<noteq> None \<longleftrightarrow> mv_state r' = Failed"
      using r(2) calculation(4) unfolding settles_def by metis
    ultimately show ?thesis by metis
  qed
  with keys assms(2) show ?thesis unfolding rows_ok_def by (simp del: not_None_eq)
next
  case (recorded row)
  with recorded assms(2) show ?thesis by (auto simp: rows_ok_def admitted_def)
qed

lemma rows_ok_reach: "comp_reach P st \<Longrightarrow> rows_ok st"
  by (induction rule: comp_reach.induct) (simp_all add: rows_ok_def [of "\<lparr>cs_scopes = _, cs_standing = _, cs_moves = [], cs_outbox = []\<rparr>"] rows_ok_step)

lemma scopes_reach: "comp_reach P st \<Longrightarrow> P (cs_scopes st)"
proof (induction rule: comp_reach.induct)
  case (step st st')
  from step.hyps(2) rows_ok_reach [OF step.hyps(1)] show ?case
    by (cases rule: comp_step_cases) (use step.IH in auto)
qed simp

section \<open>The properties\<close>

lemma sum_ones: "sum_list (map (\<lambda>_. Suc 0) xs) = length xs"
  by (induction xs) simp_all

lemma minute_window:
  "comp_reach P st \<Longrightarrow> window (\<lambda>_. 1) MINUTE t (\<lambda>r. mv_user r = u) (cs_moves st) \<le> 10"
proof (induction rule: comp_reach.induct)
  case (step st st')
  from step.hyps(2) rows_ok_reach [OF step.hyps(1)] show ?case
  proof (cases rule: comp_step_cases)
    case settled
    have "window (\<lambda>_. 1) MINUTE t (\<lambda>r. mv_user r = u) (cs_moves st') \<le>
        window (\<lambda>_. 1) MINUTE t (\<lambda>r. mv_user r = u) (cs_moves st)"
      by (rule window_settles [OF settled(1)]) (auto dest: settles_frame)
    with step.IH show ?thesis by simp
  next
    case (recorded row)
    have "window (\<lambda>_. 1) MINUTE t (\<lambda>r. mv_user r = u) (cs_moves st @ [row]) \<le> 10"
      using recorded(2)
      by (intro window_snoc [OF step.IH]) (auto simp: admitted_def recent_moves_def sum_ones)
    with recorded(1) show ?thesis by simp
  qed
qed (simp add: window_def)

definition day_capped :: "scope_id \<Rightarrow> nat \<Rightarrow> (scope_id \<Rightarrow> scope_record option) \<Rightarrow> bool" where
  "day_capped s cap scopes \<longleftrightarrow> (\<forall>sr. scopes s = Some sr \<longrightarrow>
     (\<exists>c. max_moved_in_24h (sr_policy sr) = Some c \<and> usdt_val c \<le> cap))"

definition counted_move :: "uuid \<Rightarrow> scope_id \<Rightarrow> move_row \<Rightarrow> bool" where
  "counted_move u s r \<longleftrightarrow> mv_user r = u \<and> mv_to r = Scope s \<and> mv_state r \<in> {Pending, Posted}"

lemma day_window:
  "comp_reach (day_capped s cap) st \<Longrightarrow>
    window (\<lambda>r. usdt_val (mv_amount r)) DAY t (counted_move u s) (cs_moves st) \<le> cap"
proof (induction rule: comp_reach.induct)
  case (step st st')
  let ?W = "window (\<lambda>r. usdt_val (mv_amount r)) DAY t (counted_move u s)"
  from step.hyps(2) rows_ok_reach [OF step.hyps(1)] show ?case
  proof (cases rule: comp_step_cases)
    case settled
    have "?W (cs_moves st') \<le> ?W (cs_moves st)"
    proof (rule window_settles [OF settled(1)])
      fix r r' assume s: "settles r r'" and c: "counted_move u s r'"
      have "mv_state r = Pending \<or> r' = r" using s by (auto simp: settles_def)
      with c show "counted_move u s r" unfolding counted_move_def settles_frame [OF s] by auto
    qed (auto dest: settles_frame)
    with step.IH show ?thesis by simp
  next
    case (recorded row)
    have "?W (cs_moves st @ [row]) \<le> cap"
    proof (rule window_snoc [OF step.IH])
      assume k: "counted_move u s row"
      obtain scope moved where *: "cs_scopes st s = Some scope"
        "moved_in_24h st u s (mv_created row) = Inr moved"
        "\<And>c. max_moved_in_24h (sr_policy scope) = Some c \<Longrightarrow> usdt_val moved + usdt_val (mv_amount row) \<le> usdt_val c"
        using recorded(2) k by (auto simp: admitted_def counted_move_def)
      have "day_capped s cap (cs_scopes st)" by (rule scopes_reach [OF step.hyps(1)])
      with * have "usdt_val moved + usdt_val (mv_amount row) \<le> cap"
        unfolding day_capped_def by (meson le_trans)
      moreover have "usdt_val moved = sum_list (map (\<lambda>r. usdt_val (mv_amount r))
          (filter (\<lambda>r. counted_move u s r \<and> mv_created row - DAY < mv_created r) (cs_moves st)))"
        using sum_amounts_Inr [OF * (2) [unfolded moved_in_24h_def]]
        by (simp add: counted_in_def [abs_def] counted_move_def conj_assoc USDT_ZERO_def comp_def)
      ultimately show "sum_list (map (\<lambda>r. usdt_val (mv_amount r))
          (filter (\<lambda>r. counted_move u s r \<and> mv_created row - DAY < mv_created r) (cs_moves st)))
          + usdt_val (mv_amount row) \<le> cap" by simp
    qed
    with recorded(1) show ?thesis by simp
  qed
qed (simp add: window_def)

lemma ended_or_counted: "s \<in> {Pending, Posted} \<longleftrightarrow> s \<noteq> Failed"
  by (cases s) simp_all

lemma move_funds_admitted:
  assumes "move_funds sh st sp bal i user Main dst amount key now = (st', r)" "st' \<noteq> st"
  obtains m flight where "move_request i user Main dst amount = Inr m" "is_move_in m" "dst = Scope (cm_scope m)"
    "MIN_MOVE \<le> amount" "read_in_flight st m now = Inr flight" "admit sh sp bal m flight = Inr ()"
proof -
  obtain m where req: "move_request i user Main dst amount = Inr m" and min: "MIN_MOVE \<le> amount"
    and new: "find_move sh st user key = Inr None"
    using assms by (auto simp: move_funds_def not_less split: if_splits sum.splits option.splits)
  obtain st1 q where rec: "record_move sh st m key (admit sh sp bal m) now = (st1, q)" by fastforce
  have "st1 = st'"
    using assms req min new rec
    by (auto simp: move_funds_def not_less split: if_splits sum.splits option.splits move_outcome.splits)
  note rec = rec [unfolded this]
  note m = move_request_Inr [OF req]
  obtain rm where "q = Inr (Recorded rm)"
    using record_move_same [OF rec m(8) [folded m(1-5)]] assms(2) by blast
  then obtain flight where "read_in_flight st m now = Inr flight" "admit sh sp bal m flight = Inr ()"
    using record_move_Recorded [OF rec [unfolded \<open>q = _\<close>]] by metis
  moreover have "is_move_in m" "dst = Scope (cm_scope m)" using m(3,4,7) by (auto simp: is_move_in_def)
  ultimately show thesis by (intro that [OF req _ _ min])
qed

text \<open>
  C28: A move from main into a scope is recorded only when the scope is open to money, the user is
  neither frozen nor below its KYC level, what the user can spend covers the amount, and the amount
  keeps to the caps: per move, per rolling day, and on the compartment's balance with everything
  still on its way in.
\<close>
theorem move_in_admitted:
  assumes "move_funds sh st sp bal i user Main (Scope s) amount key now = (st', r)" "st' \<noteq> st"
  shows "\<exists>scope standing source target moved arriving.
    cs_scopes st s = Some scope \<and> sr_state scope = Active \<and>
    cs_standing st user = Some standing \<and> \<not> ps_blocked standing \<and>
    min_kyc_level (sr_policy scope) \<le> ps_kyc_level standing \<and>
    sp (UserClaim user) = Inr source \<and> usdt_val amount \<le> unat source \<and> MIN_MOVE \<le> amount \<and>
    (\<forall>cap. max_per_move (sr_policy scope) = Some cap \<longrightarrow> amount \<le> cap) \<and>
    moved_in_24h st user s now = Inr moved \<and>
    (\<forall>cap. max_moved_in_24h (sr_policy scope) = Some cap \<longrightarrow>
       usdt_val moved + usdt_val amount \<le> usdt_val cap) \<and>
    bal (ScopeClaim user s) = Inr target \<and> pending_in st user (Scope s) = Inr arriving \<and>
    (\<forall>cap. max_balance (sr_policy scope) = Some cap \<longrightarrow>
       min (2 ^ 128 - 1) (unat (lb_posted target) + unat (lb_pending target)) + usdt_val arriving
         + usdt_val amount \<le> usdt_val cap)"
proof -
  obtain m flight where req: "move_request i user Main (Scope s) amount = Inr m" and mi: "is_move_in m"
    and s: "Scope s = Scope (cm_scope m)" and min: "MIN_MOVE \<le> amount"
    and f: "read_in_flight st m now = Inr flight" and adm: "admit sh sp bal m flight = Inr ()"
    by (rule move_funds_admitted [OF assms])
  note m = move_request_Inr [OF req]
  note fl = read_in_flight_in [OF f mi, unfolded m(2-5), folded s [unfolded compartment.inject]]
  from admit_in_Inr [OF adm mi] obtain scope standing source target where a:
    "if_scope flight = Some scope" "sr_state scope = Active"
    "if_standing flight = Some standing" "\<not> ps_blocked standing"
    "sp (UserClaim user) = Inr source" "usdt_val amount \<le> unat source"
    "bal (ScopeClaim user s) = Inr target" "min_kyc_level (sr_policy scope) \<le> ps_kyc_level standing"
    "\<forall>cap. max_per_move (sr_policy scope) = Some cap \<longrightarrow> amount \<le> cap"
    "\<forall>cap. max_moved_in_24h (sr_policy scope) = Some cap \<longrightarrow>
       usdt_val (if_moved_in_24h flight) + usdt_val amount \<le> usdt_val cap"
    "\<forall>cap. max_balance (sr_policy scope) = Some cap \<longrightarrow>
       min (2 ^ 128 - 1) (unat (lb_posted target) + unat (lb_pending target))
         + usdt_val (if_pending_into_target flight) + usdt_val amount \<le> usdt_val cap"
    unfolding m(2-5) compartment_claim_key.simps by metis
  show ?thesis
    by (intro exI [of _ scope] exI [of _ standing] exI [of _ source] exI [of _ target]
        exI [of _ "if_moved_in_24h flight"] exI [of _ "if_pending_into_target flight"] conjI)
      (use a fl min in simp_all)
qed

text \<open>
  However moves are asked for, settled and announced, no user ever has more than ten moves
  recorded within any minute.
\<close>
theorem moves_per_minute:
  assumes "comp_reach P st"
  shows "length (filter (\<lambda>r. mv_user r = u \<and> t - MINUTE < mv_created r \<and> mv_created r \<le> t) (cs_moves st))
    \<le> nat MAX_MOVES_PER_MINUTE"
  using minute_window [OF assms, of t u]
  by (simp add: window_def in_window_def [abs_def] sum_ones MAX_MOVES_PER_MINUTE_def)

text \<open>
  C29: While every policy announced for a scope caps what a user may move into it in a day at
  some amount or less, the user's pending and posted moves into it within any 24 hours add up to
  at most that amount.
\<close>
theorem moved_in_per_day:
  assumes "comp_reach (day_capped s cap) st"
  shows "sum_list (map (\<lambda>r. usdt_val (mv_amount r))
    (filter (\<lambda>r. mv_user r = u \<and> mv_to r = Scope s \<and> mv_state r \<noteq> Failed \<and>
        t - DAY < mv_created r \<and> mv_created r \<le> t) (cs_moves st))) \<le> cap"
proof -
  have "in_window DAY t (counted_move u s) = (\<lambda>r. mv_user r = u \<and> mv_to r = Scope s \<and> mv_state r \<noteq> Failed \<and>
        t - DAY < mv_created r \<and> mv_created r \<le> t)"
    by (rule ext) (simp only: in_window_def counted_move_def ended_or_counted conj_assoc)
  with day_window [OF assms, of t u] show ?thesis by (simp add: window_def)
qed

text \<open>
  A key already used by the user writes nothing: the same terms answer with the move that was
  recorded, as it now stands, and other terms are a conflict.
\<close>
lemma move_retried:
  assumes "comp_reach P st" "row \<in> set (cs_moves st)"
    and "mv_key row \<noteq> []" "length (mv_key row) \<le> 128" "MIN_MOVE \<le> amount"
    and "move_request i (mv_user row) src dst amount = Inr m"
  shows "\<exists>orig. rm_state orig = mv_state row \<and> rm_failure orig = mv_failure row \<and> cm_id (rm_movement orig) = mv_id row \<and>
    move_funds sh st sp bal i (mv_user row) src dst amount (mv_key row) now =
      (st, if src = mv_from row \<and> dst = mv_to row \<and> amount = mv_amount row then Inr orig
           else Inl (Domain (Conflict ''idempotency_key was used for a different move'')))"
proof -
  have ok: "rows_ok st" by (rule rows_ok_reach [OF assms(1)])
  then obtain m0 where m0: "move_restore (mv_id row) (mv_user row) (mv_from row) (mv_to row) (mv_amount row) = Inr m0"
    using assms(2) unfolding rows_ok_def by blast
  have fields: "cm_id m0 = mv_id row" "cm_from m0 = mv_from row" "cm_to m0 = mv_to row" "cm_amount m0 = mv_amount row"
    using m0 [unfolded move_restore_Inr] by (metis compartment_move.select_convs)+
  have dist: "distinct (map (\<lambda>r. (mv_user r, mv_key r)) (cs_moves st))"
    using ok by (simp add: rows_ok_def)
  have "find (\<lambda>r. mv_user r = mv_user row \<and> mv_key r = mv_key row) rs = Some row"
    if "distinct (map (\<lambda>r. (mv_user r, mv_key r)) rs)" "row \<in> set rs" for rs
    using that by (induction rs) force+
  then have found: "find_move sh st (mv_user row) (mv_key row) =
      Inr (Some \<lparr>rm_movement = m0, rm_state = mv_state row, rm_failure = mv_failure row, rm_created = epoch_seconds (mv_created row)\<rparr>)"
    using dist assms(2) m0 by (simp add: find_move_def recorded_move_of_def)
  show ?thesis
    by (intro exI [of _ "\<lparr>rm_movement = m0, rm_state = mv_state row, rm_failure = mv_failure row, rm_created = epoch_seconds (mv_created row)\<rparr>"])
      (use assms(3-6) found fields move_request_Inr [OF assms(6)] in
        \<open>auto simp: move_funds_def MAX_IDEMPOTENCY_KEY_def repeat_move_def move_same_terms_def\<close>)
qed

text \<open>
  C30: A move that is posted or failed never changes again, and every recorded move's fact is in the
  outbox; keys are unique per user.
\<close>
theorem moves_settle_once:
  assumes "comp_reach P st" "comp_step P st st'"
  shows "(\<forall>n < length (cs_moves st). mv_state (cs_moves st ! n) \<noteq> Pending \<longrightarrow>
      n < length (cs_moves st') \<and> cs_moves st' ! n = cs_moves st ! n) \<and>
    (\<forall>r \<in> set (cs_moves st'). Moved (mv_id r) (mv_user r) (mv_from r) (mv_to r) (mv_amount r) \<in> set (cs_outbox st')) \<and>
    distinct (map (\<lambda>r. (mv_user r, mv_key r)) (cs_moves st'))"
proof (intro conjI)
  have ok: "rows_ok st" by (rule rows_ok_reach [OF assms(1)])
  from assms(2) ok show "\<forall>n < length (cs_moves st). mv_state (cs_moves st ! n) \<noteq> Pending \<longrightarrow>
      n < length (cs_moves st') \<and> cs_moves st' ! n = cs_moves st ! n"
  proof (cases rule: comp_step_cases)
    case settled
    then show ?thesis by (auto simp: list_all2_conv_all_nth settles_def)
  qed (simp add: nth_append)
  have "rows_ok st'" by (rule rows_ok_step [OF assms(2) ok])
  then show "\<forall>r \<in> set (cs_moves st'). Moved (mv_id r) (mv_user r) (mv_from r) (mv_to r) (mv_amount r) \<in> set (cs_outbox st')"
    and "distinct (map (\<lambda>r. (mv_user r, mv_key r)) (cs_moves st'))"
    by (simp_all add: rows_ok_def row_event_def)
qed

section \<open>A move, run\<close>

definition sample_policy :: scope_policy where
  "sample_policy = \<lparr>min_kyc_level = 1, max_per_move = None, max_moved_in_24h = Some (Usdt 20000000000000000000),
     max_balance = None, auto_payout_per_op = USDT_ZERO, auto_payout_24h = USDT_ZERO,
     auto_transfer_per_op = USDT_ZERO, auto_transfer_24h = USDT_ZERO, scope_budget_24h = USDT_ZERO\<rparr>"

definition sample_scopes :: "scope_id \<Rightarrow> scope_record option" where
  "sample_scopes = (\<lambda>s. if s = ScopeId ''acme'' then Some \<lparr>sr_state = Active, sr_display_name = ''Acme'',
     sr_policy = sample_policy, sr_policy_updated_at = 0\<rparr> else None)"

definition sample_before :: comp_store where
  "sample_before = \<lparr>cs_scopes = sample_scopes,
     cs_standing = (\<lambda>u. if u = 7 then Some \<lparr>ps_blocked = False, ps_kyc_level = 2\<rparr> else None),
     cs_moves = [], cs_outbox = []\<rparr>"

definition sample_row :: move_row where
  "sample_row = \<lparr>mv_id = 1, mv_user = 7, mv_from = Main, mv_to = Scope (ScopeId ''acme''),
     mv_amount = Usdt 5000000000000000000, mv_key = ''k'', mv_state = Pending, mv_failure = None, mv_created = 0\<rparr>"

definition sample_moved :: comp_store where
  "sample_moved = sample_before\<lparr>cs_moves := [sample_row], cs_outbox := [row_event sample_row]\<rparr>"

definition sample_balance :: "account_key \<Rightarrow> ledger_error + ledger_balance" where
  "sample_balance k = Inr \<lparr>lb_posted = 0, lb_pending = 0, lb_locked = 0\<rparr>"

lemmas sample_defs = sample_policy_def sample_scopes_def sample_before_def sample_row_def sample_moved_def
  sample_balance_def

lemmas move_runs = MAX_IDEMPOTENCY_KEY_def MIN_MOVE_def find_move_def record_move_def recent_moves_def
  MAX_MOVES_PER_MINUTE_def read_in_flight_def is_move_in_def pending_in_def moved_in_24h_def sample_before_def
  sample_scopes_def USDT_ZERO_def admit_def admit_source_def domain_err_def from_ledger_def sample_balance_def
  sample_policy_def admit_move_in_def admits_kyc_def within_cap_def rbind_def ok_or_def usdt_checked_add_def
  saturating_add_def checked_add_def epoch_seconds_def Let_def move_drain_def move_restore_def zero_iffs

lemma sample_request:
  "move_request 1 7 Main (Scope (ScopeId ''acme'')) (Usdt 5000000000000000000) =
     Inr \<lparr>cm_id = 1, cm_user = 7, cm_from = Main, cm_to = Scope (ScopeId ''acme''), cm_scope = ScopeId ''acme'',
       cm_amount = Usdt 5000000000000000000, cm_pending = [row_event sample_row]\<rparr>"
  by (simp add: move_request_def move_restore_def zero_iffs row_event_def sample_row_def)

lemma sample_move:
  "move_funds (\<lambda>_. []) sample_before (\<lambda>_. Inr 9000000000000000000) sample_balance 1 7 Main
     (Scope (ScopeId ''acme'')) (Usdt 5000000000000000000) ''k'' 0 =
   (sample_moved, Inr \<lparr>rm_movement = \<lparr>cm_id = 1, cm_user = 7, cm_from = Main, cm_to = Scope (ScopeId ''acme''),
      cm_scope = ScopeId ''acme'', cm_amount = Usdt 5000000000000000000, cm_pending = []\<rparr>,
      rm_state = Pending, rm_failure = None, rm_created = 0\<rparr>)"
  by (simp add: move_funds_def sample_request move_runs usdt_order) (simp add: sample_defs)

lemma sample_reached: "day_capped (ScopeId ''acme'') 20000000000000000000 sample_scopes \<and>
  (\<forall>P. P sample_scopes \<longrightarrow> comp_reach P sample_moved)"
proof (intro conjI allI impI)
  show "day_capped (ScopeId ''acme'') 20000000000000000000 sample_scopes"
    by (simp add: day_capped_def sample_scopes_def sample_policy_def)
next
  fix P :: "(scope_id \<Rightarrow> scope_record option) \<Rightarrow> bool" assume "P sample_scopes"
  then have "comp_reach P sample_before" unfolding sample_before_def by (rule comp_reach.start)
  then show "comp_reach P sample_moved" by (rule comp_reach.step [OF _ comp_step.move [OF sample_move]])
qed

lemmas sample_reach = sample_reached [THEN conjunct2, rule_format]

theorem move_in_admitted_witness:
  "\<exists>moved. moved_in_24h sample_before 7 (ScopeId ''acme'') 0 = Inr moved \<and> usdt_val moved + 5000000000000000000 \<le> 20000000000000000000"
proof -
  have changed: "sample_moved \<noteq> sample_before" by (simp add: sample_defs)
  show ?thesis using move_in_admitted [OF sample_move changed] by (auto simp: sample_defs split: if_splits)
qed

theorem moves_per_minute_witness:
  "length (filter (\<lambda>r. mv_user r = 7 \<and> 5 - MINUTE < mv_created r \<and> mv_created r \<le> 5) (cs_moves sample_moved))
    \<le> nat MAX_MOVES_PER_MINUTE \<and> mv_user (hd (cs_moves sample_moved)) = 7"
  using moves_per_minute [OF sample_reach [of "\<lambda>_. True", OF TrueI], of 7 5] by (simp add: sample_moved_def sample_row_def)

theorem moved_in_per_day_witness:
  "sum_list (map (\<lambda>r. usdt_val (mv_amount r))
    (filter (\<lambda>r. mv_user r = 7 \<and> mv_to r = Scope (ScopeId ''acme'') \<and> mv_state r \<noteq> Failed \<and>
        5 - DAY < mv_created r \<and> mv_created r \<le> 5) (cs_moves sample_moved))) \<le> 20000000000000000000"
  by (rule moved_in_per_day [OF sample_reach [of "day_capped (ScopeId ''acme'') 20000000000000000000",
      OF sample_reached [THEN conjunct1]]])

theorem move_retried_witness:
  "\<exists>r. move_funds (\<lambda>_. []) sample_moved (\<lambda>_. Inr 0) sample_balance 1 7 Main (Scope (ScopeId ''acme''))
     (Usdt 5000000000000000000) ''k'' 9 = (sample_moved, Inr r)"
proof -
  have "\<exists>orig. rm_state orig = mv_state sample_row \<and> rm_failure orig = mv_failure sample_row \<and>
      cm_id (rm_movement orig) = mv_id sample_row \<and>
      move_funds (\<lambda>_. []) sample_moved (\<lambda>_. Inr 0) sample_balance 1 (mv_user sample_row) Main (Scope (ScopeId ''acme''))
        (Usdt 5000000000000000000) (mv_key sample_row) 9 =
      (sample_moved, if Main = mv_from sample_row \<and> Scope (ScopeId ''acme'') = mv_to sample_row \<and>
        Usdt 5000000000000000000 = mv_amount sample_row then Inr orig
        else Inl (Domain (Conflict ''idempotency_key was used for a different move'')))"
    using sample_request
    by (intro move_retried [OF sample_reach [of "\<lambda>_. True", OF TrueI]])
      (simp_all add: sample_row_def sample_moved_def MIN_MOVE_def usdt_order)
  then show ?thesis by (auto simp: sample_row_def)
qed

theorem moves_settle_once_witness:
  "mv_state (hd (cs_moves (mark_failed (mark_posted sample_moved 1) 1 ''late''))) = Posted"
proof -
  have reached: "comp_reach (\<lambda>_. True) (mark_posted sample_moved 1)"
    by (rule comp_reach.step [OF sample_reach comp_step.posted [OF refl]]) (rule TrueI)
  show ?thesis
    using moves_settle_once [OF reached comp_step.failed [OF refl], of 1 "''late''"]
    by (simp add: mark_posted_def mark_failed_def set_pending_def sample_moved_def sample_row_def)
qed

end
