(* ===== verification/EvmTx.thy ===== *)
theory EvmTx
  imports Canonical
begin

text \<open>
  Legacy EVM transactions as the signer builds them (\<^verbatim>\<open>piggybank/signer/src/evm_tx.rs\<close>):
  RLP, the EIP-155 signing payload and the signed envelope, byte for byte.  Bytes are characters.
  The hash (\<^verbatim>\<open>sha3\<close>) and the hex decoder (\<^verbatim>\<open>hex\<close>) are libraries: arguments.
  Both RLP forms are interpretations of \<open>prefix_code\<close>, so that what a signature covers is
  read back field by field.
\<close>

section \<open>Addresses and calldata\<close>

definition evm_parse_address :: "(string \<Rightarrow> string option) \<Rightarrow> string \<Rightarrow> string option" where
  "evm_parse_address hex_decode v =
     (let hex = (if starts_with ''0x'' v then drop 2 v else v)
      in Option.bind (hex_decode hex) (\<lambda>bytes. if length bytes = 20 then Some bytes else None))"

definition ERC20_TRANSFER_SELECTOR :: string where
  "ERC20_TRANSFER_SELECTOR = [CHR 0xa9, CHR 0x05, CHR 0x9c, CHR 0xbb]"

definition erc20_transfer_calldata :: "string \<Rightarrow> u128 \<Rightarrow> string" where
  "erc20_transfer_calldata to amount =
     ERC20_TRANSFER_SELECTOR @ replicate 12 (CHR 0x00) @ to @ replicate 16 (CHR 0x00) @ u128_to_be_bytes amount"

section \<open>RLP\<close>

definition trim_left :: "string \<Rightarrow> string" where
  "trim_left bytes = dropWhile (\<lambda>b. b = CHR 0x00) bytes"

definition rlp_len_prefix :: "nat \<Rightarrow> nat \<Rightarrow> string" where
  "rlp_len_prefix len offset =
     (if len < 56 then [char_of (offset + len)]
      else let len_be = trim_left (u64_to_be_bytes (word_of_nat len))
           in char_of (offset + 55 + length len_be) # len_be)"

definition rlp_str :: "string \<Rightarrow> string" where
  "rlp_str bytes =
     (if length bytes = 1 \<and> byte (hd bytes) < 0x80 then bytes
      else rlp_len_prefix (length bytes) 0x80 @ bytes)"

definition rlp_list :: "string list \<Rightarrow> string" where
  "rlp_list items = (let body = concat items in rlp_len_prefix (length body) 0xc0 @ body)"

definition rlp_uint :: "u128 \<Rightarrow> string" where
  "rlp_uint n = rlp_str (trim_left (u128_to_be_bytes n))"

section \<open>Transactions\<close>

record legacy_tx =
  tx_chain_id :: u64
  tx_nonce :: u64
  tx_gas_price :: u128
  tx_gas_limit :: u64
  tx_to :: string
  tx_value :: u128
  tx_data :: string

record unsigned_legacy_tx =
  ut_fields :: "string list"
  ut_chain_id :: u64

datatype chain_signature = Ecdsa string string nat | Ed25519_Sig string

record signed_tx =
  st_raw :: string
  st_hash :: string

datatype evm_tx_error = WrongSignatureKind

definition tx_fields :: "legacy_tx \<Rightarrow> string list" where
  "tx_fields tx = [rlp_uint (ucast (tx_nonce tx)), rlp_uint (tx_gas_price tx), rlp_uint (ucast (tx_gas_limit tx)),
     rlp_str (tx_to tx), rlp_uint (tx_value tx), rlp_str (tx_data tx)]"

definition signing_payload :: "legacy_tx \<Rightarrow> string" where
  "signing_payload tx =
     rlp_list (tx_fields tx @ [rlp_uint (ucast (tx_chain_id tx)), rlp_uint 0, rlp_uint 0])"

definition build_unsigned :: "(string \<Rightarrow> string) \<Rightarrow> legacy_tx \<Rightarrow> unsigned_legacy_tx \<times> string" where
  "build_unsigned keccak256 tx =
     (\<lparr>ut_fields = tx_fields tx, ut_chain_id = tx_chain_id tx\<rparr>, keccak256 (signing_payload tx))"

definition assemble_evm ::
  "(string \<Rightarrow> string) \<Rightarrow> unsigned_legacy_tx \<Rightarrow> chain_signature \<Rightarrow> evm_tx_error + signed_tx" where
  "assemble_evm keccak256 parts signature =
     (case signature of
        Ecdsa r s recovery_id \<Rightarrow>
          let v = word_of_nat recovery_id + ucast (ut_chain_id parts) * 2 + 35 :: u128;
              items = ut_fields parts @ [rlp_uint v, rlp_str (trim_left r), rlp_str (trim_left s)];
              raw = rlp_list items
          in Inr \<lparr>st_raw = raw, st_hash = keccak256 raw\<rparr>
      | Ed25519_Sig _ \<Rightarrow> Inl WrongSignatureKind)"

section \<open>Trimmed integers\<close>

lemma trim_left_pad: "bytes = replicate (length bytes - length (trim_left bytes)) (CHR 0x00) @ trim_left bytes"
proof (induction bytes)
  case (Cons b bytes)
  have le: "length (trim_left bytes) \<le> length bytes" by (simp add: trim_left_def length_dropWhile_le)
  show ?case
  proof (cases "b = CHR 0x00")
    case True
    with le Cons.IH show ?thesis by (simp add: trim_left_def Suc_diff_le)
  qed (simp add: trim_left_def)
qed (simp add: trim_left_def)

lemma trim_left_inject:
  assumes "length a = length b" "trim_left a = trim_left b"
  shows "a = b"
  using trim_left_pad [of a] trim_left_pad [of b] assms by metis

lemma length_trim_left: "length (trim_left b) \<le> length b"
  by (simp add: trim_left_def length_dropWhile_le)

lemma trim_left_nonempty: "trim_left b = [] \<longleftrightarrow> set b \<subseteq> {CHR 0x00}"
  by (auto simp: trim_left_def dropWhile_eq_Nil_conv)

section \<open>RLP is prefix-free\<close>

lemma byte_char_of: "n < 256 \<Longrightarrow> byte (char_of n) = n"
  by (simp add: byte_def)

lemma char_of_inject: "m < 256 \<Longrightarrow> n < 256 \<Longrightarrow> (char_of m :: char) = char_of n \<Longrightarrow> m = (n :: nat)"
  by (metis byte_char_of)

lemma len_word: "n < 2 ^ 64 \<Longrightarrow> unat (word_of_nat n :: u64) = n"
  by (rule unat_of_nat_fits) simp

lemma len_bytes_le: "length (trim_left (u64_to_be_bytes x)) \<le> 8"
  using length_trim_left [of "u64_to_be_bytes x"] by (simp add: u64_bytes.width)

lemma len_bytes_inject:
  assumes "m < 2 ^ 64" "n < 2 ^ 64"
    "trim_left (u64_to_be_bytes (word_of_nat m)) = trim_left (u64_to_be_bytes (word_of_nat n))"
  shows "m = n"
proof -
  have "u64_to_be_bytes (word_of_nat m) = u64_to_be_bytes (word_of_nat n)"
    by (rule trim_left_inject) (simp_all add: u64_bytes.width assms(3))
  then have "(word_of_nat m :: u64) = word_of_nat n" by (rule u64_bytes.enc_inj)
  then show ?thesis using len_word assms(1,2) by metis
qed

lemma len_prefix_cancel:
  assumes eq: "rlp_len_prefix m offset @ r = rlp_len_prefix n offset @ s"
    and len: "m < 2 ^ 64" "n < 2 ^ 64" and offset: "offset \<le> 0xc0"
  shows "m = n \<and> r = s"
proof -
  let ?b = "\<lambda>n. trim_left (u64_to_be_bytes (word_of_nat n))"
  have big: "0 < length (?b k)" if "\<not> k < 56" "k < 2 ^ 64" for k
  proof (rule ccontr)
    assume "\<not> 0 < length (?b k)"
    moreover have "?b 0 = []" by code_simp
    ultimately have "?b k = ?b 0" by simp
    then have "k = 0" using len_bytes_inject [of k 0] that by simp
    with that show False by simp
  qed
  show ?thesis
  proof (cases "m < 56"; cases "n < 56")
    assume m: "m < 56" and n: "n < 56"
    then have "(char_of (offset + m) :: char) = char_of (offset + n)" "r = s"
      using eq by (simp_all add: rlp_len_prefix_def)
    then show ?thesis using char_of_inject [of "offset + m" "offset + n"] m n offset by simp
  next
    assume m: "m < 56" and n: "\<not> n < 56"
    then have "(char_of (offset + m) :: char) = char_of (offset + 55 + length (?b n))"
      using eq by (simp add: rlp_len_prefix_def Let_def)
    then show ?thesis
      using char_of_inject [of "offset + m" "offset + 55 + length (?b n)"] m big [OF n len(2)] offset
        len_bytes_le [of "word_of_nat n"] by simp
  next
    assume m: "\<not> m < 56" and n: "n < 56"
    then have "(char_of (offset + 55 + length (?b m)) :: char) = char_of (offset + n)"
      using eq by (simp add: rlp_len_prefix_def Let_def)
    then show ?thesis
      using char_of_inject [of "offset + 55 + length (?b m)" "offset + n"] n big [OF m len(1)] offset
        len_bytes_le [of "word_of_nat m"] by simp
  next
    assume m: "\<not> m < 56" and n: "\<not> n < 56"
    then have "(char_of (offset + 55 + length (?b m)) :: char) = char_of (offset + 55 + length (?b n))"
      and tl: "?b m @ r = ?b n @ s"
      using eq by (simp_all add: rlp_len_prefix_def Let_def)
    then have "length (?b m) = length (?b n)"
      using char_of_inject [of "offset + 55 + length (?b m)" "offset + 55 + length (?b n)"] offset
        len_bytes_le [of "word_of_nat m"] len_bytes_le [of "word_of_nat n"] by simp
    with tl show ?thesis using len_bytes_inject [OF len] by simp
  qed
qed

lemma len_prefix_first: "n < 2 ^ 64 \<Longrightarrow> 0x80 \<le> byte (hd (rlp_len_prefix n 0x80)) \<and> rlp_len_prefix n 0x80 \<noteq> []"
  using len_bytes_le [of "word_of_nat n"] by (simp add: rlp_len_prefix_def Let_def byte_char_of)

interpretation rlp_string: prefix_code rlp_str fits_usize
proof
  fix x y r s :: string
  assume ok: "fits_usize x" "fits_usize y" and eq: "rlp_str x @ r = rlp_str y @ s"
  then have len: "length x < 2 ^ 64" "length y < 2 ^ 64" by (simp_all add: fits_usize_def)
  let ?one = "\<lambda>z. length z = 1 \<and> byte (hd z) < 0x80"
  have first: "byte (hd (rlp_str z @ t)) < 0x80 \<longleftrightarrow> ?one z" if "length z < 2 ^ 64" for z t
    using len_prefix_first [OF that] by (cases z) (auto simp: rlp_str_def)
  have both: "?one x \<longleftrightarrow> ?one y" using first [OF len(1), of r] first [OF len(2), of s] eq by simp
  show "x = y \<and> r = s"
  proof (cases "?one x")
    case True
    with both eq show ?thesis by (cases x; cases y) (auto simp: rlp_str_def)
  next
    case False
    with both eq have "rlp_len_prefix (length x) 0x80 @ (x @ r) = rlp_len_prefix (length y) 0x80 @ (y @ s)"
      by (simp only: rlp_str_def if_False append_assoc)
    from len_prefix_cancel [OF this len] have "length x = length y" "x @ r = y @ s" by simp_all
    then show ?thesis by (simp add: append_eq_append_conv)
  qed
qed

interpretation rlp_integer: prefix_code rlp_uint "\<lambda>_. True"
proof
  fix x y :: u128 and r s :: string
  have fits: "fits_usize (trim_left (u128_to_be_bytes z))" for z
    using length_trim_left [of "u128_to_be_bytes z"] by (simp add: fits_usize_def u128_bytes.width)
  assume "rlp_uint x @ r = rlp_uint y @ s"
  then have "trim_left (u128_to_be_bytes x) = trim_left (u128_to_be_bytes y)" "r = s"
    by (simp_all add: rlp_uint_def rlp_string.cancel fits)
  moreover from this(1) have "u128_to_be_bytes x = u128_to_be_bytes y"
    by (rule trim_left_inject [rotated]) (simp add: u128_bytes.width)
  ultimately show "x = y \<and> r = s" using u128_bytes.enc_inj by blast
qed

lemma length_rlp_str: "fits_usize x \<Longrightarrow> length (rlp_str x) \<le> length x + 9"
  using len_bytes_le [of "word_of_nat (length x)"] by (simp add: rlp_str_def rlp_len_prefix_def Let_def)

lemma length_rlp_uint: "length (rlp_uint x) \<le> 25"
  using length_rlp_str [of "trim_left (u128_to_be_bytes x)"] length_trim_left [of "u128_to_be_bytes x"]
  by (simp add: rlp_uint_def fits_usize_def u128_bytes.width)

section \<open>The properties\<close>

lemma ucast_u64_inject: "(ucast (x :: u64) :: u128) = ucast y \<longleftrightarrow> x = y"
proof -
  have "unat (ucast z :: u128) = unat z" for z :: u64
    using unsigned_less [where 'a = nat, of z]
    by (simp add: unsigned_ucast_eq take_bit_eq_mod)
  then show ?thesis by (metis word_unat_eq_iff)
qed

lemma payload_body_len:
  assumes "length (tx_to t) = 20" "length (tx_data t) < 2 ^ 32"
  shows "length (concat (tx_fields t @ [rlp_uint (ucast (tx_chain_id t)), rlp_uint 0, rlp_uint 0])) < 2 ^ 64"
proof -
  have "length (rlp_str (tx_to t)) \<le> 29" "length (rlp_str (tx_data t)) \<le> 2 ^ 32 + 9"
    using assms length_rlp_str [of "tx_to t"] length_rlp_str [of "tx_data t"] by (simp_all add: fits_usize_def)
  then show ?thesis
    using length_rlp_uint [of "ucast (tx_nonce t)"] length_rlp_uint [of "tx_gas_price t"]
      length_rlp_uint [of "ucast (tx_gas_limit t)"] length_rlp_uint [of "tx_value t"]
      length_rlp_uint [of "ucast (tx_chain_id t)"] length_rlp_uint [of 0]
    by (simp add: tx_fields_def)
qed

text \<open>
  C35: A signature covers one transaction: two transactions whose signing payloads agree are the
  same transaction (chain, nonce, gas price and limit, destination, value and data), and a token
  transfer's data names one recipient and one amount.
\<close>
theorem evm_payload_unique:
  assumes "length (tx_to t) = 20" "length (tx_to t') = 20"
    "length (tx_data t) < 2 ^ 32" "length (tx_data t') < 2 ^ 32"
  shows "(signing_payload t = signing_payload t' \<longleftrightarrow> t = t') \<and>
    (length to = 20 \<and> length to' = 20 \<longrightarrow>
      (erc20_transfer_calldata to amount = erc20_transfer_calldata to' amount' \<longleftrightarrow> to = to' \<and> amount = amount'))"
proof (intro conjI impI)
  have fits: "fits_usize (tx_to t)" "fits_usize (tx_to t')" "fits_usize (tx_data t)" "fits_usize (tx_data t')"
    using assms by (simp_all add: fits_usize_def)
  have "t = t'" if eq: "signing_payload t = signing_payload t'"
  proof -
    let ?c = "\<lambda>t. concat (tx_fields t @ [rlp_uint (ucast (tx_chain_id t)), rlp_uint 0, rlp_uint 0])"
    from eq have framed: "rlp_len_prefix (length (?c t)) 0xc0 @ ?c t = rlp_len_prefix (length (?c t')) 0xc0 @ ?c t'"
      by (simp only: signing_payload_def rlp_list_def Let_def)
    have "?c t = ?c t'"
      by (rule len_prefix_cancel [OF framed payload_body_len [OF assms(1,3)] payload_body_len [OF assms(2,4)],
            THEN conjunct2]) simp
    then have "(ucast (tx_nonce t) :: u128) = ucast (tx_nonce t')" "tx_gas_price t = tx_gas_price t'"
      "(ucast (tx_gas_limit t) :: u128) = ucast (tx_gas_limit t')" "tx_to t = tx_to t'" "tx_value t = tx_value t'"
      "tx_data t = tx_data t'" "(ucast (tx_chain_id t) :: u128) = ucast (tx_chain_id t')"
      by (simp_all only: tx_fields_def append.simps append_assoc concat.simps rlp_integer.cancel [OF TrueI TrueI]
          rlp_string.cancel [OF fits(1,2)] rlp_string.cancel [OF fits(3,4)])
    then show ?thesis by (cases t; cases t') (simp only: ucast_u64_inject legacy_tx.select_convs)
  qed
  then show "signing_payload t = signing_payload t' \<longleftrightarrow> t = t'" by auto
  assume "length to = 20 \<and> length to' = 20"
  then show "erc20_transfer_calldata to amount = erc20_transfer_calldata to' amount' \<longleftrightarrow> to = to' \<and> amount = amount'"
    by (auto simp: erc20_transfer_calldata_def u128_bytes.inject)
qed

theorem evm_payload_unique_witness:
  "signing_payload \<lparr>tx_chain_id = 56, tx_nonce = 1, tx_gas_price = 3, tx_gas_limit = 21000, tx_to = replicate 20 CHR ''a'',
     tx_value = 5, tx_data = []\<rparr> \<noteq>
   signing_payload \<lparr>tx_chain_id = 97, tx_nonce = 1, tx_gas_price = 3, tx_gas_limit = 21000, tx_to = replicate 20 CHR ''a'',
     tx_value = 5, tx_data = []\<rparr>"
proof -
  let ?t = "\<lambda>chain. \<lparr>tx_chain_id = chain, tx_nonce = 1, tx_gas_price = 3, tx_gas_limit = 21000,
     tx_to = replicate 20 CHR ''a'', tx_value = 5, tx_data = []\<rparr>"
  have "signing_payload (?t 56) = signing_payload (?t 97) \<longleftrightarrow> ?t 56 = ?t 97"
    using evm_payload_unique [of "?t 56" "?t 97" "[]" "[]" 0 0] by simp
  then show ?thesis by simp
qed

end
