(* ===== verification/SignerPolicy.thy ===== *)
theory SignerPolicy
  imports Money EvmTx
begin

text \<open>
  The signer's spend policy (\<^verbatim>\<open>piggybank/signer/src/policy.rs\<close>), the operator's brake
  that tightens it (\<^verbatim>\<open>spend_brake.rs\<close>) and how the policy is read from the environment at
  boot.  A policy is a value: every check is a function of it and of what the request asks for.
  The address parsers of the \<^verbatim>\<open>hex\<close>, \<^verbatim>\<open>bs58\<close> and \<^verbatim>\<open>tonlib\<close> crates are
  fields of \<open>address_libs\<close>; a parsed TON address is its raw rendering.
\<close>

section \<open>Answers\<close>

datatype status =
    PermissionDenied string | InvalidArgument string | Internal string | FailedPrecondition string
  | Unavailable string

datatype signer_error = Crypto | Signer_Repository string

fun signer_status :: "signer_error \<Rightarrow> status" where
  "signer_status Crypto = Internal ''internal error''"
| "signer_status (Signer_Repository _) = Internal ''internal error''"

definition from_signer :: "signer_error + 'a \<Rightarrow> status + 'a" where
  "from_signer m = (case m of Inl e \<Rightarrow> Inl (signer_status e) | Inr x \<Rightarrow> Inr x)"

lemma from_signer_Inr [simp]: "from_signer m = Inr x \<longleftrightarrow> m = Inr x"
  by (cases m) (simp_all add: from_signer_def)

section \<open>Addresses\<close>

record address_libs =
  al_hex :: "string \<Rightarrow> string option"
  al_tron :: "string \<Rightarrow> string option"
  al_ton :: "string \<Rightarrow> string option"

definition addresses_agree :: "address_libs \<Rightarrow> network \<Rightarrow> string \<Rightarrow> string \<Rightarrow> bool" where
  "addresses_agree libs n ours theirs =
     (case n of
        Bep20 \<Rightarrow> eq_ignore_ascii_case ours theirs
      | Polygon \<Rightarrow> eq_ignore_ascii_case ours theirs
      | Trc20 \<Rightarrow> ours = theirs
      | Ton \<Rightarrow> (case (al_ton libs ours, al_ton libs theirs) of
                (Some a, Some b) \<Rightarrow> a = b
              | _ \<Rightarrow> False))"

definition stored_rendering :: "address_libs \<Rightarrow> network \<Rightarrow> string \<Rightarrow> string option" where
  "stored_rendering libs n address =
     (case n of
        Bep20 \<Rightarrow> Some (to_ascii_lowercase address)
      | Polygon \<Rightarrow> Some (to_ascii_lowercase address)
      | Trc20 \<Rightarrow> Some address
      | Ton \<Rightarrow> al_ton libs address)"

definition is_address :: "address_libs \<Rightarrow> network \<Rightarrow> string \<Rightarrow> bool" where
  "is_address libs n v =
     (case n of
        Bep20 \<Rightarrow> evm_parse_address (al_hex libs) v \<noteq> None
      | Polygon \<Rightarrow> evm_parse_address (al_hex libs) v \<noteq> None
      | Trc20 \<Rightarrow> al_tron libs v \<noteq> None
      | Ton \<Rightarrow> al_ton libs v \<noteq> None)"

definition listed :: "address_libs \<Rightarrow> string list \<Rightarrow> network \<Rightarrow> string \<Rightarrow> bool" where
  "listed libs xs n address \<longleftrightarrow> list_ex (\<lambda>x. addresses_agree libs n x address) xs"

section \<open>The policy\<close>

definition CANONICAL_PER_USDT :: u128 where
  "CANONICAL_PER_USDT = 1000000000000000000"

definition WEI_PER_GWEI :: u128 where
  "WEI_PER_GWEI = 1000000000"

definition gwei_to_wei :: "u64 \<Rightarrow> u128" where
  "gwei_to_wei gwei = ucast gwei * WEI_PER_GWEI"

definition DEFAULT_MAX_GAS_PRICE_GWEI_BEP20 :: u64 where
  "DEFAULT_MAX_GAS_PRICE_GWEI_BEP20 = 100"

definition DEFAULT_MAX_GAS_PRICE_GWEI_POLYGON :: u64 where
  "DEFAULT_MAX_GAS_PRICE_GWEI_POLYGON = 5000"

definition DEFAULT_MAX_TRANSFER_USDT :: u64 where
  "DEFAULT_MAX_TRANSFER_USDT = 100"

definition DEFAULT_MAX_TREASURY_USDT_PER_HOUR :: u64 where
  "DEFAULT_MAX_TREASURY_USDT_PER_HOUR = 1000"

record native_spend_window =
  nw_bep20_wei :: u128
  nw_polygon_wei :: u128
  nw_trc20_sun :: u128
  nw_ton_nano :: u128

definition native_spend_default :: native_spend_window where
  "native_spend_default = \<lparr>nw_bep20_wei = 1000000000000000000, nw_polygon_wei = 50000000000000000000,
     nw_trc20_sun = 2000000000, nw_ton_nano = 5000000000\<rparr>"

fun native_spend_cap :: "native_spend_window \<Rightarrow> network \<Rightarrow> u128" where
  "native_spend_cap w Bep20 = nw_bep20_wei w"
| "native_spend_cap w Polygon = nw_polygon_wei w"
| "native_spend_cap w Trc20 = nw_trc20_sun w"
| "native_spend_cap w Ton = nw_ton_nano w"

record token_pins =
  tp_bep20 :: string
  tp_polygon :: string
  tp_trc20 :: string

definition token_pins_default :: token_pins where
  "token_pins_default = \<lparr>tp_bep20 = ''0x55d398326f99059fF775485246999027B3197955'',
     tp_polygon = ''0xc2132D05D31c914a87C6611C10748AEb04B58e8F'',
     tp_trc20 = ''TR7NHqjeKQxGTCi8q8ZY4pL8otSzgjLj6t''\<rparr>"

fun token_pinned :: "token_pins \<Rightarrow> network \<Rightarrow> string option" where
  "token_pinned p Bep20 = Some (tp_bep20 p)"
| "token_pinned p Polygon = Some (tp_polygon p)"
| "token_pinned p Trc20 = Some (tp_trc20 p)"
| "token_pinned p Ton = None"

record treasury_native_caps =
  tn_bep20_wei :: "u128 option"
  tn_polygon_wei :: "u128 option"
  tn_trc20_sun :: "u128 option"
  tn_ton_nano :: "u128 option"

fun treasury_native_cap :: "treasury_native_caps \<Rightarrow> network \<Rightarrow> u128 option" where
  "treasury_native_cap c Bep20 = tn_bep20_wei c"
| "treasury_native_cap c Polygon = tn_polygon_wei c"
| "treasury_native_cap c Trc20 = tn_trc20_sun c"
| "treasury_native_cap c Ton = tn_ton_nano c"

definition treasury_native_is_empty :: "treasury_native_caps \<Rightarrow> bool" where
  "treasury_native_is_empty c \<longleftrightarrow>
     c = \<lparr>tn_bep20_wei = None, tn_polygon_wei = None, tn_trc20_sun = None, tn_ton_nano = None\<rparr>"

record fee_budget =
  fb_max_gas_limit :: u64
  fb_max_gas_price_wei_bep20 :: u128
  fb_max_gas_price_wei_polygon :: u128
  fb_max_tron_fee_limit_sun :: u64
  fb_max_ton_msg_value_nano :: u64
  fb_max_ton_forward_nano :: u64

definition fee_budget_default :: fee_budget where
  "fee_budget_default = \<lparr>fb_max_gas_limit = 100000,
     fb_max_gas_price_wei_bep20 = gwei_to_wei DEFAULT_MAX_GAS_PRICE_GWEI_BEP20,
     fb_max_gas_price_wei_polygon = gwei_to_wei DEFAULT_MAX_GAS_PRICE_GWEI_POLYGON,
     fb_max_tron_fee_limit_sun = 100000000, fb_max_ton_msg_value_nano = 100000000,
     fb_max_ton_forward_nano = 50000000\<rparr>"

record gas_topup_caps =
  gt_bep20_wei :: u128
  gt_polygon_wei :: u128
  gt_trc20_sun :: u128
  gt_ton_nano :: u128

definition gas_topup_default :: gas_topup_caps where
  "gas_topup_default = \<lparr>gt_bep20_wei = 50000000000000000, gt_polygon_wei = 2000000000000000000,
     gt_trc20_sun = 50000000, gt_ton_nano = 200000000\<rparr>"

fun gas_topup_cap :: "gas_topup_caps \<Rightarrow> network \<Rightarrow> u128" where
  "gas_topup_cap c Bep20 = gt_bep20_wei c"
| "gas_topup_cap c Polygon = gt_polygon_wei c"
| "gas_topup_cap c Trc20 = gt_trc20_sun c"
| "gas_topup_cap c Ton = gt_ton_nano c"

record signer_policy =
  sp_max_transfer_usdt :: u64
  sp_treasury_usdt_per_hour :: u64
  sp_destination_allowlist :: "string list"
  sp_treasury_native_allowlist :: "string list"
  sp_ton_treasury_jetton_wallet :: "string option"
  sp_fee_budget :: fee_budget
  sp_gas_topup :: gas_topup_caps
  sp_token_pins :: token_pins
  sp_treasury_native :: "treasury_native_caps option"
  sp_native_spend :: native_spend_window
  sp_tron_signing_enabled :: bool

definition signer_policy_default :: signer_policy where
  "signer_policy_default = \<lparr>sp_max_transfer_usdt = DEFAULT_MAX_TRANSFER_USDT,
     sp_treasury_usdt_per_hour = DEFAULT_MAX_TREASURY_USDT_PER_HOUR, sp_destination_allowlist = [],
     sp_treasury_native_allowlist = [], sp_ton_treasury_jetton_wallet = None,
     sp_fee_budget = fee_budget_default, sp_gas_topup = gas_topup_default, sp_token_pins = token_pins_default,
     sp_treasury_native = None, sp_native_spend = native_spend_default, sp_tron_signing_enabled = False\<rparr>"

definition SPEND_WINDOW :: int where
  "SPEND_WINDOW = 60 * 60 * 1000000"

section \<open>The brake\<close>

record native_spend_brake =
  nb_bep20_wei :: "u128 option"
  nb_polygon_wei :: "u128 option"
  nb_trc20_sun :: "u128 option"
  nb_ton_nano :: "u128 option"

fun native_brake_cap :: "native_spend_brake \<Rightarrow> network \<Rightarrow> u128 option" where
  "native_brake_cap b Bep20 = nb_bep20_wei b"
| "native_brake_cap b Polygon = nb_polygon_wei b"
| "native_brake_cap b Trc20 = nb_trc20_sun b"
| "native_brake_cap b Ton = nb_ton_nano b"

record spend_brake =
  sb_halted :: bool
  sb_max_transfer_usdt :: "u64 option"
  sb_max_treasury_usdt_per_hour :: "u64 option"
  sb_native_spend :: native_spend_brake
  sb_reason :: "string option"
  sb_updated_at :: string

definition require_released :: "spend_brake \<Rightarrow> status + unit" where
  "require_released b =
     (if \<not> sb_halted b then Inr ()
      else let reason = (case sb_reason b of Some r \<Rightarrow> '' ('' @ r @ '')'' | None \<Rightarrow> []) in
        Inl (PermissionDenied (''the signer's spend brake is halted'' @ reason @
          '': no signature is issued until an operator releases it at the signer's database'')))"

text \<open>The row as selected, and reading it: a missing or unreadable row is a refusal.\<close>

record brake_row =
  br_halted :: bool
  br_max_transfer_usdt :: "i64 option"
  br_max_treasury_usdt_per_hour :: "i64 option"
  br_bep20 :: "string option"
  br_polygon :: "string option"
  br_trc20 :: "string option"
  br_ton :: "string option"
  br_reason :: "string option"
  br_updated_at :: string

definition parse_usdt_cap :: "string \<Rightarrow> i64 \<Rightarrow> signer_error + u64" where
  "parse_usdt_cap column raw =
     (if sint raw < 0
      then Inl (Signer_Repository (''spend_brake.'' @ column @ '' is not a positive integer: '' @ show_i64 raw))
      else Inr raw)"

definition parse_native_cap :: "network \<Rightarrow> string \<Rightarrow> signer_error + u128" where
  "parse_native_cap n raw =
     ok_or (parse_u128 raw) (Signer_Repository (''spend_brake native ceiling for '' @ network_str n @
       '' is not a u128: '' @ debug_str raw))"

definition transpose_opt :: "('a \<Rightarrow> 'e + 'b) \<Rightarrow> 'a option \<Rightarrow> 'e + 'b option" where
  "transpose_opt f x = (case x of None \<Rightarrow> Inr None | Some a \<Rightarrow> rmap Some (f a))"

definition read_brake :: "brake_row option \<Rightarrow> signer_error + spend_brake" where
  "read_brake row =
     (case row of
        None \<Rightarrow> Inl (Signer_Repository (''spend_brake row is missing '' @ em_dash @ '' refusing to sign''))
      | Some r \<Rightarrow>
          rbind (transpose_opt (parse_native_cap Bep20) (br_bep20 r)) (\<lambda>bep20.
          rbind (transpose_opt (parse_native_cap Polygon) (br_polygon r)) (\<lambda>polygon.
          rbind (transpose_opt (parse_native_cap Trc20) (br_trc20 r)) (\<lambda>trc20.
          rbind (transpose_opt (parse_native_cap Ton) (br_ton r)) (\<lambda>ton.
          rbind (transpose_opt (parse_usdt_cap ''max_transfer_usdt'') (br_max_transfer_usdt r)) (\<lambda>transfer.
          rbind (transpose_opt (parse_usdt_cap ''max_treasury_usdt_per_hour'') (br_max_treasury_usdt_per_hour r)) (\<lambda>hour.
          Inr \<lparr>sb_halted = br_halted r, sb_max_transfer_usdt = transfer, sb_max_treasury_usdt_per_hour = hour,
            sb_native_spend = \<lparr>nb_bep20_wei = bep20, nb_polygon_wei = polygon, nb_trc20_sun = trc20, nb_ton_nano = ton\<rparr>,
            sb_reason = br_reason r, sb_updated_at = br_updated_at r\<rparr>)))))))"

definition min_cap :: "'a::linorder option \<Rightarrow> 'a \<Rightarrow> 'a" where
  "min_cap cap env = (case cap of None \<Rightarrow> env | Some c \<Rightarrow> min env c)"

definition tightened :: "signer_policy \<Rightarrow> spend_brake \<Rightarrow> signer_policy" where
  "tightened p b = p\<lparr>
     sp_max_transfer_usdt := min_cap (sb_max_transfer_usdt b) (sp_max_transfer_usdt p),
     sp_treasury_usdt_per_hour := min_cap (sb_max_treasury_usdt_per_hour b) (sp_treasury_usdt_per_hour p),
     sp_native_spend := \<lparr>
       nw_bep20_wei = min_cap (native_brake_cap (sb_native_spend b) Bep20) (nw_bep20_wei (sp_native_spend p)),
       nw_polygon_wei = min_cap (native_brake_cap (sb_native_spend b) Polygon) (nw_polygon_wei (sp_native_spend p)),
       nw_trc20_sun = min_cap (native_brake_cap (sb_native_spend b) Trc20) (nw_trc20_sun (sp_native_spend p)),
       nw_ton_nano = min_cap (native_brake_cap (sb_native_spend b) Ton) (nw_ton_nano (sp_native_spend p))\<rparr>\<rparr>"

text \<open>The watch that logs a change of the row once.\<close>

datatype observation = First | Unchanged | Changed (changed_previous: spend_brake)

definition observe :: "spend_brake option \<Rightarrow> spend_brake \<Rightarrow> observation \<times> spend_brake option" where
  "observe seen now =
     (case seen of
        None \<Rightarrow> First
      | Some previous \<Rightarrow> if previous = now then Unchanged else Changed previous, Some now)"

section \<open>Checks\<close>

definition times_sign :: string where
  "times_sign = [CHR 0xC3, CHR 0x97]"

definition deny_over :: "network \<Rightarrow> string \<Rightarrow> string \<Rightarrow> u128 \<Rightarrow> u128 \<Rightarrow> status + unit" where
  "deny_over n control field v cap =
     (if cap < v
      then Inl (PermissionDenied (field @ '' '' @ show_u128 v @ '' exceeds the signer's '' @ control @
        '' cap of '' @ show_u128 cap @ '' on '' @ network_str n))
      else Inr ())"

datatype fee_quote =
    Evm_Fee (fq_gas_price: u128) (fq_gas_limit: u64)
  | Tron_Fee (fq_fee_limit: i64)
  | Ton_Fee (fq_msg_value: u64) (fq_forward: u64)

definition max_gas_price_wei :: "fee_budget \<Rightarrow> network \<Rightarrow> status + u128" where
  "max_gas_price_wei b n =
     (case n of
        Bep20 \<Rightarrow> Inr (fb_max_gas_price_wei_bep20 b)
      | Polygon \<Rightarrow> Inr (fb_max_gas_price_wei_polygon b)
      | _ \<Rightarrow> Inl (Internal (''an EVM fee quote was checked against '' @ network_str n)))"

fun fee_budget_check :: "fee_budget \<Rightarrow> network \<Rightarrow> fee_quote \<Rightarrow> status + unit" where
  "fee_budget_check b n (Evm_Fee gas_price gas_limit) =
     rbind (ok_or (checked_mul gas_price (ucast gas_limit))
       (PermissionDenied (''gas_price '' @ show_u128 gas_price @ '' '' @ times_sign @ '' gas_limit '' @
          show_nat (unat gas_limit) @ '' overflows the signer's fee budget on '' @ network_str n))) (\<lambda>_.
     rbind (deny_over n ''fee budget'' ''gas_limit'' (ucast gas_limit) (ucast (fb_max_gas_limit b))) (\<lambda>_.
     rbind (max_gas_price_wei b n) (\<lambda>cap.
     deny_over n ''fee budget'' ''gas_price'' gas_price cap)))"
| "fee_budget_check b n (Tron_Fee fee_limit) =
     rbind (ok_or (u128_try_from_i64 fee_limit) (InvalidArgument ''fee_limit must not be negative'')) (\<lambda>v.
     deny_over n ''fee budget'' ''fee_limit'' v (ucast (fb_max_tron_fee_limit_sun b)))"
| "fee_budget_check b n (Ton_Fee msg_value forward) =
     rbind (deny_over n ''fee budget'' ''msg_value'' (ucast msg_value) (ucast (fb_max_ton_msg_value_nano b))) (\<lambda>_.
     rbind (deny_over n ''fee budget'' ''forward_ton_amount'' (ucast forward) (ucast (fb_max_ton_forward_nano b))) (\<lambda>_.
     if msg_value < forward
     then Inl (PermissionDenied (''forward_ton_amount '' @ show_nat (unat forward) @ '' exceeds msg_value '' @
       show_nat (unat msg_value) @ '' it is paid out of on '' @ network_str n))
     else Inr ()))"

definition saturating_mul :: "u128 \<Rightarrow> u128 \<Rightarrow> u128" where
  "saturating_mul a b = (case checked_mul a b of Some p \<Rightarrow> p | None \<Rightarrow> - 1)"

definition usdt_cap_onchain :: "network \<Rightarrow> u64 \<Rightarrow> status + u128" where
  "usdt_cap_onchain n whole =
     (case to_onchain (Usdt (saturating_mul (ucast whole) CANONICAL_PER_USDT)) n of
        Inl _ \<Rightarrow> Inl (Internal ''signer cap is not representable on this network'')
      | Inr cap \<Rightarrow> Inr cap)"

definition evm_native_spend :: "network \<Rightarrow> u128 \<Rightarrow> u64 \<Rightarrow> u128 \<Rightarrow> status + u128" where
  "evm_native_spend n gas_price gas_limit v =
     ok_or (Option.bind (checked_mul gas_price (ucast gas_limit)) (\<lambda>fee. checked_add fee v))
       (PermissionDenied (''native spend of the transaction overflows the signer's window on '' @ network_str n))"

datatype jetton_pin_source = Operator | FirstUse

definition check_jetton_wallet_pin :: "address_libs \<Rightarrow> string \<Rightarrow> string \<Rightarrow> jetton_pin_source \<Rightarrow> status + unit" where
  "check_jetton_wallet_pin libs pinned our_jetton_wallet source =
     (if addresses_agree libs Ton pinned our_jetton_wallet then Inr ()
      else Inl (PermissionDenied (case source of
          Operator \<Rightarrow> ''our_jetton_wallet is not the treasury's jetton wallet pinned by SIGNER_TON_TREASURY_JETTON_WALLET''
        | FirstUse \<Rightarrow> ''our_jetton_wallet is not the jetton wallet this wallet pinned on first use'')))"

definition refuse_deposit_native :: "network \<Rightarrow> status" where
  "refuse_deposit_native n = PermissionDenied (''a deposit wallet signs no native transfers on '' @ network_str n @
     '' '' @ em_dash @ '' only USDT sweeps into the treasury'')"

definition refuse_gas_station_token :: "network \<Rightarrow> status" where
  "refuse_gas_station_token n = PermissionDenied (''the gas station signs native top-ups only on '' @ network_str n @
     '' '' @ em_dash @ '' never a token transfer'')"

definition check_tron_signing :: "signer_policy \<Rightarrow> status + unit" where
  "check_tron_signing p =
     (if sp_tron_signing_enabled p then Inr ()
      else Inl (PermissionDenied
        ''Tron signing is disabled on this signer (SIGNER_TRON_SIGNING_ENABLED) while the rail is frozen''))"

definition check_native_spend_window :: "signer_policy \<Rightarrow> network \<Rightarrow> u128 \<Rightarrow> u128 \<Rightarrow> status + unit" where
  "check_native_spend_window p n spent spend =
     (let cap = native_spend_cap (sp_native_spend p) n in
      rbind (ok_or (checked_add spent spend)
        (PermissionDenied (''native spend '' @ show_u128 spend @ '' overflows the signer's window on '' @ network_str n))) (\<lambda>t.
      if cap < t
      then Inl (PermissionDenied (''native spend '' @ show_u128 spend @ '' would bring this wallet's last hour on '' @
        network_str n @ '' to '' @ show_u128 t @ '', over the signer's native spend window cap of '' @ show_u128 cap))
      else Inr ()))"

definition check_treasury_usdt_window :: "signer_policy \<Rightarrow> network \<Rightarrow> u128 \<Rightarrow> u128 \<Rightarrow> status + unit" where
  "check_treasury_usdt_window p n spent spend =
     rbind (usdt_cap_onchain n (sp_treasury_usdt_per_hour p)) (\<lambda>cap.
     rbind (ok_or (checked_add spent spend)
       (PermissionDenied (''USDT spend '' @ show_u128 spend @ '' overflows the signer's window on '' @ network_str n))) (\<lambda>t.
     if cap < t
     then Inl (PermissionDenied (''treasury transfer of '' @ show_u128 spend @
       '' would bring the treasury's last hour on '' @ network_str n @ '' to '' @ show_u128 t @
       '', over the signer's treasury USDT window cap of '' @ show_nat (unat (sp_treasury_usdt_per_hour p)) @
       '' USDT ('' @ show_u128 cap @ '' on '' @ network_str n @ '')''))
     else Inr ()))"

definition check_fee_budget :: "signer_policy \<Rightarrow> network \<Rightarrow> fee_quote \<Rightarrow> status + unit" where
  "check_fee_budget p n quote = fee_budget_check (sp_fee_budget p) n quote"

definition allowlisted :: "address_libs \<Rightarrow> signer_policy \<Rightarrow> network \<Rightarrow> string \<Rightarrow> bool" where
  "allowlisted libs p n address = listed libs (sp_destination_allowlist p) n address"

definition check_allowlist :: "address_libs \<Rightarrow> signer_policy \<Rightarrow> network \<Rightarrow> string \<Rightarrow> status + unit" where
  "check_allowlist libs p n to =
     (if sp_destination_allowlist p \<noteq> [] \<and> \<not> allowlisted libs p n to
      then Inl (PermissionDenied ''treasury transfer destination is not on the signer's allowlist'')
      else Inr ())"

definition check_treasury_transfer ::
  "address_libs \<Rightarrow> signer_policy \<Rightarrow> network \<Rightarrow> string option \<Rightarrow> string \<Rightarrow> u128 \<Rightarrow> status + unit" where
  "check_treasury_transfer libs p n token_contract to amount =
     rbind (case (token_pinned (sp_token_pins p) n, token_contract) of
          (Some pinned, Some token) \<Rightarrow>
            if addresses_agree libs n pinned token then Inr ()
            else Inl (PermissionDenied (''token_contract is not the signer's pinned USDT contract on '' @ network_str n))
        | (None, None) \<Rightarrow> Inr ()
        | _ \<Rightarrow> Inl (Internal (''token pin and wire contract disagree on presence for '' @ network_str n))) (\<lambda>_.
     rbind (usdt_cap_onchain n (sp_max_transfer_usdt p)) (\<lambda>cap.
     if cap < amount
     then Inl (PermissionDenied (''treasury transfer of '' @ show_u128 amount @
       '' exceeds the signer's per-transfer cap of '' @ show_nat (unat (sp_max_transfer_usdt p)) @ '' USDT ('' @
       show_u128 cap @ '' on '' @ network_str n @ '')''))
     else check_allowlist libs p n to))"

definition check_treasury_native_transfer ::
  "address_libs \<Rightarrow> signer_policy \<Rightarrow> network \<Rightarrow> string \<Rightarrow> u128 \<Rightarrow> status + unit" where
  "check_treasury_native_transfer libs p n to amount =
     (case sp_treasury_native p of
        None \<Rightarrow> Inl (PermissionDenied (''native transfers from the treasury are disabled on '' @ network_str n @
                 '' (SIGNER_ALLOW_TREASURY_NATIVE)''))
      | Some caps \<Rightarrow>
          (case treasury_native_cap caps n of
             None \<Rightarrow> Inl (PermissionDenied (''native transfers from the treasury have no ceiling on '' @ network_str n @
                 '' (SIGNER_MAX_TREASURY_NATIVE_*)''))
           | Some cap \<Rightarrow>
               if \<not> listed libs (sp_treasury_native_allowlist p) n to
               then Inl (PermissionDenied
                 ''treasury native transfer destination is not on the signer's treasury native allowlist'')
               else deny_over n ''treasury native'' ''amount'' amount cap))"

definition check_treasury_response_destination ::
  "address_libs \<Rightarrow> signer_policy \<Rightarrow> string \<Rightarrow> string \<Rightarrow> status + unit" where
  "check_treasury_response_destination libs p own response =
     (if addresses_agree libs Ton own response \<or> allowlisted libs p Ton response then Inr ()
      else Inl (PermissionDenied
        ''treasury transfer response_destination must be the sending wallet or on the signer's allowlist''))"

definition check_sweep_destination :: "address_libs \<Rightarrow> network \<Rightarrow> string option \<Rightarrow> string \<Rightarrow> status + unit" where
  "check_sweep_destination libs n treasury to =
     (case treasury of
        Some t \<Rightarrow>
          if addresses_agree libs n t to then Inr ()
          else Inl (PermissionDenied (''a deposit wallet may only sweep to the treasury on '' @ network_str n @
            ''; to_address is not the treasury''))
      | None \<Rightarrow> Inl (PermissionDenied (''the treasury is not provisioned on '' @ network_str n @ '' '' @ em_dash @
            '' nothing to sweep to'')))"

definition check_sweep_response_destination ::
  "address_libs \<Rightarrow> string \<Rightarrow> string option \<Rightarrow> string option \<Rightarrow> string \<Rightarrow> status + unit" where
  "check_sweep_response_destination libs own gas_station treasury response =
     (let ours = own # (case gas_station of None \<Rightarrow> [] | Some g \<Rightarrow> [g]) @ (case treasury of None \<Rightarrow> [] | Some t \<Rightarrow> [t]) in
      if list_ex (\<lambda>a. addresses_agree libs Ton a response) ours then Inr ()
      else Inl (PermissionDenied
        ''sweep response_destination must be the sending wallet, the gas station or the treasury''))"

definition check_gas_topup ::
  "address_libs \<Rightarrow> signer_policy \<Rightarrow> network \<Rightarrow> string \<Rightarrow> string option \<Rightarrow> u128 \<Rightarrow> status + unit" where
  "check_gas_topup libs p n to held amount =
     (let refused = Inl (PermissionDenied (''gas top-up destination is not an address this signer holds a key for on '' @
            network_str n)) in
      rbind (case held of
          Some h \<Rightarrow> if addresses_agree libs n h to then Inr () else refused
        | None \<Rightarrow> refused) (\<lambda>_.
      deny_over n ''gas top-up'' ''amount'' amount (gas_topup_cap (sp_gas_topup p) n)))"

section \<open>Reading the policy from the environment\<close>

text \<open>
  \<open>lookup\<close> is the environment.  An empty variable is an unset one; \<^verbatim>\<open>T::default()\<close>
  of an unsigned integer is zero.  Errors are the boot's messages.
\<close>

type_synonym lookup = "string \<Rightarrow> string option"

definition nonempty :: "string option \<Rightarrow> string option" where
  "nonempty x = (case x of Some raw \<Rightarrow> if raw = [] then None else Some raw | None \<Rightarrow> None)"

definition env_cap_opt :: "(string \<Rightarrow> 'a::zero option) \<Rightarrow> lookup \<Rightarrow> string \<Rightarrow> string + 'a option" where
  "env_cap_opt parse lookup name =
     (case nonempty (lookup name) of
        None \<Rightarrow> Inr None
      | Some raw \<Rightarrow>
          (case parse (trim raw) of
             None \<Rightarrow> Inl (name @ '' must be a positive whole number, got '' @ debug_str raw)
           | Some v \<Rightarrow>
               if v = 0 then Inl (name @ '' must be positive '' @ em_dash @ '' this control cannot be disabled'')
               else Inr (Some v)))"

definition env_cap :: "(string \<Rightarrow> 'a::zero option) \<Rightarrow> lookup \<Rightarrow> string \<Rightarrow> 'a \<Rightarrow> string + 'a" where
  "env_cap parse lookup name dflt =
     rmap (\<lambda>v. case v of None \<Rightarrow> dflt | Some v \<Rightarrow> v) (env_cap_opt parse lookup name)"

definition env_list :: "lookup \<Rightarrow> string \<Rightarrow> string list" where
  "env_list lookup name =
     (case lookup name of
        None \<Rightarrow> []
      | Some raw \<Rightarrow> filter (\<lambda>s. s \<noteq> []) (map trim (split_char CHR '','' raw)))"

definition env_flag :: "lookup \<Rightarrow> string \<Rightarrow> string + bool" where
  "env_flag lookup name =
     (case nonempty (map_option (\<lambda>raw. to_ascii_lowercase (trim raw)) (lookup name)) of
        Some raw \<Rightarrow>
          if raw = ''true'' then Inr True
          else if raw = ''false'' then Inr False
          else Inl (name @ '' must be `true` or `false`, got '' @ debug_str raw)
      | None \<Rightarrow> Inr False)"

definition env_address :: "address_libs \<Rightarrow> lookup \<Rightarrow> string \<Rightarrow> network \<Rightarrow> string \<Rightarrow> string + string" where
  "env_address libs lookup name n dflt =
     (case nonempty (map_option trim (lookup name)) of
        Some raw \<Rightarrow>
          if is_address libs n raw then Inr raw
          else Inl (name @ '' is not a '' @ network_str n @ '' address: '' @ debug_str raw)
      | None \<Rightarrow> Inr dflt)"

definition native_spend_from_lookup :: "lookup \<Rightarrow> string + native_spend_window" where
  "native_spend_from_lookup lookup =
     rbind (env_cap parse_u128 lookup ''SIGNER_MAX_NATIVE_SPEND_PER_HOUR_BEP20'' (nw_bep20_wei native_spend_default)) (\<lambda>a.
     rbind (env_cap parse_u128 lookup ''SIGNER_MAX_NATIVE_SPEND_PER_HOUR_POLYGON'' (nw_polygon_wei native_spend_default)) (\<lambda>b.
     rbind (env_cap parse_u128 lookup ''SIGNER_MAX_NATIVE_SPEND_PER_HOUR_TRC20'' (nw_trc20_sun native_spend_default)) (\<lambda>c.
     rbind (env_cap parse_u128 lookup ''SIGNER_MAX_NATIVE_SPEND_PER_HOUR_TON'' (nw_ton_nano native_spend_default)) (\<lambda>d.
     Inr \<lparr>nw_bep20_wei = a, nw_polygon_wei = b, nw_trc20_sun = c, nw_ton_nano = d\<rparr>))))"

definition token_pins_from_lookup :: "address_libs \<Rightarrow> lookup \<Rightarrow> string + token_pins" where
  "token_pins_from_lookup libs lookup =
     rbind (env_address libs lookup ''SIGNER_USDT_CONTRACT_BEP20'' Bep20 (tp_bep20 token_pins_default)) (\<lambda>a.
     rbind (env_address libs lookup ''SIGNER_USDT_CONTRACT_POLYGON'' Polygon (tp_polygon token_pins_default)) (\<lambda>b.
     rbind (env_address libs lookup ''SIGNER_USDT_CONTRACT_TRC20'' Trc20 (tp_trc20 token_pins_default)) (\<lambda>c.
     Inr \<lparr>tp_bep20 = a, tp_polygon = b, tp_trc20 = c\<rparr>)))"

definition treasury_native_from_lookup :: "lookup \<Rightarrow> string + treasury_native_caps" where
  "treasury_native_from_lookup lookup =
     rbind (env_cap_opt parse_u128 lookup ''SIGNER_MAX_TREASURY_NATIVE_BEP20'') (\<lambda>a.
     rbind (env_cap_opt parse_u128 lookup ''SIGNER_MAX_TREASURY_NATIVE_POLYGON'') (\<lambda>b.
     rbind (env_cap_opt parse_u128 lookup ''SIGNER_MAX_TREASURY_NATIVE_TRC20'') (\<lambda>c.
     rbind (env_cap_opt parse_u128 lookup ''SIGNER_MAX_TREASURY_NATIVE_TON'') (\<lambda>d.
     Inr \<lparr>tn_bep20_wei = a, tn_polygon_wei = b, tn_trc20_sun = c, tn_ton_nano = d\<rparr>))))"

definition gas_topup_from_lookup :: "lookup \<Rightarrow> string + gas_topup_caps" where
  "gas_topup_from_lookup lookup =
     rbind (env_cap parse_u128 lookup ''SIGNER_MAX_GAS_TOPUP_BEP20'' (gt_bep20_wei gas_topup_default)) (\<lambda>a.
     rbind (env_cap parse_u128 lookup ''SIGNER_MAX_GAS_TOPUP_POLYGON'' (gt_polygon_wei gas_topup_default)) (\<lambda>b.
     rbind (env_cap parse_u128 lookup ''SIGNER_MAX_GAS_TOPUP_TRC20'' (gt_trc20_sun gas_topup_default)) (\<lambda>c.
     rbind (env_cap parse_u128 lookup ''SIGNER_MAX_GAS_TOPUP_TON'' (gt_ton_nano gas_topup_default)) (\<lambda>d.
     Inr \<lparr>gt_bep20_wei = a, gt_polygon_wei = b, gt_trc20_sun = c, gt_ton_nano = d\<rparr>))))"

definition fee_budget_from_lookup :: "lookup \<Rightarrow> string + fee_budget" where
  "fee_budget_from_lookup lookup =
     rbind (env_cap parse_u64 lookup ''SIGNER_MAX_GAS_LIMIT'' (fb_max_gas_limit fee_budget_default)) (\<lambda>a.
     rbind (env_cap parse_u64 lookup ''SIGNER_MAX_GAS_PRICE_GWEI_BEP20'' DEFAULT_MAX_GAS_PRICE_GWEI_BEP20) (\<lambda>b.
     rbind (env_cap parse_u64 lookup ''SIGNER_MAX_GAS_PRICE_GWEI_POLYGON'' DEFAULT_MAX_GAS_PRICE_GWEI_POLYGON) (\<lambda>c.
     rbind (env_cap parse_u64 lookup ''SIGNER_MAX_TRON_FEE_LIMIT_SUN'' (fb_max_tron_fee_limit_sun fee_budget_default)) (\<lambda>d.
     rbind (env_cap parse_u64 lookup ''SIGNER_MAX_TON_MSG_VALUE_NANO'' (fb_max_ton_msg_value_nano fee_budget_default)) (\<lambda>e.
     rbind (env_cap parse_u64 lookup ''SIGNER_MAX_TON_FORWARD_NANO'' (fb_max_ton_forward_nano fee_budget_default)) (\<lambda>f.
     Inr \<lparr>fb_max_gas_limit = a, fb_max_gas_price_wei_bep20 = gwei_to_wei b,
       fb_max_gas_price_wei_polygon = gwei_to_wei c, fb_max_tron_fee_limit_sun = d,
       fb_max_ton_msg_value_nano = e, fb_max_ton_forward_nano = f\<rparr>))))))"

definition policy_from_lookup :: "address_libs \<Rightarrow> lookup \<Rightarrow> string + signer_policy" where
  "policy_from_lookup libs lookup =
     rbind (env_cap parse_u64 lookup ''SIGNER_MAX_TRANSFER_USDT'' DEFAULT_MAX_TRANSFER_USDT) (\<lambda>transfer.
     rbind (env_cap parse_u64 lookup ''SIGNER_MAX_TREASURY_USDT_PER_HOUR'' DEFAULT_MAX_TREASURY_USDT_PER_HOUR) (\<lambda>hour.
     let destinations = env_list lookup ''SIGNER_DESTINATION_ALLOWLIST'';
         natives = env_list lookup ''SIGNER_TREASURY_NATIVE_ALLOWLIST''
     in
     rbind (case nonempty (map_option trim (lookup ''SIGNER_TON_TREASURY_JETTON_WALLET'')) of
          Some raw \<Rightarrow>
            if al_ton libs raw \<noteq> None then Inr (Some raw)
            else Inl (''SIGNER_TON_TREASURY_JETTON_WALLET is not a TON address: '' @ debug_str raw)
        | None \<Rightarrow> Inr None) (\<lambda>jetton.
     rbind (fee_budget_from_lookup lookup) (\<lambda>fees.
     rbind (gas_topup_from_lookup lookup) (\<lambda>topup.
     rbind (token_pins_from_lookup libs lookup) (\<lambda>pins.
     rbind (rbind (env_flag lookup ''SIGNER_ALLOW_TREASURY_NATIVE'') (\<lambda>allow.
          if allow then
            if natives = []
            then Inl ''SIGNER_ALLOW_TREASURY_NATIVE=true requires a non-empty SIGNER_TREASURY_NATIVE_ALLOWLIST''
            else rbind (treasury_native_from_lookup lookup) (\<lambda>caps.
              if treasury_native_is_empty caps
              then Inl ''SIGNER_ALLOW_TREASURY_NATIVE=true requires at least one SIGNER_MAX_TREASURY_NATIVE_{BEP20,POLYGON,TRC20,TON} ceiling''
              else Inr (Some caps))
          else Inr None)) (\<lambda>treasury.
     rbind (native_spend_from_lookup lookup) (\<lambda>spend.
     rbind (env_flag lookup ''SIGNER_TRON_SIGNING_ENABLED'') (\<lambda>tron.
     Inr \<lparr>sp_max_transfer_usdt = transfer, sp_treasury_usdt_per_hour = hour,
       sp_destination_allowlist = destinations, sp_treasury_native_allowlist = natives,
       sp_ton_treasury_jetton_wallet = jetton, sp_fee_budget = fees, sp_gas_topup = topup, sp_token_pins = pins,
       sp_treasury_native = treasury, sp_native_spend = spend, sp_tron_signing_enabled = tron\<rparr>)))))))))"

section \<open>What the checks let through\<close>

lemma deny_over_Inr [simp]: "deny_over n c f v cap = Inr u \<longleftrightarrow> v \<le> cap"
  by (auto simp: deny_over_def word_less_nat_alt word_le_nat_alt)

lemma unat_ucast_u64 [simp]: "unat (ucast (x :: u64) :: u128) = unat x"
  using unsigned_less [where 'a = nat, of x] by (simp add: unsigned_ucast_eq take_bit_eq_mod)

lemma usdt_cap_onchain_val:
  "usdt_cap_onchain n whole = Inr cap \<longleftrightarrow> unat cap = unat whole * 10 ^ onchain_decimals n"
proof -
  have w: "unat whole < 2 ^ 64" using unsigned_less [where 'a = nat, of whole] by simp
  have small: "unat whole * 10 ^ 18 < 2 ^ 128"
  proof -
    have "unat whole * 10 ^ 18 < 2 ^ 64 * 10 ^ 18" using w by simp
    also have "\<dots> < (2 ^ 128 :: nat)" by simp
    finally show ?thesis .
  qed
  have units: "unat (saturating_mul (ucast whole) CANONICAL_PER_USDT) = unat whole * 10 ^ 18"
    using small by (auto simp: saturating_mul_def nat_arith CANONICAL_PER_USDT_def split: option.splits)
  have "usdt_cap_onchain n whole = Inr cap \<longleftrightarrow>
      to_onchain (Usdt (saturating_mul (ucast whole) CANONICAL_PER_USDT)) n = Inr cap"
    by (simp add: usdt_cap_onchain_def split: sum.splits)
  also have "\<dots> \<longleftrightarrow> unat whole * 10 ^ 18 = unat cap * 10 ^ (18 - onchain_decimals n)"
    by (simp add: to_onchain_iff units)
  also have "\<dots> \<longleftrightarrow> unat cap = unat whole * 10 ^ onchain_decimals n" by (cases n) auto
  finally show ?thesis .
qed

lemma usdt_cap_onchain_some: "\<exists>cap. usdt_cap_onchain n whole = Inr cap"
proof -
  have "unat whole * 10 ^ onchain_decimals n < 2 ^ 64 * 10 ^ 18"
    using unsigned_less [where 'a = nat, of whole] by (intro mult_less_le_imp_less) (cases n; simp)+
  then have "unat whole * 10 ^ onchain_decimals n < 2 ^ LENGTH(128)" by (rule less_trans) simp
  then have "usdt_cap_onchain n whole = Inr (word_of_nat (unat whole * 10 ^ onchain_decimals n))"
    by (simp add: usdt_cap_onchain_val unat_of_nat_fits del: of_nat_mult)
  then show ?thesis ..
qed

lemma min_cap_le: "min_cap cap env \<le> env" "cap = Some c \<Longrightarrow> min_cap cap env \<le> c"
  by (simp_all add: min_cap_def split: option.splits)

lemma tightened_fields [simp]:
  "sp_destination_allowlist (tightened p b) = sp_destination_allowlist p"
  "sp_treasury_native_allowlist (tightened p b) = sp_treasury_native_allowlist p"
  "sp_ton_treasury_jetton_wallet (tightened p b) = sp_ton_treasury_jetton_wallet p"
  "sp_fee_budget (tightened p b) = sp_fee_budget p" "sp_gas_topup (tightened p b) = sp_gas_topup p"
  "sp_token_pins (tightened p b) = sp_token_pins p" "sp_treasury_native (tightened p b) = sp_treasury_native p"
  "sp_tron_signing_enabled (tightened p b) = sp_tron_signing_enabled p"
  "sp_max_transfer_usdt (tightened p b) = min_cap (sb_max_transfer_usdt b) (sp_max_transfer_usdt p)"
  "sp_treasury_usdt_per_hour (tightened p b) = min_cap (sb_max_treasury_usdt_per_hour b) (sp_treasury_usdt_per_hour p)"
  by (simp_all add: tightened_def)

lemma tightened_native [simp]:
  "native_spend_cap (sp_native_spend (tightened p b)) n =
     min_cap (native_brake_cap (sb_native_spend b) n) (native_spend_cap (sp_native_spend p) n)"
  by (cases n) (simp_all add: tightened_def)

lemma check_native_window_Inr:
  "check_native_spend_window p n spent spend = Inr u \<longleftrightarrow>
     unat spent + unat spend \<le> unat (native_spend_cap (sp_native_spend p) n)"
  using unat_lt128 [of "native_spend_cap (sp_native_spend p) n"]
  by (auto simp: check_native_spend_window_def Let_def result_iffs word_less_nat_alt checked_add_def
      unat_add_no_wrap ok_or_def split: if_splits)

lemma check_usdt_window_Inr:
  "check_treasury_usdt_window p n spent spend = Inr u \<longleftrightarrow>
     unat spent + unat spend \<le> unat (sp_treasury_usdt_per_hour p) * 10 ^ onchain_decimals n"
proof -
  obtain cap where cap: "usdt_cap_onchain n (sp_treasury_usdt_per_hour p) = Inr cap"
    using usdt_cap_onchain_some by blast
  then have "unat cap = unat (sp_treasury_usdt_per_hour p) * 10 ^ onchain_decimals n" by (simp add: usdt_cap_onchain_val)
  then show ?thesis
    using cap unat_lt128 [of cap]
    by (auto simp: check_treasury_usdt_window_def result_iffs word_less_nat_alt checked_add_def ok_or_def
        unat_add_no_wrap split: if_splits)
qed

lemma check_treasury_transfer_Inr:
  "check_treasury_transfer libs p n token to amount = Inr u \<longleftrightarrow>
     (case token_pinned (sp_token_pins p) n of
        Some pinned \<Rightarrow> (\<exists>t. token = Some t \<and> addresses_agree libs n pinned t)
      | None \<Rightarrow> token = None) \<and>
     unat amount \<le> unat (sp_max_transfer_usdt p) * 10 ^ onchain_decimals n \<and>
     (sp_destination_allowlist p \<noteq> [] \<longrightarrow> listed libs (sp_destination_allowlist p) n to)"
proof -
  obtain cap where cap: "usdt_cap_onchain n (sp_max_transfer_usdt p) = Inr cap" using usdt_cap_onchain_some by blast
  then have "unat cap = unat (sp_max_transfer_usdt p) * 10 ^ onchain_decimals n" by (simp add: usdt_cap_onchain_val)
  then show ?thesis
    using cap
    by (auto simp: check_treasury_transfer_def result_iffs word_less_nat_alt check_allowlist_def allowlisted_def
        split: option.splits if_splits)
qed

end
