(* ===== verification/SignerBoot.thy ===== *)
theory SignerBoot
  imports SignerPolicy
begin

text \<open>
  What a policy that boots satisfies: no ceiling it reads can be switched off, and a treasury that
  may send native coin has both a list of destinations and a ceiling.
\<close>

lemma env_cap_opt_Inr: "env_cap_opt parse lookup name = Inr (Some v) \<Longrightarrow> v \<noteq> 0"
  by (auto simp: env_cap_opt_def split: option.splits if_splits)

lemma env_cap_Inr: "env_cap parse lookup name dflt = Inr v \<Longrightarrow> dflt \<noteq> 0 \<Longrightarrow> v \<noteq> 0"
  by (auto simp: env_cap_def result_iffs dest: env_cap_opt_Inr split: option.splits)

lemma env_address_Inr: "env_address libs lookup name n dflt = Inr v \<Longrightarrow> v = dflt \<or> is_address libs n v"
  by (auto simp: env_address_def split: option.splits if_splits)

lemma gwei_to_wei_pos: "gwei \<noteq> 0 \<Longrightarrow> gwei_to_wei gwei \<noteq> 0"
proof -
  assume "gwei \<noteq> 0"
  moreover have "unat (gwei_to_wei gwei) = unat gwei * 1000000000"
  proof -
    have "unat gwei * 1000000000 < 2 ^ 64 * 1000000000"
      using unsigned_less [where 'a = nat, of gwei] by simp
    also have "\<dots> < (2 ^ 128 :: nat)" by simp
    finally show ?thesis
      by (simp add: gwei_to_wei_def WEI_PER_GWEI_def unat_word_ariths(2) mod_less)
  qed
  ultimately show "gwei_to_wei gwei \<noteq> 0" by (metis mult_eq_0_iff unat_0_iff unsigned_0 zero_neq_numeral)
qed

lemma native_spend_boot: "native_spend_from_lookup lookup = Inr w \<Longrightarrow> native_spend_cap w n \<noteq> 0"
  by (cases n) (auto simp: native_spend_from_lookup_def result_iffs native_spend_default_def dest!: env_cap_Inr)

lemma gas_topup_boot: "gas_topup_from_lookup lookup = Inr c \<Longrightarrow> gas_topup_cap c n \<noteq> 0"
  by (cases n) (auto simp: gas_topup_from_lookup_def result_iffs gas_topup_default_def dest!: env_cap_Inr)

lemma treasury_native_boot:
  "treasury_native_from_lookup lookup = Inr c \<Longrightarrow> treasury_native_cap c n = Some v \<Longrightarrow> v \<noteq> 0"
  by (cases n) (auto simp: treasury_native_from_lookup_def result_iffs dest!: env_cap_opt_Inr)

lemma treasury_native_some: "\<not> treasury_native_is_empty c \<Longrightarrow> \<exists>n v. treasury_native_cap c n = Some v"
proof (rule ccontr)
  assume "\<nexists>n v. treasury_native_cap c n = Some v"
  then have "treasury_native_cap c n = None" for n by simp
  from this [of Bep20] this [of Polygon] this [of Trc20] this [of Ton] have "treasury_native_is_empty c"
    by (simp add: treasury_native_is_empty_def)
  moreover assume "\<not> treasury_native_is_empty c"
  ultimately show False by simp
qed

lemma token_pins_boot:
  "token_pins_from_lookup libs lookup = Inr p \<Longrightarrow> token_pinned p n = Some c \<Longrightarrow>
     token_pinned token_pins_default n = Some c \<or> is_address libs n c"
  by (cases n) (auto simp: token_pins_from_lookup_def result_iffs dest!: env_address_Inr)

lemma fee_budget_boot:
  assumes "fee_budget_from_lookup lookup = Inr b"
  shows "fb_max_gas_limit b \<noteq> 0 \<and> fb_max_gas_price_wei_bep20 b \<noteq> 0 \<and> fb_max_gas_price_wei_polygon b \<noteq> 0 \<and>
    fb_max_tron_fee_limit_sun b \<noteq> 0 \<and> fb_max_ton_msg_value_nano b \<noteq> 0 \<and> fb_max_ton_forward_nano b \<noteq> 0"
  using assms
  by (auto simp: fee_budget_from_lookup_def result_iffs fee_budget_default_def
      DEFAULT_MAX_GAS_PRICE_GWEI_BEP20_def DEFAULT_MAX_GAS_PRICE_GWEI_POLYGON_def gwei_to_wei_pos dest!: env_cap_Inr)



end
