(* ===== verification/SignerService.thy ===== *)
theory SignerService
  imports SignerPolicy
begin

text \<open>
  The signer's request handlers (\<^verbatim>\<open>piggybank/signer/src/service.rs\<close>) over its spend ledger
  (\<^verbatim>\<open>native_spend.rs\<close>) and its first-use pins (\<^verbatim>\<open>jetton_wallets.rs\<close>).  A clock
  reading is an integer of microseconds.  What a handler reads from outside the modelled state - the
  brake row, the wallet store, the key backend, the Tron and TON transaction builders, the clocks of
  its two charges, which releases succeed - is a field of \<open>signer_world\<close>.  An answer carries,
  beside the bytes it returns, what they move and commit to.
\<close>

section \<open>The spend ledger\<close>

datatype asset = Native_Asset | Usdt_Asset

fun asset_str :: "asset \<Rightarrow> string" where
  "asset_str Native_Asset = ''native''"
| "asset_str Usdt_Asset = ''usdt''"

record spend_row =
  sw_id :: nat
  sw_wallet :: uuid
  sw_network :: network
  sw_asset :: asset
  sw_spend :: u128
  sw_at :: int

record spend_ledger =
  sl_rows :: "spend_row list"
  sl_next :: nat

definition row_of :: "uuid \<Rightarrow> network \<Rightarrow> asset \<Rightarrow> spend_row \<Rightarrow> bool" where
  "row_of wallet n a r \<longleftrightarrow> sw_wallet r = wallet \<and> sw_network r = n \<and> sw_asset r = a"

definition open_window ::
  "spend_ledger \<Rightarrow> uuid \<Rightarrow> network \<Rightarrow> asset \<Rightarrow> int \<Rightarrow> signer_error + (spend_row list \<times> u128)" where
  "open_window l wallet n a now =
     (let kept = filter (\<lambda>r. \<not> (row_of wallet n a r \<and> sw_at r < now - SPEND_WINDOW)) (sl_rows l);
          spent = sum_list (map (\<lambda>r. unat (sw_spend r))
            (filter (\<lambda>r. row_of wallet n a r \<and> now - SPEND_WINDOW \<le> sw_at r) kept))
      in if spent < 2 ^ 128 then Inr (kept, word_of_nat spent)
         else Inl (Signer_Repository (''native_spend window sum is not a u128: '' @ debug_str (show_nat spent))))"

definition record_spend ::
  "spend_ledger \<Rightarrow> spend_row list \<Rightarrow> uuid \<Rightarrow> network \<Rightarrow> asset \<Rightarrow> u128 \<Rightarrow> int \<Rightarrow> spend_ledger \<times> nat" where
  "record_spend l kept wallet n a spend now =
     (\<lparr>sl_rows = kept @ [\<lparr>sw_id = sl_next l, sw_wallet = wallet, sw_network = n, sw_asset = a, sw_spend = spend,
        sw_at = now\<rparr>], sl_next = Suc (sl_next l)\<rparr>, sl_next l)"

definition release_row :: "spend_ledger \<Rightarrow> nat \<Rightarrow> spend_ledger" where
  "release_row l i = l\<lparr>sl_rows := filter (\<lambda>r. sw_id r \<noteq> i) (sl_rows l)\<rparr>"

section \<open>The world around a request\<close>

definition TREASURY_WALLET :: uuid where
  "TREASURY_WALLET = 0"

definition GAS_STATION_WALLET :: uuid where
  "GAS_STATION_WALLET = 1"

datatype wallet_class = Treasury_Class | GasStation | Deposit_Class

definition wallet_class_of :: "uuid \<Rightarrow> wallet_class" where
  "wallet_class_of wallet =
     (if wallet = TREASURY_WALLET then Treasury_Class
      else if wallet = GAS_STATION_WALLET then GasStation
      else Deposit_Class)"

datatype curve = Secp256k1 | Curve_Ed25519

text \<open>What the Tron and TON builders are asked to build.\<close>

record tron_ref =
  tr_ref_block_bytes :: string
  tr_ref_block_hash :: string
  tr_expiration :: i64
  tr_timestamp :: i64

datatype tron_unsigned =
    Trc20_Call string string u128 i64 tron_ref
  | Trx_Call string u128 tron_ref

datatype ton_unsigned =
    Jetton_Transfer (jt_our_jetton_wallet: string) (jt_to_owner: string) (jt_response_destination: string)
      (jt_amount: u128) (jt_forward: u64) (jt_msg_value: u64) (jt_seqno: u64) (jt_valid_until: u32)
  | Ton_Transfer string u128 u64 u32

record signer_world =
  w_libs :: address_libs
  w_keccak :: "string \<Rightarrow> string"
  w_parse_uuid :: "string \<Rightarrow> uuid option"
  w_brake :: "signer_error + brake_row option"
  w_find_address :: "uuid \<Rightarrow> network \<Rightarrow> signer_error + string option"
  w_find_active :: "network \<Rightarrow> string \<Rightarrow> signer_error + string option"
  w_public_key :: "uuid \<Rightarrow> network \<Rightarrow> status + string"
  w_render_ton :: "string \<Rightarrow> signer_error + string"
  w_sign_digest :: "uuid \<Rightarrow> network \<Rightarrow> curve \<Rightarrow> string \<Rightarrow> status + chain_signature"
  w_sign_tron :: "uuid \<Rightarrow> tron_unsigned \<Rightarrow> status + string"
  w_sign_ton :: "uuid \<Rightarrow> string \<Rightarrow> ton_unsigned \<Rightarrow> status + string"
  w_now_usdt :: int
  w_now_native :: int
  w_released :: "nat \<Rightarrow> bool"

record signer_state =
  ss_ledger :: spend_ledger
  ss_pins :: "uuid \<Rightarrow> network \<Rightarrow> string option"
  ss_watch :: "spend_brake option"

section \<open>Charging\<close>

definition charge ::
  "signer_policy \<Rightarrow> spend_ledger \<Rightarrow> uuid \<Rightarrow> network \<Rightarrow> asset \<Rightarrow> u128 \<Rightarrow> int \<Rightarrow> status + (spend_ledger \<times> nat)" where
  "charge p l wallet n a spend now =
     rbind (from_signer (open_window l wallet n a now)) (\<lambda>(kept, spent).
     rbind (case a of
          Native_Asset \<Rightarrow> check_native_spend_window p n spent spend
        | Usdt_Asset \<Rightarrow> check_treasury_usdt_window p n spent spend) (\<lambda>_.
     Inr (record_spend l kept wallet n a spend now)))"

definition charge_treasury_usdt ::
  "signer_policy \<Rightarrow> spend_ledger \<Rightarrow> wallet_class \<Rightarrow> network \<Rightarrow> u128 \<Rightarrow> int \<Rightarrow> status + (spend_ledger \<times> nat list)" where
  "charge_treasury_usdt p l class n amount now =
     (case class of
        Treasury_Class \<Rightarrow> rmap (\<lambda>(l, i). (l, [i])) (charge p l TREASURY_WALLET n Usdt_Asset amount now)
      | _ \<Rightarrow> Inr (l, []))"

text \<open>A release that fails leaves its row.\<close>

definition release_all :: "signer_world \<Rightarrow> spend_ledger \<Rightarrow> nat list \<Rightarrow> spend_ledger" where
  "release_all w l ids = fold (\<lambda>i l. if w_released w i then release_row l i else l) ids l"

text \<open>
  The tail every handler shares: the treasury's USDT window where the transfer moves USDT, the native
  window, then the signature; a failure of either gives back what was charged.
\<close>

definition charge_and_sign ::
  "signer_world \<Rightarrow> signer_policy \<Rightarrow> signer_state \<Rightarrow> uuid \<Rightarrow> network \<Rightarrow> u128 option \<Rightarrow> status + u128
    \<Rightarrow> status + 'a \<Rightarrow> signer_state \<times> (status + 'a)" where
  "charge_and_sign w p st wallet n usdt spend attempt =
     (case (case usdt of
              Some amount \<Rightarrow> charge_treasury_usdt p (ss_ledger st) (wallet_class_of wallet) n amount (w_now_usdt w)
            | None \<Rightarrow> Inr (ss_ledger st, [])) of
        Inl e \<Rightarrow> (st, Inl e)
      | Inr (l1, ids) \<Rightarrow>
          (case spend of
             Inl e \<Rightarrow> (st\<lparr>ss_ledger := l1\<rparr>, Inl e)
           | Inr spend \<Rightarrow>
               (case charge p l1 wallet n Native_Asset spend (w_now_native w) of
                  Inl e \<Rightarrow> (st\<lparr>ss_ledger := release_all w l1 ids\<rparr>, Inl e)
                | Inr (l2, i) \<Rightarrow>
                    (case attempt of
                       Inl e \<Rightarrow> (st\<lparr>ss_ledger := release_all w l2 (ids @ [i])\<rparr>, Inl e)
                     | Inr x \<Rightarrow> (st\<lparr>ss_ledger := l2\<rparr>, Inr x)))))"

section \<open>Guards\<close>

definition braked_policy :: "signer_world \<Rightarrow> signer_policy \<Rightarrow> signer_state \<Rightarrow> signer_state \<times> (status + signer_policy)" where
  "braked_policy w p st =
     (case from_signer (rbind (w_brake w) read_brake) of
        Inl e \<Rightarrow> (st, Inl e)
      | Inr brake \<Rightarrow>
          let (_, seen) = observe (ss_watch st) brake;
              st = st\<lparr>ss_watch := seen\<rparr>
          in (st, rbind (require_released brake) (\<lambda>_. Inr (tightened p brake))))"

definition guard_token_transfer ::
  "signer_world \<Rightarrow> signer_policy \<Rightarrow> wallet_class \<Rightarrow> network \<Rightarrow> string option \<Rightarrow> string \<Rightarrow> u128 \<Rightarrow> status + unit" where
  "guard_token_transfer w p class n token to amount =
     (case class of
        Treasury_Class \<Rightarrow> check_treasury_transfer (w_libs w) p n token to amount
      | GasStation \<Rightarrow> Inl (refuse_gas_station_token n)
      | Deposit_Class \<Rightarrow>
          rbind (from_signer (w_find_address w TREASURY_WALLET n)) (\<lambda>treasury.
          check_sweep_destination (w_libs w) n treasury to))"

definition guard_native_transfer ::
  "signer_world \<Rightarrow> signer_policy \<Rightarrow> wallet_class \<Rightarrow> network \<Rightarrow> string \<Rightarrow> u128 \<Rightarrow> status + unit" where
  "guard_native_transfer w p class n to amount =
     (case class of
        Treasury_Class \<Rightarrow> check_treasury_native_transfer (w_libs w) p n to amount
      | GasStation \<Rightarrow>
          rbind (from_signer (w_find_active w n to)) (\<lambda>held. check_gas_topup (w_libs w) p n to held amount)
      | Deposit_Class \<Rightarrow> Inl (refuse_deposit_native n))"

definition learn_or_read ::
  "(uuid \<Rightarrow> network \<Rightarrow> string option) \<Rightarrow> uuid \<Rightarrow> network \<Rightarrow> string
    \<Rightarrow> (uuid \<Rightarrow> network \<Rightarrow> string option) \<times> string option" where
  "learn_or_read pins wallet n rendering =
     (case pins wallet n of
        None \<Rightarrow> (pins(wallet := (pins wallet)(n := Some rendering)), None)
      | Some pinned \<Rightarrow> (pins, Some pinned))"

definition guard_jetton_wallet ::
  "signer_world \<Rightarrow> signer_policy \<Rightarrow> signer_state \<Rightarrow> uuid \<Rightarrow> string \<Rightarrow> signer_state \<times> (status + unit)" where
  "guard_jetton_wallet w p st wallet our =
     (let first_use =
            (case stored_rendering (w_libs w) Ton our of
               None \<Rightarrow> (st, Inl (InvalidArgument ''our_jetton_wallet must be a TON address''))
             | Some rendering \<Rightarrow>
                 let (pins, found) = learn_or_read (ss_pins st) wallet Ton rendering in
                 (st\<lparr>ss_pins := pins\<rparr>,
                  case found of
                    None \<Rightarrow> Inr ()
                  | Some pinned \<Rightarrow> check_jetton_wallet_pin (w_libs w) pinned our FirstUse))
      in (case wallet_class_of wallet of
            GasStation \<Rightarrow> (st, Inl (refuse_gas_station_token Ton))
          | Treasury_Class \<Rightarrow>
              (case sp_ton_treasury_jetton_wallet p of
                 Some pinned \<Rightarrow> (st, check_jetton_wallet_pin (w_libs w) pinned our Operator)
               | None \<Rightarrow> first_use)
          | Deposit_Class \<Rightarrow> first_use))"

definition guard_response_destination ::
  "signer_world \<Rightarrow> signer_policy \<Rightarrow> wallet_class \<Rightarrow> string \<Rightarrow> string \<Rightarrow> status + unit" where
  "guard_response_destination w p class public_key response =
     rbind (from_signer (w_render_ton w public_key)) (\<lambda>own.
     case class of
       Treasury_Class \<Rightarrow> check_treasury_response_destination (w_libs w) p own response
     | GasStation \<Rightarrow> Inl (refuse_gas_station_token Ton)
     | Deposit_Class \<Rightarrow>
         rbind (from_signer (w_find_address w GAS_STATION_WALLET Ton)) (\<lambda>gas_station.
         rbind (from_signer (w_find_address w TREASURY_WALLET Ton)) (\<lambda>treasury.
         check_sweep_response_destination (w_libs w) own gas_station treasury response)))"

definition resolve_wallet :: "signer_world \<Rightarrow> string \<Rightarrow> status + uuid" where
  "resolve_wallet w raw =
     (if raw = [] then Inr TREASURY_WALLET
      else ok_or (w_parse_uuid w raw) (InvalidArgument ''from_user_id must be a UUID or empty''))"

definition require_evm :: "string \<Rightarrow> status + network" where
  "require_evm raw =
     (case network_parse raw of
        Inr Bep20 \<Rightarrow> Inr Bep20
      | Inr Polygon \<Rightarrow> Inr Polygon
      | Inr other \<Rightarrow> Inl (InvalidArgument (''EVM signer called with a non-EVM network: '' @ network_str other))
      | Inl _ \<Rightarrow> Inl (InvalidArgument (''unknown network: '' @ raw)))"

definition BEP20_CHAIN_IDS :: "u64 list" where
  "BEP20_CHAIN_IDS = [56, 97]"

definition POLYGON_CHAIN_IDS :: "u64 list" where
  "POLYGON_CHAIN_IDS = [137, 80002]"

definition require_evm_chain :: "network \<Rightarrow> u64 \<Rightarrow> status + unit" where
  "require_evm_chain n chain_id =
     rbind (case n of
         Bep20 \<Rightarrow> Inr BEP20_CHAIN_IDS
       | Polygon \<Rightarrow> Inr POLYGON_CHAIN_IDS
       | _ \<Rightarrow> Inl (InvalidArgument (network_str n @ '' is not an EVM network''))) (\<lambda>known.
     if chain_id \<in> set known then Inr ()
     else Inl (InvalidArgument (''chain_id '' @ show_nat (unat chain_id) @ '' does not belong to network '' @ network_str n)))"

definition require_tron :: "string \<Rightarrow> status + network" where
  "require_tron raw =
     (case network_parse raw of
        Inr Trc20 \<Rightarrow> Inr Trc20
      | Inr other \<Rightarrow> Inl (InvalidArgument (''Tron signer called with a non-Tron network: '' @ network_str other))
      | Inl _ \<Rightarrow> Inl (InvalidArgument (''unknown network: '' @ raw)))"

definition require_ton :: "string \<Rightarrow> status + network" where
  "require_ton raw =
     (case network_parse raw of
        Inr Ton \<Rightarrow> Inr Ton
      | Inr other \<Rightarrow> Inl (InvalidArgument (''TON signer called with a non-TON network: '' @ network_str other))
      | Inl _ \<Rightarrow> Inl (InvalidArgument (''unknown network: '' @ raw)))"

definition parse_amount :: "string \<Rightarrow> string \<Rightarrow> status + u128" where
  "parse_amount raw refusal = ok_or (parse_u128 raw) (InvalidArgument refusal)"

definition ton_public_key :: "signer_world \<Rightarrow> uuid \<Rightarrow> status + string" where
  "ton_public_key w wallet =
     rbind (w_public_key w wallet Ton) (\<lambda>stored.
     if length stored = 32 then Inr stored else Inl (Internal ''signing failed''))"

definition parse_tron_ref :: "address_libs \<Rightarrow> string \<Rightarrow> string \<Rightarrow> i64 \<Rightarrow> i64 \<Rightarrow> status + tron_ref" where
  "parse_tron_ref libs ref_bytes ref_hash expiration timestamp =
     rbind (ok_or (al_hex libs ref_bytes) (InvalidArgument ''ref_block_bytes must be hex'')) (\<lambda>a.
     rbind (ok_or (al_hex libs ref_hash) (InvalidArgument ''ref_block_hash must be hex'')) (\<lambda>b.
     Inr \<lparr>tr_ref_block_bytes = a, tr_ref_block_hash = b, tr_expiration = expiration, tr_timestamp = timestamp\<rparr>))"

section \<open>Requests and answers\<close>

record evm_request =
  er_network :: string
  er_chain_id :: u64
  er_from_user_id :: string
  er_to_address :: string
  er_amount :: string
  er_gas_price :: string
  er_gas_limit :: u64
  er_nonce :: u64

record erc20_request = evm_request +
  er_token_contract :: string

record trx_request =
  tq_network :: string
  tq_from_user_id :: string
  tq_to_address :: string
  tq_amount :: string
  tq_ref_block_bytes :: string
  tq_ref_block_hash :: string
  tq_expiration :: i64
  tq_timestamp :: i64

record trc20_request = trx_request +
  tq_token_contract :: string
  tq_fee_limit :: i64

record ton_request =
  nq_network :: string
  nq_from_user_id :: string
  nq_to_address :: string
  nq_amount :: string
  nq_seqno :: u64
  nq_valid_until :: u32

record jetton_request = ton_request +
  nq_our_jetton_wallet :: string
  nq_response_destination :: string
  nq_msg_value :: u64
  nq_forward_ton_amount :: u64

datatype transfer = Token_Transfer "string option" string u128 | Native_Transfer string u128

record signed =
  sg_wallet :: uuid
  sg_network :: network
  sg_transfer :: transfer
  sg_commits :: u128
  sg_raw :: string

text \<open>An EVM signature: the digest signed, then the envelope assembled around it.\<close>

definition sign_evm :: "signer_world \<Rightarrow> uuid \<Rightarrow> network \<Rightarrow> legacy_tx \<Rightarrow> status + string" where
  "sign_evm w wallet n tx =
     (let (parts, digest) = build_unsigned (w_keccak w) tx in
      rbind (w_sign_digest w wallet n Secp256k1 digest) (\<lambda>signature.
      case assemble_evm (w_keccak w) parts signature of
        Inl _ \<Rightarrow> Inl (Internal ''signing failed'')
      | Inr stx \<Rightarrow> Inr (st_raw stx)))"

definition answer :: "uuid \<Rightarrow> network \<Rightarrow> transfer \<Rightarrow> u128 \<Rightarrow> string \<Rightarrow> signed" where
  "answer wallet n t commits raw =
     \<lparr>sg_wallet = wallet, sg_network = n, sg_transfer = t, sg_commits = commits, sg_raw = raw\<rparr>"

section \<open>EVM\<close>

definition sign_erc20_transfer ::
  "signer_world \<Rightarrow> signer_policy \<Rightarrow> signer_state \<Rightarrow> erc20_request \<Rightarrow> signer_state \<times> (status + signed)" where
  "sign_erc20_transfer w env st req =
     (case braked_policy w env st of
        (st, Inl e) \<Rightarrow> (st, Inl e)
      | (st, Inr p) \<Rightarrow>
          (case
             rbind (require_evm (er_network req)) (\<lambda>n.
             rbind (require_evm_chain n (er_chain_id req)) (\<lambda>_.
             rbind (resolve_wallet w (er_from_user_id req)) (\<lambda>wallet.
             rbind (ok_or (evm_parse_address (al_hex (w_libs w)) (er_token_contract req))
               (InvalidArgument ''token_contract must be a 0x 20-byte address'')) (\<lambda>token.
             rbind (ok_or (evm_parse_address (al_hex (w_libs w)) (er_to_address req))
               (InvalidArgument ''to_address must be a 0x 20-byte address'')) (\<lambda>to.
             rbind (parse_amount (er_amount req) ''amount must be a u128 decimal'') (\<lambda>amount.
             rbind (parse_amount (er_gas_price req) ''gas_price must be a u128 decimal'') (\<lambda>gas_price.
             rbind (check_fee_budget p n (Evm_Fee gas_price (er_gas_limit req))) (\<lambda>_.
             rbind (guard_token_transfer w p (wallet_class_of wallet) n (Some (er_token_contract req))
               (er_to_address req) amount) (\<lambda>_.
             Inr (n, wallet, token, to, amount, gas_price)))))))))) of
             Inl e \<Rightarrow> (st, Inl e)
           | Inr (n, wallet, token, to, amount, gas_price) \<Rightarrow>
               let spend = evm_native_spend n gas_price (er_gas_limit req) 0 in
               charge_and_sign w p st wallet n (Some amount) spend
                 (rmap (answer wallet n (Token_Transfer (Some (er_token_contract req)) (er_to_address req) amount)
                    (case spend of Inr v \<Rightarrow> v | Inl _ \<Rightarrow> 0))
                  (sign_evm w wallet n \<lparr>tx_chain_id = er_chain_id req, tx_nonce = er_nonce req,
                     tx_gas_price = gas_price, tx_gas_limit = er_gas_limit req, tx_to = token, tx_value = 0,
                     tx_data = erc20_transfer_calldata to amount\<rparr>))))"

definition sign_native_transfer ::
  "signer_world \<Rightarrow> signer_policy \<Rightarrow> signer_state \<Rightarrow> evm_request \<Rightarrow> signer_state \<times> (status + signed)" where
  "sign_native_transfer w env st req =
     (case braked_policy w env st of
        (st, Inl e) \<Rightarrow> (st, Inl e)
      | (st, Inr p) \<Rightarrow>
          (case
             rbind (require_evm (er_network req)) (\<lambda>n.
             rbind (require_evm_chain n (er_chain_id req)) (\<lambda>_.
             rbind (resolve_wallet w (er_from_user_id req)) (\<lambda>wallet.
             rbind (ok_or (evm_parse_address (al_hex (w_libs w)) (er_to_address req))
               (InvalidArgument ''to_address must be a 0x 20-byte address'')) (\<lambda>to.
             rbind (parse_amount (er_amount req) ''amount must be a u128 decimal'') (\<lambda>amount.
             rbind (parse_amount (er_gas_price req) ''gas_price must be a u128 decimal'') (\<lambda>gas_price.
             rbind (check_fee_budget p n (Evm_Fee gas_price (er_gas_limit req))) (\<lambda>_.
             rbind (guard_native_transfer w p (wallet_class_of wallet) n (er_to_address req) amount) (\<lambda>_.
             Inr (n, wallet, to, amount, gas_price))))))))) of
             Inl e \<Rightarrow> (st, Inl e)
           | Inr (n, wallet, to, amount, gas_price) \<Rightarrow>
               let spend = evm_native_spend n gas_price (er_gas_limit req) amount in
               charge_and_sign w p st wallet n None spend
                 (rmap (answer wallet n (Native_Transfer (er_to_address req) amount)
                    (case spend of Inr v \<Rightarrow> v | Inl _ \<Rightarrow> 0))
                  (sign_evm w wallet n \<lparr>tx_chain_id = er_chain_id req, tx_nonce = er_nonce req,
                     tx_gas_price = gas_price, tx_gas_limit = er_gas_limit req, tx_to = to, tx_value = amount,
                     tx_data = []\<rparr>))))"

section \<open>Tron\<close>

definition sign_trc20_transfer ::
  "signer_world \<Rightarrow> signer_policy \<Rightarrow> signer_state \<Rightarrow> trc20_request \<Rightarrow> signer_state \<times> (status + signed)" where
  "sign_trc20_transfer w env st req =
     (case braked_policy w env st of
        (st, Inl e) \<Rightarrow> (st, Inl e)
      | (st, Inr p) \<Rightarrow>
          (case
             rbind (check_tron_signing p) (\<lambda>_.
             rbind (require_tron (tq_network req)) (\<lambda>n.
             rbind (resolve_wallet w (tq_from_user_id req)) (\<lambda>wallet.
             rbind (ok_or (al_tron (w_libs w) (tq_token_contract req))
               (InvalidArgument ''token_contract must be a base58 Tron address'')) (\<lambda>token.
             rbind (ok_or (al_tron (w_libs w) (tq_to_address req))
               (InvalidArgument ''to_address must be a base58 Tron address'')) (\<lambda>to.
             rbind (parse_amount (tq_amount req) ''amount must be a u128 decimal'') (\<lambda>amount.
             rbind (parse_tron_ref (w_libs w) (tq_ref_block_bytes req) (tq_ref_block_hash req)
               (tq_expiration req) (tq_timestamp req)) (\<lambda>ref.
             rbind (check_fee_budget p n (Tron_Fee (tq_fee_limit req))) (\<lambda>_.
             rbind (guard_token_transfer w p (wallet_class_of wallet) n (Some (tq_token_contract req))
               (tq_to_address req) amount) (\<lambda>_.
             Inr (n, wallet, token, to, amount, ref)))))))))) of
             Inl e \<Rightarrow> (st, Inl e)
           | Inr (n, wallet, token, to, amount, ref) \<Rightarrow>
               let spend = (case u128_try_from_i64 (tq_fee_limit req) of Some v \<Rightarrow> v | None \<Rightarrow> - 1) in
               charge_and_sign w p st wallet n (Some amount) (Inr spend)
                 (rmap (answer wallet n (Token_Transfer (Some (tq_token_contract req)) (tq_to_address req) amount) spend)
                  (w_sign_tron w wallet (Trc20_Call token to amount (tq_fee_limit req) ref)))))"

definition sign_trx_transfer ::
  "signer_world \<Rightarrow> signer_policy \<Rightarrow> signer_state \<Rightarrow> trx_request \<Rightarrow> signer_state \<times> (status + signed)" where
  "sign_trx_transfer w env st req =
     (case braked_policy w env st of
        (st, Inl e) \<Rightarrow> (st, Inl e)
      | (st, Inr p) \<Rightarrow>
          (case
             rbind (check_tron_signing p) (\<lambda>_.
             rbind (require_tron (tq_network req)) (\<lambda>n.
             rbind (resolve_wallet w (tq_from_user_id req)) (\<lambda>wallet.
             rbind (ok_or (al_tron (w_libs w) (tq_to_address req))
               (InvalidArgument ''to_address must be a base58 Tron address'')) (\<lambda>to.
             rbind (parse_amount (tq_amount req) ''amount must be a u128 decimal'') (\<lambda>amount.
             rbind (parse_tron_ref (w_libs w) (tq_ref_block_bytes req) (tq_ref_block_hash req)
               (tq_expiration req) (tq_timestamp req)) (\<lambda>ref.
             rbind (guard_native_transfer w p (wallet_class_of wallet) n (tq_to_address req) amount) (\<lambda>_.
             Inr (n, wallet, to, amount, ref)))))))) of
             Inl e \<Rightarrow> (st, Inl e)
           | Inr (n, wallet, to, amount, ref) \<Rightarrow>
               charge_and_sign w p st wallet n None (Inr amount)
                 (rmap (answer wallet n (Native_Transfer (tq_to_address req) amount) amount)
                  (w_sign_tron w wallet (Trx_Call to amount ref)))))"

section \<open>TON\<close>

definition sign_jetton_transfer ::
  "signer_world \<Rightarrow> signer_policy \<Rightarrow> signer_state \<Rightarrow> jetton_request \<Rightarrow> signer_state \<times> (status + signed)" where
  "sign_jetton_transfer w env st req =
     (case braked_policy w env st of
        (st, Inl e) \<Rightarrow> (st, Inl e)
      | (st, Inr p) \<Rightarrow>
          (case
             rbind (require_ton (nq_network req)) (\<lambda>n.
             rbind (resolve_wallet w (nq_from_user_id req)) (\<lambda>wallet.
             rbind (parse_amount (nq_amount req) ''amount must be a u128 decimal'') (\<lambda>amount.
             rbind (check_fee_budget p n (Ton_Fee (nq_msg_value req) (nq_forward_ton_amount req))) (\<lambda>_.
             rbind (guard_token_transfer w p (wallet_class_of wallet) n None (nq_to_address req) amount) (\<lambda>_.
             Inr (n, wallet, amount)))))) of
             Inl e \<Rightarrow> (st, Inl e)
           | Inr (n, wallet, amount) \<Rightarrow>
               (case guard_jetton_wallet w p st wallet (nq_our_jetton_wallet req) of
                  (st, Inl e) \<Rightarrow> (st, Inl e)
                | (st, Inr _) \<Rightarrow>
                    (case
                       rbind (ton_public_key w wallet) (\<lambda>public_key.
                       rbind (guard_response_destination w p (wallet_class_of wallet) public_key
                         (nq_response_destination req)) (\<lambda>_.
                       Inr public_key)) of
                       Inl e \<Rightarrow> (st, Inl e)
                     | Inr public_key \<Rightarrow>
                         charge_and_sign w p st wallet n (Some amount) (Inr (ucast (nq_msg_value req)))
                           (rmap (answer wallet n (Token_Transfer None (nq_to_address req) amount) (ucast (nq_msg_value req)))
                            (w_sign_ton w wallet public_key
                              (Jetton_Transfer (nq_our_jetton_wallet req) (nq_to_address req)
                                (nq_response_destination req) amount (nq_forward_ton_amount req) (nq_msg_value req)
                                (nq_seqno req) (nq_valid_until req))))))))"

definition sign_ton_transfer ::
  "signer_world \<Rightarrow> signer_policy \<Rightarrow> signer_state \<Rightarrow> ton_request \<Rightarrow> signer_state \<times> (status + signed)" where
  "sign_ton_transfer w env st req =
     (case braked_policy w env st of
        (st, Inl e) \<Rightarrow> (st, Inl e)
      | (st, Inr p) \<Rightarrow>
          (case
             rbind (require_ton (nq_network req)) (\<lambda>n.
             rbind (resolve_wallet w (nq_from_user_id req)) (\<lambda>wallet.
             rbind (parse_amount (nq_amount req) ''amount must be a u128 decimal (nanotons)'') (\<lambda>amount.
             rbind (guard_native_transfer w p (wallet_class_of wallet) n (nq_to_address req) amount) (\<lambda>_.
             Inr (n, wallet, amount))))) of
             Inl e \<Rightarrow> (st, Inl e)
           | Inr (n, wallet, amount) \<Rightarrow>
               charge_and_sign w p st wallet n None (Inr amount)
                 (rmap (answer wallet n (Native_Transfer (nq_to_address req) amount) amount)
                  (rbind (ton_public_key w wallet) (\<lambda>public_key.
                   w_sign_ton w wallet public_key
                     (Ton_Transfer (nq_to_address req) amount (nq_seqno req) (nq_valid_until req)))))))"

section \<open>The service\<close>

datatype signer_call =
    Sign_Erc20 erc20_request | Sign_Native evm_request | Sign_Trc20 trc20_request | Sign_Trx trx_request
  | Sign_Jetton jetton_request | Sign_Ton ton_request

fun serve :: "signer_world \<Rightarrow> signer_policy \<Rightarrow> signer_state \<Rightarrow> signer_call \<Rightarrow> signer_state \<times> (status + signed)" where
  "serve w env st (Sign_Erc20 req) = sign_erc20_transfer w env st req"
| "serve w env st (Sign_Native req) = sign_native_transfer w env st req"
| "serve w env st (Sign_Trc20 req) = sign_trc20_transfer w env st req"
| "serve w env st (Sign_Trx req) = sign_trx_transfer w env st req"
| "serve w env st (Sign_Jetton req) = sign_jetton_transfer w env st req"
| "serve w env st (Sign_Ton req) = sign_ton_transfer w env st req"

end
