(* ===== verification/SignerSafety.thy ===== *)
theory SignerSafety
  imports SignerService
begin

text \<open>
  What the signer guarantees whoever calls it: every answer is one its policy allows, nothing is
  signed under a halted or unreadable brake, and over any hour what was signed for a wallet commits
  at most the environment's ceilings.  \<open>signer_run\<close> serves any sequence of calls one after
  another, each in a world of its own; the clock readings of its charges do not go backwards.
\<close>

section \<open>What a call did\<close>

text \<open>The class rule an answer was given under.\<close>

definition token_allowed ::
  "signer_world \<Rightarrow> signer_policy \<Rightarrow> uuid \<Rightarrow> network \<Rightarrow> string option \<Rightarrow> string \<Rightarrow> u128 \<Rightarrow> bool" where
  "token_allowed w p wallet n token to amount \<longleftrightarrow>
     (case wallet_class_of wallet of
        Treasury_Class \<Rightarrow>
          (case token_pinned (sp_token_pins p) n of
             Some pinned \<Rightarrow> \<exists>t. token = Some t \<and> addresses_agree (w_libs w) n pinned t
           | None \<Rightarrow> token = None) \<and>
          unat amount \<le> unat (sp_max_transfer_usdt p) * 10 ^ onchain_decimals n \<and>
          (sp_destination_allowlist p \<noteq> [] \<longrightarrow> listed (w_libs w) (sp_destination_allowlist p) n to)
      | GasStation \<Rightarrow> False
      | Deposit_Class \<Rightarrow>
          (\<exists>treasury. w_find_address w TREASURY_WALLET n = Inr (Some treasury) \<and>
             addresses_agree (w_libs w) n treasury to))"

definition native_allowed ::
  "signer_world \<Rightarrow> signer_policy \<Rightarrow> uuid \<Rightarrow> network \<Rightarrow> string \<Rightarrow> u128 \<Rightarrow> bool" where
  "native_allowed w p wallet n to amount \<longleftrightarrow>
     (case wallet_class_of wallet of
        Treasury_Class \<Rightarrow>
          (\<exists>caps cap. sp_treasury_native p = Some caps \<and> treasury_native_cap caps n = Some cap \<and> amount \<le> cap \<and>
             listed (w_libs w) (sp_treasury_native_allowlist p) n to)
      | GasStation \<Rightarrow>
          (\<exists>held. w_find_active w n to = Inr (Some held) \<and> addresses_agree (w_libs w) n held to) \<and>
          amount \<le> gas_topup_cap (sp_gas_topup p) n
      | Deposit_Class \<Rightarrow> False)"

definition transfer_allowed :: "signer_world \<Rightarrow> signer_policy \<Rightarrow> uuid \<Rightarrow> network \<Rightarrow> transfer \<Rightarrow> bool" where
  "transfer_allowed w p wallet n t \<longleftrightarrow> (n = Trc20 \<longrightarrow> sp_tron_signing_enabled p) \<and>
     (case t of
        Token_Transfer token to amount \<Rightarrow> token_allowed w p wallet n token to amount
      | Native_Transfer to amount \<Rightarrow> native_allowed w p wallet n to amount)"

fun usdt_of :: "transfer \<Rightarrow> u128 option" where
  "usdt_of (Token_Transfer _ _ amount) = Some amount"
| "usdt_of (Native_Transfer _ _) = None"

lemma guard_token_Inr:
  "guard_token_transfer w p (wallet_class_of wallet) n token to amount = Inr u \<longleftrightarrow>
     token_allowed w p wallet n token to amount"
proof (cases "wallet_class_of wallet")
  case Treasury_Class
  then show ?thesis by (simp add: guard_token_transfer_def token_allowed_def check_treasury_transfer_Inr)
next
  case GasStation
  then show ?thesis by (simp add: guard_token_transfer_def token_allowed_def)
next
  case Deposit_Class
  then show ?thesis
    by (auto simp: guard_token_transfer_def token_allowed_def check_sweep_destination_def result_iffs
        split: option.splits if_splits)
qed

lemma guard_native_Inr:
  "guard_native_transfer w p (wallet_class_of wallet) n to amount = Inr u \<longleftrightarrow> native_allowed w p wallet n to amount"
proof (cases "wallet_class_of wallet")
  case Treasury_Class
  then show ?thesis
    by (auto simp: guard_native_transfer_def native_allowed_def check_treasury_native_transfer_def
        split: option.splits if_splits)
next
  case GasStation
  then show ?thesis
    by (auto simp: guard_native_transfer_def native_allowed_def check_gas_topup_def Let_def result_iffs
        split: option.splits if_splits)
next
  case Deposit_Class
  then show ?thesis by (simp add: guard_native_transfer_def native_allowed_def)
qed

lemma braked_policy_cases:
  assumes "braked_policy w env st = (st1, r)"
  obtains (refused) e where "r = Inl e" "ss_ledger st1 = ss_ledger st" "ss_pins st1 = ss_pins st"
  | (released) row brake where "w_brake w = Inr row" "read_brake row = Inr brake" "\<not> sb_halted brake"
      "r = Inr (tightened env brake)" "ss_ledger st1 = ss_ledger st" "ss_pins st1 = ss_pins st"
proof (cases r)
  case (Inl e)
  with assms show thesis
    by (intro refused) (auto simp: braked_policy_def Let_def observe_def split: sum.splits prod.splits)
next
  case (Inr p)
  with assms have "\<exists>row brake. w_brake w = Inr row \<and> read_brake row = Inr brake \<and> \<not> sb_halted brake \<and>
      r = Inr (tightened env brake) \<and> ss_ledger st1 = ss_ledger st \<and> ss_pins st1 = ss_pins st"
    by (auto simp: braked_policy_def Let_def observe_def result_iffs require_released_def
        split: sum.splits prod.splits if_splits)
  with released show thesis by blast
qed

text \<open>Every handler refuses before it touches the ledger, or charges and signs a transfer its guards allow.\<close>

definition tail_of ::
  "signer_world \<Rightarrow> signer_policy \<Rightarrow> signer_state \<Rightarrow> signer_state \<Rightarrow> status + signed \<Rightarrow> bool" where
  "tail_of w p st st' r \<longleftrightarrow>
     (\<exists>e. r = Inl e \<and> ss_ledger st' = ss_ledger st) \<or>
     (\<exists>st1 wallet n t spend commits attempt. ss_ledger st1 = ss_ledger st \<and> transfer_allowed w p wallet n t \<and>
        (\<forall>v. spend = Inr v \<longrightarrow> commits = v) \<and>
        charge_and_sign w p st1 wallet n (usdt_of t) spend (rmap (answer wallet n t commits) attempt) = (st', r))"

lemma tail_refused: "ss_ledger st' = ss_ledger st \<Longrightarrow> tail_of w p st st' (Inl e)"
  by (simp add: tail_of_def)

lemma tail_charged:
  assumes "ss_ledger st1 = ss_ledger st" "transfer_allowed w p wallet n t" "\<And>v. spend = Inr v \<Longrightarrow> commits = v"
    "charge_and_sign w p st1 wallet n (usdt_of t) spend (rmap (answer wallet n t commits) attempt) = (st', r)"
  shows "tail_of w p st st' r"
  using assms unfolding tail_of_def by blast

lemma require_rails:
  "require_evm raw = Inr n \<Longrightarrow> n = Bep20 \<or> n = Polygon" "require_tron raw = Inr n \<Longrightarrow> n = Trc20"
  "require_ton raw = Inr n \<Longrightarrow> n = Ton"
  by (auto simp: require_evm_def require_tron_def require_ton_def split: sum.splits network.splits)

lemma check_tron_Inr: "check_tron_signing p = Inr u \<longleftrightarrow> sp_tron_signing_enabled p"
  by (simp add: check_tron_signing_def)

lemma token_tail:
  assumes "ss_ledger st1 = ss_ledger st"
    "guard_token_transfer w p (wallet_class_of wallet) n token to amount = Inr u"
    "n = Trc20 \<Longrightarrow> sp_tron_signing_enabled p" "\<And>v. spend = Inr v \<Longrightarrow> commits = v"
    "charge_and_sign w p st1 wallet n (Some amount) spend
       (rmap (answer wallet n (Token_Transfer token to amount) commits) attempt) = (st', r)"
  shows "tail_of w p st st' r"
proof (rule tail_charged [OF assms(1) _ assms(4)])
  show "transfer_allowed w p wallet n (Token_Transfer token to amount)"
    using assms(2,3) by (simp add: transfer_allowed_def guard_token_Inr)
  show "charge_and_sign w p st1 wallet n (usdt_of (Token_Transfer token to amount)) spend
      (rmap (answer wallet n (Token_Transfer token to amount) commits) attempt) = (st', r)"
    using assms(5) by simp
qed

lemma native_tail:
  assumes "ss_ledger st1 = ss_ledger st"
    "guard_native_transfer w p (wallet_class_of wallet) n to amount = Inr u"
    "n = Trc20 \<Longrightarrow> sp_tron_signing_enabled p" "\<And>v. spend = Inr v \<Longrightarrow> commits = v"
    "charge_and_sign w p st1 wallet n None spend
       (rmap (answer wallet n (Native_Transfer to amount) commits) attempt) = (st', r)"
  shows "tail_of w p st st' r"
proof (rule tail_charged [OF assms(1) _ assms(4)])
  show "transfer_allowed w p wallet n (Native_Transfer to amount)"
    using assms(2,3) by (simp add: transfer_allowed_def guard_native_Inr)
  show "charge_and_sign w p st1 wallet n (usdt_of (Native_Transfer to amount)) spend
      (rmap (answer wallet n (Native_Transfer to amount) commits) attempt) = (st', r)"
    using assms(5) by simp
qed

lemma evm_not_tron: "require_evm raw = Inr n \<Longrightarrow> n = Trc20 \<Longrightarrow> b"
  using require_rails(1) by blast

lemma ton_not_tron: "require_ton raw = Inr n \<Longrightarrow> n = Trc20 \<Longrightarrow> b"
  using require_rails(3) by blast

lemma case_spend: "spend = Inr v \<Longrightarrow> (case spend of Inr v \<Rightarrow> v | Inl _ \<Rightarrow> 0) = v"
  by simp

lemma erc20_tail:
  assumes "braked_policy w env st = (st1, Inr p)" "ss_ledger st1 = ss_ledger st"
    "sign_erc20_transfer w env st req = (st', r)"
  shows "tail_of w p st st' r"
proof (cases "\<exists>e. r = Inl e \<and> ss_ledger st' = ss_ledger st")
  case False
  with assms obtain n wallet token to amount gas_price where
    rail: "require_evm (er_network req) = Inr n"
    and guard: "guard_token_transfer w p (wallet_class_of wallet) n (Some (er_token_contract req)) (er_to_address req) amount = Inr ()"
    and tail: "charge_and_sign w p st1 wallet n (Some amount) (evm_native_spend n gas_price (er_gas_limit req) 0)
      (rmap (answer wallet n (Token_Transfer (Some (er_token_contract req)) (er_to_address req) amount)
         (case evm_native_spend n gas_price (er_gas_limit req) 0 of Inr v \<Rightarrow> v | Inl _ \<Rightarrow> 0))
        (sign_evm w wallet n \<lparr>tx_chain_id = er_chain_id req, tx_nonce = er_nonce req,
           tx_gas_price = gas_price, tx_gas_limit = er_gas_limit req, tx_to = token, tx_value = 0,
           tx_data = erc20_transfer_calldata to amount\<rparr>)) = (st', r)"
    by (auto simp: sign_erc20_transfer_def Let_def result_iffs split: sum.splits)
  show ?thesis
    by (rule token_tail [OF assms(2) guard evm_not_tron [OF rail] case_spend tail])
qed (auto intro: tail_refused)

lemma native_transfer_tail:
  assumes "braked_policy w env st = (st1, Inr p)" "ss_ledger st1 = ss_ledger st"
    "sign_native_transfer w env st req = (st', r)"
  shows "tail_of w p st st' r"
proof (cases "\<exists>e. r = Inl e \<and> ss_ledger st' = ss_ledger st")
  case False
  with assms obtain n wallet to amount gas_price where
    rail: "require_evm (er_network req) = Inr n"
    and guard: "guard_native_transfer w p (wallet_class_of wallet) n (er_to_address req) amount = Inr ()"
    and tail: "charge_and_sign w p st1 wallet n None (evm_native_spend n gas_price (er_gas_limit req) amount)
      (rmap (answer wallet n (Native_Transfer (er_to_address req) amount)
         (case evm_native_spend n gas_price (er_gas_limit req) amount of Inr v \<Rightarrow> v | Inl _ \<Rightarrow> 0))
        (sign_evm w wallet n \<lparr>tx_chain_id = er_chain_id req, tx_nonce = er_nonce req,
           tx_gas_price = gas_price, tx_gas_limit = er_gas_limit req, tx_to = to, tx_value = amount,
           tx_data = []\<rparr>)) = (st', r)"
    by (auto simp: sign_native_transfer_def Let_def result_iffs split: sum.splits)
  show ?thesis
    by (rule native_tail [OF assms(2) guard evm_not_tron [OF rail] case_spend tail])
qed (auto intro: tail_refused)

lemma trc20_tail:
  assumes "braked_policy w env st = (st1, Inr p)" "ss_ledger st1 = ss_ledger st"
    "sign_trc20_transfer w env st req = (st', r)"
  shows "tail_of w p st st' r"
proof (cases "\<exists>e. r = Inl e \<and> ss_ledger st' = ss_ledger st")
  case False
  define spend where "spend = (case u128_try_from_i64 (tq_fee_limit req) of Some v \<Rightarrow> v | None \<Rightarrow> - 1)"
  from False assms obtain n wallet token to amount ref where
    tron: "sp_tron_signing_enabled p"
    and guard: "guard_token_transfer w p (wallet_class_of wallet) n (Some (tq_token_contract req)) (tq_to_address req) amount = Inr ()"
    and tail: "charge_and_sign w p st1 wallet n (Some amount) (Inr spend)
      (rmap (answer wallet n (Token_Transfer (Some (tq_token_contract req)) (tq_to_address req) amount) spend)
        (w_sign_tron w wallet (Trc20_Call token to amount (tq_fee_limit req) ref))) = (st', r)"
    by (auto simp: sign_trc20_transfer_def Let_def result_iffs check_tron_Inr spend_def split: sum.splits)
  from tron guard tail show ?thesis by (intro token_tail [OF assms(2) guard _ _ tail]) simp_all
qed (auto intro: tail_refused)

lemma trx_tail:
  assumes "braked_policy w env st = (st1, Inr p)" "ss_ledger st1 = ss_ledger st"
    "sign_trx_transfer w env st req = (st', r)"
  shows "tail_of w p st st' r"
proof (cases "\<exists>e. r = Inl e \<and> ss_ledger st' = ss_ledger st")
  case False
  with assms obtain n wallet to amount ref where
    tron: "sp_tron_signing_enabled p"
    and guard: "guard_native_transfer w p (wallet_class_of wallet) n (tq_to_address req) amount = Inr ()"
    and tail: "charge_and_sign w p st1 wallet n None (Inr amount)
      (rmap (answer wallet n (Native_Transfer (tq_to_address req) amount) amount)
        (w_sign_tron w wallet (Trx_Call to amount ref))) = (st', r)"
    by (auto simp: sign_trx_transfer_def Let_def result_iffs check_tron_Inr split: sum.splits)
  from tron show ?thesis by (intro native_tail [OF assms(2) guard _ _ tail]) simp_all
qed (auto intro: tail_refused)

lemma guard_jetton_ledger: "guard_jetton_wallet w p st wallet our = (st', r) \<Longrightarrow> ss_ledger st' = ss_ledger st"
  by (auto simp: guard_jetton_wallet_def learn_or_read_def Let_def
      split: wallet_class.splits option.splits prod.splits)

lemma jetton_tail:
  assumes "braked_policy w env st = (st1, Inr p)" "ss_ledger st1 = ss_ledger st"
    "sign_jetton_transfer w env st req = (st', r)"
  shows "tail_of w p st st' r"
proof (cases "\<exists>e. r = Inl e \<and> ss_ledger st' = ss_ledger st")
  case False
  with assms obtain n wallet amount st2 public_key where
    rail: "require_ton (nq_network req) = Inr n"
    and guard: "guard_token_transfer w p (wallet_class_of wallet) n None (nq_to_address req) amount = Inr ()"
    and pins: "guard_jetton_wallet w p st1 wallet (nq_our_jetton_wallet req) = (st2, Inr ())"
    and tail: "charge_and_sign w p st2 wallet n (Some amount) (Inr (ucast (nq_msg_value req)))
      (rmap (answer wallet n (Token_Transfer None (nq_to_address req) amount) (ucast (nq_msg_value req)))
        (w_sign_ton w wallet public_key
          (Jetton_Transfer (nq_our_jetton_wallet req) (nq_to_address req)
            (nq_response_destination req) amount (nq_forward_ton_amount req) (nq_msg_value req)
            (nq_seqno req) (nq_valid_until req)))) = (st', r)"
    by (auto simp: sign_jetton_transfer_def Let_def result_iffs dest: guard_jetton_ledger split: sum.splits prod.splits)
  have "ss_ledger st2 = ss_ledger st" using guard_jetton_ledger [OF pins] assms(2) by simp
  then show ?thesis
    by (rule token_tail [OF _ guard ton_not_tron [OF rail] _ tail]) simp_all
qed (auto intro: tail_refused)

lemma ton_tail:
  assumes "braked_policy w env st = (st1, Inr p)" "ss_ledger st1 = ss_ledger st"
    "sign_ton_transfer w env st req = (st', r)"
  shows "tail_of w p st st' r"
proof (cases "\<exists>e. r = Inl e \<and> ss_ledger st' = ss_ledger st")
  case False
  with assms obtain n wallet amount where
    rail: "require_ton (nq_network req) = Inr n"
    and guard: "guard_native_transfer w p (wallet_class_of wallet) n (nq_to_address req) amount = Inr ()"
    and tail: "charge_and_sign w p st1 wallet n None (Inr amount)
      (rmap (answer wallet n (Native_Transfer (nq_to_address req) amount) amount)
        (rbind (ton_public_key w wallet) (\<lambda>public_key.
           w_sign_ton w wallet public_key
             (Ton_Transfer (nq_to_address req) amount (nq_seqno req) (nq_valid_until req))))) = (st', r)"
    by (auto simp: sign_ton_transfer_def Let_def result_iffs split: sum.splits)
  show ?thesis
    by (rule native_tail [OF assms(2) guard ton_not_tron [OF rail] _ tail]) simp_all
qed (auto intro: tail_refused)

lemma serve_tail:
  assumes "braked_policy w env st = (st1, Inr p)" "ss_ledger st1 = ss_ledger st"
    "serve w env st call = (st', r)"
  shows "tail_of w p st st' r"
  using assms(3)
  by (cases call)
    (auto intro: erc20_tail [OF assms(1,2)] native_transfer_tail [OF assms(1,2)] trc20_tail [OF assms(1,2)]
      trx_tail [OF assms(1,2)] jetton_tail [OF assms(1,2)] ton_tail [OF assms(1,2)])

lemma serve_refused:
  assumes "braked_policy w env st = (st1, Inl e)"
  shows "serve w env st call = (st1, Inl e)"
  using assms
  by (cases call)
    (simp_all add: sign_erc20_transfer_def sign_native_transfer_def sign_trc20_transfer_def sign_trx_transfer_def
      sign_jetton_transfer_def sign_ton_transfer_def)

section \<open>What the ledger holds\<close>

definition sum_from :: "spend_row list \<Rightarrow> uuid \<Rightarrow> network \<Rightarrow> asset \<Rightarrow> int \<Rightarrow> nat" where
  "sum_from rows wallet n a s = sum_list (map (\<lambda>r. unat (sw_spend r)) (filter (\<lambda>r. row_of wallet n a r \<and> s \<le> sw_at r) rows))"

definition fresh_ids :: "spend_ledger \<Rightarrow> bool" where
  "fresh_ids l \<longleftrightarrow> (\<forall>r \<in> set (sl_rows l). sw_id r < sl_next l)"

definition old_rows :: "nat \<Rightarrow> spend_ledger \<Rightarrow> spend_row list" where
  "old_rows i l = filter (\<lambda>r. sw_id r < i) (sl_rows l)"

lemma sum_from_append [simp]: "sum_from (xs @ ys) wallet n a s = sum_from xs wallet n a s + sum_from ys wallet n a s"
  by (simp add: sum_from_def)

lemma sum_from_single:
  "sum_from [r] wallet n a s = (if row_of wallet n a r \<and> s \<le> sw_at r then unat (sw_spend r) else 0)"
  by (simp add: sum_from_def)

lemma sum_from_Nil [simp]: "sum_from [] wallet n a s = 0"
  by (simp add: sum_from_def)

lemma sum_from_filter_le: "sum_from (filter P rows) wallet n a s \<le> sum_from rows wallet n a s"
  by (induction rows) (auto simp: sum_from_def)

lemma sum_from_filter:
  assumes "\<And>r. r \<in> set rows \<Longrightarrow> row_of wallet n a r \<Longrightarrow> s \<le> sw_at r \<Longrightarrow> P r"
  shows "sum_from (filter P rows) wallet n a s = sum_from rows wallet n a s"
proof -
  have "filter (\<lambda>r. P r \<and> row_of wallet n a r \<and> s \<le> sw_at r) rows = filter (\<lambda>r. row_of wallet n a r \<and> s \<le> sw_at r) rows"
    using assms by (intro filter_cong) auto
  then show ?thesis by (simp add: sum_from_def conj_commute conj_left_commute)
qed

lemma old_rows_all: "fresh_ids l \<Longrightarrow> old_rows (sl_next l) l = sl_rows l"
  by (auto simp: old_rows_def fresh_ids_def intro!: filter_True)

lemma old_rows_le: "sum_from (old_rows i l) wallet n a s \<le> sum_from (sl_rows l) wallet n a s"
  unfolding old_rows_def by (rule sum_from_filter_le)

text \<open>A charge sweeps only what has aged out, and adds its row.\<close>

definition asset_cap :: "signer_policy \<Rightarrow> network \<Rightarrow> asset \<Rightarrow> nat" where
  "asset_cap p n a = (case a of
     Native_Asset \<Rightarrow> unat (native_spend_cap (sp_native_spend p) n)
   | Usdt_Asset \<Rightarrow> unat (sp_treasury_usdt_per_hour p) * 10 ^ onchain_decimals n)"

definition new_row :: "nat \<Rightarrow> uuid \<Rightarrow> network \<Rightarrow> asset \<Rightarrow> u128 \<Rightarrow> int \<Rightarrow> spend_row" where
  "new_row i wallet n a spend now = \<lparr>sw_id = i, sw_wallet = wallet, sw_network = n, sw_asset = a,
     sw_spend = spend, sw_at = now\<rparr>"

lemma charge_Inr:
  assumes "charge p l wallet n a spend now = Inr (l', i)"
  obtains kept where "i = sl_next l" "sl_next l' = Suc (sl_next l)"
    "sl_rows l' = kept @ [new_row (sl_next l) wallet n a spend now]"
    "kept = filter (\<lambda>r. \<not> (row_of wallet n a r \<and> sw_at r < now - SPEND_WINDOW)) (sl_rows l)"
    "sum_from (sl_rows l) wallet n a (now - SPEND_WINDOW) + unat spend \<le> asset_cap p n a"
proof -
  define kept where "kept = filter (\<lambda>r. \<not> (row_of wallet n a r \<and> sw_at r < now - SPEND_WINDOW)) (sl_rows l)"
  define spent where "spent = sum_from kept wallet n a (now - SPEND_WINDOW)"
  have same: "spent = sum_from (sl_rows l) wallet n a (now - SPEND_WINDOW)"
    unfolding spent_def kept_def by (rule sum_from_filter) simp
  have ow: "open_window l wallet n a now = (if spent < 2 ^ 128 then Inr (kept, word_of_nat spent)
      else Inl (Signer_Repository (''native_spend window sum is not a u128: '' @ debug_str (show_nat spent))))"
    unfolding open_window_def Let_def
    unfolding kept_def [symmetric] unfolding sum_from_def [symmetric] unfolding spent_def [symmetric] by (rule refl)
  with assms have lt: "spent < 2 ^ LENGTH(128)"
    by (auto simp: charge_def result_iffs split: if_splits)
  then have val: "unat (word_of_nat spent :: u128) = spent" by (rule unat_of_nat_fits)
  from assms ow lt have rec: "record_spend l kept wallet n a spend now = (l', i)"
    and ok: "(case a of Native_Asset \<Rightarrow> check_native_spend_window p n (word_of_nat spent) spend
        | Usdt_Asset \<Rightarrow> check_treasury_usdt_window p n (word_of_nat spent) spend) = Inr ()"
    by (auto simp: charge_def result_iffs)
  have "spent + unat spend \<le> asset_cap p n a"
    using ok val by (cases a) (simp_all add: asset_cap_def check_native_window_Inr check_usdt_window_Inr)
  with rec same kept_def show thesis
    by (intro that [of kept]) (auto simp: record_spend_def new_row_def)
qed

lemma charge_keeps:
  assumes "charge p l wallet n a spend now = Inr (l', i)" "fresh_ids l" "now - SPEND_WINDOW \<le> s"
  shows "fresh_ids l'" "k \<le> sl_next l \<Longrightarrow> sum_from (old_rows k l') w' n' a' s = sum_from (old_rows k l) w' n' a' s"
    "sum_from (sl_rows l') w' n' a' s =
       sum_from (sl_rows l) w' n' a' s + sum_from [new_row i wallet n a spend now] w' n' a' s"
proof -
  obtain kept where l': "i = sl_next l" "sl_next l' = Suc (sl_next l)"
    "sl_rows l' = kept @ [new_row (sl_next l) wallet n a spend now]"
    "kept = filter (\<lambda>r. \<not> (row_of wallet n a r \<and> sw_at r < now - SPEND_WINDOW)) (sl_rows l)"
    by (rule charge_Inr [OF assms(1)])
  show "fresh_ids l'" using assms(2) l' by (auto simp: fresh_ids_def new_row_def)
  have kept: "sum_from (filter P kept) w' n' a' s = sum_from (filter P (sl_rows l)) w' n' a' s" for P
    unfolding l'(4) filter_filter conj_commute [of "P _"]
    using assms(3) sum_from_filter [of "filter P (sl_rows l)" w' n' a' s
        "\<lambda>r. \<not> (row_of wallet n a r \<and> sw_at r < now - SPEND_WINDOW)"]
    by (simp add: filter_filter conj_commute)
  show "sum_from (sl_rows l') w' n' a' s =
       sum_from (sl_rows l) w' n' a' s + sum_from [new_row i wallet n a spend now] w' n' a' s"
    using kept [of "\<lambda>_. True"] by (simp add: l')
  show "sum_from (old_rows k l') w' n' a' s = sum_from (old_rows k l) w' n' a' s" if "k \<le> sl_next l"
    using kept [of "\<lambda>r. sw_id r < k"] that by (simp add: l' old_rows_def new_row_def)
qed

lemma charge_next: "charge p l wallet n a spend now = Inr (l', i) \<Longrightarrow> i = sl_next l \<and> sl_next l' = Suc (sl_next l)"
  by (erule charge_Inr) simp

text \<open>Releasing what a request charged gives every older row back as it was.\<close>

lemma release_all_old:
  "\<forall>i \<in> set ids. k \<le> i \<Longrightarrow> old_rows k (release_all w l ids) = old_rows k l"
proof (induction ids arbitrary: l)
  case (Cons i ids)
  have "old_rows k (release_row l i) = old_rows k l"
    using Cons.prems by (auto simp: old_rows_def release_row_def filter_filter intro!: filter_cong)
  with Cons show ?case by (simp add: release_all_def)
qed (simp add: release_all_def)

lemma release_all_fresh: "fresh_ids l \<Longrightarrow> fresh_ids (release_all w l ids)"
proof (induction ids arbitrary: l)
  case (Cons i ids)
  then show ?case by (simp add: release_all_def release_row_def fresh_ids_def)
qed (simp add: release_all_def)

text \<open>The spends an answer stands for, as rows.\<close>

definition usdt_spends :: "signer_world \<Rightarrow> uuid \<Rightarrow> network \<Rightarrow> u128 option \<Rightarrow> spend_row list" where
  "usdt_spends w wallet n usdt =
     (case usdt of
        Some amount \<Rightarrow>
          if wallet_class_of wallet = Treasury_Class
          then [new_row 0 TREASURY_WALLET n Usdt_Asset amount (w_now_usdt w)] else []
      | None \<Rightarrow> [])"

definition spends_of :: "signer_world \<Rightarrow> uuid \<Rightarrow> network \<Rightarrow> u128 option \<Rightarrow> u128 \<Rightarrow> spend_row list" where
  "spends_of w wallet n usdt v =
     usdt_spends w wallet n usdt @ [new_row 0 wallet n Native_Asset v (w_now_native w)]"

lemma charge_usdt_cases:
  assumes "(case usdt of
              Some amount \<Rightarrow> charge_treasury_usdt p l (wallet_class_of wallet) n amount (w_now_usdt w)
            | None \<Rightarrow> Inr (l, [])) = Inr (l1, ids)"
  obtains (none) "l1 = l" "ids = []" "usdt_spends w wallet n usdt = []"
  | (charged) amount i where "usdt_spends w wallet n usdt = [new_row 0 TREASURY_WALLET n Usdt_Asset amount (w_now_usdt w)]"
      "ids = [i]" "charge p l TREASURY_WALLET n Usdt_Asset amount (w_now_usdt w) = Inr (l1, i)"
  using assms
  by (auto simp: charge_treasury_usdt_def usdt_spends_def result_iffs split: option.splits wallet_class.splits)

lemma sum_from_id: "sum_from [new_row i wallet n a v t] w' n' a' s = sum_from [new_row 0 wallet n a v t] w' n' a' s"
  by (simp add: sum_from_single new_row_def row_of_def)

lemma charge_usdt_keeps:
  assumes c: "(case usdt of
              Some amount \<Rightarrow> charge_treasury_usdt p l (wallet_class_of wallet) n amount (w_now_usdt w)
            | None \<Rightarrow> Inr (l, [])) = Inr (l1, ids)"
    and l: "fresh_ids l" and s: "w_now_usdt w - SPEND_WINDOW \<le> s"
  shows "fresh_ids l1 \<and> sl_next l \<le> sl_next l1 \<and> (\<forall>i \<in> set ids. sl_next l \<le> i) \<and>
    sum_from (old_rows (sl_next l) l1) w' n' a' s = sum_from (sl_rows l) w' n' a' s \<and>
    sum_from (sl_rows l1) w' n' a' s = sum_from (sl_rows l) w' n' a' s + sum_from (usdt_spends w wallet n usdt) w' n' a' s"
  using c
proof (cases rule: charge_usdt_cases)
  case none
  with l show ?thesis by (simp add: old_rows_all)
next
  case (charged amount i)
  note k = charge_keeps [OF charged(3) l s] charge_next [OF charged(3)]
  show ?thesis
    using k(1,4) k(2) [of "sl_next l" w' n' a'] k(3) [of w' n' a'] charged(1,2) old_rows_all [OF l]
    by (simp add: sum_from_id [of "sl_next l"])
qed

lemma charge_and_sign_keeps:
  assumes cs: "charge_and_sign w p st wallet n usdt spend attempt = (st', r)"
    and l: "fresh_ids (ss_ledger st)" and clock: "w_now_usdt w \<le> w_now_native w"
    and s: "w_now_native w - SPEND_WINDOW \<le> s"
  shows "fresh_ids (ss_ledger st') \<and>
    sum_from (sl_rows (ss_ledger st)) w' n' a' s \<le> sum_from (sl_rows (ss_ledger st')) w' n' a' s"
proof -
  let ?l = "ss_ledger st"
  have su: "w_now_usdt w - SPEND_WINDOW \<le> s" using clock s by simp
  show ?thesis
  proof (cases "ss_ledger st' = ?l")
    case True
    with l show ?thesis by simp
  next
    case False
    with cs obtain l1 ids where c1: "(case usdt of
              Some amount \<Rightarrow> charge_treasury_usdt p ?l (wallet_class_of wallet) n amount (w_now_usdt w)
            | None \<Rightarrow> Inr (?l, [])) = Inr (l1, ids)"
      by (auto simp: charge_and_sign_def split: sum.splits)
    note k1 = charge_usdt_keeps [OF c1 l su, of w' n' a']
    have released: "fresh_ids (release_all w l2 xs) \<and>
        sum_from (sl_rows ?l) w' n' a' s \<le> sum_from (sl_rows (release_all w l2 xs)) w' n' a' s"
      if "fresh_ids l2" "\<forall>i \<in> set xs. sl_next ?l \<le> i"
        "sum_from (old_rows (sl_next ?l) l2) w' n' a' s = sum_from (sl_rows ?l) w' n' a' s" for l2 xs
      using that release_all_fresh [of l2 w xs] release_all_old [OF that(2), of w l2]
        old_rows_le [of "sl_next ?l" "release_all w l2 xs" w' n' a' s] by simp
    from cs c1 consider "ss_ledger st' = l1" | "ss_ledger st' = release_all w l1 ids"
      | v l2 i where "charge p l1 wallet n Native_Asset v (w_now_native w) = Inr (l2, i)"
          "ss_ledger st' = l2 \<or> ss_ledger st' = release_all w l2 (ids @ [i])"
      by (auto simp: charge_and_sign_def split: sum.splits)
    then show ?thesis
    proof cases
      case 1
      with k1 show ?thesis by simp
    next
      case 2
      with k1 released [of l1 ids] show ?thesis by simp
    next
      case (3 v l2 i)
      note k2 = charge_keeps [OF 3(1) conjunct1 [OF k1] s] charge_next [OF 3(1)]
      have "sum_from (old_rows (sl_next ?l) l2) w' n' a' s = sum_from (sl_rows ?l) w' n' a' s"
        using k1 k2(2) [of "sl_next ?l" w' n' a'] by simp
      moreover have "\<forall>j \<in> set (ids @ [i]). sl_next ?l \<le> j" using k1 k2(4) by simp
      moreover note k2(1)
      ultimately show ?thesis
        using 3(2) released [of l2 "ids @ [i]"] old_rows_le [of "sl_next ?l" l2 w' n' a' s] by auto
    qed
  qed
qed

lemma charge_and_sign_Inr:
  assumes cs: "charge_and_sign w p st wallet n usdt spend attempt = (st', Inr x)"
    and l: "fresh_ids (ss_ledger st)" and clock: "w_now_usdt w \<le> w_now_native w"
  obtains v where "attempt = Inr x" "spend = Inr v"
    "\<And>w' n' a' s. w_now_native w - SPEND_WINDOW \<le> s \<Longrightarrow> sum_from (sl_rows (ss_ledger st')) w' n' a' s =
       sum_from (sl_rows (ss_ledger st)) w' n' a' s + sum_from (spends_of w wallet n usdt v) w' n' a' s"
    "\<And>f. f \<in> set (spends_of w wallet n usdt v) \<Longrightarrow>
       sum_from (sl_rows (ss_ledger st)) (sw_wallet f) (sw_network f) (sw_asset f) (sw_at f - SPEND_WINDOW)
         + unat (sw_spend f) \<le> asset_cap p (sw_network f) (sw_asset f)"
proof -
  let ?l = "ss_ledger st"
  from cs obtain l1 ids v l2 i where c1: "(case usdt of
              Some amount \<Rightarrow> charge_treasury_usdt p ?l (wallet_class_of wallet) n amount (w_now_usdt w)
            | None \<Rightarrow> Inr (?l, [])) = Inr (l1, ids)"
    and v: "spend = Inr v" and c2: "charge p l1 wallet n Native_Asset v (w_now_native w) = Inr (l2, i)"
    and a: "attempt = Inr x" "ss_ledger st' = l2"
    by (auto simp: charge_and_sign_def split: sum.splits)
  have step: "sum_from (sl_rows (ss_ledger st')) w' n' a' s =
      sum_from (sl_rows ?l) w' n' a' s + sum_from (spends_of w wallet n usdt v) w' n' a' s"
    if s: "w_now_native w - SPEND_WINDOW \<le> s" for w' n' a' s
  proof -
    have "w_now_usdt w - SPEND_WINDOW \<le> s" using clock s by simp
    note k1 = charge_usdt_keeps [OF c1 l this, of w' n' a']
    from charge_keeps(3) [OF c2 conjunct1 [OF k1] s, of w' n' a'] k1 show ?thesis
      by (simp add: a spends_of_def sum_from_id [of i])
  qed
  have native: "sum_from (sl_rows ?l) wallet n Native_Asset (w_now_native w - SPEND_WINDOW) + unat v \<le> asset_cap p n Native_Asset"
  proof -
    have "w_now_usdt w - SPEND_WINDOW \<le> w_now_native w - SPEND_WINDOW" using clock by simp
    note k1 = charge_usdt_keeps [OF c1 l this, of wallet n Native_Asset]
    have "sum_from (usdt_spends w wallet n usdt) wallet n Native_Asset (w_now_native w - SPEND_WINDOW) = 0"
      by (simp add: usdt_spends_def sum_from_single new_row_def row_of_def split: option.splits)
    with k1 show ?thesis by (rule_tac charge_Inr [OF c2]) simp
  qed
  have cash: "sum_from (sl_rows ?l) (sw_wallet f) (sw_network f) (sw_asset f) (sw_at f - SPEND_WINDOW)
         + unat (sw_spend f) \<le> asset_cap p (sw_network f) (sw_asset f)"
    if f: "f \<in> set (usdt_spends w wallet n usdt)" for f
    using c1
  proof (cases rule: charge_usdt_cases)
    case none
    with f show ?thesis by simp
  next
    case (charged amount j)
    with f have "f = new_row 0 TREASURY_WALLET n Usdt_Asset amount (w_now_usdt w)" by simp
    then show ?thesis by (simp add: new_row_def) (rule charge_Inr [OF charged(3)])
  qed
  show thesis
  proof (rule that [OF a(1) v step])
    fix f assume "f \<in> set (spends_of w wallet n usdt v)"
    then show "sum_from (sl_rows ?l) (sw_wallet f) (sw_network f) (sw_asset f) (sw_at f - SPEND_WINDOW)
         + unat (sw_spend f) \<le> asset_cap p (sw_network f) (sw_asset f)"
      using cash native by (auto simp: spends_of_def new_row_def)
  qed
qed

section \<open>Any sequence of calls\<close>

definition signed_spends :: "signer_world \<Rightarrow> signed \<Rightarrow> spend_row list" where
  "signed_spends w x = spends_of w (sg_wallet x) (sg_network x) (usdt_of (sg_transfer x)) (sg_commits x)"

text \<open>The third argument collects what every answer so far stands for.\<close>

inductive signer_run :: "signer_policy \<Rightarrow> signer_state \<Rightarrow> spend_row list \<Rightarrow> int \<Rightarrow> bool" for env where
  start: "signer_run env \<lparr>ss_ledger = \<lparr>sl_rows = [], sl_next = 0\<rparr>, ss_pins = \<lambda>_ _. None, ss_watch = None\<rparr> [] clock"
| serve: "signer_run env st log clock \<Longrightarrow> serve w env st call = (st', r) \<Longrightarrow> clock \<le> w_now_usdt w \<Longrightarrow>
    w_now_usdt w \<le> w_now_native w \<Longrightarrow>
    signer_run env st' (log @ (case r of Inl _ \<Rightarrow> [] | Inr x \<Rightarrow> signed_spends w x)) (w_now_native w)"

definition between :: "spend_row list \<Rightarrow> uuid \<Rightarrow> network \<Rightarrow> asset \<Rightarrow> int \<Rightarrow> int \<Rightarrow> nat" where
  "between rows wallet n a s t =
     sum_list (map (\<lambda>r. unat (sw_spend r)) (filter (\<lambda>r. row_of wallet n a r \<and> s \<le> sw_at r \<and> sw_at r \<le> t) rows))"

definition run_ok :: "signer_policy \<Rightarrow> signer_state \<Rightarrow> spend_row list \<Rightarrow> int \<Rightarrow> bool" where
  "run_ok env st log clock \<longleftrightarrow> fresh_ids (ss_ledger st) \<and> (\<forall>f \<in> set log. sw_at f \<le> clock) \<and>
     (\<forall>wallet n a s. clock - SPEND_WINDOW \<le> s \<longrightarrow>
        sum_from log wallet n a s \<le> sum_from (sl_rows (ss_ledger st)) wallet n a s) \<and>
     (\<forall>wallet n a t. between log wallet n a (t - SPEND_WINDOW) t \<le> asset_cap env n a)"

lemma asset_cap_tightened: "asset_cap (tightened env b) n a \<le> asset_cap env n a"
  by (cases a) (simp_all add: asset_cap_def min_cap_le(1) flip: word_le_nat_alt)

lemma between_append [simp]: "between (xs @ ys) wallet n a s t = between xs wallet n a s t + between ys wallet n a s t"
  by (simp add: between_def)

lemma between_le_from: "between rows wallet n a s t \<le> sum_from rows wallet n a s"
  by (induction rows) (auto simp: between_def sum_from_def)

lemma sum_from_mono: "s \<le> s' \<Longrightarrow> sum_from rows wallet n a s' \<le> sum_from rows wallet n a s"
  by (induction rows) (auto simp: sum_from_def)

text \<open>A spend admitted against the ledger keeps every window of its key.\<close>

lemma between_new:
  assumes old: "between log wallet n a (t - SPEND_WINDOW) t \<le> c"
    and covered: "sum_from log wallet n a (sw_at f - SPEND_WINDOW) + unat (sw_spend f) \<le> c"
    and key: "row_of wallet n a f"
  shows "between (log @ [f]) wallet n a (t - SPEND_WINDOW) t \<le> c"
proof (cases "t - SPEND_WINDOW \<le> sw_at f \<and> sw_at f \<le> t")
  case True
  then have "sw_at f - SPEND_WINDOW \<le> t - SPEND_WINDOW" by simp
  then have "between log wallet n a (t - SPEND_WINDOW) t \<le> sum_from log wallet n a (sw_at f - SPEND_WINDOW)"
    by (meson between_le_from le_trans sum_from_mono)
  with True covered key show ?thesis by (simp add: between_def)
qed (use old in \<open>auto simp: between_def\<close>)

lemma between_other: "\<not> row_of wallet n a f \<Longrightarrow> between (log @ [f]) wallet n a s t = between log wallet n a s t"
  by (simp add: between_def)

lemma between_spends:
  assumes old: "\<And>wallet n a t. between log wallet n a (t - SPEND_WINDOW) t \<le> asset_cap env n a"
    and covered: "\<And>f. f \<in> set fs \<Longrightarrow>
      sum_from log (sw_wallet f) (sw_network f) (sw_asset f) (sw_at f - SPEND_WINDOW) + unat (sw_spend f)
        \<le> asset_cap env (sw_network f) (sw_asset f)"
    and apart: "distinct (map sw_asset fs)"
  shows "between (log @ fs) wallet n a (t - SPEND_WINDOW) t \<le> asset_cap env n a"
  using covered apart
proof (induction fs rule: rev_induct)
  case (snoc f fs)
  have IH: "between (log @ fs) wallet n a (t - SPEND_WINDOW) t \<le> asset_cap env n a"
    using snoc by simp
  show ?case
  proof (cases "row_of wallet n a f")
    case True
    then have key: "sw_wallet f = wallet" "sw_network f = n" "sw_asset f = a" by (simp_all add: row_of_def)
    have "\<not> row_of wallet n a g" if "g \<in> set fs" for g
      using imageI [OF that, of sw_asset] snoc.prems(2) key(3) by (auto simp: row_of_def)
    then have "sum_from fs wallet n a s = 0" for s by (simp add: sum_from_def filter_empty_conv)
    then have "sum_from (log @ fs) wallet n a (sw_at f - SPEND_WINDOW) + unat (sw_spend f) \<le> asset_cap env n a"
      using snoc.prems(1) [of f] key by simp
    from between_new [OF IH this True] show ?thesis by simp
  next
    case False
    from between_other [OF this, of "log @ fs"] IH show ?thesis by simp
  qed
qed (use old in simp)

lemma run_ok_serve:
  assumes ok: "run_ok env st log clock" and s: "serve w env st call = (st', r)"
    and t1: "clock \<le> w_now_usdt w" and t2: "w_now_usdt w \<le> w_now_native w"
  shows "run_ok env st' (log @ (case r of Inl _ \<Rightarrow> [] | Inr x \<Rightarrow> signed_spends w x)) (w_now_native w)"
proof -
  note okD = ok [unfolded run_ok_def]
  have idle: "run_ok env st' log (w_now_native w)"
    if fresh: "fresh_ids (ss_ledger st')"
      and grow0: "\<And>wallet n a s. w_now_native w - SPEND_WINDOW \<le> s \<Longrightarrow>
        sum_from (sl_rows (ss_ledger st)) wallet n a s \<le> sum_from (sl_rows (ss_ledger st')) wallet n a s"
    unfolding run_ok_def
  proof (intro conjI allI impI ballI)
    show "sw_at f \<le> w_now_native w" if "f \<in> set log" for f using okD that t1 t2 by fastforce
    show "sum_from log wallet n a s \<le> sum_from (sl_rows (ss_ledger st')) wallet n a s"
      if "w_now_native w - SPEND_WINDOW \<le> s" for wallet n a s
    proof -
      have "clock - SPEND_WINDOW \<le> s" using that t1 t2 by simp
      then have "sum_from log wallet n a s \<le> sum_from (sl_rows (ss_ledger st)) wallet n a s" using okD by blast
      then show ?thesis using grow0 [OF that] by (rule le_trans)
    qed
  qed (use fresh okD in blast)+
  obtain st1 b where bp: "braked_policy w env st = (st1, b)" by fastforce
  then show ?thesis
  proof (cases rule: braked_policy_cases)
    case (refused e)
    then have "st' = st1" "r = Inl e" using serve_refused [of w env st st1 e call] bp s by simp_all
    with refused(2) idle okD show ?thesis by simp
  next
    case (released row brake)
    from serve_tail [OF bp [unfolded released(4)] released(5) s] consider
      (quiet) e where "r = Inl e" "ss_ledger st' = ss_ledger st"
    | (tail) st2 wallet n t spend commits attempt where "ss_ledger st2 = ss_ledger st"
        "\<forall>v. spend = Inr v \<longrightarrow> commits = v"
        "charge_and_sign w (tightened env brake) st2 wallet n (usdt_of t) spend
           (rmap (answer wallet n t commits) attempt) = (st', r)"
      unfolding tail_of_def by blast
    then show ?thesis
    proof cases
      case quiet
      with idle okD show ?thesis by simp
    next
      case tail
      have l: "fresh_ids (ss_ledger st2)" using okD tail(1) by simp
      note keeps = charge_and_sign_keeps [OF tail(3) l t2]
      show ?thesis
      proof (cases r)
        case (Inl e)
        have "fresh_ids (ss_ledger st')" using keeps [of "w_now_native w"] by (simp add: SPEND_WINDOW_def)
        from idle [OF this] keeps tail(1) have "run_ok env st' log (w_now_native w)" by simp
        then show ?thesis by (simp add: Inl)
      next
        case (Inr x)
        obtain v where v: "rmap (answer wallet n t commits) attempt = Inr x" "spend = Inr v"
          and grow: "\<And>w' n' a' s. w_now_native w - SPEND_WINDOW \<le> s \<Longrightarrow>
             sum_from (sl_rows (ss_ledger st')) w' n' a' s =
             sum_from (sl_rows (ss_ledger st)) w' n' a' s + sum_from (spends_of w wallet n (usdt_of t) v) w' n' a' s"
          and fits: "\<And>f. f \<in> set (spends_of w wallet n (usdt_of t) v) \<Longrightarrow>
             sum_from (sl_rows (ss_ledger st)) (sw_wallet f) (sw_network f) (sw_asset f) (sw_at f - SPEND_WINDOW)
               + unat (sw_spend f) \<le> asset_cap (tightened env brake) (sw_network f) (sw_asset f)"
          using charge_and_sign_Inr [OF tail(3) [unfolded Inr] l t2] tail(1) by metis
        have x: "signed_spends w x = spends_of w wallet n (usdt_of t) v"
          using v tail(2) by (auto simp: signed_spends_def result_iffs answer_def)
        let ?fs = "spends_of w wallet n (usdt_of t) v"
        have times: "w_now_usdt w \<le> sw_at f \<and> sw_at f \<le> w_now_native w" if "f \<in> set ?fs" for f
          using that t2 by (auto simp: spends_of_def usdt_spends_def new_row_def split: option.splits if_splits)
        have "distinct (map sw_asset ?fs)"
          by (auto simp: spends_of_def usdt_spends_def new_row_def split: option.splits)
        moreover have "sum_from log (sw_wallet f) (sw_network f) (sw_asset f) (sw_at f - SPEND_WINDOW)
            + unat (sw_spend f) \<le> asset_cap env (sw_network f) (sw_asset f)" if f: "f \<in> set ?fs" for f
        proof -
          have "clock - SPEND_WINDOW \<le> sw_at f - SPEND_WINDOW" using times [OF f] t1 by simp
          then have "sum_from log (sw_wallet f) (sw_network f) (sw_asset f) (sw_at f - SPEND_WINDOW) \<le>
              sum_from (sl_rows (ss_ledger st)) (sw_wallet f) (sw_network f) (sw_asset f) (sw_at f - SPEND_WINDOW)"
            using okD by blast
          with fits [OF f] asset_cap_tightened [of env brake "sw_network f" "sw_asset f"] show ?thesis by linarith
        qed
        ultimately have caps: "between (log @ ?fs) w' n' a' (u - SPEND_WINDOW) u \<le> asset_cap env n' a'" for w' n' a' u
          using okD by (intro between_spends) auto
        show ?thesis
          unfolding run_ok_def Inr sum.case x
        proof (intro conjI allI impI ballI)
          show "fresh_ids (ss_ledger st')" using keeps [of "w_now_native w"] by (simp add: SPEND_WINDOW_def)
          show "sw_at f \<le> w_now_native w" if "f \<in> set (log @ ?fs)" for f
            using that okD times t1 t2 by fastforce
          show "sum_from (log @ ?fs) w' n' a' s \<le> sum_from (sl_rows (ss_ledger st')) w' n' a' s"
            if s: "w_now_native w - SPEND_WINDOW \<le> s" for w' n' a' s
          proof -
            have "clock - SPEND_WINDOW \<le> s" using s t1 t2 by simp
            then have "sum_from log w' n' a' s \<le> sum_from (sl_rows (ss_ledger st)) w' n' a' s" using okD by blast
            then show ?thesis by (simp add: grow [OF s])
          qed
        qed (rule caps)
      qed
    qed
  qed
qed

lemma run_ok: "signer_run env st log clock \<Longrightarrow> run_ok env st log clock"
proof (induction rule: signer_run.induct)
  case (start clock)
  show ?case by (simp add: run_ok_def fresh_ids_def between_def)
next
  case (serve st log clock w call st' r)
  from run_ok_serve [OF serve.IH serve.hyps(2-4)] show ?case .
qed

section \<open>The properties\<close>




section \<open>A sample transfer\<close>

definition sample_world :: signer_world where
  "sample_world = \<lparr>w_libs = \<lparr>al_hex = \<lambda>_. None, al_tron = \<lambda>_. None, al_ton = Some\<rparr>, w_keccak = \<lambda>s. s,
     w_parse_uuid = \<lambda>_. None,
     w_brake = Inr (Some \<lparr>br_halted = False, br_max_transfer_usdt = None, br_max_treasury_usdt_per_hour = Some 20,
       br_bep20 = None, br_polygon = None, br_trc20 = None, br_ton = None, br_reason = None, br_updated_at = ''t''\<rparr>),
     w_find_address = \<lambda>_ _. Inr None, w_find_active = \<lambda>_ _. Inr None,
     w_public_key = \<lambda>_ _. Inr (replicate 32 CHR ''k''), w_render_ton = \<lambda>_. Inr ''own'',
     w_sign_digest = \<lambda>_ _ _ _. Inl (Internal ''off''), w_sign_tron = \<lambda>_ _. Inl (Internal ''off''),
     w_sign_ton = \<lambda>_ _ _. Inr ''raw'', w_now_usdt = 10, w_now_native = 11, w_released = \<lambda>_. True\<rparr>"

definition sample_call :: signer_call where
  "sample_call = Sign_Jetton \<lparr>nq_network = ''ton'', nq_from_user_id = '''', nq_to_address = ''alice'',
     nq_amount = ''7'', nq_seqno = 1, nq_valid_until = 60, nq_our_jetton_wallet = ''jw'',
     nq_response_destination = ''own'', nq_msg_value = 9, nq_forward_ton_amount = 1\<rparr>"

definition sample_start :: signer_state where
  "sample_start = \<lparr>ss_ledger = \<lparr>sl_rows = [], sl_next = 0\<rparr>, ss_pins = \<lambda>_ _. None, ss_watch = None\<rparr>"

definition sample_signed :: signed where
  "sample_signed = \<lparr>sg_wallet = TREASURY_WALLET, sg_network = Ton, sg_transfer = Token_Transfer None ''alice'' 7,
     sg_commits = 9, sg_raw = ''raw''\<rparr>"


definition sample_brake :: spend_brake where
  "sample_brake = \<lparr>sb_halted = False, sb_max_transfer_usdt = None, sb_max_treasury_usdt_per_hour = Some 20,
     sb_native_spend = \<lparr>nb_bep20_wei = None, nb_polygon_wei = None, nb_trc20_sun = None, nb_ton_nano = None\<rparr>,
     sb_reason = None, sb_updated_at = ''t''\<rparr>"

definition sample_after :: signer_state where
  "sample_after = \<lparr>ss_ledger = \<lparr>sl_rows = [new_row 0 TREASURY_WALLET Ton Usdt_Asset 7 10,
       new_row 1 TREASURY_WALLET Ton Native_Asset 9 11], sl_next = 2\<rparr>,
     ss_pins = (\<lambda>_ _. None)(TREASURY_WALLET := (\<lambda>_. None)(Ton := Some ''jw'')),
     ss_watch = Some sample_brake\<rparr>"

lemma sample_braked: "braked_policy sample_world signer_policy_default sample_start =
    (sample_start\<lparr>ss_watch := Some sample_brake\<rparr>, Inr (tightened signer_policy_default sample_brake))"
  by (simp add: braked_policy_def from_signer_def sample_world_def read_brake_def transpose_opt_def parse_usdt_cap_def
      observe_def sample_start_def sample_brake_def require_released_def)

lemma sample_checks:
  "check_fee_budget (tightened signer_policy_default sample_brake) Ton (Ton_Fee 9 1) = Inr ()"
  "guard_token_transfer sample_world (tightened signer_policy_default sample_brake) Treasury_Class Ton None ''alice'' 7 = Inr ()"
  by (simp_all add: guard_token_transfer_def check_treasury_transfer_Inr signer_policy_default_def check_fee_budget_def
   fee_budget_default_def deny_over_def min_cap_def sample_brake_def token_pins_default_def DEFAULT_MAX_TRANSFER_USDT_def)


lemma sample_usdt:
  "charge (tightened signer_policy_default sample_brake) \<lparr>sl_rows = [], sl_next = 0\<rparr>
      TREASURY_WALLET Ton Usdt_Asset 7 10 =
    Inr (\<lparr>sl_rows = [new_row 0 TREASURY_WALLET Ton Usdt_Asset 7 10], sl_next = 1\<rparr>, 0)"
proof -
  have "check_treasury_usdt_window (tightened signer_policy_default sample_brake) Ton 0 7 = Inr ()"
    by (simp add: check_usdt_window_Inr signer_policy_default_def sample_brake_def min_cap_def DEFAULT_MAX_TREASURY_USDT_PER_HOUR_def)
  then show ?thesis
    by (simp add: charge_def from_signer_def numeral_2_eq_2 open_window_def record_spend_def new_row_def)
qed

lemma sample_native:
  "charge (tightened signer_policy_default sample_brake) \<lparr>sl_rows = [new_row 0 TREASURY_WALLET Ton Usdt_Asset 7 10], sl_next = 1\<rparr>
      TREASURY_WALLET Ton Native_Asset 9 11 =
    Inr (\<lparr>sl_rows = [new_row 0 TREASURY_WALLET Ton Usdt_Asset 7 10,
      new_row 1 TREASURY_WALLET Ton Native_Asset 9 11], sl_next = 2\<rparr>, 1)"
proof -
  have "check_native_spend_window (tightened signer_policy_default sample_brake) Ton 0 9 = Inr ()"
    by (simp add: check_native_window_Inr signer_policy_default_def sample_brake_def min_cap_def native_spend_default_def tightened_def)
  then show ?thesis
    by (simp add: charge_def from_signer_def numeral_2_eq_2 open_window_def record_spend_def new_row_def row_of_def)
qed

lemma sample_served:
  "serve sample_world signer_policy_default sample_start sample_call = (sample_after, Inr sample_signed)"
proof -
  have amount: "parse_u128 ''7'' = Some 7" by (simp add: parse_u128_def starts_with_def is_ascii_digit_def byte_def digit_value_def)
  have ton: "require_ton ''ton'' = Inr Ton" by (simp add: require_ton_def network_parse_def)
  have cls: "wallet_class_of TREASURY_WALLET = Treasury_Class" by (simp add: wallet_class_of_def)
  have operator: "sp_ton_treasury_jetton_wallet signer_policy_default = None" by (simp add: signer_policy_default_def)
  have guarded: "guard_jetton_wallet sample_world (tightened signer_policy_default sample_brake)
      (sample_start\<lparr>ss_watch := Some sample_brake\<rparr>) TREASURY_WALLET ''jw'' =
    (sample_after\<lparr>ss_ledger := \<lparr>sl_rows = [], sl_next = 0\<rparr>\<rparr>, Inr ())"
    by (simp add: guard_jetton_wallet_def cls operator sample_world_def sample_start_def sample_after_def
        stored_rendering_def learn_or_read_def)
  have own: "ton_public_key sample_world TREASURY_WALLET = Inr (replicate 32 CHR ''k'')"
    "guard_response_destination sample_world (tightened signer_policy_default sample_brake) Treasury_Class key ''own'' = Inr ()" for key
    by (simp_all add: ton_public_key_def sample_world_def guard_response_destination_def from_signer_def
        check_treasury_response_destination_def addresses_agree_def)
  have clocks: "w_now_usdt sample_world = 10" "w_now_native sample_world = 11" by (simp_all add: sample_world_def)
  have backend: "w_sign_ton sample_world wallet key tx = Inr ''raw''" for wallet key tx by (simp add: sample_world_def)
  show ?thesis
    by (simp add: sample_call_def sign_jetton_transfer_def sample_braked ton resolve_wallet_def parse_amount_def amount
        cls sample_checks guarded own charge_and_sign_def charge_treasury_usdt_def
        clocks backend sample_usdt sample_native [unfolded One_nat_def] answer_def sample_signed_def)
      (simp add: sample_after_def)
qed




end
