(* ===== verification/Payments.thy ===== *)
theory Payments
  imports FeeTerms "HOL-Library.List_Lexorder" "HOL-Library.Char_ord"
begin

text \<open>
  Payment orders (\<^verbatim>\<open>domain/src/payments.rs\<close>): what a payment names, who must approve it,
  the order's states and the facts it raises, and the bytes its approvals are taken over, with the
  approval payload of \<^verbatim>\<open>domain/src/scope_operations.rs\<close>.  An id's text is a parameter, as in
  \<open>Balance\<close>; the sha-256 of a payload is taken outside the domain and passed in.  A fallible
  operation leaves the order as it was, so it returns the new order or the error.
\<close>

section \<open>Approval payloads\<close>

datatype approval_value =
    Text_Value string | Amount_Value usdt | Flag_Value bool | User_Value string | Count_Value u64

record approval_field =
  af_key :: string
  af_value :: approval_value

definition APPROVAL_CURRENCY :: string where
  "APPROVAL_CURRENCY = ''USDT''"

fun value_type_name :: "approval_value \<Rightarrow> string" where
  "value_type_name (Text_Value _) = ''TEXT''"
| "value_type_name (Amount_Value _) = ''AMOUNT''"
| "value_type_name (Flag_Value _) = ''FLAG''"
| "value_type_name (User_Value _) = ''USER''"
| "value_type_name (Count_Value _) = ''COUNT''"

fun value_encoded :: "approval_value \<Rightarrow> string" where
  "value_encoded (Text_Value t) = t"
| "value_encoded (User_Value t) = t"
| "value_encoded (Amount_Value a) = to_decimal_string a @ '' '' @ APPROVAL_CURRENCY"
| "value_encoded (Flag_Value b) = (if b then ''true'' else ''false'')"
| "value_encoded (Count_Value c) = show_nat (unat c)"

definition TAB :: string where
  "TAB = [CHR 0x09]"

definition NL :: string where
  "NL = [CHR 0x0A]"

definition approval_payload :: "string \<Rightarrow> string \<Rightarrow> string \<Rightarrow> approval_field list \<Rightarrow> string" where
  "approval_payload kind scope subject_ref fs =
     ''ev-approval-v1'' @ NL @ kind @ NL @ scope @ NL @ subject_ref @ NL @
     concat (map (\<lambda>f. af_key f @ TAB @ value_type_name (af_value f) @ TAB @ value_encoded (af_value f) @ NL)
       (sort_key af_key fs))"

definition PAYMENT_KIND :: string where
  "PAYMENT_KIND = ''bank:payment''"

definition PAYMENT_APPROVAL_SCOPE :: string where
  "PAYMENT_APPROVAL_SCOPE = ''main''"

definition APPROVAL_TEXT_MAX_BYTES :: nat where
  "APPROVAL_TEXT_MAX_BYTES = 200"

text \<open>
  Lowering a text in Unicode turns no other character into one of the two patterns', so on bytes
  it is lowering the ASCII letters.
\<close>

definition is_plain_text :: "string \<Rightarrow> bool" where
  "is_plain_text v \<longleftrightarrow>
     (let lowered = to_ascii_lowercase v in
      length v \<le> APPROVAL_TEXT_MAX_BYTES \<and> \<not> has_control v \<and> \<not> contains ''://'' lowered \<and> \<not> contains ''www.'' lowered)"

section \<open>What a payment names\<close>

datatype payment_reason = PaymentReason (reason_str: string)

definition PAYMENT_REASON_BYTES :: nat where
  "PAYMENT_REASON_BYTES = 500"

definition payment_reason_new :: "string \<Rightarrow> payment_reason result" where
  "payment_reason_new v =
     (if trim v = [] then Inl (Validation ''a payment must state a reason'')
      else if PAYMENT_REASON_BYTES < length v
      then Inl (Validation (''reason exceeds '' @ show_nat PAYMENT_REASON_BYTES @ '' bytes''))
      else if has_control v then Inl (Validation ''reason may not contain control characters'')
      else Inr (PaymentReason v))"

datatype payment_destination =
    Internal party | External (ext_network: network) (ext_address: wallet_address)

datatype payment_tier = Internal_Tier | Service_Tier | External_Tier

fun payment_tier_str :: "payment_tier \<Rightarrow> string" where
  "payment_tier_str Internal_Tier = ''internal''"
| "payment_tier_str Service_Tier = ''service''"
| "payment_tier_str External_Tier = ''external''"

definition payment_tier_parse :: "string \<Rightarrow> payment_tier result" where
  "payment_tier_parse raw =
     (if raw = ''internal'' then Inr Internal_Tier
      else if raw = ''service'' then Inr Service_Tier
      else if raw = ''external'' then Inr External_Tier
      else Inl (Validation (''unknown payment tier: '' @ raw)))"

fun settles_on_the_ledger :: "payment_tier \<Rightarrow> bool" where
  "settles_on_the_ledger Internal_Tier = True"
| "settles_on_the_ledger Service_Tier = True"
| "settles_on_the_ledger External_Tier = False"

fun destination_tier :: "payment_destination \<Rightarrow> payment_tier" where
  "destination_tier (External _ _) = External_Tier"
| "destination_tier (Internal (Service_Party _)) = Service_Tier"
| "destination_tier (Internal Treasury) = Service_Tier"
| "destination_tier (Internal (User_Party _)) = Internal_Tier"

fun destination_claim_key :: "payment_destination \<Rightarrow> account_key option" where
  "destination_claim_key (Internal p) = Some (party_claim_key p)"
| "destination_claim_key (External _ _) = None"

fun destination_party :: "payment_destination \<Rightarrow> party option" where
  "destination_party (Internal p) = Some p"
| "destination_party (External _ _) = None"

datatype payment_effect = Withdrawal_Effect uuid | Transfer_Effect

fun effect_matches :: "payment_effect \<Rightarrow> payment_tier \<Rightarrow> bool" where
  "effect_matches (Withdrawal_Effect _) tier \<longleftrightarrow> \<not> settles_on_the_ledger tier"
| "effect_matches Transfer_Effect tier \<longleftrightarrow> settles_on_the_ledger tier"

datatype payment_approval = OwnerConsilium_Approval | SubjectConsent uuid

fun payment_approval_str :: "payment_approval \<Rightarrow> string" where
  "payment_approval_str OwnerConsilium_Approval = ''owner_consilium''"
| "payment_approval_str (SubjectConsent _) = ''subject_consent''"

fun approval_subject :: "payment_approval \<Rightarrow> uuid option" where
  "approval_subject OwnerConsilium_Approval = None"
| "approval_subject (SubjectConsent user) = Some user"

record payment_terms =
  pt_from :: party
  pt_to :: payment_destination
  pt_amount :: usdt
  pt_reason :: payment_reason

definition payment_terms_new ::
  "party \<Rightarrow> payment_destination \<Rightarrow> usdt \<Rightarrow> payment_reason \<Rightarrow> payment_terms result" where
  "payment_terms_new from to amount reason =
     (if destination_party to = Some from
      then Inl (Validation ''a payment cannot name the same claim as both ends'')
      else if usdt_is_zero amount then Inl (Validation ''a payment must move a non-zero amount'')
      else if destination_party to = Some Treasury
      then Inl (Validation ''banking's treasury is not a payment destination'')
      else if (case to of External n a \<Rightarrow> wa_network a \<noteq> n | Internal _ \<Rightarrow> False)
      then Inl (Validation ''payment address is for a different network'')
      else Inr \<lparr>pt_from = from, pt_to = to, pt_amount = amount, pt_reason = reason\<rparr>)"

definition payment_tier :: "payment_terms \<Rightarrow> payment_tier" where
  "payment_tier t = destination_tier (pt_to t)"

definition payment_source_claim :: "payment_terms \<Rightarrow> account_key" where
  "payment_source_claim t = party_claim_key (pt_from t)"

definition payment_requirement :: "payment_terms \<Rightarrow> payment_approval" where
  "payment_requirement t =
     (case pt_from t of
        User_Party user \<Rightarrow> SubjectConsent user
      | Service_Party _ \<Rightarrow> OwnerConsilium_Approval
      | Treasury \<Rightarrow> OwnerConsilium_Approval)"

definition party_label :: "(uuid \<Rightarrow> string) \<Rightarrow> party \<Rightarrow> string" where
  "party_label show_uuid p =
     (case p of
        Service_Party s \<Rightarrow>
          if s = service_fee then ''the fee allocation''
          else if s = service_fund then ''the fund allocation''
          else ''the '' @ service_id_str s @ '' product''
      | User_Party user \<Rightarrow> ''investor '' @ show_uuid user
      | Treasury \<Rightarrow> ''banking's treasury'')"

definition destination_label :: "(uuid \<Rightarrow> string) \<Rightarrow> payment_terms \<Rightarrow> string" where
  "destination_label show_uuid t =
     (case pt_to t of
        Internal p \<Rightarrow> party_label show_uuid p
      | External n a \<Rightarrow> wa_value a @ '' on '' @ network_str n)"

definition payment_approval_fields ::
  "(uuid \<Rightarrow> string) \<Rightarrow> payment_terms \<Rightarrow> string \<Rightarrow> approval_field list result" where
  "payment_approval_fields show_uuid t destination =
     (let text_field = (\<lambda>key v.
            if \<not> is_plain_text v
            then Inl (Validation (''the '' @ key @ '' of a payment decided by the platform owners is at most '' @
              show_nat APPROVAL_TEXT_MAX_BYTES @ '' bytes of plain text without a link''))
            else Inr \<lparr>af_key = key, af_value = Text_Value v\<rparr>)
      in rbind (text_field ''tier'' (payment_tier_str (payment_tier t))) (\<lambda>tier.
         rbind (text_field ''source'' (party_label show_uuid (pt_from t))) (\<lambda>source.
         rbind (text_field ''destination'' destination) (\<lambda>dest.
         rbind (text_field ''reason'' (reason_str (pt_reason t))) (\<lambda>reason.
         Inr [tier, source, dest, \<lparr>af_key = ''amount'', af_value = Amount_Value (pt_amount t)\<rparr>, reason])))))"

section \<open>The signed bytes\<close>

definition PAYMENT_TERMS_DOMAIN :: string where
  "PAYMENT_TERMS_DOMAIN = ''banking.v1.PaymentTerms'' @ [CHR 0x00]"

definition payment_terms_bytes :: "(uuid \<Rightarrow> string) \<Rightarrow> payment_terms \<Rightarrow> string" where
  "payment_terms_bytes show_uuid t =
     (let out = PAYMENT_TERMS_DOMAIN;
          out = push_field out (party_kind_str (pt_from t));
          out = push_field out (party_id_str show_uuid (pt_from t));
          out = (case pt_to t of
                   Internal p \<Rightarrow>
                     (let out = push_field out ''internal'';
                          out = push_field out (party_kind_str p)
                      in push_field out (party_id_str show_uuid p))
                 | External n a \<Rightarrow>
                     (let out = push_field out ''external'';
                          out = push_field out (network_str n)
                      in push_field out (wa_value a)));
          out = out @ u128_to_be_bytes (usdt_units (pt_amount t))
      in push_field out (reason_str (pt_reason t)))"

record payment_subject =
  ps_payment :: uuid
  ps_terms :: payment_terms

definition PAYMENT_SUBJECT_DOMAIN :: string where
  "PAYMENT_SUBJECT_DOMAIN = ''banking.v1.PaymentSubject'' @ [CHR 0x00]"

definition payment_subject_bytes :: "(uuid \<Rightarrow> string) \<Rightarrow> payment_subject \<Rightarrow> string" where
  "payment_subject_bytes show_uuid s =
     push_field PAYMENT_SUBJECT_DOMAIN (u128_to_be_bytes (ps_payment s)) @ payment_terms_bytes show_uuid (ps_terms s)"

definition approval_subject_ref :: "(uuid \<Rightarrow> string) \<Rightarrow> uuid \<Rightarrow> string" where
  "approval_subject_ref show_uuid i = ''payment:'' @ show_uuid i"

definition parse_approval_subject_ref ::
  "(uuid \<Rightarrow> string) \<Rightarrow> (string \<Rightarrow> uuid option) \<Rightarrow> string \<Rightarrow> uuid option" where
  "parse_approval_subject_ref show_uuid parse_uuid s =
     (if starts_with ''payment:'' s then
        let raw = drop 8 s in
        (case parse_uuid raw of Some i \<Rightarrow> if show_uuid i = raw then Some i else None | None \<Rightarrow> None)
      else None)"

section \<open>The order\<close>

datatype payment_state =
    Pending_Payment | Approved_Payment | Executed_Payment | ExecutionFailed_Payment | Rejected_Payment
  | Expired_Payment | Cancelled_Payment

fun payment_state_str :: "payment_state \<Rightarrow> string" where
  "payment_state_str Pending_Payment = ''pending''"
| "payment_state_str Approved_Payment = ''approved''"
| "payment_state_str Executed_Payment = ''executed''"
| "payment_state_str ExecutionFailed_Payment = ''execution_failed''"
| "payment_state_str Rejected_Payment = ''rejected''"
| "payment_state_str Expired_Payment = ''expired''"
| "payment_state_str Cancelled_Payment = ''cancelled''"

definition payment_state_parse :: "string \<Rightarrow> payment_state result" where
  "payment_state_parse raw =
     (if raw = ''pending'' then Inr Pending_Payment
      else if raw = ''approved'' then Inr Approved_Payment
      else if raw = ''executed'' then Inr Executed_Payment
      else if raw = ''execution_failed'' then Inr ExecutionFailed_Payment
      else if raw = ''rejected'' then Inr Rejected_Payment
      else if raw = ''expired'' then Inr Expired_Payment
      else if raw = ''cancelled'' then Inr Cancelled_Payment
      else Inl (Validation (''unknown payment state: '' @ raw)))"

definition payment_is_pending :: "payment_state \<Rightarrow> bool" where
  "payment_is_pending s \<longleftrightarrow> s = Pending_Payment"

definition payment_is_open :: "payment_state \<Rightarrow> bool" where
  "payment_is_open s \<longleftrightarrow> s = Pending_Payment \<or> s = Approved_Payment"

datatype payment_event =
    Opened_Payment uuid payment_terms string uuid payment_approval payment_tier i64
  | ApprovalRecorded uuid payment_approval i64
  | Approved_Event uuid i64
  | Reserved uuid party usdt i64
  | Settled uuid party party usdt i64
  | Executed_Event uuid payment_effect i64
  | Released uuid party usdt i64
  | ExecutionFailed_Event uuid string i64
  | Rejected_Event uuid i64
  | Expired_Event uuid i64
  | Cancelled_Event uuid i64

fun payment_relays :: "payment_event \<Rightarrow> bool" where
  "payment_relays (Reserved _ _ _ _) = True"
| "payment_relays (Settled _ _ _ _ _) = True"
| "payment_relays (Released _ _ _ _) = True"
| "payment_relays _ = False"

record payment_order =
  po_id :: uuid
  po_terms :: payment_terms
  po_hash :: string
  po_initiator :: uuid
  po_state :: payment_state
  po_created_at :: i64
  po_expires_at :: i64
  po_decided_at :: "i64 option"
  po_executed :: "payment_effect option"
  po_failure :: "string option"
  po_version :: u64
  po_pending :: "payment_event list"

definition PAYMENT_TTL_SECS :: i64 where
  "PAYMENT_TTL_SECS = 72 * 60 * 60"

definition CONCIERGE_TTL_SECS :: i64 where
  "CONCIERGE_TTL_SECS = 7 * 24 * 60 * 60"

definition payment_open_for ::
  "uuid \<Rightarrow> payment_terms \<Rightarrow> string \<Rightarrow> uuid \<Rightarrow> i64 \<Rightarrow> i64 \<Rightarrow> payment_order" where
  "payment_open_for i terms hash initiator created_at ttl =
     \<lparr>po_id = i, po_terms = terms, po_hash = hash, po_initiator = initiator, po_state = Pending_Payment,
       po_created_at = created_at, po_expires_at = i64_saturating_add created_at ttl, po_decided_at = None,
       po_executed = None, po_failure = None, po_version = 1,
       po_pending = [Opened_Payment i terms (hex32 hash) initiator (payment_requirement terms) (payment_tier terms)
         (i64_saturating_add created_at ttl)]\<rparr>"

definition payment_open :: "uuid \<Rightarrow> payment_terms \<Rightarrow> string \<Rightarrow> uuid \<Rightarrow> i64 \<Rightarrow> payment_order" where
  "payment_open i terms hash initiator created_at =
     payment_open_for i terms hash initiator created_at PAYMENT_TTL_SECS"

definition payment_raise :: "payment_event \<Rightarrow> payment_order \<Rightarrow> payment_order" where
  "payment_raise e o1 = o1\<lparr>po_version := saturating_add (po_version o1) 1, po_pending := po_pending o1 @ [e]\<rparr>"

definition payment_drain :: "payment_order \<Rightarrow> payment_order \<times> payment_event list" where
  "payment_drain o1 = (o1\<lparr>po_pending := []\<rparr>, po_pending o1)"

definition payment_require_pending :: "payment_order \<Rightarrow> payment_state \<Rightarrow> unit result" where
  "payment_require_pending o1 target =
     (if payment_is_pending (po_state o1) then Inr ()
      else Inl (Conflict (''payment is '' @ payment_state_str (po_state o1) @ '', not '' @ payment_state_str target)))"

definition payment_approve :: "payment_order \<Rightarrow> i64 \<Rightarrow> payment_order result" where
  "payment_approve o1 at =
     (if po_state o1 = Approved_Payment then Inr o1
      else rbind (payment_require_pending o1 Approved_Payment) (\<lambda>_.
        let o2 = o1\<lparr>po_state := Approved_Payment, po_decided_at := Some at\<rparr>;
            o3 = payment_raise (ApprovalRecorded (po_id o2) (payment_requirement (po_terms o2)) at) o2;
            o4 = payment_raise (Approved_Event (po_id o3) at) o3
        in Inr (if settles_on_the_ledger (payment_tier (po_terms o4))
                then payment_raise (Reserved (po_id o4) (pt_from (po_terms o4)) (pt_amount (po_terms o4)) at) o4
                else o4)))"

definition payment_enter_verdict :: "payment_order \<Rightarrow> payment_state \<Rightarrow> i64 \<Rightarrow> (payment_order \<times> bool) result" where
  "payment_enter_verdict o1 target at =
     (if po_state o1 = target then Inr (o1, False)
      else rbind (payment_require_pending o1 target) (\<lambda>_.
        Inr (o1\<lparr>po_state := target, po_decided_at := Some at\<rparr>, True)))"

definition payment_reject :: "payment_order \<Rightarrow> i64 \<Rightarrow> payment_order result" where
  "payment_reject o1 at =
     rmap (\<lambda>(o2, entered). if entered then payment_raise (Rejected_Event (po_id o2) at) o2 else o2)
       (payment_enter_verdict o1 Rejected_Payment at)"

definition payment_expire :: "payment_order \<Rightarrow> i64 \<Rightarrow> payment_order result" where
  "payment_expire o1 at =
     (if payment_is_pending (po_state o1) \<and> sint at < sint (po_expires_at o1)
      then Inl (Conflict ''payment has not expired yet'')
      else rmap (\<lambda>(o2, entered). if entered then payment_raise (Expired_Event (po_id o2) at) o2 else o2)
        (payment_enter_verdict o1 Expired_Payment at))"

definition payment_cancel :: "payment_order \<Rightarrow> i64 \<Rightarrow> payment_order result" where
  "payment_cancel o1 at =
     rmap (\<lambda>(o2, entered). if entered then payment_raise (Cancelled_Event (po_id o2) at) o2 else o2)
       (payment_enter_verdict o1 Cancelled_Payment at)"

definition payment_mark_executed :: "payment_order \<Rightarrow> payment_effect \<Rightarrow> i64 \<Rightarrow> payment_order result" where
  "payment_mark_executed o1 effect at =
     (if \<not> effect_matches effect (payment_tier (po_terms o1))
      then Inl (Conflict (''a '' @ payment_tier_str (payment_tier (po_terms o1)) @ '' payment cannot be executed as this effect''))
      else if po_state o1 = Executed_Payment then
        if po_executed o1 = Some effect then Inr o1
        else Inl (Conflict ''payment already executed a different effect'')
      else if po_state o1 \<noteq> Approved_Payment
      then Inl (Conflict (''payment is '' @ payment_state_str (po_state o1) @ '', not executable''))
      else
        let o2 = o1\<lparr>po_state := Executed_Payment, po_executed := Some effect\<rparr>;
            o3 = (case (effect, destination_party (pt_to (po_terms o2))) of
                    (Transfer_Effect, Some to) \<Rightarrow>
                      payment_raise (Settled (po_id o2) (pt_from (po_terms o2)) to (pt_amount (po_terms o2)) at) o2
                  | _ \<Rightarrow> o2)
        in Inr (payment_raise (Executed_Event (po_id o3) effect at) o3))"

definition payment_mark_execution_failed :: "payment_order \<Rightarrow> string \<Rightarrow> i64 \<Rightarrow> payment_order result" where
  "payment_mark_execution_failed o1 reason at =
     (if po_state o1 = ExecutionFailed_Payment then Inr o1
      else if po_state o1 \<noteq> Approved_Payment
      then Inl (Conflict (''payment is '' @ payment_state_str (po_state o1) @ '', not executable''))
      else
        let o2 = o1\<lparr>po_state := ExecutionFailed_Payment, po_failure := Some reason\<rparr>;
            o3 = (if settles_on_the_ledger (payment_tier (po_terms o2))
                  then payment_raise (Released (po_id o2) (pt_from (po_terms o2)) (pt_amount (po_terms o2)) at) o2
                  else o2)
        in Inr (payment_raise (ExecutionFailed_Event (po_id o3) reason at) o3))"

definition executed_withdrawal_id :: "payment_order \<Rightarrow> uuid option" where
  "executed_withdrawal_id o1 =
     (case po_executed o1 of Some (Withdrawal_Effect i) \<Rightarrow> Some i | _ \<Rightarrow> None)"

definition order_subject :: "payment_order \<Rightarrow> payment_subject" where
  "order_subject o1 = \<lparr>ps_payment = po_id o1, ps_terms = po_terms o1\<rparr>"

definition order_approval_payload :: "(uuid \<Rightarrow> string) \<Rightarrow> payment_order \<Rightarrow> string \<Rightarrow> string result" where
  "order_approval_payload show_uuid o1 destination =
     rmap (approval_payload PAYMENT_KIND PAYMENT_APPROVAL_SCOPE (approval_subject_ref show_uuid (po_id o1)))
       (payment_approval_fields show_uuid (po_terms o1) destination)"

end
