(* ===== verification/PaymentSafety.thy ===== *)
theory PaymentSafety
  imports Payments
begin

text \<open>
  What holds of every payment order: the money facts it puts on the outbox, over any sequence of
  commands, and that the bytes its approvers sign are its own.
\<close>

section \<open>Stored names\<close>

interpretation payment_tier_text: exact_codec payment_tier_str payment_tier_parse
proof
  show "payment_tier_parse (payment_tier_str x) = Inr x" for x
    by (cases x) (simp_all add: payment_tier_parse_def)
  show "payment_tier_parse s = Inr x \<Longrightarrow> payment_tier_str x = s" for s x
    by (auto simp: payment_tier_parse_def split: if_splits)
qed

interpretation payment_state_text: exact_codec payment_state_str payment_state_parse
proof
  show "payment_state_parse (payment_state_str x) = Inr x" for x
    by (cases x) (simp_all add: payment_state_parse_def)
  show "payment_state_parse s = Inr x \<Longrightarrow> payment_state_str x = s" for s x
    by (auto simp: payment_state_parse_def split: if_splits)
qed

section \<open>Commands on an order\<close>

datatype payment_command =
    Approve_Payment i64 | Reject_Payment i64 | Expire_Payment i64 | Cancel_Payment i64
  | Execute_Payment payment_effect i64 | Fail_Payment string i64

fun payment_do :: "payment_command \<Rightarrow> payment_order \<Rightarrow> payment_order result" where
  "payment_do (Approve_Payment at) o1 = payment_approve o1 at"
| "payment_do (Reject_Payment at) o1 = payment_reject o1 at"
| "payment_do (Expire_Payment at) o1 = payment_expire o1 at"
| "payment_do (Cancel_Payment at) o1 = payment_cancel o1 at"
| "payment_do (Execute_Payment effect at) o1 = payment_mark_executed o1 effect at"
| "payment_do (Fail_Payment reason at) o1 = payment_mark_execution_failed o1 reason at"

text \<open>A store saves the order and drains what a command raised; a refused command changes nothing.\<close>

definition payment_step :: "payment_command \<Rightarrow> payment_order \<times> payment_event list \<Rightarrow> payment_order \<times> payment_event list" where
  "payment_step c s =
     (case payment_do c (fst s) of
        Inl _ \<Rightarrow> s
      | Inr o2 \<Rightarrow> (case payment_drain o2 of (o3, evs) \<Rightarrow> (o3, snd s @ evs)))"

definition payment_run :: "payment_order \<Rightarrow> payment_command list \<Rightarrow> payment_order \<times> payment_event list" where
  "payment_run o1 cs = fold payment_step cs (payment_drain o1)"

lemma payment_raise_simps [simp]:
  "po_id (payment_raise e o1) = po_id o1" "po_terms (payment_raise e o1) = po_terms o1"
  "po_hash (payment_raise e o1) = po_hash o1" "po_state (payment_raise e o1) = po_state o1"
  "po_executed (payment_raise e o1) = po_executed o1" "po_expires_at (payment_raise e o1) = po_expires_at o1"
  "po_pending (payment_raise e o1) = po_pending o1 @ [e]" "po_failure (payment_raise e o1) = po_failure o1"
  by (simp_all add: payment_raise_def)

lemmas payment_ops = payment_approve_def payment_reject_def payment_expire_def payment_cancel_def
  payment_mark_executed_def payment_mark_execution_failed_def payment_enter_verdict_def
  payment_require_pending_def payment_is_pending_def Let_def

text \<open>The facts a state stands for.\<close>

definition payment_facts :: "payment_order \<Rightarrow> i64 \<Rightarrow> i64 \<Rightarrow> payment_event list" where
  "payment_facts o1 at at' =
     (let t = po_terms o1; reserved = Reserved (po_id o1) (pt_from t) (pt_amount t) at in
      case (pt_to t, po_state o1) of
        (Internal to, Approved_Payment) \<Rightarrow> [reserved]
      | (Internal to, Executed_Payment) \<Rightarrow> [reserved, Settled (po_id o1) (pt_from t) to (pt_amount t) at']
      | (Internal to, ExecutionFailed_Payment) \<Rightarrow> [reserved, Released (po_id o1) (pt_from t) (pt_amount t) at']
      | _ \<Rightarrow> [])"

definition payment_ok :: "payment_order \<times> payment_event list \<Rightarrow> bool" where
  "payment_ok s \<longleftrightarrow>
     po_pending (fst s) = [] \<and> (\<exists>at at'. filter payment_relays (snd s) = payment_facts (fst s) at at') \<and>
     (case po_executed (fst s) of
        None \<Rightarrow> po_state (fst s) \<noteq> Executed_Payment
      | Some e \<Rightarrow> po_state (fst s) = Executed_Payment \<and> effect_matches e (payment_tier (po_terms (fst s))))"

lemma settles_internal: "settles_on_the_ledger (destination_tier d) \<longleftrightarrow> (\<exists>p. d = Internal p)"
  by (cases d rule: destination_tier.cases) auto

lemma payment_do_frame:
  "payment_do c o1 = Inr o2 \<Longrightarrow> po_id o2 = po_id o1 \<and> po_terms o2 = po_terms o1 \<and> po_hash o2 = po_hash o1"
  by (cases c) (auto simp: payment_ops result_iffs split: if_splits option.splits payment_effect.splits)

text \<open>One accepted command, by the state it left.\<close>

lemma payment_do_cases:
  assumes "payment_do c o1 = Inr o2"
  obtains (same) "o2 = o1"
  | (approved) at where "po_state o1 = Pending_Payment" "po_state o2 = Approved_Payment" "po_executed o2 = po_executed o1"
      "po_pending o2 = po_pending o1 @ [ApprovalRecorded (po_id o1) (payment_requirement (po_terms o1)) at, Approved_Event (po_id o1) at] @
         (if settles_on_the_ledger (payment_tier (po_terms o1))
          then [Reserved (po_id o1) (pt_from (po_terms o1)) (pt_amount (po_terms o1)) at] else [])"
  | (ended) e where "po_state o1 = Pending_Payment" "po_executed o2 = po_executed o1" "\<not> payment_relays e"
      "po_state o2 \<in> {Rejected_Payment, Expired_Payment, Cancelled_Payment}" "po_pending o2 = po_pending o1 @ [e]"
  | (executed) effect at where "po_state o1 = Approved_Payment" "po_state o2 = Executed_Payment" "po_executed o2 = Some effect"
      "effect_matches effect (payment_tier (po_terms o1))"
      "po_pending o2 = po_pending o1 @ (case pt_to (po_terms o1) of
           Internal to \<Rightarrow> [Settled (po_id o1) (pt_from (po_terms o1)) to (pt_amount (po_terms o1)) at] | External _ _ \<Rightarrow> []) @
         [Executed_Event (po_id o1) effect at]"
  | (failed) reason at where "po_state o1 = Approved_Payment" "po_state o2 = ExecutionFailed_Payment" "po_executed o2 = po_executed o1"
      "po_pending o2 = po_pending o1 @ (if settles_on_the_ledger (payment_tier (po_terms o1))
           then [Released (po_id o1) (pt_from (po_terms o1)) (pt_amount (po_terms o1)) at] else []) @
         [ExecutionFailed_Event (po_id o1) reason at]"
proof (cases c)
  case (Approve_Payment at)
  with assms show ?thesis
    by (cases "po_state o1 = Approved_Payment") (auto simp: payment_ops result_iffs split: if_splits intro: same approved)
next
  case (Reject_Payment at)
  with assms show ?thesis
    by (cases "po_state o1 = Rejected_Payment") (auto simp: payment_ops result_iffs split: if_splits intro: same ended [of "Rejected_Event (po_id o1) at"])
next
  case (Expire_Payment at)
  with assms show ?thesis
    by (cases "po_state o1 = Expired_Payment") (auto simp: payment_ops result_iffs split: if_splits intro: same ended [of "Expired_Event (po_id o1) at"])
next
  case (Cancel_Payment at)
  with assms show ?thesis
    by (cases "po_state o1 = Cancelled_Payment") (auto simp: payment_ops result_iffs split: if_splits intro: same ended [of "Cancelled_Event (po_id o1) at"])
next
  case (Execute_Payment effect at)
  show ?thesis
  proof (cases "po_state o1 = Executed_Payment")
    case True
    with assms Execute_Payment show ?thesis by (auto simp: payment_ops split: if_splits intro: same)
  next
    case False
    with assms Execute_Payment have ok: "effect_matches effect (payment_tier (po_terms o1))" "po_state o1 = Approved_Payment"
      by (auto simp: payment_ops split: if_splits)
    then have "effect = Transfer_Effect \<longleftrightarrow> (\<exists>to. pt_to (po_terms o1) = Internal to)"
      by (cases effect) (auto simp: payment_tier_def settles_internal)
    with assms Execute_Payment ok show ?thesis
      by (cases effect; cases "pt_to (po_terms o1)") (auto simp: payment_ops intro!: executed)
  qed
next
  case (Fail_Payment reason at)
  with assms show ?thesis
    by (cases "po_state o1 = ExecutionFailed_Payment") (auto simp: payment_ops result_iffs split: if_splits intro: same failed)
qed


lemma payment_step_ok:
  assumes "payment_ok s"
  shows "payment_ok (payment_step c s)"
proof (cases "payment_do c (fst s)")
  case (Inr o2)
  obtain o1 log where s: "s = (o1, log)" by (cases s)
  with Inr have d: "payment_do c o1 = Inr o2" by simp
  note frame = payment_do_frame [OF d]
  have step: "payment_step c s = (o2\<lparr>po_pending := []\<rparr>, log @ po_pending o2)"
    using s d by (simp add: payment_step_def payment_drain_def)
  from assms obtain t0 t1 where clean: "po_pending o1 = []" and facts: "filter payment_relays log = payment_facts o1 t0 t1"
    and ex: "case po_executed o1 of None \<Rightarrow> po_state o1 \<noteq> Executed_Payment
      | Some e \<Rightarrow> po_state o1 = Executed_Payment \<and> effect_matches e (payment_tier (po_terms o1))"
    unfolding payment_ok_def s fst_conv snd_conv by blast
  have target: "filter payment_relays log @ filter payment_relays (po_pending o2) = payment_facts (o2\<lparr>po_pending := []\<rparr>) a b \<Longrightarrow>
      (case po_executed o2 of None \<Rightarrow> po_state o2 \<noteq> Executed_Payment
        | Some e \<Rightarrow> po_state o2 = Executed_Payment \<and> effect_matches e (payment_tier (po_terms o2))) \<Longrightarrow> ?thesis" for a b
    unfolding step payment_ok_def by (auto split: option.splits)
  show ?thesis
  proof (rule payment_do_cases [OF d])
    assume "o2 = o1"
    moreover have "o1\<lparr>po_pending := []\<rparr> = o1" using clean by (cases o1) simp
    ultimately have "payment_step c s = s" using step clean s by simp
    with assms show ?thesis by simp
  next
    fix at
    assume *: "po_state o1 = Pending_Payment" "po_state o2 = Approved_Payment" "po_executed o2 = po_executed o1"
      "po_pending o2 = po_pending o1 @ [ApprovalRecorded (po_id o1) (payment_requirement (po_terms o1)) at, Approved_Event (po_id o1) at] @
         (if settles_on_the_ledger (payment_tier (po_terms o1))
          then [Reserved (po_id o1) (pt_from (po_terms o1)) (pt_amount (po_terms o1)) at] else [])"
    show ?thesis
      by (rule target [of at at]) (use * clean facts frame ex in
        \<open>auto simp: payment_facts_def Let_def payment_tier_def settles_internal split: payment_destination.splits option.splits\<close>)
  next
    fix e
    assume *: "po_state o1 = Pending_Payment" "po_executed o2 = po_executed o1" "\<not> payment_relays e"
      "po_state o2 \<in> {Rejected_Payment, Expired_Payment, Cancelled_Payment}" "po_pending o2 = po_pending o1 @ [e]"
    show ?thesis
      by (rule target [of t0 t1]) (use * clean facts frame ex in
        \<open>auto simp: payment_facts_def Let_def split: payment_destination.splits option.splits\<close>)
  next
    fix effect at
    assume *: "po_state o1 = Approved_Payment" "po_state o2 = Executed_Payment" "po_executed o2 = Some effect"
      "effect_matches effect (payment_tier (po_terms o1))"
      "po_pending o2 = po_pending o1 @ (case pt_to (po_terms o1) of
           Internal to \<Rightarrow> [Settled (po_id o1) (pt_from (po_terms o1)) to (pt_amount (po_terms o1)) at] | External _ _ \<Rightarrow> []) @
         [Executed_Event (po_id o1) effect at]"
    show ?thesis
      by (rule target [of t0 at]) (use * clean facts frame ex in
        \<open>auto simp: payment_facts_def Let_def split: payment_destination.splits option.splits\<close>)
  next
    fix reason at
    assume *: "po_state o1 = Approved_Payment" "po_state o2 = ExecutionFailed_Payment" "po_executed o2 = po_executed o1"
      "po_pending o2 = po_pending o1 @ (if settles_on_the_ledger (payment_tier (po_terms o1))
           then [Released (po_id o1) (pt_from (po_terms o1)) (pt_amount (po_terms o1)) at] else []) @
         [ExecutionFailed_Event (po_id o1) reason at]"
    show ?thesis
      by (rule target [of t0 at]) (use * clean facts frame ex in
        \<open>auto simp: payment_facts_def Let_def payment_tier_def settles_internal
          split: payment_destination.splits option.splits\<close>)
  qed
qed (use assms in \<open>simp add: payment_step_def\<close>)

lemma payment_run_ok:
  assumes "payment_ok (payment_drain o1)"
  shows "payment_ok (payment_run o1 cs)"
proof -
  have "payment_ok s \<Longrightarrow> payment_ok (fold payment_step cs s)" for s
    by (induction cs arbitrary: s) (simp_all add: payment_step_ok)
  with assms show ?thesis by (simp add: payment_run_def)
qed

lemma payment_step_frame:
  "po_id (fst (payment_step c s)) = po_id (fst s) \<and> po_terms (fst (payment_step c s)) = po_terms (fst s)"
  by (cases "payment_do c (fst s)") (auto simp: payment_step_def payment_drain_def dest: payment_do_frame)

lemma payment_run_frame:
  "po_id (fst (payment_run o1 cs)) = po_id o1 \<and> po_terms (fst (payment_run o1 cs)) = po_terms o1"
proof -
  have "po_id (fst (fold payment_step cs s)) = po_id (fst s) \<and> po_terms (fst (fold payment_step cs s)) = po_terms (fst s)" for s
    by (induction cs arbitrary: s) (simp_all add: payment_step_frame)
  from this [of "payment_drain o1"] show ?thesis by (simp add: payment_run_def payment_drain_def)
qed

text \<open>
  C36: Whatever commands an order is given, in whatever order and however often repeated, the money
  facts on its outbox are those its state stands for and no others: none for an order that leaves on
  a rail or was never approved, one reservation for an approved one, and after it exactly one of the
  settlement (executed) and the release (failed), each over the order's own ends and amount.
\<close>
theorem payment_moves_money_once:
  fixes i initiator :: uuid and terms :: payment_terms and hash :: string and created ttl :: i64
    and cs :: "payment_command list"
  defines "end \<equiv> payment_run (payment_open_for i terms hash initiator created ttl) cs"
  shows "\<exists>at at'. filter payment_relays (snd end) =
    (case (pt_to terms, po_state (fst end)) of
       (Internal to, Approved_Payment) \<Rightarrow> [Reserved i (pt_from terms) (pt_amount terms) at]
     | (Internal to, Executed_Payment) \<Rightarrow>
         [Reserved i (pt_from terms) (pt_amount terms) at, Settled i (pt_from terms) to (pt_amount terms) at']
     | (Internal to, ExecutionFailed_Payment) \<Rightarrow>
         [Reserved i (pt_from terms) (pt_amount terms) at, Released i (pt_from terms) (pt_amount terms) at']
     | _ \<Rightarrow> [])"
proof -
  let ?o = "payment_open_for i terms hash initiator created ttl"
  have "payment_ok (payment_drain ?o)"
    by (auto simp: payment_ok_def payment_drain_def payment_open_for_def payment_facts_def Let_def
        split: payment_destination.splits)
  from payment_run_ok [OF this, of cs] obtain at at' where
    "filter payment_relays (snd end) = payment_facts (fst end) at at'"
    unfolding payment_ok_def end_def by blast
  moreover have "po_id (fst end) = i" "po_terms (fst end) = terms"
    using payment_run_frame [of ?o cs] by (simp_all add: end_def payment_open_for_def)
  ultimately show ?thesis
    by (intro exI [of _ at] exI [of _ at'])
      (simp add: payment_facts_def Let_def split: payment_destination.splits payment_state.splits)
qed


section \<open>What the approvers sign\<close>

text \<open>The bytes of a payment, field by field.\<close>

definition party_bytes :: "(uuid \<Rightarrow> string) \<Rightarrow> party \<Rightarrow> string" where
  "party_bytes show_uuid p = push_field [] (party_kind_str p) @ push_field [] (party_id_str show_uuid p)"

definition destination_bytes :: "(uuid \<Rightarrow> string) \<Rightarrow> payment_destination \<Rightarrow> string" where
  "destination_bytes show_uuid d =
     (case d of
        Internal p \<Rightarrow> push_field [] ''internal'' @ party_bytes show_uuid p
      | External n a \<Rightarrow> push_field [] ''external'' @ push_field [] (network_str n) @ push_field [] (wa_value a))"

lemma payment_terms_bytes_split:
  "payment_terms_bytes show_uuid t = PAYMENT_TERMS_DOMAIN @ party_bytes show_uuid (pt_from t) @
     destination_bytes show_uuid (pt_to t) @ u128_to_be_bytes (usdt_units (pt_amount t)) @
     push_field [] (reason_str (pt_reason t))"
  unfolding payment_terms_bytes_def Let_def party_bytes_def destination_bytes_def
  by (cases "pt_to t")
    (simp_all add: push_field_append [of "push_field _ _"] push_field_append [of "_ @ _"] push_field_append [of "PAYMENT_TERMS_DOMAIN"])

text \<open>Ids print apart, and every text a payment names is a byte slice.\<close>

definition ids_print :: "(uuid \<Rightarrow> string) \<Rightarrow> bool" where
  "ids_print show_uuid \<longleftrightarrow> inj show_uuid \<and> (\<forall>u. fits_usize (show_uuid u) \<and> \<not> has_control (show_uuid u))"

fun party_fits :: "party \<Rightarrow> bool" where
  "party_fits (Service_Party s) \<longleftrightarrow> fits_usize (service_id_str s)"
| "party_fits _ \<longleftrightarrow> True"

definition payment_terms_fit :: "payment_terms \<Rightarrow> bool" where
  "payment_terms_fit t \<longleftrightarrow> party_fits (pt_from t) \<and> fits_usize (reason_str (pt_reason t)) \<and>
     (case pt_to t of Internal p \<Rightarrow> party_fits p | External n a \<Rightarrow> wa_network a = n \<and> fits_usize (wa_value a))"

lemma fits_payment_names [simp]: "fits_usize (network_str n)" "fits_usize (party_kind_str p)"
  by (cases n; simp add: fits_usize_def) (cases p; simp add: fits_usize_def)

lemma fits_literals [simp]: "fits_usize ''internal''" "fits_usize ''external''" "fits_usize TREASURY_ID"
  by (simp_all add: fits_usize_def TREASURY_ID_def)

lemma field_selectors [simp]:
  "usdt_units a = usdt_units b \<longleftrightarrow> a = b" "reason_str x = reason_str y \<longleftrightarrow> x = y"
  "service_id_str c = service_id_str d \<longleftrightarrow> c = d"
  by (auto intro: usdt.expand payment_reason.expand service_id.expand)

lemma party_id_fits: "ids_print sh \<Longrightarrow> party_fits p \<Longrightarrow> fits_usize (party_id_str sh p)"
  by (cases p) (simp_all add: ids_print_def)

lemma party_bytes_code:
  assumes "ids_print sh" "party_fits p" "party_fits q"
  shows "party_bytes sh p @ r = party_bytes sh q @ s \<longleftrightarrow> p = q \<and> r = s"
proof -
  have "party_bytes sh p @ r = party_bytes sh q @ s \<longleftrightarrow>
      party_kind_str p = party_kind_str q \<and> party_id_str sh p = party_id_str sh q \<and> r = s"
    using assms by (simp add: party_bytes_def field.cancel party_id_fits)
  also have "\<dots> \<longleftrightarrow> p = q \<and> r = s"
    using assms(1) by (cases p; cases q) (auto simp: ids_print_def inj_def)
  finally show ?thesis .
qed

lemma network_str_inject [simp]: "network_str n = network_str m \<longleftrightarrow> n = m"
  by (cases n; cases m) simp_all

lemma destination_bytes_code:
  assumes ids: "ids_print sh"
    and d: "case d of Internal p \<Rightarrow> party_fits p | External n a \<Rightarrow> wa_network a = n \<and> fits_usize (wa_value a)"
    and d': "case d' of Internal p \<Rightarrow> party_fits p | External n a \<Rightarrow> wa_network a = n \<and> fits_usize (wa_value a)"
  shows "destination_bytes sh d @ r = destination_bytes sh d' @ s \<longleftrightarrow> d = d' \<and> r = s"
  using d d' by (cases d; cases d') (auto simp: destination_bytes_def field.cancel party_bytes_code [OF ids])

lemma payment_terms_bytes_code:
  assumes "ids_print sh" "payment_terms_fit t" "payment_terms_fit u"
  shows "payment_terms_bytes sh t = payment_terms_bytes sh u \<longleftrightarrow> t = u"
proof -
  note fits = assms(2,3) [unfolded payment_terms_fit_def]
  have "payment_terms_bytes sh t = payment_terms_bytes sh u \<longleftrightarrow>
      pt_from t = pt_from u \<and> pt_to t = pt_to u \<and> pt_amount t = pt_amount u \<and> pt_reason t = pt_reason u"
    unfolding payment_terms_bytes_split using fits
    by (simp add: party_bytes_code [OF assms(1)] destination_bytes_code [OF assms(1)] u128_bytes.cancel field.inject)
  then show ?thesis by (auto intro: payment_terms.equality)
qed

lemma payment_subject_bytes_code:
  assumes "ids_print sh" "payment_terms_fit (ps_terms s)" "payment_terms_fit (ps_terms u)"
  shows "payment_subject_bytes sh s = payment_subject_bytes sh u \<longleftrightarrow> s = u"
  unfolding payment_subject_bytes_def push_field_append [of PAYMENT_SUBJECT_DOMAIN]
  by (auto simp: field.cancel u128_bytes.inject payment_terms_bytes_code [OF assms] intro: payment_subject.equality)


section \<open>The approval payload\<close>

text \<open>A line of the payload ends where its text, free of newlines, ends.\<close>

lemma split_at_char:
  "c \<notin> set x \<Longrightarrow> c \<notin> set y \<Longrightarrow> x @ c # r = y @ c # s \<Longrightarrow> x = y \<and> r = s"
proof (induction x arbitrary: y)
  case Nil
  then show ?case by (cases y) auto
next
  case (Cons b x)
  then show ?case by (cases y) auto
qed

interpretation line_code: prefix_code "\<lambda>x. x @ NL" "\<lambda>x. CHR 0x0A \<notin> set x"
proof
  fix x y r s :: string
  assume "CHR 0x0A \<notin> set x" "CHR 0x0A \<notin> set y" "(x @ NL) @ r = (y @ NL) @ s"
  then show "x = y \<and> r = s"
    unfolding NL_def append_assoc append.simps by (rule split_at_char)
qed

lemmas line_cut = line_code.cancel [unfolded append_assoc]

lemma plain_no_newline: "\<not> has_control s \<Longrightarrow> CHR 0x0A \<notin> set s"
proof (induction s)
  case (Cons c s)
  have "byte (CHR 0x0A) = 10" by (simp add: byte_def)
  then have "c \<noteq> CHR 0x0A" using Cons.prems by fastforce
  moreover have "\<not> has_control s" using Cons.prems by simp
  ultimately show ?case using Cons.IH by simp
qed simp

lemma decimal_no_newline: "CHR 0x0A \<notin> set (to_decimal_string a)"
proof -
  obtain i f where t: "decimal_text i f (to_decimal_string a)" using to_decimal_string_text by blast
  have "\<not> is_ascii_digit (CHR 0x0A)" by (simp add: is_ascii_digit_def byte_def)
  with t show ?thesis by (auto simp: decimal_text_def list_all_iff)
qed

lemma to_decimal_string_inject [simp]: "to_decimal_string a = to_decimal_string b \<longleftrightarrow> a = b"
  using parse_to_decimal_string by (metis sum.inject(2))

definition payment_lines :: "string \<Rightarrow> usdt \<Rightarrow> string \<Rightarrow> string \<Rightarrow> string \<Rightarrow> string" where
  "payment_lines tier amount dest reason source =
     (''amount'' @ TAB @ ''AMOUNT'' @ TAB @ to_decimal_string amount @ '' '' @ APPROVAL_CURRENCY) @ NL @
     (''destination'' @ TAB @ ''TEXT'' @ TAB @ dest) @ NL @ (''reason'' @ TAB @ ''TEXT'' @ TAB @ reason) @ NL @
     (''source'' @ TAB @ ''TEXT'' @ TAB @ source) @ NL @ (''tier'' @ TAB @ ''TEXT'' @ TAB @ tier) @ NL"

lemma order_approval_payload_Inr:
  "order_approval_payload sh o1 d = Inr p \<longleftrightarrow>
     (let t = po_terms o1; tier = payment_tier_str (payment_tier t); source = party_label sh (pt_from t);
          reason = reason_str (pt_reason t)
      in is_plain_text tier \<and> is_plain_text source \<and> is_plain_text d \<and> is_plain_text reason \<and>
         p = ''ev-approval-v1'' @ NL @ PAYMENT_KIND @ NL @ PAYMENT_APPROVAL_SCOPE @ NL @
           approval_subject_ref sh (po_id o1) @ NL @ payment_lines tier (pt_amount t) d reason source)"
proof -
  have sorted: "sort_key af_key [\<lparr>af_key = ''tier'', af_value = a\<rparr>, \<lparr>af_key = ''source'', af_value = b\<rparr>,
      \<lparr>af_key = ''destination'', af_value = c\<rparr>, \<lparr>af_key = ''amount'', af_value = e\<rparr>, \<lparr>af_key = ''reason'', af_value = f\<rparr>] =
    [\<lparr>af_key = ''amount'', af_value = e\<rparr>, \<lparr>af_key = ''destination'', af_value = c\<rparr>, \<lparr>af_key = ''reason'', af_value = f\<rparr>,
      \<lparr>af_key = ''source'', af_value = b\<rparr>, \<lparr>af_key = ''tier'', af_value = a\<rparr>]" for a b c e f
    by (simp add: less_char_def less_eq_char_def)
  show ?thesis
    by (auto simp: order_approval_payload_def payment_approval_fields_def result_iffs Let_def approval_payload_def
        sorted payment_lines_def split: if_splits)
qed

lemma party_label_inject:
  assumes "ids_print sh" "party_label sh p = party_label sh q"
  shows "p = q"
proof -
  have no: "''the '' @ x @ '' product'' \<noteq> ''the fee allocation''" "''the '' @ x @ '' product'' \<noteq> ''the fund allocation''" for x
    using arg_cong [of _ _ "\<lambda>s. last s"] by force+
  show ?thesis
    using assms no no [symmetric]
    by (cases p; cases q) (auto simp: party_label_def ids_print_def inj_def split: if_splits)
qed



definition sample_payment :: "usdt \<Rightarrow> payment_order" where
  "sample_payment amount = payment_open 1 \<lparr>pt_from = Service_Party service_fund, pt_to = Internal (User_Party 7),
     pt_amount = amount, pt_reason = PaymentReason ''salary''\<rparr> [] 2 100"

lemma ids_print_decimal: "ids_print show_u128"
proof -
  have "inj show_u128" using uuid_textD(1) [OF uuid_text_decimal] by (metis injI option.inject)
  moreover have "fits_usize (show_u128 u)" for u
  proof -
    have "length (show_nat (unat u)) \<le> 39" using unat_lt128 [of u] by (intro length_show_nat [of _ 38, simplified]) simp
    then show ?thesis by (simp add: show_u128_def fits_usize_def)
  qed
  moreover have "\<not> has_control s" if "list_all is_ascii_digit s" for s
    using that by (induction s) (auto simp: is_ascii_digit_def)
  then have "\<not> has_control (show_u128 u)" for u by (simp add: show_u128_def digits_show_nat)
  ultimately show ?thesis by (simp add: ids_print_def)
qed

lemma sample_payment_payload: "\<exists>p. order_approval_payload show_u128 (sample_payment a) ''investor 7'' = Inr p"
proof -
  have "is_plain_text ''internal''" "is_plain_text ''investor 7''" "is_plain_text ''salary''" "is_plain_text ''the fund allocation''"
    by code_simp+
  then show ?thesis
    by (simp add: order_approval_payload_Inr sample_payment_def payment_open_def payment_open_for_def payment_tier_def
        party_label_def service_fund_def service_fee_def RESERVED_FUND_def RESERVED_FEE_def)
qed


end
