(* ===== verification/Consilium.thy ===== *)
theory Consilium
  imports PaymentSafety
begin

text \<open>
  The owners' consilium (\<^verbatim>\<open>domain/src/consilium.rs\<close>): what a request authorizes and the bytes
  its payload hash is taken over, the quorum, the votes and the request's states.  An operation
  returns the new aggregate or refuses and leaves it as it was; the text of an id is a parameter.
\<close>

section \<open>Vocabulary\<close>

datatype consilium_kind = Payment_Kind | ValuationOverride_Kind | FeePolicy_Kind | HolderGrant_Kind | SeedCapital_Kind

fun kind_str :: "consilium_kind \<Rightarrow> string" where
  "kind_str Payment_Kind = ''payment''"
| "kind_str ValuationOverride_Kind = ''valuation_override''"
| "kind_str FeePolicy_Kind = ''fee_policy''"
| "kind_str HolderGrant_Kind = ''holder_grant''"
| "kind_str SeedCapital_Kind = ''seed_capital''"

fun kind_noun :: "consilium_kind \<Rightarrow> string" where
  "kind_noun Payment_Kind = ''payment''"
| "kind_noun ValuationOverride_Kind = ''valuation-override''"
| "kind_noun FeePolicy_Kind = ''fee-policy''"
| "kind_noun HolderGrant_Kind = ''holder-grant''"
| "kind_noun SeedCapital_Kind = ''seed-capital''"

definition kind_parse :: "string \<Rightarrow> consilium_kind result" where
  "kind_parse raw =
     (if raw = ''payment'' then Inr Payment_Kind
      else if raw = ''valuation_override'' then Inr ValuationOverride_Kind
      else if raw = ''fee_policy'' then Inr FeePolicy_Kind
      else if raw = ''holder_grant'' then Inr HolderGrant_Kind
      else if raw = ''seed_capital'' then Inr SeedCapital_Kind
      else Inl (Validation (''unknown consilium kind: '' @ raw)))"

datatype consilium_state =
    Open_Consilium | Approved_Consilium | Rejected_Consilium | Expired_Consilium | Cancelled_Consilium
  | Executed_Consilium | ExecutionFailed_Consilium

fun consilium_state_str :: "consilium_state \<Rightarrow> string" where
  "consilium_state_str Open_Consilium = ''open''"
| "consilium_state_str Approved_Consilium = ''approved''"
| "consilium_state_str Rejected_Consilium = ''rejected''"
| "consilium_state_str Expired_Consilium = ''expired''"
| "consilium_state_str Cancelled_Consilium = ''cancelled''"
| "consilium_state_str Executed_Consilium = ''executed''"
| "consilium_state_str ExecutionFailed_Consilium = ''execution_failed''"

definition consilium_state_parse :: "string \<Rightarrow> consilium_state result" where
  "consilium_state_parse raw =
     (if raw = ''open'' then Inr Open_Consilium
      else if raw = ''approved'' then Inr Approved_Consilium
      else if raw = ''rejected'' then Inr Rejected_Consilium
      else if raw = ''expired'' then Inr Expired_Consilium
      else if raw = ''cancelled'' then Inr Cancelled_Consilium
      else if raw = ''executed'' then Inr Executed_Consilium
      else if raw = ''execution_failed'' then Inr ExecutionFailed_Consilium
      else Inl (Validation (''unknown consilium state: '' @ raw)))"

definition consilium_is_open :: "consilium_state \<Rightarrow> bool" where
  "consilium_is_open s \<longleftrightarrow> s = Open_Consilium"

datatype vote_decision = Pending_Vote | Approve_Vote | Reject_Vote

fun decision_str :: "vote_decision \<Rightarrow> string" where
  "decision_str Pending_Vote = ''pending''"
| "decision_str Approve_Vote = ''approve''"
| "decision_str Reject_Vote = ''reject''"

definition decision_parse :: "string \<Rightarrow> vote_decision result" where
  "decision_parse raw =
     (if raw = ''pending'' then Inr Pending_Vote
      else if raw = ''approve'' then Inr Approve_Vote
      else if raw = ''reject'' then Inr Reject_Vote
      else Inl (Validation (''unknown vote decision: '' @ raw)))"

interpretation kind_text: exact_codec kind_str kind_parse
proof
  show "kind_parse (kind_str x) = Inr x" for x by (cases x) (simp_all add: kind_parse_def)
  show "kind_parse s = Inr x \<Longrightarrow> kind_str x = s" for s x by (auto simp: kind_parse_def split: if_splits)
qed

interpretation consilium_state_text: exact_codec consilium_state_str consilium_state_parse
proof
  show "consilium_state_parse (consilium_state_str x) = Inr x" for x
    by (cases x) (simp_all add: consilium_state_parse_def)
  show "consilium_state_parse s = Inr x \<Longrightarrow> consilium_state_str x = s" for s x
    by (auto simp: consilium_state_parse_def split: if_splits)
qed

interpretation decision_text: exact_codec decision_str decision_parse
proof
  show "decision_parse (decision_str x) = Inr x" for x by (cases x) (simp_all add: decision_parse_def)
  show "decision_parse s = Inr x \<Longrightarrow> decision_str x = s" for s x by (auto simp: decision_parse_def split: if_splits)
qed

section \<open>What a consilium authorizes\<close>

record valuation_terms =
  vo_service :: service_id
  vo_aum :: usdt

definition VALUATION_DOMAIN :: string where
  "VALUATION_DOMAIN = ''banking.v1.ValuationOverrideTerms'' @ [CHR 0x00]"

definition valuation_bytes :: "valuation_terms \<Rightarrow> string" where
  "valuation_bytes t =
     push_field VALUATION_DOMAIN (service_id_str (vo_service t)) @ u128_to_be_bytes (usdt_units (vo_aum t))"

record grant_terms =
  hg_allocation :: service_id
  hg_user :: uuid
  hg_units :: shares

definition GRANT_DOMAIN :: string where
  "GRANT_DOMAIN = ''banking.v1.HolderGrantTerms'' @ [CHR 0x00]"

definition grant_terms_new :: "service_id \<Rightarrow> uuid \<Rightarrow> shares \<Rightarrow> grant_terms result" where
  "grant_terms_new allocation user units =
     (if \<not> service_is_reserved allocation
      then Inl (Validation ([CHR 0x27] @ service_id_str allocation @ [CHR 0x27] @
        '' is not a reserved allocation: a holder grant seats holders of the fee and fund allocations only''))
      else if shares_is_zero units
      then Inl (Validation ''a holder grant must mint a positive number of units'')
      else Inr \<lparr>hg_allocation = allocation, hg_user = user, hg_units = units\<rparr>)"

definition grant_bytes :: "(uuid \<Rightarrow> string) \<Rightarrow> grant_terms \<Rightarrow> string" where
  "grant_bytes show_uuid t =
     push_field (push_field GRANT_DOMAIN (service_id_str (hg_allocation t))) (show_uuid (hg_user t)) @
     u128_to_be_bytes (shares_units (hg_units t))"

record seed_terms =
  sc_tx_ref :: tx_ref
  sc_network :: network
  sc_amount :: usdt
  sc_depositor :: uuid

definition SEED_DOMAIN :: string where
  "SEED_DOMAIN = ''banking.v1.SeedCapitalTerms'' @ [CHR 0x00]"

definition seed_terms_new :: "tx_ref \<Rightarrow> network \<Rightarrow> usdt \<Rightarrow> uuid \<Rightarrow> seed_terms result" where
  "seed_terms_new ref n amount depositor =
     (if usdt_is_zero amount then Inl (Validation ''a seed must name the positive amount the chain reports'')
      else Inr \<lparr>sc_tx_ref = ref, sc_network = n, sc_amount = amount, sc_depositor = depositor\<rparr>)"

definition seed_bytes :: "(uuid \<Rightarrow> string) \<Rightarrow> seed_terms \<Rightarrow> string" where
  "seed_bytes show_uuid t =
     push_field (push_field (push_field SEED_DOMAIN (tx_ref_str (sc_tx_ref t))) (network_str (sc_network t)))
       (show_uuid (sc_depositor t)) @ u128_to_be_bytes (usdt_units (sc_amount t))"

datatype consilium_terms =
    Payment_Subject payment_subject
  | Valuation_Override valuation_terms
  | Fee_Policy fee_subject
  | Holder_Grant grant_terms
  | Seed_Capital seed_terms

fun terms_kind :: "consilium_terms \<Rightarrow> consilium_kind" where
  "terms_kind (Payment_Subject _) = Payment_Kind"
| "terms_kind (Valuation_Override _) = ValuationOverride_Kind"
| "terms_kind (Fee_Policy _) = FeePolicy_Kind"
| "terms_kind (Holder_Grant _) = HolderGrant_Kind"
| "terms_kind (Seed_Capital _) = SeedCapital_Kind"

fun consilium_bytes :: "(uuid \<Rightarrow> string) \<Rightarrow> consilium_terms \<Rightarrow> string" where
  "consilium_bytes sh (Payment_Subject s) = payment_subject_bytes sh s"
| "consilium_bytes sh (Valuation_Override t) = valuation_bytes t"
| "consilium_bytes sh (Fee_Policy s) = fee_subject_bytes s"
| "consilium_bytes sh (Holder_Grant t) = grant_bytes sh t"
| "consilium_bytes sh (Seed_Capital t) = seed_bytes sh t"

fun terms_source_claim :: "consilium_terms \<Rightarrow> account_key" where
  "terms_source_claim (Payment_Subject s) = payment_source_claim (ps_terms s)"
| "terms_source_claim (Valuation_Override t) = ServiceClaim (vo_service t)"
| "terms_source_claim (Fee_Policy s) = FeeShares (fs_service s)"
| "terms_source_claim (Holder_Grant t) = ServiceClaim (hg_allocation t)"
| "terms_source_claim (Seed_Capital _) = ServiceClaim service_fund"

datatype consilium_effect =
    Effect_Withdrawal uuid | Effect_Payment uuid | Effect_Valuation uuid | Effect_FeePolicy uuid
  | Effect_Issuance uuid | Effect_Subscription uuid

section \<open>The request\<close>

definition MIN_OWNERS :: u32 where
  "MIN_OWNERS = 3"

definition CONSILIUM_TTL_SECS :: i64 where
  "CONSILIUM_TTL_SECS = 72 * 60 * 60"

definition threshold :: "u32 \<Rightarrow> u32" where
  "threshold owner_count = owner_count div 2 + 1"

record consilium_vote =
  cv_voter :: uuid
  cv_decision :: vote_decision
  cv_decided_at :: i64
  cv_counts :: bool

datatype consilium_event =
    Consilium_Opened uuid consilium_kind consilium_terms string uuid u32 u32 i64
  | VoteRecorded uuid uuid vote_decision i64
  | Consilium_Approved uuid u32 u32 i64
  | Consilium_Rejected uuid u32 i64
  | Consilium_Expired uuid i64
  | Consilium_Cancelled uuid i64
  | Consilium_Executed uuid consilium_effect i64
  | Consilium_ExecutionFailed uuid string i64

record consilium =
  cn_id :: uuid
  cn_terms :: consilium_terms
  cn_hash :: string
  cn_initiator :: uuid
  cn_owner_count :: u32
  cn_threshold :: u32
  cn_eligible :: "uuid list"
  cn_votes :: "consilium_vote list"
  cn_state :: consilium_state
  cn_created_at :: i64
  cn_expires_at :: i64
  cn_decided_at :: "i64 option"
  cn_executed :: "consilium_effect option"
  cn_failure :: "string option"
  cn_version :: u64
  cn_pending :: "consilium_event list"

text \<open>The roster keeps each owner once, where first named.\<close>

fun roster_of :: "uuid list \<Rightarrow> uuid list \<Rightarrow> uuid list" where
  "roster_of [] roster = roster"
| "roster_of (owner # owners) roster =
     roster_of owners (if owner \<in> set roster then roster else roster @ [owner])"

definition consilium_open ::
  "uuid \<Rightarrow> consilium_terms \<Rightarrow> string \<Rightarrow> uuid \<Rightarrow> uuid list \<Rightarrow> i64 \<Rightarrow> consilium result" where
  "consilium_open i terms hash initiator owners created_at =
     (let roster = roster_of owners [] in
      if initiator \<notin> set roster then Inl (Forbidden ''only a fund owner may open a consilium'')
      else
        let owner_count = word_of_nat (length roster) :: u32 in
        if owner_count < MIN_OWNERS
        then Inl (Validation (''a '' @ kind_noun (terms_kind terms) @ '' consilium needs at least '' @
          show_nat (unat MIN_OWNERS) @ '' owners; this fund has '' @ show_nat (unat owner_count) @
          '', so the threshold can never be reached''))
        else Inr \<lparr>cn_id = i, cn_terms = terms, cn_hash = hash, cn_initiator = initiator,
          cn_owner_count = owner_count, cn_threshold = threshold owner_count,
          cn_eligible = filter (\<lambda>owner. owner \<noteq> initiator) roster, cn_votes = [], cn_state = Open_Consilium,
          cn_created_at = created_at, cn_expires_at = i64_saturating_add created_at CONSILIUM_TTL_SECS,
          cn_decided_at = None, cn_executed = None, cn_failure = None, cn_version = 1,
          cn_pending = [Consilium_Opened i (terms_kind terms) terms (hex32 hash) initiator owner_count
            (threshold owner_count) (i64_saturating_add created_at CONSILIUM_TTL_SECS)]\<rparr>)"

definition consilium_raise :: "consilium_event \<Rightarrow> consilium \<Rightarrow> consilium" where
  "consilium_raise e c = c\<lparr>cn_version := saturating_add (cn_version c) 1, cn_pending := cn_pending c @ [e]\<rparr>"

definition counted :: "consilium \<Rightarrow> vote_decision \<Rightarrow> u32" where
  "counted c d = word_of_nat (length (filter (\<lambda>v. cv_counts v \<and> cv_decision v = d) (cn_votes c)))"

definition approvals :: "consilium \<Rightarrow> u32" where
  "approvals c = counted c Approve_Vote"

definition rejections :: "consilium \<Rightarrow> u32" where
  "rejections c = counted c Reject_Vote"

definition decide :: "consilium \<Rightarrow> consilium_state \<Rightarrow> i64 \<Rightarrow> consilium" where
  "decide c s at =
     (let c = c\<lparr>cn_state := s, cn_decided_at := Some at\<rparr> in
      consilium_raise
        (case s of
           Approved_Consilium \<Rightarrow> Consilium_Approved (cn_id c) (approvals c) (cn_threshold c) at
         | Rejected_Consilium \<Rightarrow> Consilium_Rejected (cn_id c) (rejections c) at
         | Cancelled_Consilium \<Rightarrow> Consilium_Cancelled (cn_id c) at
         | _ \<Rightarrow> Consilium_Expired (cn_id c) at) c)"

definition settle_tally :: "consilium \<Rightarrow> i64 \<Rightarrow> consilium" where
  "settle_tally c at =
     (if \<not> consilium_is_open (cn_state c) then c
      else if cn_threshold c \<le> approvals c then decide c Approved_Consilium at
      else if saturating_sub (word_of_nat (length (cn_eligible c))) (cn_threshold c) < rejections c
      then decide c Rejected_Consilium at
      else c)"

definition record_vote :: "consilium \<Rightarrow> uuid \<Rightarrow> vote_decision \<Rightarrow> i64 \<Rightarrow> consilium result" where
  "record_vote c voter decision at =
     (if decision = Pending_Vote then Inl (Validation ''a vote must be approve or reject'')
      else if voter \<notin> set (cn_eligible c) then Inl (Forbidden ''not an eligible voter on this consilium'')
      else
        case List.find (\<lambda>v. cv_voter v = voter) (cn_votes c) of
          Some existing \<Rightarrow>
            if cv_decision existing = decision then Inr c
            else Inl (Conflict ''this seat has already answered; a decision cannot be changed'')
        | None \<Rightarrow>
            if \<not> consilium_is_open (cn_state c)
            then Inl (Conflict (''consilium is '' @ consilium_state_str (cn_state c) @ '', no longer accepting votes''))
            else
              let c = c\<lparr>cn_votes := cn_votes c @
                    [\<lparr>cv_voter = voter, cv_decision = decision, cv_decided_at = at, cv_counts = True\<rparr>]\<rparr>;
                  c = consilium_raise (VoteRecorded (cn_id c) voter decision at) c
              in Inr (settle_tally c at))"

definition close_open :: "consilium \<Rightarrow> consilium_state \<Rightarrow> i64 \<Rightarrow> consilium result" where
  "close_open c target at =
     (if cn_state c = target then Inr c
      else if \<not> consilium_is_open (cn_state c)
      then Inl (Conflict (''consilium is '' @ consilium_state_str (cn_state c) @ '', not '' @ consilium_state_str target))
      else Inr (decide c target at))"

definition consilium_approve :: "consilium \<Rightarrow> i64 \<Rightarrow> consilium result" where
  "consilium_approve c at = close_open c Approved_Consilium at"

definition consilium_reject :: "consilium \<Rightarrow> i64 \<Rightarrow> consilium result" where
  "consilium_reject c at = close_open c Rejected_Consilium at"

definition consilium_cancel :: "consilium \<Rightarrow> i64 \<Rightarrow> consilium result" where
  "consilium_cancel c at = close_open c Cancelled_Consilium at"

definition consilium_expire :: "consilium \<Rightarrow> i64 \<Rightarrow> consilium result" where
  "consilium_expire c at =
     (if consilium_is_open (cn_state c) \<and> sint at < sint (cn_expires_at c)
      then Inl (Conflict ''consilium has not expired yet'')
      else close_open c Expired_Consilium at)"

definition mark_executed :: "consilium \<Rightarrow> consilium_effect \<Rightarrow> i64 \<Rightarrow> consilium result" where
  "mark_executed c effect at =
     (if cn_state c = Executed_Consilium then
        if cn_executed c = Some effect then Inr c
        else Inl (Conflict ''consilium already executed a different payout'')
      else if cn_state c \<noteq> Approved_Consilium
      then Inl (Conflict (''consilium is '' @ consilium_state_str (cn_state c) @ '', not executable''))
      else
        let c = c\<lparr>cn_state := Executed_Consilium, cn_executed := Some effect\<rparr>
        in Inr (consilium_raise (Consilium_Executed (cn_id c) effect at) c))"

definition mark_execution_failed :: "consilium \<Rightarrow> string \<Rightarrow> i64 \<Rightarrow> consilium result" where
  "mark_execution_failed c reason at =
     (if cn_state c = ExecutionFailed_Consilium then Inr c
      else if cn_state c \<noteq> Approved_Consilium
      then Inl (Conflict (''consilium is '' @ consilium_state_str (cn_state c) @ '', not executable''))
      else
        let c = c\<lparr>cn_state := ExecutionFailed_Consilium, cn_failure := Some reason\<rparr>
        in Inr (consilium_raise (Consilium_ExecutionFailed (cn_id c) reason at) c))"

definition executed_payment_id :: "consilium \<Rightarrow> uuid option" where
  "executed_payment_id c = (case cn_executed c of Some (Effect_Payment i) \<Rightarrow> Some i | _ \<Rightarrow> None)"

definition executed_valuation_id :: "consilium \<Rightarrow> uuid option" where
  "executed_valuation_id c = (case cn_executed c of Some (Effect_Valuation i) \<Rightarrow> Some i | _ \<Rightarrow> None)"

definition consilium_withdrawal_id :: "consilium \<Rightarrow> uuid option" where
  "consilium_withdrawal_id c = (case cn_executed c of Some (Effect_Withdrawal i) \<Rightarrow> Some i | _ \<Rightarrow> None)"

definition executed_fee_policy_change_id :: "consilium \<Rightarrow> uuid option" where
  "executed_fee_policy_change_id c = (case cn_executed c of Some (Effect_FeePolicy i) \<Rightarrow> Some i | _ \<Rightarrow> None)"

definition executed_issuance_id :: "consilium \<Rightarrow> uuid option" where
  "executed_issuance_id c = (case cn_executed c of Some (Effect_Issuance i) \<Rightarrow> Some i | _ \<Rightarrow> None)"

definition executed_subscription_id :: "consilium \<Rightarrow> uuid option" where
  "executed_subscription_id c = (case cn_executed c of Some (Effect_Subscription i) \<Rightarrow> Some i | _ \<Rightarrow> None)"

section \<open>The digest\<close>

fun consilium_fits :: "consilium_terms \<Rightarrow> bool" where
  "consilium_fits (Payment_Subject s) \<longleftrightarrow> payment_terms_fit (ps_terms s)"
| "consilium_fits (Valuation_Override t) \<longleftrightarrow> fits_usize (service_id_str (vo_service t))"
| "consilium_fits (Fee_Policy s) \<longleftrightarrow> subject_fits s"
| "consilium_fits (Holder_Grant t) \<longleftrightarrow> fits_usize (service_id_str (hg_allocation t))"
| "consilium_fits (Seed_Capital t) \<longleftrightarrow> fits_usize (tx_ref_str (sc_tx_ref t))"

lemma shares_units_inject [simp]: "shares_units a = shares_units b \<longleftrightarrow> a = b"
  by (auto intro: shares.expand)

lemma tx_ref_str_inject [simp]: "tx_ref_str a = tx_ref_str b \<longleftrightarrow> a = b"
  by (auto intro: tx_ref.expand)

lemma valuation_bytes_code:
  "fits_usize (service_id_str (vo_service t)) \<Longrightarrow> fits_usize (service_id_str (vo_service u)) \<Longrightarrow>
     valuation_bytes t = valuation_bytes u \<longleftrightarrow> t = u"
  by (auto simp: valuation_bytes_def push_field_append [of VALUATION_DOMAIN] field.cancel u128_bytes.inject
      intro: valuation_terms.equality)

lemma grant_bytes_split: "grant_bytes sh t = GRANT_DOMAIN @ push_field [] (service_id_str (hg_allocation t)) @
    push_field [] (sh (hg_user t)) @ u128_to_be_bytes (shares_units (hg_units t))"
  unfolding grant_bytes_def by (subst (1 2) push_field_append) (simp only: append_assoc)

lemma seed_bytes_split: "seed_bytes sh t = SEED_DOMAIN @ push_field [] (tx_ref_str (sc_tx_ref t)) @
    push_field [] (network_str (sc_network t)) @ push_field [] (sh (sc_depositor t)) @
    u128_to_be_bytes (usdt_units (sc_amount t))"
  unfolding seed_bytes_def by (subst (1 2 3) push_field_append) (simp only: append_assoc)

lemma grant_bytes_code:
  "ids_print sh \<Longrightarrow> fits_usize (service_id_str (hg_allocation t)) \<Longrightarrow> fits_usize (service_id_str (hg_allocation u)) \<Longrightarrow>
     grant_bytes sh t = grant_bytes sh u \<longleftrightarrow> t = u"
  by (auto simp: grant_bytes_split field.cancel u128_bytes.inject ids_print_def inj_def intro: grant_terms.equality)

lemma seed_bytes_code:
  "ids_print sh \<Longrightarrow> fits_usize (tx_ref_str (sc_tx_ref t)) \<Longrightarrow> fits_usize (tx_ref_str (sc_tx_ref u)) \<Longrightarrow>
     seed_bytes sh t = seed_bytes sh u \<longleftrightarrow> t = u"
  by (auto simp: seed_bytes_split field.cancel u128_bytes.inject ids_print_def inj_def intro: seed_terms.equality)

lemma fee_subject_bytes_code:
  "subject_fits s \<Longrightarrow> subject_fits u \<Longrightarrow> fee_subject_bytes s = fee_subject_bytes u \<longleftrightarrow> s = u"
  using fee_subject_bytes_inj [of s u] by (auto intro: fee_subject.equality)

text \<open>Each kind's bytes open with a prefix of its own.\<close>

fun terms_domain :: "consilium_terms \<Rightarrow> string" where
  "terms_domain (Payment_Subject _) = PAYMENT_SUBJECT_DOMAIN"
| "terms_domain (Valuation_Override _) = VALUATION_DOMAIN"
| "terms_domain (Fee_Policy _) = FEE_SUBJECT_DOMAIN"
| "terms_domain (Holder_Grant _) = GRANT_DOMAIN"
| "terms_domain (Seed_Capital _) = SEED_DOMAIN"

lemma consilium_bytes_domain: "\<exists>body. consilium_bytes sh t = terms_domain t @ body"
  by (cases t) (simp_all add: payment_subject_bytes_def valuation_bytes_def grant_bytes_split seed_bytes_split
      fee_subject_bytes_split push_field_append [of PAYMENT_SUBJECT_DOMAIN]
      push_field_append [of VALUATION_DOMAIN])

lemma terms_domain_apart:
  assumes "terms_domain t @ x = terms_domain u @ y"
  shows "terms_kind t = terms_kind u"
  using assms
  by (cases t; cases u) (simp_all add: PAYMENT_SUBJECT_DOMAIN_def VALUATION_DOMAIN_def FEE_SUBJECT_DOMAIN_def GRANT_DOMAIN_def
      SEED_DOMAIN_def)

text \<open>
  What the owners sign is one request: two sets of terms with the same hashed bytes are the same
  terms, of the same kind, so an approval of one is never a signature over another.
\<close>
theorem consilium_digest_binds:
  assumes ids: "ids_print sh" and fit: "consilium_fits t" "consilium_fits u"
    and eq: "consilium_bytes sh t = consilium_bytes sh u"
  shows "t = u"
proof -
  from consilium_bytes_domain obtain x y where "consilium_bytes sh t = terms_domain t @ x" "consilium_bytes sh u = terms_domain u @ y"
    by metis
  with eq have "terms_kind t = terms_kind u" by (intro terms_domain_apart) simp
  then show ?thesis
    using fit eq ids
    by (cases t; cases u) (auto simp: payment_subject_bytes_code valuation_bytes_code grant_bytes_code seed_bytes_code
        fee_subject_bytes_code)
qed

definition sample_seed :: "usdt \<Rightarrow> consilium_terms" where
  "sample_seed amount = Seed_Capital \<lparr>sc_tx_ref = TxRef ''0xabc'', sc_network = Bep20, sc_amount = amount, sc_depositor = 7\<rparr>"

theorem consilium_digest_binds_witness:
  "consilium_bytes show_u128 (sample_seed (Usdt 5)) \<noteq> consilium_bytes show_u128 (sample_seed (Usdt 6))"
proof
  assume "consilium_bytes show_u128 (sample_seed (Usdt 5)) = consilium_bytes show_u128 (sample_seed (Usdt 6))"
  from consilium_digest_binds [OF ids_print_decimal _ _ this] show False
    by (simp add: sample_seed_def fits_usize_def)
qed

end
