(* ===== verification/Withdrawals.thy ===== *)
theory Withdrawals
  imports PaymentSafety LedgerPort
begin

text \<open>
  Withdrawals (\<^verbatim>\<open>domain/src/withdrawals.rs\<close>) and their store
  (\<^verbatim>\<open>infrastructure/withdrawals.rs\<close>): whose claim is debited, the queue's states, the facts
  the relay moves money on.  A command locks its row, applies the aggregate and commits the new row
  with the facts raised, or leaves everything as it was.
\<close>

section \<open>The source\<close>

datatype withdrawal_source = User_Source uuid | Treasury_Source uuid

definition TREASURY_WIRE :: string where
  "TREASURY_WIRE = ''treasury''"

fun source_wire :: "(uuid \<Rightarrow> string) \<Rightarrow> withdrawal_source \<Rightarrow> string" where
  "source_wire sh (User_Source user) = sh user"
| "source_wire sh (Treasury_Source payment) = TREASURY_WIRE @ '':'' @ sh payment"

fun source_column :: "withdrawal_source \<Rightarrow> string" where
  "source_column (User_Source _) = ''user''"
| "source_column (Treasury_Source _) = TREASURY_WIRE"

definition source_parse :: "(string \<Rightarrow> uuid option) \<Rightarrow> string \<Rightarrow> withdrawal_source result" where
  "source_parse ps raw =
     (if starts_with (TREASURY_WIRE @ '':'') raw
      then rmap Treasury_Source (ok_or (ps (drop (length TREASURY_WIRE + 1) raw))
        (Validation (''unknown withdrawal source: '' @ raw)))
      else rmap User_Source (ok_or (ps raw) (Validation (''unknown withdrawal source: '' @ raw))))"

fun source_claim_key :: "withdrawal_source \<Rightarrow> account_key" where
  "source_claim_key (User_Source user) = UserClaim user"
| "source_claim_key (Treasury_Source _) = payee_claim_key payee_treasury"

fun source_user :: "withdrawal_source \<Rightarrow> uuid option" where
  "source_user (User_Source user) = Some user"
| "source_user (Treasury_Source _) = None"

fun source_payment :: "withdrawal_source \<Rightarrow> uuid option" where
  "source_payment (User_Source _) = None"
| "source_payment (Treasury_Source payment) = Some payment"

definition withdrawal_fee :: "network \<Rightarrow> usdt" where
  "withdrawal_fee n = Usdt 1000000000000000000"

definition withdrawal_minimum :: "network \<Rightarrow> usdt" where
  "withdrawal_minimum n = Usdt 2000000000000000000"

fun withdrawal_fee_for :: "withdrawal_source \<Rightarrow> network \<Rightarrow> usdt" where
  "withdrawal_fee_for (User_Source _) n = withdrawal_fee n"
| "withdrawal_fee_for (Treasury_Source _) n = USDT_ZERO"

section \<open>The aggregate\<close>

datatype withdrawal_state =
    Queued_Withdrawal | Processing_Withdrawal | Completed_Withdrawal | Failed_Withdrawal | Cancelled_Withdrawal

fun withdrawal_state_str :: "withdrawal_state \<Rightarrow> string" where
  "withdrawal_state_str Queued_Withdrawal = ''queued''"
| "withdrawal_state_str Processing_Withdrawal = ''processing''"
| "withdrawal_state_str Completed_Withdrawal = ''completed''"
| "withdrawal_state_str Failed_Withdrawal = ''failed''"
| "withdrawal_state_str Cancelled_Withdrawal = ''cancelled''"

definition withdrawal_state_parse :: "string \<Rightarrow> withdrawal_state result" where
  "withdrawal_state_parse raw =
     (if raw = ''queued'' then Inr Queued_Withdrawal
      else if raw = ''processing'' then Inr Processing_Withdrawal
      else if raw = ''completed'' then Inr Completed_Withdrawal
      else if raw = ''failed'' then Inr Failed_Withdrawal
      else if raw = ''cancelled'' then Inr Cancelled_Withdrawal
      else Inl (Validation (''unknown withdrawal state: '' @ raw)))"

interpretation withdrawal_state_text: exact_codec withdrawal_state_str withdrawal_state_parse
proof
  show "withdrawal_state_parse (withdrawal_state_str x) = Inr x" for x
    by (cases x) (simp_all add: withdrawal_state_parse_def)
  show "withdrawal_state_parse s = Inr x \<Longrightarrow> withdrawal_state_str x = s" for s x
    by (auto simp: withdrawal_state_parse_def split: if_splits)
qed

datatype withdrawal_event =
    Withdrawal_Requested uuid withdrawal_source network wallet_address usdt usdt
  | Withdrawal_Dispatched uuid withdrawal_source network wallet_address usdt usdt
  | Withdrawal_Settled uuid withdrawal_source network usdt usdt tx_ref fee_payee
  | Withdrawal_Failed uuid withdrawal_source network usdt usdt
  | Withdrawal_Cancelled uuid withdrawal_source network usdt usdt

record withdrawal =
  wd_id :: uuid
  wd_source :: withdrawal_source
  wd_network :: network
  wd_address :: wallet_address
  wd_amount :: usdt
  wd_fee :: usdt
  wd_state :: withdrawal_state
  wd_tx_ref :: "tx_ref option"
  wd_pending :: "withdrawal_event list"

definition withdrawal_request ::
  "uuid \<Rightarrow> withdrawal_source \<Rightarrow> network \<Rightarrow> wallet_address \<Rightarrow> usdt \<Rightarrow> usdt \<Rightarrow> withdrawal result" where
  "withdrawal_request i source n address amount fee =
     (if wa_network address \<noteq> n then Inl (Validation ''withdrawal address is for a different network'')
      else if amount < withdrawal_minimum n then Inl (Validation ''amount is below the minimum withdrawal'')
      else
        rbind (ok_or (case usdt_checked_sub amount fee of
                        Some net \<Rightarrow> if usdt_is_zero net then None else Some net
                      | None \<Rightarrow> None)
                (Validation ''amount does not cover the network fee'')) (\<lambda>net.
        rbind (to_onchain net n) (\<lambda>_.
        Inr \<lparr>wd_id = i, wd_source = source, wd_network = n, wd_address = address, wd_amount = amount, wd_fee = fee,
          wd_state = Queued_Withdrawal, wd_tx_ref = None,
          wd_pending = [Withdrawal_Requested i source n address amount fee]\<rparr>)))"

definition withdrawal_raise :: "withdrawal_event \<Rightarrow> withdrawal \<Rightarrow> withdrawal" where
  "withdrawal_raise e w = w\<lparr>wd_pending := wd_pending w @ [e]\<rparr>"

definition withdrawal_dispatch :: "withdrawal \<Rightarrow> withdrawal result" where
  "withdrawal_dispatch w =
     (if wd_state w = Processing_Withdrawal then Inr w
      else if wd_state w \<noteq> Queued_Withdrawal
      then Inl (Conflict (''withdrawal is '' @ withdrawal_state_str (wd_state w) @ '', not dispatchable''))
      else Inr (withdrawal_raise
        (Withdrawal_Dispatched (wd_id w) (wd_source w) (wd_network w) (wd_address w) (wd_amount w) (wd_fee w))
        (w\<lparr>wd_state := Processing_Withdrawal\<rparr>)))"

definition withdrawal_settle :: "withdrawal \<Rightarrow> tx_ref \<Rightarrow> withdrawal result" where
  "withdrawal_settle w ref =
     (if wd_state w = Completed_Withdrawal then Inr w
      else if wd_state w \<noteq> Processing_Withdrawal
      then Inl (Conflict (''withdrawal is '' @ withdrawal_state_str (wd_state w) @ '', not settleable''))
      else Inr (withdrawal_raise
        (Withdrawal_Settled (wd_id w) (wd_source w) (wd_network w) (wd_amount w) (wd_fee w) ref payee_treasury)
        (w\<lparr>wd_state := Completed_Withdrawal, wd_tx_ref := Some ref\<rparr>)))"

definition withdrawal_fail :: "withdrawal \<Rightarrow> withdrawal result" where
  "withdrawal_fail w =
     (if wd_state w = Failed_Withdrawal then Inr w
      else if wd_state w \<noteq> Processing_Withdrawal
      then Inl (Conflict (''withdrawal is '' @ withdrawal_state_str (wd_state w) @ '', not failable''))
      else Inr (withdrawal_raise
        (Withdrawal_Failed (wd_id w) (wd_source w) (wd_network w) (wd_amount w) (wd_fee w))
        (w\<lparr>wd_state := Failed_Withdrawal\<rparr>)))"

definition withdrawal_cancel :: "withdrawal \<Rightarrow> withdrawal result" where
  "withdrawal_cancel w =
     (if wd_state w = Cancelled_Withdrawal then Inr w
      else if wd_state w \<noteq> Queued_Withdrawal
      then Inl (Conflict (''withdrawal is '' @ withdrawal_state_str (wd_state w) @ '', not cancellable''))
      else Inr (withdrawal_raise
        (Withdrawal_Cancelled (wd_id w) (wd_source w) (wd_network w) (wd_amount w) (wd_fee w))
        (w\<lparr>wd_state := Cancelled_Withdrawal\<rparr>)))"

definition net_amount :: "withdrawal \<Rightarrow> usdt" where
  "net_amount w = (case usdt_checked_sub (wd_amount w) (wd_fee w) of Some net \<Rightarrow> net | None \<Rightarrow> USDT_ZERO)"

definition withdrawal_drain :: "withdrawal \<Rightarrow> withdrawal \<times> withdrawal_event list" where
  "withdrawal_drain w = (w\<lparr>wd_pending := []\<rparr>, wd_pending w)"

section \<open>The store\<close>

text \<open>A row with the key its caller gave it; the outbox holds the facts drained, oldest first.\<close>

record withdrawal_row =
  wr_withdrawal :: withdrawal
  wr_key :: "string option"

record withdrawal_store =
  wst_rows :: "withdrawal_row list"
  wst_outbox :: "withdrawal_event list"

definition find_withdrawal :: "withdrawal_store \<Rightarrow> uuid \<Rightarrow> withdrawal option" where
  "find_withdrawal s i = List.find (\<lambda>w. wd_id w = i) (map wr_withdrawal (wst_rows s))"

definition find_withdrawal_by_key :: "withdrawal_store \<Rightarrow> uuid \<Rightarrow> string \<Rightarrow> withdrawal option" where
  "find_withdrawal_by_key s user key =
     map_option wr_withdrawal
       (List.find (\<lambda>r. source_user (wd_source (wr_withdrawal r)) = Some user \<and> wr_key r = Some key) (wst_rows s))"

definition withdrawal_persist :: "withdrawal_store \<Rightarrow> withdrawal \<Rightarrow> withdrawal_store" where
  "withdrawal_persist s w =
     (case withdrawal_drain w of (w', evs) \<Rightarrow>
        s\<lparr>wst_rows := map (\<lambda>r. if wd_id (wr_withdrawal r) = wd_id w then r\<lparr>wr_withdrawal := w'\<rparr> else r) (wst_rows s),
          wst_outbox := wst_outbox s @ evs\<rparr>)"

definition withdrawal_insert :: "withdrawal_store \<Rightarrow> withdrawal \<Rightarrow> string option \<Rightarrow> withdrawal_store result" where
  "withdrawal_insert s w key =
     (if find_withdrawal s (wd_id w) \<noteq> None \<or>
        (\<exists>r \<in> set (wst_rows s). key \<noteq> None \<and> wr_key r = key \<and>
           source_user (wd_source (wr_withdrawal r)) = source_user (wd_source w) \<and> source_user (wd_source w) \<noteq> None)
      then Inl (Repository ''duplicate key value violates unique constraint'')
      else case withdrawal_drain w of (w', evs) \<Rightarrow>
        Inr (s\<lparr>wst_rows := wst_rows s @ [\<lparr>wr_withdrawal = w', wr_key = key\<rparr>], wst_outbox := wst_outbox s @ evs\<rparr>))"

text \<open>The spend check runs under the claim's lock: it is the ledger's answer, an argument here.\<close>

definition withdrawal_open :: "withdrawal_store \<Rightarrow> withdrawal \<Rightarrow> unit result \<Rightarrow> withdrawal_store result" where
  "withdrawal_open s w check = rbind check (\<lambda>_. withdrawal_insert s w None)"

definition withdrawal_open_keyed ::
  "withdrawal_store \<Rightarrow> withdrawal \<Rightarrow> unit result \<Rightarrow> uuid \<Rightarrow> string \<Rightarrow> (withdrawal_store \<times> withdrawal option) result" where
  "withdrawal_open_keyed s w check user key =
     (case find_withdrawal_by_key s user key of
        Some existing \<Rightarrow> Inr (s, Some existing)
      | None \<Rightarrow> rbind check (\<lambda>_. rmap (\<lambda>s'. (s', None)) (withdrawal_insert s w (Some key))))"

definition withdrawal_apply ::
  "(uuid \<Rightarrow> string) \<Rightarrow> withdrawal_store \<Rightarrow> uuid \<Rightarrow> (withdrawal \<Rightarrow> withdrawal result) \<Rightarrow> withdrawal_store result" where
  "withdrawal_apply sh s i f =
     rbind (ok_or (find_withdrawal s i) (NotFound ''withdrawal'' (sh i))) (\<lambda>w.
     rmap (withdrawal_persist s) (f w))"

definition store_dispatch :: "(uuid \<Rightarrow> string) \<Rightarrow> withdrawal_store \<Rightarrow> uuid \<Rightarrow> withdrawal_store result" where
  "store_dispatch sh s i = withdrawal_apply sh s i withdrawal_dispatch"

definition store_settle :: "(uuid \<Rightarrow> string) \<Rightarrow> withdrawal_store \<Rightarrow> uuid \<Rightarrow> tx_ref \<Rightarrow> withdrawal_store result" where
  "store_settle sh s i ref = withdrawal_apply sh s i (\<lambda>w. withdrawal_settle w ref)"

definition store_fail :: "(uuid \<Rightarrow> string) \<Rightarrow> withdrawal_store \<Rightarrow> uuid \<Rightarrow> withdrawal_store result" where
  "store_fail sh s i = withdrawal_apply sh s i withdrawal_fail"

definition cancel_on :: "(uuid \<Rightarrow> string) \<Rightarrow> withdrawal_store \<Rightarrow> uuid \<Rightarrow> withdrawal_store result" where
  "cancel_on sh s i = withdrawal_apply sh s i withdrawal_cancel"

end
