(* ===== verification/FundUnits.thy ===== *)
theory FundUnits
  imports Withdrawals
begin

text \<open>
  Buying, returning and issuing units (\<^verbatim>\<open>domain/src/subscriptions.rs\<close>,
  \<^verbatim>\<open>redemptions.rs\<close>, \<^verbatim>\<open>issuance.rs\<close>): who may hold units, the redemption's states and the
  facts the relay mints, burns and pays on.
\<close>

section \<open>Subscriptions\<close>

datatype subscription_event = Subscribed uuid uuid service_id usdt nav shares

record subscription =
  sb_id :: uuid
  sb_user :: uuid
  sb_service :: service_id
  sb_cash :: usdt
  sb_nav :: nav
  sb_units :: shares
  sb_pending :: "subscription_event list"

definition subscription_open :: "uuid \<Rightarrow> uuid \<Rightarrow> service_id \<Rightarrow> usdt \<Rightarrow> nav \<Rightarrow> subscription result" where
  "subscription_open i user service cash nav =
     (if usdt_is_zero cash then Inl (Validation ''subscription amount must be positive'')
      else rbind (shares_from_cash cash nav) (\<lambda>units.
        if shares_is_zero units then Inl (Validation ''amount too small to buy a share at the current nav'')
        else Inr \<lparr>sb_id = i, sb_user = user, sb_service = service, sb_cash = cash, sb_nav = nav, sb_units = units,
          sb_pending = [Subscribed i user service cash nav units]\<rparr>))"

section \<open>Redemptions\<close>

datatype redemption_state = Queued_Redemption | Completed_Redemption | Failed_Redemption | Cancelled_Redemption

fun redemption_state_str :: "redemption_state \<Rightarrow> string" where
  "redemption_state_str Queued_Redemption = ''queued''"
| "redemption_state_str Completed_Redemption = ''completed''"
| "redemption_state_str Failed_Redemption = ''failed''"
| "redemption_state_str Cancelled_Redemption = ''cancelled''"

definition redemption_state_parse :: "string \<Rightarrow> redemption_state result" where
  "redemption_state_parse raw =
     (if raw = ''queued'' then Inr Queued_Redemption
      else if raw = ''completed'' then Inr Completed_Redemption
      else if raw = ''failed'' then Inr Failed_Redemption
      else if raw = ''cancelled'' then Inr Cancelled_Redemption
      else Inl (Validation (''unknown redemption state: '' @ raw)))"

interpretation redemption_state_text: exact_codec redemption_state_str redemption_state_parse
proof
  show "redemption_state_parse (redemption_state_str x) = Inr x" for x
    by (cases x) (simp_all add: redemption_state_parse_def)
  show "redemption_state_parse s = Inr x \<Longrightarrow> redemption_state_str x = s" for s x
    by (auto simp: redemption_state_parse_def split: if_splits)
qed

datatype redemption_event =
    Redemption_Requested uuid uuid service_id shares
  | Redemption_Settled uuid uuid service_id shares nav usdt
  | Redemption_Failed uuid uuid service_id shares
  | Redemption_Cancelled uuid uuid service_id shares

record redemption =
  rd_id :: uuid
  rd_user :: uuid
  rd_service :: service_id
  rd_units :: shares
  rd_nav :: "nav option"
  rd_cash :: "usdt option"
  rd_state :: redemption_state
  rd_pending :: "redemption_event list"

definition redemption_request :: "uuid \<Rightarrow> uuid \<Rightarrow> service_id \<Rightarrow> shares \<Rightarrow> redemption result" where
  "redemption_request i user service units =
     (if shares_is_zero units then Inl (Validation ''redemption units must be positive'')
      else Inr \<lparr>rd_id = i, rd_user = user, rd_service = service, rd_units = units, rd_nav = None, rd_cash = None,
        rd_state = Queued_Redemption, rd_pending = [Redemption_Requested i user service units]\<rparr>)"

definition redemption_raise :: "redemption_event \<Rightarrow> redemption \<Rightarrow> redemption" where
  "redemption_raise e r = r\<lparr>rd_pending := rd_pending r @ [e]\<rparr>"

definition redemption_settle :: "redemption \<Rightarrow> nav \<Rightarrow> redemption result" where
  "redemption_settle r nav =
     (if rd_state r = Completed_Redemption then Inr r
      else if rd_state r \<noteq> Queued_Redemption
      then Inl (Conflict (''redemption is '' @ redemption_state_str (rd_state r) @ '', not settleable''))
      else rbind (nav_value nav (rd_units r)) (\<lambda>cash.
        if usdt_is_zero cash then Inl (Validation ''redemption values to zero at the current nav'')
        else Inr (redemption_raise (Redemption_Settled (rd_id r) (rd_user r) (rd_service r) (rd_units r) nav cash)
          (r\<lparr>rd_nav := Some nav, rd_cash := Some cash, rd_state := Completed_Redemption\<rparr>))))"

definition redemption_fail :: "redemption \<Rightarrow> redemption result" where
  "redemption_fail r =
     (if rd_state r = Failed_Redemption then Inr r
      else if rd_state r \<noteq> Queued_Redemption
      then Inl (Conflict (''redemption is '' @ redemption_state_str (rd_state r) @ '', not failable''))
      else Inr (redemption_raise (Redemption_Failed (rd_id r) (rd_user r) (rd_service r) (rd_units r))
        (r\<lparr>rd_state := Failed_Redemption\<rparr>)))"

definition redemption_cancel :: "redemption \<Rightarrow> redemption result" where
  "redemption_cancel r =
     (if rd_state r = Cancelled_Redemption then Inr r
      else if rd_state r \<noteq> Queued_Redemption
      then Inl (Conflict (''redemption is '' @ redemption_state_str (rd_state r) @ '', not cancellable''))
      else Inr (redemption_raise (Redemption_Cancelled (rd_id r) (rd_user r) (rd_service r) (rd_units r))
        (r\<lparr>rd_state := Cancelled_Redemption\<rparr>)))"

definition redemption_drain :: "redemption \<Rightarrow> redemption \<times> redemption_event list" where
  "redemption_drain r = (r\<lparr>rd_pending := []\<rparr>, rd_pending r)"

section \<open>Issuance\<close>

datatype unit_holder = User_Holder uuid | Allocation_Holder service_id

fun holder_kind_str :: "unit_holder \<Rightarrow> string" where
  "holder_kind_str (User_Holder _) = ''user''"
| "holder_kind_str (Allocation_Holder _) = ''allocation''"

fun holder_user_id :: "unit_holder \<Rightarrow> uuid option" where
  "holder_user_id (User_Holder i) = Some i"
| "holder_user_id (Allocation_Holder _) = None"

fun holder_service_id :: "unit_holder \<Rightarrow> service_id option" where
  "holder_service_id (Allocation_Holder s) = Some s"
| "holder_service_id (User_Holder _) = None"

definition holder_from_parts :: "string \<Rightarrow> uuid option \<Rightarrow> service_id option \<Rightarrow> unit_holder result" where
  "holder_from_parts kind user service =
     (case (user, service) of
        (Some u, None) \<Rightarrow> if kind = ''user'' then Inr (User_Holder u) else Inl (Validation (''invalid unit holder: '' @ kind))
      | (None, Some s) \<Rightarrow> if kind = ''allocation'' then Inr (Allocation_Holder s) else Inl (Validation (''invalid unit holder: '' @ kind))
      | _ \<Rightarrow> Inl (Validation (''invalid unit holder: '' @ kind)))"

fun holder_shares_key :: "unit_holder \<Rightarrow> service_id \<Rightarrow> account_key result" where
  "holder_shares_key (User_Holder user) service = Inr (UserShares service user)"
| "holder_shares_key (Allocation_Holder holder) service =
     (if holder = service_fee then Inr (FeeShares service)
      else Inl (Validation (''the '' @ [CHR 0x27] @ service_id_str holder @ [CHR 0x27] @
        '' allocation has no unit account in '' @ [CHR 0x27] @ service_id_str service @ [CHR 0x27])))"

fun ensure_may_hold :: "unit_holder \<Rightarrow> service_id \<Rightarrow> unit result" where
  "ensure_may_hold (User_Holder _) service = Inr ()"
| "ensure_may_hold (Allocation_Holder a) service =
     (if \<not> service_is_reserved a
      then Inl (Validation ([CHR 0x27] @ service_id_str a @ [CHR 0x27] @ '' is not a reserved allocation and cannot hold units''))
      else if service_is_reserved service
      then Inl (Validation ([CHR 0x27] @ service_id_str service @ [CHR 0x27] @
        '' is a reserved allocation and can only be held by people''))
      else rmap (\<lambda>_. ()) (holder_shares_key (Allocation_Holder a) service))"

fun of_holding :: "account_key \<Rightarrow> (service_id \<times> unit_holder) option" where
  "of_holding (UserShares service user) = Some (service, User_Holder user)"
| "of_holding (BookShares service user) = Some (service, User_Holder user)"
| "of_holding (FeeShares service) = Some (service, Allocation_Holder service_fee)"
| "of_holding _ = None"

datatype issuance_state = Queued_Issuance | Applied_Issuance

fun issuance_state_str :: "issuance_state \<Rightarrow> string" where
  "issuance_state_str Queued_Issuance = ''queued''"
| "issuance_state_str Applied_Issuance = ''applied''"

definition issuance_state_parse :: "string \<Rightarrow> issuance_state result" where
  "issuance_state_parse raw =
     (if raw = ''queued'' then Inr Queued_Issuance
      else if raw = ''applied'' then Inr Applied_Issuance
      else Inl (Validation (''unknown issuance state: '' @ raw)))"

datatype issuance_source = Mint_Source | Retire_Source

fun issuance_source_str :: "issuance_source \<Rightarrow> string" where
  "issuance_source_str Mint_Source = ''mint''"
| "issuance_source_str Retire_Source = ''retire''"

definition issuance_source_parse :: "string \<Rightarrow> issuance_source result" where
  "issuance_source_parse raw =
     (if raw = ''mint'' then Inr Mint_Source
      else if raw = ''retire'' then Inr Retire_Source
      else Inl (Validation (''unknown issuance source: '' @ raw)))"

definition ISSUANCE_KEY_LEN :: nat where
  "ISSUANCE_KEY_LEN = 64"

datatype issuance_key = IssuanceKey (issuance_key_str: string)

definition issuance_key_parse :: "string \<Rightarrow> issuance_key result" where
  "issuance_key_parse raw =
     (let v = trim raw in
      if v = [] \<or> ISSUANCE_KEY_LEN < chars_count v
      then Inl (Validation (''idempotency key must be 1..'' @ show_nat ISSUANCE_KEY_LEN @ '' chars''))
      else Inr (IssuanceKey v))"

datatype issuance_event = Issued uuid service_id unit_holder issuance_source shares nav usdt

record unit_issuance =
  ui_id :: uuid
  ui_service :: service_id
  ui_holder :: unit_holder
  ui_source :: issuance_source
  ui_units :: shares
  ui_nav :: nav
  ui_cost_basis :: usdt
  ui_key :: issuance_key
  ui_state :: issuance_state
  ui_pending :: "issuance_event list"

definition issuance_record ::
  "uuid \<Rightarrow> service_id \<Rightarrow> unit_holder \<Rightarrow> issuance_source \<Rightarrow> shares \<Rightarrow> nav \<Rightarrow> usdt option \<Rightarrow> issuance_key
    \<Rightarrow> unit_issuance result" where
  "issuance_record i service holder source units nav cost_basis key =
     (if shares_is_zero units then Inl (Validation ''issued units must be positive'')
      else rbind (ensure_may_hold holder service) (\<lambda>_.
        rbind (case cost_basis of Some given_basis \<Rightarrow> Inr given_basis | None \<Rightarrow> nav_value nav units) (\<lambda>cost.
        Inr \<lparr>ui_id = i, ui_service = service, ui_holder = holder, ui_source = source, ui_units = units, ui_nav = nav,
          ui_cost_basis = cost, ui_key = key, ui_state = Queued_Issuance,
          ui_pending = [Issued i service holder source units nav cost]\<rparr>)))"

definition issuance_issue ::
  "uuid \<Rightarrow> service_id \<Rightarrow> unit_holder \<Rightarrow> shares \<Rightarrow> nav \<Rightarrow> usdt option \<Rightarrow> issuance_key \<Rightarrow> unit_issuance result" where
  "issuance_issue i service holder units nav cost_basis key =
     issuance_record i service holder Mint_Source units nav cost_basis key"

definition issuance_retire ::
  "uuid \<Rightarrow> service_id \<Rightarrow> unit_holder \<Rightarrow> shares \<Rightarrow> nav \<Rightarrow> usdt option \<Rightarrow> issuance_key \<Rightarrow> unit_issuance result" where
  "issuance_retire i service holder units nav cost_basis key =
     issuance_record i service holder Retire_Source units nav cost_basis key"

definition applied_mint ::
  "uuid \<Rightarrow> service_id \<Rightarrow> unit_holder \<Rightarrow> shares \<Rightarrow> nav \<Rightarrow> issuance_key \<Rightarrow> unit_issuance result" where
  "applied_mint i service holder units nav key =
     rmap (\<lambda>u. u\<lparr>ui_state := Applied_Issuance, ui_pending := []\<rparr>)
       (issuance_record i service holder Mint_Source units nav None key)"

definition issuance_matches_request :: "unit_issuance \<Rightarrow> unit_holder \<Rightarrow> issuance_source \<Rightarrow> shares \<Rightarrow> bool" where
  "issuance_matches_request u holder source units \<longleftrightarrow>
     ui_holder u = holder \<and> ui_source u = source \<and> ui_units u = units"

interpretation issuance_state_text: exact_codec issuance_state_str issuance_state_parse
proof
  show "issuance_state_parse (issuance_state_str x) = Inr x" for x
    by (cases x) (simp_all add: issuance_state_parse_def)
  show "issuance_state_parse s = Inr x \<Longrightarrow> issuance_state_str x = s" for s x
    by (auto simp: issuance_state_parse_def split: if_splits)
qed

interpretation issuance_source_text: exact_codec issuance_source_str issuance_source_parse
proof
  show "issuance_source_parse (issuance_source_str x) = Inr x" for x
    by (cases x) (simp_all add: issuance_source_parse_def)
  show "issuance_source_parse s = Inr x \<Longrightarrow> issuance_source_str x = s" for s x
    by (auto simp: issuance_source_parse_def split: if_splits)
qed

text \<open>An accepted issuance always has a unit account to move.\<close>

lemma may_hold_has_account: "ensure_may_hold h s = Inr () \<Longrightarrow> is_ok (holder_shares_key h s)"
  by (cases h) (auto simp: is_ok_def rmap_def split: if_splits sum.splits)

end
