(* ===== verification/ScopeLedger.thy ===== *)
theory ScopeLedger
  imports FundUnits Scopes
begin

text \<open>
  A scope's own ledger as its clients drive it (\<^verbatim>\<open>domain/src/scope_ledger.rs\<close>): who a caller is
  and which labels it may open, the limits on an unapproved transfer, transfers between scope
  accounts, holds on a user's compartment and the facts they raise.
\<close>

section \<open>Clients and their grants\<close>

datatype client_id = ClientId (client_id_str: string)

definition BANKING :: string where
  "BANKING = ''banking''"

definition client_id_parse :: "string \<Rightarrow> client_id result" where
  "client_id_parse raw =
     (let shaped = raw \<noteq> [] \<and> length raw \<le> 64 \<and> is_ascii_lowercase (hd raw) \<and>
            list_all (\<lambda>b. is_ascii_lowercase b \<or> is_ascii_digit b \<or> b = CHR ''_'' \<or> b = CHR ''-'') raw
      in if \<not> shaped
         then Inl (Validation (''client id must match [a-z][a-z0-9_-]{0,63}: '' @ debug_str raw))
         else Inr (ClientId raw))"

definition client_banking :: client_id where
  "client_banking = ClientId BANKING"

definition client_is_banking :: "client_id \<Rightarrow> bool" where
  "client_is_banking c \<longleftrightarrow> client_id_str c = BANKING"

record scope_grant =
  gr_client :: client_id
  gr_scope :: scope_id
  gr_prefix :: string
  gr_compartments :: bool

definition grant_covers :: "scope_grant \<Rightarrow> scope_label \<Rightarrow> bool" where
  "grant_covers g label \<longleftrightarrow> starts_with (gr_prefix g) (scope_label_str label)"

definition grants_overlap :: "scope_grant \<Rightarrow> scope_grant \<Rightarrow> bool" where
  "grants_overlap g other \<longleftrightarrow>
     gr_scope other = gr_scope g \<and> (starts_with (gr_prefix g) (gr_prefix other) \<or> starts_with (gr_prefix other) (gr_prefix g))"

definition overlap_text :: "nat \<Rightarrow> scope_grant \<Rightarrow> nat \<Rightarrow> scope_grant \<Rightarrow> string" where
  "overlap_text j other i g =
     ''grants #'' @ show_nat j @ '' ('' @ client_id_str (gr_client other) @ '' '' @ debug_str (gr_prefix other) @ '') and #'' @
     show_nat i @ '' ('' @ client_id_str (gr_client g) @ '' '' @ debug_str (gr_prefix g) @ '') overlap in scope '' @
     scope_id_str (gr_scope g) @ '': a label one prefix covers must not be coverable by another''"

text \<open>The checks of grant \<open>i\<close>, against the grants before it in order.\<close>

fun overlap_refusal :: "nat \<Rightarrow> scope_grant \<Rightarrow> (nat \<times> scope_grant) list \<Rightarrow> unit result" where
  "overlap_refusal i g [] = Inr ()"
| "overlap_refusal i g ((j, other) # rest) =
     (if grants_overlap g other then Inl (Validation (overlap_text j other i g)) else overlap_refusal i g rest)"

definition grant_check :: "nat \<Rightarrow> scope_grant \<Rightarrow> (nat \<times> scope_grant) list \<Rightarrow> unit result" where
  "grant_check i g earlier =
     (if client_is_banking (gr_client g)
      then Inl (Validation (''grant #'' @ show_nat i @ '': client_id '' @ debug_str BANKING @ '' is banking's own and cannot be granted''))
      else if scope_is_main (gr_scope g)
      then Inl (Validation (''grant #'' @ show_nat i @ '' ('' @ client_id_str (gr_client g) @
        ''): scope main is banking's own and cannot be granted''))
      else if gr_prefix g = [] \<or> \<not> is_ok (scope_label_parse (gr_prefix g))
      then Inl (Validation (''grant #'' @ show_nat i @ '' ('' @ client_id_str (gr_client g) @ '' in '' @ scope_id_str (gr_scope g) @
        ''): label_prefix must match [a-z0-9_:.-]{1,64}, got '' @ debug_str (gr_prefix g)))
      else overlap_refusal i g earlier)"

fun grants_check :: "(nat \<times> scope_grant) list \<Rightarrow> (nat \<times> scope_grant) list \<Rightarrow> unit result" where
  "grants_check earlier [] = Inr ()"
| "grants_check earlier ((i, g) # rest) =
     rbind (grant_check i g earlier) (\<lambda>_. grants_check (earlier @ [(i, g)]) rest)"

definition grants_new :: "scope_grant list \<Rightarrow> scope_grant list result" where
  "grants_new gs = rmap (\<lambda>_. gs) (grants_check [] (enumerate 0 gs))"

definition grants_in_scope :: "scope_grant list \<Rightarrow> client_id \<Rightarrow> scope_id \<Rightarrow> scope_grant list" where
  "grants_in_scope gs client scope = filter (\<lambda>g. gr_client g = client \<and> gr_scope g = scope) gs"

definition may_open :: "scope_grant list \<Rightarrow> client_id \<Rightarrow> scope_id \<Rightarrow> scope_label \<Rightarrow> bool" where
  "may_open gs client scope label \<longleftrightarrow>
     \<not> label_is_reserved label \<and> list_ex (\<lambda>g. grant_covers g label) (grants_in_scope gs client scope)"

fun scopes_of_from :: "client_id \<Rightarrow> scope_grant list \<Rightarrow> scope_id list \<Rightarrow> scope_id list" where
  "scopes_of_from client [] scopes = scopes"
| "scopes_of_from client (g # gs) scopes =
     scopes_of_from client gs
       (if gr_client g = client \<and> gr_scope g \<notin> set scopes then scopes @ [gr_scope g] else scopes)"

definition scopes_of :: "scope_grant list \<Rightarrow> client_id \<Rightarrow> scope_id list" where
  "scopes_of gs client = scopes_of_from client gs []"

definition grants_compartments :: "scope_grant list \<Rightarrow> client_id \<Rightarrow> scope_id \<Rightarrow> bool" where
  "grants_compartments gs client scope \<longleftrightarrow> list_ex gr_compartments (grants_in_scope gs client scope)"

definition is_lower_hex :: "char \<Rightarrow> bool" where
  "is_lower_hex b \<longleftrightarrow> is_ascii_digit b \<or> (97 \<le> byte b \<and> byte b \<le> 102)"

fun directory_prints :: "client_id \<Rightarrow> string list \<Rightarrow> (string \<times> client_id) list \<Rightarrow> (string \<times> client_id) list result" where
  "directory_prints client [] known = Inr known"
| "directory_prints client (fp # fps) known =
     (if length fp \<noteq> 64 \<or> \<not> list_all is_lower_hex fp
      then Inl (Validation (''client '' @ client_id_str client @ '': cert_sha256 must be 64 lowercase hex digits, got '' @ debug_str fp))
      else case map_of known fp of
        Some other \<Rightarrow> Inl (Validation (''cert_sha256 '' @ fp @ '' is listed for both '' @ client_id_str other @ '' and '' @ client_id_str client))
      | None \<Rightarrow> directory_prints client fps (known @ [(fp, client)]))"

fun directory_from :: "(client_id \<times> string list) list \<Rightarrow> (string \<times> client_id) list \<Rightarrow> (string \<times> client_id) list result" where
  "directory_from [] known = Inr known"
| "directory_from ((client, fps) # rest) known =
     (if client_is_banking client
      then Inl (Validation (''client_id '' @ debug_str BANKING @ '' is banking's own and cannot be a caller''))
      else if fps = []
      then Inl (Validation (''client '' @ client_id_str client @ '' has no certificate fingerprint''))
      else rbind (directory_prints client fps known) (directory_from rest))"

definition directory_new :: "(client_id \<times> string list) list \<Rightarrow> (string \<times> client_id) list result" where
  "directory_new clients = directory_from clients []"

definition client_for :: "(string \<times> client_id) list \<Rightarrow> string \<Rightarrow> client_id option" where
  "client_for directory fp = map_of directory fp"

definition directory_knows :: "(string \<times> client_id) list \<Rightarrow> client_id \<Rightarrow> bool" where
  "directory_knows directory client \<longleftrightarrow> list_ex (\<lambda>(_, known). known = client) directory"

section \<open>Refusals\<close>

datatype mandate_operation = Reserve_Operation | Charge_Operation | BookFill_Operation

datatype ledger_refusal =
    NotGranted | NotAccountOwner | Ledger_ScopeFrozen | Ledger_ScopeClosed | Ledger_InsufficientFunds
  | ApprovalRequired | HoldNotActive | Ledger_UserFrozen | MandateRequired | InvoiceNotOpen | InvoiceProcessing
  | FeeRouteUnavailable

fun ledger_refusal_reason :: "ledger_refusal \<Rightarrow> string" where
  "ledger_refusal_reason NotGranted = ''not_granted''"
| "ledger_refusal_reason NotAccountOwner = ''not_account_owner''"
| "ledger_refusal_reason Ledger_ScopeFrozen = ''scope_frozen''"
| "ledger_refusal_reason Ledger_ScopeClosed = ''scope_closed''"
| "ledger_refusal_reason Ledger_InsufficientFunds = ''insufficient_funds''"
| "ledger_refusal_reason ApprovalRequired = ''approval_required''"
| "ledger_refusal_reason HoldNotActive = ''hold_not_active''"
| "ledger_refusal_reason Ledger_UserFrozen = ''user_frozen''"
| "ledger_refusal_reason MandateRequired = ''mandate_required''"
| "ledger_refusal_reason InvoiceNotOpen = ''invoice_not_open''"
| "ledger_refusal_reason InvoiceProcessing = ''invoice_processing''"
| "ledger_refusal_reason FeeRouteUnavailable = ''fee_route_unavailable''"

definition is_permission :: "ledger_refusal \<Rightarrow> bool" where
  "is_permission r \<longleftrightarrow> r = NotGranted \<or> r = NotAccountOwner"

section \<open>Subjects and memos\<close>

datatype subject_ref = SubjectRef (subject_ref_str: string)

definition is_lowercase_uuid :: "string \<Rightarrow> bool" where
  "is_lowercase_uuid raw \<longleftrightarrow>
     length raw = 36 \<and>
     list_all (\<lambda>(i, b). if i = 8 \<or> i = 13 \<or> i = 18 \<or> i = 23 then b = CHR ''-'' else is_lower_hex b) (enumerate 0 raw)"

definition subject_ref_parse :: "string \<Rightarrow> subject_ref result" where
  "subject_ref_parse raw =
     (let refuse = Validation (''subject_ref must be <type>:<lowercase uuid>, at most 128 bytes: '' @ debug_str raw) in
      if 128 < length raw then Inl refuse
      else rbind (ok_or (split_once CHR '':'' raw) refuse) (\<lambda>(kind, u).
        let kind_shaped = kind \<noteq> [] \<and> is_ascii_lowercase (hd kind) \<and>
              list_all (\<lambda>b. is_ascii_lowercase b \<or> is_ascii_digit b \<or> b = CHR ''_'') kind
        in if \<not> kind_shaped \<or> \<not> is_lowercase_uuid u then Inl refuse else Inr (SubjectRef raw)))"

definition MAX_MEMO_CHARS :: nat where
  "MAX_MEMO_CHARS = 140"

text \<open>The characters of UTF-8 text, by code point.\<close>

fun code_points :: "string \<Rightarrow> nat list" where
  "code_points [] = []"
| "code_points (c # s) =
     (if byte c < 192 then byte c # code_points s
      else if byte c < 224 then ((byte c - 192) * 64 + (byte (s ! 0) - 128)) # code_points (drop 1 s)
      else if byte c < 240
      then ((byte c - 224) * 4096 + (byte (s ! 0) - 128) * 64 + (byte (s ! 1) - 128)) # code_points (drop 2 s)
      else ((byte c - 240) * 262144 + (byte (s ! 0) - 128) * 4096 + (byte (s ! 1) - 128) * 64 + (byte (s ! 2) - 128))
        # code_points (drop 3 s))"

definition is_format :: "nat \<Rightarrow> bool" where
  "is_format c \<longleftrightarrow>
     c = 0xAD \<or> 0x600 \<le> c \<and> c \<le> 0x605 \<or> c = 0x61C \<or> c = 0x6DD \<or> c = 0x70F \<or> 0x890 \<le> c \<and> c \<le> 0x891 \<or>
     c = 0x8E2 \<or> c = 0x180E \<or> 0x200B \<le> c \<and> c \<le> 0x200F \<or> 0x202A \<le> c \<and> c \<le> 0x202E \<or>
     0x2060 \<le> c \<and> c \<le> 0x2064 \<or> 0x2066 \<le> c \<and> c \<le> 0x206F \<or> c = 0xFEFF \<or> 0xFFF9 \<le> c \<and> c \<le> 0xFFFB \<or>
     c = 0x110BD \<or> c = 0x110CD \<or> 0x13430 \<le> c \<and> c \<le> 0x1343F \<or> 0x1BCA0 \<le> c \<and> c \<le> 0x1BCA3 \<or>
     0x1D173 \<le> c \<and> c \<le> 0x1D17A \<or> c = 0xE0001 \<or> 0xE0020 \<le> c \<and> c \<le> 0xE007F"

definition validate_memo :: "string \<Rightarrow> unit result" where
  "validate_memo memo =
     (if MAX_MEMO_CHARS < chars_count memo
      then Inl (Validation (''memo is longer than '' @ show_nat MAX_MEMO_CHARS @ '' characters''))
      else if has_control memo \<or> list_ex is_format (code_points memo)
      then Inl (Validation ''memo must be plain text without control or format characters'')
      else if contains_url memo then Inl (Validation ''memo must not carry a link'')
      else Inr ())"

section \<open>Transfers\<close>

datatype transfer_reason = FeeSweep | Approved_Reason | FeeRoute

fun transfer_reason_str :: "transfer_reason \<Rightarrow> string" where
  "transfer_reason_str FeeSweep = ''fee_sweep''"
| "transfer_reason_str Approved_Reason = ''approved''"
| "transfer_reason_str FeeRoute = ''fee_route''"

definition transfer_reason_parse :: "string \<Rightarrow> transfer_reason result" where
  "transfer_reason_parse raw =
     (if raw = ''fee_sweep'' then Inr FeeSweep
      else if raw = ''approved'' then Inr Approved_Reason
      else if raw = ''fee_route'' then Inr FeeRoute
      else Inl (Validation (''unknown transfer reason: '' @ raw)))"

interpretation transfer_reason_text: exact_codec transfer_reason_str transfer_reason_parse
proof
  show "transfer_reason_parse (transfer_reason_str x) = Inr x" for x
    by (cases x) (simp_all add: transfer_reason_parse_def)
  show "transfer_reason_parse s = Inr x \<Longrightarrow> transfer_reason_str x = s" for s x
    by (auto simp: transfer_reason_parse_def split: if_splits)
qed

definition FEE_STAYS_IN :: string where
  "FEE_STAYS_IN = ''invest''"

definition fee_route :: "scope_id \<Rightarrow> scope_id \<times> scope_label" where
  "fee_route scope =
     (if scope_id_str scope = FEE_STAYS_IN then (scope, label_fee_allocation) else (scope_main, label_treasury))"

record auto_transfer_facts =
  at_amount :: usdt
  at_transferred_24h :: usdt

definition admit_auto_transfer :: "scope_policy \<Rightarrow> auto_transfer_facts \<Rightarrow> ledger_refusal + unit" where
  "admit_auto_transfer p facts =
     (if auto_transfer_per_op p < at_amount facts then Inl ApprovalRequired
      else rbind (ok_or (usdt_checked_add (at_transferred_24h facts) (at_amount facts)) ApprovalRequired) (\<lambda>sum24.
        if auto_transfer_24h p < sum24 then Inl ApprovalRequired else Inr ()))"

definition canonical_fields :: "string list \<Rightarrow> string" where
  "canonical_fields fields1 = concat (case map (\<lambda>f. show_nat (length f) @ '':'' @ f) fields1 of
       [] \<Rightarrow> [] | x # xs \<Rightarrow> x # map (\<lambda>y. ''|'' @ y) xs)"

record transfer_terms =
  tt_client :: client_id
  tt_scope :: scope_id
  tt_from :: scope_label
  tt_to_scope :: scope_id
  tt_to :: scope_label
  tt_amount :: usdt
  tt_reason :: transfer_reason
  tt_subject_ref :: subject_ref
  tt_memo :: string
  tt_operation :: "uuid option"

definition transfer_canonical :: "transfer_terms \<Rightarrow> string" where
  "transfer_canonical t = canonical_fields
     [scope_label_str (tt_from t), scope_label_str (tt_to t), show_u128 (usdt_units (tt_amount t)),
      transfer_reason_str (tt_reason t), subject_ref_str (tt_subject_ref t), tt_memo t]"

datatype scope_ledger_event = Transferred uuid scope_id scope_label scope_id scope_label usdt

record scope_transfer =
  str_id :: uuid
  str_terms :: transfer_terms
  str_pending :: "scope_ledger_event list"

definition transfer_restore :: "uuid \<Rightarrow> transfer_terms \<Rightarrow> scope_transfer result" where
  "transfer_restore i t =
     (if usdt_is_zero (tt_amount t) then Inl (Validation ''amount must be positive'')
      else
        let routed = (tt_reason t = FeeRoute) in
        if scope_is_main (tt_scope t) \<or> scope_is_main (tt_to_scope t) \<and> \<not> routed
        then Inl (Validation ''a client's transfer never names main'')
        else if tt_scope t = tt_to_scope t \<and> tt_from t = tt_to t
        then Inl (Validation ''a transfer needs two different accounts'')
        else if label_is_reserved (tt_from t) \<and> \<not> routed
        then Inl (Forbidden (scope_label_str (tt_from t) @ '' is banking's own account''))
        else rbind
          (case tt_reason t of
             FeeSweep \<Rightarrow>
               if tt_to t \<noteq> label_fee \<or> tt_to_scope t \<noteq> tt_scope t
               then Inl (Validation ''a fee sweep goes into its scope's fee collector'')
               else if tt_operation t \<noteq> None then Inl (Validation ''a fee sweep executes no operation'')
               else Inr ()
           | Approved_Reason \<Rightarrow>
               if tt_operation t = None then Inl (Validation ''an approved transfer names its operation'')
               else if label_is_reserved (tt_to t)
               then Inl (Forbidden (scope_label_str (tt_to t) @ '' is banking's own account''))
               else Inr ()
           | FeeRoute \<Rightarrow>
               if \<not> client_is_banking (tt_client t) \<or> tt_operation t \<noteq> None \<or> tt_from t \<noteq> label_fee
               then Inl (Forbidden ''a fee route is banking's own, out of the scope's fee collector'')
               else Inr ())
          (\<lambda>_. rmap (\<lambda>_. \<lparr>str_id = i, str_terms = t, str_pending = []\<rparr>) (validate_memo (tt_memo t))))"

definition transfer_request :: "uuid \<Rightarrow> transfer_terms \<Rightarrow> scope_transfer result" where
  "transfer_request i t =
     rmap (\<lambda>r. r\<lparr>str_pending := str_pending r @ [Transferred i (tt_scope t) (tt_from t) (tt_to_scope t) (tt_to t) (tt_amount t)]\<rparr>)
       (transfer_restore i t)"

definition route_fee :: "(uuid \<Rightarrow> string) \<Rightarrow> uuid \<Rightarrow> uuid \<Rightarrow> scope_id \<Rightarrow> usdt \<Rightarrow> scope_transfer result" where
  "route_fee sh i funding scope amount =
     (case fee_route scope of (to_scope, to) \<Rightarrow>
        rbind (subject_ref_parse (''fee_route:'' @ sh funding)) (\<lambda>subject.
        transfer_request i \<lparr>tt_client = client_banking, tt_scope = scope, tt_from = label_fee, tt_to_scope = to_scope,
          tt_to = to, tt_amount = amount, tt_reason = FeeRoute, tt_subject_ref = subject, tt_memo = [], tt_operation = None\<rparr>))"

section \<open>Holds\<close>

datatype hold_state = Active_Hold | Captured_Hold | Voided_Hold | Expired_Hold

fun hold_state_str :: "hold_state \<Rightarrow> string" where
  "hold_state_str Active_Hold = ''active''"
| "hold_state_str Captured_Hold = ''captured''"
| "hold_state_str Voided_Hold = ''voided''"
| "hold_state_str Expired_Hold = ''expired''"

definition hold_state_parse :: "string \<Rightarrow> hold_state result" where
  "hold_state_parse raw =
     (if raw = ''active'' then Inr Active_Hold
      else if raw = ''captured'' then Inr Captured_Hold
      else if raw = ''voided'' then Inr Voided_Hold
      else if raw = ''expired'' then Inr Expired_Hold
      else Inl (Validation (''unknown hold state: '' @ raw)))"

datatype hold_destination = Account_Destination scope_label | User_Destination uuid

record hold_terms =
  ht_client :: client_id
  ht_scope :: scope_id
  ht_user :: uuid
  ht_amount :: usdt
  ht_expires_at :: "i64 option"
  ht_subject_ref :: subject_ref
  ht_mandate :: uuid

record hold_progress =
  hp_captured :: usdt
  hp_state :: hold_state
  hp_version :: u64
  hp_pending_version :: u64

datatype hold_error = Hold_Refused ledger_refusal | Hold_Invalid domain_error

datatype hold_event =
    Hold_Placed uuid scope_id uuid usdt u64
  | Hold_Captured uuid scope_id uuid u64 u64 usdt usdt hold_destination subject_ref
  | Hold_Released uuid scope_id uuid u64 u64 usdt bool "subject_ref option"

record hold =
  hd_id :: uuid
  hd_terms :: hold_terms
  hd_progress :: hold_progress
  hd_pending :: "hold_event list"

definition hold_restore :: "(uuid \<Rightarrow> string) \<Rightarrow> uuid \<Rightarrow> hold_terms \<Rightarrow> hold_progress \<Rightarrow> hold result" where
  "hold_restore sh i t p =
     (if usdt_is_zero (ht_amount t) then Inl (Validation ''amount must be positive'')
      else if scope_is_main (ht_scope t) then Inl (Validation ''a hold is never placed in main'')
      else if ht_amount t < hp_captured p then Inl (Validation (''hold '' @ sh i @ '' captured more than it held''))
      else Inr \<lparr>hd_id = i, hd_terms = t, hd_progress = p, hd_pending = []\<rparr>)"

definition hold_raise :: "hold_event \<Rightarrow> hold \<Rightarrow> hold" where
  "hold_raise e h = h\<lparr>hd_pending := hd_pending h @ [e]\<rparr>"

definition hold_place :: "(uuid \<Rightarrow> string) \<Rightarrow> uuid \<Rightarrow> hold_terms \<Rightarrow> hold result" where
  "hold_place sh i t =
     rmap (hold_raise (Hold_Placed i (ht_scope t) (ht_user t) (ht_amount t) 1))
       (hold_restore sh i t \<lparr>hp_captured = USDT_ZERO, hp_state = Active_Hold, hp_version = 1, hp_pending_version = 1\<rparr>)"

definition hold_remaining :: "hold \<Rightarrow> usdt" where
  "hold_remaining h =
     (case hp_state (hd_progress h) of
        Active_Hold \<Rightarrow>
          (case usdt_checked_sub (ht_amount (hd_terms h)) (hp_captured (hd_progress h)) of Some r \<Rightarrow> r | None \<Rightarrow> USDT_ZERO)
      | _ \<Rightarrow> USDT_ZERO)"

definition hold_is_due :: "hold \<Rightarrow> i64 \<Rightarrow> bool" where
  "hold_is_due h now \<longleftrightarrow>
     hp_state (hd_progress h) = Active_Hold \<and> (case ht_expires_at (hd_terms h) of Some at \<Rightarrow> sint at \<le> sint now | None \<Rightarrow> False)"

definition hold_capture ::
  "hold \<Rightarrow> usdt option \<Rightarrow> hold_destination \<Rightarrow> subject_ref \<Rightarrow> i64 \<Rightarrow> hold_error + hold \<times> usdt" where
  "hold_capture h amount to subject now =
     (if to = User_Destination (ht_user (hd_terms h))
      then Inl (Hold_Invalid (Validation ''a capture into the held user's own compartment is a void''))
      else if hp_state (hd_progress h) \<noteq> Active_Hold \<or> hold_is_due h now then Inl (Hold_Refused HoldNotActive)
      else
        let held = hold_remaining h; amount = (case amount of Some a \<Rightarrow> a | None \<Rightarrow> held) in
        if usdt_is_zero amount then Inl (Hold_Invalid (Validation ''amount must be positive''))
        else if held < amount then Inl (Hold_Refused Ledger_InsufficientFunds)
        else
          let version = hp_version (hd_progress h) + 1; released = hp_pending_version (hd_progress h) in
          rbind (ok_or (usdt_checked_add (hp_captured (hd_progress h)) amount) (Hold_Invalid (Validation ''capture overflows''))) (\<lambda>captured.
          let p = (hd_progress h)\<lparr>hp_captured := captured, hp_version := version\<rparr>;
              p = (if amount = held then p\<lparr>hp_state := Captured_Hold\<rparr> else p\<lparr>hp_pending_version := version\<rparr>)
          in Inr (hold_raise
                (Hold_Captured (hd_id h) (ht_scope (hd_terms h)) (ht_user (hd_terms h)) version released held amount to subject)
                (h\<lparr>hd_progress := p\<rparr>), amount)))"

definition hold_release :: "hold \<Rightarrow> hold_state \<Rightarrow> subject_ref option \<Rightarrow> hold" where
  "hold_release h s subject =
     (let held = hold_remaining h; version = hp_version (hd_progress h) + 1;
          p = (hd_progress h)\<lparr>hp_version := version, hp_state := s\<rparr>
      in hold_raise
           (Hold_Released (hd_id h) (ht_scope (hd_terms h)) (ht_user (hd_terms h)) version
              (hp_pending_version (hd_progress h)) held (s = Expired_Hold) subject)
           (h\<lparr>hd_progress := p\<rparr>))"

definition hold_void :: "hold \<Rightarrow> subject_ref \<Rightarrow> i64 \<Rightarrow> hold \<times> bool" where
  "hold_void h subject now =
     (if hold_is_due h now then (hold_release h Expired_Hold (Some subject), True)
      else if hp_state (hd_progress h) = Active_Hold then (hold_release h Voided_Hold (Some subject), True)
      else (h, False))"

definition hold_expire :: "hold \<Rightarrow> i64 \<Rightarrow> hold \<times> bool" where
  "hold_expire h now = (if hold_is_due h now then (hold_release h Expired_Hold None, True) else (h, False))"

definition void_by_user :: "hold \<Rightarrow> i64 \<Rightarrow> hold \<times> bool" where
  "void_by_user h now =
     (if hold_is_due h now then (hold_release h Expired_Hold None, True)
      else if hp_state (hd_progress h) = Active_Hold then (hold_release h Voided_Hold None, True)
      else (h, False))"

definition hold_drain :: "hold \<Rightarrow> hold \<times> hold_event list" where
  "hold_drain h = (h\<lparr>hd_pending := []\<rparr>, hd_pending h)"

section \<open>The kinds of a money event\<close>

datatype money_event_kind =
    AccountOpened | HoldPlaced_Kind | HoldCaptured_Kind | HoldVoided_Kind | HoldExpired_Kind | Transferred_Kind | Charged_Kind
  | PaidOut_Kind | OperationRequested | OperationRejected | OperationFailed | InvoiceCreated | InvoicePaid
  | InvoiceCancelled | InvoiceExpired | MandateGranted | MandateRevoked

fun money_kind_str :: "money_event_kind \<Rightarrow> string" where
  "money_kind_str AccountOpened = ''account_opened''"
| "money_kind_str HoldPlaced_Kind = ''hold_placed''"
| "money_kind_str HoldCaptured_Kind = ''hold_captured''"
| "money_kind_str HoldVoided_Kind = ''hold_voided''"
| "money_kind_str HoldExpired_Kind = ''hold_expired''"
| "money_kind_str Transferred_Kind = ''transferred''"
| "money_kind_str Charged_Kind = ''charged''"
| "money_kind_str PaidOut_Kind = ''paid_out''"
| "money_kind_str OperationRequested = ''operation_requested''"
| "money_kind_str OperationRejected = ''operation_rejected''"
| "money_kind_str OperationFailed = ''operation_failed''"
| "money_kind_str InvoiceCreated = ''invoice_created''"
| "money_kind_str InvoicePaid = ''invoice_paid''"
| "money_kind_str InvoiceCancelled = ''invoice_cancelled''"
| "money_kind_str InvoiceExpired = ''invoice_expired''"
| "money_kind_str MandateGranted = ''mandate_granted''"
| "money_kind_str MandateRevoked = ''mandate_revoked''"

definition money_kinds :: "money_event_kind list" where
  "money_kinds = [AccountOpened, HoldPlaced_Kind, HoldCaptured_Kind, HoldVoided_Kind, HoldExpired_Kind, Transferred_Kind,
     Charged_Kind, PaidOut_Kind, OperationRequested, OperationRejected, OperationFailed, InvoiceCreated, InvoicePaid,
     InvoiceCancelled, InvoiceExpired, MandateGranted, MandateRevoked]"

definition money_kind_parse :: "string \<Rightarrow> money_event_kind result" where
  "money_kind_parse raw =
     (case List.find (\<lambda>k. money_kind_str k = raw) money_kinds of
        Some k \<Rightarrow> Inr k
      | None \<Rightarrow> Inl (Validation (''unknown money event kind: '' @ raw)))"

end
