(* ===== verification/ScopeMoney.thy ===== *)
theory ScopeMoney
  imports ScopeLedger
begin

text \<open>
  Charges and invoices inside a scope (\<^verbatim>\<open>domain/src/scope_charges.rs\<close>,
  \<^verbatim>\<open>scope_invoices.rs\<close>).
\<close>

section \<open>Charges\<close>

record charge_terms =
  ct_client :: client_id
  ct_scope :: scope_id
  ct_user :: uuid
  ct_to :: scope_label
  ct_amount :: usdt
  ct_memo :: string
  ct_subject_ref :: subject_ref
  ct_mandate :: uuid

definition charge_canonical :: "string \<Rightarrow> scope_label \<Rightarrow> usdt \<Rightarrow> subject_ref \<Rightarrow> string \<Rightarrow> string" where
  "charge_canonical auth_subject to amount subject memo = canonical_fields
     [auth_subject, scope_label_str to, show_u128 (usdt_units amount), subject_ref_str subject, memo]"

datatype charge_event = Scope_Charged uuid scope_id uuid scope_label usdt

record scope_charge =
  sch_id :: uuid
  sch_terms :: charge_terms
  sch_pending :: "charge_event list"

definition charge_restore :: "uuid \<Rightarrow> charge_terms \<Rightarrow> scope_charge result" where
  "charge_restore i t =
     (if usdt_is_zero (ct_amount t) then Inl (Validation ''amount must be positive'')
      else if scope_is_main (ct_scope t) then Inl (Validation ''a charge never names main'')
      else if label_is_reserved (ct_to t)
      then Inl (Forbidden (scope_label_str (ct_to t) @ '' is banking's own account''))
      else rmap (\<lambda>_. \<lparr>sch_id = i, sch_terms = t, sch_pending = []\<rparr>) (validate_memo (ct_memo t)))"

definition charge_request :: "uuid \<Rightarrow> charge_terms \<Rightarrow> scope_charge result" where
  "charge_request i t =
     rmap (\<lambda>c. c\<lparr>sch_pending := sch_pending c @ [Scope_Charged i (ct_scope t) (ct_user t) (ct_to t) (ct_amount t)]\<rparr>)
       (charge_restore i t)"

section \<open>Invoices\<close>

definition MAX_INVOICE_TTL_SECS :: int where
  "MAX_INVOICE_TTL_SECS = 30 * 24 * 60 * 60"

datatype invoice_state = Open_Invoice | Processing_Invoice | Paid_Invoice | Cancelled_Invoice | Expired_Invoice

fun invoice_state_str :: "invoice_state \<Rightarrow> string" where
  "invoice_state_str Open_Invoice = ''open''"
| "invoice_state_str Processing_Invoice = ''processing''"
| "invoice_state_str Paid_Invoice = ''paid''"
| "invoice_state_str Cancelled_Invoice = ''cancelled''"
| "invoice_state_str Expired_Invoice = ''expired''"

text \<open>\<^verbatim>\<open>processing\<close> is a view and never a stored state.\<close>

definition invoice_state_parse :: "string \<Rightarrow> invoice_state result" where
  "invoice_state_parse raw =
     (if raw = ''open'' then Inr Open_Invoice
      else if raw = ''paid'' then Inr Paid_Invoice
      else if raw = ''cancelled'' then Inr Cancelled_Invoice
      else if raw = ''expired'' then Inr Expired_Invoice
      else Inl (Validation (''unknown invoice state: '' @ raw)))"

record invoice_terms =
  it_client :: client_id
  it_scope :: scope_id
  it_to :: scope_label
  it_amount :: usdt
  it_memo :: string
  it_expires_at :: i64
  it_payer :: "string option"
  it_subject_ref :: subject_ref

definition invoice_canonical :: "invoice_terms \<Rightarrow> string" where
  "invoice_canonical t = canonical_fields
     [scope_label_str (it_to t), show_u128 (usdt_units (it_amount t)), it_memo t, show_i64 (it_expires_at t),
      (case it_payer t of Some p \<Rightarrow> p | None \<Rightarrow> []), subject_ref_str (it_subject_ref t)]"

record invoice_payment =
  ip_payer :: uuid
  ip_payer_subject :: string
  ip_from :: compartment
  ip_paid_at :: i64
  ip_posted :: bool

datatype invoice_refusal =
    Invoice_NotOpen | Invoice_Processing | OtherPayer | Invoice_KycLevel | Invoice_ScopeFrozen | Invoice_ScopeClosed
  | Invoice_UserFrozen | Invoice_InsufficientFunds

fun invoice_refusal_reason :: "invoice_refusal \<Rightarrow> string" where
  "invoice_refusal_reason Invoice_NotOpen = ''invoice_not_open''"
| "invoice_refusal_reason Invoice_Processing = ''invoice_processing''"
| "invoice_refusal_reason OtherPayer = ''not_found''"
| "invoice_refusal_reason Invoice_KycLevel = ''kyc_level''"
| "invoice_refusal_reason Invoice_ScopeFrozen = ''scope_frozen''"
| "invoice_refusal_reason Invoice_ScopeClosed = ''scope_closed''"
| "invoice_refusal_reason Invoice_UserFrozen = ''user_frozen''"
| "invoice_refusal_reason Invoice_InsufficientFunds = ''insufficient_funds''"

datatype invoice_event =
    Invoice_Created uuid scope_id scope_label usdt u64
  | Invoice_Paid uuid scope_id scope_label usdt uuid compartment u64
  | Invoice_Cancelled uuid scope_id u64
  | Invoice_Expired uuid scope_id u64
  | Invoice_PaymentFailed uuid scope_id u64 string

fun moves_money :: "invoice_event \<Rightarrow> bool" where
  "moves_money (Invoice_Paid _ _ _ _ _ _ _) = True"
| "moves_money _ = False"

record invoice =
  iv_id :: uuid
  iv_terms :: invoice_terms
  iv_state :: invoice_state
  iv_version :: u64
  iv_payment :: "invoice_payment option"
  iv_pending :: "invoice_event list"

definition paid_from_other_scope :: "invoice_terms \<Rightarrow> compartment \<Rightarrow> bool" where
  "paid_from_other_scope t from = (case compartment_scope from of Some s \<Rightarrow> s \<noteq> it_scope t | None \<Rightarrow> False)"

definition invoice_restore ::
  "(uuid \<Rightarrow> string) \<Rightarrow> uuid \<Rightarrow> invoice_terms \<Rightarrow> invoice_state \<Rightarrow> u64 \<Rightarrow> invoice_payment option \<Rightarrow> invoice result" where
  "invoice_restore sh i t s version payment =
     (if usdt_is_zero (it_amount t) then Inl (Validation ''amount must be positive'')
      else if scope_is_main (it_scope t) then Inl (Validation ''an invoice is never issued in main'')
      else if label_is_reserved (it_to t)
      then Inl (Validation (scope_label_str (it_to t) @ '' is banking's own account''))
      else rbind (validate_memo (it_memo t)) (\<lambda>_.
        if it_payer t = Some [] then Inl (Validation ''payer_auth_subject must not be empty when set'')
        else if (s = Paid_Invoice) \<noteq> (payment \<noteq> None)
        then Inl (Validation (''invoice '' @ sh i @ '': a payment belongs to a paid invoice and to it alone''))
        else if (case payment of Some paid \<Rightarrow> paid_from_other_scope t (ip_from paid) | None \<Rightarrow> False)
        then Inl (Validation (''invoice '' @ sh i @ '': paid from another scope's compartment''))
        else Inr \<lparr>iv_id = i, iv_terms = t, iv_state = s, iv_version = version, iv_payment = payment, iv_pending = []\<rparr>))"

text \<open>\<^verbatim>\<open>expires_at - now\<close> is an \<^verbatim>\<open>i64\<close> subtraction that release builds let wrap.\<close>

definition invoice_issue :: "(uuid \<Rightarrow> string) \<Rightarrow> uuid \<Rightarrow> invoice_terms \<Rightarrow> i64 \<Rightarrow> invoice result" where
  "invoice_issue sh i t now =
     (if sint (it_expires_at t) \<le> sint now then Inl (Validation ''expires_at must be in the future'')
      else if MAX_INVOICE_TTL_SECS < sint (it_expires_at t - now)
      then Inl (Validation ''expires_at must be at most 30 days ahead'')
      else rmap (\<lambda>v. v\<lparr>iv_pending := iv_pending v @ [Invoice_Created i (it_scope t) (it_to t) (it_amount t) 1]\<rparr>)
        (invoice_restore sh i t Open_Invoice 1 None))"

definition invoice_is_due :: "invoice \<Rightarrow> i64 \<Rightarrow> bool" where
  "invoice_is_due v now \<longleftrightarrow> iv_state v = Open_Invoice \<and> sint (it_expires_at (iv_terms v)) \<le> sint now"

definition state_at :: "invoice \<Rightarrow> i64 \<Rightarrow> invoice_state" where
  "state_at v now =
     (if invoice_is_due v now then Expired_Invoice
      else case (iv_state v, iv_payment v) of
        (Paid_Invoice, Some p) \<Rightarrow> if \<not> ip_posted p then Processing_Invoice else Paid_Invoice
      | (s, _) \<Rightarrow> s)"

definition posted_payment :: "invoice \<Rightarrow> invoice_payment option" where
  "posted_payment v = (case iv_payment v of Some p \<Rightarrow> if ip_posted p then Some p else None | None \<Rightarrow> None)"

definition invoice_raise :: "invoice_event \<Rightarrow> invoice \<Rightarrow> invoice" where
  "invoice_raise e v = v\<lparr>iv_pending := iv_pending v @ [e]\<rparr>"

definition fail_payment :: "invoice \<Rightarrow> string \<Rightarrow> invoice \<times> bool" where
  "fail_payment v reason =
     (if iv_state v \<noteq> Paid_Invoice \<or> (case iv_payment v of Some p \<Rightarrow> ip_posted p | None \<Rightarrow> True) then (v, False)
      else
        let v = v\<lparr>iv_version := iv_version v + 1, iv_state := Open_Invoice, iv_payment := None\<rparr>
        in (invoice_raise (Invoice_PaymentFailed (iv_id v) (it_scope (iv_terms v)) (iv_version v) reason) v, True))"

definition payable_by :: "invoice \<Rightarrow> string \<Rightarrow> bool" where
  "payable_by v auth_subject = (case it_payer (iv_terms v) of Some payer \<Rightarrow> payer = auth_subject | None \<Rightarrow> True)"

definition invoice_pay :: "invoice \<Rightarrow> invoice_payment \<Rightarrow> invoice_refusal + invoice" where
  "invoice_pay v payment =
     (if \<not> payable_by v (ip_payer_subject payment) then Inl OtherPayer
      else if iv_state v \<noteq> Open_Invoice \<or> invoice_is_due v (ip_paid_at payment) then Inl Invoice_NotOpen
      else if paid_from_other_scope (iv_terms v) (ip_from payment) then Inl Invoice_NotOpen
      else
        let v = v\<lparr>iv_version := iv_version v + 1, iv_state := Paid_Invoice\<rparr>;
            payment = payment\<lparr>ip_posted := False\<rparr>;
            v = invoice_raise (Invoice_Paid (iv_id v) (it_scope (iv_terms v)) (it_to (iv_terms v)) (it_amount (iv_terms v))
                  (ip_payer payment) (ip_from payment) (iv_version v)) v
        in Inr (v\<lparr>iv_payment := Some payment\<rparr>))"

definition invoice_close :: "invoice \<Rightarrow> bool \<Rightarrow> invoice" where
  "invoice_close v expired =
     (let v = v\<lparr>iv_version := iv_version v + 1\<rparr> in
      if expired
      then invoice_raise (Invoice_Expired (iv_id v) (it_scope (iv_terms v)) (iv_version v)) (v\<lparr>iv_state := Expired_Invoice\<rparr>)
      else invoice_raise (Invoice_Cancelled (iv_id v) (it_scope (iv_terms v)) (iv_version v)) (v\<lparr>iv_state := Cancelled_Invoice\<rparr>))"

definition invoice_cancel :: "invoice \<Rightarrow> i64 \<Rightarrow> invoice_refusal + invoice \<times> bool" where
  "invoice_cancel v now =
     (if iv_state v = Cancelled_Invoice then Inr (v, False)
      else if iv_state v = Open_Invoice \<and> \<not> invoice_is_due v now then Inr (invoice_close v False, True)
      else if iv_state v = Paid_Invoice \<and> (case iv_payment v of Some p \<Rightarrow> \<not> ip_posted p | None \<Rightarrow> False) then Inl Invoice_Processing
      else Inl Invoice_NotOpen)"

definition invoice_expire :: "invoice \<Rightarrow> i64 \<Rightarrow> invoice \<times> bool" where
  "invoice_expire v now = (if \<not> invoice_is_due v now then (v, False) else (invoice_close v True, True))"

end
