(* ===== verification/ScopePayouts.thy ===== *)
theory ScopePayouts
  imports ScopeMoney "HOL-Library.Multiset"
begin

text \<open>
  Payouts and the operations that wait for an approval (\<^verbatim>\<open>domain/src/scope_operations.rs\<close>):
  the lines of a payout and their two renderings, the admission of an automatic payout, the pending
  operation with its states, the fields and bytes its approval is taken over, and the catalog of the
  kinds banking publishes.  An id's text is a parameter; a digest is taken outside and passed in.
\<close>

section \<open>Lines\<close>

definition MAX_PAYOUT_LINES :: nat where
  "MAX_PAYOUT_LINES = 1000"

definition MAX_AUTH_SUBJECT :: nat where
  "MAX_AUTH_SUBJECT = 255"

definition MAX_PAYOUT_LINE :: usdt where
  "MAX_PAYOUT_LINE = Usdt 1000000000000000000000"

record requested_line =
  rl_subject :: string
  rl_amount :: usdt

fun has_adjacent :: "'a list \<Rightarrow> bool" where
  "has_adjacent (x # y # r) \<longleftrightarrow> x = y \<or> has_adjacent (y # r)"
| "has_adjacent _ \<longleftrightarrow> False"

fun check_each :: "requested_line list \<Rightarrow> usdt \<Rightarrow> usdt result" where
  "check_each [] total1 = Inr total1"
| "check_each (l # r) total1 =
     (let s = rl_subject l in
      if s = [] \<or> MAX_AUTH_SUBJECT < length s \<or> has_control s
      then Inl (Validation (''auth_subject must be 1..'' @ show_nat MAX_AUTH_SUBJECT @ '' bytes of plain text''))
      else if usdt_is_zero (rl_amount l) then Inl (Validation (''the line for '' @ s @ '' must be positive''))
      else rbind (ok_or (usdt_checked_add total1 (rl_amount l)) (Validation ''the payout's total overflows''))
        (check_each r))"

definition check_lines :: "requested_line list \<Rightarrow> usdt result" where
  "check_lines ls =
     (if ls = [] \<or> MAX_PAYOUT_LINES < length ls
      then Inl (Validation (''a payout has 1..='' @ show_nat MAX_PAYOUT_LINES @ '' lines, got '' @ show_nat (length ls)))
      else rbind (check_each ls (Usdt 0)) (\<lambda>total1.
        if has_adjacent (sort (map rl_subject ls)) then Inl (Validation ''one user may appear once in a payout'')
        else Inr total1))"

definition canonical_lines :: "requested_line list \<Rightarrow> string" where
  "canonical_lines ls =
     canonical_fields (sort (map (\<lambda>l. rl_subject l @ ''|'' @ show_u128 (usdt_units (rl_amount l))) ls))"

fun join_lines :: "string list \<Rightarrow> string" where
  "join_lines [] = []"
| "join_lines [x] = x"
| "join_lines (x # y # r) = x @ NL @ join_lines (y # r)"

definition lines_digest_input :: "requested_line list \<Rightarrow> string" where
  "lines_digest_input ls = join_lines (sort (map (\<lambda>l. rl_subject l @ ''|'' @ to_decimal_string (rl_amount l)) ls))"

definition max_line :: "requested_line list \<Rightarrow> usdt" where
  "max_line ls = (case map rl_amount ls of [] \<Rightarrow> Usdt 0 | a # r \<Rightarrow> fold max r a)"

section \<open>Payouts\<close>

datatype payout_reason = Redemption_Payout | Book_Payout | FeeRebate_Payout | Approved_Payout

fun payout_reason_str :: "payout_reason \<Rightarrow> string" where
  "payout_reason_str Redemption_Payout = ''redemption''"
| "payout_reason_str Book_Payout = ''book''"
| "payout_reason_str FeeRebate_Payout = ''fee_rebate''"
| "payout_reason_str Approved_Payout = ''approved''"

definition payout_reason_parse :: "string \<Rightarrow> payout_reason result" where
  "payout_reason_parse raw =
     (if raw = ''redemption'' then Inr Redemption_Payout
      else if raw = ''book'' then Inr Book_Payout
      else if raw = ''fee_rebate'' then Inr FeeRebate_Payout
      else if raw = ''approved'' then Inr Approved_Payout
      else Inl (Validation (''unknown payout reason: '' @ raw)))"

record payout_line =
  pl_user :: uuid
  pl_subject :: string
  pl_amount :: usdt

definition requested :: "payout_line \<Rightarrow> requested_line" where
  "requested l = \<lparr>rl_subject = pl_subject l, rl_amount = pl_amount l\<rparr>"

definition requested_lines :: "payout_line list \<Rightarrow> requested_line list" where
  "requested_lines = map requested"

record payout_terms =
  py_client :: client_id
  py_scope :: scope_id
  py_from :: scope_label
  py_lines :: "payout_line list"
  py_reason :: payout_reason
  py_subject_ref :: subject_ref
  py_memo :: string
  py_operation :: "uuid option"

record paid_line =
  paid_user :: uuid
  paid_amount :: usdt

datatype scope_payout_event = PaidOut uuid scope_id scope_label "paid_line list"

record scope_payout =
  sp_id :: uuid
  sp_terms :: payout_terms
  sp_total :: usdt
  sp_pending :: "scope_payout_event list"

definition payout_restore :: "uuid \<Rightarrow> payout_terms \<Rightarrow> scope_payout result" where
  "payout_restore i t =
     (if scope_is_main (py_scope t) then Inl (Validation ''a payout never names main'')
      else if label_is_reserved (py_from t)
      then Inl (Forbidden (scope_label_str (py_from t) @ '' is banking's own account''))
      else rbind (check_lines (requested_lines (py_lines t))) (\<lambda>total1.
        if has_adjacent (sort (map pl_user (py_lines t)))
        then Inl (Validation ''one user may appear once in a payout'')
        else rbind
          (case (py_reason t, py_operation t) of
             (Approved_Payout, Some _) \<Rightarrow> Inr ()
           | (Approved_Payout, None) \<Rightarrow> Inl (Validation ''an approved payout names its operation'')
           | (_, None) \<Rightarrow> Inr ()
           | (_, Some _) \<Rightarrow> Inl (Validation ''an automatic payout executes no operation''))
          (\<lambda>_. rmap (\<lambda>_. \<lparr>sp_id = i, sp_terms = t, sp_total = total1, sp_pending = []\<rparr>) (validate_memo (py_memo t)))))"

definition payout_request :: "uuid \<Rightarrow> payout_terms \<Rightarrow> scope_payout result" where
  "payout_request i t =
     rmap (\<lambda>p. p\<lparr>sp_pending := sp_pending p @ [PaidOut i (py_scope t) (py_from t)
         (map (\<lambda>l. \<lparr>paid_user = pl_user l, paid_amount = pl_amount l\<rparr>) (py_lines t))]\<rparr>)
       (payout_restore i t)"

record auto_payout_facts =
  ap_total :: usdt
  ap_max_line :: usdt
  ap_paid_24h :: usdt
  ap_scope_out_24h :: usdt

definition over_scope_budget :: "scope_policy \<Rightarrow> usdt \<Rightarrow> usdt \<Rightarrow> bool" where
  "over_scope_budget p scope_out amount =
     (case usdt_checked_add scope_out amount of None \<Rightarrow> True | Some t \<Rightarrow> scope_budget_24h p < t)"

definition admit_auto_payout :: "scope_policy \<Rightarrow> auto_payout_facts \<Rightarrow> ledger_refusal + unit" where
  "admit_auto_payout p facts =
     (if auto_payout_per_op p < ap_total facts \<or> MAX_PAYOUT_LINE < ap_max_line facts then Inl ApprovalRequired
      else rbind (ok_or (usdt_checked_add (ap_paid_24h facts) (ap_total facts)) ApprovalRequired) (\<lambda>paid.
        if auto_payout_24h p < paid then Inl ApprovalRequired
        else if over_scope_budget p (ap_scope_out_24h facts) (ap_total facts) then Inl ApprovalRequired
        else Inr ()))"

section \<open>Pending operations\<close>

datatype operation_kind = Scope_Payout_Kind | Account_Transfer_Kind | Scope_Transfer_Kind

fun operation_kind_str :: "operation_kind \<Rightarrow> string" where
  "operation_kind_str Scope_Payout_Kind = ''bank:scope_payout''"
| "operation_kind_str Account_Transfer_Kind = ''bank:account_transfer''"
| "operation_kind_str Scope_Transfer_Kind = ''bank:scope_transfer''"

definition operation_kind_parse :: "string \<Rightarrow> operation_kind result" where
  "operation_kind_parse raw =
     (if raw = ''bank:scope_payout'' then Inr Scope_Payout_Kind
      else if raw = ''bank:account_transfer'' then Inr Account_Transfer_Kind
      else if raw = ''bank:scope_transfer'' then Inr Scope_Transfer_Kind
      else Inl (Validation (''unknown operation kind: '' @ raw)))"

datatype operation_state = AwaitingApproval | Executed_Operation | Rejected_Operation | Failed_Operation

fun operation_state_str :: "operation_state \<Rightarrow> string" where
  "operation_state_str AwaitingApproval = ''awaiting_approval''"
| "operation_state_str Executed_Operation = ''executed''"
| "operation_state_str Rejected_Operation = ''rejected''"
| "operation_state_str Failed_Operation = ''failed''"

definition operation_state_parse :: "string \<Rightarrow> operation_state result" where
  "operation_state_parse raw =
     (if raw = ''awaiting_approval'' then Inr AwaitingApproval
      else if raw = ''executed'' then Inr Executed_Operation
      else if raw = ''rejected'' then Inr Rejected_Operation
      else if raw = ''failed'' then Inr Failed_Operation
      else Inl (Validation (''unknown operation state: '' @ raw)))"

datatype operation_body =
    Payout_Body "payout_line list" bool bool  \<comment> \<open>the lines, distribution, over the scope's budget\<close>
  | Transfer_Body scope_id scope_label usdt

record operation_terms =
  op_client :: client_id
  op_scope :: scope_id
  op_from :: scope_label
  op_body :: operation_body
  op_subject_ref :: subject_ref
  op_memo :: string

record operation_progress =
  og_state :: operation_state
  og_approval_id :: "string option"
  og_result_id :: "string option"
  og_failure_reason :: "string option"

definition progress_awaiting :: operation_progress where
  "progress_awaiting = \<lparr>og_state = AwaitingApproval, og_approval_id = None, og_result_id = None, og_failure_reason = None\<rparr>"

record pending_operation =
  pn_id :: uuid
  pn_terms :: operation_terms
  pn_progress :: operation_progress
  pn_total :: usdt

fun body_total :: "scope_id \<Rightarrow> scope_label \<Rightarrow> operation_body \<Rightarrow> usdt result" where
  "body_total scope from (Payout_Body ls _ _) =
     rbind (check_lines (requested_lines ls)) (\<lambda>total1.
       if has_adjacent (sort (map pl_user ls)) then Inl (Validation ''one user may appear once in a payout'')
       else Inr total1)"
| "body_total scope from (Transfer_Body to_scope to amount) =
     (if usdt_is_zero amount then Inl (Validation ''amount must be positive'')
      else if scope_is_main to_scope \<or> label_is_reserved to
      then Inl (Forbidden (scope_id_str to_scope @ '':'' @ scope_label_str to @ '' is banking's own account''))
      else if to_scope = scope \<and> to = from then Inl (Validation ''a transfer needs two different accounts'')
      else Inr amount)"

definition operation_restore :: "uuid \<Rightarrow> operation_terms \<Rightarrow> operation_progress \<Rightarrow> pending_operation result" where
  "operation_restore i t progress =
     (if scope_is_main (op_scope t) then Inl (Validation ''an operation never names main as its scope'')
      else if label_is_reserved (op_from t)
      then Inl (Forbidden (scope_label_str (op_from t) @ '' is banking's own account''))
      else rbind (validate_memo (op_memo t)) (\<lambda>_.
        rmap (\<lambda>total1. \<lparr>pn_id = i, pn_terms = t, pn_progress = progress, pn_total = total1\<rparr>)
          (body_total (op_scope t) (op_from t) (op_body t))))"

definition operation_request :: "uuid \<Rightarrow> operation_terms \<Rightarrow> pending_operation result" where
  "operation_request i t = operation_restore i t progress_awaiting"

definition operation_kind :: "pending_operation \<Rightarrow> operation_kind" where
  "operation_kind o1 = (case op_body (pn_terms o1) of
       Payout_Body _ _ _ \<Rightarrow> Scope_Payout_Kind
     | Transfer_Body to_scope _ _ \<Rightarrow>
         if to_scope = op_scope (pn_terms o1) then Account_Transfer_Kind else Scope_Transfer_Kind)"

definition operation_approval_ref :: "(uuid \<Rightarrow> string) \<Rightarrow> pending_operation \<Rightarrow> string" where
  "operation_approval_ref sh o1 = ''pending_operation:'' @ sh (pn_id o1)"

definition operation_digest_input :: "pending_operation \<Rightarrow> string option" where
  "operation_digest_input o1 = (case op_body (pn_terms o1) of
       Payout_Body ls _ _ \<Rightarrow> Some (lines_digest_input (requested_lines ls))
     | Transfer_Body _ _ _ \<Rightarrow> None)"

definition account_text :: "scope_id \<Rightarrow> scope_label \<Rightarrow> approval_value" where
  "account_text scope label1 = Text_Value (scope_id_str scope @ '':'' @ scope_label_str label1)"

definition operation_approval_fields :: "pending_operation \<Rightarrow> string option \<Rightarrow> approval_field list result" where
  "operation_approval_fields o1 digest =
     (let t = pn_terms o1;
          from = account_text (op_scope t) (op_from t);
          service = \<lparr>af_key = ''service'', af_value = Text_Value (client_id_str (op_client t))\<rparr>
      in case op_body t of
        Payout_Body ls distribution over \<Rightarrow>
          rmap (\<lambda>d.
            [service,
             \<lparr>af_key = ''from_account'', af_value = from\<rparr>,
             \<lparr>af_key = ''total'', af_value = Amount_Value (pn_total o1)\<rparr>,
             \<lparr>af_key = ''recipients'', af_value = Count_Value (word_of_nat (length ls))\<rparr>,
             \<lparr>af_key = ''max_line'', af_value = Amount_Value (max_line (requested_lines ls))\<rparr>,
             \<lparr>af_key = ''lines_digest'', af_value = Text_Value d\<rparr>,
             \<lparr>af_key = ''distribution'', af_value = Flag_Value distribution\<rparr>,
             \<lparr>af_key = ''over_scope_budget'', af_value = Flag_Value over\<rparr>] @
            (case ls of [only] \<Rightarrow> [\<lparr>af_key = ''recipient'', af_value = User_Value (pl_subject only)\<rparr>] | _ \<Rightarrow> []))
          (ok_or digest (Validation ''a payout's approval carries its lines_digest''))
      | Transfer_Body to_scope to amount \<Rightarrow> Inr
          [service,
           \<lparr>af_key = ''from_account'', af_value = from\<rparr>,
           \<lparr>af_key = ''to_account'', af_value = account_text to_scope to\<rparr>,
           \<lparr>af_key = ''amount'', af_value = Amount_Value amount\<rparr>])"

definition operation_approval_payload :: "(uuid \<Rightarrow> string) \<Rightarrow> pending_operation \<Rightarrow> string option \<Rightarrow> string result" where
  "operation_approval_payload sh o1 digest =
     rmap (approval_payload (operation_kind_str (operation_kind o1)) (scope_id_str (op_scope (pn_terms o1)))
         (operation_approval_ref sh o1))
       (operation_approval_fields o1 digest)"

definition leave_awaiting :: "(uuid \<Rightarrow> string) \<Rightarrow> pending_operation \<Rightarrow> operation_state \<Rightarrow> pending_operation result" where
  "leave_awaiting sh o1 to =
     (let s = og_state (pn_progress o1) in
      if s = AwaitingApproval then Inr (o1\<lparr>pn_progress := (pn_progress o1)\<lparr>og_state := to\<rparr>\<rparr>)
      else Inl (Conflict (''operation '' @ sh (pn_id o1) @ '' is '' @ operation_state_str s @ '', not awaiting its approval'')))"

definition operation_execute :: "(uuid \<Rightarrow> string) \<Rightarrow> pending_operation \<Rightarrow> string \<Rightarrow> pending_operation result" where
  "operation_execute sh o1 result_id =
     rmap (\<lambda>o1. o1\<lparr>pn_progress := (pn_progress o1)\<lparr>og_result_id := Some result_id\<rparr>\<rparr>)
       (leave_awaiting sh o1 Executed_Operation)"

definition operation_reject :: "(uuid \<Rightarrow> string) \<Rightarrow> pending_operation \<Rightarrow> string \<Rightarrow> pending_operation result" where
  "operation_reject sh o1 reason =
     rmap (\<lambda>o1. o1\<lparr>pn_progress := (pn_progress o1)\<lparr>og_failure_reason := Some reason\<rparr>\<rparr>)
       (leave_awaiting sh o1 Rejected_Operation)"

definition operation_fail :: "(uuid \<Rightarrow> string) \<Rightarrow> pending_operation \<Rightarrow> string \<Rightarrow> pending_operation result" where
  "operation_fail sh o1 reason =
     rmap (\<lambda>o1. o1\<lparr>pn_progress := (pn_progress o1)\<lparr>og_failure_reason := Some reason\<rparr>\<rparr>)
       (leave_awaiting sh o1 Failed_Operation)"

end
