(* ===== verification/ApprovalCatalog.thy ===== *)
theory ApprovalCatalog
  imports ScopePayouts
begin

text \<open>
  The catalog of approval kinds banking publishes (\<^verbatim>\<open>domain/src/scope_operations.rs\<close>): the
  fields and escalations of each kind, and its canonical rendering.  What is proved is that the
  fields an operation or a payment sends are the fields its kind declares.
\<close>

datatype field_type = Text_Type | Amount_Type | Flag_Type | User_Type | Count_Type

fun value_field_type :: "approval_value \<Rightarrow> field_type" where
  "value_field_type (Text_Value _) = Text_Type"
| "value_field_type (Amount_Value _) = Amount_Type"
| "value_field_type (Flag_Value _) = Flag_Type"
| "value_field_type (User_Value _) = User_Type"
| "value_field_type (Count_Value _) = Count_Type"

fun debug_field_type :: "field_type \<Rightarrow> string" where
  "debug_field_type Text_Type = ''Text''"
| "debug_field_type Amount_Type = ''Amount''"
| "debug_field_type Flag_Type = ''Flag''"
| "debug_field_type User_Type = ''User''"
| "debug_field_type Count_Type = ''Count''"

datatype kind_level = Platform_Level | Scope_Level

fun debug_level :: "kind_level \<Rightarrow> string" where
  "debug_level Platform_Level = ''Platform''"
| "debug_level Scope_Level = ''Scope''"

datatype escalation_test = AmountAbove | Rolling24hAmountAbove | FlagSet

fun debug_test :: "escalation_test \<Rightarrow> string" where
  "debug_test AmountAbove = ''AmountAbove''"
| "debug_test Rolling24hAmountAbove = ''Rolling24hAmountAbove''"
| "debug_test FlagSet = ''FlagSet''"

record field_spec =
  fs_key :: string
  fs_label :: string
  fs_type :: field_type
  fs_required :: bool

record escalation_spec =
  es_parameter :: string
  es_field_key :: string
  es_test :: escalation_test
  es_threshold :: string
  es_currency :: string

record kind_spec =
  ks_kind :: string
  ks_label :: string
  ks_description :: string
  ks_level :: kind_level
  ks_fields :: "field_spec list"
  ks_escalations :: "escalation_spec list"

record topic_spec =
  ts_topic :: string
  ts_label :: string
  ts_description :: string
  ts_subscribed :: bool

definition MONEY_MOVEMENT_TOPIC :: string where
  "MONEY_MOVEMENT_TOPIC = ''bank:money-movement''"

definition BANK_TOPICS :: "topic_spec list" where
  "BANK_TOPICS = [\<lparr>ts_topic = MONEY_MOVEMENT_TOPIC, ts_label = ''Money movement'',
     ts_description = ''Payments out of your account that wait for your confirmation, and what became of them.'',
     ts_subscribed = True\<rparr>]"

definition field_of :: "string \<Rightarrow> string \<Rightarrow> field_type \<Rightarrow> bool \<Rightarrow> field_spec" where
  "field_of key label1 ty req = \<lparr>fs_key = key, fs_label = label1, fs_type = ty, fs_required = req\<rparr>"

definition escalation_of :: "string \<Rightarrow> string \<Rightarrow> escalation_test \<Rightarrow> string \<Rightarrow> string \<Rightarrow> escalation_spec" where
  "escalation_of parameter key test threshold1 currency =
     \<lparr>es_parameter = parameter, es_field_key = key, es_test = test, es_threshold = threshold1, es_currency = currency\<rparr>"

definition TRANSFER_FIELDS :: "field_spec list" where
  "TRANSFER_FIELDS =
    [field_of ''service'' ''Requesting service'' Text_Type True,
     field_of ''from_account'' ''From account'' Text_Type True,
     field_of ''to_account'' ''To account'' Text_Type True,
     field_of ''amount'' ''Amount'' Amount_Type True]"

definition PAYMENT_FIELDS :: "field_spec list" where
  "PAYMENT_FIELDS =
    [field_of ''tier'' ''Tier'' Text_Type True,
     field_of ''source'' ''Source'' Text_Type True,
     field_of ''destination'' ''Destination'' Text_Type True,
     field_of ''amount'' ''Amount'' Amount_Type True,
     field_of ''reason'' ''Reason'' Text_Type True]"

definition payout_spec :: kind_spec where
  "payout_spec =
    \<lparr>ks_kind = operation_kind_str Scope_Payout_Kind,
     ks_label = ''Payout from a scope account'',
     ks_description = ''A payout from a scope account to users' compartments in the scope, requested by the scope's service.'',
     ks_level = Scope_Level,
     ks_fields =
      [field_of ''service'' ''Requesting service'' Text_Type True,
       field_of ''from_account'' ''From account'' Text_Type True,
       field_of ''total'' ''Total'' Amount_Type True,
       field_of ''recipients'' ''Recipients'' Count_Type True,
       field_of ''max_line'' ''Largest line'' Amount_Type True,
       field_of ''recipient'' ''Recipient'' User_Type False,
       field_of ''lines_digest'' ''Lines digest'' Text_Type True,
       field_of ''distribution'' ''Distribution to every holder'' Flag_Type True,
       field_of ''over_scope_budget'' ''Over the scope's daily budget'' Flag_Type True],
     ks_escalations =
      [escalation_of ''per_operation'' ''total'' AmountAbove ''1000'' APPROVAL_CURRENCY,
       escalation_of ''per_line'' ''max_line'' AmountAbove ''1000'' APPROVAL_CURRENCY,
       escalation_of ''daily'' ''total'' Rolling24hAmountAbove ''5000'' APPROVAL_CURRENCY,
       escalation_of ''distribution'' ''distribution'' FlagSet [] [],
       escalation_of ''over_scope_budget'' ''over_scope_budget'' FlagSet [] []]\<rparr>"

definition account_transfer_spec :: kind_spec where
  "account_transfer_spec =
    \<lparr>ks_kind = operation_kind_str Account_Transfer_Kind,
     ks_label = ''Transfer between accounts of a scope'',
     ks_description = ''A transfer between two accounts of one scope, requested by the service that owns both.'',
     ks_level = Scope_Level,
     ks_fields = TRANSFER_FIELDS,
     ks_escalations =
      [escalation_of ''per_operation'' ''amount'' AmountAbove ''1000'' APPROVAL_CURRENCY,
       escalation_of ''daily'' ''amount'' Rolling24hAmountAbove ''5000'' APPROVAL_CURRENCY]\<rparr>"

definition payment_spec :: kind_spec where
  "payment_spec =
    \<lparr>ks_kind = PAYMENT_KIND,
     ks_label = ''Payment from fund money'',
     ks_description = ''A payment out of an allocation's pooled claim or banking's treasury, to an internal claim or an address; the platform owners decide it.'',
     ks_level = Platform_Level,
     ks_fields = PAYMENT_FIELDS,
     ks_escalations = []\<rparr>"

definition scope_transfer_spec :: kind_spec where
  "scope_transfer_spec =
    \<lparr>ks_kind = operation_kind_str Scope_Transfer_Kind,
     ks_label = ''Transfer between scopes'',
     ks_description = ''A transfer from an account of one scope into an account of another, requested by the service that owns both.'',
     ks_level = Platform_Level,
     ks_fields = TRANSFER_FIELDS,
     ks_escalations = []\<rparr>"

definition BANK_CATALOG :: "kind_spec list" where
  "BANK_CATALOG = [payout_spec, account_transfer_spec, payment_spec, scope_transfer_spec]"

definition bool_text :: "bool \<Rightarrow> string" where
  "bool_text b = (if b then ''true'' else ''false'')"

fun columns :: "string list \<Rightarrow> string" where
  "columns [] = NL"
| "columns [c] = c @ NL"
| "columns (c # d # r) = c @ TAB @ columns (d # r)"

definition spec_lines :: "kind_spec \<Rightarrow> string" where
  "spec_lines k =
     columns [''kind'', ks_kind k, ks_label k, ks_description k, debug_level (ks_level k)] @
     concat (map (\<lambda>f. columns [''field'', fs_key f, fs_label f, debug_field_type (fs_type f), bool_text (fs_required f)]) (ks_fields k)) @
     concat (map (\<lambda>e. columns [''escalation'', es_parameter e, es_field_key e, debug_test (es_test e), es_threshold e, es_currency e])
       (ks_escalations k))"

definition bank_catalog_canonical :: string where
  "bank_catalog_canonical =
     concat (map spec_lines BANK_CATALOG) @
     concat (map (\<lambda>t. columns [''topic'', ts_topic t, ts_label t, ts_description t, bool_text (ts_subscribed t)]) BANK_TOPICS)"

section \<open>What is sent is what is declared\<close>

text \<open>Each field sent is declared with its type, none is sent twice, and every required one is sent.\<close>

definition declares :: "kind_spec \<Rightarrow> (string \<times> field_type) list \<Rightarrow> bool" where
  "declares k sent \<longleftrightarrow>
     distinct (map fst sent) \<and>
     list_all (\<lambda>p. p \<in> set (map (\<lambda>s. (fs_key s, fs_type s)) (ks_fields k))) sent \<and>
     list_all (\<lambda>s. fs_required s \<longrightarrow> fs_key s \<in> set (map fst sent)) (ks_fields k)"

definition conforms :: "kind_spec \<Rightarrow> approval_field list \<Rightarrow> bool" where
  "conforms k sent = declares k (map (\<lambda>f. (af_key f, value_field_type (af_value f))) sent)"

definition spec_of :: "string \<Rightarrow> kind_spec option" where
  "spec_of kind = List.find (\<lambda>k. ks_kind k = kind) BANK_CATALOG"

lemma spec_of_kind:
  "spec_of (operation_kind_str Scope_Payout_Kind) = Some payout_spec"
  "spec_of (operation_kind_str Account_Transfer_Kind) = Some account_transfer_spec"
  "spec_of (operation_kind_str Scope_Transfer_Kind) = Some scope_transfer_spec"
  "spec_of PAYMENT_KIND = Some payment_spec"
  by (simp_all add: spec_of_def BANK_CATALOG_def payout_spec_def account_transfer_spec_def scope_transfer_spec_def
      payment_spec_def PAYMENT_KIND_def)

definition payout_keys :: "(string \<times> field_type) list" where
  "payout_keys = [(''service'', Text_Type), (''from_account'', Text_Type), (''total'', Amount_Type), (''recipients'', Count_Type),
     (''max_line'', Amount_Type), (''lines_digest'', Text_Type), (''distribution'', Flag_Type), (''over_scope_budget'', Flag_Type)]"

definition transfer_keys :: "(string \<times> field_type) list" where
  "transfer_keys = [(''service'', Text_Type), (''from_account'', Text_Type), (''to_account'', Text_Type), (''amount'', Amount_Type)]"

lemma payout_declares: "declares payout_spec payout_keys" "declares payout_spec (payout_keys @ [(''recipient'', User_Type)])"
  by code_simp+

lemma transfer_declares: "declares account_transfer_spec transfer_keys" "declares scope_transfer_spec transfer_keys"
  by code_simp+

lemma operation_keys:
  assumes "operation_approval_fields o1 digest = Inr sent"
  shows "case op_body (pn_terms o1) of
      Payout_Body ls _ _ \<Rightarrow> map (\<lambda>f. (af_key f, value_field_type (af_value f))) sent =
        payout_keys @ (case ls of [_] \<Rightarrow> [(''recipient'', User_Type)] | _ \<Rightarrow> [])
    | Transfer_Body _ _ _ \<Rightarrow> map (\<lambda>f. (af_key f, value_field_type (af_value f))) sent = transfer_keys"
  using assms unfolding operation_approval_fields_def Let_def
  by (cases "op_body (pn_terms o1)")
    (auto simp: rmap_eq_Inr_iff payout_keys_def transfer_keys_def account_text_def split: list.splits)

text \<open>
  The approval banking opens for an operation is one its published catalog declares: it has a
  kind of the catalog, and its fields are exactly declared ones with their types, each sent once and
  every required one present, whatever the operation.
\<close>

theorem operation_approval_conforms:
  assumes "operation_approval_fields o1 digest = Inr sent"
  shows "\<exists>k. spec_of (operation_kind_str (operation_kind o1)) = Some k \<and> conforms k sent"
proof (cases "op_body (pn_terms o1)")
  case (Payout_Body ls d over)
  have "map (\<lambda>f. (af_key f, value_field_type (af_value f))) sent =
      payout_keys @ (case ls of [_] \<Rightarrow> [(''recipient'', User_Type)] | _ \<Rightarrow> [])"
    using operation_keys [OF assms] Payout_Body by simp
  then have "conforms payout_spec sent"
    using payout_declares by (simp add: conforms_def split: list.splits)
  with Payout_Body show ?thesis by (simp add: operation_kind_def spec_of_kind del: operation_kind_str.simps)
next
  case (Transfer_Body s l a)
  then have "conforms account_transfer_spec sent" "conforms scope_transfer_spec sent"
    using operation_keys [OF assms] transfer_declares by (simp_all add: conforms_def)
  with Transfer_Body show ?thesis by (simp add: operation_kind_def spec_of_kind del: operation_kind_str.simps)
qed

definition sample_operation :: pending_operation where
  "sample_operation = \<lparr>pn_id = 7,
     pn_terms = \<lparr>op_client = ClientId ''desk'', op_scope = ScopeId ''game'', op_from = ScopeAccountLabel ''pot'',
       op_body = Transfer_Body (ScopeId ''invest'') (ScopeAccountLabel ''pool'') (Usdt 5),
       op_subject_ref = SubjectRef ''move:1'', op_memo = []\<rparr>,
     pn_progress = progress_awaiting, pn_total = Usdt 5\<rparr>"

definition sample_fields :: "approval_field list" where
  "sample_fields =
    [\<lparr>af_key = ''service'', af_value = Text_Value ''desk''\<rparr>, \<lparr>af_key = ''from_account'', af_value = Text_Value ''game:pot''\<rparr>,
     \<lparr>af_key = ''to_account'', af_value = Text_Value ''invest:pool''\<rparr>, \<lparr>af_key = ''amount'', af_value = Amount_Value (Usdt 5)\<rparr>]"

lemma operation_approval_conforms_witness:
  "\<exists>k. spec_of (operation_kind_str (operation_kind sample_operation)) = Some k \<and> conforms k sample_fields"
  by (rule operation_approval_conforms [where digest = None])
    (simp add: operation_approval_fields_def Let_def sample_operation_def sample_fields_def account_text_def)

lemma payment_approval_conforms:
  assumes "payment_approval_fields sh t destination = Inr sent"
  shows "conforms payment_spec sent"
proof -
  have "map (\<lambda>f. (af_key f, value_field_type (af_value f))) sent =
      [(''tier'', Text_Type), (''source'', Text_Type), (''destination'', Text_Type), (''amount'', Amount_Type), (''reason'', Text_Type)]"
    using assms by (auto simp: payment_approval_fields_def Let_def split: if_splits)
  moreover have "declares payment_spec [(''tier'', Text_Type), (''source'', Text_Type), (''destination'', Text_Type),
      (''amount'', Amount_Type), (''reason'', Text_Type)]"
    by code_simp
  ultimately show ?thesis by (simp add: conforms_def)
qed

end
