(* ===== verification/LedgerPlans.thy ===== *)
theory LedgerPlans
  imports ScopePayouts BookStore Fees Compartments
begin

text \<open>
  What the relay puts on the ledger for each fact of the outbox
  (\<^verbatim>\<open>piggybank/core/src/infrastructure/relay.rs\<close>, the \<^verbatim>\<open>plan\<close> functions): the
  transfers, reservations, completions and broadcasts, with their ids, ends, amounts and codes, and
  what they take out of an account.  \<open>tid\<close>, the uuid v5 of an aggregate's id and a salt, is a
  parameter.
\<close>

section \<open>The operations\<close>

record broadcast_request =
  bq_withdrawal_id :: uuid
  bq_network :: network
  bq_address :: wallet_address
  bq_amount :: usdt

datatype ledger_action =
    Post ledger_transfer
  | PostLinked "ledger_transfer list"
  | Reserve ledger_transfer
  | Complete pending_completion
  | Linked "linked_leg list"
  | Broadcast broadcast_request

record planned_op =
  pp_role :: string
  pp_id :: u128
  pp_action :: ledger_action

type_synonym tid = "uuid \<Rightarrow> string \<Rightarrow> u128"

definition CLEARING_RESERVE :: string where "CLEARING_RESERVE = ''withdraw:clearing''"

definition CLEARING_SETTLE :: string where "CLEARING_SETTLE = ''withdraw:clearing:settle''"

definition WALLET_REDISTRIBUTE :: string where "WALLET_REDISTRIBUTE = ''withdraw:wallet''"

definition FEE_REDISTRIBUTE :: string where "FEE_REDISTRIBUTE = ''withdraw:fee''"

definition CLEARING_VOID_FAIL :: string where "CLEARING_VOID_FAIL = ''withdraw:clearing:void:fail''"

definition CLEARING_VOID_CANCEL :: string where "CLEARING_VOID_CANCEL = ''withdraw:clearing:void:cancel''"

definition SUBSCRIBE_CASH :: string where "SUBSCRIBE_CASH = ''subscribe:cash''"

definition SUBSCRIBE_MINT :: string where "SUBSCRIBE_MINT = ''subscribe:mint''"

definition ISSUE_MINT :: string where "ISSUE_MINT = ''issue:mint''"

definition ISSUE_RETIRE :: string where "ISSUE_RETIRE = ''issue:retire''"

definition BURN_RESERVE :: string where "BURN_RESERVE = ''redeem:burn''"

definition BURN_SETTLE :: string where "BURN_SETTLE = ''redeem:burn:settle''"

definition REDEEM_PAYOUT :: string where "REDEEM_PAYOUT = ''redeem:payout''"

definition BURN_VOID_FAIL :: string where "BURN_VOID_FAIL = ''redeem:burn:void:fail''"

definition BURN_VOID_CANCEL :: string where "BURN_VOID_CANCEL = ''redeem:burn:void:cancel''"

definition PAYMENT_RESERVE :: string where "PAYMENT_RESERVE = ''payment:reserve''"

definition PAYMENT_RESERVE_SETTLE :: string where "PAYMENT_RESERVE_SETTLE = ''payment:reserve:settle''"

definition PAYMENT_RESERVE_VOID :: string where "PAYMENT_RESERVE_VOID = ''payment:reserve:void''"

definition PAYMENT_TRANSFER :: string where "PAYMENT_TRANSFER = ''payment:transfer''"

definition FEE_SETTLE_BURN :: string where "FEE_SETTLE_BURN = ''fee:settle:burn''"

definition FEE_SETTLE_PAYOUT :: string where "FEE_SETTLE_PAYOUT = ''fee:settle:payout''"

definition BOOK_LOCK :: string where "BOOK_LOCK = ''book:lock''"

definition BOOK_RELEASE :: string where "BOOK_RELEASE = ''book:release''"

definition BOOK_FILL_UNITS :: string where "BOOK_FILL_UNITS = ''book:fill:units''"

definition BOOK_FILL_CASH :: string where "BOOK_FILL_CASH = ''book:fill:cash''"

definition BOOK_FILL_FEE :: string where "BOOK_FILL_FEE = ''book:fill:fee''"

definition COMPARTMENT_MOVE :: string where "COMPARTMENT_MOVE = ''compartment:move''"

definition SCOPE_TRANSFER :: string where "SCOPE_TRANSFER = ''scope:transfer''"

definition HOLD_PENDING :: string where "HOLD_PENDING = ''scope:hold:pending:''"

definition HOLD_VOID :: string where "HOLD_VOID = ''scope:hold:void:''"

definition HOLD_CAPTURE :: string where "HOLD_CAPTURE = ''scope:hold:capture:''"

definition SCOPE_PAYOUT :: string where "SCOPE_PAYOUT = ''scope:payout:''"

definition INVOICE_PAY :: string where "INVOICE_PAY = ''scope:invoice:pay:''"

definition SCOPE_CHARGE :: string where "SCOPE_CHARGE = ''scope:charge''"

text \<open>One transfer of a plan, and an operation that applies it under the transfer's own id.\<close>

definition transfer_of :: "u128 \<Rightarrow> account_key \<Rightarrow> account_key \<Rightarrow> u128 \<Rightarrow> transfer_code \<Rightarrow> uuid \<Rightarrow> ledger_transfer" where
  "transfer_of i dr cr amount code agg =
     \<lparr>lt_id = i, lt_debit = dr, lt_credit = cr, lt_amount = amount, lt_code = code, lt_reference = agg\<rparr>"

definition post_op :: "string \<Rightarrow> ledger_transfer \<Rightarrow> planned_op" where
  "post_op role t = \<lparr>pp_role = role, pp_id = lt_id t, pp_action = Post t\<rparr>"

definition reserve_op :: "string \<Rightarrow> ledger_transfer \<Rightarrow> planned_op" where
  "reserve_op role t = \<lparr>pp_role = role, pp_id = lt_id t, pp_action = Reserve t\<rparr>"

text \<open>The completion of a reservation: the reserve's ends, amount and code under an id of its own.\<close>

definition completion_of :: "u128 \<Rightarrow> completion_kind \<Rightarrow> ledger_transfer \<Rightarrow> pending_completion" where
  "completion_of i kind t =
     \<lparr>pc_id = i, pc_pending_id = lt_id t, pc_kind = kind, pc_debit = lt_debit t, pc_credit = lt_credit t,
      pc_amount = lt_amount t, pc_code = lt_code t, pc_reference = lt_reference t\<rparr>"

definition complete_op :: "string \<Rightarrow> pending_completion \<Rightarrow> planned_op" where
  "complete_op role c = \<lparr>pp_role = role, pp_id = pc_id c, pp_action = Complete c\<rparr>"

section \<open>Withdrawals and payments\<close>

definition clearing_reserve :: "tid \<Rightarrow> uuid \<Rightarrow> withdrawal_source \<Rightarrow> usdt \<Rightarrow> ledger_transfer" where
  "clearing_reserve tid agg source amount =
     transfer_of (tid agg CLEARING_RESERVE) (source_claim_key source) WithdrawalClearing (usdt_units amount) Withdraw agg"

definition void_clearing :: "tid \<Rightarrow> uuid \<Rightarrow> withdrawal_source \<Rightarrow> usdt \<Rightarrow> string \<Rightarrow> planned_op" where
  "void_clearing tid agg source amount salt =
     complete_op ''withdraw_void'' (completion_of (tid agg salt) Void_Pending (clearing_reserve tid agg source amount))"

definition net_of :: "usdt \<Rightarrow> usdt \<Rightarrow> string + usdt" where
  "net_of amount fee = ok_or (usdt_checked_sub amount fee) ''withdrawal fee exceeds amount''"

fun plan_withdrawal :: "tid \<Rightarrow> uuid \<Rightarrow> withdrawal_event \<Rightarrow> string + planned_op list" where
  "plan_withdrawal tid agg (Withdrawal_Requested _ source _ _ amount _) =
     Inr [reserve_op ''withdraw_reserve'' (clearing_reserve tid agg source amount)]"
| "plan_withdrawal tid agg (Withdrawal_Dispatched _ _ network address amount fee) =
     rbind (net_of amount fee) (\<lambda>net. Inr
       [\<lparr>pp_role = ''withdraw_broadcast'', pp_id = 0,
         pp_action = Broadcast \<lparr>bq_withdrawal_id = agg, bq_network = network, bq_address = address, bq_amount = net\<rparr>\<rparr>])"
| "plan_withdrawal tid agg (Withdrawal_Settled _ source network amount fee _ payee) =
     rbind (net_of amount fee) (\<lambda>net. Inr
       ([complete_op ''withdraw_settle''
           (completion_of (tid agg CLEARING_SETTLE) Post_Pending (clearing_reserve tid agg source amount)),
         post_op ''withdraw_disburse''
           (transfer_of (tid agg WALLET_REDISTRIBUTE) WithdrawalClearing (CryptoWallet network) (usdt_units net) Withdraw agg)] @
        (if usdt_is_zero fee then []
         else [post_op ''withdraw_fee''
           (transfer_of (tid agg FEE_REDISTRIBUTE) WithdrawalClearing (payee_claim_key payee) (usdt_units fee) WithdrawFee agg)])))"
| "plan_withdrawal tid agg (Withdrawal_Failed _ source _ amount _) = Inr [void_clearing tid agg source amount CLEARING_VOID_FAIL]"
| "plan_withdrawal tid agg (Withdrawal_Cancelled _ source _ amount _) = Inr [void_clearing tid agg source amount CLEARING_VOID_CANCEL]"

definition payment_reserve_leg :: "tid \<Rightarrow> uuid \<Rightarrow> party \<Rightarrow> usdt \<Rightarrow> ledger_transfer" where
  "payment_reserve_leg tid agg from amount =
     transfer_of (tid agg PAYMENT_RESERVE) (party_claim_key from) WithdrawalClearing (usdt_units amount) PaymentTransfer agg"

fun plan_payment :: "tid \<Rightarrow> uuid \<Rightarrow> payment_event \<Rightarrow> planned_op list" where
  "plan_payment tid agg (Reserved _ from amount _) = [reserve_op ''payment_reserve'' (payment_reserve_leg tid agg from amount)]"
| "plan_payment tid agg (Settled _ from to amount _) =
     [complete_op ''payment_settle''
        (completion_of (tid agg PAYMENT_RESERVE_SETTLE) Post_Pending (payment_reserve_leg tid agg from amount)),
      post_op ''payment_transfer''
        (transfer_of (tid agg PAYMENT_TRANSFER) WithdrawalClearing (party_claim_key to) (usdt_units amount) PaymentTransfer agg)]"
| "plan_payment tid agg (Released _ from amount _) =
     [complete_op ''payment_release''
        (completion_of (tid agg PAYMENT_RESERVE_VOID) Void_Pending (payment_reserve_leg tid agg from amount))]"
| "plan_payment tid agg _ = []"

section \<open>Fund units\<close>

fun plan_balance :: "u128 \<Rightarrow> uuid \<Rightarrow> ledger_event \<Rightarrow> planned_op" where
  "plan_balance event_tid agg (Deposited party network amount) =
     post_op ''deposit'' (transfer_of event_tid (CryptoWallet network) (party_claim_key party) (usdt_units amount) Deposit agg)"

fun plan_subscription :: "tid \<Rightarrow> uuid \<Rightarrow> subscription_event \<Rightarrow> planned_op list" where
  "plan_subscription tid agg (Subscribed _ user service cash _ units) =
     [post_op ''subscribe_cash''
        (transfer_of (tid agg SUBSCRIBE_CASH) (UserClaim user) (ServiceClaim service) (usdt_units cash) Subscribe agg),
      post_op ''subscribe_mint''
        (transfer_of (tid agg SUBSCRIBE_MINT) (UserShares service user) (SharesOutstanding service) (shares_units units) ShareMint agg)]"

fun plan_issuance :: "tid \<Rightarrow> uuid \<Rightarrow> issuance_event \<Rightarrow> domain_error + planned_op" where
  "plan_issuance tid agg (Issued _ service holder Mint_Source units _ _) =
     rmap (\<lambda>shares_key. post_op ''issue_mint''
        (transfer_of (tid agg ISSUE_MINT) shares_key (SharesOutstanding service) (shares_units units) UnitIssue agg))
       (holder_shares_key holder service)"
| "plan_issuance tid agg (Issued _ service holder Retire_Source units _ _) =
     rmap (\<lambda>shares_key. post_op ''issue_retire''
        (transfer_of (tid agg ISSUE_RETIRE) (SharesOutstanding service) shares_key (shares_units units) UnitRetire agg))
       (holder_shares_key holder service)"

definition burn_reserve :: "tid \<Rightarrow> uuid \<Rightarrow> uuid \<Rightarrow> service_id \<Rightarrow> shares \<Rightarrow> ledger_transfer" where
  "burn_reserve tid agg user service units =
     transfer_of (tid agg BURN_RESERVE) (SharesOutstanding service) (UserShares service user) (shares_units units) ShareBurn agg"

definition void_burn :: "tid \<Rightarrow> uuid \<Rightarrow> uuid \<Rightarrow> service_id \<Rightarrow> shares \<Rightarrow> string \<Rightarrow> planned_op" where
  "void_burn tid agg user service units salt =
     complete_op ''redeem_void'' (completion_of (tid agg salt) Void_Pending (burn_reserve tid agg user service units))"

fun plan_redemption :: "tid \<Rightarrow> uuid \<Rightarrow> redemption_event \<Rightarrow> planned_op list" where
  "plan_redemption tid agg (Redemption_Requested _ user service units) =
     [reserve_op ''redeem_reserve'' (burn_reserve tid agg user service units)]"
| "plan_redemption tid agg (Redemption_Settled _ user service units _ cash) =
     [complete_op ''redeem_burn''
        (completion_of (tid agg BURN_SETTLE) Post_Pending (burn_reserve tid agg user service units)),
      post_op ''redeem_payout''
        (transfer_of (tid agg REDEEM_PAYOUT) (ServiceClaim service) (UserClaim user) (usdt_units cash) Redeem agg)]"
| "plan_redemption tid agg (Redemption_Failed _ user service units) = [void_burn tid agg user service units BURN_VOID_FAIL]"
| "plan_redemption tid agg (Redemption_Cancelled _ user service units) = [void_burn tid agg user service units BURN_VOID_CANCEL]"

fun plan_fee :: "tid \<Rightarrow> uuid \<Rightarrow> u128 \<Rightarrow> fee_event \<Rightarrow> planned_op list" where
  "plan_fee tid agg event_tid (Charged _ user service units _ _ _ _) =
     [post_op ''fee_clawback''
        (transfer_of event_tid (FeeShares service) (UserShares service user) (shares_units units) FeeClawback agg)]"
| "plan_fee tid agg event_tid (SharesSettled _ service units _ cash payee) =
     [post_op ''fee_burn''
        (transfer_of (tid agg FEE_SETTLE_BURN) (SharesOutstanding service) (FeeShares service) (shares_units units) ShareBurn agg),
      post_op ''fee_payout''
        (transfer_of (tid agg FEE_SETTLE_PAYOUT) (ServiceClaim service) (party_claim_key payee) (usdt_units cash) FeeSettle agg)]"

section \<open>The book\<close>

fun lock_ends :: "service_id \<Rightarrow> uuid \<Rightarrow> locked \<Rightarrow> account_key \<times> account_key \<times> u128" where
  "lock_ends service user (Units units) = (BookShares service user, UserShares service user, shares_units units)"
| "lock_ends service user (Locked_Cash cash) = (UserClaim user, BookCash user, usdt_units cash)"

fun release_ends :: "service_id \<Rightarrow> uuid \<Rightarrow> locked \<Rightarrow> account_key \<times> account_key \<times> u128" where
  "release_ends service user (Units units) = (UserShares service user, BookShares service user, shares_units units)"
| "release_ends service user (Locked_Cash cash) = (BookCash user, UserClaim user, usdt_units cash)"

fun plan_book :: "tid \<Rightarrow> uuid \<Rightarrow> book_event \<Rightarrow> planned_op" where
  "plan_book tid agg (OrderPlaced _ service user _ locked) =
     (case lock_ends service user locked of (dr, cr, amount) \<Rightarrow>
        post_op ''book_lock'' (transfer_of (tid agg BOOK_LOCK) dr cr amount BookLock agg))"
| "plan_book tid agg (OrderReleased _ service user _ released) =
     (case release_ends service user released of (dr, cr, amount) \<Rightarrow>
        post_op ''book_release'' (transfer_of (tid agg BOOK_RELEASE) dr cr amount BookRelease agg))"
| "plan_book tid agg (TradeExecuted _ service buyer seller _ _ taker sz _ notional fee _ payee) =
     \<lparr>pp_role = ''book_fill'', pp_id = tid agg BOOK_FILL_UNITS, pp_action = PostLinked
       ([transfer_of (tid agg BOOK_FILL_UNITS) (UserShares service buyer) (BookShares service seller) (shares_units sz) BookFill agg,
         transfer_of (tid agg BOOK_FILL_CASH) (BookCash buyer) (UserClaim seller) (usdt_units notional) BookFill agg] @
        (if usdt_is_zero fee then []
         else [transfer_of (tid agg BOOK_FILL_FEE) (case taker of Buy \<Rightarrow> BookCash buyer | Sell \<Rightarrow> UserClaim seller)
           (party_claim_key payee) (usdt_units fee) BookFee agg]))\<rparr>"

section \<open>Scopes\<close>

fun plan_compartment :: "tid \<Rightarrow> uuid \<Rightarrow> compartment_event \<Rightarrow> planned_op" where
  "plan_compartment tid agg (Moved _ user from to amount) =
     post_op ''compartment_move'' (transfer_of (tid agg COMPARTMENT_MOVE) (compartment_claim_key from user)
       (compartment_claim_key to user) (usdt_units amount) CompartmentMoveCode agg)"

fun plan_scope_ledger :: "tid \<Rightarrow> uuid \<Rightarrow> scope_ledger_event \<Rightarrow> planned_op" where
  "plan_scope_ledger tid agg (Transferred _ scope from to_scope to amount) =
     post_op ''scope_transfer'' (transfer_of (tid agg SCOPE_TRANSFER) (ScopeAccount scope from) (ScopeAccount to_scope to)
       (usdt_units amount) ScopeTransfer agg)"

definition payout_tid :: "tid \<Rightarrow> uuid \<Rightarrow> nat \<Rightarrow> u128" where
  "payout_tid tid payout line_no = tid payout (SCOPE_PAYOUT @ show_nat line_no)"

fun plan_payout :: "tid \<Rightarrow> uuid \<Rightarrow> scope_payout_event \<Rightarrow> string + planned_op" where
  "plan_payout tid agg (PaidOut _ scope from ls) =
     (let legs = map (\<lambda>(line_no, l). transfer_of (payout_tid tid agg line_no) (ScopeAccount scope from)
            (ScopeClaim (paid_user l) scope) (usdt_units (paid_amount l)) ScopePayout agg) (enumerate 0 ls)
      in case legs of [] \<Rightarrow> Inl ''a payout without lines''
         | first # _ \<Rightarrow> Inr \<lparr>pp_role = ''scope_payout'', pp_id = lt_id first, pp_action = PostLinked legs\<rparr>)"

definition hold_tid :: "tid \<Rightarrow> uuid \<Rightarrow> string \<Rightarrow> u64 \<Rightarrow> u128" where
  "hold_tid tid hold1 salt version = tid hold1 (salt @ show_nat (unat version))"

definition hold_reservation :: "tid \<Rightarrow> uuid \<Rightarrow> scope_id \<Rightarrow> uuid \<Rightarrow> u64 \<Rightarrow> usdt \<Rightarrow> ledger_transfer" where
  "hold_reservation tid agg scope user version amount =
     transfer_of (hold_tid tid agg HOLD_PENDING version) (ScopeClaim user scope) HoldClearing (usdt_units amount) ScopeHold agg"

definition hold_void_leg :: "tid \<Rightarrow> uuid \<Rightarrow> scope_id \<Rightarrow> uuid \<Rightarrow> u64 \<Rightarrow> u64 \<Rightarrow> usdt \<Rightarrow> linked_leg" where
  "hold_void_leg tid agg scope user version released held =
     Leg_Complete (completion_of (hold_tid tid agg HOLD_VOID version) Void_Pending (hold_reservation tid agg scope user released held))"

fun capture_key :: "scope_id \<Rightarrow> hold_destination \<Rightarrow> account_key" where
  "capture_key scope (Account_Destination label1) = ScopeAccount scope label1"
| "capture_key scope (User_Destination other) = ScopeClaim other scope"

fun plan_hold :: "tid \<Rightarrow> uuid \<Rightarrow> hold_event \<Rightarrow> planned_op" where
  "plan_hold tid agg (Hold_Placed _ scope user amount version) =
     reserve_op ''hold_reserve'' (hold_reservation tid agg scope user version amount)"
| "plan_hold tid agg (Hold_Captured _ scope user version released held amount to _) =
     (let void_leg = hold_void_leg tid agg scope user version released held;
          rest = (case usdt_checked_sub held amount of Some r \<Rightarrow> r | None \<Rightarrow> USDT_ZERO);
          legs = [void_leg,
            Leg_Post (transfer_of (hold_tid tid agg HOLD_CAPTURE version) (ScopeClaim user scope) (capture_key scope to)
              (usdt_units amount) ScopeHold agg)] @
            (if usdt_is_zero rest then [] else [Leg_Reserve (hold_reservation tid agg scope user version rest)])
      in \<lparr>pp_role = ''hold_capture'', pp_id = linked_leg_id void_leg, pp_action = Linked legs\<rparr>)"
| "plan_hold tid agg (Hold_Released _ scope user version released held _ _) =
     (let leg = hold_void_leg tid agg scope user version released held
      in \<lparr>pp_role = ''hold_release'', pp_id = linked_leg_id leg, pp_action = Linked [leg]\<rparr>)"

fun plan_charge :: "tid \<Rightarrow> uuid \<Rightarrow> charge_event \<Rightarrow> planned_op" where
  "plan_charge tid agg (Scope_Charged _ scope user to amount) =
     post_op ''scope_charge'' (transfer_of (tid agg SCOPE_CHARGE) (ScopeClaim user scope) (ScopeAccount scope to)
       (usdt_units amount) ScopeCharge agg)"

definition invoice_pay_tid :: "tid \<Rightarrow> uuid \<Rightarrow> u64 \<Rightarrow> u128" where
  "invoice_pay_tid tid invoice1 version = tid invoice1 (INVOICE_PAY @ show_nat (unat version))"

fun plan_invoice :: "tid \<Rightarrow> uuid \<Rightarrow> invoice_event \<Rightarrow> planned_op option" where
  "plan_invoice tid agg (Invoice_Paid _ scope to amount payer from version) = Some
     (post_op ''invoice_pay'' (transfer_of (invoice_pay_tid tid agg version) (compartment_claim_key from payer)
       (ScopeAccount scope to) (usdt_units amount) InvoicePayment agg))"
| "plan_invoice tid agg _ = None"


section \<open>The facts of the outbox\<close>

datatype event_kind =
    Balance_Kind | Withdrawals_Kind | Subscriptions_Kind | Redemptions_Kind | Fees_Kind | Issuances_Kind
  | Book_Kind | Payments_Kind | Compartments_Kind | ScopeLedger_Kind | ScopeHolds_Kind | ScopePayouts_Kind
  | ScopeInvoices_Kind | ScopeCharges_Kind | Other_Kind string

text \<open>A row's payload as it reads back: a fact, or what the reader says of a payload it cannot read.\<close>

datatype relay_event =
    Balance_Fact ledger_event | Withdrawal_Fact withdrawal_event | Subscription_Fact subscription_event
  | Redemption_Fact redemption_event | Fee_Fact fee_event | Issuance_Fact issuance_event | Book_Fact book_event
  | Payment_Fact payment_event | Compartment_Fact compartment_event | ScopeLedger_Fact scope_ledger_event
  | Hold_Fact hold_event | Payout_Fact scope_payout_event | Invoice_Fact invoice_event | Charge_Fact charge_event
  | Unreadable event_kind string

fun fact_kind :: "relay_event \<Rightarrow> event_kind" where
  "fact_kind (Balance_Fact _) = Balance_Kind"
| "fact_kind (Withdrawal_Fact _) = Withdrawals_Kind"
| "fact_kind (Subscription_Fact _) = Subscriptions_Kind"
| "fact_kind (Redemption_Fact _) = Redemptions_Kind"
| "fact_kind (Fee_Fact _) = Fees_Kind"
| "fact_kind (Issuance_Fact _) = Issuances_Kind"
| "fact_kind (Book_Fact _) = Book_Kind"
| "fact_kind (Payment_Fact _) = Payments_Kind"
| "fact_kind (Compartment_Fact _) = Compartments_Kind"
| "fact_kind (ScopeLedger_Fact _) = ScopeLedger_Kind"
| "fact_kind (Hold_Fact _) = ScopeHolds_Kind"
| "fact_kind (Payout_Fact _) = ScopePayouts_Kind"
| "fact_kind (Invoice_Fact _) = ScopeInvoices_Kind"
| "fact_kind (Charge_Fact _) = ScopeCharges_Kind"
| "fact_kind (Unreadable k _) = k"

record outbox_row =
  ob_seq :: int
  ob_event_id :: uuid
  ob_aggregate_id :: uuid
  ob_fact :: relay_event
  ob_attempts :: int

definition plan :: "tid \<Rightarrow> outbox_row \<Rightarrow> string + planned_op list" where
  "plan tid row =
     (let agg = ob_aggregate_id row; event_tid = ob_event_id row in
      case ob_fact row of
        Balance_Fact e \<Rightarrow> Inr [plan_balance event_tid agg e]
      | Withdrawal_Fact e \<Rightarrow> plan_withdrawal tid agg e
      | Subscription_Fact e \<Rightarrow> Inr (plan_subscription tid agg e)
      | Redemption_Fact e \<Rightarrow> Inr (plan_redemption tid agg e)
      | Fee_Fact e \<Rightarrow> Inr (plan_fee tid agg event_tid e)
      | Issuance_Fact e \<Rightarrow> (case plan_issuance tid agg e of Inl err \<Rightarrow> Inl (error_display err) | Inr p \<Rightarrow> Inr [p])
      | Book_Fact e \<Rightarrow> Inr [plan_book tid agg e]
      | Payment_Fact e \<Rightarrow> Inr (plan_payment tid agg e)
      | Compartment_Fact e \<Rightarrow> Inr [plan_compartment tid agg e]
      | ScopeLedger_Fact e \<Rightarrow> Inr [plan_scope_ledger tid agg e]
      | Hold_Fact e \<Rightarrow> Inr [plan_hold tid agg e]
      | Payout_Fact e \<Rightarrow> rmap (\<lambda>p. [p]) (plan_payout tid agg e)
      | Invoice_Fact e \<Rightarrow> Inr (case plan_invoice tid agg e of None \<Rightarrow> [] | Some p \<Rightarrow> [p])
      | Charge_Fact e \<Rightarrow> Inr [plan_charge tid agg e]
      | Unreadable (Other_Kind _) _ \<Rightarrow> Inr []
      | Unreadable _ reason \<Rightarrow> Inl reason)"

section \<open>What a plan takes out of an account\<close>

fun add_units :: "string \<Rightarrow> u128 \<Rightarrow> u128 \<Rightarrow> string + u128" where
  "add_units msg total1 amount = ok_or (checked_add total1 amount) msg"

fun chain_sums :: "account_key \<Rightarrow> linked_leg list \<Rightarrow> u128 \<Rightarrow> u128 \<Rightarrow> string + (u128 \<times> u128)" where
  "chain_sums key [] taken released = Inr (taken, released)"
| "chain_sums key (Leg_Complete c # legs) taken released =
     (if pc_kind c = Void_Pending \<and> pc_debit c = key
      then rbind (add_units ''planned releases overflow'' released (pc_amount c)) (chain_sums key legs taken)
      else chain_sums key legs taken released)"
| "chain_sums key (Leg_Post t # legs) taken released =
     (if lt_debit t = key
      then rbind (add_units ''planned debits overflow'' taken (lt_amount t)) (\<lambda>taken. chain_sums key legs taken released)
      else chain_sums key legs taken released)"
| "chain_sums key (Leg_Reserve t # legs) taken released =
     (if lt_debit t = key
      then rbind (add_units ''planned debits overflow'' taken (lt_amount t)) (\<lambda>taken. chain_sums key legs taken released)
      else chain_sums key legs taken released)"

definition chain_debit :: "linked_leg list \<Rightarrow> account_key \<Rightarrow> string + u128" where
  "chain_debit legs key = rmap (\<lambda>(taken, released). saturating_sub taken released) (chain_sums key legs 0 0)"

fun debit_transfers :: "account_key \<Rightarrow> ledger_transfer list \<Rightarrow> u128 \<Rightarrow> string + u128" where
  "debit_transfers key [] total1 = Inr total1"
| "debit_transfers key (t # ts) total1 =
     (if lt_debit t = key
      then rbind (add_units ''planned debits overflow'' total1 (lt_amount t)) (debit_transfers key ts)
      else debit_transfers key ts total1)"

fun action_debit :: "account_key \<Rightarrow> ledger_action \<Rightarrow> u128 \<Rightarrow> string + u128" where
  "action_debit key (Post t) total1 = debit_transfers key [t] total1"
| "action_debit key (Reserve t) total1 = debit_transfers key [t] total1"
| "action_debit key (PostLinked ts) total1 = debit_transfers key ts total1"
| "action_debit key (Linked legs) total1 =
     rbind (chain_debit legs key) (add_units ''planned debits overflow'' total1)"
| "action_debit key (Complete _) total1 = Inr total1"
| "action_debit key (Broadcast _) total1 = Inr total1"

fun ops_debit :: "account_key \<Rightarrow> planned_op list \<Rightarrow> u128 \<Rightarrow> string + u128" where
  "ops_debit key [] total1 = Inr total1"
| "ops_debit key (op1 # ops) total1 = rbind (action_debit key (pp_action op1) total1) (ops_debit key ops)"

definition planned_debit :: "tid \<Rightarrow> outbox_row \<Rightarrow> account_key \<Rightarrow> string + u128" where
  "planned_debit tid row key = rbind (plan tid row) (\<lambda>ops. ops_debit key ops 0)"

fun claim_owner :: "account_key \<Rightarrow> uuid option" where
  "claim_owner (UserClaim user) = Some user"
| "claim_owner (ScopeClaim user _) = Some user"
| "claim_owner (BookCash user) = Some user"
| "claim_owner (UserShares _ user) = Some user"
| "claim_owner (BookShares _ user) = Some user"
| "claim_owner _ = None"

end
