(* ===== verification/Sagas.thy ===== *)
theory Sagas
  imports LedgerPlans
begin

text \<open>
  The sagas of withdrawals, payments, redemptions and holds against an abstract account of what the
  ledger then holds: the reservations open and the transfers posted.  A leg the ledger would refuse
  or take for one it already applied has no successor: a spent id, equal or incommensurable ends, a
  zero amount, a completion of anything but an open reservation with the same ends, amount and code.
  The locale \<open>saga_aggregate\<close> says that each command keeps an aggregate and that account in step;
  every saga interprets it.
\<close>

section \<open>The account\<close>

record saga =
  sg_ids :: "u128 list"
  sg_open :: "ledger_transfer list"
  sg_moves :: "ledger_transfer list"

definition saga_empty :: saga where
  "saga_empty = \<lparr>sg_ids = [], sg_open = [], sg_moves = []\<rparr>"

definition leg_ok :: "ledger_transfer \<Rightarrow> bool" where
  "leg_ok t \<longleftrightarrow> lt_debit t \<noteq> lt_credit t \<and> key_ledger (lt_debit t) = key_ledger (lt_credit t) \<and> lt_amount t \<noteq> 0"

definition completes :: "pending_completion \<Rightarrow> ledger_transfer \<Rightarrow> bool" where
  "completes c t \<longleftrightarrow> pc_pending_id c = lt_id t \<and> pc_debit c = lt_debit t \<and> pc_credit c = lt_credit t \<and>
     pc_amount c = lt_amount t \<and> pc_code c = lt_code t"

fun saga_leg :: "linked_leg \<Rightarrow> saga \<Rightarrow> saga option" where
  "saga_leg (Leg_Post t) s =
     (if lt_id t \<in> set (sg_ids s) \<or> \<not> leg_ok t then None
      else Some (s\<lparr>sg_ids := lt_id t # sg_ids s, sg_moves := sg_moves s @ [t]\<rparr>))"
| "saga_leg (Leg_Reserve t) s =
     (if lt_id t \<in> set (sg_ids s) \<or> \<not> leg_ok t then None
      else Some (s\<lparr>sg_ids := lt_id t # sg_ids s, sg_open := sg_open s @ [t]\<rparr>))"
| "saga_leg (Leg_Complete c) s =
     (if pc_id c \<in> set (sg_ids s) then None
      else case List.find (completes c) (sg_open s) of None \<Rightarrow> None
        | Some t \<Rightarrow> Some (s\<lparr>sg_ids := pc_id c # sg_ids s, sg_open := remove1 t (sg_open s),
            sg_moves := sg_moves s @ (if pc_kind c = Post_Pending then [t] else [])\<rparr>))"

fun saga_legs :: "linked_leg list \<Rightarrow> saga \<Rightarrow> saga option" where
  "saga_legs [] s = Some s"
| "saga_legs (l # ls) s = Option.bind (saga_leg l s) (saga_legs ls)"

fun action_legs :: "ledger_action \<Rightarrow> linked_leg list" where
  "action_legs (Post t) = [Leg_Post t]"
| "action_legs (PostLinked ts) = map Leg_Post ts"
| "action_legs (Reserve t) = [Leg_Reserve t]"
| "action_legs (Complete c) = [Leg_Complete c]"
| "action_legs (Linked ls) = ls"
| "action_legs (Broadcast _) = []"

definition legs_of :: "planned_op list \<Rightarrow> linked_leg list" where
  "legs_of ops = concat (map (action_legs \<circ> pp_action) ops)"

fun saga_events :: "('e \<Rightarrow> string + planned_op list) \<Rightarrow> 'e list \<Rightarrow> saga \<Rightarrow> saga option" where
  "saga_events p [] s = Some s"
| "saga_events p (e # es) s =
     (case p e of Inl _ \<Rightarrow> None | Inr ops \<Rightarrow> Option.bind (saga_legs (legs_of ops) s) (saga_events p es))"

lemma saga_events_append: "saga_events p (es @ fs) s = Option.bind (saga_events p es s) (saga_events p fs)"
  by (induction es arbitrary: s) (auto split: sum.splits Option.bind_splits)

named_theorems saga_plan \<open>the legs a plan puts on the account\<close>

lemma legs_of_simps [saga_plan]:
  "legs_of [] = []"
  "legs_of (post_op r t # ops) = Leg_Post t # legs_of ops"
  "legs_of (reserve_op r t # ops) = Leg_Reserve t # legs_of ops"
  "legs_of (complete_op r c # ops) = Leg_Complete c # legs_of ops"
  "legs_of (\<lparr>pp_role = r, pp_id = i, pp_action = a\<rparr> # ops) = action_legs a @ legs_of ops"
  by (simp_all add: legs_of_def post_op_def reserve_op_def complete_op_def)

lemma completes_own [simp]: "completes (completion_of i k t) t"
  by (simp add: completes_def completion_of_def)

lemma completion_of_simps [simp]: "pc_id (completion_of i k t) = i" "pc_kind (completion_of i k t) = k"
  by (simp_all add: completion_of_def)

lemma transfer_of_simps [simp]:
  "lt_id (transfer_of i dr cr a c g) = i" "lt_debit (transfer_of i dr cr a c g) = dr"
  "lt_credit (transfer_of i dr cr a c g) = cr" "lt_amount (transfer_of i dr cr a c g) = a"
  by (simp_all add: transfer_of_def)

lemma leg_ok_transfer [simp]:
  "leg_ok (transfer_of i dr cr a c g) \<longleftrightarrow> dr \<noteq> cr \<and> key_ledger dr = key_ledger cr \<and> a \<noteq> 0"
  by (simp add: leg_ok_def)

section \<open>Aggregates in step with their account\<close>

text \<open>A run of commands, with every fact raised so far.\<close>

primrec saga_run :: "('c \<Rightarrow> 'a \<Rightarrow> 'a \<times> 'e list) \<Rightarrow> 'c list \<Rightarrow> 'a \<times> 'e list \<Rightarrow> 'a \<times> 'e list" where
  "saga_run step [] r = r"
| "saga_run step (c # cs) r = saga_run step cs (fst (step c (fst r)), snd r @ snd (step c (fst r)))"

text \<open>
  \<open>step\<close> applies one command and gives the facts raised, \<open>sim n\<close> holds of an aggregate and its
  account when at least \<open>n\<close> more commands keep them so.
\<close>

locale saga_aggregate =
  fixes step :: "'c \<Rightarrow> 'a \<Rightarrow> 'a \<times> 'e list"
    and plan_of :: "'e \<Rightarrow> string + planned_op list"
    and sim :: "nat \<Rightarrow> 'a \<Rightarrow> saga \<Rightarrow> bool"
  assumes sim_step: "sim (Suc n) a s \<Longrightarrow> \<exists>s'. saga_events plan_of (snd (step c a)) s = Some s' \<and> sim n (fst (step c a)) s'"
begin

lemma run_refines:
  assumes "saga_events plan_of (snd r) saga_empty = Some s" and "sim (length cs + n) (fst r) s"
  shows "\<exists>s'. saga_events plan_of (snd (saga_run step cs r)) saga_empty = Some s' \<and> sim n (fst (saga_run step cs r)) s'"
  using assms
proof (induction cs arbitrary: r s)
  case (Cons c cs)
  obtain s' where "saga_events plan_of (snd (step c (fst r))) s = Some s'" "sim (length cs + n) (fst (step c (fst r))) s'"
    using sim_step [of "length cs + n" "fst r" s c] Cons.prems(2) by auto
  then show ?case using Cons.prems(1) by (auto simp: saga_events_append intro: Cons.IH)
qed auto

end

end
