(* ===== verification/HoldSaga.thy ===== *)
theory HoldSaga
  imports Sagas
begin

text \<open>
  The saga of a hold: a capture voids the standing reservation, posts what it takes and reserves the
  rest, so at every moment exactly what is left of an active hold is reserved, and what was captured
  is posted, however it was captured in parts, voided or expired.
\<close>

datatype hold_command =
    Capture_Hold "usdt option" hold_destination subject_ref i64
  | Void_Hold subject_ref i64
  | Expire_Hold i64
  | Revoke_Hold i64

definition hold_step :: "hold_command \<Rightarrow> hold \<Rightarrow> hold \<times> hold_event list" where
  "hold_step c h = (case c of
       Capture_Hold amount to subject now \<Rightarrow>
         (case hold_capture h amount to subject now of Inl _ \<Rightarrow> (h, []) | Inr (h', _) \<Rightarrow> hold_drain h')
     | Void_Hold subject now \<Rightarrow> hold_drain (fst (hold_void h subject now))
     | Expire_Hold now \<Rightarrow> hold_drain (fst (hold_expire h now))
     | Revoke_Hold now \<Rightarrow> hold_drain (fst (void_by_user h now)))"

text \<open>The ids of a hold: distinct for each salt and version.\<close>

definition hold_ids_distinct :: "tid \<Rightarrow> uuid \<Rightarrow> bool" where
  "hold_ids_distinct tid i \<longleftrightarrow>
     inj_on (\<lambda>(salt, v). hold_tid tid i salt v) ({HOLD_PENDING, HOLD_VOID, HOLD_CAPTURE} \<times> UNIV)"

text \<open>What is reserved of an active hold, and what its captures took.\<close>

definition hold_open_legs :: "tid \<Rightarrow> hold \<Rightarrow> ledger_transfer list" where
  "hold_open_legs tid h =
     (if hp_state (hd_progress h) = Active_Hold
      then [hold_reservation tid (hd_id h) (ht_scope (hd_terms h)) (ht_user (hd_terms h)) (hp_pending_version (hd_progress h))
              (hold_remaining h)]
      else [])"

definition captured_by :: "hold_terms \<Rightarrow> ledger_transfer \<Rightarrow> bool" where
  "captured_by ht t \<longleftrightarrow> lt_debit t = ScopeClaim (ht_user ht) (ht_scope ht) \<and> lt_credit t \<noteq> HoldClearing \<and>
     lt_code t = ScopeHold"

definition hold_posted :: "hold \<Rightarrow> saga \<Rightarrow> bool" where
  "hold_posted h s \<longleftrightarrow> list_all (captured_by (hd_terms h)) (sg_moves s) \<and>
     sum_list (map (unat \<circ> lt_amount) (sg_moves s)) = unat (usdt_units (hp_captured (hd_progress h)))"

definition ids_upto :: "tid \<Rightarrow> uuid \<Rightarrow> u64 \<Rightarrow> u128 set \<Rightarrow> bool" where
  "ids_upto tid i v J \<longleftrightarrow> (\<forall>j \<in> J. \<exists>salt \<in> {HOLD_PENDING, HOLD_VOID, HOLD_CAPTURE}. \<exists>w \<le> v. j = hold_tid tid i salt w)"

lemma ids_upto_mono: "ids_upto tid i v J \<Longrightarrow> v \<le> w \<Longrightarrow> ids_upto tid i w J"
  unfolding ids_upto_def by (meson order_trans)

lemma ids_upto_insert [simp]:
  "salt \<in> {HOLD_PENDING, HOLD_VOID, HOLD_CAPTURE} \<Longrightarrow> ids_upto tid i v (insert (hold_tid tid i salt v) J) \<longleftrightarrow> ids_upto tid i v J"
  by (auto simp: ids_upto_def)

definition hold_sim :: "tid \<Rightarrow> nat \<Rightarrow> hold \<Rightarrow> saga \<Rightarrow> bool" where
  "hold_sim tid n h s \<longleftrightarrow>
     hold_ids_distinct tid (hd_id h) \<and> hd_pending h = [] \<and>
     hp_captured (hd_progress h) \<le> ht_amount (hd_terms h) \<and>
     (hp_state (hd_progress h) = Active_Hold \<longrightarrow> hp_captured (hd_progress h) < ht_amount (hd_terms h)) \<and>
     hp_pending_version (hd_progress h) \<le> hp_version (hd_progress h) \<and>
     unat (hp_version (hd_progress h)) + n < 2 ^ 64 \<and>
     ids_upto tid (hd_id h) (hp_version (hd_progress h)) (set (sg_ids s)) \<and>
     sg_open s = hold_open_legs tid h \<and> hold_posted h s"

lemma hold_tid_eq:
  assumes "hold_ids_distinct tid i" "a \<in> {HOLD_PENDING, HOLD_VOID, HOLD_CAPTURE}" "b \<in> {HOLD_PENDING, HOLD_VOID, HOLD_CAPTURE}"
  shows "hold_tid tid i a v = hold_tid tid i b w \<longleftrightarrow> a = b \<and> v = w"
  using assms inj_onD [OF assms(1) [unfolded hold_ids_distinct_def], of "(a, v)" "(b, w)"] by auto

lemma hold_salts [simp]: "HOLD_PENDING \<noteq> HOLD_VOID" "HOLD_PENDING \<noteq> HOLD_CAPTURE" "HOLD_VOID \<noteq> HOLD_CAPTURE"
  "HOLD_VOID \<noteq> HOLD_PENDING" "HOLD_CAPTURE \<noteq> HOLD_PENDING" "HOLD_CAPTURE \<noteq> HOLD_VOID"
  by (simp_all add: HOLD_PENDING_def HOLD_VOID_def HOLD_CAPTURE_def)

text \<open>An id of the next version is not spent.\<close>

lemma next_version:
  assumes "unat (v :: u64) + Suc n < 2 ^ 64"
  shows "unat (v + 1) = Suc (unat v)" "\<not> v + 1 \<le> v"
proof -
  show up: "unat (v + 1) = Suc (unat v)" using assms by (simp add: unat_add_no_wrap)
  show "\<not> v + 1 \<le> v" using up by (simp add: word_le_nat_alt)
qed

lemma fresh_id:
  assumes sim: "hold_sim tid (Suc n) h s" and salt: "salt \<in> {HOLD_PENDING, HOLD_VOID, HOLD_CAPTURE}"
  shows "hold_tid tid (hd_id h) salt (hp_version (hd_progress h) + 1) \<notin> set (sg_ids s)"
proof
  let ?v = "hp_version (hd_progress h)"
  assume "hold_tid tid (hd_id h) salt (?v + 1) \<in> set (sg_ids s)"
  then obtain salt' v where "salt' \<in> {HOLD_PENDING, HOLD_VOID, HOLD_CAPTURE}" "v \<le> ?v"
    "hold_tid tid (hd_id h) salt (?v + 1) = hold_tid tid (hd_id h) salt' v"
    using sim unfolding hold_sim_def ids_upto_def by blast
  moreover have "hold_ids_distinct tid (hd_id h)" "unat ?v + Suc n < 2 ^ 64" using sim unfolding hold_sim_def by blast+
  ultimately show False using hold_tid_eq salt next_version(2) by metis
qed

lemma hold_ends [simp]: "capture_key scope to \<noteq> HoldClearing" "key_ledger (capture_key scope to) = Usdt_Ledger"
  "ScopeClaim user scope = capture_key scope to \<longleftrightarrow> to = User_Destination user"
  by (cases to; auto)+

text \<open>Releasing what is left.\<close>

lemma hold_release_sim:
  assumes sim: "hold_sim tid (Suc n) h s" and active: "hp_state (hd_progress h) = Active_Hold" and ended: "s1 \<noteq> Active_Hold"
  shows "\<exists>s'. saga_events (\<lambda>e. Inr [plan_hold tid (hd_id h) e]) (hd_pending (hold_release h s1 subject)) s = Some s' \<and>
    hold_sim tid n (fst (hold_drain (hold_release h s1 subject))) s'"
proof -
  let ?v = "hp_version (hd_progress h)"
  have v: "unat (?v + 1) = Suc (unat ?v)" "unat ?v + Suc n < 2 ^ 64"
    using sim next_version(1) unfolding hold_sim_def by blast+
  have le: "?v \<le> ?v + 1" using v(1) by (simp add: word_le_nat_alt)
  have fresh: "hold_tid tid (hd_id h) HOLD_VOID (?v + 1) \<notin> set (sg_ids s)" using fresh_id [OF sim] by simp
  let ?r = "hold_reservation tid (hd_id h) (ht_scope (hd_terms h)) (ht_user (hd_terms h)) (hp_pending_version (hd_progress h)) (hold_remaining h)"
  have opened: "sg_open s = [?r]" and pend: "hd_pending h = []"
    using sim active by (simp_all add: hold_sim_def hold_open_legs_def)
  define s' where "s' = s\<lparr>sg_ids := hold_tid tid (hd_id h) HOLD_VOID (?v + 1) # sg_ids s, sg_open := []\<rparr>"
  have "saga_events (\<lambda>e. Inr [plan_hold tid (hd_id h) e]) (hd_pending (hold_release h s1 subject)) s = Some s'"
    using pend fresh opened
    by (simp add: hold_release_def hold_raise_def Let_def saga_plan hold_void_leg_def s'_def)
  moreover have "hold_sim tid n (fst (hold_drain (hold_release h s1 subject))) s'"
    using sim ended v le unfolding hold_sim_def hold_drain_def hold_release_def hold_raise_def Let_def s'_def
    by (auto simp: hold_open_legs_def hold_posted_def captured_by_def intro: order_trans ids_upto_mono)
  ultimately show ?thesis by blast
qed

lemma hold_remaining_val:
  "hp_state (hd_progress h) = Active_Hold \<Longrightarrow> hp_captured (hd_progress h) \<le> ht_amount (hd_terms h) \<Longrightarrow>
   usdt_val (hold_remaining h) + usdt_val (hp_captured (hd_progress h)) = usdt_val (ht_amount (hd_terms h))"
  by (auto simp: hold_remaining_def nat_arith split: option.splits)

text \<open>An accepted capture: what it takes, where to, and what is left.\<close>

lemma hold_capture_parts:
  assumes "hold_capture h amount to subject now = Inr (h', a)"
  obtains captured where
    "hp_state (hd_progress h) = Active_Hold" "to \<noteq> User_Destination (ht_user (hd_terms h))" "usdt_val a \<noteq> 0"
    "usdt_val a \<le> usdt_val (hold_remaining h)"
    "usdt_val captured = usdt_val (hp_captured (hd_progress h)) + usdt_val a"
    "hd_id h' = hd_id h" "hd_terms h' = hd_terms h" "hp_captured (hd_progress h') = captured"
    "hp_version (hd_progress h') = hp_version (hd_progress h) + 1"
    "a = hold_remaining h \<and> hp_state (hd_progress h') = Captured_Hold \<and>
       hp_pending_version (hd_progress h') = hp_pending_version (hd_progress h) \<or>
     a \<noteq> hold_remaining h \<and> hp_state (hd_progress h') = Active_Hold \<and>
       hp_pending_version (hd_progress h') = hp_version (hd_progress h) + 1"
    "hd_pending h' = hd_pending h @ [Hold_Captured (hd_id h) (ht_scope (hd_terms h)) (ht_user (hd_terms h))
       (hp_version (hd_progress h) + 1) (hp_pending_version (hd_progress h)) (hold_remaining h) a to subject]"
proof -
  let ?held = "hold_remaining h"
  define amt where "amt = (case amount of Some a \<Rightarrow> a | None \<Rightarrow> ?held)"
  have conds: "\<not> (hp_state (hd_progress h) \<noteq> Active_Hold \<or> hold_is_due h now)" "to \<noteq> User_Destination (ht_user (hd_terms h))"
    "\<not> usdt_is_zero amt" "\<not> ?held < amt" and [simp]: "a = amt"
    using assms unfolding hold_capture_def Let_def amt_def [symmetric] by (auto simp: result_iffs split: if_splits)
  have r: "rbind (ok_or (usdt_checked_add (hp_captured (hd_progress h)) amt) (Hold_Invalid (Validation ''capture overflows'')))
      (\<lambda>captured. Inr (hold_raise
         (Hold_Captured (hd_id h) (ht_scope (hd_terms h)) (ht_user (hd_terms h)) (hp_version (hd_progress h) + 1)
           (hp_pending_version (hd_progress h)) ?held amt to subject)
         (h\<lparr>hd_progress :=
            if amt = ?held
            then (hd_progress h)\<lparr>hp_captured := captured, hp_version := hp_version (hd_progress h) + 1, hp_state := Captured_Hold\<rparr>
            else (hd_progress h)\<lparr>hp_captured := captured, hp_version := hp_version (hd_progress h) + 1,
              hp_pending_version := hp_version (hd_progress h) + 1\<rparr>\<rparr>), amt)) = Inr (h', a)"
    using assms conds unfolding hold_capture_def Let_def amt_def [symmetric] by simp
  show ?thesis
  proof (cases "amt = ?held")
    case True
    then show ?thesis using r conds by (auto simp: result_iffs ok_or_def hold_raise_def nat_arith split: option.splits intro!: that)
  next
    case False
    then show ?thesis using r conds
      by (auto simp: result_iffs ok_or_def hold_raise_def nat_arith not_less split: option.splits intro!: that)
  qed
qed

lemma hold_capture_sim:
  assumes sim: "hold_sim tid (Suc n) h s" and ok: "hold_capture h amount to subject now = Inr (h', a)"
  shows "\<exists>s'. saga_events (\<lambda>e. Inr [plan_hold tid (hd_id h) e]) (hd_pending h') s = Some s' \<and>
    hold_sim tid n (fst (hold_drain h')) s' \<and> hd_id h' = hd_id h"
proof -
  let ?p = "hd_progress h" and ?t = "hd_terms h" and ?i = "hd_id h"
  let ?v = "hp_version ?p"
  have v: "unat (?v + 1) = Suc (unat ?v)" "unat ?v + Suc n < 2 ^ 64"
    using sim next_version(1) unfolding hold_sim_def by blast+
  have le: "?v \<le> ?v + 1" using v(1) by (simp add: word_le_nat_alt)
  show ?thesis
    using ok
  proof (rule hold_capture_parts)
    fix captured
    assume h': "hp_state ?p = Active_Hold" "to \<noteq> User_Destination (ht_user ?t)" "usdt_val a \<noteq> 0"
      "usdt_val a \<le> usdt_val (hold_remaining h)" "usdt_val captured = usdt_val (hp_captured ?p) + usdt_val a"
      "hd_id h' = ?i" "hd_terms h' = ?t" "hp_captured (hd_progress h') = captured" "hp_version (hd_progress h') = ?v + 1"
      "a = hold_remaining h \<and> hp_state (hd_progress h') = Captured_Hold \<and> hp_pending_version (hd_progress h') = hp_pending_version ?p \<or>
       a \<noteq> hold_remaining h \<and> hp_state (hd_progress h') = Active_Hold \<and> hp_pending_version (hd_progress h') = ?v + 1"
      "hd_pending h' = hd_pending h @ [Hold_Captured ?i (ht_scope ?t) (ht_user ?t) (?v + 1) (hp_pending_version ?p) (hold_remaining h) a to subject]"
    have pend: "hd_pending h = []" and cap: "hp_captured ?p \<le> ht_amount ?t"
      and opened: "sg_open s = [hold_reservation tid ?i (ht_scope ?t) (ht_user ?t) (hp_pending_version ?p) (hold_remaining h)]"
      using sim h'(1) by (simp_all add: hold_sim_def hold_open_legs_def)
    have cap_lt: "hp_captured ?p < ht_amount ?t" and posted: "hold_posted h s" using sim h'(1) by (simp_all add: hold_sim_def)
    have fresh: "hold_tid tid ?i salt (?v + 1) \<notin> set (sg_ids s)" if "salt \<in> {HOLD_PENDING, HOLD_VOID, HOLD_CAPTURE}" for salt
      using fresh_id [OF sim that] .
    have apart: "hold_tid tid ?i x v \<noteq> hold_tid tid ?i y w"
      if "x \<noteq> y" "x \<in> {HOLD_PENDING, HOLD_VOID, HOLD_CAPTURE}" "y \<in> {HOLD_PENDING, HOLD_VOID, HOLD_CAPTURE}" for x y v w
      using that hold_tid_eq [of tid ?i x y v w] sim by (simp add: hold_sim_def)
    obtain rest where rest: "usdt_checked_sub (hold_remaining h) a = Some rest"
      using h'(4) by (cases "usdt_checked_sub (hold_remaining h) a") (simp_all add: nat_arith)
    have rest_zero: "usdt_is_zero rest \<longleftrightarrow> a = hold_remaining h" using rest by (auto simp: nat_arith usdt_eq_iff)
    define took where "took = transfer_of (hold_tid tid ?i HOLD_CAPTURE (?v + 1)) (ScopeClaim (ht_user ?t) (ht_scope ?t))
      (capture_key (ht_scope ?t) to) (usdt_units a) ScopeHold ?i"
    define left where "left = (if usdt_is_zero rest then [] else [hold_reservation tid ?i (ht_scope ?t) (ht_user ?t) (?v + 1) rest])"
    define s' where "s' = \<lparr>sg_ids = map lt_id left @ [hold_tid tid ?i HOLD_CAPTURE (?v + 1), hold_tid tid ?i HOLD_VOID (?v + 1)] @ sg_ids s,
      sg_open = left, sg_moves = sg_moves s @ [took]\<rparr>"
    have a_units: "usdt_units a \<noteq> 0" using h'(3) by auto
    have "saga_events (\<lambda>e. Inr [plan_hold tid ?i e]) (hd_pending h') s = Some s'"
      using pend opened h'(2,3,11) fresh rest a_units
      by (auto simp: saga_plan Let_def hold_void_leg_def s'_def took_def left_def hold_reservation_def apart usdt_is_zero_def)
    moreover have "hold_sim tid n (fst (hold_drain h')) s'"
    proof -
      let ?h = "fst (hold_drain h')"
      note total = hold_remaining_val [OF h'(1) cap]
      have same: "hd_id ?h = ?i" "hd_terms ?h = ?t" "hd_progress ?h = hd_progress h'" "hd_pending ?h = []"
        using h'(6,7) by (simp_all add: hold_drain_def)
      have kept: "hp_captured (hd_progress ?h) \<le> ht_amount ?t"
        "hp_state (hd_progress ?h) = Active_Hold \<longrightarrow> hp_captured (hd_progress ?h) < ht_amount ?t"
        using total h'(4,5,8,10) same(3) by (auto simp: usdt_order usdt_eq_iff)
      have "hold_remaining ?h = rest" if "hp_state (hd_progress ?h) = Active_Hold"
        using hold_remaining_val [of ?h] that kept(1) total rest h'(5,8) same by (simp add: nat_arith usdt_eq_iff)
      then have opened': "left = hold_open_legs tid ?h"
        using h'(10) rest_zero same unfolding left_def hold_open_legs_def by auto
      have posted': "hold_posted ?h s'"
        using posted h'(5,8) same unfolding hold_posted_def s'_def took_def captured_by_def by (auto simp: transfer_of_def)
      have upto: "ids_upto tid ?i (?v + 1) (set (sg_ids s'))"
        using sim le ids_upto_mono [of tid ?i ?v "set (sg_ids s)" "?v + 1"]
        unfolding s'_def left_def hold_reservation_def hold_sim_def by simp
      have versions: "hp_pending_version (hd_progress ?h) \<le> ?v + 1" "unat (?v + 1) + n < 2 ^ 64"
        using h'(10) sim le v same unfolding hold_sim_def by auto
      show ?thesis
        using sim kept opened' posted' upto versions h'(9) same unfolding hold_sim_def by (simp add: s'_def)
    qed
    ultimately show ?thesis using h'(6) by blast
  qed
qed

lemma hold_sim_step:
  assumes "hold_sim tid (Suc n) h s"
  shows "\<exists>s'. saga_events (\<lambda>e. Inr [plan_hold tid (hd_id h) e]) (snd (hold_step c h)) s = Some s' \<and>
    hold_sim tid n (fst (hold_step c h)) s' \<and> hd_id (fst (hold_step c h)) = hd_id h \<and> hd_terms (fst (hold_step c h)) = hd_terms h"
proof -
  have same: "hold_sim tid n h s" "hd_pending h = []" "fst (hold_drain h) = h" "snd (hold_drain h) = []"
    using assms by (auto simp: hold_sim_def hold_drain_def)
  have frame: "hd_id (fst (hold_drain (hold_release h s1 subject))) = hd_id h" "hd_terms (fst (hold_drain (hold_release h s1 subject))) = hd_terms h"
    "snd (hold_drain (hold_release h s1 subject)) = hd_pending (hold_release h s1 subject)" for s1 subject
    by (simp_all add: hold_drain_def hold_release_def hold_raise_def Let_def)
  note released = hold_release_sim [OF assms, of Voided_Hold] hold_release_sim [OF assms, of Expired_Hold]
  have due: "hold_is_due h now \<Longrightarrow> hp_state (hd_progress h) = Active_Hold" for now by (simp add: hold_is_due_def)
  show ?thesis
  proof (cases c)
    case (Capture_Hold amount to subject now)
    have "hd_terms (fst (hold_drain h')) = hd_terms h" if "hold_capture h amount to subject now = Inr (h', a)" for h' a
      using that by (rule hold_capture_parts) (simp add: hold_drain_def)
    with hold_capture_sim [OF assms] Capture_Hold same(1) show ?thesis
      by (auto simp: hold_step_def hold_drain_def split: sum.splits)
  qed (use same released due in \<open>simp_all add: hold_step_def hold_void_def hold_expire_def void_by_user_def frame\<close>)
qed

interpretation hold_saga: saga_aggregate hold_step "\<lambda>e. Inr [plan_hold tid i e]"
  "\<lambda>n h s. hd_id h = i \<and> hd_terms h = t \<and> hold_sim tid n h s" for tid i t
  by unfold_locales (use hold_sim_step in blast)


definition sample_code :: "string \<Rightarrow> nat" where
  "sample_code salt =
     (if salt ! 11 = CHR ''p'' then 3 * decimal_value (drop 19 salt) 0
      else if salt ! 11 = CHR ''v'' then 3 * decimal_value (drop 16 salt) 0 + 1
      else 3 * decimal_value (drop 19 salt) 0 + 2)"

definition sample_hold_tid :: tid where
  "sample_hold_tid agg salt = word_of_nat (sample_code salt)"

lemma sample_hold_ids: "hold_ids_distinct sample_hold_tid 9"
proof -
  have codes: "sample_code (HOLD_PENDING @ show_nat n) = 3 * n" "sample_code (HOLD_VOID @ show_nat n) = 3 * n + 1"
    "sample_code (HOLD_CAPTURE @ show_nat n) = 3 * n + 2" for n
    by (simp_all add: sample_code_def HOLD_PENDING_def HOLD_VOID_def HOLD_CAPTURE_def decimal_value_show_nat)
  have small: "unat (v :: u64) < 2 ^ 64" for v using unsigned_less [of v] by simp
  have t: "unat (hold_tid sample_hold_tid 9 HOLD_PENDING v) = 3 * unat v"
    "unat (hold_tid sample_hold_tid 9 HOLD_VOID v) = 3 * unat v + 1"
    "unat (hold_tid sample_hold_tid 9 HOLD_CAPTURE v) = 3 * unat v + 2" for v
    using small [of v] unfolding hold_tid_def sample_hold_tid_def codes by (subst unat_of_nat_fits; simp)+
  define k :: "string \<Rightarrow> nat" where "k = (\<lambda>a. if a = HOLD_PENDING then 0 else if a = HOLD_VOID then 1 else 2)"
  have k: "unat (hold_tid sample_hold_tid 9 a v) = 3 * unat v + k a" if "a \<in> {HOLD_PENDING, HOLD_VOID, HOLD_CAPTURE}" for a v
    using that t by (auto simp: k_def)
  have split: "x = y \<and> c = d" if "3 * x + c = 3 * y + d" "c < 3" "d < 3" for x y c d :: nat using that by presburger
  have unique: "a = b \<and> v = w" if ab: "a \<in> {HOLD_PENDING, HOLD_VOID, HOLD_CAPTURE}" "b \<in> {HOLD_PENDING, HOLD_VOID, HOLD_CAPTURE}"
    and eq: "hold_tid sample_hold_tid 9 a v = hold_tid sample_hold_tid 9 b w" for a b v w
  proof -
    have "3 * unat v + k a = 3 * unat w + k b" using k [OF ab(1)] k [OF ab(2)] eq by metis
    from split [OF this] have same: "unat v = unat w" "k a = k b" by (simp_all add: k_def)
    from same(1) have "v = w" by (rule unsigned_word_eqI)
    moreover from ab same(2) have "a = b" by (elim insertE emptyE) (simp_all add: k_def)
    ultimately show ?thesis by blast
  qed
  show ?thesis unfolding hold_ids_distinct_def
  proof (rule inj_onI)
    fix x y :: "string \<times> u64"
    assume "x \<in> {HOLD_PENDING, HOLD_VOID, HOLD_CAPTURE} \<times> UNIV" "y \<in> {HOLD_PENDING, HOLD_VOID, HOLD_CAPTURE} \<times> UNIV"
      "(case x of (salt, v) \<Rightarrow> hold_tid sample_hold_tid 9 salt v) = (case y of (salt, v) \<Rightarrow> hold_tid sample_hold_tid 9 salt v)"
    then have "fst x = fst y \<and> snd x = snd y" by (intro unique) (simp_all only: split_beta mem_Times_iff)
    then show "x = y" by (simp add: prod_eq_iff)
  qed
qed

definition sample_hold_terms :: hold_terms where
  "sample_hold_terms = \<lparr>ht_client = ClientId ''desk'', ht_scope = ScopeId ''game'', ht_user = 5, ht_amount = Usdt 10,
     ht_expires_at = None, ht_subject_ref = SubjectRef ''bet:1'', ht_mandate = 2\<rparr>"

definition sample_hold :: hold where
  "sample_hold = \<lparr>hd_id = 9, hd_terms = sample_hold_terms,
     hd_progress = \<lparr>hp_captured = USDT_ZERO, hp_state = Active_Hold, hp_version = 1, hp_pending_version = 1\<rparr>,
     hd_pending = [Hold_Placed 9 (ScopeId ''game'') 5 (Usdt 10) 1]\<rparr>"

lemma sample_placed: "hold_place show_u128 9 sample_hold_terms = Inr sample_hold"
  by (simp add: hold_place_def hold_restore_def hold_raise_def sample_hold_terms_def sample_hold_def usdt_is_zero_def scope_is_main_def scope_main_def MAIN_def
      USDT_ZERO_def less_usdt_def)


end
