(* ===== verification/FundSagas.thy ===== *)
theory FundSagas
  imports Sagas PaymentSafety
begin

text \<open>The sagas of payments and redemptions, against the same account as withdrawals and holds.\<close>

section \<open>Payments\<close>

definition payment_command_step :: "payment_command \<Rightarrow> payment_order \<Rightarrow> payment_order \<times> payment_event list" where
  "payment_command_step c o1 = (case payment_do c o1 of Inl _ \<Rightarrow> (o1, []) | Inr o2 \<Rightarrow> payment_drain o2)"

definition payment_salts :: "string set" where
  "payment_salts = {PAYMENT_RESERVE, PAYMENT_RESERVE_SETTLE, PAYMENT_RESERVE_VOID, PAYMENT_TRANSFER}"

definition order_reserve :: "tid \<Rightarrow> payment_order \<Rightarrow> ledger_transfer" where
  "order_reserve tid o1 = payment_reserve_leg tid (po_id o1) (pt_from (po_terms o1)) (pt_amount (po_terms o1))"

definition payment_open_legs :: "tid \<Rightarrow> payment_order \<Rightarrow> ledger_transfer list" where
  "payment_open_legs tid o1 =
     (case (pt_to (po_terms o1), po_state o1) of (Internal _, Approved_Payment) \<Rightarrow> [order_reserve tid o1] | _ \<Rightarrow> [])"

definition payment_moves :: "tid \<Rightarrow> payment_order \<Rightarrow> ledger_transfer list" where
  "payment_moves tid o1 =
     (case (pt_to (po_terms o1), po_state o1) of
        (Internal to, Executed_Payment) \<Rightarrow> [order_reserve tid o1,
          transfer_of (tid (po_id o1) PAYMENT_TRANSFER) WithdrawalClearing (party_claim_key to)
            (usdt_units (pt_amount (po_terms o1))) PaymentTransfer (po_id o1)]
      | _ \<Rightarrow> [])"

definition payment_sim :: "tid \<Rightarrow> nat \<Rightarrow> payment_order \<Rightarrow> saga \<Rightarrow> bool" where
  "payment_sim tid n o1 s \<longleftrightarrow>
     inj_on (tid (po_id o1)) payment_salts \<and> po_pending o1 = [] \<and> usdt_units (pt_amount (po_terms o1)) \<noteq> 0 \<and>
     sg_open s = payment_open_legs tid o1 \<and> sg_moves s = payment_moves tid o1 \<and>
     (po_state o1 = Pending_Payment \<longrightarrow> sg_ids s = []) \<and>
     (po_state o1 = Approved_Payment \<longrightarrow> set (sg_ids s) \<subseteq> {tid (po_id o1) PAYMENT_RESERVE})"

lemma payment_salts_distinct:
  assumes "inj_on t payment_salts"
  shows "t PAYMENT_RESERVE_SETTLE \<noteq> t PAYMENT_RESERVE" "t PAYMENT_RESERVE_VOID \<noteq> t PAYMENT_RESERVE"
    "t PAYMENT_TRANSFER \<noteq> t PAYMENT_RESERVE" "t PAYMENT_TRANSFER \<noteq> t PAYMENT_RESERVE_SETTLE"
  using assms
  by (auto simp: payment_salts_def PAYMENT_RESERVE_def PAYMENT_RESERVE_SETTLE_def PAYMENT_RESERVE_VOID_def PAYMENT_TRANSFER_def
      dest: inj_onD)

lemma party_ends [simp]: "party_claim_key p \<noteq> WithdrawalClearing" "WithdrawalClearing \<noteq> party_claim_key p"
  "key_ledger (party_claim_key p) = Usdt_Ledger"
  by (cases p; simp add: payee_treasury_def)+

text \<open>The audit facts plan nothing.\<close>

lemma audit_plans_nothing: "\<not> payment_relays e \<Longrightarrow> plan_payment tid i e = []"
  by (cases e) simp_all

lemma payment_drain_clean: "po_pending o1 = [] \<Longrightarrow> payment_drain o1 = (o1, [])"
  by (cases o1) (simp add: payment_drain_def)

lemma payment_sim_step:
  assumes "payment_sim tid (Suc n) o1 s"
  shows "\<exists>s'. saga_events (\<lambda>e. Inr (plan_payment tid (po_id o1) e)) (snd (payment_command_step c o1)) s = Some s' \<and>
    payment_sim tid n (fst (payment_command_step c o1)) s' \<and> po_id (fst (payment_command_step c o1)) = po_id o1"
proof (cases "payment_do c o1")
  case (Inl e)
  then show ?thesis using assms by (simp add: payment_command_step_def payment_sim_def)
next
  case (Inr o2)
  have clean: "po_pending o1 = []" and distinct: "inj_on (tid (po_id o1)) payment_salts"
    using assms by (simp_all add: payment_sim_def)
  note frame = payment_do_frame [OF Inr]
  note salts = payment_salts_distinct [OF distinct]
  note unfolds = payment_command_step_def payment_drain_def payment_sim_def payment_open_legs_def payment_moves_def order_reserve_def
    payment_reserve_leg_def saga_plan audit_plans_nothing settles_internal payment_tier_def
  from Inr show ?thesis
  proof (cases rule: payment_do_cases)
    case same
    then show ?thesis using assms Inr payment_drain_clean [OF clean] by (simp add: payment_command_step_def payment_sim_def)
  next
    case (approved at)
    then show ?thesis using assms Inr clean frame by (cases "pt_to (po_terms o1)") (auto simp: unfolds)
  next
    case (ended e)
    then show ?thesis using assms Inr clean frame by (cases "pt_to (po_terms o1)") (auto simp: unfolds)
  next
    case (executed effect at)
    then show ?thesis using assms Inr clean frame salts by (cases "pt_to (po_terms o1)") (auto simp: unfolds)
  next
    case (failed reason at)
    then show ?thesis using assms Inr clean frame salts by (cases "pt_to (po_terms o1)") (auto simp: unfolds)
  qed
qed

interpretation payment_saga: saga_aggregate payment_command_step "\<lambda>e. Inr (plan_payment tid i e)"
  "\<lambda>n o1 s. po_id o1 = i \<and> payment_sim tid n o1 s" for tid i
  by unfold_locales (use payment_sim_step in blast)

section \<open>Redemptions\<close>

datatype redemption_command = Settle_Redemption nav | Fail_Redemption | Cancel_Redemption

fun redemption_do :: "redemption_command \<Rightarrow> redemption \<Rightarrow> redemption result" where
  "redemption_do (Settle_Redemption nav) r = redemption_settle r nav"
| "redemption_do Fail_Redemption r = redemption_fail r"
| "redemption_do Cancel_Redemption r = redemption_cancel r"

definition redemption_step :: "redemption_command \<Rightarrow> redemption \<Rightarrow> redemption \<times> redemption_event list" where
  "redemption_step c r = (case redemption_do c r of Inl _ \<Rightarrow> (r, []) | Inr r' \<Rightarrow> redemption_drain r')"

definition redemption_salts :: "string set" where
  "redemption_salts = {BURN_RESERVE, BURN_SETTLE, REDEEM_PAYOUT, BURN_VOID_FAIL, BURN_VOID_CANCEL}"

definition own_burn :: "tid \<Rightarrow> redemption \<Rightarrow> ledger_transfer" where
  "own_burn tid r = burn_reserve tid (rd_id r) (rd_user r) (rd_service r) (rd_units r)"

definition redemption_open_legs :: "tid \<Rightarrow> redemption \<Rightarrow> ledger_transfer list" where
  "redemption_open_legs tid r = (if rd_state r = Queued_Redemption then [own_burn tid r] else [])"

definition redemption_moves :: "tid \<Rightarrow> redemption \<Rightarrow> ledger_transfer list" where
  "redemption_moves tid r =
     (case (rd_state r, rd_cash r) of
        (Completed_Redemption, Some cash) \<Rightarrow> [own_burn tid r,
          transfer_of (tid (rd_id r) REDEEM_PAYOUT) (ServiceClaim (rd_service r)) (UserClaim (rd_user r)) (usdt_units cash) Redeem (rd_id r)]
      | _ \<Rightarrow> [])"

definition redemption_sim :: "tid \<Rightarrow> nat \<Rightarrow> redemption \<Rightarrow> saga \<Rightarrow> bool" where
  "redemption_sim tid n r s \<longleftrightarrow>
     inj_on (tid (rd_id r)) redemption_salts \<and> rd_pending r = [] \<and> shares_units (rd_units r) \<noteq> 0 \<and>
     sg_open s = redemption_open_legs tid r \<and> sg_moves s = redemption_moves tid r \<and>
     (rd_state r = Queued_Redemption \<longrightarrow> sg_ids s = [tid (rd_id r) BURN_RESERVE])"

lemma redemption_salts_distinct:
  assumes "inj_on t redemption_salts"
  shows "t BURN_SETTLE \<noteq> t BURN_RESERVE" "t REDEEM_PAYOUT \<noteq> t BURN_RESERVE" "t BURN_VOID_FAIL \<noteq> t BURN_RESERVE"
    "t BURN_VOID_CANCEL \<noteq> t BURN_RESERVE" "t REDEEM_PAYOUT \<noteq> t BURN_SETTLE"
  using assms
  by (auto simp: redemption_salts_def BURN_RESERVE_def BURN_SETTLE_def REDEEM_PAYOUT_def BURN_VOID_FAIL_def BURN_VOID_CANCEL_def
      dest: inj_onD)

lemmas redemption_ops = redemption_settle_def redemption_fail_def redemption_cancel_def redemption_raise_def redemption_drain_def

lemma redemption_clean: "rd_pending r = [] \<Longrightarrow> r\<lparr>rd_pending := []\<rparr> = r"
  by (cases r) simp

lemma redemption_sim_step:
  assumes "redemption_sim tid (Suc n) r s"
  shows "\<exists>s'. saga_events (\<lambda>e. Inr (plan_redemption tid (rd_id r) e)) (snd (redemption_step c r)) s = Some s' \<and>
    redemption_sim tid n (fst (redemption_step c r)) s' \<and> rd_id (fst (redemption_step c r)) = rd_id r"
proof -
  note salts = redemption_salts_distinct [of "tid (rd_id r)"]
  note unfolds = redemption_step_def redemption_ops redemption_sim_def redemption_open_legs_def redemption_moves_def own_burn_def
    burn_reserve_def void_burn_def saga_plan usdt_is_zero_def result_iffs salts redemption_clean
  show ?thesis
  proof (cases c)
    case (Settle_Redemption nav)
    show ?thesis using assms
      by (cases "nav_value nav (rd_units r)"; cases "rd_state r") (auto simp: Settle_Redemption unfolds)
  qed (use assms in \<open>cases "rd_state r"; auto simp: unfolds\<close>)+
qed

interpretation redemption_saga: saga_aggregate redemption_step "\<lambda>e. Inr (plan_redemption tid i e)"
  "\<lambda>n r s. rd_id r = i \<and> redemption_sim tid n r s" for tid i
  by unfold_locales (use redemption_sim_step in blast)

end
