(* ===== verification/Relay.thy ===== *)
theory Relay
  imports LedgerPlans
begin

text \<open>
  The relay (\<^verbatim>\<open>piggybank/core/src/infrastructure/relay.rs\<close>) over the outbox
  (\<^verbatim>\<open>infrastructure/outbox.rs\<close>): one delivery of a row, and one pass over the backlog.
  What a delivery asks of the database, the ledger and custody is answered by \<open>relay_answers\<close>, one
  record per delivery; what it does is the list of calls it makes, in order.  The table is the
  relay's own.
\<close>

section \<open>Errors and outcomes\<close>

definition custody_unavailable :: "string \<Rightarrow> string" where
  "custody_unavailable detail = ''custody unavailable: '' @ detail"

datatype custody_error = Custody_Unavailable string | Custody_Rejected string

fun custody_to_ledger :: "custody_error \<Rightarrow> ledger_error" where
  "custody_to_ledger (Custody_Unavailable detail) = Ledger_Unavailable (custody_unavailable detail)"
| "custody_to_ledger (Custody_Rejected detail) = Ledger_Conflict (''custody rejected: '' @ detail)"

fun ledger_error_display :: "ledger_error \<Rightarrow> string" where
  "ledger_error_display ledger_error.Ledger_InsufficientFunds = ''insufficient funds''"
| "ledger_error_display (Ledger_Unavailable e) = ''ledger unavailable: '' @ e"
| "ledger_error_display (Ledger_Retryable e) = ''ledger retryable: '' @ e"
| "ledger_error_display (Ledger_Conflict e) = ''ledger conflict: '' @ e"

datatype money_event_error = MoneyEvent_Unavailable string | MoneyEvent_Unrecordable string

datatype relay_outcome =
    Out_Done
  | Out_Retry string
  | Out_MoneyEvent string
  | Out_RetryBounded string
  | Out_Park string nat

definition out_park :: "string \<Rightarrow> relay_outcome" where
  "out_park reason = Out_Park reason 0"

definition MAX_RETRYABLE_ATTEMPTS :: int where
  "MAX_RETRYABLE_ATTEMPTS = 25"

fun money_event_failed :: "string \<Rightarrow> money_event_error \<Rightarrow> relay_outcome" where
  "money_event_failed context1 (MoneyEvent_Unavailable reason) = Out_Retry (context1 @ ''money event: '' @ reason)"
| "money_event_failed context1 (MoneyEvent_Unrecordable reason) = Out_MoneyEvent (context1 @ reason)"

section \<open>Postings\<close>

datatype posting = Move_Posting | Transfer_Posting | Payout_Posting | Invoice_Posting | Charge_Posting

fun posting_of :: "event_kind \<Rightarrow> posting option" where
  "posting_of Compartments_Kind = Some Move_Posting"
| "posting_of ScopeLedger_Kind = Some Transfer_Posting"
| "posting_of ScopePayouts_Kind = Some Payout_Posting"
| "posting_of ScopeInvoices_Kind = Some Invoice_Posting"
| "posting_of ScopeCharges_Kind = Some Charge_Posting"
| "posting_of _ = None"

fun posting_name :: "posting \<Rightarrow> string" where
  "posting_name Move_Posting = ''compartment move''"
| "posting_name Transfer_Posting = ''scope transfer''"
| "posting_name Payout_Posting = ''scope payout''"
| "posting_name Invoice_Posting = ''invoice payment''"
| "posting_name Charge_Posting = ''scope charge''"

fun posting_insufficient :: "posting \<Rightarrow> string" where
  "posting_insufficient Move_Posting = refusal_reason InsufficientFunds"
| "posting_insufficient Invoice_Posting = invoice_refusal_reason Invoice_InsufficientFunds"
| "posting_insufficient _ = ledger_refusal_reason ledger_refusal.Ledger_InsufficientFunds"

definition park_kind :: "string \<Rightarrow> string" where
  "park_kind reason =
     (if starts_with ''ledger conflict'' reason then ''conflict''
      else if starts_with ''compartment move applied check'' reason \<or> starts_with ''scope transfer applied check'' reason \<or>
        starts_with ''scope payout applied check'' reason \<or> starts_with ''scope charge applied check'' reason
      then ''applied_check''
      else if starts_with ''unplannable'' reason then ''unplannable''
      else if starts_with ''retryable exhausted'' reason then ''retry_exhausted''
      else ''other'')"

definition charge_stays_pending_on_park :: "string \<Rightarrow> bool" where
  "charge_stays_pending_on_park reason \<longleftrightarrow> park_kind reason = ''applied_check'' \<or> park_kind reason = ''retry_exhausted''"

definition refused_reserve :: "outbox_row \<Rightarrow> nat \<Rightarrow> uuid option" where
  "refused_reserve row applied =
     (if 0 < applied then None
      else case ob_fact row of Hold_Fact (Hold_Placed hold1 _ _ _ _) \<Rightarrow> Some hold1 | _ \<Rightarrow> None)"

section \<open>One delivery\<close>

record relay_answers =
  ra_refused :: "string + bool"
  ra_state :: "string + move_state option"
  ra_exists :: "u128 \<Rightarrow> ledger_error + bool"
  ra_past_window :: "string + bool"
  ra_balance :: "account_key \<Rightarrow> ledger_error + ledger_balance"
  ra_reserved :: "string + bool"
  ra_withdrawal_state :: "string + string option"
  ra_broadcast_row :: "string + bool"
  ra_hold_exists :: "u128 \<Rightarrow> ledger_error + bool"
  ra_apply :: "nat \<Rightarrow> ledger_error + unit"
  ra_step :: "nat \<Rightarrow> string + unit"
  ra_project :: "string + unit"
  ra_money_event :: "money_event_error + unit"
  ra_stamp :: "string + unit"

datatype relay_call =
    Call_Apply ledger_action
  | Call_Step nat string u128
  | Call_Project
  | Call_MoneyEvent
  | Call_Posted
  | Call_Failed string
  | Call_VoidHold uuid string
  | Call_RejectOrder uuid string

text \<open>What a read of the ledger that did not answer means for the delivery.\<close>

fun read_failed :: "string \<Rightarrow> ledger_error \<Rightarrow> relay_outcome" where
  "read_failed what (Ledger_Unavailable e) = Out_Retry e"
| "read_failed what (Ledger_Retryable e) = Out_RetryBounded e"
| "read_failed what e = out_park (what @ '': '' @ ledger_error_display e)"

definition stamp_posted :: "relay_answers \<Rightarrow> posting \<Rightarrow> relay_outcome" where
  "stamp_posted a p = (case ra_stamp a of Inr _ \<Rightarrow> Out_Done | Inl e \<Rightarrow> Out_Retry (posting_name p @ '' posted stamp: '' @ e))"

definition stamp_failed :: "relay_answers \<Rightarrow> posting \<Rightarrow> relay_outcome" where
  "stamp_failed a p = (case ra_stamp a of Inr _ \<Rightarrow> Out_Done | Inl e \<Rightarrow> Out_Retry (posting_name p @ '' failed stamp: '' @ e))"

text \<open>The gate of a posting: \<open>None\<close> when the delivery goes on.\<close>

definition charge_window :: "posting \<Rightarrow> relay_answers \<Rightarrow> (relay_outcome \<times> relay_call list) option" where
  "charge_window p a =
     (if p \<noteq> Charge_Posting then None
      else case ra_past_window a of
        Inr True \<Rightarrow> Some (stamp_failed a p, [Call_Failed ''expired''])
      | Inr False \<Rightarrow> None
      | Inl e \<Rightarrow> Some (Out_Retry (posting_name p @ '' age read: '' @ e), []))"

definition posting_gate :: "posting \<Rightarrow> planned_op list \<Rightarrow> relay_answers \<Rightarrow> (relay_outcome \<times> relay_call list) option" where
  "posting_gate p ops a =
     (case ra_state a of
        Inl e \<Rightarrow> Some (Out_Retry (posting_name p @ '' state read: '' @ e), [])
      | Inr None \<Rightarrow> Some (out_park (posting_name p @ '' row is missing''), [])
      | Inr (Some Posted) \<Rightarrow> Some (Out_Done, [])
      | Inr (Some Failed) \<Rightarrow> Some (Out_Done, [])
      | Inr (Some Pending) \<Rightarrow>
          (case ops of
             [] \<Rightarrow> Some (out_park (posting_name p @ '' planned no leg''), [])
           | leg # _ \<Rightarrow>
               (case ra_exists a (pp_id leg) of
                  Inr True \<Rightarrow>
                    (case ra_money_event a of
                       Inl e \<Rightarrow> Some (money_event_failed (posting_name p @ '': '') e, [Call_MoneyEvent])
                     | Inr _ \<Rightarrow> Some (stamp_posted a p, [Call_MoneyEvent, Call_Posted]))
                | Inr False \<Rightarrow> charge_window p a
                | Inl e \<Rightarrow> Some (read_failed (posting_name p @ '' applied check'') e, []))))"

text \<open>The liquidity of a gated leg: what is guarded, and whether its whole balance counts.\<close>

fun guarded_key :: "planned_op \<Rightarrow> (account_key \<times> bool \<times> u128) option" where
  "guarded_key op1 =
     (case pp_action op1 of
        Post t \<Rightarrow>
          (if pp_role op1 = ''withdraw_disburse'' then Some (lt_credit t, False, lt_amount t)
           else if pp_role op1 = ''redeem_payout'' \<or> pp_role op1 = ''fee_payout'' then Some (lt_debit t, True, lt_amount t)
           else None)
      | _ \<Rightarrow> None)"

fun liquidity_check :: "(uuid \<Rightarrow> string) \<Rightarrow> relay_answers \<Rightarrow> planned_op list \<Rightarrow> relay_outcome option" where
  "liquidity_check sh a [] = None"
| "liquidity_check sh a (op1 # ops) =
     (case guarded_key op1 of
        None \<Rightarrow> liquidity_check sh a ops
      | Some (guarded, available, amount) \<Rightarrow>
          (case ra_exists a (pp_id op1) of
             Inr True \<Rightarrow> liquidity_check sh a ops
           | Inl e \<Rightarrow> Some (read_failed ''settle applied-leg check'' e)
           | Inr False \<Rightarrow>
               (case ra_balance a guarded of
                  Inl e \<Rightarrow> Some (read_failed ''settle liquidity check'' e)
                | Inr b \<Rightarrow>
                    if (if available then lb_available b else lb_posted b) < amount
                    then Some (out_park (logical_key sh guarded @ '' liquidity insufficient at settle''))
                    else liquidity_check sh a ops)))"

fun is_broadcast :: "ledger_action \<Rightarrow> bool" where
  "is_broadcast (Broadcast _) = True"
| "is_broadcast _ = False"

definition broadcast_check :: "relay_answers \<Rightarrow> planned_op list \<Rightarrow> relay_outcome option" where
  "broadcast_check a ops =
     (if \<not> list_ex (\<lambda>op1. is_broadcast (pp_action op1)) ops then None
      else case ra_reserved a of
        Inr False \<Rightarrow> Some (out_park (''withdrawal reserve never applied to the ledger (parked?) '' @ em_dash @ '' refusing to broadcast''))
      | Inl e \<Rightarrow> Some (Out_Retry (''reserve-applied check: '' @ e))
      | Inr True \<Rightarrow>
          (case ra_withdrawal_state a of
             Inr (Some s) \<Rightarrow>
               if s = ''processing'' then None
               else Some (out_park (''withdrawal is '' @ s @ ('', not processing '' @ em_dash @ '' refusing to broadcast'')))
           | Inr None \<Rightarrow> Some (out_park (''withdrawal row is missing '' @ em_dash @ '' refusing to broadcast''))
           | Inl e \<Rightarrow> Some (Out_Retry (''broadcast-state check: '' @ e))))"

definition void_check :: "tid \<Rightarrow> outbox_row \<Rightarrow> relay_answers \<Rightarrow> planned_op list \<Rightarrow> relay_outcome option" where
  "void_check tid row a ops =
     (if \<not> list_ex (\<lambda>op1. pp_id op1 = tid (ob_aggregate_id row) CLEARING_VOID_FAIL) ops then None
      else case ra_broadcast_row a of
        Inr True \<Rightarrow> Some (out_park (''broadcast row exists '' @ em_dash @ '' refusing to void a possibly-landed withdrawal''))
      | Inr False \<Rightarrow> None
      | Inl e \<Rightarrow> Some (Out_Retry (''broadcast-row check: '' @ e)))"

definition hold_check_op :: "relay_answers \<Rightarrow> planned_op \<Rightarrow> relay_outcome option" where
  "hold_check_op a op1 =
     (case pp_action op1 of
        Linked (Leg_Complete v # _) \<Rightarrow>
          if pp_role op1 \<noteq> ''hold_capture'' \<and> pp_role op1 \<noteq> ''hold_release'' then None
          else (case (ra_hold_exists a (pc_id v), ra_hold_exists a (pc_pending_id v)) of
              (Inr this1, Inr reserved) \<Rightarrow>
                if this1 \<or> reserved then None
                else Some (out_park (''hold reservation never applied to the ledger (parked?) '' @ em_dash @ '' nothing to capture or release''))
            | (Inl (Ledger_Unavailable e), _) \<Rightarrow> Some (Out_Retry e)
            | (_, Inl (Ledger_Unavailable e)) \<Rightarrow> Some (Out_Retry e)
            | (Inl e, _) \<Rightarrow> Some (out_park (''hold reservation check: '' @ ledger_error_display e))
            | (_, Inl e) \<Rightarrow> Some (out_park (''hold reservation check: '' @ ledger_error_display e)))
      | _ \<Rightarrow> None)"

fun hold_check :: "relay_answers \<Rightarrow> planned_op list \<Rightarrow> relay_outcome option" where
  "hold_check a [] = None"
| "hold_check a (op1 # ops) = (case hold_check_op a op1 of Some r \<Rightarrow> Some r | None \<Rightarrow> hold_check a ops)"

text \<open>After the legs: the projection, the money event, the stamp.\<close>

definition projects :: "relay_event \<Rightarrow> string option" where
  "projects e = (case fact_kind e of
       Subscriptions_Kind \<Rightarrow> Some ''subscribe cost-basis projection: ''
     | Issuances_Kind \<Rightarrow> Some ''issuance applied projection: ''
     | Book_Kind \<Rightarrow> Some ''book trade projection: ''
     | _ \<Rightarrow> None)"

definition finish :: "outbox_row \<Rightarrow> posting option \<Rightarrow> relay_answers \<Rightarrow> relay_outcome \<times> relay_call list" where
  "finish row p a =
     (let project = projects (ob_fact row) in
      case (project, ra_project a) of
        (Some what, Inl e) \<Rightarrow> (Out_Retry (what @ e), [Call_Project])
      | _ \<Rightarrow>
          (let calls = (if project = None then [] else [Call_Project]) @ [Call_MoneyEvent] in
           case ra_money_event a of
             Inl e \<Rightarrow> (money_event_failed [] e, calls)
           | Inr _ \<Rightarrow> (case p of None \<Rightarrow> (Out_Done, calls) | Some p \<Rightarrow> (stamp_posted a p, calls @ [Call_Posted]))))"

text \<open>The legs in order, counting what applied.\<close>

fun apply_ops ::
  "outbox_row \<Rightarrow> posting option \<Rightarrow> relay_answers \<Rightarrow> nat \<Rightarrow> planned_op list \<Rightarrow> relay_outcome \<times> relay_call list" where
  "apply_ops row p a leg [] = finish row p a"
| "apply_ops row p a leg (op1 # ops) =
     (let call = Call_Apply (pp_action op1) in
      case ra_apply a leg of
        Inr _ \<Rightarrow>
          if is_broadcast (pp_action op1)
          then (case apply_ops row p a (leg + 1) ops of (out, calls) \<Rightarrow> (out, call # calls))
          else
            let step = Call_Step leg (pp_role op1) (pp_id op1) in
            (case ra_step a leg of
               Inl e \<Rightarrow> (Out_Retry (''saga step record: '' @ e), [call, step])
             | Inr _ \<Rightarrow> (case apply_ops row p a (leg + 1) ops of (out, calls) \<Rightarrow> (out, call # step # calls)))
      | Inl (Ledger_Unavailable e) \<Rightarrow> (Out_Retry e, [call])
      | Inl (Ledger_Retryable e) \<Rightarrow> (Out_RetryBounded e, [call])
      | Inl ledger_error.Ledger_InsufficientFunds \<Rightarrow>
          (case p of
             Some q \<Rightarrow> (stamp_failed a q, [call, Call_Failed (posting_insufficient q)])
           | None \<Rightarrow> (Out_Park ''insufficient funds'' leg, [call]))
      | Inl (Ledger_Conflict e) \<Rightarrow> (Out_Park (''ledger conflict: '' @ e) leg, [call]))"

definition dispatch_checked ::
  "(uuid \<Rightarrow> string) \<Rightarrow> tid \<Rightarrow> outbox_row \<Rightarrow> planned_op list \<Rightarrow> relay_answers \<Rightarrow> relay_outcome \<times> relay_call list" where
  "dispatch_checked sh tid row ops a =
     (case liquidity_check sh a ops of Some out \<Rightarrow> (out, []) | None \<Rightarrow>
      case broadcast_check a ops of Some out \<Rightarrow> (out, []) | None \<Rightarrow>
      case void_check tid row a ops of Some out \<Rightarrow> (out, []) | None \<Rightarrow>
      case hold_check a ops of Some out \<Rightarrow> (out, []) | None \<Rightarrow>
      apply_ops row (posting_of (fact_kind (ob_fact row))) a 0 ops)"

definition dispatch ::
  "(uuid \<Rightarrow> string) \<Rightarrow> tid \<Rightarrow> outbox_row \<Rightarrow> relay_answers \<Rightarrow> relay_outcome \<times> relay_call list" where
  "dispatch sh tid row a =
     (case (refused_reserve row 0, ra_refused a) of
        (Some _, Inr True) \<Rightarrow> (Out_Done, [])
      | (Some _, Inl e) \<Rightarrow> (Out_Retry (''hold refusal read: '' @ e), [])
      | _ \<Rightarrow>
        (case plan tid row of
           Inl reason \<Rightarrow> (out_park (''unplannable event: '' @ reason), [])
         | Inr ops \<Rightarrow>
             (case (case posting_of (fact_kind (ob_fact row)) of None \<Rightarrow> None | Some p \<Rightarrow> posting_gate p ops a) of
                Some r \<Rightarrow> r
              | None \<Rightarrow> dispatch_checked sh tid row ops a)))"

section \<open>The table\<close>

definition show_int :: "int \<Rightarrow> string" where
  "show_int n = (if n < 0 then ''-'' @ show_nat (nat (- n)) else show_nat (nat n))"

record outbox_entry =
  oe_row :: outbox_row
  oe_dispatched :: bool
  oe_parked :: bool
  oe_money_attempts :: int
  oe_error :: "string option"
  oe_compensated :: bool

type_synonym outbox = "outbox_entry list"

definition oe_seq :: "outbox_entry \<Rightarrow> int" where
  "oe_seq e = ob_seq (oe_row e)"

definition oe_pending :: "outbox_entry \<Rightarrow> bool" where
  "oe_pending e \<longleftrightarrow> \<not> oe_dispatched e \<and> \<not> oe_parked e"

definition next_batch :: "outbox \<Rightarrow> nat \<Rightarrow> outbox_entry list" where
  "next_batch tb limit = take limit (sort_key oe_seq (filter oe_pending tb))"

definition touch_row :: "int \<Rightarrow> (outbox_entry \<Rightarrow> outbox_entry) \<Rightarrow> outbox \<Rightarrow> outbox" where
  "touch_row sq f tb = map (\<lambda>e. if oe_seq e = sq then f e else e) tb"

definition bump_attempts :: "outbox_entry \<Rightarrow> outbox_entry" where
  "bump_attempts e = e\<lparr>oe_row := (oe_row e)\<lparr>ob_attempts := ob_attempts (oe_row e) + 1\<rparr>\<rparr>"

definition mark_dispatched :: "int \<Rightarrow> outbox \<Rightarrow> outbox" where
  "mark_dispatched sq = touch_row sq (\<lambda>e. e\<lparr>oe_dispatched := True\<rparr>)"

definition mark_parked :: "int \<Rightarrow> string \<Rightarrow> outbox \<Rightarrow> outbox" where
  "mark_parked sq reason = touch_row sq (\<lambda>e. (bump_attempts e)\<lparr>oe_parked := True, oe_error := Some reason\<rparr>)"

definition mark_compensated :: "int \<Rightarrow> outbox \<Rightarrow> outbox" where
  "mark_compensated sq = touch_row sq (\<lambda>e. e\<lparr>oe_compensated := True\<rparr>)"

definition record_failure :: "int \<Rightarrow> string \<Rightarrow> outbox \<Rightarrow> outbox" where
  "record_failure sq reason = touch_row sq (\<lambda>e. (bump_attempts e)\<lparr>oe_error := Some reason\<rparr>)"

definition record_money_event_failure :: "int \<Rightarrow> string \<Rightarrow> outbox \<Rightarrow> outbox" where
  "record_money_event_failure sq reason =
     touch_row sq (\<lambda>e. e\<lparr>oe_money_attempts := oe_money_attempts e + 1, oe_error := Some reason\<rparr>)"

section \<open>One pass\<close>

datatype drain_step = Drained | More | Throttle | LostLock

text \<open>
  What a pass is answered: the read of the batch, the probe of the lock before a row, the answers of
  its delivery, and whether each stamp on its row was written.
\<close>

record drain_env =
  de_read :: "string + unit"
  de_probe :: "int \<Rightarrow> bool"
  de_answers :: "int \<Rightarrow> relay_answers"
  de_stamp :: "int \<Rightarrow> bool"
  de_park :: "int \<Rightarrow> bool"
  de_compensate :: "int \<Rightarrow> bool"

definition parked_calls :: "outbox_row \<Rightarrow> string \<Rightarrow> nat \<Rightarrow> relay_call list" where
  "parked_calls row reason applied =
     (case refused_reserve row applied of Some hold1 \<Rightarrow> [Call_VoidHold hold1 reason] | None \<Rightarrow> []) @
     (case ob_fact row of
        Book_Fact (OrderPlaced order_id _ _ _ _) \<Rightarrow> [Call_RejectOrder order_id (''ledger refused the escrow: '' @ reason)]
      | _ \<Rightarrow> []) @
     (case posting_of (fact_kind (ob_fact row)) of
        Some p \<Rightarrow>
          if p = Charge_Posting \<and> charge_stays_pending_on_park reason then []
          else [Call_Failed (''parked:'' @ park_kind reason)]
      | None \<Rightarrow> [])"

definition park :: "drain_env \<Rightarrow> outbox_row \<Rightarrow> string \<Rightarrow> nat \<Rightarrow> outbox \<Rightarrow> outbox \<times> relay_call list" where
  "park env row reason applied tb =
     (let sq = ob_seq row;
          tb1 = (if de_park env sq then mark_parked sq reason tb else tb);
          tb2 = (if 0 < applied \<and> de_compensate env sq then mark_compensated sq tb1 else tb1)
      in (tb2, parked_calls row reason applied))"

definition park_unrecorded :: "drain_env \<Rightarrow> outbox_row \<Rightarrow> string \<Rightarrow> outbox \<Rightarrow> outbox" where
  "park_unrecorded env row reason tb =
     (if de_park env (ob_seq row) then mark_parked (ob_seq row) reason tb else tb)"

definition note_failure :: "drain_env \<Rightarrow> outbox_row \<Rightarrow> string \<Rightarrow> outbox \<Rightarrow> outbox" where
  "note_failure env row reason tb = (if de_stamp env (ob_seq row) then record_failure (ob_seq row) reason tb else tb)"

fun drain_rows ::
  "(uuid \<Rightarrow> string) \<Rightarrow> tid \<Rightarrow> drain_env \<Rightarrow> outbox_entry list \<Rightarrow> bool \<Rightarrow> outbox \<Rightarrow> drain_step \<times> outbox \<times> relay_call list" where
  "drain_rows sh tid env [] advanced tb = ((if advanced then More else Drained), tb, [])"
| "drain_rows sh tid env (e # es) advanced tb =
     (let row = oe_row e; sq = ob_seq row in
      if \<not> de_probe env sq then (LostLock, tb, [])
      else case dispatch sh tid row (de_answers env sq) of (out, calls) \<Rightarrow>
        (case out of
           Out_Done \<Rightarrow>
             (case drain_rows sh tid env es True (if de_stamp env sq then mark_dispatched sq tb else tb) of
                (s, tb', later) \<Rightarrow> (s, tb', calls @ later))
         | Out_Park reason applied \<Rightarrow>
             (case park env row reason applied tb of (tb1, parked) \<Rightarrow>
                (case drain_rows sh tid env es True tb1 of (s, tb', later) \<Rightarrow> (s, tb', calls @ parked @ later)))
         | Out_Retry reason \<Rightarrow> (Throttle, note_failure env row reason tb, calls)
         | Out_MoneyEvent reason \<Rightarrow>
             if \<not> de_stamp env sq then (Throttle, tb, calls)
             else
               let tb1 = record_money_event_failure sq reason tb in
               if MAX_RETRYABLE_ATTEMPTS \<le> oe_money_attempts e + 1
               then (case drain_rows sh tid env es True (park_unrecorded env row (''money event: '' @ reason) tb1) of
                       (s, tb', later) \<Rightarrow> (s, tb', calls @ later))
               else (Throttle, tb1, calls)
         | Out_RetryBounded reason \<Rightarrow>
             if MAX_RETRYABLE_ATTEMPTS \<le> ob_attempts row + 1
             then (case park env row (''retryable exhausted after '' @ show_int (ob_attempts row + 1) @ '' attempts: '' @ reason) 0 tb of
                     (tb1, parked) \<Rightarrow>
                       (case drain_rows sh tid env es True tb1 of (s, tb', later) \<Rightarrow> (s, tb', calls @ parked @ later)))
             else (Throttle, note_failure env row reason tb, calls)))"

definition drain_batch ::
  "(uuid \<Rightarrow> string) \<Rightarrow> tid \<Rightarrow> drain_env \<Rightarrow> outbox \<Rightarrow> drain_step \<times> outbox \<times> relay_call list" where
  "drain_batch sh tid env tb =
     (case de_read env of
        Inl _ \<Rightarrow> (Throttle, tb, [])
      | Inr _ \<Rightarrow> (case next_batch tb 128 of [] \<Rightarrow> (Drained, tb, []) | batch \<Rightarrow> drain_rows sh tid env batch False tb))"

end
