(* ===== verification/WithdrawalSaga.thy ===== *)
theory WithdrawalSaga
  imports Sagas
begin

text \<open>
  The withdrawal saga: whatever commands a withdrawal gets, the ledger operations its facts plan are
  ones the ledger takes, and they leave exactly what its state promises.
\<close>

datatype withdrawal_command = Dispatch_Withdrawal | Settle_Withdrawal tx_ref | Fail_Withdrawal | Cancel_Withdrawal

fun withdrawal_do :: "withdrawal_command \<Rightarrow> withdrawal \<Rightarrow> withdrawal result" where
  "withdrawal_do Dispatch_Withdrawal w = withdrawal_dispatch w"
| "withdrawal_do (Settle_Withdrawal ref) w = withdrawal_settle w ref"
| "withdrawal_do Fail_Withdrawal w = withdrawal_fail w"
| "withdrawal_do Cancel_Withdrawal w = withdrawal_cancel w"

text \<open>A command that is refused leaves the aggregate and raises nothing.\<close>

definition withdrawal_step :: "withdrawal_command \<Rightarrow> withdrawal \<Rightarrow> withdrawal \<times> withdrawal_event list" where
  "withdrawal_step c w = (case withdrawal_do c w of Inl _ \<Rightarrow> (w, []) | Inr w' \<Rightarrow> withdrawal_drain w')"

definition withdrawal_salts :: "string set" where
  "withdrawal_salts =
     {CLEARING_RESERVE, CLEARING_SETTLE, WALLET_REDISTRIBUTE, FEE_REDISTRIBUTE, CLEARING_VOID_FAIL, CLEARING_VOID_CANCEL}"

text \<open>What the ledger holds for a withdrawal in each state.\<close>

definition withdrawal_open_legs :: "tid \<Rightarrow> withdrawal \<Rightarrow> ledger_transfer list" where
  "withdrawal_open_legs tid w =
     (if wd_state w = Queued_Withdrawal \<or> wd_state w = Processing_Withdrawal
      then [clearing_reserve tid (wd_id w) (wd_source w) (wd_amount w)] else [])"

definition withdrawal_moves :: "tid \<Rightarrow> withdrawal \<Rightarrow> ledger_transfer list" where
  "withdrawal_moves tid w =
     (if wd_state w = Completed_Withdrawal
      then [clearing_reserve tid (wd_id w) (wd_source w) (wd_amount w),
            transfer_of (tid (wd_id w) WALLET_REDISTRIBUTE) WithdrawalClearing (CryptoWallet (wd_network w))
              (usdt_units (net_amount w)) Withdraw (wd_id w)] @
           (if usdt_is_zero (wd_fee w) then []
            else [transfer_of (tid (wd_id w) FEE_REDISTRIBUTE) WithdrawalClearing (payee_claim_key payee_treasury)
              (usdt_units (wd_fee w)) WithdrawFee (wd_id w)])
      else [])"

definition withdrawal_sim :: "tid \<Rightarrow> nat \<Rightarrow> withdrawal \<Rightarrow> saga \<Rightarrow> bool" where
  "withdrawal_sim tid n w s \<longleftrightarrow>
     inj_on (tid (wd_id w)) withdrawal_salts \<and> wd_pending w = [] \<and>
     (\<exists>net. usdt_checked_sub (wd_amount w) (wd_fee w) = Some net \<and> usdt_units net \<noteq> 0) \<and> usdt_units (wd_amount w) \<noteq> 0 \<and>
     sg_open s = withdrawal_open_legs tid w \<and> sg_moves s = withdrawal_moves tid w \<and>
     (wd_state w = Queued_Withdrawal \<or> wd_state w = Processing_Withdrawal \<longrightarrow> sg_ids s = [tid (wd_id w) CLEARING_RESERVE])"

lemma salts_distinct:
  assumes "inj_on t withdrawal_salts"
  shows "t CLEARING_SETTLE \<noteq> t CLEARING_RESERVE" "t WALLET_REDISTRIBUTE \<noteq> t CLEARING_RESERVE"
    "t FEE_REDISTRIBUTE \<noteq> t CLEARING_RESERVE" "t CLEARING_VOID_FAIL \<noteq> t CLEARING_RESERVE"
    "t CLEARING_VOID_CANCEL \<noteq> t CLEARING_RESERVE" "t WALLET_REDISTRIBUTE \<noteq> t CLEARING_SETTLE"
    "t FEE_REDISTRIBUTE \<noteq> t CLEARING_SETTLE" "t FEE_REDISTRIBUTE \<noteq> t WALLET_REDISTRIBUTE"
  using assms
  by (auto simp: withdrawal_salts_def CLEARING_RESERVE_def CLEARING_SETTLE_def WALLET_REDISTRIBUTE_def FEE_REDISTRIBUTE_def
      CLEARING_VOID_FAIL_def CLEARING_VOID_CANCEL_def dest: inj_onD)

lemma source_ends [simp]: "source_claim_key src \<noteq> WithdrawalClearing" "key_ledger (source_claim_key src) = Usdt_Ledger"
  by (cases src; simp add: payee_treasury_def)+

lemma treasury_ends [simp]: "payee_claim_key payee_treasury \<noteq> WithdrawalClearing" "key_ledger (payee_claim_key payee_treasury) = Usdt_Ledger"
  by (simp_all add: payee_treasury_def)

lemmas withdrawal_ops = withdrawal_dispatch_def withdrawal_settle_def withdrawal_fail_def withdrawal_cancel_def
  withdrawal_raise_def withdrawal_drain_def

lemma withdrawal_sim_step:
  assumes "withdrawal_sim tid (Suc n) w s"
  shows "\<exists>s'. saga_events (plan_withdrawal tid (wd_id w)) (snd (withdrawal_step c w)) s = Some s' \<and>
    withdrawal_sim tid n (fst (withdrawal_step c w)) s' \<and> wd_id (fst (withdrawal_step c w)) = wd_id w"
proof -
  obtain net where net: "usdt_checked_sub (wd_amount w) (wd_fee w) = Some net" "usdt_units net \<noteq> 0"
    using assms by (auto simp: withdrawal_sim_def)
  then have net_amount: "net_amount w = net" by (simp add: net_amount_def)
  note salts = salts_distinct [of "tid (wd_id w)"]
  show ?thesis
    using assms net net_amount
    by (cases c; cases "wd_state w")
      (auto simp: withdrawal_step_def withdrawal_ops withdrawal_sim_def withdrawal_open_legs_def withdrawal_moves_def net_of_def
        ok_or_def void_clearing_def clearing_reserve_def saga_plan usdt_is_zero_def net_amount_def salts treasury_ends(1) [symmetric])
qed

lemma withdrawal_minimum_pos: "\<not> amount < withdrawal_minimum n \<Longrightarrow> usdt_units amount \<noteq> 0"
  by (cases amount) (auto simp: withdrawal_minimum_def usdt_order)

interpretation withdrawal_saga: saga_aggregate withdrawal_step "plan_withdrawal tid i"
  "\<lambda>n w s. wd_id w = i \<and> withdrawal_sim tid n w s" for tid i
  by unfold_locales (use withdrawal_sim_step in blast)


definition sample_tid :: tid where
  "sample_tid agg salt =
     (if salt = CLEARING_RESERVE then 1 else if salt = CLEARING_SETTLE then 2 else if salt = WALLET_REDISTRIBUTE then 3
      else if salt = FEE_REDISTRIBUTE then 4 else if salt = CLEARING_VOID_FAIL then 5 else 6)"

definition sample_withdrawal :: withdrawal where
  "sample_withdrawal = \<lparr>wd_id = 9, wd_source = User_Source 5, wd_network = Bep20,
     wd_address = \<lparr>wa_network = Bep20, wa_value = ''0x1''\<rparr>, wd_amount = Usdt 3000000000000000000,
     wd_fee = Usdt 1000000000000000000, wd_state = Queued_Withdrawal, wd_tx_ref = None,
     wd_pending = [Withdrawal_Requested 9 (User_Source 5) Bep20 \<lparr>wa_network = Bep20, wa_value = ''0x1''\<rparr>
       (Usdt 3000000000000000000) (Usdt 1000000000000000000)]\<rparr>"

lemma sample_requested:
  "withdrawal_request 9 (User_Source 5) Bep20 \<lparr>wa_network = Bep20, wa_value = ''0x1''\<rparr>
     (Usdt 3000000000000000000) (Usdt 1000000000000000000) = Inr sample_withdrawal"
  by code_simp

lemma sample_tid_inj: "inj_on (sample_tid 9) withdrawal_salts"
  by (simp add: inj_on_def withdrawal_salts_def sample_tid_def CLEARING_RESERVE_def CLEARING_SETTLE_def
      WALLET_REDISTRIBUTE_def FEE_REDISTRIBUTE_def CLEARING_VOID_FAIL_def CLEARING_VOID_CANCEL_def)


end
