(* ===== verification/RelaySafety.thy ===== *)
theory RelaySafety
  imports Relay WithdrawalSaga
begin

text \<open>
  What the relay guarantees: a withdrawal's money never both goes out on-chain and goes back to its
  source, and no row, however it fails, holds up the queue for good while the database answers.
\<close>

section \<open>What a delivery calls\<close>

lemma finish_calls: "Call_Apply act \<notin> set (snd (finish row p a))"
  by (auto simp: finish_def Let_def split: option.splits sum.splits)

lemma apply_ops_calls:
  "Call_Apply act \<in> set (snd (apply_ops row p a leg ops)) \<Longrightarrow> act \<in> pp_action ` set ops"
proof (induction ops arbitrary: leg)
  case Nil
  then show ?case using finish_calls by simp
next
  case (Cons op1 ops)
  show ?case using Cons.prems Cons.IH [of "Suc leg"]
    by (cases "apply_ops row p a (Suc leg) ops")
      (auto simp: Let_def split: sum.splits ledger_error.splits if_splits option.splits)
qed

lemma posting_gate_calls: "posting_gate p ops a = Some r \<Longrightarrow> Call_Apply act \<notin> set (snd r)"
  by (auto simp: posting_gate_def charge_window_def split: sum.splits option.splits move_state.splits list.splits bool.splits if_splits)

text \<open>A delivery puts on the ledger, or broadcasts, only what it planned, once its guards let it.\<close>

lemma dispatch_calls:
  assumes "Call_Apply act \<in> set (snd (dispatch sh tid row a))"
  obtains ops where "plan tid row = Inr ops" "act \<in> pp_action ` set ops" "broadcast_check a ops = None" "void_check tid row a ops = None"
proof (cases "plan tid row")
  case (Inl e)
  with assms show ?thesis by (auto simp: dispatch_def split: option.splits sum.splits bool.splits)
next
  case (Inr ops)
  with assms have "Call_Apply act \<in> set (snd (dispatch_checked sh tid row ops a))"
    using posting_gate_calls by (auto simp: dispatch_def split: option.splits sum.splits bool.splits)
  then have "broadcast_check a ops = None" "void_check tid row a ops = None"
    "Call_Apply act \<in> set (snd (apply_ops row (posting_of (fact_kind (ob_fact row))) a 0 ops))"
    by (auto simp: dispatch_checked_def split: option.splits)
  with Inr apply_ops_calls show ?thesis using that by blast
qed

section \<open>A withdrawal between the relay, custody and its commands\<close>

text \<open>
  A withdrawal with the facts it has put in the outbox, whether custody has recorded a broadcast for
  it, whether its bytes may have gone out, whether its reservation was voided, and the delivery in
  flight: the one worker has read its answers and not yet made its calls.
\<close>

record payout_world =
  pw_withdrawal :: withdrawal
  pw_log :: "withdrawal_event list"
  pw_recorded :: bool
  pw_sent :: bool
  pw_voided :: bool
  pw_inflight :: "(outbox_row \<times> relay_answers) option"

definition broadcasts :: "relay_call list \<Rightarrow> bool" where
  "broadcasts calls \<longleftrightarrow> (\<exists>q. Call_Apply (Broadcast q) \<in> set calls)"

definition voids :: "relay_call list \<Rightarrow> bool" where
  "voids calls \<longleftrightarrow> (\<exists>c. Call_Apply (Complete c) \<in> set calls \<and> pc_kind c = Void_Pending)"

text \<open>
  What a delivery reads is true when it reads it, or is an error.  Custody records the signed
  transaction before it sends it, so a broadcast it is asked for may be recorded or not, and sent only
  if recorded; it may also have been asked before.
\<close>

inductive payout_step :: "(uuid \<Rightarrow> string) \<Rightarrow> tid \<Rightarrow> payout_world \<Rightarrow> payout_world \<Rightarrow> bool" for sh tid where
  command: "withdrawal_step c (pw_withdrawal s) = (w, evs) \<Longrightarrow>
    payout_step sh tid s (s\<lparr>pw_withdrawal := w, pw_log := pw_log s @ evs\<rparr>)"
| begin_delivery: "pw_inflight s = None \<Longrightarrow> ob_fact row = Withdrawal_Fact e \<Longrightarrow> e \<in> set (pw_log s) \<Longrightarrow>
    ob_aggregate_id row = wd_id (pw_withdrawal s) \<Longrightarrow>
    (\<And>x. ra_withdrawal_state a = Inr x \<Longrightarrow> x = Some (withdrawal_state_str (wd_state (pw_withdrawal s)))) \<Longrightarrow>
    (\<And>b. ra_broadcast_row a = Inr b \<Longrightarrow> b = pw_recorded s) \<Longrightarrow>
    payout_step sh tid s (s\<lparr>pw_inflight := Some (row, a)\<rparr>)"
| end_delivery: "pw_inflight s = Some (row, a) \<Longrightarrow> calls = snd (dispatch sh tid row a) \<Longrightarrow>
    (recorded, sent) = (pw_recorded s, pw_sent s) \<or> broadcasts calls \<and> recorded \<and> (pw_sent s \<longrightarrow> sent) \<Longrightarrow>
    payout_step sh tid s (s\<lparr>pw_inflight := None, pw_recorded := recorded, pw_sent := sent,
      pw_voided := pw_voided s \<or> voids calls\<rparr>)"

definition payout_start :: "withdrawal \<Rightarrow> payout_world" where
  "payout_start w0 = \<lparr>pw_withdrawal = fst (withdrawal_drain w0), pw_log = snd (withdrawal_drain w0), pw_recorded = False,
     pw_sent = False, pw_voided = False, pw_inflight = None\<rparr>"

inductive payout_reach :: "(uuid \<Rightarrow> string) \<Rightarrow> tid \<Rightarrow> withdrawal \<Rightarrow> payout_world \<Rightarrow> bool" for sh tid w0 where
  start: "payout_reach sh tid w0 (payout_start w0)"
| step: "payout_reach sh tid w0 s \<Longrightarrow> payout_step sh tid s s' \<Longrightarrow> payout_reach sh tid w0 s'"

definition past_dispatch :: "withdrawal_state \<Rightarrow> bool" where
  "past_dispatch s \<longleftrightarrow> s = Processing_Withdrawal \<or> s = Completed_Withdrawal \<or> s = Failed_Withdrawal"

fun fact_consistent :: "withdrawal_state \<Rightarrow> withdrawal_event \<Rightarrow> bool" where
  "fact_consistent s (Withdrawal_Failed _ _ _ _ _) \<longleftrightarrow> s = Failed_Withdrawal"
| "fact_consistent s (Withdrawal_Cancelled _ _ _ _ _) \<longleftrightarrow> s = Cancelled_Withdrawal"
| "fact_consistent s _ \<longleftrightarrow> True"

text \<open>What a delivery in flight has read stays good until it ends: there is one worker.\<close>

definition inflight_ok :: "payout_world \<Rightarrow> outbox_row \<times> relay_answers \<Rightarrow> bool" where
  "inflight_ok s ra \<longleftrightarrow>
     (\<exists>e. ob_fact (fst ra) = Withdrawal_Fact e \<and> e \<in> set (pw_log s)) \<and>
     (ra_withdrawal_state (snd ra) = Inr (Some ''processing'') \<longrightarrow> past_dispatch (wd_state (pw_withdrawal s)) \<and> \<not> pw_voided s) \<and>
     (ra_broadcast_row (snd ra) = Inr False \<longrightarrow> \<not> pw_recorded s)"

definition payout_inv :: "payout_world \<Rightarrow> bool" where
  "payout_inv s \<longleftrightarrow>
     (let st = wd_state (pw_withdrawal s) in
      wd_pending (pw_withdrawal s) = [] \<and>
      list_all (fact_consistent st) (pw_log s) \<and>
      (pw_sent s \<longrightarrow> pw_recorded s) \<and> (pw_recorded s \<longrightarrow> past_dispatch st) \<and>
      (pw_voided s \<longrightarrow> st = Cancelled_Withdrawal \<or> st = Failed_Withdrawal \<and> \<not> pw_recorded s) \<and>
      (case pw_inflight s of None \<Rightarrow> True | Some ra \<Rightarrow> inflight_ok s ra))"

text \<open>A command leaves the withdrawal, or takes one of its four transitions and raises its fact.\<close>

definition withdrawal_move :: "withdrawal_state \<Rightarrow> withdrawal_state \<Rightarrow> withdrawal_event list \<Rightarrow> bool" where
  "withdrawal_move st st' evs \<longleftrightarrow>
     st' = st \<and> evs = [] \<or>
     (\<exists>e. evs = [e] \<and> fact_consistent st' e \<and>
       (st = Queued_Withdrawal \<and> (st' = Processing_Withdrawal \<or> st' = Cancelled_Withdrawal) \<or>
        st = Processing_Withdrawal \<and> (st' = Completed_Withdrawal \<or> st' = Failed_Withdrawal)))"

lemma withdrawal_step_move:
  assumes "wd_pending w = []"
  shows "withdrawal_move (wd_state w) (wd_state (fst (withdrawal_step c w))) (snd (withdrawal_step c w)) \<and>
    wd_pending (fst (withdrawal_step c w)) = [] \<and> wd_id (fst (withdrawal_step c w)) = wd_id w"
  using assms
  by (cases c; cases "wd_state w") (simp_all add: withdrawal_step_def withdrawal_ops withdrawal_move_def)

lemma fact_consistent_move:
  assumes "list_all (fact_consistent st) log" and "withdrawal_move st st' evs"
  shows "list_all (fact_consistent st') (log @ evs)"
proof -
  have "fact_consistent st' e" if "fact_consistent st e" for e
    using that assms(2) by (cases e) (auto simp: withdrawal_move_def)
  then have "list_all (fact_consistent st') log" using assms(1) by (auto simp: list_all_iff)
  moreover have "list_all (fact_consistent st') evs" using assms(2) by (auto simp: withdrawal_move_def)
  ultimately show ?thesis by simp
qed

lemma command_inv:
  assumes "payout_inv s"
  shows "payout_inv (s\<lparr>pw_withdrawal := fst (withdrawal_step c (pw_withdrawal s)),
    pw_log := pw_log s @ snd (withdrawal_step c (pw_withdrawal s))\<rparr>)"
proof -
  let ?w = "pw_withdrawal s"
  have m: "withdrawal_move (wd_state ?w) (wd_state (fst (withdrawal_step c ?w))) (snd (withdrawal_step c ?w))"
    and clean: "wd_pending (fst (withdrawal_step c ?w)) = []"
    using withdrawal_step_move [of ?w c] assms by (auto simp: payout_inv_def Let_def)
  have "past_dispatch (wd_state ?w) \<Longrightarrow> past_dispatch (wd_state (fst (withdrawal_step c ?w)))"
    using m by (auto simp: withdrawal_move_def past_dispatch_def)
  moreover have "wd_state ?w = Cancelled_Withdrawal \<or> wd_state ?w = Failed_Withdrawal \<Longrightarrow>
      wd_state (fst (withdrawal_step c ?w)) = wd_state ?w"
    using m by (auto simp: withdrawal_move_def)
  moreover have "list_all (fact_consistent (wd_state (fst (withdrawal_step c ?w)))) (pw_log s @ snd (withdrawal_step c ?w))"
    by (rule fact_consistent_move [OF _ m]) (use assms in \<open>simp add: payout_inv_def Let_def\<close>)
  ultimately show ?thesis
    using assms clean by (auto simp: payout_inv_def Let_def inflight_ok_def split: option.splits)
qed

text \<open>A broadcast is planned for a dispatched withdrawal alone, and is called only past its guards.\<close>

lemma broadcast_called:
  assumes "broadcasts (snd (dispatch sh tid row a))"
  shows "ra_withdrawal_state a = Inr (Some ''processing'')" "ra_reserved a = Inr True"
proof -
  obtain q where "Call_Apply (Broadcast q) \<in> set (snd (dispatch sh tid row a))" using assms by (auto simp: broadcasts_def)
  then obtain ops where "Broadcast q \<in> pp_action ` set ops" "broadcast_check a ops = None" by (rule dispatch_calls)
  moreover have "list_ex (\<lambda>op1. is_broadcast (pp_action op1)) ops" unfolding list_ex_iff by (metis calculation(1) imageE is_broadcast.simps(1))
  ultimately show "ra_withdrawal_state a = Inr (Some ''processing'')" "ra_reserved a = Inr True"
    by (auto simp: broadcast_check_def split: sum.splits option.splits bool.splits if_splits)
qed

text \<open>A void of a withdrawal is planned for a failed or cancelled one, and never called past a broadcast row.\<close>

lemma void_called:
  assumes "voids (snd (dispatch sh tid row a))" and "ob_fact row = Withdrawal_Fact e"
  shows "(\<exists>i src n am fee. e = Withdrawal_Failed i src n am fee) \<and> ra_broadcast_row a = Inr False \<or>
    (\<exists>i src n am fee. e = Withdrawal_Cancelled i src n am fee)"
    and "\<not> broadcasts (snd (dispatch sh tid row a))"
proof -
  obtain c where c: "Call_Apply (Complete c) \<in> set (snd (dispatch sh tid row a))" "pc_kind c = Void_Pending"
    using assms(1) by (auto simp: voids_def)
  then obtain ops where ops: "plan tid row = Inr ops" "Complete c \<in> pp_action ` set ops" "void_check tid row a ops = None"
    using dispatch_calls by blast
  have planned: "plan_withdrawal tid (ob_aggregate_id row) e = Inr ops" using ops(1) assms(2) by (simp add: plan_def Let_def)
  with ops(2) c(2) have kinds: "(\<exists>i src n am fee. e = Withdrawal_Failed i src n am fee) \<or> (\<exists>i src n am fee. e = Withdrawal_Cancelled i src n am fee)"
    by (cases e) (auto simp: net_of_def ok_or_def reserve_op_def complete_op_def post_op_def completion_of_def split: option.splits if_splits)
  moreover have "ra_broadcast_row a = Inr False" if "e = Withdrawal_Failed i src n am fee" for i src n am fee
    using ops(3) planned that
    by (auto simp: void_check_def void_clearing_def complete_op_def split: sum.splits bool.splits)
  ultimately show "(\<exists>i src n am fee. e = Withdrawal_Failed i src n am fee) \<and> ra_broadcast_row a = Inr False \<or>
    (\<exists>i src n am fee. e = Withdrawal_Cancelled i src n am fee)" by blast
  show "\<not> broadcasts (snd (dispatch sh tid row a))"
  proof
    assume "broadcasts (snd (dispatch sh tid row a))"
    then obtain q ops' where "plan tid row = Inr ops'" "Broadcast q \<in> pp_action ` set ops'"
      unfolding broadcasts_def using dispatch_calls by metis
    with ops(1) planned kinds show False by (auto simp: void_clearing_def complete_op_def)
  qed
qed


lemma payout_step_inv:
  assumes "payout_step sh tid s s'" and inv: "payout_inv s"
  shows "payout_inv s'"
  using assms(1)
proof cases
  case (command c w evs)
  with command_inv [OF inv, of c] show ?thesis by simp
next
  case (begin_delivery row e a)
  have "past_dispatch (wd_state (pw_withdrawal s)) \<and> \<not> pw_voided s"
    if "withdrawal_state_str (wd_state (pw_withdrawal s)) = ''processing''"
    using that inv by (cases "wd_state (pw_withdrawal s)") (auto simp: past_dispatch_def payout_inv_def Let_def)
  then have "inflight_ok s (row, a)"
    using begin_delivery by (auto simp: inflight_ok_def)
  then show ?thesis using begin_delivery inv by (simp add: payout_inv_def inflight_ok_def Let_def)
next
  case (end_delivery row a calls recorded sent)
  obtain e where e: "ob_fact row = Withdrawal_Fact e" "e \<in> set (pw_log s)"
    and reads: "ra_withdrawal_state a = Inr (Some ''processing'') \<Longrightarrow> past_dispatch (wd_state (pw_withdrawal s)) \<and> \<not> pw_voided s"
      "ra_broadcast_row a = Inr False \<Longrightarrow> \<not> pw_recorded s"
    using inv end_delivery(2) by (auto simp: payout_inv_def Let_def inflight_ok_def)
  have consistent: "fact_consistent (wd_state (pw_withdrawal s)) e"
    using inv e(2) by (auto simp: payout_inv_def Let_def list_all_iff)
  show ?thesis
  proof (cases "voids calls")
    case True
    have "\<not> broadcasts calls" using void_called(2) [OF _ e(1)] True end_delivery(3) by blast
    then have same: "recorded = pw_recorded s" "sent = pw_sent s" using end_delivery(4) by auto
    have "wd_state (pw_withdrawal s) = Failed_Withdrawal \<and> \<not> pw_recorded s \<or> wd_state (pw_withdrawal s) = Cancelled_Withdrawal"
    proof -
      have "voids (snd (dispatch sh tid row a))" using True end_delivery(3) by simp
      from void_called(1) [OF this e(1)] show ?thesis using consistent reads(2) by auto
    qed
    then show ?thesis using end_delivery(1) same inv by (auto simp: payout_inv_def Let_def)
  next
    case False
    show ?thesis
    proof (cases "broadcasts calls")
      case True
      then have "past_dispatch (wd_state (pw_withdrawal s)) \<and> \<not> pw_voided s"
        using broadcast_called(1) reads(1) end_delivery(3) by blast
      then show ?thesis using end_delivery(1,4) inv False by (auto simp: payout_inv_def Let_def)
    next
      case none: False
      then show ?thesis using end_delivery(1,4) inv False by (auto simp: payout_inv_def Let_def)
    qed
  qed
qed

text \<open>
  C1: A withdrawal is never paid twice.  Along any interleaving of its commands with deliveries of its
  facts by the relay, in any order and any number of times, and with any errors of the ledger, custody
  and the database, its money never both may have gone out on-chain and was returned to its source.
\<close>

theorem no_double_pay:
  assumes "withdrawal_request i source network address amount fee = Inr w0" and "payout_reach sh tid w0 s"
  shows "\<not> (pw_sent s \<and> pw_voided s)"
proof -
  have "wd_state w0 = Queued_Withdrawal" "\<exists>src n adr am f. wd_pending w0 = [Withdrawal_Requested i src n adr am f]"
    using assms(1) by (auto simp: withdrawal_request_def result_iffs split: if_splits)
  then have start: "payout_inv (payout_start w0)"
    by (auto simp: payout_start_def payout_inv_def withdrawal_drain_def)
  from assms(2) have "payout_inv s"
    by induction (use start payout_step_inv in blast)+
  then show ?thesis by (auto simp: payout_inv_def Let_def past_dispatch_def)
qed


text \<open>A dispatched withdrawal whose broadcast custody took.\<close>

definition willing :: relay_answers where
  "willing = \<lparr>ra_refused = Inr False, ra_state = Inr None, ra_exists = \<lambda>_. Inr False, ra_past_window = Inr False,
     ra_balance = \<lambda>_. Inr \<lparr>lb_posted = 0, lb_pending = 0, lb_locked = 0\<rparr>, ra_reserved = Inr True,
     ra_withdrawal_state = Inr (Some ''processing''), ra_broadcast_row = Inr False, ra_hold_exists = \<lambda>_. Inr False,
     ra_apply = \<lambda>_. Inr (), ra_step = \<lambda>_. Inr (), ra_project = Inr (), ra_money_event = Inr (), ra_stamp = Inr ()\<rparr>"

definition sample_dispatched :: withdrawal_event where
  "sample_dispatched = Withdrawal_Dispatched 9 (User_Source 5) Bep20 \<lparr>wa_network = Bep20, wa_value = ''0x1''\<rparr>
     (Usdt 3000000000000000000) (Usdt 1000000000000000000)"

definition sample_delivery :: outbox_row where
  "sample_delivery = \<lparr>ob_seq = 2, ob_event_id = 4, ob_aggregate_id = 9, ob_fact = Withdrawal_Fact sample_dispatched, ob_attempts = 0\<rparr>"

definition dispatched_world :: payout_world where
  "dispatched_world = (payout_start sample_withdrawal)
     \<lparr>pw_withdrawal := fst (withdrawal_step Dispatch_Withdrawal (fst (withdrawal_drain sample_withdrawal))),
      pw_log := snd (withdrawal_drain sample_withdrawal) @ [sample_dispatched]\<rparr>"

definition sent_world :: payout_world where
  "sent_world = dispatched_world\<lparr>pw_recorded := True, pw_sent := True\<rparr>"

lemma sample_broadcasts:
  "snd (dispatch show_u128 sample_tid sample_delivery willing) =
     [Call_Apply (Broadcast \<lparr>bq_withdrawal_id = 9, bq_network = Bep20, bq_address = \<lparr>wa_network = Bep20, wa_value = ''0x1''\<rparr>,
        bq_amount = Usdt 2000000000000000000\<rparr>), Call_MoneyEvent]"
  by (simp add: dispatch_def sample_delivery_def sample_dispatched_def refused_reserve_def plan_def net_of_def usdt_checked_sub_def
      checked_sub_def ok_or_def dispatch_checked_def broadcast_check_def void_check_def hold_check_op_def willing_def finish_def
      projects_def sample_tid_def)

lemma sent_world_reached: "payout_reach show_u128 sample_tid sample_withdrawal sent_world"
proof -
  have command: "withdrawal_step Dispatch_Withdrawal (pw_withdrawal (payout_start sample_withdrawal)) =
      (pw_withdrawal dispatched_world, [sample_dispatched])"
    by (simp add: payout_start_def dispatched_world_def withdrawal_step_def withdrawal_ops sample_withdrawal_def sample_dispatched_def)
  have "dispatched_world = (payout_start sample_withdrawal)\<lparr>pw_withdrawal := pw_withdrawal dispatched_world,
      pw_log := pw_log (payout_start sample_withdrawal) @ [sample_dispatched]\<rparr>"
    by (simp add: dispatched_world_def payout_start_def)
  with payout_reach.step [OF payout_reach.start payout_step.command [OF command]]
  have one: "payout_reach show_u128 sample_tid sample_withdrawal dispatched_world" by simp
  have "payout_step show_u128 sample_tid dispatched_world (dispatched_world\<lparr>pw_inflight := Some (sample_delivery, willing)\<rparr>)"
    by (rule payout_step.begin_delivery [where e = sample_dispatched])
      (simp_all add: dispatched_world_def payout_start_def sample_delivery_def willing_def withdrawal_step_def withdrawal_ops
        sample_withdrawal_def)
  from payout_reach.step [OF one this]
  have two: "payout_reach show_u128 sample_tid sample_withdrawal (dispatched_world\<lparr>pw_inflight := Some (sample_delivery, willing)\<rparr>)" .
  have "payout_step show_u128 sample_tid (dispatched_world\<lparr>pw_inflight := Some (sample_delivery, willing)\<rparr>)
     ((dispatched_world\<lparr>pw_inflight := Some (sample_delivery, willing)\<rparr>)\<lparr>pw_inflight := None, pw_recorded := True, pw_sent := True,
        pw_voided := pw_voided (dispatched_world\<lparr>pw_inflight := Some (sample_delivery, willing)\<rparr>) \<or>
          voids (snd (dispatch show_u128 sample_tid sample_delivery willing))\<rparr>)"
    by (rule payout_step.end_delivery [OF _ refl]) (simp_all add: sample_broadcasts broadcasts_def)
  from payout_reach.step [OF two this] show ?thesis
    by (simp add: sample_broadcasts voids_def sent_world_def dispatched_world_def payout_start_def)
qed

lemma no_double_pay_witness: "pw_sent sent_world \<and> \<not> (pw_sent sent_world \<and> pw_voided sent_world)"
  using no_double_pay [OF sample_requested sent_world_reached] by (simp add: sent_world_def)

end
