(* ===== verification/RelayProgress.thy ===== *)
theory RelayProgress
  imports Relay
begin

text \<open>No row holds up the queue for good: the head of the backlog leaves it within a bounded number of passes.\<close>

section \<open>A delivery does not look at the attempts\<close>

lemma finish_attempts [simp]: "finish (row\<lparr>ob_attempts := n\<rparr>) p a = finish row p a"
  by (simp add: finish_def)

lemma apply_ops_attempts [simp]: "apply_ops (row\<lparr>ob_attempts := n\<rparr>) p a leg ops = apply_ops row p a leg ops"
proof (induction ops arbitrary: leg)
  case (Cons op1 ops)
  have "apply_ops (row\<lparr>ob_attempts := n\<rparr>) p a (leg + 1) ops = apply_ops row p a (leg + 1) ops" by (rule Cons.IH)
  then show ?case by (simp only: apply_ops.simps)
qed simp

lemma plan_attempts [simp]: "plan tid (row\<lparr>ob_attempts := n\<rparr>) = plan tid row"
  by (simp add: plan_def)

lemma row_attempts: "ob_fact (row\<lparr>ob_attempts := n\<rparr>) = ob_fact row" "ob_aggregate_id (row\<lparr>ob_attempts := n\<rparr>) = ob_aggregate_id row"
  by simp_all

lemma dispatch_attempts [simp]: "dispatch sh tid (row\<lparr>ob_attempts := n\<rparr>) a = dispatch sh tid row a"
  unfolding dispatch_def dispatch_checked_def refused_reserve_def void_check_def row_attempts plan_attempts apply_ops_attempts ..

section \<open>A row that left stays gone\<close>

definition gone :: "int \<Rightarrow> outbox \<Rightarrow> bool" where
  "gone sq tb \<longleftrightarrow> (\<forall>e \<in> set tb. oe_seq e = sq \<longrightarrow> \<not> oe_pending e)"

definition only_leaves :: "(outbox_entry \<Rightarrow> outbox_entry) \<Rightarrow> bool" where
  "only_leaves f \<longleftrightarrow> (\<forall>e. oe_seq (f e) = oe_seq e \<and> (oe_pending (f e) \<longrightarrow> oe_pending e))"

lemma touch_row_gone: "only_leaves f \<Longrightarrow> gone sq tb \<Longrightarrow> gone sq (touch_row q f tb)"
  by (auto simp: gone_def touch_row_def only_leaves_def)

lemma stamps_leave:
  "only_leaves (\<lambda>e. e\<lparr>oe_dispatched := True\<rparr>)"
  "only_leaves (\<lambda>e. (bump_attempts e)\<lparr>oe_parked := True, oe_error := r\<rparr>)"
  "only_leaves (\<lambda>e. e\<lparr>oe_compensated := True\<rparr>)"
  "only_leaves (\<lambda>e. (bump_attempts e)\<lparr>oe_error := r\<rparr>)"
  "only_leaves (\<lambda>e. e\<lparr>oe_money_attempts := oe_money_attempts e + 1, oe_error := r\<rparr>)"
  by (simp_all add: only_leaves_def oe_seq_def oe_pending_def bump_attempts_def)

lemma marks_gone [intro]:
  assumes "gone sq tb"
  shows "gone sq (mark_dispatched q tb)" "gone sq (mark_parked q r tb)" "gone sq (mark_compensated q tb)"
    "gone sq (record_failure q r tb)" "gone sq (record_money_event_failure q r tb)"
    "gone sq (note_failure env row r tb)" "gone sq (park_unrecorded env row r tb)" "gone sq (fst (park env row r n tb))"
  using assms touch_row_gone [OF stamps_leave(1)] touch_row_gone [OF stamps_leave(2)] touch_row_gone [OF stamps_leave(3)]
    touch_row_gone [OF stamps_leave(4)] touch_row_gone [OF stamps_leave(5)]
  by (simp_all add: mark_dispatched_def mark_parked_def mark_compensated_def record_failure_def record_money_event_failure_def
      note_failure_def park_unrecorded_def park_def Let_def)

lemma drain_rows_gone: "gone sq tb \<Longrightarrow> gone sq (fst (snd (drain_rows sh tid env es adv tb)))"
proof (induction es arbitrary: adv tb)
  case (Cons e es)
  note on = Cons.IH [of _ True]
  show ?case
    using Cons.prems
    by (auto simp: Let_def park_def split: prod.splits relay_outcome.splits)
      (use on in \<open>metis marks_gone fst_conv snd_conv\<close>)+
qed simp


lemma drain_batch_gone: "gone sq tb \<Longrightarrow> gone sq (fst (snd (drain_batch sh tid env tb)))"
  using drain_rows_gone by (auto simp: drain_batch_def simp del: drain_rows.simps split: sum.splits list.splits)

section \<open>The head of the backlog\<close>

definition head_of :: "outbox \<Rightarrow> outbox_entry \<Rightarrow> bool" where
  "head_of tb e \<longleftrightarrow> e \<in> set tb \<and> oe_pending e \<and>
     (\<forall>e' \<in> set tb. e' = e \<or> oe_seq e' \<noteq> oe_seq e \<and> (oe_pending e' \<longrightarrow> oe_seq e < oe_seq e'))"

lemma head_first:
  assumes "head_of tb e"
  obtains es where "next_batch tb 128 = e # es"
proof -
  let ?xs = "sort_key oe_seq (filter oe_pending tb)"
  have e: "e \<in> set ?xs" using assms by (simp add: head_of_def)
  then obtain x xs where xs: "?xs = x # xs" by (cases ?xs) auto
  have "oe_seq x \<le> oe_seq e" using e xs sorted_sort_key [of oe_seq "filter oe_pending tb"] by auto
  moreover have "x \<in> set tb" "oe_pending x" using arg_cong [OF xs, of set] by auto
  ultimately have "x = e" using assms by (fastforce simp: head_of_def)
  then show ?thesis using that xs by (simp add: next_batch_def)
qed

text \<open>
  A pass the database answers: the batch is read, the lock is held, the row's stamps are written, and
  its delivery does not end in an outage.
\<close>

definition answered :: "(uuid \<Rightarrow> string) \<Rightarrow> tid \<Rightarrow> outbox_row \<Rightarrow> drain_env \<Rightarrow> bool" where
  "answered sh tid row env \<longleftrightarrow>
     (let sq = ob_seq row in
      de_read env = Inr () \<and> de_probe env sq \<and> de_stamp env sq \<and> de_park env sq \<and>
      (\<forall>reason. fst (dispatch sh tid row (de_answers env sq)) \<noteq> Out_Retry reason))"

text \<open>The failures a row has left before it is parked.\<close>

definition tries_left :: "outbox_entry \<Rightarrow> nat" where
  "tries_left e = nat (MAX_RETRYABLE_ATTEMPTS - 1 - ob_attempts (oe_row e)) + nat (MAX_RETRYABLE_ATTEMPTS - 1 - oe_money_attempts e)"

definition same_row :: "outbox_entry \<Rightarrow> outbox_entry \<Rightarrow> bool" where
  "same_row e e' \<longleftrightarrow> oe_pending e' \<and> (\<exists>n. oe_row e' = (oe_row e)\<lparr>ob_attempts := n\<rparr>)"

lemma same_row_seq: "same_row e e' \<Longrightarrow> oe_seq e' = oe_seq e"
  by (auto simp: same_row_def oe_seq_def)

lemma leaves_gone:
  assumes "\<And>e. oe_seq (f e) = oe_seq e" and "\<And>e. \<not> oe_pending (f e)"
  shows "gone sq (touch_row sq f tb)"
  using assms by (auto simp: gone_def touch_row_def)

lemma dispatched_gone: "gone sq (mark_dispatched sq tb)"
  unfolding mark_dispatched_def by (rule leaves_gone) (simp_all add: oe_seq_def oe_pending_def)

lemma parked_gone: "gone sq (mark_parked sq r tb)"
  unfolding mark_parked_def by (rule leaves_gone) (simp_all add: oe_seq_def oe_pending_def bump_attempts_def)

lemma park_gone: "de_park env (ob_seq row) \<Longrightarrow> gone (ob_seq row) (fst (park env row r n tb))"
  unfolding park_def Let_def using parked_gone by auto

text \<open>After an answered pass the head has left, or it has fewer tries left and nothing else changed.\<close>

lemma answered_pass:
  assumes head: "head_of tb e" and up: "answered sh tid (oe_row e) env"
  shows "gone (oe_seq e) (fst (snd (drain_batch sh tid env tb))) \<or>
    (\<exists>g. fst (snd (drain_batch sh tid env tb)) = touch_row (oe_seq e) g tb \<and> same_row e (g e) \<and> tries_left (g e) < tries_left e)"
proof -
  let ?row = "oe_row e" and ?sq = "ob_seq (oe_row e)"
  obtain es where batch: "next_batch tb 128 = e # es" using head_first [OF head] .
  obtain out calls where d: "dispatch sh tid ?row (de_answers env ?sq) = (out, calls)" by fastforce
  have pend: "oe_pending e" using head by (simp add: head_of_def)
  have go: "gone ?sq (fst (snd (drain_rows sh tid env es True tb')))" if "gone ?sq tb'" for tb'
    using that by (rule drain_rows_gone)
  have pass: "drain_batch sh tid env tb = drain_rows sh tid env (e # es) False tb"
    using up batch by (simp add: drain_batch_def answered_def Let_def)
  show ?thesis
  proof (cases out)
    case Out_Done
    then show ?thesis using up d go [OF dispatched_gone]
      by (simp add: pass answered_def oe_seq_def Let_def split_beta)
  next
    case (Out_Park reason n)
    then show ?thesis using up d go [OF park_gone [of env ?row reason n tb]]
      by (simp add: pass answered_def oe_seq_def Let_def split_beta)
  next
    case (Out_Retry reason)
    then show ?thesis using up d by (simp add: answered_def Let_def)
  next
    case (Out_MoneyEvent reason)
    show ?thesis
    proof (cases "MAX_RETRYABLE_ATTEMPTS \<le> oe_money_attempts e + 1")
      case True
      have "gone ?sq (park_unrecorded env ?row (''money event: '' @ reason) (record_money_event_failure ?sq reason tb))"
        using up parked_gone by (simp add: park_unrecorded_def answered_def Let_def)
      from go [OF this] show ?thesis using up d True Out_MoneyEvent
        by (simp add: pass answered_def oe_seq_def Let_def split_beta)
    next
      case False
      then show ?thesis using up d Out_MoneyEvent pend
        by (intro disjI2 exI [of _ "\<lambda>e. e\<lparr>oe_money_attempts := oe_money_attempts e + 1, oe_error := Some reason\<rparr>"])
          (auto simp: pass answered_def oe_seq_def Let_def record_money_event_failure_def same_row_def tries_left_def oe_pending_def
            intro: exI [of _ "ob_attempts ?row"])
    qed
  next
    case (Out_RetryBounded reason)
    show ?thesis
    proof (cases "MAX_RETRYABLE_ATTEMPTS \<le> ob_attempts ?row + 1")
      case True
      then show ?thesis using up d Out_RetryBounded
          go [OF park_gone [of env ?row "''retryable exhausted after '' @ show_int (ob_attempts ?row + 1) @ '' attempts: '' @ reason" 0 tb]]
        by (simp add: pass answered_def oe_seq_def Let_def split_beta)
    next
      case False
      then show ?thesis using up d Out_RetryBounded pend
        by (intro disjI2 exI [of _ "\<lambda>e. (bump_attempts e)\<lparr>oe_error := Some reason\<rparr>"])
          (auto simp: pass answered_def oe_seq_def Let_def note_failure_def record_failure_def same_row_def tries_left_def
            oe_pending_def bump_attempts_def)
    qed
  qed
qed


section \<open>Passes\<close>

text \<open>Each pass is followed by whatever commands put in the table: rows behind the ones there.\<close>

definition run_pass :: "(uuid \<Rightarrow> string) \<Rightarrow> tid \<Rightarrow> drain_env \<times> outbox \<Rightarrow> outbox \<Rightarrow> outbox" where
  "run_pass sh tid p tb = fst (snd (drain_batch sh tid (fst p) tb)) @ snd p"

definition run_passes :: "(uuid \<Rightarrow> string) \<Rightarrow> tid \<Rightarrow> (drain_env \<times> outbox) list \<Rightarrow> outbox \<Rightarrow> outbox" where
  "run_passes sh tid ps tb = fold (run_pass sh tid) ps tb"

lemma run_pass_gone:
  "gone sq tb \<Longrightarrow> \<forall>e \<in> set (snd p). sq < oe_seq e \<Longrightarrow> gone sq (run_pass sh tid p tb)"
  using drain_batch_gone [of sq tb sh tid "fst p"] by (auto simp: run_pass_def gone_def)

lemma run_passes_gone:
  "gone sq tb \<Longrightarrow> \<forall>p \<in> set ps. \<forall>e \<in> set (snd p). sq < oe_seq e \<Longrightarrow> gone sq (run_passes sh tid ps tb)"
proof (induction ps arbitrary: tb)
  case (Cons p ps)
  then show ?case using run_pass_gone [of sq tb p sh tid] by (simp add: run_passes_def)
qed (simp add: run_passes_def)

text \<open>While it is there, the head stays the head.\<close>

lemma head_kept:
  assumes "head_of tb e" and "same_row e (g e)" and "\<forall>e' \<in> set new. oe_seq e < oe_seq e'"
  shows "head_of (touch_row (oe_seq e) g tb @ new) (g e)"
  using assms same_row_seq [OF assms(2)]
  by (force simp: head_of_def touch_row_def same_row_def)

lemma head_leaves:
  assumes "head_of tb e" and "tries_left e < length ps"
    and "\<forall>p \<in> set ps. answered sh tid (oe_row e) (fst p) \<and> (\<forall>e' \<in> set (snd p). oe_seq e < oe_seq e')"
  shows "gone (oe_seq e) (run_passes sh tid ps tb)"
  using assms
proof (induction ps arbitrary: tb e)
  case (Cons p ps)
  have up: "answered sh tid (oe_row e) (fst p)" and new: "\<forall>e' \<in> set (snd p). oe_seq e < oe_seq e'"
    using Cons.prems(3) by simp_all
  have rest: "\<forall>p \<in> set ps. \<forall>e' \<in> set (snd p). oe_seq e < oe_seq e'" using Cons.prems(3) by simp
  have run: "run_passes sh tid (p # ps) tb = run_passes sh tid ps (run_pass sh tid p tb)" by (simp add: run_passes_def)
  from answered_pass [OF Cons.prems(1) up] show ?case
  proof
    assume "gone (oe_seq e) (fst (snd (drain_batch sh tid (fst p) tb)))"
    then have "gone (oe_seq e) (run_pass sh tid p tb)" using new by (auto simp: run_pass_def gone_def)
    then show ?thesis unfolding run using rest by (rule run_passes_gone)
  next
    assume "\<exists>g. fst (snd (drain_batch sh tid (fst p) tb)) = touch_row (oe_seq e) g tb \<and> same_row e (g e) \<and> tries_left (g e) < tries_left e"
    then obtain g where g: "fst (snd (drain_batch sh tid (fst p) tb)) = touch_row (oe_seq e) g tb" "same_row e (g e)"
      "tries_left (g e) < tries_left e" by blast
    obtain n where n: "oe_row (g e) = (oe_row e)\<lparr>ob_attempts := n\<rparr>" using g(2) by (auto simp: same_row_def)
    have "gone (oe_seq (g e)) (run_passes sh tid ps (run_pass sh tid p tb))"
    proof (rule Cons.IH)
      show "head_of (run_pass sh tid p tb) (g e)"
        unfolding run_pass_def g(1) by (rule head_kept [where g = g, OF Cons.prems(1) g(2) new])
      show "tries_left (g e) < length ps" using g(3) Cons.prems(2) by simp
      show "\<forall>p \<in> set ps. answered sh tid (oe_row (g e)) (fst p) \<and> (\<forall>e' \<in> set (snd p). oe_seq (g e) < oe_seq e')"
        using Cons.prems(3) same_row_seq [OF g(2)] by (simp add: n answered_def Let_def)
    qed
    then show ?thesis unfolding run same_row_seq [OF g(2)] .
  qed
qed simp


text \<open>A settlement whose reservation the ledger never finds.\<close>

definition stuck_row :: outbox_row where
  "stuck_row = \<lparr>ob_seq = 7, ob_event_id = 1, ob_aggregate_id = 3,
     ob_fact = Payment_Fact (Released 3 (User_Party 5) (Usdt 10) 0), ob_attempts = 0\<rparr>"

definition stuck_entry :: outbox_entry where
  "stuck_entry = \<lparr>oe_row = stuck_row, oe_dispatched = False, oe_parked = False, oe_money_attempts = 0, oe_error = None,
     oe_compensated = False\<rparr>"

definition unfound :: relay_answers where
  "unfound = \<lparr>ra_refused = Inr False, ra_state = Inr None, ra_exists = \<lambda>_. Inr False, ra_past_window = Inr False,
     ra_balance = \<lambda>_. Inr \<lparr>lb_posted = 0, lb_pending = 0, lb_locked = 0\<rparr>, ra_reserved = Inr True,
     ra_withdrawal_state = Inr None, ra_broadcast_row = Inr False, ra_hold_exists = \<lambda>_. Inr False,
     ra_apply = \<lambda>_. Inl (Ledger_Retryable ''pending transfer not found''), ra_step = \<lambda>_. Inr (), ra_project = Inr (),
     ra_money_event = Inr (), ra_stamp = Inr ()\<rparr>"

definition answering :: drain_env where
  "answering = \<lparr>de_read = Inr (), de_probe = \<lambda>_. True, de_answers = \<lambda>_. unfound, de_stamp = \<lambda>_. True, de_park = \<lambda>_. True,
     de_compensate = \<lambda>_. True\<rparr>"

lemma stuck_dispatch:
  "dispatch sh (\<lambda>_ salt. if salt = CLEARING_VOID_FAIL then 1 else 2) stuck_row unfound =
     (Out_RetryBounded ''pending transfer not found'',
      [Call_Apply (pp_action (hd (plan_payment (\<lambda>_ salt. if salt = CLEARING_VOID_FAIL then 1 else 2) 3
         (Released 3 (User_Party 5) (Usdt 10) 0))))])"
  by (simp add: dispatch_def stuck_row_def refused_reserve_def plan_def dispatch_checked_def broadcast_check_def void_check_def
      hold_check_op_def unfound_def complete_op_def completion_of_def CLEARING_VOID_FAIL_def PAYMENT_RESERVE_VOID_def)


end
