(* ===== verification/GovernanceMail.thy ===== *)
theory GovernanceMail
  imports Consilium "HOL-Library.While_Combinator"
begin

text \<open>
  The governance mails (\<^verbatim>\<open>ports/governance_mail.rs\<close>) and the words they are made of: the
  clipping of a line (\<^verbatim>\<open>clip_utf8\<close>), the masked mailbox, the name of a fund, and what a
  consilium's invitation and verdict say (\<^verbatim>\<open>infrastructure/consilium.rs\<close>).  A string is its
  UTF-8 bytes; the text of an id is a parameter.
\<close>

section \<open>Clipping\<close>

definition MAIL_LINE_BYTES :: nat where
  "MAIL_LINE_BYTES = 160"

definition ELLIPSIS :: string where
  "ELLIPSIS = [CHR 0xE2, CHR 0x80, CHR 0xA6]"

text \<open>\<^verbatim>\<open>str::is_char_boundary\<close>: an end of the string, or a byte that does not continue a character.\<close>

definition continues :: "char \<Rightarrow> bool" where
  "continues c \<longleftrightarrow> 128 \<le> byte c \<and> byte c < 192"

definition is_char_boundary :: "string \<Rightarrow> nat \<Rightarrow> bool" where
  "is_char_boundary s n \<longleftrightarrow> n = 0 \<or> n = length s \<or> (n < length s \<and> \<not> continues (s ! n))"

text \<open>The loop of \<^verbatim>\<open>clip_utf8\<close>; \<open>None\<close> would be a loop that never ends.\<close>

definition clip_loop :: "string \<Rightarrow> nat \<Rightarrow> nat option" where
  "clip_loop s = while_option (\<lambda>end_at. 0 < end_at \<and> \<not> is_char_boundary s end_at) (\<lambda>end_at. end_at - 1)"

definition clip_utf8 :: "string \<Rightarrow> nat \<Rightarrow> string" where
  "clip_utf8 s max_bytes =
     (if length s \<le> max_bytes then s
      else take (the (clip_loop s (max_bytes - length ELLIPSIS))) s @ ELLIPSIS)"

section \<open>Names and amounts as a mail spells them\<close>

definition first_char :: "string \<Rightarrow> string option" where
  "first_char s = (case s of [] \<Rightarrow> None | c # rest \<Rightarrow> Some (c # takeWhile continues rest))"

definition mask_email :: "string \<Rightarrow> string" where
  "mask_email email =
     (case split_once (CHR ''@'') email of
        None \<Rightarrow> ''''
      | Some (local, domain) \<Rightarrow>
          (case first_char local of
             Some c \<Rightarrow> c @ ''***@'' @ domain
           | None \<Rightarrow> ''***@'' @ domain))"

text \<open>\<^verbatim>\<open>chars().map(|c| if c.is_control() { ' ' } else { c })\<close> on UTF-8: a C1 control is two bytes.\<close>

fun fold_controls :: "string \<Rightarrow> string" where
  "fold_controls [] = []"
| "fold_controls [c] = (if byte c < 32 \<or> byte c = 127 then '' '' else [c])"
| "fold_controls (c # d # s) =
     (if byte c = 194 \<and> 128 \<le> byte d \<and> byte d < 160 then CHR '' '' # fold_controls s
      else (if byte c < 32 \<or> byte c = 127 then CHR '' '' else c) # fold_controls (d # s))"

definition fee_mail_fund :: "string option \<Rightarrow> service_id \<Rightarrow> string" where
  "fee_mail_fund title service =
     (let slug = service_id_str service;
          title = trim (fold_controls (case title of None \<Rightarrow> '''' | Some t \<Rightarrow> t)) in
      if title = [] then slug
      else
        let lower = to_ascii_lowercase title in
        if list_ex (\<lambda>needle. contains needle lower) [''://'', ''www.'', ''http''] then slug
        else
          let tail = '' ('' @ slug @ '')'';
              title = clip_utf8 title (MAIL_LINE_BYTES - length tail)
          in title @ tail)"

definition trim_end_of :: "char \<Rightarrow> string \<Rightarrow> string" where
  "trim_end_of c s = rev (dropWhile (\<lambda>d. d = c) (rev s))"

definition mail_amount :: "usdt \<Rightarrow> string" where
  "mail_amount amount =
     (let number = to_decimal_string amount;
          number =
            (if 32 < length number then
               let number = take 32 number in
               if CHR ''.'' \<in> set number then trim_end_of (CHR ''.'') (trim_end_of (CHR ''0'') number) else number
             else number)
      in number @ '' USDT'')"

section \<open>The mails\<close>

record fee_terms_text =
  ft_management :: u32
  ft_performance :: u32
  ft_hurdle :: u32
  ft_basis :: string
  ft_crystallization :: string

definition mail_terms :: "fee_policy \<Rightarrow> fee_terms_text" where
  "mail_terms p = \<lparr>ft_management = management_bps p, ft_performance = performance_bps p, ft_hurdle = hurdle_bps p,
     ft_basis = management_basis_str (basis p), ft_crystallization = period_str (crystallization p)\<rparr>"

record fee_approval_mail =
  fa_consilium :: string
  fa_initiator :: string
  fa_fund :: string
  fa_current :: "fee_terms_text option"
  fa_proposed :: fee_terms_text
  fa_reason :: string
  fa_hash :: string
  fa_threshold :: u32
  fa_owner_count :: u32
  fa_expires_at :: i64
  fa_url :: string
  fa_code :: string

record fee_notice_mail =
  fn_subject :: string
  fn_fund :: string
  fn_current :: "fee_terms_text option"
  fn_proposed :: fee_terms_text
  fn_effective_at :: i64
  fn_link :: string

record outcome_mail =
  om_consilium :: string
  om_outcome :: string
  om_network :: string
  om_address :: string
  om_amount :: string
  om_detail :: string
  om_tier :: string
  om_source :: string
  om_destination :: string
  om_reason :: string
  om_fund :: string
  om_current :: "fee_terms_text option"
  om_proposed :: "fee_terms_text option"
  om_mark :: string

record consent_mail =
  cm_payment :: string
  cm_subject :: string
  cm_initiator :: string
  cm_tier :: string
  cm_source :: string
  cm_destination :: string
  cm_amount :: string
  cm_reason :: string
  cm_hash :: string
  cm_expires_at :: i64
  cm_url :: string
  cm_code :: string

record payment_approval_mail =
  pa_consilium :: string
  pa_payment :: string
  pa_initiator :: string
  pa_tier :: string
  pa_source :: string
  pa_destination :: string
  pa_amount :: string
  pa_reason :: string
  pa_hash :: string
  pa_threshold :: u32
  pa_owner_count :: u32
  pa_expires_at :: i64
  pa_url :: string
  pa_code :: string

record payment_outcome_mail =
  px_subject :: string
  px_outcome :: string
  px_reason :: string
  px_tier :: string
  px_source :: string
  px_destination :: string
  px_amount :: string
  px_payment :: string

datatype governance_mail =
    Mail_PayoutOutcome outcome_mail
  | Mail_TokenBurned outcome_mail
  | Mail_PaymentConsent consent_mail
  | Mail_PaymentApproval payment_approval_mail
  | Mail_FeePolicyApproval fee_approval_mail
  | Mail_FeePolicyNotice fee_notice_mail
  | Mail_PaymentOutcome payment_outcome_mail

fun mail_kind :: "governance_mail \<Rightarrow> string" where
  "mail_kind (Mail_PayoutOutcome _) = ''payout_outcome''"
| "mail_kind (Mail_TokenBurned _) = ''token_burned''"
| "mail_kind (Mail_PaymentConsent _) = ''payment_consent''"
| "mail_kind (Mail_PaymentApproval _) = ''payment_approval''"
| "mail_kind (Mail_FeePolicyApproval _) = ''fee_policy_approval''"
| "mail_kind (Mail_FeePolicyNotice _) = ''fee_policy_notice''"
| "mail_kind (Mail_PaymentOutcome _) = ''payment_outcome''"

fun carries_a_token :: "governance_mail \<Rightarrow> bool" where
  "carries_a_token (Mail_PaymentConsent _) = True"
| "carries_a_token (Mail_PaymentApproval _) = True"
| "carries_a_token (Mail_FeePolicyApproval _) = True"
| "carries_a_token (Mail_PayoutOutcome _) = False"
| "carries_a_token (Mail_TokenBurned _) = False"
| "carries_a_token (Mail_FeePolicyNotice _) = False"
| "carries_a_token (Mail_PaymentOutcome _) = False"

fun redacted :: "governance_mail \<Rightarrow> governance_mail" where
  "redacted (Mail_PaymentConsent m) = Mail_PaymentConsent (m\<lparr>cm_url := '''', cm_code := ''''\<rparr>)"
| "redacted (Mail_PaymentApproval m) = Mail_PaymentApproval (m\<lparr>pa_url := '''', pa_code := ''''\<rparr>)"
| "redacted (Mail_FeePolicyApproval m) = Mail_FeePolicyApproval (m\<lparr>fa_url := '''', fa_code := ''''\<rparr>)"
| "redacted m = m"

text \<open>What a mail gives away: the link with its token, and the code.\<close>

fun mail_secrets :: "governance_mail \<Rightarrow> string list" where
  "mail_secrets (Mail_PaymentConsent m) = [cm_url m, cm_code m]"
| "mail_secrets (Mail_PaymentApproval m) = [pa_url m, pa_code m]"
| "mail_secrets (Mail_FeePolicyApproval m) = [fa_url m, fa_code m]"
| "mail_secrets _ = []"

section \<open>What a consilium's mails say\<close>

datatype end_detail = Mailbox string | ProductTitle string

definition mail_destination :: "(uuid \<Rightarrow> string) \<Rightarrow> payment_terms \<Rightarrow> end_detail option \<Rightarrow> string" where
  "mail_destination show_uuid terms detail =
     (let label = destination_label show_uuid terms in
      case detail of
        Some (Mailbox email) \<Rightarrow> label @ '' ('' @ mask_email email @ '')''
      | Some (ProductTitle title) \<Rightarrow> label @ '' ('' @ title @ '')''
      | None \<Rightarrow> label)"

record fee_policy_detail =
  fd_allocation_name :: string
  fd_holder_count :: u32

datatype subject_detail =
    Detail_Payment "end_detail option"
  | Detail_Valuation "end_detail option"
  | Detail_FeePolicy fee_policy_detail
  | Detail_HolderGrant "end_detail option"
  | Detail_SeedCapital "end_detail option"

fun detail_end :: "subject_detail \<Rightarrow> end_detail option" where
  "detail_end (Detail_Payment d) = d"
| "detail_end (Detail_Valuation d) = d"
| "detail_end (Detail_HolderGrant d) = d"
| "detail_end (Detail_SeedCapital d) = d"
| "detail_end (Detail_FeePolicy _) = None"

fun detail_fee_policy :: "subject_detail \<Rightarrow> fee_policy_detail option" where
  "detail_fee_policy (Detail_FeePolicy d) = Some d"
| "detail_fee_policy _ = None"

definition grant_mail_source :: "grant_terms \<Rightarrow> string" where
  "grant_mail_source t = ''the '' @ service_id_str (hg_allocation t) @ '' allocation '' @ em_dash @ '' new units''"

definition grant_mail_destination :: "(uuid \<Rightarrow> string) \<Rightarrow> grant_terms \<Rightarrow> end_detail option \<Rightarrow> string" where
  "grant_mail_destination show_uuid t detail =
     (case detail of
        Some (Mailbox email) \<Rightarrow> ''investor '' @ show_uuid (hg_user t) @ '' ('' @ mask_email email @ '')''
      | _ \<Rightarrow> ''investor '' @ show_uuid (hg_user t))"

definition grant_mail_amount :: "grant_terms \<Rightarrow> string" where
  "grant_mail_amount t = shares_to_decimal_string (hg_units t) @ '' units of '' @ service_id_str (hg_allocation t)"

definition seed_mail_source :: "seed_terms \<Rightarrow> string" where
  "seed_mail_source t =
     (let tail = '' on '' @ network_str (sc_network t);
          reference = clip_utf8 (tx_ref_str (sc_tx_ref t))
            (MAIL_LINE_BYTES - (length ''treasury arrival '' + length tail))
      in ''treasury arrival '' @ reference @ tail)"

definition seed_mail_destination :: "(uuid \<Rightarrow> string) \<Rightarrow> seed_terms \<Rightarrow> end_detail option \<Rightarrow> string" where
  "seed_mail_destination show_uuid t detail =
     (case detail of
        Some (Mailbox email) \<Rightarrow> ''depositor '' @ show_uuid (sc_depositor t) @ '' ('' @ mask_email email @ '')''
      | _ \<Rightarrow> ''depositor '' @ show_uuid (sc_depositor t))"

definition valuation_mail_source :: "valuation_terms \<Rightarrow> end_detail option \<Rightarrow> string" where
  "valuation_mail_source t detail =
     (let suffix = '' '' @ em_dash @ '' NAV valuation'';
          slug = service_id_str (vo_service t) in
      case detail of
        Some (ProductTitle title) \<Rightarrow>
          let tail = '' ('' @ slug @ '')'' @ suffix;
              title = clip_utf8 title (MAIL_LINE_BYTES - length tail)
          in title @ tail
      | _ \<Rightarrow> slug @ suffix)"

definition VALUATION_MAIL_REASON :: string where
  "VALUATION_MAIL_REASON = ''Valuation beyond the NAV-move guard; executing records the mark regardless of the guard.''"

definition VALUATION_MAIL_TIER :: string where
  "VALUATION_MAIL_TIER = ''service''"

definition HOLDER_GRANT_MAIL_REASON :: string where
  "HOLDER_GRANT_MAIL_REASON = ''Holder grant: executing mints these units to this person, diluting '' @
     ''every current holder of the allocation pro rata. No cash moves.''"

definition SEED_CAPITAL_MAIL_REASON :: string where
  "SEED_CAPITAL_MAIL_REASON = ''Seed capital: executing books this treasury arrival as this person's deposit and '' @
     ''subscribes it into the fund allocation at its current price, seating them as a holder.''"

record voter_credential =
  vc_user :: uuid
  vc_token :: string
  vc_code :: string
  vc_token_hash :: string
  vc_code_hash :: string

definition approval_mail ::
  "(uuid \<Rightarrow> string) \<Rightarrow> consilium \<Rightarrow> string \<Rightarrow> voter_credential \<Rightarrow> string \<Rightarrow> subject_detail \<Rightarrow> governance_mail" where
  "approval_mail show_uuid c initiator_email credential url_base detail =
     (let approval_url = trim_end_of (CHR ''/'') url_base @ ''/'' @ vc_token credential;
          borrowed = (\<lambda>payment tier source destination amount reason.
            Mail_PaymentApproval \<lparr>pa_consilium = show_uuid (cn_id c), pa_payment = payment,
              pa_initiator = initiator_email, pa_tier = tier, pa_source = source, pa_destination = destination,
              pa_amount = amount, pa_reason = reason, pa_hash = hex32 (cn_hash c), pa_threshold = cn_threshold c,
              pa_owner_count = cn_owner_count c, pa_expires_at = cn_expires_at c, pa_url = approval_url,
              pa_code = vc_code credential\<rparr>) in
      case cn_terms c of
        Payment_Subject s \<Rightarrow>
          borrowed (show_uuid (ps_payment s)) (payment_tier_str (payment_tier (ps_terms s)))
            (party_label show_uuid (pt_from (ps_terms s))) (mail_destination show_uuid (ps_terms s) (detail_end detail))
            (to_decimal_string (pt_amount (ps_terms s))) (reason_str (pt_reason (ps_terms s)))
      | Fee_Policy s \<Rightarrow>
          Mail_FeePolicyApproval \<lparr>fa_consilium = show_uuid (cn_id c), fa_initiator = initiator_email,
            fa_fund = fee_mail_fund (map_option fd_allocation_name (detail_fee_policy detail)) (fs_service s),
            fa_current = map_option mail_terms (fs_from s), fa_proposed = mail_terms (fs_to s),
            fa_reason = fs_reason s, fa_hash = hex32 (cn_hash c), fa_threshold = cn_threshold c,
            fa_owner_count = cn_owner_count c, fa_expires_at = cn_expires_at c, fa_url = approval_url,
            fa_code = vc_code credential\<rparr>
      | Valuation_Override t \<Rightarrow>
          borrowed (show_uuid (cn_id c)) VALUATION_MAIL_TIER (valuation_mail_source t (detail_end detail))
            (''AUM '' @ to_decimal_string (vo_aum t) @ '' USDT'') (to_decimal_string (vo_aum t))
            VALUATION_MAIL_REASON
      | Holder_Grant t \<Rightarrow>
          borrowed (show_uuid (cn_id c)) VALUATION_MAIL_TIER (grant_mail_source t)
            (grant_mail_destination show_uuid t (detail_end detail)) (grant_mail_amount t) HOLDER_GRANT_MAIL_REASON
      | Seed_Capital t \<Rightarrow>
          borrowed (show_uuid (cn_id c)) VALUATION_MAIL_TIER (seed_mail_source t)
            (seed_mail_destination show_uuid t (detail_end detail)) (to_decimal_string (sc_amount t))
            SEED_CAPITAL_MAIL_REASON)"

fun announces_by_mail :: "consilium_terms \<Rightarrow> bool" where
  "announces_by_mail (Payment_Subject _) = True"
| "announces_by_mail (Valuation_Override _) = True"
| "announces_by_mail (Fee_Policy _) = True"
| "announces_by_mail (Holder_Grant _) = True"
| "announces_by_mail (Seed_Capital _) = True"

definition outcome_of :: "(uuid \<Rightarrow> string) \<Rightarrow> consilium \<Rightarrow> string \<Rightarrow> string \<Rightarrow> subject_detail \<Rightarrow> outcome_mail" where
  "outcome_of show_uuid c outcome detail subject =
     (let base_mail = \<lparr>om_consilium = show_uuid (cn_id c), om_outcome = outcome, om_network = '''', om_address = '''',
            om_amount = '''', om_detail = detail, om_tier = '''', om_source = '''', om_destination = '''',
            om_reason = '''', om_fund = '''', om_current = None, om_proposed = None, om_mark = ''''\<rparr> in
      case cn_terms c of
        Payment_Subject s \<Rightarrow> base_mail\<lparr>
          om_amount := to_decimal_string (pt_amount (ps_terms s)),
          om_tier := payment_tier_str (payment_tier (ps_terms s)),
          om_source := party_label show_uuid (pt_from (ps_terms s)),
          om_destination := mail_destination show_uuid (ps_terms s) (detail_end subject),
          om_reason := reason_str (pt_reason (ps_terms s))\<rparr>
      | Valuation_Override t \<Rightarrow> base_mail\<lparr>
          om_fund := fee_mail_fund (case detail_end subject of Some (ProductTitle title) \<Rightarrow> Some title | _ \<Rightarrow> None)
            (vo_service t),
          om_mark := ''AUM '' @ to_decimal_string (vo_aum t) @ '' USDT'',
          om_reason := VALUATION_MAIL_REASON\<rparr>
      | Fee_Policy s \<Rightarrow> base_mail\<lparr>
          om_fund := fee_mail_fund (map_option fd_allocation_name (detail_fee_policy subject)) (fs_service s),
          om_current := map_option mail_terms (fs_from s),
          om_proposed := Some (mail_terms (fs_to s)),
          om_reason := fs_reason s\<rparr>
      | Holder_Grant t \<Rightarrow> base_mail\<lparr>
          om_amount := grant_mail_amount t,
          om_tier := VALUATION_MAIL_TIER,
          om_source := grant_mail_source t,
          om_destination := grant_mail_destination show_uuid t (detail_end subject),
          om_reason := HOLDER_GRANT_MAIL_REASON\<rparr>
      | Seed_Capital t \<Rightarrow> base_mail\<lparr>
          om_amount := to_decimal_string (sc_amount t),
          om_tier := VALUATION_MAIL_TIER,
          om_source := seed_mail_source t,
          om_destination := seed_mail_destination show_uuid t (detail_end subject),
          om_reason := SEED_CAPITAL_MAIL_REASON\<rparr>)"

section \<open>Clipping never splits a character\<close>

text \<open>A UTF-8 character: one byte that does not continue a character, then bytes that do.\<close>

definition utf8_char :: "string \<Rightarrow> bool" where
  "utf8_char c \<longleftrightarrow> c \<noteq> [] \<and> \<not> continues (hd c) \<and> list_all continues (tl c)"

lemma clip_loop_unfold:
  "clip_loop s n = (if 0 < n \<and> \<not> is_char_boundary s n then clip_loop s (n - 1) else Some n)"
  unfolding clip_loop_def by (subst while_option_unfold) simp

lemma clip_loop_ends:
  "\<exists>k \<le> n. clip_loop s n = Some k \<and> is_char_boundary s k \<and> (\<forall>j. k < j \<longrightarrow> j \<le> n \<longrightarrow> \<not> is_char_boundary s j)"
proof (induction n)
  case 0
  show ?case by (subst clip_loop_unfold) (simp add: is_char_boundary_def)
next
  case (Suc n)
  show ?case
  proof (cases "is_char_boundary s (Suc n)")
    case True
    then show ?thesis by (subst clip_loop_unfold) auto
  next
    case False
    from Suc.IH obtain k where "k \<le> n" "clip_loop s n = Some k" "is_char_boundary s k"
      "\<forall>j. k < j \<longrightarrow> j \<le> n \<longrightarrow> \<not> is_char_boundary s j" by auto
    with False show ?thesis by (subst clip_loop_unfold) (auto simp: le_Suc_eq intro!: exI [of _ k])
  qed
qed

lemma boundary_append:
  assumes "utf8_char c" and "s = [] \<or> \<not> continues (hd s)"
  shows "is_char_boundary (c @ s) n \<longleftrightarrow> n = 0 \<or> (length c \<le> n \<and> is_char_boundary s (n - length c))"
proof -
  have inner: "continues (c ! n)" if "0 < n" "n < length c"
    using assms(1) that by (cases c; cases n) (auto simp: utf8_char_def list_all_length)
  show ?thesis
    using assms inner by (cases s) (auto simp: is_char_boundary_def nth_append hd_conv_nth utf8_char_def not_less)
qed

lemma concat_starts: "list_all utf8_char cs \<Longrightarrow> concat cs = [] \<or> \<not> continues (hd (concat cs))"
  by (cases cs) (auto simp: utf8_char_def)

lemma char_boundaries:
  "list_all utf8_char cs \<Longrightarrow>
     is_char_boundary (concat cs) n \<longleftrightarrow> (\<exists>k \<le> length cs. n = length (concat (take k cs)))"
proof (induction cs arbitrary: n)
  case Nil
  then show ?case by (auto simp: is_char_boundary_def)
next
  case (Cons c cs)
  have "is_char_boundary (concat (c # cs)) n \<longleftrightarrow>
      n = 0 \<or> (\<exists>k \<le> length cs. length c \<le> n \<and> n - length c = length (concat (take k cs)))"
    using Cons.prems boundary_append [of c "concat cs" n] concat_starts [of cs] Cons.IH [of "n - length c"]
    by auto
  also have "\<dots> \<longleftrightarrow> n = 0 \<or> (\<exists>k \<le> length cs. n = length c + length (concat (take k cs)))" by auto
  also have "\<dots> \<longleftrightarrow> (\<exists>k \<le> length (c # cs). n = length (concat (take k (c # cs))))"
  proof
    assume "n = 0 \<or> (\<exists>k \<le> length cs. n = length c + length (concat (take k cs)))"
    then show "\<exists>k \<le> length (c # cs). n = length (concat (take k (c # cs)))"
    proof
      assume "\<exists>k \<le> length cs. n = length c + length (concat (take k cs))"
      then obtain k where "k \<le> length cs" "n = length c + length (concat (take k cs))" by blast
      then show ?thesis by (intro exI [of _ "Suc k"]) simp
    qed (auto intro!: exI [of _ 0])
  next
    assume "\<exists>k \<le> length (c # cs). n = length (concat (take k (c # cs)))"
    then obtain k where k: "k \<le> Suc (length cs)" "n = length (concat (take k (c # cs)))" by auto
    show "n = 0 \<or> (\<exists>k \<le> length cs. n = length c + length (concat (take k cs)))"
      using k by (cases k) auto
  qed
  finally show ?case .
qed

lemma concat_take_Suc: "k < length cs \<Longrightarrow> length (concat (take (Suc k) cs)) = length (concat (take k cs)) + length (cs ! k)"
  by (simp add: take_Suc_conv_app_nth)

lemma ELLIPSIS_length: "length ELLIPSIS = 3"
  by (simp add: ELLIPSIS_def)

text \<open>
  C38: Clipping a mail's line ends and never splits a character: the loop returns on every string, a
  line within the budget is carried whole, and a longer one keeps the longest run of whole
  characters that leaves room for the ellipsis.
\<close>
theorem clip_utf8_whole_characters:
  assumes chars: "list_all utf8_char cs"
  shows "(\<exists>n. clip_loop (concat cs) (m - 3) = Some n) \<and>
    (if length (concat cs) \<le> m then clip_utf8 (concat cs) m = concat cs
     else \<exists>k. k < length cs \<and> clip_utf8 (concat cs) m = concat (take k cs) @ ELLIPSIS \<and>
       length (concat (take k cs)) \<le> m - 3 \<and> m - 3 < length (concat (take (Suc k) cs)))"
proof -
  from clip_loop_ends [of "m - 3" "concat cs"] obtain n where n: "n \<le> m - 3" "clip_loop (concat cs) (m - 3) = Some n"
    "is_char_boundary (concat cs) n" and past: "\<And>j. n < j \<Longrightarrow> j \<le> m - 3 \<Longrightarrow> \<not> is_char_boundary (concat cs) j"
    by blast
  from n(3) char_boundaries [OF chars] obtain k where k: "k \<le> length cs" "n = length (concat (take k cs))" by blast
  have "k < length cs \<and> m - 3 < length (concat (take (Suc k) cs))" if long: "m < length (concat cs)"
  proof -
    from k n(1) long have "k \<noteq> length cs" by auto
    with k(1) have less: "k < length cs" by simp
    with chars have "cs ! k \<noteq> []" by (auto simp: list_all_length utf8_char_def)
    then have "n < length (concat (take (Suc k) cs))"
      unfolding k(2) concat_take_Suc [OF less] by simp
    moreover have "is_char_boundary (concat cs) (length (concat (take (Suc k) cs)))"
      using char_boundaries [OF chars] less by (auto intro!: exI [of _ "Suc k"])
    ultimately show ?thesis using past less by (meson not_less)
  qed
  moreover have "take n (concat cs) = concat (take k cs)"
    using k(2) append_eq_conv_conj [of "concat (take k cs)" "concat (drop k cs)" "concat cs"]
    by (simp flip: concat_append)
  ultimately show ?thesis using n k by (auto simp: clip_utf8_def ELLIPSIS_length)
qed

definition sample_title :: "string list" where
  "sample_title = [''a'', [CHR 0xD1, CHR 0x91], [CHR 0xD1, CHR 0x91], ''b'']"

theorem clip_utf8_whole_characters_witness:
  "length (clip_utf8 (concat sample_title) 5) \<le> 5 \<and> (\<exists>n. clip_loop (concat sample_title) 2 = Some n)"
proof -
  have "list_all utf8_char sample_title" by (simp add: sample_title_def utf8_char_def continues_def byte_def)
  from clip_utf8_whole_characters [OF this, of 5] show ?thesis
    by (auto simp: sample_title_def ELLIPSIS_def)
qed

end
