(* ===== verification/GovStore.thy ===== *)
theory GovStore
  imports GovernanceMail
begin

text \<open>
  The tables of the governance plane (\<^verbatim>\<open>piggybank/core/migrations/0025\<close> and later) and the queue of
  governance mails over them: \<^verbatim>\<open>enqueue\<close>, the three withdrawals and the worker that delivers
  (\<^verbatim>\<open>infrastructure/consilium_mailer.rs\<close>).  A transaction is a function of the tables that
  returns the new tables or the error that rolls it back; the database's clock is an argument, in
  whole seconds.  What the identity plane answers to a delivery is an argument.
\<close>

section \<open>The tables\<close>

record user_row =
  ur_id :: uuid
  ur_email :: string
  ur_role :: string
  ur_frozen :: bool
  ur_status :: string
  ur_concierge :: "uuid option"

datatype stored_terms =
    Stored_Payment payment_subject
  | Stored_Valuation string string
  | Stored_FeePolicy fee_subject
  | Stored_HolderGrant string uuid string
  | Stored_SeedCapital string string string uuid

record consilium_row =
  cr_id :: uuid
  cr_kind :: string
  cr_state :: string
  cr_terms :: stored_terms
  cr_source_claim :: string
  cr_hash :: string
  cr_initiator :: uuid
  cr_owner_count :: u32
  cr_threshold :: u32
  cr_created_at :: i64
  cr_expires_at :: i64
  cr_decided_at :: "i64 option"
  cr_withdrawal :: "uuid option"
  cr_payment :: "uuid option"
  cr_valuation :: "uuid option"
  cr_fee_change :: "uuid option"
  cr_issuance :: "uuid option"
  cr_subscription :: "uuid option"
  cr_failure :: "string option"
  cr_version :: u64

record voter_row =
  vr_consilium :: uuid
  vr_user :: uuid
  vr_initiator :: uuid
  vr_decision :: string
  vr_decided_at :: "i64 option"
  vr_notified :: bool
  vr_token_hash :: string
  vr_code_hash :: string
  vr_attempts :: int
  vr_burned_at :: "int option"
  vr_expires_at :: i64
  vr_used_at :: "i64 option"
  vr_client_ip :: "string option"
  vr_user_agent :: "string option"
  vr_hash :: "string option"

text \<open>Of a payment's consent seat, what the mail worker touches.\<close>

record consent_row =
  nr_payment :: uuid
  nr_subject :: uuid
  nr_notified :: bool

text \<open>A queued mail: a payload this worker reads, or one it cannot.\<close>

datatype mail_subject = Subject_Consilium uuid | Subject_Payment uuid | Subject_FeeChange uuid

datatype mail_payload = Readable governance_mail | Unreadable string

record mail_row =
  mr_id :: nat
  mr_subject :: mail_subject
  mr_user :: uuid
  mr_kind :: string
  mr_key :: string
  mr_payload :: mail_payload
  mr_attempts :: int
  mr_deferrals :: int
  mr_last_error :: "string option"
  mr_sent_at :: "int option"
  mr_withdrawn_at :: "int option"
  mr_next_attempt_at :: "int option"
  mr_created_at :: int

record fee_change_row =
  fr_id :: uuid
  fr_consilium :: "uuid option"
  fr_state :: string
  fr_closed_reason :: "string option"

record position_row =
  pr_service :: string
  pr_user :: uuid
  pr_units :: string

datatype logged_event = Consilium_Event consilium_event | Order_Event payment_event

record gov_db =
  gd_users :: "user_row list"
  gd_roster_changes :: "i64 list"
  gd_consilia :: "consilium_row list"
  gd_voters :: "voter_row list"
  gd_consents :: "consent_row list"
  gd_mails :: "mail_row list"
  gd_orders :: "payment_order list"
  gd_fee_changes :: "fee_change_row list"
  gd_titles :: "(string \<times> string) list"
  gd_positions :: "position_row list"
  gd_event_log :: "logged_event list"
  gd_outbox :: "logged_event list"

text \<open>What the database says when a constraint refuses a row stands for its own wording.\<close>

definition DB_REFUSED :: string where
  "DB_REFUSED = ''the database refused the row''"

definition find_user :: "gov_db \<Rightarrow> uuid \<Rightarrow> user_row option" where
  "find_user db u = List.find (\<lambda>r. ur_id r = u) (gd_users db)"

section \<open>The mail queue\<close>

definition subject_exists :: "gov_db \<Rightarrow> mail_subject \<Rightarrow> bool" where
  "subject_exists db subject =
     (case subject of
        Subject_Consilium i \<Rightarrow> i \<in> cr_id ` set (gd_consilia db)
      | Subject_Payment i \<Rightarrow> i \<in> po_id ` set (gd_orders db)
      | Subject_FeeChange i \<Rightarrow> i \<in> fr_id ` set (gd_fee_changes db))"

definition enqueue :: "int \<Rightarrow> mail_subject \<Rightarrow> uuid \<Rightarrow> string \<Rightarrow> governance_mail \<Rightarrow> gov_db \<Rightarrow> gov_db result" where
  "enqueue now subject user key mail db =
     (if key \<in> mr_key ` set (gd_mails db) then Inr db
      else if find_user db user = None \<or> \<not> subject_exists db subject then Inl (Repository DB_REFUSED)
      else Inr (db\<lparr>gd_mails := gd_mails db @
        [\<lparr>mr_id = length (gd_mails db), mr_subject = subject, mr_user = user, mr_kind = mail_kind mail, mr_key = key,
          mr_payload = Readable mail, mr_attempts = 0, mr_deferrals = 0, mr_last_error = None, mr_sent_at = None,
          mr_withdrawn_at = None, mr_next_attempt_at = None, mr_created_at = now\<rparr>]\<rparr>))"

text \<open>\<^verbatim>\<open>payload || '{"approval_url": "", "code": ""}'\<close>: the two keys are overwritten.\<close>

fun blank_secrets :: "mail_payload \<Rightarrow> mail_payload" where
  "blank_secrets (Readable m) = Readable (redacted m)"
| "blank_secrets (Unreadable raw) = Unreadable raw"

definition owed :: "mail_row \<Rightarrow> bool" where
  "owed m \<longleftrightarrow> mr_sent_at m = None \<and> mr_withdrawn_at m = None"

definition update_mails :: "(mail_row \<Rightarrow> bool) \<Rightarrow> (mail_row \<Rightarrow> mail_row) \<Rightarrow> gov_db \<Rightarrow> gov_db" where
  "update_mails sel f db = db\<lparr>gd_mails := map (\<lambda>m. if sel m then f m else m) (gd_mails db)\<rparr>"

definition withdraw_undelivered :: "int \<Rightarrow> mail_subject \<Rightarrow> gov_db \<Rightarrow> (gov_db \<times> nat) result" where
  "withdraw_undelivered now subject db =
     (case subject of
        Subject_Consilium _ \<Rightarrow> Inl (Repository (''a consilium's undelivered mail is not withdrawn wholesale '' @ em_dash @
          '' see withdraw_undelivered_invitations''))
      | Subject_Payment _ \<Rightarrow> Inl (Repository (''a payment's undelivered consent mail is not withdrawn without '' @
          ''redacting its secrets '' @ em_dash @ '' see withdraw_undelivered_consent''))
      | Subject_FeeChange i \<Rightarrow>
          let sel = (\<lambda>m. mr_subject m = Subject_FeeChange i \<and> owed m)
          in Inr (update_mails sel (\<lambda>m. m\<lparr>mr_withdrawn_at := Some now\<rparr>) db, length (filter sel (gd_mails db))))"

definition withdraw_undelivered_invitations :: "int \<Rightarrow> uuid \<Rightarrow> gov_db \<Rightarrow> gov_db \<times> nat" where
  "withdraw_undelivered_invitations now i db =
     (let sel = (\<lambda>m. mr_subject m = Subject_Consilium i \<and> owed m \<and>
            mr_kind m \<in> {''payment_approval'', ''fee_policy_approval''})
      in (update_mails sel (\<lambda>m. m\<lparr>mr_withdrawn_at := Some now, mr_payload := blank_secrets (mr_payload m)\<rparr>) db,
          length (filter sel (gd_mails db))))"

definition withdraw_undelivered_consent :: "int \<Rightarrow> uuid \<Rightarrow> gov_db \<Rightarrow> gov_db \<times> nat" where
  "withdraw_undelivered_consent now i db =
     (let sel = (\<lambda>m. mr_subject m = Subject_Payment i \<and> owed m \<and> mr_kind m = ''payment_consent'')
      in (update_mails sel (\<lambda>m. m\<lparr>mr_withdrawn_at := Some now, mr_payload := blank_secrets (mr_payload m)\<rparr>) db,
          length (filter sel (gd_mails db))))"

section \<open>The mail worker\<close>

definition SWEEP_INTERVAL_SECS :: int where
  "SWEEP_INTERVAL_SECS = 30"

definition MAIL_BATCH :: nat where
  "MAIL_BATCH = 100"

definition MAIL_MAX_ATTEMPTS :: int where
  "MAIL_MAX_ATTEMPTS = 10"

definition DEFERRAL_CEILING_SECS :: int where
  "DEFERRAL_CEILING_SECS = 24 * 60 * 60"

definition MAX_DEFERRAL_BACKOFF_SECS :: int where
  "MAX_DEFERRAL_BACKOFF_SECS = 60 * 60"

datatype mail_answer = Mail_Sent | Mail_Deferred string | Mail_Failed string

record mail_call =
  mc_recipient :: uuid
  mc_key :: string
  mc_mail :: governance_mail

definition update_mail :: "nat \<Rightarrow> (mail_row \<Rightarrow> mail_row) \<Rightarrow> gov_db \<Rightarrow> gov_db" where
  "update_mail i = update_mails (\<lambda>m. mr_id m = i)"

definition retire_mail :: "nat \<Rightarrow> string \<Rightarrow> governance_mail option \<Rightarrow> gov_db \<Rightarrow> gov_db" where
  "retire_mail i reason mail =
     update_mail i (\<lambda>m. m\<lparr>mr_attempts := MAIL_MAX_ATTEMPTS, mr_last_error := Some reason,
       mr_payload := (case mail of Some x \<Rightarrow> Readable (redacted x) | None \<Rightarrow> mr_payload m)\<rparr>)"

definition fail_mail :: "mail_row \<Rightarrow> string \<Rightarrow> governance_mail option \<Rightarrow> gov_db \<Rightarrow> gov_db" where
  "fail_mail row reason mail db =
     (let attempts = mr_attempts row + 1;
          db = update_mail (mr_id row) (\<lambda>m. m\<lparr>mr_attempts := attempts, mr_last_error := Some reason\<rparr>) db
      in if MAIL_MAX_ATTEMPTS \<le> attempts then retire_mail (mr_id row) reason mail db else db)"

definition deferral_backoff :: "int \<Rightarrow> int" where
  "deferral_backoff deferrals =
     min (SWEEP_INTERVAL_SECS * 2 ^ nat (min 16 (max 0 (deferrals - 1)))) MAX_DEFERRAL_BACKOFF_SECS"

definition defer_mail :: "int \<Rightarrow> mail_row \<Rightarrow> string \<Rightarrow> governance_mail \<Rightarrow> gov_db \<Rightarrow> gov_db" where
  "defer_mail now row reason mail db =
     (if mr_created_at row + DEFERRAL_CEILING_SECS < now then retire_mail (mr_id row) reason (Some mail) db
      else
        let deferrals = mr_deferrals row + 1;
            db = update_mail (mr_id row) (\<lambda>m. m\<lparr>mr_deferrals := deferrals, mr_last_error := Some reason\<rparr>) db
        in update_mail (mr_id row) (\<lambda>m. m\<lparr>mr_next_attempt_at := Some (now + deferral_backoff deferrals)\<rparr>) db)"

definition mail_due :: "int \<Rightarrow> mail_row \<Rightarrow> bool" where
  "mail_due now m \<longleftrightarrow> owed m \<and> mr_attempts m < MAIL_MAX_ATTEMPTS \<and>
     (case mr_next_attempt_at m of None \<Rightarrow> True | Some t \<Rightarrow> t \<le> now)"

definition set_notified :: "mail_row \<Rightarrow> gov_db \<Rightarrow> gov_db" where
  "set_notified row db =
     db\<lparr>gd_voters := map (\<lambda>v. if mr_subject row = Subject_Consilium (vr_consilium v) \<and> vr_user v = mr_user row
                            then v\<lparr>vr_notified := True\<rparr> else v) (gd_voters db),
       gd_consents := map (\<lambda>c. if mr_subject row = Subject_Payment (nr_payment c) \<and> nr_subject c = mr_user row
                            then c\<lparr>nr_notified := True\<rparr> else c) (gd_consents db)\<rparr>"

fun addressed :: "(uuid \<Rightarrow> string) \<Rightarrow> uuid \<Rightarrow> governance_mail \<Rightarrow> governance_mail" where
  "addressed show_uuid recipient (Mail_FeePolicyNotice n) = Mail_FeePolicyNotice (n\<lparr>fn_subject := show_uuid recipient\<rparr>)"
| "addressed show_uuid recipient m = m"

fun is_notice :: "governance_mail \<Rightarrow> bool" where
  "is_notice (Mail_FeePolicyNotice _) = True"
| "is_notice _ = False"

definition NO_MIRROR :: string where
  "NO_MIRROR = ''recipient has no mirrored concierge user id''"

text \<open>One row in one transaction: the new tables, whether it was handed over, the calls made.\<close>

definition deliver ::
  "(uuid \<Rightarrow> string) \<Rightarrow> int \<Rightarrow> (nat \<Rightarrow> mail_answer) \<Rightarrow> nat \<Rightarrow> gov_db \<Rightarrow> gov_db \<times> bool \<times> mail_call list" where
  "deliver show_uuid now answers i db =
     (case List.find (\<lambda>m. mr_id m = i \<and> mail_due now m) (gd_mails db) of
        None \<Rightarrow> (db, False, [])
      | Some row \<Rightarrow>
          (case find_user db (mr_user row) of
             None \<Rightarrow> (db, False, [])
           | Some user \<Rightarrow>
               (case mr_payload row of
                  Unreadable why \<Rightarrow> (fail_mail row (''unreadable payload: '' @ why) None db, False, [])
                | Readable mail \<Rightarrow>
                    (case ur_concierge user of
                       None \<Rightarrow>
                         (if is_notice mail then defer_mail now row NO_MIRROR mail db
                          else fail_mail row NO_MIRROR (Some mail) db, False, [])
                     | Some recipient \<Rightarrow>
                         let mail = addressed show_uuid recipient mail;
                             call = \<lparr>mc_recipient = recipient, mc_key = mr_key row, mc_mail = mail\<rparr> in
                         case answers i of
                           Mail_Sent \<Rightarrow>
                             let db = update_mail i (\<lambda>m. m\<lparr>mr_sent_at := Some now, mr_payload := Readable (redacted mail)\<rparr>) db
                             in (if carries_a_token mail then set_notified row db else db, True, [call])
                         | Mail_Deferred why \<Rightarrow> (defer_mail now row why mail db, False, [call])
                         | Mail_Failed why \<Rightarrow> (fail_mail row why (Some mail) db, False, [call])))))"

fun deliver_all ::
  "(uuid \<Rightarrow> string) \<Rightarrow> int \<Rightarrow> (nat \<Rightarrow> mail_answer) \<Rightarrow> nat list \<Rightarrow> gov_db \<Rightarrow> gov_db \<times> nat \<times> mail_call list" where
  "deliver_all show_uuid now answers [] db = (db, 0, [])"
| "deliver_all show_uuid now answers (i # ids) db =
     (case deliver show_uuid now answers i db of
        (db, sent, calls) \<Rightarrow>
          (case deliver_all show_uuid now answers ids db of
             (db, n, others) \<Rightarrow> (db, (if sent then n + 1 else n), calls @ others)))"

definition drain_mails ::
  "(uuid \<Rightarrow> string) \<Rightarrow> int \<Rightarrow> (nat \<Rightarrow> mail_answer) \<Rightarrow> gov_db \<Rightarrow> gov_db \<times> nat \<times> mail_call list" where
  "drain_mails show_uuid now answers db =
     deliver_all show_uuid now answers (take MAIL_BATCH (map mr_id (filter (mail_due now) (gd_mails db)))) db"

definition pending_count :: "gov_db \<Rightarrow> nat" where
  "pending_count db = length (filter owed (gd_mails db))"

end
