(* ===== verification/MailSafety.thy ===== *)
theory MailSafety
  imports GovStore
begin

text \<open>
  What the mail queue promises whatever the identity plane answers and in whatever order the plane's
  transactions run: a mail nobody will deliver again holds no secret, and none is both delivered
  and taken back.
\<close>

section \<open>Which mail is queued about what\<close>

fun mail_fits :: "mail_subject \<Rightarrow> governance_mail \<Rightarrow> bool" where
  "mail_fits (Subject_Consilium _) (Mail_PayoutOutcome _) = True"
| "mail_fits (Subject_Consilium _) (Mail_TokenBurned _) = True"
| "mail_fits (Subject_Consilium _) (Mail_PaymentApproval _) = True"
| "mail_fits (Subject_Consilium _) (Mail_FeePolicyApproval _) = True"
| "mail_fits (Subject_Payment _) (Mail_PaymentConsent _) = True"
| "mail_fits (Subject_Payment _) (Mail_PaymentOutcome _) = True"
| "mail_fits (Subject_FeeChange _) (Mail_FeePolicyNotice _) = True"
| "mail_fits _ _ = False"

inductive mail_reach :: "(uuid \<Rightarrow> string) \<Rightarrow> gov_db \<Rightarrow> bool" for show_uuid where
  no_mail: "gd_mails db = [] \<Longrightarrow> mail_reach show_uuid db"
| other_tables: "mail_reach show_uuid db \<Longrightarrow> gd_mails db' = gd_mails db \<Longrightarrow> mail_reach show_uuid db'"
| queued: "mail_reach show_uuid db \<Longrightarrow> mail_fits subject mail \<Longrightarrow> enqueue now subject user key mail db = Inr db' \<Longrightarrow>
    mail_reach show_uuid db'"
| notices_back: "mail_reach show_uuid db \<Longrightarrow> withdraw_undelivered now subject db = Inr (db', n) \<Longrightarrow> mail_reach show_uuid db'"
| invitations_back: "mail_reach show_uuid db \<Longrightarrow> mail_reach show_uuid (fst (withdraw_undelivered_invitations now i db))"
| consent_back: "mail_reach show_uuid db \<Longrightarrow> mail_reach show_uuid (fst (withdraw_undelivered_consent now i db))"
| drained: "mail_reach show_uuid db \<Longrightarrow> drain_mails show_uuid now answers db = (db', n, calls) \<Longrightarrow> mail_reach show_uuid db'"

section \<open>The row's invariant\<close>

definition spent_mail :: "mail_row \<Rightarrow> bool" where
  "spent_mail m \<longleftrightarrow> \<not> owed m \<or> MAIL_MAX_ATTEMPTS \<le> mr_attempts m"

definition no_secrets :: "governance_mail \<Rightarrow> bool" where
  "no_secrets mail \<longleftrightarrow> list_all (\<lambda>s. s = []) (mail_secrets mail)"

definition mail_row_ok :: "mail_row \<Rightarrow> bool" where
  "mail_row_ok m \<longleftrightarrow>
     (\<exists>mail. mr_payload m = Readable mail \<and> mr_kind m = mail_kind mail \<and> mail_fits (mr_subject m) mail \<and>
       (spent_mail m \<longrightarrow> no_secrets mail)) \<and>
     (mr_sent_at m = None \<or> mr_withdrawn_at m = None)"

lemma redacted_no_secrets [simp]: "no_secrets (redacted mail)"
  by (cases mail) (simp_all add: no_secrets_def)

lemma redacted_kind [simp]: "mail_kind (redacted mail) = mail_kind mail"
  by (cases mail) simp_all

lemma redacted_fits [simp]: "mail_fits subject (redacted mail) = mail_fits subject mail"
  by (cases subject; cases mail) simp_all

lemma addressed_kind [simp]: "mail_kind (addressed sh r mail) = mail_kind mail"
  by (cases mail) simp_all

lemma addressed_fits [simp]: "mail_fits subject (addressed sh r mail) = mail_fits subject mail"
  by (cases subject; cases mail) simp_all

lemma addressed_secrets [simp]: "no_secrets (addressed sh r mail) = no_secrets mail"
  by (cases mail) (simp_all add: no_secrets_def)

definition mails_ok :: "gov_db \<Rightarrow> bool" where
  "mails_ok db \<longleftrightarrow> (\<forall>m \<in> set (gd_mails db). mail_row_ok m)"

lemma mails_ok_update:
  assumes "mails_ok db" and "\<And>m. m \<in> set (gd_mails db) \<Longrightarrow> sel m \<Longrightarrow> mail_row_ok m \<Longrightarrow> mail_row_ok (f m)"
  shows "mails_ok (update_mails sel f db)"
  using assms by (auto simp: mails_ok_def update_mails_def)

lemma mails_ok_notified [simp]: "mails_ok (set_notified row db) = mails_ok db"
  by (simp add: mails_ok_def set_notified_def)

text \<open>The rows of one queue have distinct ids, so an update by id touches the row it was read from.\<close>

definition mail_ids :: "gov_db \<Rightarrow> nat list" where
  "mail_ids db = map mr_id (gd_mails db)"

lemma mail_ids_update [simp]:
  "(\<And>m. mr_id (f m) = mr_id m) \<Longrightarrow> mail_ids (update_mails sel f db) = mail_ids db"
  by (simp add: mail_ids_def update_mails_def o_def if_distrib cong: if_cong)

definition queue_ok :: "gov_db \<Rightarrow> bool" where
  "queue_ok db \<longleftrightarrow> mails_ok db \<and> mail_ids db = [0..<length (gd_mails db)]"

lemma length_update [simp]: "length (gd_mails (update_mails sel f db)) = length (gd_mails db)"
  by (simp add: update_mails_def)

lemma only_row:
  assumes "queue_ok db" "row \<in> set (gd_mails db)" "m \<in> set (gd_mails db)" "mr_id m = mr_id row"
  shows "m = row"
  using assms distinct_map [of mr_id "gd_mails db"] by (simp add: queue_ok_def mail_ids_def inj_on_def)

lemma update_twice:
  "(\<And>m. mr_id (g m) = mr_id m) \<Longrightarrow> update_mail i f (update_mail i g db) = update_mail i (\<lambda>m. f (g m)) db"
  by (simp add: update_mail_def update_mails_def)

lemma update_row_ok:
  assumes ok: "queue_ok db" and row: "row \<in> set (gd_mails db)" and f: "mail_row_ok (f row)"
    and same: "\<And>m. mr_id (f m) = mr_id m"
  shows "queue_ok (update_mail (mr_id row) f db)"
proof -
  have "mails_ok (update_mail (mr_id row) f db)"
    unfolding update_mail_def
    by (rule mails_ok_update) (use ok f only_row [OF ok row] in \<open>auto simp: queue_ok_def\<close>)
  then show ?thesis using ok same by (simp add: queue_ok_def update_mail_def)
qed

lemmas row_facts = mail_row_ok_def spent_mail_def owed_def

lemma fail_mail_ok:
  assumes ok: "queue_ok db" and row: "row \<in> set (gd_mails db)" and due: "mail_due now row"
    and kind: "mr_kind row = mail_kind mail" "mail_fits (mr_subject row) mail"
  shows "queue_ok (fail_mail row reason (Some mail) db)"
proof -
  have "mail_row_ok row" using ok row by (simp add: queue_ok_def mails_ok_def)
  then show ?thesis
    using due kind
    by (auto simp: fail_mail_def Let_def retire_mail_def update_twice row_facts mail_due_def
        intro!: update_row_ok [OF ok row])
qed

lemma defer_mail_ok:
  assumes ok: "queue_ok db" and row: "row \<in> set (gd_mails db)" and due: "mail_due now row"
    and kind: "mr_kind row = mail_kind mail" "mail_fits (mr_subject row) mail"
  shows "queue_ok (defer_mail now row reason mail db)"
proof -
  have "mail_row_ok row" using ok row by (simp add: queue_ok_def mails_ok_def)
  then show ?thesis
    using due kind
    by (auto simp: defer_mail_def Let_def retire_mail_def update_twice row_facts mail_due_def
        intro!: update_row_ok [OF ok row])
qed

lemma set_notified_ok [simp]: "queue_ok (set_notified row db) = queue_ok db"
  by (simp add: queue_ok_def mail_ids_def) (simp add: set_notified_def)

lemma deliver_ok:
  assumes ok: "queue_ok db" and d: "deliver sh now answers i db = (db', sent, calls)"
  shows "queue_ok db'"
proof (cases "List.find (\<lambda>m. mr_id m = i \<and> mail_due now m) (gd_mails db)")
  case None
  with d ok show ?thesis by (simp add: deliver_def)
next
  case (Some row)
  then have row: "row \<in> set (gd_mails db)" and i: "mr_id row = i" and due: "mail_due now row"
    by (auto simp: find_Some_iff)
  then have "mail_row_ok row" using ok by (simp add: queue_ok_def mails_ok_def)
  then obtain mail where mail: "mr_payload row = Readable mail" "mr_kind row = mail_kind mail" "mail_fits (mr_subject row) mail"
    by (auto simp: mail_row_ok_def)
  let ?sent = "\<lambda>x. update_mail i (\<lambda>m. m\<lparr>mr_sent_at := Some now, mr_payload := Readable (redacted x)\<rparr>) db"
  have "queue_ok (?sent (addressed sh r mail))" for r
    using due mail unfolding i [symmetric]
    by (intro update_row_ok [OF ok row]) (auto simp: row_facts mail_due_def)
  then show ?thesis
    using d ok Some mail fail_mail_ok [OF ok row due] defer_mail_ok [OF ok row due]
    by (auto simp: deliver_def Let_def split: option.splits if_splits mail_answer.splits)
qed

lemma deliver_all_ok: "queue_ok db \<Longrightarrow> queue_ok (fst (deliver_all sh now answers ids db))"
proof (induction ids arbitrary: db)
  case (Cons i ids)
  obtain db1 sent calls where d: "deliver sh now answers i db = (db1, sent, calls)" by (metis prod_cases3)
  from Cons.IH [OF deliver_ok [OF Cons.prems d]] show ?case by (simp add: d split_beta)
qed simp

lemma withdraw_ok:
  assumes "queue_ok db" and "\<And>m. mr_id (f m) = mr_id m"
    and "\<And>m. sel m \<Longrightarrow> mail_row_ok m \<Longrightarrow> mail_row_ok (f m)"
  shows "queue_ok (update_mails sel f db)"
  using assms by (auto simp: queue_ok_def intro: mails_ok_update)

lemma enqueue_ok:
  assumes "queue_ok db" "mail_fits subject mail" "enqueue now subject user key mail db = Inr db'"
  shows "queue_ok db'"
  using assms by (auto simp: enqueue_def queue_ok_def mails_ok_def mail_ids_def row_facts MAIL_MAX_ATTEMPTS_def split: if_splits)

lemma notice_holds_nothing: "mail_fits (Subject_FeeChange i) mail \<Longrightarrow> no_secrets mail"
  by (cases mail) (simp_all add: no_secrets_def)

lemma mail_reach_ok: "mail_reach sh db \<Longrightarrow> queue_ok db"
proof (induction rule: mail_reach.induct)
  case (notices_back db now subject db' n)
  from notices_back.hyps(2) obtain i where
    "db' = update_mails (\<lambda>m. mr_subject m = Subject_FeeChange i \<and> owed m) (\<lambda>m. m\<lparr>mr_withdrawn_at := Some now\<rparr>) db"
    by (auto simp: withdraw_undelivered_def Let_def split: mail_subject.splits)
  moreover have "mail_row_ok (m\<lparr>mr_withdrawn_at := Some now\<rparr>)"
    if "mr_subject m = Subject_FeeChange i \<and> owed m" "mail_row_ok m" for m
    using that notice_holds_nothing [of i] by (auto simp: row_facts)
  ultimately show ?case using notices_back.IH by (auto intro!: withdraw_ok)
next
  case (invitations_back db now i)
  then show ?case
    by (auto simp: withdraw_undelivered_invitations_def Let_def row_facts intro!: withdraw_ok)
next
  case (consent_back db now i)
  then show ?case
    by (auto simp: withdraw_undelivered_consent_def Let_def row_facts intro!: withdraw_ok)
next
  case (drained db now answers db' n calls)
  then show ?case by (metis deliver_all_ok drain_mails_def fst_conv)
next
  case (queued db subject mail now user key db')
  then show ?case by (blast intro: enqueue_ok)
qed (simp_all add: queue_ok_def mails_ok_def mail_ids_def)


definition sample_invitation :: governance_mail where
  "sample_invitation = Mail_PaymentConsent \<lparr>cm_payment = ''1'', cm_subject = ''7'', cm_initiator = ''i@x'', cm_tier = ''external'',
     cm_source = ''investor 7'', cm_destination = ''d'', cm_amount = ''5'', cm_reason = ''r'', cm_hash = ''h'',
     cm_expires_at = 100, cm_url = ''/t'', cm_code = ''ABC''\<rparr>"

definition sample_order :: payment_order where
  "sample_order = payment_open 1 \<lparr>pt_from = User_Party 7, pt_to = Internal Treasury, pt_amount = Usdt 5,
     pt_reason = PaymentReason ''r''\<rparr> '''' 9 0"

definition sample_tables :: gov_db where
  "sample_tables = \<lparr>gd_users = [\<lparr>ur_id = 7, ur_email = ''a@x'', ur_role = ''user'', ur_frozen = False, ur_status = ''active'',
       ur_concierge = Some 70\<rparr>],
     gd_roster_changes = [], gd_consilia = [], gd_voters = [], gd_consents = [], gd_mails = [], gd_orders = [sample_order],
     gd_fee_changes = [], gd_titles = [], gd_positions = [], gd_event_log = [], gd_outbox = []\<rparr>"

definition sample_queue :: gov_db where
  "sample_queue = sample_tables\<lparr>gd_mails := [\<lparr>mr_id = 0, mr_subject = Subject_Payment 1, mr_user = 7,
     mr_kind = ''payment_consent'', mr_key = ''k'', mr_payload = Readable sample_invitation, mr_attempts = 0,
     mr_deferrals = 0, mr_last_error = None, mr_sent_at = None, mr_withdrawn_at = None, mr_next_attempt_at = None,
     mr_created_at = 0\<rparr>]\<rparr>"

definition sample_delivered :: gov_db where
  "sample_delivered = fst (drain_mails show_u128 5 (\<lambda>_. Mail_Sent) sample_queue)"

lemma sample_enqueued: "enqueue 0 (Subject_Payment 1) 7 ''k'' sample_invitation sample_tables = Inr sample_queue"
  by (simp add: enqueue_def sample_tables_def find_user_def subject_exists_def sample_order_def payment_open_def
      payment_open_for_def sample_queue_def sample_invitation_def)

lemma sample_delivery: "mail_reach show_u128 sample_delivered"
proof -
  have "mail_reach show_u128 sample_tables" by (rule no_mail) (simp add: sample_tables_def)
  from queued [OF this _ sample_enqueued] have "mail_reach show_u128 sample_queue" by (simp add: sample_invitation_def)
  then show ?thesis unfolding sample_delivered_def
    by (cases "drain_mails show_u128 5 (\<lambda>_. Mail_Sent) sample_queue") (auto intro: drained)
qed

lemma sample_row: "\<exists>m. gd_mails sample_delivered = [m] \<and> mr_sent_at m = Some 5"
  by (simp add: sample_delivered_def sample_queue_def sample_tables_def sample_invitation_def drain_mails_def mail_due_def
      owed_def MAIL_MAX_ATTEMPTS_def MAIL_BATCH_def deliver_def find_user_def update_mail_def update_mails_def Let_def
      set_notified_def)


end
