(* ===== verification/ConsiliumStore.thy ===== *)
theory ConsiliumStore
  imports GovStore
begin

text \<open>
  The consilium in its tables (\<^verbatim>\<open>infrastructure/consilium.rs\<close>): how a row and its seats become the
  aggregate again, opening, the vote with its five attempts, withdrawal, expiry, the voiding after a
  roster change and the record of an execution.  A transaction that fails leaves the tables as they
  were, except where the source commits before it answers an error.  The digest (SHA-256) and
  the text of an id are parameters; row locks are the sequence in which transactions run.
\<close>

section \<open>The setting\<close>

record gov_env =
  ge_show :: "uuid \<Rightarrow> string"
  ge_digest :: "string \<Rightarrow> string"
  ge_url :: string
  ge_mail_wired :: bool

definition DIGEST_BYTES :: nat where
  "DIGEST_BYTES = 32"

definition MAX_CODE_ATTEMPTS :: int where
  "MAX_CODE_ATTEMPTS = 5"

text \<open>What serde says of a text of another shape stands for its own wording.\<close>

definition SERDE_REFUSED :: string where
  "SERDE_REFUSED = ''the stored terms do not read''"

section \<open>Rows and aggregates\<close>

fun stored_of :: "consilium_terms \<Rightarrow> stored_terms" where
  "stored_of (Payment_Subject s) = Stored_Payment s"
| "stored_of (Valuation_Override t) = Stored_Valuation (service_id_str (vo_service t)) (show_u128 (usdt_units (vo_aum t)))"
| "stored_of (Fee_Policy s) = Stored_FeePolicy s"
| "stored_of (Holder_Grant t) =
     Stored_HolderGrant (service_id_str (hg_allocation t)) (hg_user t) (show_u128 (shares_units (hg_units t)))"
| "stored_of (Seed_Capital t) =
     Stored_SeedCapital (tx_ref_str (sc_tx_ref t)) (network_str (sc_network t)) (show_u128 (usdt_units (sc_amount t)))
       (sc_depositor t)"

fun valuation_into_domain :: "string \<Rightarrow> string \<Rightarrow> valuation_terms result" where
  "valuation_into_domain service aum =
     rbind (service_id_parse service) (\<lambda>s.
     rbind (ok_or (parse_u128 aum) (Repository ''malformed consilium aum'')) (\<lambda>a.
     Inr \<lparr>vo_service = s, vo_aum = Usdt a\<rparr>))"

fun grant_into_domain :: "string \<Rightarrow> uuid \<Rightarrow> string \<Rightarrow> grant_terms result" where
  "grant_into_domain allocation user units =
     rbind (service_id_parse allocation) (\<lambda>s.
     rbind (ok_or (parse_u128 units) (Repository ''malformed consilium units'')) (\<lambda>u.
     grant_terms_new s user (Shares u)))"

fun seed_into_domain :: "string \<Rightarrow> string \<Rightarrow> string \<Rightarrow> uuid \<Rightarrow> seed_terms result" where
  "seed_into_domain tx network amount depositor =
     rbind (tx_ref_parse tx) (\<lambda>t.
     rbind (network_parse network) (\<lambda>n.
     rbind (ok_or (parse_u128 amount) (Repository ''malformed consilium amount'')) (\<lambda>a.
     seed_terms_new t n (Usdt a) depositor)))"

definition terms_of_stored :: "string \<Rightarrow> stored_terms \<Rightarrow> consilium_terms result" where
  "terms_of_stored kind stored =
     rbind (kind_parse kind) (\<lambda>k.
       case (k, stored) of
         (Payment_Kind, Stored_Payment s) \<Rightarrow> Inr (Payment_Subject s)
       | (ValuationOverride_Kind, Stored_Valuation service aum) \<Rightarrow>
           rmap Valuation_Override (valuation_into_domain service aum)
       | (FeePolicy_Kind, Stored_FeePolicy s) \<Rightarrow> Inr (Fee_Policy s)
       | (HolderGrant_Kind, Stored_HolderGrant allocation user units) \<Rightarrow>
           rmap Holder_Grant (grant_into_domain allocation user units)
       | (SeedCapital_Kind, Stored_SeedCapital tx network amount depositor) \<Rightarrow>
           rmap Seed_Capital (seed_into_domain tx network amount depositor)
       | _ \<Rightarrow> Inl (Repository SERDE_REFUSED))"

definition executed_effect :: "consilium_row \<Rightarrow> consilium_effect option" where
  "executed_effect row =
     (case cr_withdrawal row of
        Some i \<Rightarrow> Some (Effect_Withdrawal i)
      | None \<Rightarrow>
          (case cr_payment row of
             Some i \<Rightarrow> Some (Effect_Payment i)
           | None \<Rightarrow>
               (case cr_valuation row of
                  Some i \<Rightarrow> Some (Effect_Valuation i)
                | None \<Rightarrow>
                    (case cr_fee_change row of
                       Some i \<Rightarrow> Some (Effect_FeePolicy i)
                     | None \<Rightarrow>
                         (case cr_issuance row of
                            Some i \<Rightarrow> Some (Effect_Issuance i)
                          | None \<Rightarrow> map_option Effect_Subscription (cr_subscription row))))))"

text \<open>A vote counts only while its caster is an owner in good standing.\<close>

definition still_an_owner :: "user_row \<Rightarrow> bool" where
  "still_an_owner u \<longleftrightarrow> ur_role u = ''owner'' \<and> \<not> ur_frozen u \<and> ur_status u \<noteq> ''disabled''"

definition seats_of :: "gov_db \<Rightarrow> uuid \<Rightarrow> (voter_row \<times> user_row) list" where
  "seats_of db i =
     List.map_filter (\<lambda>v. map_option (\<lambda>u. (v, u)) (find_user db (vr_user v)))
       (sort_key vr_user (filter (\<lambda>v. vr_consilium v = i) (gd_voters db)))"

definition vote_of_seat :: "voter_row \<times> user_row \<Rightarrow> consilium_vote result" where
  "vote_of_seat seat =
     (case seat of (v, u) \<Rightarrow>
        rmap (\<lambda>d. \<lparr>cv_voter = vr_user v, cv_decision = d,
            cv_decided_at = (case vr_decided_at v of None \<Rightarrow> 0 | Some t \<Rightarrow> t), cv_counts = still_an_owner u\<rparr>)
          (decision_parse (vr_decision v)))"

definition rehydrate :: "consilium_row \<Rightarrow> (voter_row \<times> user_row) list \<Rightarrow> consilium result" where
  "rehydrate row seats =
     rbind (terms_of_stored (cr_kind row) (cr_terms row)) (\<lambda>terms.
     rbind (guard (length (cr_hash row) = DIGEST_BYTES)
              (Repository ''consilium payload_hash is not a sha-256 digest'')) (\<lambda>_.
     rbind (traverse vote_of_seat (filter (\<lambda>(v, u). vr_decision v \<noteq> decision_str Pending_Vote) seats)) (\<lambda>votes.
     rbind (consilium_state_parse (cr_state row)) (\<lambda>state.
       Inr \<lparr>cn_id = cr_id row, cn_terms = terms, cn_hash = cr_hash row, cn_initiator = cr_initiator row,
         cn_owner_count = cr_owner_count row, cn_threshold = cr_threshold row,
         cn_eligible = map (\<lambda>(v, u). vr_user v) seats, cn_votes = votes, cn_state = state,
         cn_created_at = cr_created_at row, cn_expires_at = cr_expires_at row, cn_decided_at = cr_decided_at row,
         cn_executed = executed_effect row, cn_failure = cr_failure row, cn_version = cr_version row,
         cn_pending = []\<rparr>))))"

definition find_row :: "gov_db \<Rightarrow> uuid \<Rightarrow> consilium_row option" where
  "find_row db i = List.find (\<lambda>r. cr_id r = i) (gd_consilia db)"

definition locked_consilium :: "gov_env \<Rightarrow> gov_db \<Rightarrow> uuid \<Rightarrow> (consilium \<times> (voter_row \<times> user_row) list) result" where
  "locked_consilium env db i =
     rbind (ok_or (find_row db i) (NotFound ''consilium'' (ge_show env i))) (\<lambda>row.
       let seats = seats_of db i in rmap (\<lambda>c. (c, seats)) (rehydrate row seats))"

definition email_of :: "gov_env \<Rightarrow> gov_db \<Rightarrow> uuid \<Rightarrow> string result" where
  "email_of env db i =
     rmap ur_email (ok_or (find_user db i)
       (Repository (''consilium initiator '' @ ge_show env i @ '' has no mirrored user row'')))"

text \<open>Writing a transition and its events.\<close>

definition log_events :: "('e \<Rightarrow> logged_event) \<Rightarrow> ('e \<Rightarrow> bool) \<Rightarrow> 'e list \<Rightarrow> gov_db \<Rightarrow> gov_db" where
  "log_events tag relays events db =
     db\<lparr>gd_event_log := gd_event_log db @ map tag events,
       gd_outbox := gd_outbox db @ map tag (filter relays events)\<rparr>"

definition row_with :: "consilium \<Rightarrow> consilium_row \<Rightarrow> consilium_row" where
  "row_with c row =
     row\<lparr>cr_state := consilium_state_str (cn_state c), cr_decided_at := cn_decided_at c,
       cr_withdrawal := consilium_withdrawal_id c, cr_payment := executed_payment_id c,
       cr_valuation := executed_valuation_id c, cr_fee_change := executed_fee_policy_change_id c,
       cr_issuance := executed_issuance_id c, cr_subscription := executed_subscription_id c,
       cr_failure := cn_failure c, cr_version := cn_version c\<rparr>"

definition persist :: "consilium \<Rightarrow> gov_db \<Rightarrow> gov_db result" where
  "persist c db =
     (if find_row db (cn_id c) = None then Inl (Repository ''consilium row vanished under lock'')
      else Inr (log_events Consilium_Event (\<lambda>_. False) (cn_pending c)
        (db\<lparr>gd_consilia := map (\<lambda>r. if cr_id r = cn_id c then row_with c r else r) (gd_consilia db)\<rparr>)))"

section \<open>The subject a verdict closes\<close>

definition payment_locked :: "gov_env \<Rightarrow> gov_db \<Rightarrow> uuid \<Rightarrow> payment_order result" where
  "payment_locked env db i =
     ok_or (List.find (\<lambda>p. po_id p = i) (gd_orders db)) (NotFound ''payment'' (ge_show env i))"

definition persist_order :: "payment_order \<Rightarrow> gov_db \<Rightarrow> gov_db result" where
  "persist_order o1 db =
     (if List.find (\<lambda>p. po_id p = po_id o1) (gd_orders db) = None
      then Inl (Repository ''payment row vanished under lock'')
      else Inr (log_events Order_Event payment_relays (po_pending o1)
        (db\<lparr>gd_orders := map (\<lambda>p. if po_id p = po_id o1 then o1\<lparr>po_pending := []\<rparr> else p) (gd_orders db)\<rparr>)))"

definition reject_order_on :: "gov_env \<Rightarrow> uuid \<Rightarrow> i64 \<Rightarrow> gov_db \<Rightarrow> (gov_db \<times> payment_order) result" where
  "reject_order_on env i at db =
     rbind (payment_locked env db i) (\<lambda>o1.
       if payment_is_pending (po_state o1)
       then rbind (payment_reject o1 at) (\<lambda>o2. rmap (\<lambda>db. (db, o2)) (persist_order o2 db))
       else Inr (db, o1))"

definition reject_change_on :: "uuid \<Rightarrow> uuid \<Rightarrow> string \<Rightarrow> gov_db \<Rightarrow> gov_db" where
  "reject_change_on change consilium_id reason db =
     db\<lparr>gd_fee_changes := map (\<lambda>r. if fr_id r = change \<and> fr_consilium r = Some consilium_id \<and> fr_state r = ''awaiting_consilium''
        then r\<lparr>fr_state := ''rejected'', fr_closed_reason := Some reason\<rparr> else r) (gd_fee_changes db)\<rparr>"

definition close_decided_subject :: "gov_env \<Rightarrow> consilium \<Rightarrow> i64 \<Rightarrow> gov_db \<Rightarrow> gov_db result" where
  "close_decided_subject env c at db =
     (case cn_terms c of
        Payment_Subject s \<Rightarrow> rmap fst (reject_order_on env (ps_payment s) at db)
      | Fee_Policy s \<Rightarrow> Inr (reject_change_on (fs_change_id s) (cn_id c)
          (''the owners' consilium ended '' @ consilium_state_str (cn_state c)) db)
      | _ \<Rightarrow> Inr db)"

section \<open>Telling the audience\<close>

definition allocation_title :: "gov_db \<Rightarrow> service_id \<Rightarrow> string option" where
  "allocation_title db s = map_of (gd_titles db) (service_id_str s)"

definition holder_count :: "gov_db \<Rightarrow> service_id \<Rightarrow> u32" where
  "holder_count db s =
     (let n = length (filter (\<lambda>p. pr_service p = service_id_str s \<and> pr_units p \<noteq> ''0'') (gd_positions db))
      in if n < 2 ^ 32 then word_of_nat n else - 1)"

definition mailbox_of :: "gov_db \<Rightarrow> uuid \<Rightarrow> end_detail option" where
  "mailbox_of db u = map_option (\<lambda>r. Mailbox (ur_email r)) (find_user db u)"

definition detail_of :: "gov_db \<Rightarrow> payment_destination \<Rightarrow> end_detail option" where
  "detail_of db to =
     (case destination_party to of
        Some (User_Party u) \<Rightarrow> mailbox_of db u
      | Some (Service_Party s) \<Rightarrow> map_option ProductTitle (allocation_title db s)
      | _ \<Rightarrow> None)"

definition subject_detail_of :: "gov_db \<Rightarrow> consilium \<Rightarrow> subject_detail" where
  "subject_detail_of db c =
     (case cn_terms c of
        Payment_Subject s \<Rightarrow> Detail_Payment (detail_of db (pt_to (ps_terms s)))
      | Valuation_Override t \<Rightarrow> Detail_Valuation (map_option ProductTitle (allocation_title db (vo_service t)))
      | Fee_Policy s \<Rightarrow> Detail_FeePolicy
          \<lparr>fd_allocation_name = (case allocation_title db (fs_service s) of None \<Rightarrow> '''' | Some t \<Rightarrow> t),
            fd_holder_count = holder_count db (fs_service s)\<rparr>
      | Holder_Grant t \<Rightarrow> Detail_HolderGrant (mailbox_of db (hg_user t))
      | Seed_Capital t \<Rightarrow> Detail_SeedCapital (mailbox_of db (sc_depositor t)))"

definition to_ascii_uppercase :: "string \<Rightarrow> string" where
  "to_ascii_uppercase = map (\<lambda>c. if 97 \<le> byte c \<and> byte c \<le> 122 then char_of (byte c - 32) else c)"

definition audience :: "consilium \<Rightarrow> uuid list" where
  "audience c = cn_initiator c # cn_eligible c"

definition announce :: "gov_env \<Rightarrow> int \<Rightarrow> consilium \<Rightarrow> string \<Rightarrow> gov_db \<Rightarrow> gov_db result" where
  "announce env now c detail db =
     (if \<not> announces_by_mail (cn_terms c) then Inr db
      else
        let mail = Mail_PayoutOutcome (outcome_of (ge_show env) c
              (to_ascii_uppercase (consilium_state_str (cn_state c))) detail (subject_detail_of db c))
        in fold_result (\<lambda>recipient.
             enqueue now (Subject_Consilium (cn_id c)) recipient
               (''consilium:'' @ ge_show env (cn_id c) @ '':outcome:'' @ consilium_state_str (cn_state c) @ '':'' @
                ge_show env recipient) mail) (audience c) db)"

definition announce_burn :: "gov_env \<Rightarrow> int \<Rightarrow> consilium \<Rightarrow> uuid \<Rightarrow> gov_db \<Rightarrow> gov_db result" where
  "announce_burn env now c voter db =
     (if \<not> announces_by_mail (cn_terms c) then Inr db
      else
        let mail = Mail_TokenBurned ((outcome_of (ge_show env) c ''TOKEN_BURNED''
              (''five failed code attempts burned the approval token for seat '' @ ge_show env voter)
              (subject_detail_of db c))\<lparr>om_reason := ''''\<rparr>)
        in fold_result (\<lambda>recipient.
             enqueue now (Subject_Consilium (cn_id c)) recipient
               (''consilium:'' @ ge_show env (cn_id c) @ '':burn:'' @ ge_show env voter @ '':'' @ ge_show env recipient)
               mail) (audience c) db)"

section \<open>Opening\<close>

text \<open>One open consilium per source claim, and one row per id: the unique indexes.\<close>

definition insert_consilium :: "consilium_row \<Rightarrow> gov_db \<Rightarrow> gov_db result" where
  "insert_consilium row db =
     (if list_ex (\<lambda>r. cr_id r = cr_id row \<or> (cr_state r = ''open'' \<and> cr_state row = ''open'' \<and>
            cr_source_claim r = cr_source_claim row)) (gd_consilia db)
      then Inl (Conflict (''a consilium is already open '' @ em_dash @ '' cancel it before opening another''))
      else if find_user db (cr_initiator row) = None then Inl (Repository DB_REFUSED)
      else Inr (db\<lparr>gd_consilia := gd_consilia db @ [row]\<rparr>))"

text \<open>A seat names a user, is not the initiator's, and its token and its place are its own.\<close>

definition insert_voter :: "voter_row \<Rightarrow> gov_db \<Rightarrow> gov_db result" where
  "insert_voter v db =
     (if find_user db (vr_user v) = None \<or> vr_user v = vr_initiator v \<or>
        list_ex (\<lambda>w. (vr_consilium w = vr_consilium v \<and> vr_user w = vr_user v) \<or> vr_token_hash w = vr_token_hash v)
          (gd_voters db)
      then Inl (Repository DB_REFUSED) else Inr (db\<lparr>gd_voters := gd_voters db @ [v]\<rparr>))"

definition seat_credential ::
  "gov_env \<Rightarrow> int \<Rightarrow> consilium \<Rightarrow> string \<Rightarrow> subject_detail \<Rightarrow> voter_credential \<Rightarrow> gov_db \<Rightarrow> gov_db result" where
  "seat_credential env now c initiator_email detail credential db =
     rbind (insert_voter \<lparr>vr_consilium = cn_id c, vr_user = vc_user credential, vr_initiator = cn_initiator c,
         vr_decision = ''pending'', vr_decided_at = None, vr_notified = False, vr_token_hash = vc_token_hash credential,
         vr_code_hash = vc_code_hash credential, vr_attempts = 0, vr_burned_at = None, vr_expires_at = cn_expires_at c,
         vr_used_at = None, vr_client_ip = None, vr_user_agent = None, vr_hash = None\<rparr> db)
       (enqueue now (Subject_Consilium (cn_id c)) (vc_user credential)
         (''consilium:'' @ ge_show env (cn_id c) @ '':approval:'' @ ge_show env (vc_user credential))
         (approval_mail (ge_show env) c initiator_email credential (ge_url env) detail))"

definition consilium_row_of :: "gov_env \<Rightarrow> int \<Rightarrow> consilium \<Rightarrow> consilium_row" where
  "consilium_row_of env now c =
     \<lparr>cr_id = cn_id c, cr_kind = kind_str (terms_kind (cn_terms c)), cr_state = consilium_state_str (cn_state c),
       cr_terms = stored_of (cn_terms c), cr_source_claim = logical_key (ge_show env) (terms_source_claim (cn_terms c)),
       cr_hash = cn_hash c, cr_initiator = cn_initiator c, cr_owner_count = cn_owner_count c,
       cr_threshold = cn_threshold c, cr_created_at = word_of_int now, cr_expires_at = cn_expires_at c,
       cr_decided_at = None, cr_withdrawal = None, cr_payment = None, cr_valuation = None, cr_fee_change = None,
       cr_issuance = None, cr_subscription = None, cr_failure = None, cr_version = cn_version c\<rparr>"

definition open_on :: "gov_env \<Rightarrow> int \<Rightarrow> consilium \<Rightarrow> voter_credential list \<Rightarrow> gov_db \<Rightarrow> gov_db result" where
  "open_on env now c credentials db =
     rbind (email_of env db (cn_initiator c)) (\<lambda>initiator_email.
       let detail = subject_detail_of db c in
       rbind (insert_consilium (consilium_row_of env now c) db) (\<lambda>db.
       rbind (fold_result (seat_credential env now c initiator_email detail) credentials db) (\<lambda>db.
         Inr (log_events Consilium_Event (\<lambda>_. False) (cn_pending c) db))))"

text \<open>A seat's secrets, from the operating system's randomness (\<^verbatim>\<open>application/credentials.rs\<close>).\<close>

definition CODE_ALPHABET :: string where
  "CODE_ALPHABET = ''0123456789ABCDEFGHJKMNPQRSTVWXYZ''"

definition token_digest :: "gov_env \<Rightarrow> string \<Rightarrow> string" where
  "token_digest env token = ge_digest env token"

definition mint_credential :: "gov_env \<Rightarrow> (uuid \<Rightarrow> string \<times> string) \<Rightarrow> uuid \<Rightarrow> voter_credential" where
  "mint_credential env randomness user =
     (let (token_bytes, code_bytes) = randomness user;
          token = hex32 token_bytes;
          code = map (\<lambda>b. CODE_ALPHABET ! (byte b mod 32)) code_bytes
      in \<lparr>vc_user = user, vc_token = token, vc_code = code, vc_token_hash = ge_digest env token,
           vc_code_hash = ge_digest env code\<rparr>)"

definition owner_roster :: "gov_db \<Rightarrow> uuid list" where
  "owner_roster db = sort (map ur_id (filter (\<lambda>u. ur_role u = ''owner'') (gd_users db)))"

section \<open>Views\<close>

definition invitation_not_found :: domain_error where
  "invitation_not_found = NotFound ''invitation'' ''''"

definition wrong_code :: "string \<Rightarrow> domain_error" where
  "wrong_code message = Validation message"

record invitation_view =
  iv_consilium :: uuid
  iv_state :: consilium_state
  iv_terms :: consilium_terms
  iv_fee_policy :: "fee_policy_detail option"
  iv_hash :: string
  iv_initiator :: string
  iv_voter :: string
  iv_threshold :: u32
  iv_approvals :: u32
  iv_owner_count :: u32
  iv_created_at :: i64
  iv_expires_at :: i64
  iv_decision :: vote_decision
  iv_attempts_remaining :: u32

definition invitation_of ::
  "consilium \<Rightarrow> string \<Rightarrow> voter_row \<times> user_row \<Rightarrow> vote_decision \<Rightarrow> fee_policy_detail option \<Rightarrow> invitation_view" where
  "invitation_of c initiator_email seat decision fee_policy =
     (case seat of (v, u) \<Rightarrow>
       \<lparr>iv_consilium = cn_id c, iv_state = cn_state c, iv_terms = cn_terms c, iv_fee_policy = fee_policy,
         iv_hash = hex32 (cn_hash c), iv_initiator = initiator_email, iv_voter = ur_email u,
         iv_threshold = cn_threshold c, iv_approvals = approvals c, iv_owner_count = cn_owner_count c,
         iv_created_at = cn_created_at c, iv_expires_at = cn_expires_at c, iv_decision = decision,
         iv_attempts_remaining = word_of_int (max (MAX_CODE_ATTEMPTS - vr_attempts v) 0)\<rparr>)"

record voter_view =
  vw_user :: uuid
  vw_email :: string
  vw_decision :: vote_decision
  vw_decided_at :: i64
  vw_notified :: bool

record consilium_view =
  cw_consilium :: consilium
  cw_initiator :: string
  cw_voters :: "voter_view list"
  cw_fee_policy :: "fee_policy_detail option"

definition view_of ::
  "consilium \<Rightarrow> string \<Rightarrow> (voter_row \<times> user_row) list \<Rightarrow> fee_policy_detail option \<Rightarrow> consilium_view result" where
  "view_of c initiator_email seats fee_policy =
     rmap (\<lambda>voters. \<lparr>cw_consilium = c, cw_initiator = initiator_email, cw_voters = voters, cw_fee_policy = fee_policy\<rparr>)
       (traverse (\<lambda>(v, u).
          rmap (\<lambda>d. \<lparr>vw_user = vr_user v, vw_email = ur_email u, vw_decision = d,
              vw_decided_at = (case vr_decided_at v of None \<Rightarrow> 0 | Some t \<Rightarrow> t), vw_notified = vr_notified v\<rparr>)
            (decision_parse (vr_decision v))) seats)"

definition fee_policy_detail_of :: "gov_db \<Rightarrow> consilium \<Rightarrow> fee_policy_detail option" where
  "fee_policy_detail_of db c = detail_fee_policy (subject_detail_of db c)"

definition find_view :: "gov_env \<Rightarrow> gov_db \<Rightarrow> uuid \<Rightarrow> consilium_view option result" where
  "find_view env db i =
     (case find_row db i of
        None \<Rightarrow> Inr None
      | Some row \<Rightarrow>
          let seats = seats_of db i in
          rbind (rehydrate row seats) (\<lambda>c.
          rbind (email_of env db (cn_initiator c)) (\<lambda>email.
          rmap Some (view_of c email seats (fee_policy_detail_of db c)))))"

text \<open>The seat a token opens, with its user (\<^verbatim>\<open>token_query!\<close>).\<close>

definition token_seat :: "gov_db \<Rightarrow> string \<Rightarrow> (voter_row \<times> user_row) option" where
  "token_seat db token_hash =
     Option.bind (List.find (\<lambda>v. vr_token_hash v = token_hash) (gd_voters db)) (\<lambda>v.
       if find_row db (vr_consilium v) = None then None
       else map_option (\<lambda>u. (v, u)) (find_user db (vr_user v)))"

definition invitation :: "gov_env \<Rightarrow> string \<Rightarrow> i64 \<Rightarrow> gov_db \<Rightarrow> invitation_view result" where
  "invitation env token_hash at db =
     (case token_seat db token_hash of
        None \<Rightarrow> Inl invitation_not_found
      | Some seat \<Rightarrow>
          let v = fst seat in
          rbind (ok_or (find_row db (vr_consilium v)) invitation_not_found) (\<lambda>row.
          rbind (rehydrate row (seats_of db (vr_consilium v))) (\<lambda>c.
            if vr_burned_at v \<noteq> None \<or> vr_used_at v \<noteq> None \<or> sint (vr_expires_at v) \<le> sint at \<or>
               \<not> consilium_is_open (cn_state c)
            then Inl invitation_not_found
            else
              rbind (email_of env db (cn_initiator c)) (\<lambda>email.
                Inr (invitation_of c email seat Pending_Vote (fee_policy_detail_of db c))))))"

section \<open>Voting\<close>

record vote_audit =
  va_client_ip :: string
  va_user_agent :: string

record submit_outcome =
  so_invitation :: invitation_view
  so_decided :: bool
  so_approved :: bool

definition update_voter :: "voter_row \<Rightarrow> (voter_row \<Rightarrow> voter_row) \<Rightarrow> gov_db \<Rightarrow> gov_db" where
  "update_voter seat f db =
     db\<lparr>gd_voters := map (\<lambda>v. if vr_consilium v = vr_consilium seat \<and> vr_user v = vr_user seat then f v else v) (gd_voters db)\<rparr>"

text \<open>The answer once the code is right: the vote, the tally, the verdict's cascade.\<close>

definition cast_vote ::
  "gov_env \<Rightarrow> int \<Rightarrow> consilium \<Rightarrow> voter_row \<times> user_row \<Rightarrow> vote_decision \<Rightarrow> string \<Rightarrow> fee_policy_detail option \<Rightarrow>
     vote_decision \<Rightarrow> vote_audit \<Rightarrow> i64 \<Rightarrow> gov_db \<Rightarrow> (gov_db \<times> submit_outcome) result" where
  "cast_vote env now c seat already initiator_email fee_policy decision audit at db =
     (let v = fst seat in
      rbind (record_vote c (vr_user v) decision at) (\<lambda>c'.
        if cn_version c' = cn_version c
        then Inr (db, \<lparr>so_invitation = invitation_of c' initiator_email seat already fee_policy, so_decided = False,
                        so_approved = False\<rparr>)
        else
          let db = update_voter v (\<lambda>w. w\<lparr>vr_decision := decision_str decision, vr_decided_at := Some at,
                vr_used_at := Some at, vr_client_ip := Some (va_client_ip audit),
                vr_user_agent := Some (va_user_agent audit), vr_hash := Some (cn_hash c')\<rparr>) db;
              decided = (\<not> consilium_is_open (cn_state c'));
              approved = (cn_state c' = Approved_Consilium) in
          rbind (persist c' db) (\<lambda>db.
          rbind (if decided \<and> \<not> approved
                 then rbind (close_decided_subject env c' at db)
                   (announce env now c' ''the threshold can no longer be reached'')
                 else Inr db) (\<lambda>db.
          Inr (db, \<lparr>so_invitation = invitation_of c' initiator_email seat decision fee_policy, so_decided = decided,
                     so_approved = approved\<rparr>)))))"

definition submit ::
  "gov_env \<Rightarrow> int \<Rightarrow> string \<Rightarrow> string \<Rightarrow> vote_decision \<Rightarrow> vote_audit \<Rightarrow> i64 \<Rightarrow> gov_db \<Rightarrow> gov_db \<times> submit_outcome result" where
  "submit env now token_hash code decision audit at db =
     (case List.find (\<lambda>v. vr_token_hash v = token_hash) (gd_voters db) of
        None \<Rightarrow> (db, Inl invitation_not_found)
      | Some probe \<Rightarrow>
          try_tx db (locked_consilium env db (vr_consilium probe)) (\<lambda>(c, seats).
          try_tx db (ok_or (token_seat db token_hash) invitation_not_found) (\<lambda>(v, u).
          try_tx db (decision_parse (vr_decision v)) (\<lambda>already.
          try_tx db (email_of env db (cn_initiator c)) (\<lambda>initiator_email.
            let fee_policy = fee_policy_detail_of db c in
            if vr_burned_at v \<noteq> None \<or> sint (vr_expires_at v) \<le> sint at then (db, Inl invitation_not_found)
            else if \<not> consilium_is_open (cn_state c) \<and> already = Pending_Vote then (db, Inl invitation_not_found)
            else
              let correct = (ge_digest env code = vr_code_hash v) in
              if already = Pending_Vote then
                let attempts = min (vr_attempts v + 1) MAX_CODE_ATTEMPTS;
                    charged = update_voter v (\<lambda>w. w\<lparr>vr_attempts := attempts\<rparr>) db;
                    seat = v\<lparr>vr_attempts := attempts\<rparr> in
                if \<not> correct then
                  if MAX_CODE_ATTEMPTS \<le> attempts then
                    try_tx db (announce_burn env now c (vr_user v)
                        (update_voter v (\<lambda>w. w\<lparr>vr_burned_at := Some now\<rparr>) charged))
                      (\<lambda>burned. (burned, Inl invitation_not_found))
                  else (charged, Inl (wrong_code (''incorrect code '' @ em_dash @ '' '' @
                    show_nat (nat (MAX_CODE_ATTEMPTS - attempts)) @ '' attempts remaining'')))
                else
                  try_tx db (cast_vote env now c (seat, u) already initiator_email fee_policy decision audit at charged)
                    (\<lambda>(voted, outcome). (voted, Inr outcome))
              else if \<not> correct then (db, Inl (wrong_code ''incorrect code''))
              else
                try_tx db (cast_vote env now c (v, u) already initiator_email fee_policy decision audit at db)
                  (\<lambda>(voted, outcome). (voted, Inr outcome)))))))"

section \<open>Closing without a verdict\<close>

text \<open>The tail every such path shares: write the transition, close the subject, tell the audience.\<close>

definition close_on :: "gov_env \<Rightarrow> int \<Rightarrow> consilium \<Rightarrow> string \<Rightarrow> i64 \<Rightarrow> gov_db \<Rightarrow> gov_db result" where
  "close_on env now c detail at db =
     rbind (persist c db) (\<lambda>db.
     rbind (close_decided_subject env c at db) (announce env now c detail))"

definition expire_one :: "gov_env \<Rightarrow> int \<Rightarrow> uuid \<Rightarrow> i64 \<Rightarrow> gov_db \<Rightarrow> gov_db \<times> bool result" where
  "expire_one env now i at db =
     (let taken = fst (withdraw_undelivered_invitations now i db) in
      try_tx db (locked_consilium env taken i) (\<lambda>(c, seats).
        if \<not> consilium_is_open (cn_state c) then (db, Inr False)
        else
          try_tx db (consilium_expire c at) (\<lambda>c.
          try_tx db (close_on env now c ''the window closed with no verdict'' at taken) (\<lambda>closed. (closed, Inr True)))))"

definition ROSTER_CHANGED_DETAIL :: string where
  "ROSTER_CHANGED_DETAIL = ''the owner roster changed while this request was open, so it was voided; '' @
     ''it may be proposed again after the cooling-off period''"

definition void_one :: "gov_env \<Rightarrow> int \<Rightarrow> uuid \<Rightarrow> i64 \<Rightarrow> gov_db \<Rightarrow> gov_db \<times> bool result" where
  "void_one env now i at db =
     (let taken = fst (withdraw_undelivered_invitations now i db) in
      try_tx db (locked_consilium env taken i) (\<lambda>(c, seats).
        if \<not> consilium_is_open (cn_state c) then (db, Inr False)
        else
          try_tx db (consilium_cancel c at) (\<lambda>c.
          try_tx db (close_on env now c ROSTER_CHANGED_DETAIL at taken) (\<lambda>closed. (closed, Inr True)))))"

definition withdraw_on :: "gov_env \<Rightarrow> int \<Rightarrow> uuid \<Rightarrow> i64 \<Rightarrow> gov_db \<Rightarrow> (gov_db \<times> bool) result" where
  "withdraw_on env now i at db =
     (let taken = fst (withdraw_undelivered_invitations now i db) in
      rbind (locked_consilium env taken i) (\<lambda>(c, seats).
        if \<not> consilium_is_open (cn_state c) then Inr (taken, False)
        else
          rbind (consilium_cancel c at) (\<lambda>c.
          rmap (\<lambda>closed. (closed, True)) (close_on env now c ''withdrawn together with the request it decided'' at taken))))"

definition cancel :: "gov_env \<Rightarrow> int \<Rightarrow> uuid \<Rightarrow> uuid \<Rightarrow> i64 \<Rightarrow> gov_db \<Rightarrow> gov_db \<times> consilium_view result" where
  "cancel env now i who at db =
     (let taken = fst (withdraw_undelivered_invitations now i db) in
      try_tx db (locked_consilium env taken i) (\<lambda>(c, seats).
        if cn_initiator c \<noteq> who
        then (db, Inl (Forbidden ''only the owner who opened this consilium may withdraw it''))
        else
          try_tx db (consilium_cancel c at) (\<lambda>c.
          try_tx db (close_on env now c ''withdrawn by the owner who opened it'' at taken) (\<lambda>closed.
          try_tx db (email_of env closed (cn_initiator c)) (\<lambda>email.
            (closed, view_of c email seats (fee_policy_detail_of closed c)))))))"

text \<open>The sweeps: a row that fails is left for the next pass.\<close>

fun sweep_each :: "(uuid \<Rightarrow> gov_db \<Rightarrow> gov_db \<times> bool result) \<Rightarrow> uuid list \<Rightarrow> gov_db \<Rightarrow> gov_db \<times> nat" where
  "sweep_each f [] db = (db, 0)"
| "sweep_each f (i # ids) db =
     (case f i db of
        (db, r) \<Rightarrow>
          (case sweep_each f ids db of
             (db, n) \<Rightarrow> (db, (case r of Inr True \<Rightarrow> n + 1 | Inr False \<Rightarrow> n | Inl _ \<Rightarrow> n))))"

definition expire_due :: "gov_env \<Rightarrow> int \<Rightarrow> i64 \<Rightarrow> gov_db \<Rightarrow> gov_db \<times> nat" where
  "expire_due env now at db =
     sweep_each (\<lambda>i. expire_one env now i at)
       (map cr_id (filter (\<lambda>r. cr_state r = ''open'' \<and> sint (cr_expires_at r) \<le> sint at) (gd_consilia db))) db"

definition last_roster_change_at :: "gov_db \<Rightarrow> i64 option" where
  "last_roster_change_at db =
     (case gd_roster_changes db of [] \<Rightarrow> None | t # ts \<Rightarrow> Some (word_of_int (fold max (map sint ts) (sint t))))"

definition void_open_for_roster_change :: "gov_env \<Rightarrow> int \<Rightarrow> i64 \<Rightarrow> i64 \<Rightarrow> gov_db \<Rightarrow> gov_db \<times> nat" where
  "void_open_for_roster_change env now changed_at at db =
     sweep_each (\<lambda>i. void_one env now i at)
       (map cr_id (filter (\<lambda>r. cr_state r = ''open'' \<and> sint (cr_created_at r) < sint changed_at + 1) (gd_consilia db))) db"

section \<open>Recording an execution\<close>

datatype execution_outcome = Executed_Effect consilium_effect | Failed_Execution string

definition effect_detail :: "(uuid \<Rightarrow> string) \<Rightarrow> consilium_effect \<Rightarrow> string" where
  "effect_detail show_uuid effect =
     (case effect of
        Effect_Withdrawal i \<Rightarrow> ''payout '' @ show_uuid i @ '' created''
      | Effect_Payment i \<Rightarrow> ''payment '' @ show_uuid i @ '' approved''
      | Effect_Valuation i \<Rightarrow> ''valuation '' @ show_uuid i @ '' recorded''
      | Effect_FeePolicy i \<Rightarrow> ''fee-policy change '' @ show_uuid i @ '' scheduled''
      | Effect_Issuance i \<Rightarrow> ''issuance '' @ show_uuid i @ '' minted''
      | Effect_Subscription i \<Rightarrow> ''fund subscription '' @ show_uuid i @ '' opened'')"

definition record_execution ::
  "gov_env \<Rightarrow> int \<Rightarrow> uuid \<Rightarrow> execution_outcome \<Rightarrow> i64 \<Rightarrow> gov_db \<Rightarrow> gov_db \<times> consilium_view result" where
  "record_execution env now i outcome at db =
     try_tx db (locked_consilium env db i) (\<lambda>(c, seats).
     try_tx db (case outcome of
          Executed_Effect effect \<Rightarrow> rmap (\<lambda>c. (c, effect_detail (ge_show env) effect)) (mark_executed c effect at)
        | Failed_Execution reason \<Rightarrow> rmap (\<lambda>c. (c, reason)) (mark_execution_failed c reason at)) (\<lambda>(c, detail).
     try_tx db (persist c db) (\<lambda>db1.
     try_tx db (if cn_state c = ExecutionFailed_Consilium then close_decided_subject env c at db1 else Inr db1) (\<lambda>db2.
     try_tx db (announce env now c detail db2) (\<lambda>db3.
     try_tx db (email_of env db3 (cn_initiator c)) (\<lambda>email.
       (db3, view_of c email seats (fee_policy_detail_of db3 c))))))))"

end
