(* ===== verification/ConsiliumUse.thy ===== *)
theory ConsiliumUse
  imports ConsiliumStore
begin

text \<open>
  The consilium's use cases (\<^verbatim>\<open>application/consilium.rs\<close>): the gates an opening passes, the opening
  itself, the read and vote entry points, and the execution that spends an approval.  What an
  approval is spent on belongs to the component its terms name: the effect is an argument of
  \<open>execute\<close>, as are the ledger and the randomness of the seats' secrets.
\<close>

section \<open>Opening\<close>

definition ROSTER_COOLING_OFF_SECS :: i64 where
  "ROSTER_COOLING_OFF_SECS = 48 * 60 * 60"

definition cooling_off_refusal :: "consilium_kind \<Rightarrow> i64 \<Rightarrow> domain_error" where
  "cooling_off_refusal kind remaining_secs =
     (let hours = sint remaining_secs div 3600;
          minutes = (sint remaining_secs mod 3600) div 60
      in Conflict (''the owner roster changed less than '' @
           show_i64 (word_of_int (sint ROSTER_COOLING_OFF_SECS div 3600)) @ ''h ago; a '' @ kind_noun kind @
           '' consilium cannot be opened until the cooling-off period lifts in '' @ show_i64 (word_of_int hours) @
           ''h '' @ show_i64 (word_of_int minutes) @ ''m''))"

definition require_settled_roster :: "gov_db \<Rightarrow> consilium_kind \<Rightarrow> i64 \<Rightarrow> unit result" where
  "require_settled_roster db kind now =
     (case last_roster_change_at db of
        None \<Rightarrow> Inr ()
      | Some changed_at \<Rightarrow>
          let lifts_at = i64_saturating_add changed_at ROSTER_COOLING_OFF_SECS in
          if sint lifts_at \<le> sint now then Inr () else Inl (cooling_off_refusal kind (lifts_at - now)))"

definition require_governance_mail :: "bool \<Rightarrow> unit result" where
  "require_governance_mail wired =
     (if wired then Inr ()
      else Inl (Conflict (''governance mail is not configured, so no owner could be sent an approval token; '' @
        ''a consilium opened now could never be voted on. Build with the `concierge_governance_mail` feature and '' @
        ''configure the concierge mail relay first.'')))"

definition find_consilium :: "gov_env \<Rightarrow> gov_db \<Rightarrow> uuid \<Rightarrow> consilium_view result" where
  "find_consilium env db i =
     rbind (find_view env db i) (\<lambda>view. ok_or view (NotFound ''consilium'' (ge_show env i)))"

text \<open>The roster, the hash, the aggregate, the seats' secrets, the write: every opening ends so.\<close>

definition open_and_seat ::
  "gov_env \<Rightarrow> (uuid \<Rightarrow> string \<times> string) \<Rightarrow> int \<Rightarrow> uuid \<Rightarrow> uuid \<Rightarrow> consilium_terms \<Rightarrow> i64 \<Rightarrow> gov_db \<Rightarrow>
     gov_db \<times> consilium_view result" where
  "open_and_seat env randomness db_now i initiator terms now db =
     (let owners = owner_roster db;
          payload_hash = ge_digest env (consilium_bytes (ge_show env) terms) in
      try_tx db (consilium_open i terms payload_hash initiator owners now) (\<lambda>c.
        let credentials = map (mint_credential env randomness) (cn_eligible c) in
        try_tx db (open_on env db_now c credentials db) (\<lambda>opened. (opened, find_consilium env opened (cn_id c)))))"

definition refuse_mark_on_reserved :: "service_id \<Rightarrow> unit result" where
  "refuse_mark_on_reserved service =
     (if service_is_reserved service
      then Inl (Validation ([CHR 0x27] @ service_id_str service @ [CHR 0x27] @
        '' is a reserved allocation: its price is computed from what it holds and cannot be marked''))
      else Inr ())"

definition allocation_get :: "gov_db \<Rightarrow> service_id \<Rightarrow> unit result" where
  "allocation_get db service =
     (if allocation_title db service = None then Inl (NotFound ''allocation'' (service_id_str service)) else Inr ())"

definition open_valuation_override ::
  "gov_env \<Rightarrow> (uuid \<Rightarrow> string \<times> string) \<Rightarrow> (account_key \<Rightarrow> u128 result) \<Rightarrow> int \<Rightarrow> uuid \<Rightarrow> uuid \<Rightarrow> valuation_terms \<Rightarrow> i64 \<Rightarrow>
     gov_db \<Rightarrow> gov_db \<times> consilium_view result" where
  "open_valuation_override env randomness ledger_posted db_now i initiator terms now db =
     try_tx db (require_governance_mail (ge_mail_wired env)) (\<lambda>_.
     try_tx db (require_settled_roster db ValuationOverride_Kind now) (\<lambda>_.
     try_tx db (refuse_mark_on_reserved (vo_service terms)) (\<lambda>_.
     try_tx db (allocation_get db (vo_service terms)) (\<lambda>_.
     try_tx db (ledger_posted (SharesOutstanding (vo_service terms))) (\<lambda>posted.
     try_tx db (nav_from_aum (vo_aum terms) (Shares posted)) (\<lambda>_.
       open_and_seat env randomness db_now i initiator (Valuation_Override terms) now db))))))"

text \<open>The person a grant or a seed seats.\<close>

definition require_active_user :: "gov_env \<Rightarrow> gov_db \<Rightarrow> uuid \<Rightarrow> unit result" where
  "require_active_user env db user =
     (case find_user db user of
        None \<Rightarrow> Inl (NotFound ''user'' (ge_show env user))
      | Some row \<Rightarrow>
          if ur_status row \<noteq> ''active''
          then Inl (Precondition (''user '' @ ge_show env user @ '' is not active, so they cannot be seated as a holder''))
          else Inr ())"

section \<open>Reading and voting\<close>

definition list_views :: "gov_env \<Rightarrow> nat \<Rightarrow> gov_db \<Rightarrow> consilium_view list result" where
  "list_views env limit db =
     traverse (\<lambda>row.
       let seats = seats_of db (cr_id row) in
       rbind (rehydrate row seats) (\<lambda>c.
       rbind (email_of env db (cn_initiator c)) (\<lambda>email.
         view_of c email seats (fee_policy_detail_of db c))))
       (take limit (rev (sort_key (\<lambda>r. sint (cr_created_at r)) (gd_consilia db))))"

definition open_invitation :: "gov_env \<Rightarrow> string \<Rightarrow> i64 \<Rightarrow> gov_db \<Rightarrow> invitation_view result" where
  "open_invitation env token now db = invitation env (token_digest env token) now db"

definition submit_decision ::
  "gov_env \<Rightarrow> int \<Rightarrow> string \<Rightarrow> string \<Rightarrow> vote_decision \<Rightarrow> vote_audit \<Rightarrow> i64 \<Rightarrow> gov_db \<Rightarrow> gov_db \<times> submit_outcome result" where
  "submit_decision env db_now token code decision audit now db =
     submit env db_now (token_digest env token) code decision audit now db"

section \<open>Execution\<close>

definition EXECUTION_GRACE_SECS :: i64 where
  "EXECUTION_GRACE_SECS = 24 * 60 * 60"

definition failure_reason :: "domain_error \<Rightarrow> string" where
  "failure_reason err =
     (case err of
        Repository _ \<Rightarrow> ''the payout could not be created because of an internal error; an operator has been alerted''
      | _ \<Rightarrow> error_display err)"

definition awaiting_execution :: "gov_db \<Rightarrow> uuid list" where
  "awaiting_execution db =
     map cr_id (sort_key (\<lambda>r. sint (cr_created_at r)) (filter (\<lambda>r. cr_state r = ''approved'') (gd_consilia db)))"

text \<open>What the kind-agnostic policy says of a consilium: spend it, or why not.\<close>

definition execution_refusal :: "gov_env \<Rightarrow> gov_db \<Rightarrow> i64 \<Rightarrow> consilium \<Rightarrow> string option" where
  "execution_refusal env db now c =
     (if ge_digest env (consilium_bytes (ge_show env) (cn_terms c)) \<noteq> cn_hash c
      then Some ''the stored terms no longer match the payload hash the owners approved''
      else if approvals c < cn_threshold c
      then Some (''only '' @ show_nat (unat (approvals c)) @ '' of the '' @ show_nat (unat (cn_threshold c)) @
        '' required approvals are still held by current owners '' @ em_dash @ '' the roster changed after the vote carried'')
      else if (case last_roster_change_at db of None \<Rightarrow> False | Some changed_at \<Rightarrow> sint (cn_created_at c) \<le> sint changed_at)
      then Some ''the owner roster changed while this request was open, so the approval was voided''
      else if sint (i64_saturating_add (cn_expires_at c) EXECUTION_GRACE_SECS) < sint now
      then Some (''the approval went stale: execution did not run within the grace period after the voting window closed'')
      else None)"

definition execute ::
  "gov_env \<Rightarrow> (consilium \<Rightarrow> gov_db \<Rightarrow> gov_db \<times> execution_outcome result) \<Rightarrow> int \<Rightarrow> uuid \<Rightarrow> i64 \<Rightarrow> gov_db \<Rightarrow>
     gov_db \<times> consilium_view result" where
  "execute env effect db_now i now db =
     try_tx db (find_consilium env db i) (\<lambda>view.
       let c = cw_consilium view in
       if cn_state c = Executed_Consilium then (db, Inr view)
       else if cn_state c \<noteq> Approved_Consilium
       then (db, Inl (Conflict (''consilium is '' @ consilium_state_str (cn_state c) @ '', not executable'')))
       else
         case execution_refusal env db now c of
           Some reason \<Rightarrow> record_execution env db_now i (Failed_Execution reason) now db
         | None \<Rightarrow>
             (case effect c db of
                (db, Inl e) \<Rightarrow> (db, Inl e)
              | (db, Inr outcome) \<Rightarrow> record_execution env db_now i outcome now db))"

definition sweep_expired :: "gov_env \<Rightarrow> int \<Rightarrow> i64 \<Rightarrow> gov_db \<Rightarrow> gov_db \<times> nat" where
  "sweep_expired env db_now now db = expire_due env db_now now db"

text \<open>One pass of the sweeper over the consilia (\<^verbatim>\<open>infrastructure/consilium_sweeper.rs\<close>).\<close>

record sweep_report =
  wr_expired :: nat
  wr_voided :: nat
  wr_executed :: nat
  wr_failures :: nat

fun execute_each ::
  "(uuid \<Rightarrow> gov_db \<Rightarrow> gov_db \<times> consilium_view result) \<Rightarrow> uuid list \<Rightarrow> sweep_report \<Rightarrow> gov_db \<Rightarrow> gov_db \<times> sweep_report" where
  "execute_each f [] report db = (db, report)"
| "execute_each f (i # ids) report db =
     (case f i db of
        (db, r) \<Rightarrow>
          execute_each f ids
            (case r of
               Inl _ \<Rightarrow> report
             | Inr view \<Rightarrow>
                 if cn_state (cw_consilium view) = Executed_Consilium then report\<lparr>wr_executed := wr_executed report + 1\<rparr>
                 else report\<lparr>wr_failures := wr_failures report + 1\<rparr>) db)"

definition sweep_consilia ::
  "gov_env \<Rightarrow> (consilium \<Rightarrow> gov_db \<Rightarrow> gov_db \<times> execution_outcome result) \<Rightarrow> int \<Rightarrow> i64 \<Rightarrow> gov_db \<Rightarrow> gov_db \<times> sweep_report" where
  "sweep_consilia env effect db_now now db =
     (let (db, expired) = expire_due env db_now now db;
          (db, voided) = (case last_roster_change_at db of
              None \<Rightarrow> (db, 0) | Some changed_at \<Rightarrow> void_open_for_roster_change env db_now changed_at now db)
      in execute_each (\<lambda>i. execute env effect db_now i now) (awaiting_execution db)
           \<lparr>wr_expired = expired, wr_voided = voided, wr_executed = 0, wr_failures = 0\<rparr> db)"

end
