(* ===== verification/ConsiliumFrame.thy ===== *)
theory ConsiliumFrame
  imports ConsiliumUse
begin

text \<open>
  The histories of the consilium's tables and what each of its transactions leaves alone: the seats
  and the part of a request that is fixed when it is opened.
\<close>

section \<open>What a transaction leaves alone\<close>

text \<open>The part of a request fixed when it was opened.\<close>

definition row_key :: "consilium_row \<Rightarrow> uuid \<times> uuid \<times> u32 \<times> u32" where
  "row_key r = (cr_id r, cr_initiator r, cr_owner_count r, cr_threshold r)"

definition same_seats :: "gov_db \<Rightarrow> gov_db \<Rightarrow> bool" where
  "same_seats db db' \<longleftrightarrow> gd_voters db' = gd_voters db \<and> map row_key (gd_consilia db') = map row_key (gd_consilia db)"

lemma same_seats_refl [simp]: "same_seats db db"
  by (simp add: same_seats_def)

lemma same_seats_trans: "same_seats a b \<Longrightarrow> same_seats b c \<Longrightarrow> same_seats a c"
  by (simp add: same_seats_def)

lemma row_key_with [simp]: "row_key (row_with c r) = row_key r"
  by (simp add: row_key_def row_with_def)

lemma same_seats_log [simp]: "same_seats db (log_events tag relays es db') = same_seats db db'"
  by (simp add: same_seats_def log_events_def)

lemma same_seats_mails [simp]: "same_seats db (update_mails sel f db') = same_seats db db'"
  by (simp add: same_seats_def update_mails_def)

lemma same_seats_invitations [simp]: "same_seats db (fst (withdraw_undelivered_invitations now i db))"
  by (simp add: withdraw_undelivered_invitations_def Let_def)

lemma same_seats_from_invitations [simp]:
  "same_seats (fst (withdraw_undelivered_invitations now i db)) db' = same_seats db db'"
  by (simp add: withdraw_undelivered_invitations_def Let_def same_seats_def update_mails_def)

lemma enqueue_same: "enqueue now subject user key mail db = Inr db' \<Longrightarrow> same_seats db db'"
  by (auto simp: enqueue_def same_seats_def split: if_splits)

lemma fold_result_same:
  assumes "\<And>x s s'. f x s = Inr s' \<Longrightarrow> same_seats s s'" and "fold_result f xs s = Inr s'"
  shows "same_seats s s'"
  using assms(2)
proof (induction xs arbitrary: s)
  case (Cons x xs)
  then obtain s1 where "f x s = Inr s1" "fold_result f xs s1 = Inr s'" by (auto simp: rbind_eq_Inr_iff)
  then show ?case using Cons.IH assms(1) same_seats_trans by blast
qed simp

lemma announce_same: "announce env now c detail db = Inr db' \<Longrightarrow> same_seats db db'"
  by (auto simp: announce_def Let_def split: if_splits elim!: fold_result_same [rotated] enqueue_same)

lemma announce_burn_same: "announce_burn env now c voter db = Inr db' \<Longrightarrow> same_seats db db'"
  by (auto simp: announce_burn_def Let_def split: if_splits elim!: fold_result_same [rotated] enqueue_same)

lemma persist_same: "persist c db = Inr db' \<Longrightarrow> same_seats db db'"
  by (auto simp: persist_def same_seats_def log_events_def o_def if_distrib split: if_splits)

lemma close_subject_same: "close_decided_subject env c at db = Inr db' \<Longrightarrow> same_seats db db'"
  by (auto simp: close_decided_subject_def reject_order_on_def persist_order_def reject_change_on_def rmap_eq_Inr_iff
      rbind_eq_Inr_iff same_seats_def log_events_def split: consilium_terms.splits if_splits)

lemma close_on_same: "close_on env now c detail at db = Inr db' \<Longrightarrow> same_seats db db'"
  by (auto simp: close_on_def rbind_eq_Inr_iff dest!: persist_same close_subject_same announce_same
      intro: same_seats_trans)

lemma try_tx_cases:
  assumes "try_tx db m k = (db', r)"
  obtains "\<exists>e. m = Inl e \<and> db' = db \<and> r = Inl e" | x where "m = Inr x" "k x = (db', r)"
  using assms by (auto simp: try_tx_def split: sum.splits)

lemma try_tx_same:
  assumes "\<And>x. m = Inr x \<Longrightarrow> same_seats db (fst (k x))"
  shows "same_seats db (fst (try_tx db m k))"
  using assms by (simp add: try_tx_def split: sum.splits)

lemma expire_one_same: "same_seats db (fst (expire_one env now i at db))"
  unfolding expire_one_def Let_def
  by (auto intro!: try_tx_same dest!: close_on_same split: prod.splits)

lemma void_one_same: "same_seats db (fst (void_one env now i at db))"
  unfolding void_one_def Let_def
  by (auto intro!: try_tx_same dest!: close_on_same split: prod.splits)

lemma withdraw_on_same: "withdraw_on env now i at db = Inr (db', done_it) \<Longrightarrow> same_seats db db'"
  unfolding withdraw_on_def Let_def
  by (auto simp: rbind_eq_Inr_iff rmap_eq_Inr_iff dest!: close_on_same
      split: if_splits)

lemma cancel_same: "same_seats db (fst (cancel env now i who at db))"
  unfolding cancel_def Let_def
  by (auto intro!: try_tx_same dest!: close_on_same split: prod.splits)

lemma sweep_each_same: "(\<And>i db. same_seats db (fst (f i db))) \<Longrightarrow> same_seats db (fst (sweep_each f ids db))"
proof (induction ids arbitrary: db)
  case (Cons i ids)
  obtain db1 r where f: "f i db = (db1, r)" by fastforce
  have "same_seats db db1" using Cons.prems [of db i] f by simp
  moreover have "same_seats db1 (fst (sweep_each f ids db1))" using Cons by blast
  ultimately show ?case using f by (auto simp: split_beta intro: same_seats_trans)
qed simp

lemma record_execution_same: "same_seats db (fst (record_execution env now i outcome at db))"
  unfolding record_execution_def
  by (auto intro!: try_tx_same dest!: persist_same close_subject_same announce_same split: prod.splits if_splits)
    (simp_all add: same_seats_def)

section \<open>Histories\<close>

text \<open>
  A wrong guess: a submission that reaches the comparison on an unanswered, live seat with a code that
  is not the seat's.  A history is the tables it leads to and the tokens guessed at, newest first.
\<close>

definition wrong_guess :: "gov_env \<Rightarrow> string \<Rightarrow> string \<Rightarrow> i64 \<Rightarrow> gov_db \<Rightarrow> bool" where
  "wrong_guess env token_hash code at db \<longleftrightarrow>
     (case token_seat db token_hash of
        None \<Rightarrow> False
      | Some (v, u) \<Rightarrow>
          (case locked_consilium env db (vr_consilium v) of
             Inl _ \<Rightarrow> False
           | Inr (c, _) \<Rightarrow>
               vr_decision v = ''pending'' \<and> is_ok (email_of env db (cn_initiator c)) \<and> vr_burned_at v = None \<and>
               sint at < sint (vr_expires_at v) \<and> consilium_is_open (cn_state c) \<and> ge_digest env code \<noteq> vr_code_hash v))"

text \<open>What an approval is spent on writes the tables of its own component.\<close>

definition effect_elsewhere :: "(consilium \<Rightarrow> gov_db \<Rightarrow> gov_db \<times> execution_outcome result) \<Rightarrow> bool" where
  "effect_elsewhere effect \<longleftrightarrow>
     (\<forall>c db. gd_consilia (fst (effect c db)) = gd_consilia db \<and> gd_voters (fst (effect c db)) = gd_voters db)"

inductive gov_reach :: "gov_env \<Rightarrow> gov_db \<Rightarrow> string list \<Rightarrow> bool" for env where
  gov_start: "gd_consilia db = [] \<Longrightarrow> gd_voters db = [] \<Longrightarrow> gov_reach env db []"
| gov_open: "gov_reach env db log \<Longrightarrow>
    gov_reach env (fst (open_and_seat env randomness db_now i initiator terms now db)) log"
| gov_vote: "gov_reach env db log \<Longrightarrow>
    gov_reach env (fst (submit env db_now tok code decision audit at db))
      (if wrong_guess env tok code at db then tok # log else log)"
| gov_cancel: "gov_reach env db log \<Longrightarrow> gov_reach env (fst (cancel env db_now i who at db)) log"
| gov_withdraw: "gov_reach env db log \<Longrightarrow> withdraw_on env db_now i at db = Inr (db', closed) \<Longrightarrow> gov_reach env db' log"
| gov_expire: "gov_reach env db log \<Longrightarrow> gov_reach env (fst (expire_due env db_now at db)) log"
| gov_void: "gov_reach env db log \<Longrightarrow> gov_reach env (fst (void_open_for_roster_change env db_now changed_at at db)) log"
| gov_execute: "gov_reach env db log \<Longrightarrow> effect_elsewhere effect \<Longrightarrow>
    gov_reach env (fst (execute env effect db_now i now db)) log"
| gov_mail: "gov_reach env db log \<Longrightarrow> gov_reach env (fst (drain_mails (ge_show env) db_now answers db)) log"
| gov_other: "gov_reach env db log \<Longrightarrow> gd_consilia db' = gd_consilia db \<Longrightarrow> gd_voters db' = gd_voters db \<Longrightarrow>
    gov_reach env db' log"

section \<open>The invariants\<close>

definition voter_key :: "voter_row \<Rightarrow> uuid \<times> uuid \<times> uuid \<times> string" where
  "voter_key v = (vr_consilium v, vr_user v, vr_initiator v, vr_token_hash v)"

text \<open>Seats are one per person and request, never the initiator's; requests keep their quorum.\<close>

definition shape_ok :: "(uuid \<times> uuid \<times> uuid \<times> string) list \<Rightarrow> (uuid \<times> uuid \<times> u32 \<times> u32) list \<Rightarrow> bool" where
  "shape_ok ks rs \<longleftrightarrow>
     distinct (map (\<lambda>(c, u, i, t). (c, u)) ks) \<and> distinct (map (\<lambda>(c, u, i, t). t) ks) \<and>
     (\<forall>(c, u, i, t) \<in> set ks. u \<noteq> i \<and> (\<exists>n k. (c, i, n, k) \<in> set rs)) \<and>
     distinct (map fst rs) \<and> (\<forall>(c, i, n, k) \<in> set rs. k = threshold n)"

definition tables_ok :: "gov_db \<Rightarrow> bool" where
  "tables_ok db \<longleftrightarrow> shape_ok (map voter_key (gd_voters db)) (map row_key (gd_consilia db))"

text \<open>Every guess charged is counted, and the seat that has counted five is burned.\<close>

definition guess_ok :: "string list \<Rightarrow> voter_row \<Rightarrow> bool" where
  "guess_ok log v \<longleftrightarrow>
     int (count_list log (vr_token_hash v)) \<le> vr_attempts v \<and> vr_attempts v \<le> MAX_CODE_ATTEMPTS \<and>
     (vr_burned_at v = None \<longrightarrow> int (count_list log (vr_token_hash v)) < MAX_CODE_ATTEMPTS)"

definition guesses_ok :: "string list \<Rightarrow> voter_row list \<Rightarrow> bool" where
  "guesses_ok log vs \<longleftrightarrow> (\<forall>v \<in> set vs. guess_ok log v) \<and> set log \<subseteq> vr_token_hash ` set vs"

definition gov_ok :: "string list \<Rightarrow> gov_db \<Rightarrow> bool" where
  "gov_ok log db \<longleftrightarrow> tables_ok db \<and> guesses_ok log (gd_voters db)"

lemma same_seats_ok: "same_seats db db' \<Longrightarrow> gov_ok log db \<Longrightarrow> gov_ok log db'"
  by (simp add: same_seats_def gov_ok_def tables_ok_def)

text \<open>A change of seats that keeps their keys, and their guesses within bounds.\<close>

lemma gov_map_voters:
  assumes ok: "gov_ok log db" and key: "\<And>v. voter_key (f v) = voter_key v"
    and guess: "\<And>v. v \<in> set (gd_voters db) \<Longrightarrow> guess_ok log v \<Longrightarrow> guess_ok log' (f v)"
    and log: "set log' \<subseteq> vr_token_hash ` set (gd_voters db)"
    and to: "gd_voters db' = map f (gd_voters db)" "map row_key (gd_consilia db') = map row_key (gd_consilia db)"
  shows "gov_ok log' db'"
proof -
  have hash: "vr_token_hash (f v) = vr_token_hash v" for v using key [of v] by (simp add: voter_key_def)
  have "map voter_key (gd_voters db') = map voter_key (gd_voters db)" by (simp add: to key)
  then have "tables_ok db'" using ok by (simp only: gov_ok_def tables_ok_def to(2))
  moreover have "guesses_ok log' (gd_voters db')"
    using ok guess log by (auto simp: gov_ok_def guesses_ok_def to(1) hash image_iff subset_iff)
  ultimately show ?thesis by (simp add: gov_ok_def)
qed

lemma set_notified_gov:
  assumes "gov_ok log db" shows "gov_ok log (set_notified row db)"
  by (rule gov_map_voters [OF assms, of "\<lambda>v. if mr_subject row = Subject_Consilium (vr_consilium v) \<and> vr_user v = mr_user row
        then v\<lparr>vr_notified := True\<rparr> else v"])
    (use assms in \<open>auto simp: voter_key_def guess_ok_def set_notified_def gov_ok_def guesses_ok_def\<close>)

lemma same_seats_update_mail [simp]: "same_seats db (update_mail i f db') = same_seats db db'"
  by (simp add: update_mail_def)

lemma same_seats_fail [simp]: "same_seats db (fail_mail row why mail db') = same_seats db db'"
  by (simp add: fail_mail_def Let_def retire_mail_def)

lemma same_seats_defer [simp]: "same_seats db (defer_mail now row why mail db') = same_seats db db'"
  by (simp add: defer_mail_def Let_def retire_mail_def)

lemma deliver_gov:
  assumes "gov_ok log db" shows "gov_ok log (fst (deliver sh now answers i db))"
proof -
  have "gov_ok log db'" if "same_seats db db'" for db' using assms that by (rule same_seats_ok [rotated])
  then show ?thesis
    using assms by (auto simp: deliver_def Let_def intro!: set_notified_gov split: option.splits mail_payload.splits mail_answer.splits)
qed

lemma deliver_all_gov: "gov_ok log db \<Longrightarrow> gov_ok log (fst (deliver_all sh now answers ids db))"
proof (induction ids arbitrary: db)
  case (Cons i ids)
  obtain db1 sent calls where d: "deliver sh now answers i db = (db1, sent, calls)" by (metis prod_cases3)
  from deliver_gov [OF Cons.prems, of sh now answers i] d have "gov_ok log db1" by simp
  from Cons.IH [OF this] show ?case by (simp add: d split_beta)
qed simp

end
