(* ===== verification/ConsiliumSafety.thy ===== *)
theory ConsiliumSafety
  imports ConsiliumFrame
begin

text \<open>
  What the owners' consilium promises over every history of its tables: an approval is spent only
  while a majority of seats held by present owners stands behind the very terms that were signed,
  and no seat's code can be guessed at more than five times.
\<close>

section \<open>Opening keeps them\<close>

lemma shape_ok_row:
  assumes "shape_ok ks rs" "c \<notin> fst ` set rs"
  shows "shape_ok ks (rs @ [(c, i, n, threshold n)])"
  using assms by (force simp: shape_ok_def)

lemma shape_ok_seat:
  assumes "shape_ok ks rs" "(c, u) \<notin> (\<lambda>(c, u, i, t). (c, u)) ` set ks" "t \<notin> (\<lambda>(c, u, i, t). t) ` set ks" "u \<noteq> i"
    and "(c, i, n, k) \<in> set rs"
  shows "shape_ok (ks @ [(c, u, i, t)]) rs"
  using assms by (auto simp: shape_ok_def)

lemma insert_consilium_gov:
  assumes ok: "gov_ok log db" and i: "insert_consilium row db = Inr db'" and q: "cr_threshold row = threshold (cr_owner_count row)"
  shows "gov_ok log db' \<and> row_key row \<in> row_key ` set (gd_consilia db')"
proof -
  from i have db': "db' = db\<lparr>gd_consilia := gd_consilia db @ [row]\<rparr>"
    and new: "cr_id row \<notin> cr_id ` set (gd_consilia db)"
    by (auto simp: insert_consilium_def list_ex_iff split: if_splits)
  have "cr_id row \<notin> fst ` set (map row_key (gd_consilia db))" using new by (auto simp: row_key_def)
  from shape_ok_row [OF _ this, of "map voter_key (gd_voters db)" "cr_initiator row" "cr_owner_count row"] ok q
  show ?thesis by (simp add: gov_ok_def tables_ok_def db' row_key_def)
qed

lemma insert_voter_gov:
  assumes ok: "gov_ok log db" and i: "insert_voter v db = Inr db'" and fresh: "vr_attempts v = 0" "vr_burned_at v = None"
    and row: "(vr_consilium v, vr_initiator v, n, k) \<in> row_key ` set (gd_consilia db)"
  shows "gov_ok log db'"
proof -
  from i have new: "vr_token_hash v \<notin> vr_token_hash ` set (gd_voters db)"
    "(vr_consilium v, vr_user v) \<notin> (\<lambda>w. (vr_consilium w, vr_user w)) ` set (gd_voters db)"
    and user: "vr_user v \<noteq> vr_initiator v" and db': "db' = db\<lparr>gd_voters := gd_voters db @ [v]\<rparr>"
    by (auto simp: insert_voter_def list_ex_iff split: if_splits)
  from ok new(1) have "vr_token_hash v \<notin> set log" unfolding gov_ok_def guesses_ok_def by blast
  then have "guess_ok log v" using fresh by (simp add: guess_ok_def MAX_CODE_ATTEMPTS_def count_notin)
  then have guesses: "guesses_ok log (gd_voters db')" using ok by (auto simp: gov_ok_def guesses_ok_def db')
  have "shape_ok (map voter_key (gd_voters db) @ [(vr_consilium v, vr_user v, vr_initiator v, vr_token_hash v)])
      (map row_key (gd_consilia db))"
    using ok new user row
    by (intro shape_ok_seat [where n = n and k = k]) (auto simp: gov_ok_def tables_ok_def voter_key_def image_image)
  with guesses show ?thesis by (simp add: gov_ok_def tables_ok_def db' voter_key_def)
qed

lemma same_seats_keys: "same_seats a b \<Longrightarrow> row_key ` set (gd_consilia b) = row_key ` set (gd_consilia a)"
  unfolding same_seats_def by (metis list.set_map)

lemma seat_credential_gov:
  assumes ok: "gov_ok log db" and s: "seat_credential env now c email detail credential db = Inr db'"
    and row: "(cn_id c, cn_initiator c, n, k) \<in> row_key ` set (gd_consilia db)"
  shows "gov_ok log db' \<and> (cn_id c, cn_initiator c, n, k) \<in> row_key ` set (gd_consilia db')"
proof -
  let ?v = "\<lparr>vr_consilium = cn_id c, vr_user = vc_user credential, vr_initiator = cn_initiator c,
         vr_decision = ''pending'', vr_decided_at = None, vr_notified = False, vr_token_hash = vc_token_hash credential,
         vr_code_hash = vc_code_hash credential, vr_attempts = 0, vr_burned_at = None, vr_expires_at = cn_expires_at c,
         vr_used_at = None, vr_client_ip = None, vr_user_agent = None, vr_hash = None\<rparr>"
  from s obtain db1 where v: "insert_voter ?v db = Inr db1" and same: "same_seats db1 db'"
    unfolding seat_credential_def rbind_eq_Inr_iff by (blast dest: enqueue_same)
  have "gov_ok log db1" by (rule insert_voter_gov [OF ok v]) (use row in simp_all)
  moreover have "gd_consilia db1 = gd_consilia db" using v by (auto simp: insert_voter_def split: if_splits)
  then have "row_key ` set (gd_consilia db') = row_key ` set (gd_consilia db)"
    using same_seats_keys [OF same] by (simp only:)
  with row have "(cn_id c, cn_initiator c, n, k) \<in> row_key ` set (gd_consilia db')" by (simp only:)
  ultimately show ?thesis using same_seats_ok [OF same] by blast
qed

lemma seat_all_gov:
  assumes "fold_result (seat_credential env now c email detail) credentials db = Inr db'" "gov_ok log db"
    "(cn_id c, cn_initiator c, n, k) \<in> row_key ` set (gd_consilia db)"
  shows "gov_ok log db'"
  using assms
proof (induction credentials arbitrary: db)
  case (Cons credential credentials)
  then obtain db1 where "seat_credential env now c email detail credential db = Inr db1"
    "fold_result (seat_credential env now c email detail) credentials db1 = Inr db'" by (auto simp: rbind_eq_Inr_iff)
  with Cons seat_credential_gov [of log db env now c email detail credential db1 n k] show ?case by blast
qed simp

lemma open_on_gov:
  assumes "gov_ok log db" "open_on env now c credentials db = Inr db'" "cn_threshold c = threshold (cn_owner_count c)"
  shows "gov_ok log db'"
proof -
  from assms(2) obtain email db1 db2 where o: "insert_consilium (consilium_row_of env now c) db = Inr db1"
    "fold_result (seat_credential env now c email (subject_detail_of db c)) credentials db1 = Inr db2"
    "db' = log_events Consilium_Event (\<lambda>_. False) (cn_pending c) db2"
    by (auto simp: open_on_def rbind_eq_Inr_iff Let_def)
  from insert_consilium_gov [OF assms(1) o(1)] assms(3) have "gov_ok log db1"
    and row: "row_key (consilium_row_of env now c) \<in> row_key ` set (gd_consilia db1)" by (simp_all add: consilium_row_of_def)
  from row have "(cn_id c, cn_initiator c, cn_owner_count c, cn_threshold c) \<in> row_key ` set (gd_consilia db1)"
    by (simp add: consilium_row_of_def row_key_def)
  from seat_all_gov [OF o(2) \<open>gov_ok log db1\<close> this] have "gov_ok log db2" .
  then show ?thesis unfolding o(3) by (rule same_seats_ok [rotated]) simp
qed

lemma consilium_open_quorum:
  "consilium_open i terms hash initiator owners at = Inr c \<Longrightarrow> cn_threshold c = threshold (cn_owner_count c)"
  by (auto simp: consilium_open_def Let_def split: if_splits)

lemma open_and_seat_gov:
  assumes "gov_ok log db" shows "gov_ok log (fst (open_and_seat env rnd db_now i initiator terms now db))"
  unfolding open_and_seat_def Let_def
  using assms by (auto simp: try_tx_def dest: consilium_open_quorum split: sum.splits intro: open_on_gov)

section \<open>Voting keeps them\<close>

lemma same_seat:
  assumes "gov_ok log db" "v \<in> set (gd_voters db)" "w \<in> set (gd_voters db)"
    and "(vr_consilium w = vr_consilium v \<and> vr_user w = vr_user v) \<or> vr_token_hash w = vr_token_hash v"
  shows "w = v"
proof -
  have "inj_on (\<lambda>v. (vr_consilium v, vr_user v)) (set (gd_voters db))" "inj_on vr_token_hash (set (gd_voters db))"
    using assms(1) by (auto simp: gov_ok_def tables_ok_def shape_ok_def voter_key_def distinct_map o_def)
  with assms(2-4) show ?thesis by (auto simp: inj_on_def)
qed

text \<open>A change of one seat that keeps its key.\<close>

lemma update_voter_gov:
  assumes ok: "gov_ok log db" and v: "v \<in> set (gd_voters db)" and key: "\<And>w. voter_key (f w) = voter_key w"
    and guess: "guess_ok log v \<Longrightarrow> guess_ok log' (f v)"
    and log: "log' = log \<or> log' = vr_token_hash v # log"
  shows "gov_ok log' (update_voter v f db)"
proof (rule gov_map_voters [OF ok])
  show "set log' \<subseteq> vr_token_hash ` set (gd_voters db)" using ok v log by (auto simp: gov_ok_def guesses_ok_def)
  show "voter_key (if vr_consilium w = vr_consilium v \<and> vr_user w = vr_user v then f w else w) = voter_key w" for w
    by (simp add: key)
  show "guess_ok log' (if vr_consilium w = vr_consilium v \<and> vr_user w = vr_user v then f w else w)"
    if "w \<in> set (gd_voters db)" "guess_ok log w" for w
    using that guess same_seat [OF ok v that(1)] log by (cases "w = v") (auto simp: guess_ok_def)
qed (simp_all add: update_voter_def)

lemma update_voter_frame:
  assumes ok: "gov_ok log db" and key: "\<And>w. voter_key (f w) = voter_key w" and guess: "\<And>w. guess_ok log (f w) = guess_ok log w"
  shows "gov_ok log (update_voter v f db)"
  by (rule gov_map_voters [OF ok, of "\<lambda>w. if vr_consilium w = vr_consilium v \<and> vr_user w = vr_user v then f w else w"])
    (use ok in \<open>auto simp: key guess update_voter_def gov_ok_def guesses_ok_def\<close>)

lemma cast_vote_gov:
  assumes ok: "gov_ok log db"
    and c: "cast_vote env now c seat already email fee_policy decision audit at db = Inr (db', outcome)"
  shows "gov_ok log db'"
proof -
  from c obtain c' where c': "record_vote c (vr_user (fst seat)) decision at = Inr c'"
    unfolding cast_vote_def Let_def rbind_eq_Inr_iff by blast
  show ?thesis
  proof (cases "cn_version c' = cn_version c")
    case True
    with c c' ok show ?thesis by (simp add: cast_vote_def)
  next
    case False
    let ?f = "\<lambda>w. w\<lparr>vr_decision := decision_str decision, vr_decided_at := Some at,
                vr_used_at := Some at, vr_client_ip := Some (va_client_ip audit),
                vr_user_agent := Some (va_user_agent audit), vr_hash := Some (cn_hash c')\<rparr>"
    from c c' False obtain db1 where "persist c' (update_voter (fst seat) ?f db) = Inr db1" "same_seats db1 db'"
      by (fastforce simp: cast_vote_def Let_def rbind_eq_Inr_iff dest!: close_subject_same announce_same
          intro: same_seats_trans split: if_splits)
    then have "same_seats (update_voter (fst seat) ?f db) db'" using persist_same same_seats_trans by blast
    moreover have "gov_ok log (update_voter (fst seat) ?f db)"
      by (rule update_voter_frame [OF ok]) (simp_all add: voter_key_def guess_ok_def)
    ultimately show ?thesis by (rule same_seats_ok)
  qed
qed

text \<open>The burn notice reaches everyone it names, so a burn is never rolled back.\<close>

lemma enqueue_succeeds:
  assumes "find_user db u \<noteq> None" "i \<in> cr_id ` set (gd_consilia db)"
  obtains db' where "enqueue now (Subject_Consilium i) u key mail db = Inr db'" "gd_users db' = gd_users db"
    "gd_consilia db' = gd_consilia db"
proof (cases "key \<in> mr_key ` set (gd_mails db)")
  case True
  then show ?thesis using that [of db] by (simp add: enqueue_def)
next
  case False
  then show ?thesis using that assms by (simp add: enqueue_def subject_exists_def)
qed

lemma enqueue_all_succeeds:
  assumes "\<forall>u \<in> set us. find_user db u \<noteq> None" "i \<in> cr_id ` set (gd_consilia db)"
  shows "\<exists>db'. fold_result (\<lambda>u. enqueue now (Subject_Consilium i) u (key u) mail) us db = Inr db'"
  using assms
proof (induction us arbitrary: db)
  case (Cons u us)
  then have "find_user db u \<noteq> None" by simp
  from enqueue_succeeds [OF this Cons.prems(2)] obtain db1 where e: "enqueue now (Subject_Consilium i) u (key u) mail db = Inr db1"
    and "gd_users db1 = gd_users db" "gd_consilia db1 = gd_consilia db" .
  then have "\<forall>u \<in> set us. find_user db1 u \<noteq> None" "i \<in> cr_id ` set (gd_consilia db1)"
    using Cons.prems by (simp_all add: find_user_def)
  from Cons.IH [OF this] e show ?case by simp
qed simp

lemma find_row_Some: "find_row db i = Some row \<Longrightarrow> row \<in> set (gd_consilia db) \<and> cr_id row = i"
  by (auto simp: find_row_def find_Some_iff)

lemma seats_of_mem: "(v, u) \<in> set (seats_of db i) \<Longrightarrow> v \<in> set (gd_voters db) \<and> vr_consilium v = i \<and> find_user db (vr_user v) = Some u"
  by (auto simp: seats_of_def List.map_filter_def split: option.splits)

lemma rehydrate_Inr:
  assumes "rehydrate row seats = Inr c"
  shows "cn_id c = cr_id row" "cn_initiator c = cr_initiator row" "cn_eligible c = map (\<lambda>(v, u). vr_user v) seats"
    "terms_of_stored (cr_kind row) (cr_terms row) = Inr (cn_terms c)" "cn_hash c = cr_hash row"
    "cn_threshold c = cr_threshold row" "cn_owner_count c = cr_owner_count row" "cn_created_at c = cr_created_at row"
    "cn_expires_at c = cr_expires_at row" "consilium_state_parse (cr_state row) = Inr (cn_state c)"
    "traverse vote_of_seat (filter (\<lambda>(v, u). vr_decision v \<noteq> decision_str Pending_Vote) seats) = Inr (cn_votes c)"
  using assms by (auto simp: rehydrate_def rbind_eq_Inr_iff guard_eq_Inr_iff)

lemma locked_Inr:
  assumes "locked_consilium env db i = Inr (c, seats)"
  obtains row where "find_row db i = Some row" "seats = seats_of db i" "rehydrate row seats = Inr c"
  using assms by (auto simp: locked_consilium_def rbind_eq_Inr_iff rmap_eq_Inr_iff ok_or_eq_Inr_iff Let_def)

lemma announce_burn_succeeds:
  assumes l: "locked_consilium env db i = Inr (c, seats)" and e: "email_of env db (cn_initiator c) = Inr email"
    and db': "gd_users db' = gd_users db" "gd_consilia db' = gd_consilia db"
  obtains burned where "announce_burn env now c voter db' = Inr burned"
proof -
  from l obtain row where row: "find_row db i = Some row" "seats = seats_of db i" "rehydrate row seats = Inr c"
    by (rule locked_Inr)
  have "find_user db' u = find_user db u" for u by (simp add: find_user_def db')
  moreover have "find_user db u \<noteq> None" if "u \<in> set (audience c)" for u
    using that e seats_of_mem [of _ _ db i] row(2) rehydrate_Inr(3) [OF row(3)]
    by (auto simp: audience_def email_of_def rmap_eq_Inr_iff ok_or_eq_Inr_iff)
  moreover have "cn_id c \<in> cr_id ` set (gd_consilia db')"
    using find_row_Some [OF row(1)] rehydrate_Inr(1) [OF row(3)] db'(2) by (metis image_eqI)
  ultimately have "\<exists>burned. fold_result (\<lambda>u. enqueue now (Subject_Consilium (cn_id c)) u (key u) mail) (audience c) db' = Inr burned"
    for key mail using enqueue_all_succeeds [of "audience c" db' "cn_id c"] by simp
  then have "\<exists>burned. announce_burn env now c voter db' = Inr burned" by (simp add: announce_burn_def Let_def)
  then show ?thesis using that by blast
qed

lemma token_seat_Some:
  assumes "token_seat db tok = Some (v, u)"
  shows "List.find (\<lambda>w. vr_token_hash w = tok) (gd_voters db) = Some v" "v \<in> set (gd_voters db)" "vr_token_hash v = tok"
  using assms by (auto simp: token_seat_def bind_eq_Some_conv find_Some_iff split: if_splits)

lemma charged_gov:
  assumes ok: "gov_ok log db" and v: "v \<in> set (gd_voters db)" and live: "vr_burned_at v = None"
  shows "gov_ok log (update_voter v (\<lambda>w. w\<lparr>vr_attempts := min (vr_attempts v + 1) MAX_CODE_ATTEMPTS\<rparr>) db)"
    and "min (vr_attempts v + 1) MAX_CODE_ATTEMPTS < MAX_CODE_ATTEMPTS \<Longrightarrow>
      gov_ok (vr_token_hash v # log) (update_voter v (\<lambda>w. w\<lparr>vr_attempts := min (vr_attempts v + 1) MAX_CODE_ATTEMPTS\<rparr>) db)"
    and "gov_ok (vr_token_hash v # log)
      (update_voter v (\<lambda>w. w\<lparr>vr_burned_at := Some now\<rparr>)
        (update_voter v (\<lambda>w. w\<lparr>vr_attempts := min (vr_attempts v + 1) MAX_CODE_ATTEMPTS\<rparr>) db))"
proof -
  show "gov_ok log (update_voter v (\<lambda>w. w\<lparr>vr_attempts := min (vr_attempts v + 1) MAX_CODE_ATTEMPTS\<rparr>) db)"
    by (rule update_voter_gov [OF ok v]) (use live in \<open>auto simp: voter_key_def guess_ok_def\<close>)
  show "gov_ok (vr_token_hash v # log) (update_voter v (\<lambda>w. w\<lparr>vr_attempts := min (vr_attempts v + 1) MAX_CODE_ATTEMPTS\<rparr>) db)"
    if "min (vr_attempts v + 1) MAX_CODE_ATTEMPTS < MAX_CODE_ATTEMPTS"
    by (rule update_voter_gov [OF ok v]) (use live that in \<open>auto simp: voter_key_def guess_ok_def\<close>)
  have "update_voter v g (update_voter v f db) = update_voter v (\<lambda>w. g (f w)) db"
    if "\<And>w. voter_key (f w) = voter_key w" for f g
  proof -
    have "vr_consilium (f w) = vr_consilium w \<and> vr_user (f w) = vr_user w" for w using that [of w] by (simp add: voter_key_def)
    then show ?thesis by (simp add: update_voter_def)
  qed
  note twice = this
  show "gov_ok (vr_token_hash v # log)
      (update_voter v (\<lambda>w. w\<lparr>vr_burned_at := Some now\<rparr>)
        (update_voter v (\<lambda>w. w\<lparr>vr_attempts := min (vr_attempts v + 1) MAX_CODE_ATTEMPTS\<rparr>) db))"
    by (subst twice, simp add: voter_key_def, rule update_voter_gov [OF ok v])
      (use live in \<open>auto simp: voter_key_def guess_ok_def\<close>)
qed

lemma decision_pending: "decision_parse s = Inr Pending_Vote \<longleftrightarrow> s = ''pending''"
  by (auto simp: decision_parse_def split: if_splits)

text \<open>A submission on a seat whose request, standing and answer read.\<close>

lemma submit_seat:
  assumes "token_seat db tok = Some (v, u)" "locked_consilium env db (vr_consilium v) = Inr (c, seats)"
    "email_of env db (cn_initiator c) = Inr email" "decision_parse (vr_decision v) = Inr already"
  shows "submit env now tok code decision audit at db =
    (if vr_burned_at v \<noteq> None \<or> sint (vr_expires_at v) \<le> sint at \<or>
        (\<not> consilium_is_open (cn_state c) \<and> already = Pending_Vote) then (db, Inl invitation_not_found)
     else if already \<noteq> Pending_Vote then
       if ge_digest env code \<noteq> vr_code_hash v then (db, Inl (wrong_code ''incorrect code''))
       else try_tx db (cast_vote env now c (v, u) already email (fee_policy_detail_of db c) decision audit at db)
         (\<lambda>(voted, outcome). (voted, Inr outcome))
     else
       let attempts = min (vr_attempts v + 1) MAX_CODE_ATTEMPTS;
           charged = update_voter v (\<lambda>w. w\<lparr>vr_attempts := attempts\<rparr>) db in
       if ge_digest env code = vr_code_hash v then
         try_tx db (cast_vote env now c (v\<lparr>vr_attempts := attempts\<rparr>, u) already email (fee_policy_detail_of db c)
             decision audit at charged) (\<lambda>(voted, outcome). (voted, Inr outcome))
       else if attempts < MAX_CODE_ATTEMPTS then
         (charged, Inl (wrong_code (''incorrect code '' @ em_dash @ '' '' @
            show_nat (nat (MAX_CODE_ATTEMPTS - attempts)) @ '' attempts remaining'')))
       else
         try_tx db (announce_burn env now c (vr_user v) (update_voter v (\<lambda>w. w\<lparr>vr_burned_at := Some now\<rparr>) charged))
           (\<lambda>burned. (burned, Inl invitation_not_found)))"
  using assms token_seat_Some(1) [OF assms(1)]
  by (simp add: submit_def try_tx_def [of _ "Inr _"] ok_or_Some Let_def not_less linorder_not_le)

lemma submit_refused:
  assumes "\<And>v u c seats email. token_seat db tok = Some (v, u) \<Longrightarrow> locked_consilium env db (vr_consilium v) = Inr (c, seats) \<Longrightarrow>
     email_of env db (cn_initiator c) = Inr email \<Longrightarrow> vr_burned_at v \<noteq> None \<or> sint (vr_expires_at v) \<le> sint at \<or>
     (\<not> consilium_is_open (cn_state c) \<and> vr_decision v = ''pending'')"
  shows "fst (submit env now tok code decision audit at db) = db \<and> \<not> is_ok (snd (submit env now tok code decision audit at db)) \<and>
    \<not> wrong_guess env tok code at db"
proof -
  consider "List.find (\<lambda>v. vr_token_hash v = tok) (gd_voters db) = None"
    | v where "List.find (\<lambda>v. vr_token_hash v = tok) (gd_voters db) = Some v" "token_seat db tok = None"
    | v u where "List.find (\<lambda>v. vr_token_hash v = tok) (gd_voters db) = Some v" "token_seat db tok = Some (v, u)"
    using token_seat_Some(1) by (metis option.exhaust prod.exhaust)
  then show ?thesis
  proof cases
    case 1
    then show ?thesis by (simp add: submit_def wrong_guess_def token_seat_def is_ok_def)
  next
    case 2
    then show ?thesis by (simp add: submit_def wrong_guess_def try_tx_def is_ok_def split: sum.split)
  next
    case 3
    note found = this
    show ?thesis
    proof (cases "locked_consilium env db (vr_consilium v)")
      case (Inl e)
      with found show ?thesis by (simp add: submit_def wrong_guess_def try_tx_def)
    next
      case (Inr cs)
      then obtain c seats where c: "locked_consilium env db (vr_consilium v) = Inr (c, seats)" by (cases cs) simp
      show ?thesis
      proof (cases "email_of env db (cn_initiator c)")
        case (Inl e)
        with found c show ?thesis by (simp add: submit_def wrong_guess_def try_tx_def split: sum.split)
      next
        case (Inr email)
        note dead = assms [OF found(2) c Inr]
        show ?thesis
        proof (cases "decision_parse (vr_decision v)")
          case (Inl e)
          then have "vr_decision v \<noteq> ''pending''" by (auto simp: decision_parse_def)
          with found c \<open>email_of env db (cn_initiator c) = Inr email\<close> Inl show ?thesis
            by (simp add: submit_def wrong_guess_def try_tx_def is_ok_def)
        next
          case (Inr already)
          have "submit env now tok code decision audit at db = (db, Inl invitation_not_found)"
            unfolding submit_seat [OF found(2) c \<open>email_of env db (cn_initiator c) = Inr email\<close> Inr]
            using dead Inr decision_pending [of "vr_decision v"] by auto
          moreover have "\<not> wrong_guess env tok code at db"
            using found c dead by (auto simp: wrong_guess_def)
          ultimately show ?thesis by (simp add: is_ok_def)
        qed
      qed
    qed
  qed
qed

text \<open>What a submission on a live seat of an open request does.\<close>

lemma submit_gov:
  assumes ok: "gov_ok log db"
  shows "gov_ok (if wrong_guess env tok code at db then tok # log else log)
    (fst (submit env now tok code decision audit at db))"
proof (cases "\<exists>v u c seats email. token_seat db tok = Some (v, u) \<and> locked_consilium env db (vr_consilium v) = Inr (c, seats) \<and>
     email_of env db (cn_initiator c) = Inr email \<and> vr_burned_at v = None \<and> sint at < sint (vr_expires_at v) \<and>
     (consilium_is_open (cn_state c) \<or> vr_decision v \<noteq> ''pending'')")
  case False
  have "fst (submit env now tok code decision audit at db) = db \<and> \<not> is_ok (snd (submit env now tok code decision audit at db)) \<and>
    \<not> wrong_guess env tok code at db"
    by (rule submit_refused) (use False in force)
  with ok show ?thesis by simp
next
  case True
  then obtain v u c seats email where t: "token_seat db tok = Some (v, u)" and c: "locked_consilium env db (vr_consilium v) = Inr (c, seats)"
    and e: "email_of env db (cn_initiator c) = Inr email" and live: "vr_burned_at v = None" "sint at < sint (vr_expires_at v)"
      "consilium_is_open (cn_state c) \<or> vr_decision v \<noteq> ''pending''" by blast
  note v = token_seat_Some [OF t]
  define a where "a = min (vr_attempts v + 1) MAX_CODE_ATTEMPTS"
  let ?charged = "update_voter v (\<lambda>w. w\<lparr>vr_attempts := min (vr_attempts v + 1) MAX_CODE_ATTEMPTS\<rparr>) db"
  note charged = charged_gov [OF ok v(2) live(1), unfolded v(3)]
  let ?burned = "update_voter v (\<lambda>w. w\<lparr>vr_burned_at := Some now\<rparr>) ?charged"
  have "gd_users ?burned = gd_users db" "gd_consilia ?burned = gd_consilia db" by (simp_all add: update_voter_def)
  from announce_burn_succeeds [OF c e this] obtain told where told: "announce_burn env now c (vr_user v) ?burned = Inr told" .
  have told_ok: "gov_ok (tok # log) told" by (rule same_seats_ok [OF announce_burn_same [OF told] charged(3)])
  show ?thesis
  proof (cases "decision_parse (vr_decision v)")
    case (Inl err)
    then have "vr_decision v \<noteq> ''pending''" by (auto simp: decision_parse_def)
    with Inl t c e ok v show ?thesis by (simp add: submit_def wrong_guess_def try_tx_def)
  next
    case (Inr already)
    note submitted = submit_seat [OF t c e Inr, of now code decision audit at]
    have voted: "gov_ok log (fst (try_tx db (cast_vote env now c seat already email (fee_policy_detail_of db c) decision audit at db1)
         (\<lambda>(voted, outcome). (voted, Inr outcome))))" if "gov_ok log db1" for seat db1
      using ok cast_vote_gov [OF that] by (auto simp: try_tx_def split: sum.split)
    show ?thesis
    proof (cases "already = Pending_Vote")
      case False
      then have "vr_decision v \<noteq> ''pending''" using Inr decision_pending [of "vr_decision v"] by auto
      then have "\<not> wrong_guess env tok code at db" using t c by (simp add: wrong_guess_def)
      with False live ok voted [OF ok] show ?thesis unfolding submitted by auto
    next
      case True
      then have pending: "vr_decision v = ''pending''" using Inr decision_pending [of "vr_decision v"] by simp
      have guess: "wrong_guess env tok code at db \<longleftrightarrow> ge_digest env code \<noteq> vr_code_hash v"
        using t c e live pending by (simp add: wrong_guess_def is_ok_def)
      show ?thesis
        unfolding submitted guess Let_def a_def [symmetric]
        using True live pending charged [folded a_def] told [folded a_def] told_ok voted [OF charged(1), folded a_def]
        by (simp add: try_tx_def [of _ "Inr _"])
    qed
  qed
qed

section \<open>Every history keeps them\<close>

lemma effect_same: "effect_elsewhere effect \<Longrightarrow> same_seats db (fst (effect c db))"
  by (simp add: effect_elsewhere_def same_seats_def)

lemma execute_same:
  assumes "effect_elsewhere effect"
  shows "same_seats db (fst (execute env effect db_now i now db))"
proof -
  have "same_seats db (fst (record_execution env db_now i outcome now (fst (effect c db))))" for c outcome
    using effect_same [OF assms] record_execution_same same_seats_trans by blast
  then show ?thesis
    using record_execution_same effect_same [OF assms]
    by (auto simp: execute_def Let_def intro!: try_tx_same split: option.split prod.splits sum.splits) (metis fst_conv)+
qed

lemma gov_reach_ok: "gov_reach env db log \<Longrightarrow> gov_ok log db"
proof (induction rule: gov_reach.induct)
  case (gov_start db)
  then show ?case by (simp add: gov_ok_def tables_ok_def shape_ok_def guesses_ok_def)
next
  case (gov_open db log randomness db_now i initiator terms now)
  then show ?case by (blast intro: open_and_seat_gov)
next
  case (gov_vote db log db_now tok code decision audit at)
  then show ?case by (blast intro: submit_gov)
next
  case (gov_cancel db log db_now i who at)
  then show ?case by (blast intro: same_seats_ok cancel_same)
next
  case (gov_withdraw db log db_now i at db' closed)
  then show ?case by (blast intro: same_seats_ok withdraw_on_same)
next
  case (gov_expire db log db_now at)
  then show ?case unfolding expire_due_def by (blast intro: same_seats_ok sweep_each_same expire_one_same)
next
  case (gov_void db log db_now changed_at at)
  then show ?case unfolding void_open_for_roster_change_def by (blast intro: same_seats_ok sweep_each_same void_one_same)
next
  case (gov_execute db log effect db_now i now)
  then show ?case by (blast intro: same_seats_ok execute_same)
next
  case (gov_mail db log db_now answers)
  show ?case unfolding drain_mails_def by (rule deliver_all_gov [OF gov_mail.IH])
next
  case (gov_other db log db')
  then have "same_seats db db'" by (simp add: same_seats_def)
  then show ?case using gov_other.IH by (rule same_seats_ok)
qed


section \<open>What an execution rests on\<close>

definition approves :: "gov_db \<Rightarrow> uuid \<Rightarrow> uuid \<Rightarrow> bool" where
  "approves db i u \<longleftrightarrow>
     (\<exists>v \<in> set (gd_voters db). vr_consilium v = i \<and> vr_user v = u \<and> vr_decision v = ''approve'' \<and>
        (\<exists>user. find_user db u = Some user \<and> still_an_owner user))"

lemma vote_of_pair:
  "vote_of_seat (v, u) = rmap (\<lambda>d. \<lparr>cv_voter = vr_user v, cv_decision = d,
     cv_decided_at = (case vr_decided_at v of None \<Rightarrow> 0 | Some t \<Rightarrow> t), cv_counts = still_an_owner u\<rparr>) (decision_parse (vr_decision v))"
  by (simp add: vote_of_seat_def)

lemma counted_seats:
  "traverse vote_of_seat seats = Inr votes \<Longrightarrow>
     length (filter (\<lambda>v. cv_counts v \<and> cv_decision v = Approve_Vote) votes) =
     length (filter (\<lambda>(v, u). still_an_owner u \<and> vr_decision v = ''approve'') seats)"
proof (induction seats arbitrary: votes)
  case (Cons seat seats)
  obtain v u where seat: "seat = (v, u)" by fastforce
  from Cons.prems obtain d votes' where d: "decision_parse (vr_decision v) = Inr d" and rest: "traverse vote_of_seat seats = Inr votes'"
    and votes: "votes = \<lparr>cv_voter = vr_user v, cv_decision = d,
            cv_decided_at = (case vr_decided_at v of None \<Rightarrow> 0 | Some t \<Rightarrow> t), cv_counts = still_an_owner u\<rparr> # votes'"
    by (auto simp: seat vote_of_pair rbind_eq_Inr_iff rmap_eq_Inr_iff)
  have "d = Approve_Vote \<longleftrightarrow> vr_decision v = ''approve''" using d by (auto simp: decision_parse_def split: if_splits)
  with Cons.IH [OF rest] show ?case by (simp add: votes seat)
qed simp

lemma seat_users_distinct:
  assumes "gov_ok log db" shows "distinct (map (\<lambda>(v, u). vr_user v) (seats_of db i))"
proof -
  have mapped: "map (\<lambda>(v, u). vr_user v) (List.map_filter (\<lambda>v. map_option (\<lambda>u. (v, u)) (find_user db (vr_user v))) vs) =
      map vr_user (filter (\<lambda>v. find_user db (vr_user v) \<noteq> None) vs)" for vs
    by (induction vs) (auto simp: List.map_filter_def)
  have "distinct (gd_voters db)" and inj: "inj_on (\<lambda>v. (vr_consilium v, vr_user v)) (set (gd_voters db))"
    using assms by (auto simp: gov_ok_def tables_ok_def shape_ok_def voter_key_def distinct_map o_def)
  moreover have "inj_on vr_user {v \<in> set (gd_voters db). vr_consilium v = i \<and> P v}" for P
    using inj by (auto simp: inj_on_def)
  ultimately show ?thesis
    by (auto simp: seats_of_def mapped distinct_map inj_on_def)
qed

lemma approvals_stand:
  assumes ok: "gov_ok log db" and c: "rehydrate row (seats_of db i) = Inr c"
  shows "unat (approvals c) \<le> card {u. approves db i u}"
proof -
  let ?stand = "filter (\<lambda>(v, u). still_an_owner u \<and> vr_decision v = ''approve'')"
  have "?stand (filter (\<lambda>(v, u). vr_decision v \<noteq> decision_str Pending_Vote) (seats_of db i)) = ?stand (seats_of db i)"
    by (auto intro: filter_cong)
  then have "unat (approvals c) \<le> length (?stand (seats_of db i))"
    using counted_seats [OF rehydrate_Inr(11) [OF c]]
    by (simp add: approvals_def counted_def unat_of_nat)
  also have "\<dots> = card (set (map (\<lambda>(v, u). vr_user v) (?stand (seats_of db i))))"
    using distinct_map_filter [OF seat_users_distinct [OF ok, of i]] by (simp only: distinct_card length_map)
  also have "\<dots> \<le> card {u. approves db i u}"
  proof (rule card_mono)
    have "{u. approves db i u} \<subseteq> vr_user ` set (gd_voters db)" by (auto simp: approves_def)
    then show "finite {u. approves db i u}" by (rule finite_subset) simp
    show "set (map (\<lambda>(v, u). vr_user v) (?stand (seats_of db i))) \<subseteq> {u. approves db i u}"
      using seats_of_mem [of _ _ db i] by (auto simp: approves_def)
  qed
  finally show ?thesis .
qed

text \<open>Only the last transaction of an execution writes the request's state.\<close>

lemma fold_result_keeps:
  assumes "\<And>x s s'. f x s = Inr s' \<Longrightarrow> g s' = g s" and "fold_result f xs s = Inr s'"
  shows "g s' = g s"
  using assms(2)
proof (induction xs arbitrary: s)
  case (Cons x xs)
  then obtain s1 where "f x s = Inr s1" "fold_result f xs s1 = Inr s'" by (auto simp: rbind_eq_Inr_iff)
  then show ?case using Cons.IH assms(1) by metis
qed simp

lemma enqueue_consilia: "enqueue now subject user key mail db = Inr db' \<Longrightarrow> gd_consilia db' = gd_consilia db"
  by (auto simp: enqueue_def split: if_splits)

lemma announce_consilia: "announce env now c detail db = Inr db' \<Longrightarrow> gd_consilia db' = gd_consilia db"
  by (auto simp: announce_def Let_def split: if_splits elim!: fold_result_keeps [rotated] enqueue_consilia)

lemma announce_users: "announce env now c detail db = Inr db' \<Longrightarrow> gd_users db' = gd_users db"
  by (auto simp: announce_def enqueue_def Let_def split: if_splits elim!: fold_result_keeps [rotated])

lemma close_subject_consilia: "close_decided_subject env c at db = Inr db' \<Longrightarrow> gd_consilia db' = gd_consilia db"
  by (auto simp: close_decided_subject_def reject_order_on_def persist_order_def reject_change_on_def rmap_eq_Inr_iff
      rbind_eq_Inr_iff log_events_def split: consilium_terms.splits if_splits)

lemma persist_row:
  assumes "persist c db = Inr db'" "find_row db' (cn_id c) = Some row'"
  shows "cr_state row' = consilium_state_str (cn_state c)"
proof -
  from assms(1) have "gd_consilia db' = map (\<lambda>r. if cr_id r = cn_id c then row_with c r else r) (gd_consilia db)"
    by (auto simp: persist_def log_events_def split: if_splits)
  with find_row_Some [OF assms(2)] show ?thesis by (auto simp: row_with_def split: if_splits)
qed

lemma failed_stays_failed: "mark_execution_failed c reason at = Inr c' \<Longrightarrow> cn_state c' = ExecutionFailed_Consilium \<and> cn_id c' = cn_id c"
  by (auto simp: mark_execution_failed_def consilium_raise_def Let_def split: if_splits)

lemma failure_records_no_execution:
  assumes "find_row (fst (record_execution env now i (Failed_Execution reason) at db)) i = Some row'" "cr_state row' = ''executed''"
  shows "find_row db i = Some row'"
proof -
  let ?r = "record_execution env now i (Failed_Execution reason) at db"
  have "fst ?r = db \<or> (\<exists>c db1. cn_id c = i \<and> cn_state c = ExecutionFailed_Consilium \<and> persist c db = Inr db1 \<and>
      gd_consilia (fst ?r) = gd_consilia db1)"
  proof -
    have "cn_id c = i" if "locked_consilium env db i = Inr (c, seats)" for c seats
      using that rehydrate_Inr(1) find_row_Some by (metis locked_Inr)
    then show ?thesis
      unfolding record_execution_def
      by (auto simp: try_tx_def rmap_eq_Inr_iff split: sum.split dest!: failed_stays_failed close_subject_consilia announce_consilia)
  qed
  then show ?thesis
  proof
    assume "\<exists>c db1. cn_id c = i \<and> cn_state c = ExecutionFailed_Consilium \<and> persist c db = Inr db1 \<and>
      gd_consilia (fst ?r) = gd_consilia db1"
    then obtain c db1 where c: "cn_id c = i" "cn_state c = ExecutionFailed_Consilium" "persist c db = Inr db1"
      "gd_consilia (fst ?r) = gd_consilia db1" by blast
    from c(4) assms(1) have "find_row db1 (cn_id c) = Some row'" by (simp add: find_row_def c(1))
    from persist_row [OF c(3) this] c(2) assms(2) show ?thesis by simp
  qed (use assms in simp)
qed

lemma find_consilium_Inr:
  assumes "find_consilium env db i = Inr view"
  obtains row where "find_row db i = Some row" "rehydrate row (seats_of db i) = Inr (cw_consilium view)"
  using assms
  by (auto simp: find_consilium_def find_view_def rbind_eq_Inr_iff rmap_eq_Inr_iff ok_or_eq_Inr_iff Let_def view_of_def
      split: option.splits)

text \<open>An execution that carries has passed every gate, on the tables it started from.\<close>

lemma executed_passed:
  assumes e: "effect_elsewhere effect" and before: "find_row db i = Some row" "cr_state row \<noteq> ''executed''"
    and after: "find_row (fst (execute env effect db_now i now db)) i = Some row'" "cr_state row' = ''executed''"
  obtains c where "rehydrate row (seats_of db i) = Inr c" "execution_refusal env db now c = None"
proof -
  let ?x = "execute env effect db_now i now db"
  have moved: "fst ?x \<noteq> db" using before after by auto
  then obtain view where view: "find_consilium env db i = Inr view"
    by (cases "find_consilium env db i") (auto simp: execute_def try_tx_def)
  then have c: "rehydrate row (seats_of db i) = Inr (cw_consilium view)" using before by (auto elim!: find_consilium_Inr)
  from moved view have state: "cn_state (cw_consilium view) = Approved_Consilium"
    by (auto simp: execute_def try_tx_def Let_def split: if_splits)
  have "execution_refusal env db now (cw_consilium view) = None"
  proof (rule ccontr)
    assume "execution_refusal env db now (cw_consilium view) \<noteq> None"
    then obtain reason where "execution_refusal env db now (cw_consilium view) = Some reason" by blast
    with view state have "?x = record_execution env db_now i (Failed_Execution reason) now db"
      by (simp add: execute_def try_tx_def)
    with failure_records_no_execution after have "find_row db i = Some row'" by metis
    with before after show False by simp
  qed
  with c that show ?thesis by blast
qed

text \<open>
  C2: An approval is spent only while a quorum of present owners stands behind the terms that were
  signed: over every history, whenever an execution moves a request to executed, the stored terms
  still have the hash the owners approved, the owners in good standing whose seats answered yes are at
  least the threshold, which is more than half of the roster at opening, the proposer is not among
  them, no owner has joined or left since the request was opened and the grace period has not run out.
\<close>
theorem quorum_stands_at_execution:
  assumes history: "gov_reach env db log" and elsewhere: "effect_elsewhere effect"
    and before: "find_row db i = Some row" "cr_state row \<noteq> ''executed''"
    and after: "find_row (fst (execute env effect db_now i now db)) i = Some row'" "cr_state row' = ''executed''"
  shows "\<exists>terms. terms_of_stored (cr_kind row) (cr_terms row) = Inr terms \<and>
    ge_digest env (consilium_bytes (ge_show env) terms) = cr_hash row \<and>
    unat (cr_owner_count row) < 2 * unat (cr_threshold row) \<and>
    unat (cr_threshold row) \<le> card {u. approves db i u} \<and>
    \<not> approves db i (cr_initiator row) \<and>
    (case last_roster_change_at db of None \<Rightarrow> True | Some changed_at \<Rightarrow> sint changed_at < sint (cr_created_at row)) \<and>
    sint now \<le> sint (i64_saturating_add (cr_expires_at row) EXECUTION_GRACE_SECS)"
proof -
  note ok = gov_reach_ok [OF history]
  from executed_passed [OF elsewhere before after] obtain c where c: "rehydrate row (seats_of db i) = Inr c"
    and passed: "execution_refusal env db now c = None" .
  note reads = rehydrate_Inr [OF c] find_row_Some [OF before(1)]
  have key: "row_key row \<in> set (map row_key (gd_consilia db))" using reads by auto
  then have "cr_threshold row = threshold (cr_owner_count row)"
    using ok by (force simp: gov_ok_def tables_ok_def shape_ok_def row_key_def)
  moreover have "unat (cr_owner_count row) < 2 ^ 32" using unsigned_less [of "cr_owner_count row"] by simp
  then have "unat (cr_owner_count row) div 2 + 1 < 2 ^ 32" by simp
  ultimately have "unat (cr_threshold row) = unat (cr_owner_count row) div 2 + 1"
    by (simp add: threshold_def unat_word_ariths unat_div)
  then have majority: "unat (cr_owner_count row) < 2 * unat (cr_threshold row)" by linarith
  have "\<not> approves db i (cr_initiator row)"
  proof
    assume "approves db i (cr_initiator row)"
    then obtain v where v: "v \<in> set (gd_voters db)" "vr_consilium v = i" "vr_user v = cr_initiator row"
      by (auto simp: approves_def)
    then have "voter_key v \<in> set (map voter_key (gd_voters db))" by simp
    then have "vr_user v \<noteq> vr_initiator v \<and> (\<exists>n k. (i, vr_initiator v, n, k) \<in> set (map row_key (gd_consilia db)))"
      using ok v(2) unfolding gov_ok_def tables_ok_def shape_ok_def voter_key_def by fastforce
    then obtain n k where other: "vr_user v \<noteq> vr_initiator v" "(i, vr_initiator v, n, k) \<in> set (map row_key (gd_consilia db))" by blast
    have "distinct (map fst (map row_key (gd_consilia db)))"
      using ok unfolding gov_ok_def tables_ok_def shape_ok_def by blast
    then have "inj_on fst (set (map row_key (gd_consilia db)))" by (subst (asm) distinct_map) (rule conjunct2)
    moreover have "fst (i, vr_initiator v, n, k) = fst (row_key row)" using reads by (simp add: row_key_def)
    ultimately have "(i, vr_initiator v, n, k) = row_key row" using other(2) key by (rule inj_onD)
    with other(1) v(3) show False by (simp add: row_key_def)
  qed
  then show ?thesis
    using passed approvals_stand [OF ok c] majority reads
    by (auto simp: execution_refusal_def word_le_nat_alt not_less split: if_splits option.splits)
qed

section \<open>A history\<close>

text \<open>Three owners: the first proposes a holder grant, the others approve, it is executed.\<close>

definition sample_env :: gov_env where
  "sample_env = \<lparr>ge_show = show_u128, ge_digest = (\<lambda>s. take 32 (s @ replicate 32 (CHR 0x00))), ge_url = ''u'', ge_mail_wired = True\<rparr>"

definition sample_owner :: "uuid \<Rightarrow> user_row" where
  "sample_owner u = \<lparr>ur_id = u, ur_email = ''o@x'', ur_role = ''owner'', ur_frozen = False, ur_status = ''active'', ur_concierge = Some u\<rparr>"

definition sample_gov :: gov_db where
  "sample_gov = \<lparr>gd_users = map sample_owner [1, 2, 3], gd_roster_changes = [], gd_consilia = [], gd_voters = [], gd_consents = [],
     gd_mails = [], gd_orders = [], gd_fee_changes = [], gd_titles = [], gd_positions = [], gd_event_log = [], gd_outbox = []\<rparr>"

definition sample_grant :: consilium_terms where
  "sample_grant = Holder_Grant \<lparr>hg_allocation = service_fund, hg_user = 2, hg_units = Shares 5\<rparr>"

definition sample_randomness :: "uuid \<Rightarrow> string \<times> string" where
  "sample_randomness u = ((if u = 2 then ''ab'' else ''cd''), ''00'')"

definition sample_hash :: string where
  "sample_hash = ge_digest sample_env (consilium_bytes show_u128 sample_grant)"

definition sample_seat :: "uuid \<Rightarrow> voter_row" where
  "sample_seat u = \<lparr>vr_consilium = 9, vr_user = u, vr_initiator = 1, vr_decision = ''pending'', vr_decided_at = None,
     vr_notified = False, vr_token_hash = vc_token_hash (mint_credential sample_env sample_randomness u),
     vr_code_hash = ge_digest sample_env ''GG'', vr_attempts = 0, vr_burned_at = None, vr_expires_at = CONSILIUM_TTL_SECS,
     vr_used_at = None, vr_client_ip = None, vr_user_agent = None, vr_hash = None\<rparr>"

definition sample_consilium_row :: consilium_row where
  "sample_consilium_row = \<lparr>cr_id = 9, cr_kind = ''holder_grant'', cr_state = ''open'', cr_terms = stored_of sample_grant,
     cr_source_claim = logical_key show_u128 (terms_source_claim sample_grant), cr_hash = sample_hash, cr_initiator = 1,
     cr_owner_count = 3, cr_threshold = 2, cr_created_at = 0, cr_expires_at = CONSILIUM_TTL_SECS, cr_decided_at = None,
     cr_withdrawal = None, cr_payment = None, cr_valuation = None, cr_fee_change = None, cr_issuance = None,
     cr_subscription = None, cr_failure = None, cr_version = 1\<rparr>"

lemma sample_length [simp]: "length sample_hash = 32"
  by (simp add: sample_hash_def sample_env_def)

lemma sample_codes: "vc_code_hash (mint_credential sample_env sample_randomness u) = ge_digest sample_env ''GG''"
  "vc_user (mint_credential sample_env sample_randomness u) = u"
  by (simp_all add: mint_credential_def sample_randomness_def CODE_ALPHABET_def byte_def Let_def)

lemma sample_tokens: "vc_token_hash (mint_credential sample_env sample_randomness 2) \<noteq> vc_token_hash (mint_credential sample_env sample_randomness 3)"
  by code_simp

lemma sample_digits: "show_u128 1 = ''1''" "show_u128 2 = ''2''" "show_u128 3 = ''3''" "show_u128 9 = ''9''"
  by code_simp+

definition sample_seated :: gov_db where
  "sample_seated = sample_gov\<lparr>gd_consilia := [sample_consilium_row], gd_voters := map sample_seat [2, 3]\<rparr>"

lemma sample_roster: "owner_roster sample_gov = [1, 2, 3]"
  by code_simp

lemma sample_aggregate: "\<exists>c. consilium_open 9 sample_grant sample_hash 1 [1, 2, 3] 0 = Inr c \<and> consilium_row_of sample_env 0 c = sample_consilium_row \<and>
    cn_eligible c = [2, 3] \<and> cn_id c = 9 \<and> cn_initiator c = 1 \<and> cn_expires_at c = CONSILIUM_TTL_SECS \<and> cn_terms c = sample_grant"
  by (simp add: consilium_open_def MIN_OWNERS_def threshold_def consilium_row_of_def sample_consilium_row_def sample_env_def CONSILIUM_TTL_SECS_def sample_grant_def
      i64_saturating_add_def i64_clamp_def)

lemma sample_consilium_row_fields [simp]: "cr_id sample_consilium_row = 9" "cr_initiator sample_consilium_row = 1"
  by (simp_all add: sample_consilium_row_def)

lemma sample_opening:
  "gd_consilia (fst (open_and_seat sample_env sample_randomness 0 9 1 sample_grant 0 sample_gov)) = [sample_consilium_row]"
  "gd_voters (fst (open_and_seat sample_env sample_randomness 0 9 1 sample_grant 0 sample_gov)) = map sample_seat [2, 3]"
proof -
  obtain c where c: "consilium_open 9 sample_grant sample_hash 1 [1, 2, 3] 0 = Inr c" "consilium_row_of sample_env 0 c = sample_consilium_row"
    "cn_eligible c = [2, 3]" "cn_id c = 9" "cn_initiator c = 1" "cn_expires_at c = CONSILIUM_TTL_SECS" "cn_terms c = sample_grant"
    using sample_aggregate by blast
  have "ge_digest sample_env (consilium_bytes (ge_show sample_env) sample_grant) = sample_hash"
    by (simp add: sample_hash_def sample_env_def)
  then have opened: "open_and_seat sample_env sample_randomness 0 9 1 sample_grant 0 sample_gov =
      try_tx sample_gov (open_on sample_env 0 c (map (mint_credential sample_env sample_randomness) [2, 3]) sample_gov)
        (\<lambda>opened. (opened, find_consilium sample_env opened 9))"
    using c by (simp add: open_and_seat_def sample_roster try_tx_def [of _ "Inr _"])
  show "gd_consilia (fst (open_and_seat sample_env sample_randomness 0 9 1 sample_grant 0 sample_gov)) = [sample_consilium_row]"
    "gd_voters (fst (open_and_seat sample_env sample_randomness 0 9 1 sample_grant 0 sample_gov)) = map sample_seat [2, 3]"
    unfolding opened using c sample_tokens
    by (simp_all add: try_tx_def open_on_def email_of_def find_user_def sample_gov_def sample_owner_def
        insert_consilium_def sample_codes seat_credential_def insert_voter_def enqueue_def subject_exists_def log_events_def
        sample_seat_def sample_digits Let_def)
qed
lemma sample_start: "gov_reach sample_env sample_seated []"
proof -
  have "gov_reach sample_env sample_gov []" by (rule gov_start) (simp_all add: sample_gov_def)
  from gov_open [OF this, of sample_randomness 0 9 1 sample_grant 0] show ?thesis
    by (rule gov_other) (simp_all add: sample_opening [simplified] sample_seated_def)
qed

lemma sample_service: "service_id_parse ''fund'' = Inr (ServiceId ''fund'')"
  by code_simp

lemma sample_terms: "terms_of_stored ''holder_grant'' (stored_of sample_grant) = Inr sample_grant"
  by (simp add: terms_of_stored_def kind_parse_def sample_grant_def parse_u128_show_u128 grant_terms_new_def service_fund_def
      RESERVED_FUND_def sample_service ok_or_Some zero_iffs service_is_reserved_def)

definition sample_guessed :: "int \<Rightarrow> gov_db" where
  "sample_guessed n = sample_seated\<lparr>gd_voters := [(sample_seat 2)\<lparr>vr_attempts := n\<rparr>, sample_seat 3]\<rparr>"

definition sample_token :: "uuid \<Rightarrow> string" where
  "sample_token u = vc_token_hash (mint_credential sample_env sample_randomness u)"

definition sample_audit :: vote_audit where
  "sample_audit = \<lparr>va_client_ip = ''ip'', va_user_agent = ''ua''\<rparr>"

lemma sample_guess_reads:
  "token_seat (sample_guessed n) (sample_token 2) = Some ((sample_seat 2)\<lparr>vr_attempts := n\<rparr>, sample_owner 2)"
  "\<exists>c seats. locked_consilium sample_env (sample_guessed n) 9 = Inr (c, seats) \<and> consilium_is_open (cn_state c) \<and> cn_initiator c = 1"
  "email_of sample_env (sample_guessed n) 1 = Inr ''o@x''"
proof -
  show "token_seat (sample_guessed n) (sample_token 2) = Some ((sample_seat 2)\<lparr>vr_attempts := n\<rparr>, sample_owner 2)"
    by (simp add: token_seat_def sample_guessed_def sample_seated_def sample_gov_def sample_seat_def sample_token_def find_row_def
        find_user_def sample_owner_def)
  show "email_of sample_env (sample_guessed n) 1 = Inr ''o@x''"
    by (simp add: email_of_def find_user_def sample_guessed_def sample_seated_def sample_gov_def sample_owner_def)
  show "\<exists>c seats. locked_consilium sample_env (sample_guessed n) 9 = Inr (c, seats) \<and> consilium_is_open (cn_state c) \<and> cn_initiator c = 1"
    by (simp add: locked_consilium_def find_row_def sample_guessed_def sample_seated_def sample_gov_def seats_of_def sample_seat_def
        rehydrate_def sample_consilium_row_def sample_terms guard_def DIGEST_BYTES_def consilium_state_parse_def consilium_is_open_def
        List.map_filter_def find_user_def sample_owner_def)
qed

lemma sample_code: "ge_digest sample_env ''XX'' \<noteq> ge_digest sample_env ''GG''"
  by (simp add: sample_env_def)

lemma sample_guess:
  assumes "0 \<le> n" "n < 4"
  shows "wrong_guess sample_env (sample_token 2) ''XX'' 0 (sample_guessed n) \<and>
    fst (submit sample_env 0 (sample_token 2) ''XX'' Approve_Vote sample_audit 0 (sample_guessed n)) = sample_guessed (n + 1)"
proof -
  from sample_guess_reads(2) [of n] obtain c seats where c: "locked_consilium sample_env (sample_guessed n) 9 = Inr (c, seats)"
    "consilium_is_open (cn_state c)" "cn_initiator c = 1" by blast
  let ?v = "(sample_seat 2)\<lparr>vr_attempts := n\<rparr>"
  have l: "locked_consilium sample_env (sample_guessed n) (vr_consilium ?v) = Inr (c, seats)"
    and e: "email_of sample_env (sample_guessed n) (cn_initiator c) = Inr ''o@x''"
    and d: "decision_parse (vr_decision ?v) = Inr Pending_Vote"
    using c sample_guess_reads(3) [of n] by (simp_all add: sample_seat_def decision_parse_def)
  show ?thesis
    unfolding submit_seat [OF sample_guess_reads(1) l e d]
    using c(2) l e sample_code assms
    by (simp add: wrong_guess_def sample_guess_reads(1) is_ok_def)
      (simp add: sample_seat_def sample_code CONSILIUM_TTL_SECS_def MAX_CODE_ATTEMPTS_def Let_def update_voter_def sample_guessed_def)
qed

lemma sample_five: "gov_reach sample_env (sample_guessed 4) (replicate 4 (sample_token 2))"
proof -
  have step: "gov_reach sample_env (sample_guessed (n + 1)) (sample_token 2 # log)"
    if "gov_reach sample_env (sample_guessed n) log" "0 \<le> n" "n < 4" for n log
    using gov_vote [OF that(1), of 0 "sample_token 2" "''XX''" Approve_Vote sample_audit 0] sample_guess [OF that(2,3)] by simp
  have "sample_guessed 0 = sample_seated" by (simp add: sample_guessed_def sample_seated_def sample_seat_def)
  with sample_start have "gov_reach sample_env (sample_guessed 0) []" by simp
  from step [OF step [OF step [OF step [OF this]]]] show ?thesis by (simp add: numeral_eq_Suc)
qed

lemma sample_fifth: "wrong_guess sample_env (sample_token 2) ''XX'' 0 (sample_guessed 4)"
  using sample_guess_reads [of 4] sample_code
  by (auto simp: wrong_guess_def is_ok_def sample_seat_def CONSILIUM_TTL_SECS_def)


definition sample_yes :: "uuid \<Rightarrow> voter_row" where
  "sample_yes u = (sample_seat u)\<lparr>vr_attempts := 1, vr_decision := ''approve'', vr_decided_at := Some 0, vr_used_at := Some 0,
     vr_client_ip := Some ''ip'', vr_user_agent := Some ''ua'', vr_hash := Some sample_hash\<rparr>"

definition sample_half :: gov_db where
  "sample_half = sample_gov\<lparr>gd_consilia := [sample_consilium_row\<lparr>cr_version := 2\<rparr>], gd_voters := [sample_yes 2, sample_seat 3]\<rparr>"

definition sample_approved :: gov_db where
  "sample_approved = sample_gov\<lparr>gd_consilia := [sample_consilium_row\<lparr>cr_state := ''approved'', cr_decided_at := Some 0, cr_version := 4\<rparr>],
     gd_voters := [sample_yes 2, sample_yes 3]\<rparr>"

definition sample_request :: "consilium_vote list \<Rightarrow> consilium_state \<Rightarrow> i64 option \<Rightarrow> u64 \<Rightarrow> consilium" where
  "sample_request votes state decided version = \<lparr>cn_id = 9, cn_terms = sample_grant, cn_hash = sample_hash, cn_initiator = 1,
     cn_owner_count = 3, cn_threshold = 2, cn_eligible = [2, 3], cn_votes = votes, cn_state = state, cn_created_at = 0,
     cn_expires_at = CONSILIUM_TTL_SECS, cn_decided_at = decided, cn_executed = None, cn_failure = None, cn_version = version,
     cn_pending = []\<rparr>"

definition sample_vote :: "uuid \<Rightarrow> consilium_vote" where
  "sample_vote u = \<lparr>cv_voter = u, cv_decision = Approve_Vote, cv_decided_at = 0, cv_counts = True\<rparr>"

lemmas sample_tables_defs = sample_seated_def sample_half_def sample_approved_def sample_gov_def sample_seat_def sample_yes_def
  sample_owner_def sample_consilium_row_def sample_vote_def sample_request_def

lemma sample_locked:
  "\<exists>seats. locked_consilium sample_env sample_seated 9 = Inr (sample_request [] Open_Consilium None 1, seats)"
  "\<exists>seats. locked_consilium sample_env sample_half 9 = Inr (sample_request [sample_vote 2] Open_Consilium None 2, seats)"
  "\<exists>seats. locked_consilium sample_env sample_approved 9 =
     Inr (sample_request [sample_vote 2, sample_vote 3] Approved_Consilium (Some 0) 4, seats)"
  by (simp_all add: locked_consilium_def find_row_def seats_of_def rehydrate_def sample_terms guard_def DIGEST_BYTES_def
      consilium_state_parse_def List.map_filter_def find_user_def vote_of_pair decision_parse_def still_an_owner_def executed_effect_def
      rmap_def sample_tables_defs)

lemma sample_seats_read:
  "token_seat sample_seated (sample_token 2) = Some (sample_seat 2, sample_owner 2)"
  "token_seat sample_half (sample_token 3) = Some (sample_seat 3, sample_owner 3)"
  "email_of sample_env sample_seated 1 = Inr ''o@x''" "email_of sample_env sample_half 1 = Inr ''o@x''"
  "email_of sample_env sample_approved 1 = Inr ''o@x''"
  using sample_tokens
  by (simp_all add: token_seat_def email_of_def sample_token_def find_row_def find_user_def sample_tables_defs)

lemma sample_votes:
  "let db = fst (submit sample_env 0 (sample_token 2) ''GG'' Approve_Vote sample_audit 0 sample_seated)
   in gd_consilia db = gd_consilia sample_half \<and> gd_voters db = gd_voters sample_half"
  "let db = fst (submit sample_env 0 (sample_token 3) ''GG'' Approve_Vote sample_audit 0 sample_half)
   in gd_consilia db = gd_consilia sample_approved \<and> gd_voters db = gd_voters sample_approved"
proof -
  obtain seats where l: "locked_consilium sample_env sample_seated (vr_consilium (sample_seat 2)) = Inr (sample_request [] Open_Consilium None 1, seats)"
    using sample_locked(1) by (auto simp: sample_seat_def)
  have e: "email_of sample_env sample_seated (cn_initiator (sample_request [] Open_Consilium None 1)) = Inr ''o@x''"
    using sample_seats_read(3) by (simp add: sample_request_def)
  have d: "decision_parse (vr_decision (sample_seat u)) = Inr Pending_Vote" for u by (simp add: sample_seat_def decision_parse_def)
  show "let db = fst (submit sample_env 0 (sample_token 2) ''GG'' Approve_Vote sample_audit 0 sample_seated)
   in gd_consilia db = gd_consilia sample_half \<and> gd_voters db = gd_voters sample_half"
    unfolding submit_seat [OF sample_seats_read(1) l e d]
    by (simp add: Let_def decide_def CONSILIUM_TTL_SECS_def MAX_CODE_ATTEMPTS_def update_voter_def cast_vote_def record_vote_def consilium_raise_def
        settle_tally_def approvals_def rejections_def counted_def consilium_is_open_def saturating_add_def saturating_sub_def
        persist_def find_row_def row_with_def log_events_def try_tx_def sample_audit_def
        consilium_withdrawal_id_def executed_payment_id_def executed_valuation_id_def executed_fee_policy_change_id_def
        executed_issuance_id_def executed_subscription_id_def sample_tables_defs) (simp add: word_le_nat_alt)
  obtain seats where l: "locked_consilium sample_env sample_half (vr_consilium (sample_seat 3)) =
      Inr (sample_request [sample_vote 2] Open_Consilium None 2, seats)"
    using sample_locked(2) by (auto simp: sample_seat_def)
  have e: "email_of sample_env sample_half (cn_initiator (sample_request [sample_vote 2] Open_Consilium None 2)) = Inr ''o@x''"
    using sample_seats_read(4) by (simp add: sample_request_def)
  show "let db = fst (submit sample_env 0 (sample_token 3) ''GG'' Approve_Vote sample_audit 0 sample_half)
   in gd_consilia db = gd_consilia sample_approved \<and> gd_voters db = gd_voters sample_approved"
    unfolding submit_seat [OF sample_seats_read(2) l e d]
    by (simp add: Let_def decide_def CONSILIUM_TTL_SECS_def MAX_CODE_ATTEMPTS_def update_voter_def cast_vote_def record_vote_def consilium_raise_def
        settle_tally_def approvals_def rejections_def counted_def consilium_is_open_def saturating_add_def saturating_sub_def
        persist_def find_row_def row_with_def log_events_def try_tx_def sample_audit_def
        consilium_withdrawal_id_def executed_payment_id_def executed_valuation_id_def executed_fee_policy_change_id_def
        executed_issuance_id_def executed_subscription_id_def sample_tables_defs)
qed

lemma sample_history: "\<exists>log. gov_reach sample_env sample_approved log"
proof -
  from sample_start have "\<exists>log. gov_reach sample_env sample_half log"
    using gov_other [OF gov_vote, of _ _ _ sample_half] sample_votes(1) unfolding Let_def by metis
  then show ?thesis
    using gov_other [OF gov_vote, of _ _ _ sample_approved] sample_votes(2) unfolding Let_def by metis
qed

definition sample_effect :: "consilium \<Rightarrow> gov_db \<Rightarrow> gov_db \<times> execution_outcome result" where
  "sample_effect c db = (db, Inr (Executed_Effect (Effect_Issuance 5)))"

lemma sample_executed:
  "\<exists>row. find_row (fst (execute sample_env sample_effect 0 9 1 sample_approved)) 9 = Some row \<and> cr_state row = ''executed''"
proof -
  let ?c = "sample_request [sample_vote 2, sample_vote 3] Approved_Consilium (Some 0) 4"
  have view: "\<exists>view. find_consilium sample_env sample_approved 9 = Inr view \<and> cw_consilium view = ?c"
    by (simp add: find_consilium_def find_view_def find_row_def seats_of_def rehydrate_def sample_terms guard_def DIGEST_BYTES_def
        consilium_state_parse_def List.map_filter_def find_user_def vote_of_pair decision_parse_def still_an_owner_def
        executed_effect_def email_of_def view_of_def rmap_def sample_tables_defs)
  have gates: "execution_refusal sample_env sample_approved 1 ?c = None"
    by (simp add: execution_refusal_def sample_hash_def sample_env_def approvals_def counted_def last_roster_change_at_def
        EXECUTION_GRACE_SECS_def CONSILIUM_TTL_SECS_def i64_saturating_add_def i64_clamp_def sample_tables_defs)
  let ?done = "?c\<lparr>cn_state := Executed_Consilium, cn_executed := Some (Effect_Issuance 5), cn_version := 5,
    cn_pending := [Consilium_Executed 9 (Effect_Issuance 5) 1]\<rparr>"
  let ?told = "effect_detail (ge_show sample_env) (Effect_Issuance 5)"
  let ?written = "log_events Consilium_Event (\<lambda>_. False) (cn_pending ?done)
    (sample_approved\<lparr>gd_consilia := map (row_with ?done) (gd_consilia sample_approved)\<rparr>)"
  have marked: "mark_executed ?c (Effect_Issuance 5) 1 = Inr ?done"
    by (simp add: mark_executed_def consilium_raise_def saturating_add_def sample_request_def)
  have written: "persist ?done sample_approved = Inr ?written"
    by (simp add: persist_def find_row_def sample_request_def sample_approved_def sample_consilium_row_def)
  have readers: "find_user ?written u = find_user sample_approved u" "cn_id ?done \<in> cr_id ` set (gd_consilia ?written)" for u
    by (simp_all add: find_user_def log_events_def sample_request_def sample_approved_def sample_consilium_row_def row_with_def)
  have "\<forall>u \<in> set (audience ?done). find_user ?written u \<noteq> None"
    unfolding readers(1) by (simp add: audience_def find_user_def sample_tables_defs)
  note sent = enqueue_all_succeeds [OF this readers(2)]
  have "\<exists>told. announce sample_env 0 ?done ?told ?written = Inr told"
    unfolding announce_def Let_def by (cases "announces_by_mail (cn_terms ?done)") (simp_all only: simp_thms if_True if_False sent, simp)
  then obtain told where told: "announce sample_env 0 ?done ?told ?written = Inr told" by blast
  have after: "gd_consilia told = map (row_with ?done) (gd_consilia sample_approved)"
    using announce_consilia [OF told] by (simp add: log_events_def)
  obtain seats where l: "locked_consilium sample_env sample_approved 9 = Inr (?c, seats)" using sample_locked(3) by blast
  have "email_of sample_env told (cn_initiator ?done) = Inr ''o@x''"
    using announce_users [OF told]
    by (simp add: email_of_def find_user_def log_events_def sample_request_def sample_approved_def sample_gov_def sample_owner_def)
  then have "fst (record_execution sample_env 0 9 (Executed_Effect (Effect_Issuance 5)) 1 sample_approved) = told"
    unfolding record_execution_def using l marked written told
    by (simp add: try_tx_def [of _ "Inr _"] rmap_def sample_request_def)
  moreover have "execute sample_env sample_effect 0 9 1 sample_approved =
      record_execution sample_env 0 9 (Executed_Effect (Effect_Issuance 5)) 1 sample_approved"
  proof -
    from view obtain w where w: "find_consilium sample_env sample_approved 9 = Inr w" "cw_consilium w = ?c" by blast
    have "cn_state ?c = Approved_Consilium" by (simp add: sample_request_def)
    with w gates show ?thesis by (simp add: execute_def try_tx_def [of _ "Inr _"] sample_effect_def)
  qed
  ultimately show ?thesis using after by (simp add: find_row_def sample_approved_def sample_consilium_row_def row_with_def)
qed

lemma sample_elsewhere: "effect_elsewhere sample_effect"
  by (simp add: effect_elsewhere_def sample_effect_def)

theorem quorum_stands_at_execution_witness:
  "\<exists>log row. gov_reach sample_env sample_approved log \<and> find_row sample_approved 9 = Some row \<and>
     unat (cr_owner_count row) < 2 * unat (cr_threshold row) \<and>
     unat (cr_threshold row) \<le> card {u. approves sample_approved 9 u} \<and> \<not> approves sample_approved 9 (cr_initiator row)"
proof -
  from sample_history obtain log where log: "gov_reach sample_env sample_approved log" by blast
  from sample_executed obtain row' where after: "find_row (fst (execute sample_env sample_effect 0 9 1 sample_approved)) 9 = Some row'"
    "cr_state row' = ''executed''" by blast
  have before: "find_row sample_approved 9 = Some (sample_consilium_row\<lparr>cr_state := ''approved'', cr_decided_at := Some 0, cr_version := 4\<rparr>)"
    "cr_state (sample_consilium_row\<lparr>cr_state := ''approved'', cr_decided_at := Some 0, cr_version := 4\<rparr>) \<noteq> ''executed''"
    by (simp_all add: find_row_def sample_approved_def sample_consilium_row_def)
  from quorum_stands_at_execution [OF log sample_elsewhere before after] log before(1) show ?thesis by blast
qed

end
