(* ===== verification/PayStore.thy ===== *)
theory PayStore
  imports ConsiliumUse Withdrawals ApprovalCatalog
begin

text \<open>
  The payment orders' store (\<^verbatim>\<open>infrastructure/payments.rs\<close>, \<^verbatim>\<open>ports/payments.rs\<close>): the four seats an
  order's approval can take, the investor's consent with its pins and its attempts, the approval
  decided by the identity plane, and the record of an execution, which voids a withdrawal whose
  consent no longer stands.  The tables of the governance plane are shared; a transaction is a
  function of the tables, as in \<open>ConsiliumStore\<close>.
\<close>

section \<open>The tables\<close>

record seat_row =
  se_payment :: uuid
  se_subject :: uuid
  se_decision :: string
  se_decided_at :: "i64 option"
  se_token_hash :: string
  se_code_hash :: string
  se_attempts :: int
  se_burned_at :: "int option"
  se_expires_at :: i64
  se_used_at :: "i64 option"
  se_version_at_open :: i64
  se_email_hash_at_open :: string
  se_client_ip :: "string option"
  se_user_agent :: "string option"
  se_hash :: "string option"

record session_row =
  ss_payment :: uuid
  ss_subject :: uuid
  ss_decision :: string
  ss_decided_at :: "i64 option"
  ss_version_at_open :: i64
  ss_email_hash_at_open :: string
  ss_client_ip :: "string option"
  ss_user_agent :: "string option"
  ss_hash :: "string option"

datatype approval_level = Platform_Level | Scope_Level

fun approval_level_str :: "approval_level \<Rightarrow> string" where
  "approval_level_str Platform_Level = ''platform''"
| "approval_level_str Scope_Level = ''scope''"

definition approval_level_parse :: "string \<Rightarrow> approval_level result" where
  "approval_level_parse raw =
     (if raw = ''platform'' then Inr Platform_Level
      else if raw = ''scope'' then Inr Scope_Level
      else Inl (Repository (''unknown approval level: '' @ raw)))"

record approval_row =
  ar_payment :: uuid
  ar_destination :: string
  ar_hash :: string
  ar_approval :: "string option"
  ar_level :: "approval_level option"
  ar_attempts :: int
  ar_next_attempt_at :: int
  ar_last_error :: "string option"
  ar_withdrawn_at :: "int option"
  ar_reported_at :: "int option"
  ar_execute_by :: "i64 option"
  ar_created_at :: int

text \<open>One notice for one person, and its row in the outbox (\<^verbatim>\<open>scope_notifications.rs\<close>).\<close>

record scope_notice =
  sn_user :: uuid
  sn_topic :: string
  sn_kind :: string
  sn_title :: string
  sn_body :: string
  sn_link :: string
  sn_key :: string

record notice_row =
  nt_notice :: scope_notice
  nt_payment :: "uuid option"
  nt_sent_at :: "int option"
  nt_withdrawn_at :: "int option"

text \<open>\<open>pb_versions\<close>: a user's token version in the identity plane and in this one.\<close>

record pay_db =
  pb_gov :: gov_db
  pb_versions :: "(uuid \<times> i64 \<times> i64) list"
  pb_links :: "(uuid \<times> uuid) list"
  pb_seats :: "seat_row list"
  pb_sessions :: "session_row list"
  pb_approvals :: "approval_row list"
  pb_notices :: "notice_row list"
  pb_withdrawals :: withdrawal_store

abbreviation on_gov :: "pay_db \<Rightarrow> gov_db \<Rightarrow> pay_db" where
  "on_gov db g \<equiv> db\<lparr>pb_gov := g\<rparr>"

definition token_floor :: "pay_db \<Rightarrow> uuid \<Rightarrow> i64" where
  "token_floor db u =
     (case map_of (pb_versions db) u of
        None \<Rightarrow> 0
      | Some (concierge, banking) \<Rightarrow> if sint concierge < sint banking then banking else concierge)"

section \<open>The consent's vocabulary\<close>

datatype consent_decision = Pending_Consent | Approve_Consent | Reject_Consent

fun consent_decision_str :: "consent_decision \<Rightarrow> string" where
  "consent_decision_str Pending_Consent = ''pending''"
| "consent_decision_str Approve_Consent = ''approve''"
| "consent_decision_str Reject_Consent = ''reject''"

definition consent_decision_parse :: "string \<Rightarrow> consent_decision result" where
  "consent_decision_parse raw =
     (if raw = ''pending'' then Inr Pending_Consent
      else if raw = ''approve'' then Inr Approve_Consent
      else if raw = ''reject'' then Inr Reject_Consent
      else Inl (Validation (''unknown consent decision: '' @ raw)))"

interpretation consent_text: exact_codec consent_decision_str consent_decision_parse
proof
  show "consent_decision_parse (consent_decision_str x) = Inr x" for x
    by (cases x) (simp_all add: consent_decision_parse_def)
  show "consent_decision_parse s = Inr x \<Longrightarrow> consent_decision_str x = s" for s x
    by (auto simp: consent_decision_parse_def split: if_splits)
qed

datatype invalidation = Sessions_Revoked i64 i64 | Email_Changed

fun invalidation_mail_reason :: "invalidation \<Rightarrow> string" where
  "invalidation_mail_reason (Sessions_Revoked _ _) = ''SESSIONS_REVOKED''"
| "invalidation_mail_reason Email_Changed = ''EMAIL_CHANGED''"

fun invalidation_text :: "invalidation \<Rightarrow> string" where
  "invalidation_text (Sessions_Revoked at_open now) =
     ''the investor's sessions were revoked after this consent was issued (token version '' @ show_i64 at_open @
     '' at open, '' @ show_i64 now @ '' now), so the consent is void''"
| "invalidation_text Email_Changed =
     ''the investor's mailbox changed after this consent was issued, so the consent is void''"

definition pins_moved :: "gov_env \<Rightarrow> i64 \<Rightarrow> i64 \<Rightarrow> string \<Rightarrow> string \<Rightarrow> invalidation option" where
  "pins_moved env version_at_open version email_hash_at_open email =
     (if version \<noteq> version_at_open then Some (Sessions_Revoked version_at_open version)
      else if ge_digest env email \<noteq> email_hash_at_open then Some Email_Changed
      else None)"

definition consent_not_found :: domain_error where
  "consent_not_found = NotFound ''consent'' ''''"

definition already_open :: domain_error where
  "already_open = Conflict (''a payment is already open against this claim '' @ em_dash @ '' close it before opening another'')"

section \<open>Seats with their subjects\<close>

text \<open>A seat joined with its subject's row: without the row, no seat is read.\<close>

definition join_user :: "pay_db \<Rightarrow> ('a \<Rightarrow> uuid) \<Rightarrow> 'a option \<Rightarrow> ('a \<times> user_row) option" where
  "join_user db subject seat =
     Option.bind seat (\<lambda>s. map_option (\<lambda>u. (s, u)) (find_user (pb_gov db) (subject s)))"

definition consent_of_payment :: "pay_db \<Rightarrow> uuid \<Rightarrow> (seat_row \<times> user_row) option" where
  "consent_of_payment db i = join_user db se_subject (List.find (\<lambda>s. se_payment s = i) (pb_seats db))"

definition consent_by_token :: "pay_db \<Rightarrow> string \<Rightarrow> (seat_row \<times> user_row) option" where
  "consent_by_token db token_hash = join_user db se_subject (List.find (\<lambda>s. se_token_hash s = token_hash) (pb_seats db))"

definition session_of_payment :: "pay_db \<Rightarrow> uuid \<Rightarrow> (session_row \<times> user_row) option" where
  "session_of_payment db i = join_user db ss_subject (List.find (\<lambda>s. ss_payment s = i) (pb_sessions db))"

definition consent_invalidation :: "gov_env \<Rightarrow> pay_db \<Rightarrow> seat_row \<times> user_row \<Rightarrow> invalidation option" where
  "consent_invalidation env db seat =
     (case seat of (s, u) \<Rightarrow>
        pins_moved env (se_version_at_open s) (token_floor db (se_subject s)) (se_email_hash_at_open s) (ur_email u))"

definition session_invalidation :: "gov_env \<Rightarrow> pay_db \<Rightarrow> session_row \<times> user_row \<Rightarrow> invalidation option" where
  "session_invalidation env db seat =
     (case seat of (s, u) \<Rightarrow>
        pins_moved env (ss_version_at_open s) (token_floor db (ss_subject s)) (ss_email_hash_at_open s) (ur_email u))"

definition seat_invalidation :: "gov_env \<Rightarrow> pay_db \<Rightarrow> uuid \<Rightarrow> invalidation option" where
  "seat_invalidation env db i =
     (case consent_of_payment db i of
        Some seat \<Rightarrow> consent_invalidation env db seat
      | None \<Rightarrow> Option.bind (session_of_payment db i) (session_invalidation env db))"

definition consilium_of :: "pay_db \<Rightarrow> uuid \<Rightarrow> uuid option" where
  "consilium_of db i = map_of (pb_links db) i"

definition concierge_of_payment :: "pay_db \<Rightarrow> uuid \<Rightarrow> approval_row option" where
  "concierge_of_payment db i = List.find (\<lambda>a. ar_payment a = i) (pb_approvals db)"

definition initiator_email_of :: "gov_env \<Rightarrow> pay_db \<Rightarrow> uuid \<Rightarrow> string result" where
  "initiator_email_of env db i =
     rmap ur_email (ok_or (find_user (pb_gov db) i)
       (Repository (''payment initiator '' @ ge_show env i @ '' has no mirrored user row'')))"

section \<open>Views\<close>

record consent_view =
  nv_subject :: uuid
  nv_email :: string
  nv_decision :: consent_decision
  nv_decided_at :: i64
  nv_notified :: bool
  nv_attempts_remaining :: u32
  nv_invalidated :: "invalidation option"

record session_view =
  sv_subject :: uuid
  sv_email :: string
  sv_decision :: consent_decision
  sv_decided_at :: i64
  sv_invalidated :: "invalidation option"

record concierge_view =
  gv_approval :: "string option"
  gv_level :: "approval_level option"
  gv_hash :: string
  gv_destination :: string
  gv_execute_by :: "i64 option"

record payment_view =
  yv_order :: payment_order
  yv_initiator :: string
  yv_consilium :: "uuid option"
  yv_consent :: "consent_view option"
  yv_concierge :: "concierge_view option"
  yv_session :: "session_view option"
  yv_detail :: "end_detail option"

definition consent_invalidated :: "payment_view \<Rightarrow> invalidation option" where
  "consent_invalidated view =
     (case Option.bind (yv_consent view) nv_invalidated of
        Some cause \<Rightarrow> Some cause
      | None \<Rightarrow> Option.bind (yv_session view) sv_invalidated)"

definition view_consent :: "gov_env \<Rightarrow> pay_db \<Rightarrow> seat_row \<times> user_row \<Rightarrow> consent_view result" where
  "view_consent env db seat =
     (case seat of (s, u) \<Rightarrow>
        rmap (\<lambda>d. \<lparr>nv_subject = se_subject s, nv_email = ur_email u, nv_decision = d,
            nv_decided_at = (case se_decided_at s of None \<Rightarrow> 0 | Some t \<Rightarrow> t),
            nv_notified = list_ex (\<lambda>r. nr_payment r = se_payment s \<and> nr_notified r) (gd_consents (pb_gov db)),
            nv_attempts_remaining = word_of_int (max (MAX_CODE_ATTEMPTS - se_attempts s) 0),
            nv_invalidated = consent_invalidation env db seat\<rparr>)
          (consent_decision_parse (se_decision s)))"

definition view_session :: "gov_env \<Rightarrow> pay_db \<Rightarrow> session_row \<times> user_row \<Rightarrow> session_view result" where
  "view_session env db seat =
     (case seat of (s, u) \<Rightarrow>
        rmap (\<lambda>d. \<lparr>sv_subject = ss_subject s, sv_email = ur_email u, sv_decision = d,
            sv_decided_at = (case ss_decided_at s of None \<Rightarrow> 0 | Some t \<Rightarrow> t),
            sv_invalidated = session_invalidation env db seat\<rparr>)
          (consent_decision_parse (ss_decision s)))"

definition view_concierge :: "approval_row \<Rightarrow> concierge_view" where
  "view_concierge a = \<lparr>gv_approval = ar_approval a, gv_level = ar_level a, gv_hash = ar_hash a,
     gv_destination = ar_destination a, gv_execute_by = ar_execute_by a\<rparr>"

fun on_option :: "('a \<Rightarrow> 'b result) \<Rightarrow> 'a option \<Rightarrow> 'b option result" where
  "on_option f None = Inr None"
| "on_option f (Some x) = rmap Some (f x)"

definition payment_view_of :: "gov_env \<Rightarrow> pay_db \<Rightarrow> payment_order \<Rightarrow> payment_view result" where
  "payment_view_of env db order =
     rbind (initiator_email_of env db (po_initiator order)) (\<lambda>email.
     rbind (on_option (view_consent env db) (consent_of_payment db (po_id order))) (\<lambda>consent.
     rmap (\<lambda>session. \<lparr>yv_order = order, yv_initiator = email, yv_consilium = consilium_of db (po_id order),
           yv_consent = consent, yv_concierge = map_option view_concierge (concierge_of_payment db (po_id order)),
           yv_session = session, yv_detail = detail_of (pb_gov db) (pt_to (po_terms order))\<rparr>)
       (on_option (view_session env db) (session_of_payment db (po_id order)))))"

definition find_payment :: "gov_env \<Rightarrow> pay_db \<Rightarrow> uuid \<Rightarrow> payment_view option result" where
  "find_payment env db i =
     (case List.find (\<lambda>p. po_id p = i) (gd_orders (pb_gov db)) of
        None \<Rightarrow> Inr None
      | Some order \<Rightarrow> rmap Some (payment_view_of env db order))"

section \<open>Notices\<close>

definition enqueue_notice :: "scope_notice \<Rightarrow> uuid option \<Rightarrow> pay_db \<Rightarrow> pay_db result" where
  "enqueue_notice notice payment db =
     (if sn_key notice \<in> (\<lambda>r. sn_key (nt_notice r)) ` set (pb_notices db) then Inr db
      else if find_user (pb_gov db) (sn_user notice) = None then Inl (Repository DB_REFUSED)
      else Inr (db\<lparr>pb_notices := pb_notices db @
        [\<lparr>nt_notice = notice, nt_payment = payment, nt_sent_at = None, nt_withdrawn_at = None\<rparr>]\<rparr>))"

definition withdraw_notices :: "int \<Rightarrow> uuid \<Rightarrow> string \<Rightarrow> pay_db \<Rightarrow> pay_db" where
  "withdraw_notices now payment kind db =
     db\<lparr>pb_notices := map (\<lambda>r. if nt_payment r = Some payment \<and> sn_kind (nt_notice r) = kind \<and> nt_sent_at r = None \<and>
          nt_withdrawn_at r = None then r\<lparr>nt_withdrawn_at := Some now\<rparr> else r) (pb_notices db)\<rparr>"

definition CONSENT_NOTICE_KIND :: string where
  "CONSENT_NOTICE_KIND = ''payment_consent''"

definition OUTCOME_NOTICE_KIND :: string where
  "OUTCOME_NOTICE_KIND = ''payment_outcome''"

definition answer_link :: "gov_env \<Rightarrow> uuid \<Rightarrow> string" where
  "answer_link env payment = ''/cabinet/wallet/action/payment/'' @ ge_show env payment"

definition approval_destination :: "gov_env \<Rightarrow> payment_terms \<Rightarrow> end_detail option \<Rightarrow> string" where
  "approval_destination env terms detail =
     (let full = mail_destination (ge_show env) terms detail
      in if is_plain_text full then full else destination_label (ge_show env) terms)"

section \<open>The end of a consent nobody answered\<close>

datatype consent_end = Consent_Burned | Consent_Invalidated invalidation

fun consent_end_words :: "consent_end \<Rightarrow> string \<times> string" where
  "consent_end_words Consent_Burned = (''TOKEN_BURNED'', ''WRONG_CODES'')"
| "consent_end_words (Consent_Invalidated cause) = (''INVALIDATED'', invalidation_mail_reason cause)"

datatype seat_kind = Mailed_Seat | Session_Seat

definition queue_consent_end :: "gov_env \<Rightarrow> int \<Rightarrow> payment_order \<Rightarrow> consent_end \<Rightarrow> pay_db \<Rightarrow> pay_db result" where
  "queue_consent_end env now order ending db =
     (case payment_requirement (po_terms order) of
        OwnerConsilium_Approval \<Rightarrow> Inr db
      | SubjectConsent subject \<Rightarrow>
          let recipients = (if ending = Consent_Invalidated Email_Changed then [] else [subject]) @
                (if po_initiator order \<noteq> subject then [po_initiator order] else []) in
          if recipients = [] then Inr db
          else
            case Option.bind (find_user (pb_gov db) subject) ur_concierge of
              None \<Rightarrow> Inr db
            | Some mirrored \<Rightarrow>
                let (outcome, reason) = consent_end_words ending;
                    mail = Mail_PaymentOutcome \<lparr>px_subject = ge_show env mirrored, px_outcome = outcome, px_reason = reason,
                      px_tier = payment_tier_str (payment_tier (po_terms order)),
                      px_source = party_label (ge_show env) (pt_from (po_terms order)),
                      px_destination = mail_destination (ge_show env) (po_terms order)
                        (detail_of (pb_gov db) (pt_to (po_terms order))),
                      px_amount = mail_amount (pt_amount (po_terms order)), px_payment = ge_show env (po_id order)\<rparr>
                in rmap (on_gov db) (fold_result (\<lambda>recipient.
                     enqueue now (Subject_Payment (po_id order)) recipient
                       (''payment:'' @ ge_show env (po_id order) @ '':outcome:'' @ ge_show env recipient) mail)
                     recipients (pb_gov db)))"

definition queue_session_end :: "gov_env \<Rightarrow> payment_order \<Rightarrow> consent_end \<Rightarrow> pay_db \<Rightarrow> pay_db result" where
  "queue_session_end env order ending db =
     (case (payment_requirement (po_terms order), ending) of
        (SubjectConsent subject, Consent_Invalidated cause) \<Rightarrow>
          let what = mail_amount (pt_amount (po_terms order)) @ '' to '' @
                approval_destination env (po_terms order) (detail_of (pb_gov db) (pt_to (po_terms order)));
              why = (case cause of
                  Sessions_Revoked _ _ \<Rightarrow> ''the sessions of the account were revoked after the payment was opened''
                | Email_Changed \<Rightarrow> ''the mailbox of the account changed after the payment was opened'');
              notices = (if cause = Email_Changed then []
                         else [(subject, ''The payment of '' @ what @ '' out of your account was stopped because '' @ why @
                           ''. Nothing was moved.'')]) @
                (if po_initiator order = subject then []
                 else [(po_initiator order, ''The payment of '' @ what @ '' that you opened was stopped because '' @ why @
                   ''. Nothing was moved.'')])
          in fold_result (\<lambda>(recipient, body).
               enqueue_notice \<lparr>sn_user = recipient, sn_topic = MONEY_MOVEMENT_TOPIC, sn_kind = OUTCOME_NOTICE_KIND,
                 sn_title = ''A payment was stopped'', sn_body = body, sn_link = '''',
                 sn_key = ''payment:'' @ ge_show env (po_id order) @ '':outcome:'' @ ge_show env recipient\<rparr>
               (Some (po_id order))) notices db
      | _ \<Rightarrow> Inr db)"

text \<open>Inside a savepoint: a failure undoes the notice and nothing else.\<close>

definition announce_consent_end ::
  "gov_env \<Rightarrow> int \<Rightarrow> payment_order \<Rightarrow> consent_end \<Rightarrow> seat_kind \<Rightarrow> pay_db \<Rightarrow> pay_db" where
  "announce_consent_end env now order ending seat db =
     (case (case seat of
              Mailed_Seat \<Rightarrow> queue_consent_end env now order ending db
            | Session_Seat \<Rightarrow> queue_session_end env order ending db) of
        Inl _ \<Rightarrow> db | Inr db' \<Rightarrow> db')"

definition withdraw_consent :: "int \<Rightarrow> uuid \<Rightarrow> pay_db \<Rightarrow> pay_db" where
  "withdraw_consent now i db =
     (let db = withdraw_notices now i CONSENT_NOTICE_KIND db
      in on_gov db (fst (withdraw_undelivered_consent now i (pb_gov db))))"

end
