(* ===== verification/PayConsent.thy ===== *)
theory PayConsent
  imports PayStore
begin

text \<open>
  The transitions of a payment order in its store (\<^verbatim>\<open>PgPayments\<close> in
  \<^verbatim>\<open>infrastructure/payments.rs\<close>): opening with one of the four seats, the verdicts, the emailed and
  the in-cabinet consent, the decision of the identity plane, expiry, and the record of an execution.
  What the operating system's randomness gave is in the credential; the sub-second clock of the
  database is the argument \<open>now\<close>, the caller's clock the argument \<open>at\<close>.
\<close>

section \<open>Opening\<close>

record consent_credential =
  cc_subject :: uuid
  cc_token :: string
  cc_code :: string
  cc_token_hash :: string
  cc_code_hash :: string
  cc_version_at_open :: i64
  cc_email_hash_at_open :: string

record session_seat =
  st_subject :: uuid
  st_version_at_open :: i64
  st_email_hash_at_open :: string

datatype approval_seat =
    Seat_Consilium uuid | Seat_Consent consent_credential | Seat_Concierge | Seat_Session session_seat

fun require_seat_matches :: "approval_seat \<Rightarrow> payment_approval \<Rightarrow> unit result" where
  "require_seat_matches (Seat_Consent credential) (SubjectConsent subject) =
     (if cc_subject credential = subject then Inr ()
      else Inl (Validation ''the consent seat names an investor other than the order's source''))"
| "require_seat_matches (Seat_Session session) (SubjectConsent subject) =
     (if st_subject session = subject then Inr ()
      else Inl (Validation ''the consent seat names an investor other than the order's source''))"
| "require_seat_matches _ (SubjectConsent _) =
     Inl (Validation ''an investor's own money is decided by that investor's consent, not by the owners'')"
| "require_seat_matches (Seat_Consent _) OwnerConsilium_Approval =
     Inl (Validation ''fund-owned money is decided by the owners, not by one investor's consent'')"
| "require_seat_matches (Seat_Session _) OwnerConsilium_Approval =
     Inl (Validation ''fund-owned money is decided by the owners, not by one investor's consent'')"
| "require_seat_matches _ OwnerConsilium_Approval = Inr ()"

text \<open>The order's row: its id is its own, and one order is open per fund-owned source.\<close>

definition insert_payment :: "int \<Rightarrow> payment_order \<Rightarrow> pay_db \<Rightarrow> pay_db result" where
  "insert_payment now order db =
     (let g = pb_gov db;
          fund_owned = (\<lambda>p. payment_requirement (po_terms p) = OwnerConsilium_Approval);
          clash = (\<lambda>p. po_id p = po_id order \<or>
            (payment_is_open (po_state p) \<and> fund_owned p \<and> payment_is_open (po_state order) \<and>
             pt_from (po_terms p) = pt_from (po_terms order)))
      in if list_ex clash (gd_orders g) then Inl already_open
         else if find_user g (po_initiator order) = None then Inl (Repository DB_REFUSED)
         else Inr (on_gov db (g\<lparr>gd_orders := gd_orders g @ [order\<lparr>po_pending := [], po_created_at := word_of_int now\<rparr>]\<rparr>)))"

definition seat_consilium :: "uuid \<Rightarrow> uuid \<Rightarrow> pay_db \<Rightarrow> pay_db result" where
  "seat_consilium i consilium db =
     (if i \<in> fst ` set (pb_links db) \<or> consilium \<in> snd ` set (pb_links db) \<or>
         consilium \<notin> cr_id ` set (gd_consilia (pb_gov db))
      then Inl (Repository DB_REFUSED)
      else Inr (db\<lparr>pb_links := pb_links db @ [(i, consilium)]\<rparr>))"

definition insert_seat :: "seat_row \<Rightarrow> pay_db \<Rightarrow> pay_db result" where
  "insert_seat s db =
     (if list_ex (\<lambda>r. se_payment r = se_payment s \<or> se_token_hash r = se_token_hash s) (pb_seats db) \<or>
         find_user (pb_gov db) (se_subject s) = None
      then Inl (Repository DB_REFUSED)
      else Inr (db\<lparr>pb_seats := pb_seats db @ [s],
        pb_gov := (pb_gov db)\<lparr>gd_consents := gd_consents (pb_gov db) @
          [\<lparr>nr_payment = se_payment s, nr_subject = se_subject s, nr_notified = False\<rparr>]\<rparr>\<rparr>))"

definition seat_consent ::
  "gov_env \<Rightarrow> int \<Rightarrow> string \<Rightarrow> payment_order \<Rightarrow> consent_credential \<Rightarrow> pay_db \<Rightarrow> pay_db result" where
  "seat_consent env now url_base order credential db =
     rbind (insert_seat \<lparr>se_payment = po_id order, se_subject = cc_subject credential, se_decision = ''pending'',
         se_decided_at = None, se_token_hash = cc_token_hash credential, se_code_hash = cc_code_hash credential,
         se_attempts = 0, se_burned_at = None, se_expires_at = po_expires_at order, se_used_at = None,
         se_version_at_open = cc_version_at_open credential, se_email_hash_at_open = cc_email_hash_at_open credential,
         se_client_ip = None, se_user_agent = None, se_hash = None\<rparr> db) (\<lambda>db.
     rbind (ok_or (Option.bind (find_user (pb_gov db) (cc_subject credential)) ur_concierge)
         (Conflict (''the investor whose consent this payment needs has no mirrored identity-plane id, '' @
           ''so no consent mail could be addressed to them''))) (\<lambda>mirrored.
     rbind (initiator_email_of env db (po_initiator order)) (\<lambda>initiator_email.
       let mail = Mail_PaymentConsent \<lparr>cm_payment = ge_show env (po_id order), cm_subject = ge_show env mirrored,
             cm_initiator = initiator_email, cm_tier = payment_tier_str (payment_tier (po_terms order)),
             cm_source = party_label (ge_show env) (pt_from (po_terms order)),
             cm_destination = mail_destination (ge_show env) (po_terms order)
               (detail_of (pb_gov db) (pt_to (po_terms order))),
             cm_amount = to_decimal_string (pt_amount (po_terms order)), cm_reason = reason_str (pt_reason (po_terms order)),
             cm_hash = hex32 (po_hash order), cm_expires_at = po_expires_at order,
             cm_url = trim_end_of (CHR ''/'') url_base @ ''/'' @ cc_token credential, cm_code = cc_code credential\<rparr>
       in rmap (on_gov db) (enqueue now (Subject_Payment (po_id order)) (cc_subject credential)
            (''payment:'' @ ge_show env (po_id order) @ '':consent:'' @ ge_show env (cc_subject credential)) mail
            (pb_gov db)))))"

definition seat_concierge :: "gov_env \<Rightarrow> int \<Rightarrow> payment_order \<Rightarrow> pay_db \<Rightarrow> pay_db result" where
  "seat_concierge env now order db =
     (let destination = approval_destination env (po_terms order) (detail_of (pb_gov db) (pt_to (po_terms order))) in
      rbind (order_approval_payload (ge_show env) order destination) (\<lambda>payload.
        if concierge_of_payment db (po_id order) \<noteq> None then Inl (Repository DB_REFUSED)
        else Inr (db\<lparr>pb_approvals := pb_approvals db @ [\<lparr>ar_payment = po_id order, ar_destination = destination,
          ar_hash = hex32 (ge_digest env payload), ar_approval = None, ar_level = None, ar_attempts = 0,
          ar_next_attempt_at = now, ar_last_error = None, ar_withdrawn_at = None, ar_reported_at = None,
          ar_execute_by = None, ar_created_at = now\<rparr>]\<rparr>)))"

definition seat_session :: "gov_env \<Rightarrow> payment_order \<Rightarrow> session_seat \<Rightarrow> pay_db \<Rightarrow> pay_db result" where
  "seat_session env order session db =
     (if list_ex (\<lambda>r. ss_payment r = po_id order) (pb_sessions db) \<or> find_user (pb_gov db) (st_subject session) = None
      then Inl (Repository DB_REFUSED)
      else
        let db = db\<lparr>pb_sessions := pb_sessions db @ [\<lparr>ss_payment = po_id order, ss_subject = st_subject session,
              ss_decision = ''pending'', ss_decided_at = None, ss_version_at_open = st_version_at_open session,
              ss_email_hash_at_open = st_email_hash_at_open session, ss_client_ip = None, ss_user_agent = None,
              ss_hash = None\<rparr>]\<rparr> in
        if Option.bind (find_user (pb_gov db) (st_subject session)) ur_concierge = None
        then Inl (Conflict (''the investor whose confirmation this payment needs has no mirrored identity-plane id, '' @
          ''so they could not be told to answer it''))
        else
          let body = ''A payment of '' @ mail_amount (pt_amount (po_terms order)) @ '' from your account to '' @
                approval_destination env (po_terms order) (detail_of (pb_gov db) (pt_to (po_terms order))) @
                '' waits for your confirmation.'' @
                (if is_plain_text (reason_str (pt_reason (po_terms order)))
                 then '' Reason: '' @ reason_str (pt_reason (po_terms order)) @ ''.''
                 else '' The reason is on the confirmation page.'') @
                '' Open the cabinet to confirm or decline it; it lapses on its own if you do nothing.''
          in enqueue_notice \<lparr>sn_user = st_subject session, sn_topic = MONEY_MOVEMENT_TOPIC, sn_kind = CONSENT_NOTICE_KIND,
               sn_title = ''Confirm a payment from your account'', sn_body = body, sn_link = answer_link env (po_id order),
               sn_key = ''payment:'' @ ge_show env (po_id order) @ '':consent:'' @ ge_show env (st_subject session)\<rparr>
             (Some (po_id order)) db)"

definition log_order :: "payment_order \<Rightarrow> pay_db \<Rightarrow> pay_db" where
  "log_order order db = on_gov db (log_events Order_Event payment_relays (po_pending order) (pb_gov db))"

definition open_order :: "gov_env \<Rightarrow> int \<Rightarrow> string \<Rightarrow> payment_order \<Rightarrow> approval_seat \<Rightarrow> pay_db \<Rightarrow> pay_db result" where
  "open_order env now url_base order seat db =
     rbind (require_seat_matches seat (payment_requirement (po_terms order))) (\<lambda>_.
     rbind (insert_payment now order db) (\<lambda>db.
     rmap (log_order order)
       (case seat of
          Seat_Consilium consilium \<Rightarrow> seat_consilium (po_id order) consilium db
        | Seat_Consent credential \<Rightarrow> seat_consent env now url_base order credential db
        | Seat_Concierge \<Rightarrow> seat_concierge env now order db
        | Seat_Session session \<Rightarrow> seat_session env order session db)))"

section \<open>Reading and the verdicts\<close>

definition order_locked :: "gov_env \<Rightarrow> pay_db \<Rightarrow> uuid \<Rightarrow> payment_order result" where
  "order_locked env db i = payment_locked env (pb_gov db) i"

definition save_order :: "payment_order \<Rightarrow> pay_db \<Rightarrow> pay_db result" where
  "save_order order db = rmap (on_gov db) (persist_order order (pb_gov db))"

definition order_of :: "pay_db \<Rightarrow> uuid \<Rightarrow> payment_order result" where
  "order_of db i = ok_or (List.find (\<lambda>p. po_id p = i) (gd_orders (pb_gov db))) consent_not_found"

definition has_open_against :: "pay_db \<Rightarrow> party \<Rightarrow> bool" where
  "has_open_against db source =
     list_ex (\<lambda>p. pt_from (po_terms p) = source \<and> payment_is_open (po_state p)) (gd_orders (pb_gov db))"

definition require_linked :: "pay_db \<Rightarrow> uuid \<Rightarrow> uuid \<Rightarrow> unit result" where
  "require_linked db i consilium =
     (case consilium_of db i of
        Some linked \<Rightarrow>
          if linked = consilium then Inr () else Inl (Conflict ''this consilium does not decide this payment'')
      | None \<Rightarrow> Inl (Conflict ''this payment is not decided by a consilium''))"

text \<open>The tail of a transition: the row and its facts, and what the caller is shown.\<close>

definition save_and_view :: "gov_env \<Rightarrow> payment_order \<Rightarrow> pay_db \<Rightarrow> (pay_db \<times> payment_view) result" where
  "save_and_view env order db =
     rbind (save_order order db) (\<lambda>db. rmap (\<lambda>view. (db, view)) (payment_view_of env db (order\<lparr>po_pending := []\<rparr>)))"

definition record_approval :: "gov_env \<Rightarrow> uuid \<Rightarrow> uuid \<Rightarrow> i64 \<Rightarrow> pay_db \<Rightarrow> (pay_db \<times> payment_view) result" where
  "record_approval env i consilium at db =
     rbind (order_locked env db i) (\<lambda>order.
     rbind (require_linked db i consilium) (\<lambda>_.
     rbind (payment_approve order at) (\<lambda>order. save_and_view env order db)))"

definition record_rejection :: "gov_env \<Rightarrow> uuid \<Rightarrow> i64 \<Rightarrow> pay_db \<Rightarrow> (pay_db \<times> payment_view) result" where
  "record_rejection env i at db =
     rbind (reject_order_on env i at (pb_gov db)) (\<lambda>(g, order).
       let db = on_gov db g in rmap (\<lambda>view. (db, view)) (payment_view_of env db (order\<lparr>po_pending := []\<rparr>)))"

definition cancel_order :: "gov_env \<Rightarrow> int \<Rightarrow> uuid \<Rightarrow> uuid \<Rightarrow> i64 \<Rightarrow> pay_db \<Rightarrow> (pay_db \<times> payment_view) result" where
  "cancel_order env now i who at db =
     (let db = withdraw_consent now i db in
      rbind (order_locked env db i) (\<lambda>order.
        if po_initiator order \<noteq> who
        then Inl (Forbidden ''only the operator who opened this payment may withdraw it'')
        else rbind (payment_cancel order at) (\<lambda>order. save_and_view env order db)))"

definition expire_order :: "gov_env \<Rightarrow> int \<Rightarrow> uuid \<Rightarrow> i64 \<Rightarrow> pay_db \<Rightarrow> pay_db \<times> bool result" where
  "expire_order env now i at db =
     (let db' = withdraw_consent now i db in
      try_tx db (order_locked env db' i) (\<lambda>order.
        if \<not> payment_is_pending (po_state order) then (db, Inr False)
        else try_tx db (rbind (payment_expire order at) (\<lambda>order. save_order order db')) (\<lambda>db'. (db', Inr True))))"

fun expire_each :: "(uuid \<Rightarrow> pay_db \<Rightarrow> pay_db \<times> bool result) \<Rightarrow> uuid list \<Rightarrow> pay_db \<Rightarrow> pay_db \<times> nat" where
  "expire_each f [] db = (db, 0)"
| "expire_each f (i # ids) db =
     (case f i db of (db, r) \<Rightarrow>
        case expire_each f ids db of (db, n) \<Rightarrow> (db, if r = Inr True then n + 1 else n))"

definition expire_orders :: "gov_env \<Rightarrow> int \<Rightarrow> i64 \<Rightarrow> pay_db \<Rightarrow> pay_db \<times> nat" where
  "expire_orders env now at db =
     expire_each (\<lambda>i. expire_order env now i at)
       (map po_id (filter (\<lambda>p. po_state p = Pending_Payment \<and> sint (po_expires_at p) \<le> sint at) (gd_orders (pb_gov db)))) db"

section \<open>The emailed consent\<close>

record consent_invitation =
  ci_payment :: uuid
  ci_state :: payment_state
  ci_order :: payment_order
  ci_hash :: string
  ci_initiator :: string
  ci_subject :: string
  ci_expires_at :: i64
  ci_decision :: consent_decision
  ci_attempts_remaining :: u32
  ci_detail :: "end_detail option"

definition consent_invitation_of ::
  "payment_order \<Rightarrow> string \<Rightarrow> seat_row \<times> user_row \<Rightarrow> consent_decision \<Rightarrow> end_detail option \<Rightarrow> consent_invitation" where
  "consent_invitation_of order initiator_email seat decision detail =
     (case seat of (s, u) \<Rightarrow>
       \<lparr>ci_payment = po_id order, ci_state = po_state order, ci_order = order, ci_hash = hex32 (po_hash order),
         ci_initiator = initiator_email, ci_subject = ur_email u, ci_expires_at = po_expires_at order,
         ci_decision = decision, ci_attempts_remaining = word_of_int (max (MAX_CODE_ATTEMPTS - se_attempts s) 0),
         ci_detail = detail\<rparr>)"

definition read_invitation :: "gov_env \<Rightarrow> string \<Rightarrow> i64 \<Rightarrow> pay_db \<Rightarrow> consent_invitation result" where
  "read_invitation env token_hash at db =
     rbind (ok_or (consent_by_token db token_hash) consent_not_found) (\<lambda>seat.
     rbind (order_of db (se_payment (fst seat))) (\<lambda>order.
       if se_burned_at (fst seat) \<noteq> None \<or> se_used_at (fst seat) \<noteq> None \<or> sint (se_expires_at (fst seat)) \<le> sint at \<or>
          \<not> payment_is_pending (po_state order)
       then Inl consent_not_found
       else rmap (\<lambda>email. consent_invitation_of order email seat Pending_Consent
              (detail_of (pb_gov db) (pt_to (po_terms order))))
              (initiator_email_of env db (po_initiator order))))"

record consent_outcome =
  co_payment :: payment_view
  co_decided :: bool
  co_approved :: bool

definition update_seat :: "uuid \<Rightarrow> (seat_row \<Rightarrow> seat_row) \<Rightarrow> pay_db \<Rightarrow> pay_db" where
  "update_seat i f db = db\<lparr>pb_seats := map (\<lambda>s. if se_payment s = i then f s else s) (pb_seats db)\<rparr>"

definition update_session :: "uuid \<Rightarrow> (session_row \<Rightarrow> session_row) \<Rightarrow> pay_db \<Rightarrow> pay_db" where
  "update_session i f db = db\<lparr>pb_sessions := map (\<lambda>s. if ss_payment s = i then f s else s) (pb_sessions db)\<rparr>"

fun decided_order :: "consent_decision \<Rightarrow> payment_order \<Rightarrow> i64 \<Rightarrow> payment_order result" where
  "decided_order Approve_Consent order at = payment_approve order at"
| "decided_order Reject_Consent order at = payment_reject order at"
| "decided_order Pending_Consent order at = Inl (Validation ''a consent must approve or reject'')"

text \<open>An answer given again: the same one is shown, another one is refused.\<close>

definition repeat_answer ::
  "gov_env \<Rightarrow> consent_decision \<Rightarrow> consent_decision \<Rightarrow> payment_order \<Rightarrow> pay_db \<Rightarrow> pay_db \<times> consent_outcome result" where
  "repeat_answer env already decision order db =
     (if already \<noteq> decision then (db, Inl (Conflict ''this payment has already been answered''))
      else try_tx db (payment_view_of env db order) (\<lambda>view.
        (db, Inr \<lparr>co_payment = view, co_decided = False, co_approved = False\<rparr>)))"

text \<open>A right code on an unanswered seat: the answer, the order's verdict.\<close>

definition record_consent ::
  "gov_env \<Rightarrow> payment_order \<Rightarrow> consent_decision \<Rightarrow> vote_audit \<Rightarrow> i64 \<Rightarrow> pay_db \<Rightarrow> (pay_db \<times> consent_outcome) result" where
  "record_consent env order decision audit at db =
     (let db = update_seat (po_id order) (\<lambda>s. s\<lparr>se_decision := consent_decision_str decision, se_decided_at := Some at,
            se_used_at := Some at, se_client_ip := Some (va_client_ip audit), se_user_agent := Some (va_user_agent audit),
            se_hash := Some (po_hash order)\<rparr>) db in
      rbind (decided_order decision order at) (\<lambda>order.
      rmap (\<lambda>(db, view). (db, \<lparr>co_payment = view, co_decided = True, co_approved = (po_state order = Approved_Payment)\<rparr>))
        (save_and_view env order db)))"

text \<open>The order dies with its consent: rejected, and those it concerns are told.\<close>

definition void_order ::
  "gov_env \<Rightarrow> int \<Rightarrow> payment_order \<Rightarrow> consent_end \<Rightarrow> seat_kind \<Rightarrow> i64 \<Rightarrow> pay_db \<Rightarrow> pay_db result" where
  "void_order env now order ending kind at db =
     rbind (payment_reject order at) (\<lambda>order.
     rmap (announce_consent_end env now order ending kind) (save_order order db))"

definition submit_consent ::
  "gov_env \<Rightarrow> int \<Rightarrow> string \<Rightarrow> string \<Rightarrow> consent_decision \<Rightarrow> vote_audit \<Rightarrow> i64 \<Rightarrow> pay_db \<Rightarrow> pay_db \<times> consent_outcome result" where
  "submit_consent env now token_hash code decision audit at db =
     (case List.find (\<lambda>s. se_token_hash s = token_hash) (pb_seats db) of
        None \<Rightarrow> (db, Inl consent_not_found)
      | Some probe \<Rightarrow>
          try_tx db (order_locked env db (se_payment probe)) (\<lambda>order.
          try_tx db (ok_or (consent_by_token db token_hash) consent_not_found) (\<lambda>seat.
          try_tx db (consent_decision_parse (se_decision (fst seat))) (\<lambda>already.
            let s = fst seat in
            if se_burned_at s \<noteq> None \<or> sint (se_expires_at s) \<le> sint at then (db, Inl consent_not_found)
            else if \<not> payment_is_pending (po_state order) \<and> already = Pending_Consent then (db, Inl consent_not_found)
            else
              case (if already = Pending_Consent then consent_invalidation env db seat else None) of
                Some cause \<Rightarrow>
                  try_tx db (void_order env now order (Consent_Invalidated cause) Mailed_Seat at db)
                    (\<lambda>voided. (voided, Inl (Conflict (invalidation_text cause))))
              | None \<Rightarrow>
                  let correct = (ge_digest env code = se_code_hash s) in
                  if already \<noteq> Pending_Consent then
                    if \<not> correct then (db, Inl (Validation ''incorrect code''))
                    else repeat_answer env already decision order db
                  else
                    let attempts = min (se_attempts s + 1) MAX_CODE_ATTEMPTS;
                        charged = update_seat (se_payment s) (\<lambda>r. r\<lparr>se_attempts := attempts\<rparr>) db in
                    if \<not> correct then
                      if MAX_CODE_ATTEMPTS \<le> attempts then
                        try_tx db (void_order env now order Consent_Burned Mailed_Seat at
                            (update_seat (se_payment s) (\<lambda>r. r\<lparr>se_burned_at := Some now\<rparr>) charged))
                          (\<lambda>burned. (burned, Inl consent_not_found))
                      else (charged, Inl (Validation (''incorrect code '' @ em_dash @ '' '' @
                        show_nat (nat (MAX_CODE_ATTEMPTS - attempts)) @ '' attempts remaining'')))
                    else try_tx db (record_consent env order decision audit at charged)
                      (\<lambda>(answered, outcome). (answered, Inr outcome))))))"

section \<open>The consent given in the cabinet\<close>

definition answer_session_consent ::
  "gov_env \<Rightarrow> int \<Rightarrow> uuid \<Rightarrow> uuid \<Rightarrow> consent_decision \<Rightarrow> vote_audit \<Rightarrow> i64 \<Rightarrow> pay_db \<Rightarrow> pay_db \<times> consent_outcome result" where
  "answer_session_consent env now i subject decision audit at db =
     (if decision = Pending_Consent then (db, Inl (Validation ''a consent must approve or reject''))
      else
        case order_locked env db i of
          Inl _ \<Rightarrow> (db, Inl consent_not_found)
        | Inr order \<Rightarrow>
            case session_of_payment db i of
              None \<Rightarrow> (db, Inl consent_not_found)
            | Some seat \<Rightarrow>
                if ss_subject (fst seat) \<noteq> subject then (db, Inl consent_not_found)
                else
                  try_tx db (consent_decision_parse (ss_decision (fst seat))) (\<lambda>already.
                    if already \<noteq> Pending_Consent then repeat_answer env already decision order db
                    else if \<not> payment_is_pending (po_state order) \<or> sint (po_expires_at order) \<le> sint at
                    then (db, Inl consent_not_found)
                    else
                      case session_invalidation env db seat of
                        Some cause \<Rightarrow>
                          try_tx db (void_order env now order (Consent_Invalidated cause) Session_Seat at db)
                            (\<lambda>voided. (withdraw_notices now i CONSENT_NOTICE_KIND voided,
                              Inl (Conflict (invalidation_text cause))))
                      | None \<Rightarrow>
                          let db1 = update_session i (\<lambda>s. s\<lparr>ss_decision := consent_decision_str decision,
                                ss_decided_at := Some at, ss_client_ip := Some (va_client_ip audit),
                                ss_user_agent := Some (va_user_agent audit), ss_hash := Some (po_hash order)\<rparr>) db in
                          try_tx db (decided_order decision order at) (\<lambda>order.
                          try_tx db (save_order order db1) (\<lambda>db2.
                            let db3 = withdraw_notices now i CONSENT_NOTICE_KIND db2 in
                            try_tx db (payment_view_of env db3 (order\<lparr>po_pending := []\<rparr>)) (\<lambda>view.
                              (db3, Inr \<lparr>co_payment = view, co_decided = True,
                                co_approved = (po_state order = Approved_Payment)\<rparr>))))))"

definition awaiting_session_consent :: "gov_env \<Rightarrow> int \<Rightarrow> uuid \<Rightarrow> pay_db \<Rightarrow> payment_view list result" where
  "awaiting_session_consent env now subject db =
     traverse (payment_view_of env db)
       (rev (sort_key (\<lambda>p. sint (po_created_at p))
         (filter (\<lambda>p. po_state p = Pending_Payment \<and> now < sint (po_expires_at p) \<and>
            list_ex (\<lambda>s. ss_payment s = po_id p \<and> ss_subject s = subject \<and> ss_decision s = ''pending'') (pb_sessions db))
           (gd_orders (pb_gov db)))))"

definition find_for_session_subject :: "gov_env \<Rightarrow> uuid \<Rightarrow> uuid \<Rightarrow> pay_db \<Rightarrow> payment_view option result" where
  "find_for_session_subject env i subject db =
     (if list_ex (\<lambda>s. ss_payment s = i \<and> ss_subject s = subject) (pb_sessions db)
      then rbind (order_of db i) (\<lambda>order. rmap Some (payment_view_of env db order))
      else Inr None)"

section \<open>The decision of the identity plane\<close>

definition update_approval :: "uuid \<Rightarrow> (approval_row \<Rightarrow> approval_row) \<Rightarrow> pay_db \<Rightarrow> pay_db" where
  "update_approval i f db = db\<lparr>pb_approvals := map (\<lambda>a. if ar_payment a = i then f a else a) (pb_approvals db)\<rparr>"

definition record_concierge_approval ::
  "gov_env \<Rightarrow> uuid \<Rightarrow> string \<Rightarrow> i64 \<Rightarrow> i64 \<Rightarrow> pay_db \<Rightarrow> (pay_db \<times> payment_view) result" where
  "record_concierge_approval env i approval execute_by at db =
     rbind (order_locked env db i) (\<lambda>order.
     rbind (ok_or (concierge_of_payment db i) (Conflict ''this payment is not decided by a concierge approval'')) (\<lambda>seat.
       if ar_approval seat \<noteq> None \<and> ar_approval seat \<noteq> Some approval
       then Inl (Conflict ''another approval decides this payment'')
       else
         let db = update_approval i (\<lambda>a. a\<lparr>
               ar_approval := (if ar_approval a = None then Some approval else ar_approval a),
               ar_execute_by := (if ar_execute_by a = None \<and> execute_by \<noteq> 0 then Some execute_by else ar_execute_by a)\<rparr>) db in
         if po_state order = Approved_Payment \<or> po_state order = Executed_Payment
         then rmap (\<lambda>view. (db, view)) (payment_view_of env db order)
         else if sint (po_expires_at order) \<le> sint at
         then Inl (Conflict ''the payment's window ended before the decision was carried out'')
         else rbind (payment_approve order at) (\<lambda>order. save_and_view env order db)))"

definition approval_opened :: "gov_env \<Rightarrow> int \<Rightarrow> uuid \<Rightarrow> string \<Rightarrow> approval_level option \<Rightarrow> pay_db \<Rightarrow> pay_db result" where
  "approval_opened env now i approval level db =
     (case concierge_of_payment db i of
        None \<Rightarrow> Inl (NotFound ''payment approval'' (ge_show env i))
      | Some a \<Rightarrow>
          if ar_approval a = None \<or> ar_approval a = Some approval
          then Inr (update_approval i (\<lambda>a. a\<lparr>ar_approval := Some approval, ar_level := level,
            ar_next_attempt_at := now, ar_last_error := None\<rparr>) db)
          else Inl (Conflict (''payment '' @ ge_show env i @ '' already has another approval'')))"

definition approval_postpone :: "int \<Rightarrow> uuid \<Rightarrow> u32 \<Rightarrow> string \<Rightarrow> pay_db \<Rightarrow> pay_db" where
  "approval_postpone now i delay_secs why =
     update_approval i (\<lambda>a. a\<lparr>ar_attempts := ar_attempts a + 1, ar_next_attempt_at := now + uint delay_secs,
       ar_last_error := Some why\<rparr>)"

definition approval_reported :: "int \<Rightarrow> uuid \<Rightarrow> string option \<Rightarrow> pay_db \<Rightarrow> pay_db" where
  "approval_reported now i refused =
     update_approval i (\<lambda>a. a\<lparr>ar_reported_at := (if ar_reported_at a = None then Some now else ar_reported_at a),
       ar_last_error := (case refused of None \<Rightarrow> ar_last_error a
         | Some why \<Rightarrow> Some (''concierge refused the outcome: '' @ why))\<rparr>)"

definition approval_withdrawn :: "int \<Rightarrow> uuid \<Rightarrow> pay_db \<Rightarrow> pay_db" where
  "approval_withdrawn now i =
     update_approval i (\<lambda>a. a\<lparr>ar_withdrawn_at := (if ar_withdrawn_at a = None then Some now else ar_withdrawn_at a)\<rparr>)"

text \<open>The rows a round takes up, with their orders, oldest first.\<close>

definition approvals_where :: "(approval_row \<Rightarrow> bool) \<Rightarrow> (payment_state \<Rightarrow> bool) \<Rightarrow> nat \<Rightarrow> pay_db \<Rightarrow> approval_row list" where
  "approvals_where wanted state limit db =
     take limit (sort_key ar_created_at (filter (\<lambda>a. wanted a \<and>
       (case List.find (\<lambda>p. po_id p = ar_payment a) (gd_orders (pb_gov db)) of
          None \<Rightarrow> False | Some p \<Rightarrow> state (po_state p))) (pb_approvals db)))"

definition due_approval :: "approval_row \<Rightarrow> uuid \<times> nat" where
  "due_approval a = (ar_payment a, nat (ar_attempts a))"

definition unproposed :: "int \<Rightarrow> u32 \<Rightarrow> nat \<Rightarrow> pay_db \<Rightarrow> (uuid \<times> nat) list" where
  "unproposed now older_than_secs limit db =
     map due_approval (approvals_where (\<lambda>a. ar_approval a = None \<and> ar_created_at a < now - uint older_than_secs)
       (\<lambda>s. s = Pending_Payment) limit db)"

definition due_to_check :: "int \<Rightarrow> nat \<Rightarrow> pay_db \<Rightarrow> (uuid \<times> nat) list" where
  "due_to_check now limit db =
     map due_approval (approvals_where (\<lambda>a. ar_approval a \<noteq> None \<and> ar_next_attempt_at a \<le> now)
       (\<lambda>s. s = Pending_Payment) limit db)"

definition due_to_report :: "nat \<Rightarrow> pay_db \<Rightarrow> uuid list" where
  "due_to_report limit db =
     map ar_payment (approvals_where (\<lambda>a. ar_approval a \<noteq> None \<and> ar_reported_at a = None)
       (\<lambda>s. s = Executed_Payment \<or> s = ExecutionFailed_Payment) limit db)"

definition due_to_withdraw :: "nat \<Rightarrow> pay_db \<Rightarrow> (uuid \<times> string option) list" where
  "due_to_withdraw limit db =
     map (\<lambda>a. (ar_payment a, ar_approval a))
       (approvals_where (\<lambda>a. ar_approval a \<noteq> None \<and> ar_withdrawn_at a = None \<and> ar_reported_at a = None)
         (\<lambda>s. s = Cancelled_Payment \<or> s = Expired_Payment) limit db)"

section \<open>The record of an execution\<close>

datatype payment_outcome =
    Payment_Executed payment_effect | Payment_Failed string | Consent_Void invalidation "uuid option"

definition orders_awaiting_execution :: "pay_db \<Rightarrow> uuid list" where
  "orders_awaiting_execution db =
     map po_id (sort_key (\<lambda>p. sint (po_created_at p)) (filter (\<lambda>p. po_state p = Approved_Payment) (gd_orders (pb_gov db))))"

datatype reservation_status = Reservation_Applied | Reservation_Pending | Reservation_Parked

definition reservation_status_of :: "bool \<Rightarrow> bool \<Rightarrow> reservation_status" where
  "reservation_status_of step_recorded reserved_parked =
     (if step_recorded then Reservation_Applied
      else if reserved_parked then Reservation_Parked else Reservation_Pending)"

text \<open>A consent that no longer stands, the withdrawal to void for it, and whether it is an error to the caller.\<close>

definition consent_void ::
  "gov_env \<Rightarrow> payment_order \<Rightarrow> payment_outcome \<Rightarrow> pay_db \<Rightarrow> (invalidation \<times> uuid option \<times> bool) option" where
  "consent_void env order outcome db =
     (if po_state order \<noteq> Approved_Payment then None
      else
        case outcome of
          Payment_Executed effect \<Rightarrow>
            (case seat_invalidation env db (po_id order) of
               Some cause \<Rightarrow> Some (cause, (case effect of Withdrawal_Effect w \<Rightarrow> Some w | Transfer_Effect \<Rightarrow> None), True)
             | None \<Rightarrow> None)
        | Consent_Void cause withdrawal \<Rightarrow> Some (cause, withdrawal, False)
        | Payment_Failed _ \<Rightarrow> None)"

text \<open>
  Voiding a withdrawal: absent, there is nothing to void; past its queue, the effect exists
  (\<open>Inr (db, True)\<close>).
\<close>

definition void_withdrawal :: "gov_env \<Rightarrow> uuid option \<Rightarrow> pay_db \<Rightarrow> (pay_db \<times> bool) result" where
  "void_withdrawal env withdrawal db =
     (case withdrawal of
        None \<Rightarrow> Inr (db, False)
      | Some w \<Rightarrow>
          (case cancel_on (ge_show env) (pb_withdrawals db) w of
             Inr s \<Rightarrow> Inr (db\<lparr>pb_withdrawals := s\<rparr>, False)
           | Inl (NotFound _ _) \<Rightarrow> Inr (db, False)
           | Inl (Conflict _) \<Rightarrow> Inr (db, True)
           | Inl e \<Rightarrow> Inl e))"

definition record_payment_execution ::
  "gov_env \<Rightarrow> int \<Rightarrow> uuid \<Rightarrow> payment_outcome \<Rightarrow> i64 \<Rightarrow> pay_db \<Rightarrow> pay_db \<times> payment_view result" where
  "record_payment_execution env now i outcome at db =
     try_tx db (order_locked env db i) (\<lambda>order.
       case consent_void env order outcome db of
         Some (cause, withdrawal, is_error) \<Rightarrow>
           try_tx db (void_withdrawal env withdrawal db) (\<lambda>(db1, dispatched).
             case (withdrawal, dispatched) of
               (Some w, True) \<Rightarrow>
                 try_tx db (rbind (payment_mark_executed order (Withdrawal_Effect w) at)
                     (\<lambda>order. save_and_view env order db1)) (\<lambda>(db2, view). (db2, Inr view))
             | _ \<Rightarrow>
                 try_tx db (rbind (payment_mark_execution_failed order (invalidation_text cause) at)
                     (\<lambda>order. rmap (\<lambda>db2. (order, db2)) (save_order order db1))) (\<lambda>(order, db2).
                   let kind = (if session_of_payment db2 i \<noteq> None then Session_Seat else Mailed_Seat);
                       db3 = announce_consent_end env now order (Consent_Invalidated cause) kind db2
                   in if is_error then (db3, Inl (Conflict (invalidation_text cause)))
                      else try_tx db (payment_view_of env db3 (order\<lparr>po_pending := []\<rparr>)) (\<lambda>view. (db3, Inr view))))
       | None \<Rightarrow>
           (case outcome of
              Payment_Executed (Withdrawal_Effect w) \<Rightarrow>
                if po_state order \<in> {ExecutionFailed_Payment, Rejected_Payment, Expired_Payment, Cancelled_Payment}
                then try_tx db (void_withdrawal env (Some w) db) (\<lambda>(db1, _).
                  (db1, Inl (Conflict (''payment is '' @ payment_state_str (po_state order) @ '', not executable''))))
                else try_tx db (rbind (payment_mark_executed order (Withdrawal_Effect w) at)
                    (\<lambda>order. save_and_view env order db)) (\<lambda>(db1, view). (db1, Inr view))
            | Payment_Executed Transfer_Effect \<Rightarrow>
                try_tx db (rbind (payment_mark_executed order Transfer_Effect at)
                    (\<lambda>order. save_and_view env order db)) (\<lambda>(db1, view). (db1, Inr view))
            | Payment_Failed reason \<Rightarrow>
                try_tx db (rbind (payment_mark_execution_failed order reason at)
                    (\<lambda>order. save_and_view env order db)) (\<lambda>(db1, view). (db1, Inr view))
            | Consent_Void cause _ \<Rightarrow>
                try_tx db (rbind (payment_mark_execution_failed order (invalidation_text cause) at)
                    (\<lambda>order. save_and_view env order db)) (\<lambda>(db1, view). (db1, Inr view))))"

end
