(* ===== verification/PaySafety.thy ===== *)
theory PaySafety
  imports PayConsent
begin

text \<open>
  What the payment store promises over every history of its tables: an order that moves an investor's
  own money is approved and executed only on that investor's own recorded consent to the very terms
  the order carries, whichever seat it came through, and is not executed while that consent's
  pins have moved.
\<close>

section \<open>What is kept\<close>

type_synonym pay_key_type = "uuid \<times> payment_terms \<times> string \<times> payment_state"
type_synonym consent_key = "uuid \<times> uuid \<times> string \<times> string option"

definition pay_key :: "payment_order \<Rightarrow> pay_key_type" where
  "pay_key p = (po_id p, po_terms p, po_hash p, po_state p)"

definition seat_key :: "seat_row \<Rightarrow> consent_key" where
  "seat_key s = (se_payment s, se_subject s, se_decision s, se_hash s)"

definition session_key :: "session_row \<Rightarrow> consent_key" where
  "session_key s = (ss_payment s, ss_subject s, ss_decision s, ss_hash s)"

text \<open>The orders decided by others than an investor, and the consents asked for.\<close>

definition decided_elsewhere :: "pay_db \<Rightarrow> uuid set" where
  "decided_elsewhere db = fst ` set (pb_links db) \<union> ar_payment ` set (pb_approvals db)"

definition consents :: "pay_db \<Rightarrow> consent_key set" where
  "consents db = seat_key ` set (pb_seats db) \<union> session_key ` set (pb_sessions db)"

definition past_approval :: "payment_state \<Rightarrow> bool" where
  "past_approval s \<longleftrightarrow> s \<in> {Approved_Payment, Executed_Payment, ExecutionFailed_Payment}"

definition pay_key_ok :: "uuid set \<Rightarrow> consent_key set \<Rightarrow> pay_key_type \<Rightarrow> bool" where
  "pay_key_ok elsewhere asked = (\<lambda>(i, t, h, s). \<forall>u. payment_requirement t = SubjectConsent u \<longrightarrow>
     i \<notin> elsewhere \<and> (\<forall>(j, v, d, g) \<in> asked. j = i \<longrightarrow> v = u) \<and>
     (past_approval s \<longrightarrow> (i, u, ''approve'', Some h) \<in> asked))"

definition consent_ok :: "pay_key_type list \<Rightarrow> uuid set \<Rightarrow> consent_key set \<Rightarrow> bool" where
  "consent_ok os elsewhere asked \<longleftrightarrow>
     distinct (map fst os) \<and> elsewhere \<union> fst ` asked \<subseteq> fst ` set os \<and> (\<forall>k \<in> set os. pay_key_ok elsewhere asked k)"

definition pay_ok :: "pay_db \<Rightarrow> bool" where
  "pay_ok db \<longleftrightarrow> consent_ok (map pay_key (gd_orders (pb_gov db))) (decided_elsewhere db) (consents db)"

section \<open>What touches none of it\<close>

definition same_pay :: "pay_db \<Rightarrow> pay_db \<Rightarrow> bool" where
  "same_pay a b \<longleftrightarrow> map pay_key (gd_orders (pb_gov a)) = map pay_key (gd_orders (pb_gov b)) \<and>
     decided_elsewhere a = decided_elsewhere b \<and> consents a = consents b"

lemma same_pay_ok: "same_pay a b \<Longrightarrow> pay_ok a \<Longrightarrow> pay_ok b"
  by (simp add: same_pay_def pay_ok_def)

lemma same_pay_refl [simp, intro]: "same_pay a a"
  by (simp add: same_pay_def)

lemma same_pay_trans [trans]: "same_pay a b \<Longrightarrow> same_pay b c \<Longrightarrow> same_pay a c"
  by (simp add: same_pay_def)

lemma same_pay_gov: "gd_orders g = gd_orders (pb_gov db) \<Longrightarrow> same_pay db (on_gov db g)"
  by (simp add: same_pay_def decided_elsewhere_def consents_def)

lemma enqueue_orders: "enqueue now subject user key mail g = Inr g' \<Longrightarrow> gd_orders g' = gd_orders g"
  by (auto simp: enqueue_def split: if_splits)

lemma log_events_orders [simp]: "gd_orders (log_events tag relays es g) = gd_orders g"
  by (simp add: log_events_def)

lemma fold_keeps:
  assumes "fold_result f xs s = Inr s'" "\<And>x s s'. x \<in> set xs \<Longrightarrow> f x s = Inr s' \<Longrightarrow> r s s'" "\<And>s. r s s"
    "\<And>a b c. r a b \<Longrightarrow> r b c \<Longrightarrow> r a c"
  shows "r s s'"
  using assms(1,2)
proof (induction xs arbitrary: s)
  case (Cons x xs)
  then obtain s1 where "f x s = Inr s1" "fold_result f xs s1 = Inr s'" by (auto simp: rbind_eq_Inr_iff)
  then have "r s s1" by (intro Cons.prems(2)) simp_all
  moreover have "r s1 s'"
    by (rule Cons.IH [OF \<open>fold_result f xs s1 = Inr s'\<close>]) (rule Cons.prems(2), simp_all)
  ultimately show ?case by (rule assms(4))
qed (simp add: assms(3))

lemma fold_enqueue_same:
  assumes "rmap (on_gov db) (fold_result (\<lambda>u. enqueue now subject u (key u) mail) us (pb_gov db)) = Inr db'"
  shows "same_pay db db'"
proof -
  from assms obtain g where g: "fold_result (\<lambda>u. enqueue now subject u (key u) mail) us (pb_gov db) = Inr g"
    and db': "db' = on_gov db g" by (auto simp: rmap_eq_Inr_iff)
  have "gd_orders g = gd_orders (pb_gov db)"
    by (rule fold_keeps [where r = "\<lambda>a b. gd_orders b = gd_orders a", OF g]) (auto dest: enqueue_orders)
  then show ?thesis unfolding db' by (rule same_pay_gov)
qed

lemma enqueue_notice_same: "enqueue_notice n p db = Inr db' \<Longrightarrow> same_pay db db'"
  by (auto simp: enqueue_notice_def same_pay_def decided_elsewhere_def consents_def split: if_splits)

lemma withdraw_notices_same [simp]: "same_pay db (withdraw_notices now p kind db)"
  by (simp add: withdraw_notices_def same_pay_def decided_elsewhere_def consents_def)

lemma fold_notice_same:
  "fold_result (\<lambda>(u, body). enqueue_notice (n u body) p) us db = Inr db' \<Longrightarrow> same_pay db db'"
  by (erule fold_keeps) (auto dest: enqueue_notice_same intro: same_pay_trans)

lemma queue_consent_end_same:
  assumes "queue_consent_end env now order ending db = Inr db'" shows "same_pay db db'"
proof (cases "payment_requirement (po_terms order)")
  case OwnerConsilium_Approval
  with assms show ?thesis by (simp add: queue_consent_end_def)
next
  case (SubjectConsent u)
  then show ?thesis
    using assms unfolding queue_consent_end_def SubjectConsent payment_approval.case
    by (simp only: Let_def split: option.splits if_split_asm prod.splits) (fastforce dest: fold_enqueue_same)+
qed

lemma queue_session_end_same:
  assumes "queue_session_end env order ending db = Inr db'" shows "same_pay db db'"
  using assms unfolding queue_session_end_def Let_def
  by (cases "payment_requirement (po_terms order)"; cases ending)
    (simp_all only: prod.case payment_approval.case consent_end.case sum.inject fold_notice_same same_pay_refl)

lemma announce_consent_end_same [simp]: "same_pay db (announce_consent_end env now order ending kind db)"
  unfolding announce_consent_end_def
  by (auto split: seat_kind.splits sum.splits dest: queue_consent_end_same queue_session_end_same)

lemma withdraw_consent_same [simp]: "same_pay db (withdraw_consent now i db)"
  unfolding withdraw_consent_def Let_def
  by (rule same_pay_trans [OF withdraw_notices_same same_pay_gov])
    (simp add: withdraw_undelivered_consent_def update_mails_def Let_def)

section \<open>A change of one order\<close>

lemma consent_ok_update:
  assumes ok: "consent_ok os elsewhere asked" and p: "(i, t, h, s) \<in> set os"
    and consent_signed: "\<And>u. payment_requirement t = SubjectConsent u \<Longrightarrow> past_approval s' \<Longrightarrow>
      past_approval s \<or> (i, u, ''approve'', Some h) \<in> asked"
  shows "consent_ok (map (\<lambda>k. if fst k = i then (i, t, h, s') else k) os) elsewhere asked"
proof -
  let ?f = "\<lambda>k. if fst k = i then (i, t, h, s') else k"
  have fst: "map fst (map ?f os) = map fst os" by (induction os) auto
  then have ids: "fst ` set (map ?f os) = fst ` set os" by (metis list.set_map)
  have changed: "pay_key_ok elsewhere asked (i, t, h, s')"
  proof -
    have "pay_key_ok elsewhere asked (i, t, h, s)" using ok p by (simp add: consent_ok_def)
    then show ?thesis using consent_signed by (auto simp: pay_key_ok_def)
  qed
  have "pay_key_ok elsewhere asked k" if k: "k \<in> set (map ?f os)" for k
  proof -
    from k obtain l where l: "l \<in> set os" "k = ?f l" unfolding list.set_map by (rule imageE)
    show ?thesis
    proof (cases "fst l = i")
      case True
      with l changed show ?thesis by simp
    next
      case False
      with l ok show ?thesis by (simp add: consent_ok_def)
    qed
  qed
  with ok show ?thesis unfolding consent_ok_def ids fst by blast
qed

text \<open>\<open>moved\<close>: an order after one of the aggregate's transitions.\<close>

definition moved :: "payment_order \<Rightarrow> payment_order \<Rightarrow> bool" where
  "moved p p' \<longleftrightarrow> po_id p' = po_id p \<and> po_terms p' = po_terms p \<and> po_hash p' = po_hash p"

lemma moved_refl [simp]: "moved p p"
  by (simp add: moved_def)

lemma moved_raise [simp]: "moved p (payment_raise e p') = moved p p'" "po_state (payment_raise e p') = po_state p'"
  by (simp_all add: moved_def payment_raise_def)

lemma approve_moves: "payment_approve p at = Inr p' \<Longrightarrow> moved p p' \<and> po_state p' = Approved_Payment"
  by (auto simp: payment_approve_def Let_def rbind_eq_Inr_iff moved_def payment_raise_def split: if_splits)

lemma verdict_moves:
  "payment_enter_verdict p s at = Inr (p', entered) \<Longrightarrow> moved p p' \<and> po_state p' = s"
  by (auto simp: payment_enter_verdict_def rbind_eq_Inr_iff moved_def split: if_splits)

lemma refused_moves:
  "payment_reject p at = Inr p' \<Longrightarrow> moved p p' \<and> \<not> past_approval (po_state p')"
  "payment_expire p at = Inr p' \<Longrightarrow> moved p p' \<and> \<not> past_approval (po_state p')"
  "payment_cancel p at = Inr p' \<Longrightarrow> moved p p' \<and> \<not> past_approval (po_state p')"
  by (auto simp: payment_reject_def payment_expire_def payment_cancel_def rmap_eq_Inr_iff past_approval_def
      dest!: verdict_moves split: if_splits)

lemma executed_moves:
  "payment_mark_executed p effect at = Inr p' \<Longrightarrow> moved p p' \<and> past_approval (po_state p)"
  "payment_mark_execution_failed p why at = Inr p' \<Longrightarrow> moved p p' \<and> past_approval (po_state p)"
  by (auto simp: payment_mark_executed_def payment_mark_execution_failed_def Let_def past_approval_def moved_def payment_raise_def
      split: if_splits payment_effect.splits option.splits)

lemma find_order_in: "List.find (\<lambda>p. po_id p = i) os = Some p \<Longrightarrow> p \<in> set os \<and> po_id p = i"
  by (induction os) (auto split: if_splits)

lemma order_locked_in: "order_locked env db i = Inr p \<Longrightarrow> p \<in> set (gd_orders (pb_gov db)) \<and> po_id p = i"
  by (auto simp: order_locked_def payment_locked_def ok_or_def split: option.splits dest: find_order_in)

lemma persist_order_keys:
  assumes "persist_order p' g = Inr g'" "moved p p'"
  shows "map pay_key (gd_orders g') =
    map (\<lambda>k. if fst k = po_id p then (po_id p, po_terms p, po_hash p, po_state p') else k) (map pay_key (gd_orders g))"
  using assms by (auto simp: persist_order_def pay_key_def moved_def split: if_splits)

lemma persist_order_ok:
  assumes ok: "pay_ok db" and p: "p \<in> set (gd_orders (pb_gov db))" and m: "moved p p'"
    and w: "persist_order p' (pb_gov db) = Inr g"
    and consent_signed: "\<And>u. payment_requirement (po_terms p) = SubjectConsent u \<Longrightarrow> past_approval (po_state p') \<Longrightarrow>
      past_approval (po_state p) \<or> (po_id p, u, ''approve'', Some (po_hash p)) \<in> consents db"
  shows "pay_ok (on_gov db g)"
proof -
  from p have k: "(po_id p, po_terms p, po_hash p, po_state p) \<in> set (map pay_key (gd_orders (pb_gov db)))"
    by (force simp: pay_key_def)
  have "consent_ok (map pay_key (gd_orders g)) (decided_elsewhere db) (consents db)"
    unfolding persist_order_keys [OF w m]
    by (rule consent_ok_update [OF _ k]) (use ok consent_signed in \<open>auto simp: pay_ok_def\<close>)
  then show ?thesis by (simp add: pay_ok_def decided_elsewhere_def consents_def)
qed

lemma save_order_ok:
  assumes "pay_ok db" "p \<in> set (gd_orders (pb_gov db))" "moved p p'" "save_order p' db = Inr db'"
    and "\<And>u. payment_requirement (po_terms p) = SubjectConsent u \<Longrightarrow> past_approval (po_state p') \<Longrightarrow>
      past_approval (po_state p) \<or> (po_id p, u, ''approve'', Some (po_hash p)) \<in> consents db"
  shows "pay_ok db'"
  using assms(4) persist_order_ok [OF assms(1-3) _ assms(5)] by (auto simp: save_order_def rmap_eq_Inr_iff)

lemma save_and_view_ok:
  assumes "pay_ok db" "p \<in> set (gd_orders (pb_gov db))" "moved p p'" "save_and_view env p' db = Inr (db', view)"
    and "\<And>u. payment_requirement (po_terms p) = SubjectConsent u \<Longrightarrow> past_approval (po_state p') \<Longrightarrow>
      past_approval (po_state p) \<or> (po_id p, u, ''approve'', Some (po_hash p)) \<in> consents db"
  shows "pay_ok db'"
  using assms(4) save_order_ok [OF assms(1-3) _ assms(5)] by (auto simp: save_and_view_def rbind_eq_Inr_iff rmap_eq_Inr_iff)

section \<open>Opening\<close>

lemma queued_same: "rmap (on_gov db) (enqueue now subject u key mail (pb_gov db)) = Inr db' \<Longrightarrow> same_pay db db'"
  by (auto simp: rmap_eq_Inr_iff intro!: same_pay_gov dest: enqueue_orders)

text \<open>An order with nothing decided on it yet, with a seat of its own.\<close>

lemma insert_payment_keys:
  assumes "insert_payment now order db = Inr db'"
  shows "map pay_key (gd_orders (pb_gov db')) = map pay_key (gd_orders (pb_gov db)) @ [pay_key order]"
    "decided_elsewhere db' = decided_elsewhere db" "consents db' = consents db"
    "po_id order \<notin> fst ` set (map pay_key (gd_orders (pb_gov db)))"
  using assms
  by (auto simp: insert_payment_def Let_def pay_key_def decided_elsewhere_def consents_def list_ex_iff split: if_splits)

lemma consent_ok_insert:
  assumes "consent_ok os elsewhere asked" "i \<notin> fst ` set os" "\<not> past_approval s"
  shows "consent_ok (os @ [(i, t, h, s)]) elsewhere asked"
  using assms by (auto simp: consent_ok_def pay_key_ok_def) force

lemma consent_ok_elsewhere:
  assumes ok: "consent_ok os elsewhere asked" and k: "(i, t, h, s) \<in> set os" "\<And>u. payment_requirement t \<noteq> SubjectConsent u"
  shows "consent_ok os (insert i elsewhere) asked"
proof -
  have "pay_key_ok (insert i elsewhere) asked l" if "l \<in> set os" for l
  proof (cases "fst l = i")
    case True
    with that k(1) ok have "l = (i, t, h, s)" by (metis consent_ok_def distinct_map fst_conv inj_onD)
    with k(2) show ?thesis by (simp add: pay_key_ok_def)
  next
    case False
    moreover have "pay_key_ok elsewhere asked l" using that ok by (simp add: consent_ok_def)
    ultimately show ?thesis by (auto simp: pay_key_ok_def)
  qed
  moreover have "i \<in> fst ` set os" using k(1) by force
  ultimately show ?thesis using ok by (simp add: consent_ok_def)
qed

lemma consent_ok_asked:
  assumes ok: "consent_ok os elsewhere asked" and k: "(i, t, h, s) \<in> set os" "payment_requirement t = SubjectConsent u"
  shows "consent_ok os elsewhere (insert (i, u, d, g) asked)"
proof -
  have "pay_key_ok elsewhere (insert (i, u, d, g) asked) l" if "l \<in> set os" for l
  proof (cases "fst l = i")
    case True
    with that k(1) ok have "l = (i, t, h, s)" by (metis consent_ok_def distinct_map fst_conv inj_onD)
    moreover have "pay_key_ok elsewhere asked l" using that ok by (simp add: consent_ok_def)
    ultimately show ?thesis using k(2) by (auto simp: pay_key_ok_def)
  next
    case False
    moreover have "pay_key_ok elsewhere asked l" using that ok by (simp add: consent_ok_def)
    ultimately show ?thesis by (auto simp: pay_key_ok_def)
  qed
  moreover have "i \<in> fst ` set os" using k(1) by force
  ultimately show ?thesis using ok by (simp add: consent_ok_def)
qed

lemma seat_consilium_ok:
  assumes "seat_consilium i c db = Inr db'" "pay_ok db"
    and "(i, t, h, s) \<in> set (map pay_key (gd_orders (pb_gov db)))" "\<And>u. payment_requirement t \<noteq> SubjectConsent u"
  shows "pay_ok db'"
proof -
  have "decided_elsewhere db' = insert i (decided_elsewhere db)" "consents db' = consents db" "pb_gov db' = pb_gov db"
    using assms(1) by (auto simp: seat_consilium_def decided_elsewhere_def consents_def split: if_splits)
  with consent_ok_elsewhere [OF _ assms(3,4)] assms(2) show ?thesis by (simp add: pay_ok_def)
qed

lemma seat_concierge_ok:
  assumes "seat_concierge env now order db = Inr db'" "pay_ok db"
    and "pay_key order \<in> set (map pay_key (gd_orders (pb_gov db)))"
    and "\<And>u. payment_requirement (po_terms order) \<noteq> SubjectConsent u"
  shows "pay_ok db'"
proof -
  have "decided_elsewhere db' = insert (po_id order) (decided_elsewhere db)" "consents db' = consents db" "pb_gov db' = pb_gov db"
    using assms(1)
    by (auto simp: seat_concierge_def decided_elsewhere_def consents_def Let_def rbind_eq_Inr_iff split: if_splits)
  with consent_ok_elsewhere [OF _ assms(3) [unfolded pay_key_def [of order]] assms(4)] assms(2) show ?thesis
    by (simp add: pay_ok_def)
qed

lemma insert_seat_ok:
  assumes "insert_seat s db = Inr db'" "pay_ok db" "(se_payment s, t, h, st) \<in> set (map pay_key (gd_orders (pb_gov db)))"
    and "payment_requirement t = SubjectConsent (se_subject s)"
  shows "pay_ok db'"
proof -
  have "decided_elsewhere db' = decided_elsewhere db" "consents db' = insert (seat_key s) (consents db)"
    "gd_orders (pb_gov db') = gd_orders (pb_gov db)"
    using assms(1) by (auto simp: insert_seat_def decided_elsewhere_def consents_def split: if_splits)
  with consent_ok_asked [OF _ assms(3,4)] assms(2) show ?thesis by (simp add: pay_ok_def seat_key_def)
qed

lemma seat_consent_ok:
  assumes s: "seat_consent env now url order credential db = Inr db'" and "pay_ok db"
    and "pay_key order \<in> set (map pay_key (gd_orders (pb_gov db)))"
    and "payment_requirement (po_terms order) = SubjectConsent (cc_subject credential)"
  shows "pay_ok db'"
proof -
  from s obtain db1 s1 where i: "insert_seat s1 db = Inr db1" and s1: "se_payment s1 = po_id order" "se_subject s1 = cc_subject credential"
    and "same_pay db1 db'"
    unfolding seat_consent_def rbind_eq_Inr_iff Let_def by (force dest: queued_same)
  with insert_seat_ok [OF i assms(2), of "po_terms order" "po_hash order" "po_state order"] assms(3,4)
  show ?thesis by (metis same_pay_ok pay_key_def)
qed

lemma seat_session_ok:
  assumes s: "seat_session env order session db = Inr db'" and ok: "pay_ok db"
    and k: "pay_key order \<in> set (map pay_key (gd_orders (pb_gov db)))"
    and r: "payment_requirement (po_terms order) = SubjectConsent (st_subject session)"
  shows "pay_ok db'"
proof -
  let ?row = "\<lparr>ss_payment = po_id order, ss_subject = st_subject session, ss_decision = ''pending'', ss_decided_at = None,
    ss_version_at_open = st_version_at_open session, ss_email_hash_at_open = st_email_hash_at_open session,
    ss_client_ip = None, ss_user_agent = None, ss_hash = None\<rparr>"
  let ?db = "db\<lparr>pb_sessions := pb_sessions db @ [?row]\<rparr>"
  have "same_pay ?db db'"
    using s unfolding seat_session_def Let_def by (auto dest: enqueue_notice_same split: if_splits)
  moreover have "consents ?db = insert (po_id order, st_subject session, ''pending'', None) (consents db)"
    "decided_elsewhere ?db = decided_elsewhere db" by (auto simp: consents_def decided_elsewhere_def session_key_def)
  then have "pay_ok ?db"
    using consent_ok_asked [OF _ k [unfolded pay_key_def [of order]] r] ok by (simp add: pay_ok_def)
  ultimately show ?thesis by (rule same_pay_ok)
qed

lemma same_pay_log [simp]: "same_pay db (log_order order db)"
  unfolding log_order_def by (rule same_pay_gov) simp

lemma open_order_ok:
  assumes ok: "pay_ok db" and o: "open_order env now url order seat db = Inr db'" and new: "po_state order = Pending_Payment"
  shows "pay_ok db'"
proof -
  from o obtain db1 db2 where fits: "require_seat_matches seat (payment_requirement (po_terms order)) = Inr ()"
    and i: "insert_payment now order db = Inr db1" and s: "(case seat of
          Seat_Consilium consilium \<Rightarrow> seat_consilium (po_id order) consilium db1
        | Seat_Consent credential \<Rightarrow> seat_consent env now url order credential db1
        | Seat_Concierge \<Rightarrow> seat_concierge env now order db1
        | Seat_Session session \<Rightarrow> seat_session env order session db1) = Inr db2" and db': "db' = log_order order db2"
    by (auto simp: open_order_def rbind_eq_Inr_iff rmap_eq_Inr_iff)
  note keys = insert_payment_keys [OF i]
  have db1: "pay_ok db1"
    using consent_ok_insert [of _ _ _ "po_id order" "po_state order" "po_terms order" "po_hash order"] ok keys new
    by (simp add: pay_ok_def pay_key_def [of order] past_approval_def)
  have mine: "pay_key order \<in> set (map pay_key (gd_orders (pb_gov db1)))" by (simp only: keys(1) set_append) simp
  have "pay_ok db2"
  proof (cases seat)
    case (Seat_Consilium c)
    with fits s seat_consilium_ok [OF _ db1 mine [unfolded pay_key_def [of order]]] show ?thesis
      by (cases "payment_requirement (po_terms order)") auto
  next
    case (Seat_Consent c)
    with fits s seat_consent_ok [OF _ db1 mine] show ?thesis
      by (cases "payment_requirement (po_terms order)") (auto split: if_splits)
  next
    case Seat_Concierge
    with fits s seat_concierge_ok [OF _ db1 mine] show ?thesis
      by (cases "payment_requirement (po_terms order)") auto
  next
    case (Seat_Session c)
    with fits s seat_session_ok [OF _ db1 mine] show ?thesis
      by (cases "payment_requirement (po_terms order)") (auto split: if_splits)
  qed
  then show ?thesis unfolding db' by (rule same_pay_ok [rotated]) simp
qed

section \<open>Answers and verdicts\<close>

text \<open>While its order is not approved, a payment's consents may change in anything but their subject.\<close>

lemma consent_ok_answer:
  assumes ok: "consent_ok os elsewhere asked"
    and from_old: "\<And>j v d g. (j, v, d, g) \<in> asked' \<Longrightarrow> \<exists>d g. (j, v, d, g) \<in> asked"
    and kept: "\<And>k. k \<in> asked \<Longrightarrow> fst k \<noteq> i \<Longrightarrow> k \<in> asked'"
    and undecided: "\<And>t h s. (i, t, h, s) \<in> set os \<Longrightarrow> \<not> past_approval s"
  shows "consent_ok os elsewhere asked'"
proof -
  have "pay_key_ok elsewhere asked' l" if "l \<in> set os" for l
  proof -
    obtain j t h s where l: "l = (j, t, h, s)" by (cases l) auto
    from that ok have old: "pay_key_ok elsewhere asked l" by (simp add: consent_ok_def)
    have same: "v = u" if "payment_requirement t = SubjectConsent u" "(j, v, d, g) \<in> asked'" for u v d g
      using from_old [OF that(2)] that(1) old by (auto simp: pay_key_ok_def l)
    have "(j, u, ''approve'', Some h) \<in> asked'"
      if "payment_requirement t = SubjectConsent u" "past_approval s" for u
    proof (rule kept)
      show "(j, u, ''approve'', Some h) \<in> asked" using that old by (simp add: pay_key_ok_def l)
      show "fst (j, u, ''approve'', Some h) \<noteq> i" using that(2) undecided \<open>l \<in> set os\<close> l by auto
    qed
    with old same show ?thesis by (auto simp: pay_key_ok_def l)
  qed
  moreover have "fst ` asked' \<subseteq> fst ` asked"
  proof
    fix j assume "j \<in> fst ` asked'"
    then obtain v d g where "(j, v, d, g) \<in> asked'" by auto
    from from_old [OF this] show "j \<in> fst ` asked" by force
  qed
  then have "fst ` asked' \<subseteq> fst ` set os" using ok unfolding consent_ok_def by blast
  ultimately show ?thesis using ok by (simp add: consent_ok_def)
qed

lemma one_order:
  assumes "pay_ok db" "p \<in> set (gd_orders (pb_gov db))" "(po_id p, t, h, s) \<in> set (map pay_key (gd_orders (pb_gov db)))"
  shows "t = po_terms p \<and> h = po_hash p \<and> s = po_state p"
proof -
  from assms(3) obtain q where q: "q \<in> set (gd_orders (pb_gov db))" "pay_key q = (po_id p, t, h, s)" by auto
  with assms(1,2) have "pay_key q = pay_key p"
    unfolding pay_ok_def consent_ok_def
    by (metis (no_types, lifting) pay_key_def distinct_map fst_conv imageI inj_onD list.set_map)
  with q show ?thesis by (simp add: pay_key_def)
qed

lemma update_seat_ok:
  assumes ok: "pay_ok db" and p: "p \<in> set (gd_orders (pb_gov db))" and "\<not> past_approval (po_state p)"
    and f: "\<And>s. se_payment (f s) = se_payment s \<and> se_subject (f s) = se_subject s"
  shows "pay_ok (update_seat (po_id p) f db)"
proof -
  have "consent_ok (map pay_key (gd_orders (pb_gov db))) (decided_elsewhere db) (consents (update_seat (po_id p) f db))"
  proof (rule consent_ok_answer [where i = "po_id p"])
    show "consent_ok (map pay_key (gd_orders (pb_gov db))) (decided_elsewhere db) (consents db)" using ok by (simp add: pay_ok_def)
    show "\<exists>d g. (j, v, d, g) \<in> consents db" if "(j, v, d, g) \<in> consents (update_seat (po_id p) f db)" for j v d g
      using that f by (auto simp: consents_def update_seat_def seat_key_def image_iff split: if_splits) metis
    show "k \<in> consents (update_seat (po_id p) f db)" if "k \<in> consents db" "fst k \<noteq> po_id p" for k
      using that by (auto simp: consents_def update_seat_def seat_key_def image_iff)
    show "\<not> past_approval s" if "(po_id p, t, h, s) \<in> set (map pay_key (gd_orders (pb_gov db)))" for t h s
      using one_order [OF ok p that] assms(3) by simp
  qed
  then show ?thesis by (simp add: pay_ok_def update_seat_def decided_elsewhere_def)
qed

lemma update_session_ok:
  assumes ok: "pay_ok db" and p: "p \<in> set (gd_orders (pb_gov db))" and "\<not> past_approval (po_state p)"
    and f: "\<And>s. ss_payment (f s) = ss_payment s \<and> ss_subject (f s) = ss_subject s"
  shows "pay_ok (update_session (po_id p) f db)"
proof -
  have "consent_ok (map pay_key (gd_orders (pb_gov db))) (decided_elsewhere db) (consents (update_session (po_id p) f db))"
  proof (rule consent_ok_answer [where i = "po_id p"])
    show "consent_ok (map pay_key (gd_orders (pb_gov db))) (decided_elsewhere db) (consents db)" using ok by (simp add: pay_ok_def)
    show "\<exists>d g. (j, v, d, g) \<in> consents db" if "(j, v, d, g) \<in> consents (update_session (po_id p) f db)" for j v d g
      using that f by (auto simp: consents_def update_session_def session_key_def image_iff split: if_splits) metis
    show "k \<in> consents (update_session (po_id p) f db)" if "k \<in> consents db" "fst k \<noteq> po_id p" for k
      using that by (auto simp: consents_def update_session_def session_key_def image_iff)
    show "\<not> past_approval s" if "(po_id p, t, h, s) \<in> set (map pay_key (gd_orders (pb_gov db)))" for t h s
      using one_order [OF ok p that] assms(3) by simp
  qed
  then show ?thesis by (simp add: pay_ok_def update_session_def decided_elsewhere_def)
qed

lemma update_others [simp]:
  "pb_gov (update_seat i f db) = pb_gov db" "pb_gov (update_session i f' db) = pb_gov db"
  "pb_gov (update_approval i f'' db) = pb_gov db"
  "pb_links (update_seat i f db) = pb_links db" "pb_approvals (update_seat i f db) = pb_approvals db"
  "pb_sessions (update_seat i f db) = pb_sessions db"
  by (simp_all add: update_seat_def update_session_def update_approval_def)

lemma same_pay_charge:
  assumes "\<And>s. seat_key (f s) = seat_key s" shows "same_pay db (update_seat i f db)"
proof -
  have "map seat_key (pb_seats (update_seat i f db)) = map seat_key (pb_seats db)"
    by (simp add: update_seat_def assms)
  from arg_cong [OF this, of set] have "seat_key ` set (pb_seats (update_seat i f db)) = seat_key ` set (pb_seats db)"
    by (simp only: list.set_map)
  then show ?thesis by (simp add: same_pay_def consents_def decided_elsewhere_def)
qed

lemma subject_asked:
  assumes "pay_ok db" "p \<in> set (gd_orders (pb_gov db))" "payment_requirement (po_terms p) = SubjectConsent u"
    "(po_id p, v, d, g) \<in> consents db"
  shows "v = u"
proof -
  have "pay_key_ok (decided_elsewhere db) (consents db) (pay_key p)" using assms(1,2) by (simp add: pay_ok_def consent_ok_def)
  with assms(3,4) show ?thesis by (auto simp: pay_key_ok_def pay_key_def)
qed

lemma pending_not_past: "payment_is_pending s \<Longrightarrow> \<not> past_approval s"
  by (simp add: payment_is_pending_def past_approval_def)

lemma decided_order_moves:
  "decided_order d p at = Inr p' \<Longrightarrow> moved p p' \<and> (past_approval (po_state p') \<longrightarrow> d = Approve_Consent)"
  by (cases d) (auto dest: approve_moves refused_moves)

text \<open>A recorded answer signs the order it approves.\<close>

lemma record_consent_ok:
  assumes ok: "pay_ok db" and p: "p \<in> set (gd_orders (pb_gov db))" and not_yet: "\<not> past_approval (po_state p)"
    and seat: "s \<in> set (pb_seats db)" "se_payment s = po_id p"
    and r: "record_consent env p d audit at db = Inr (db', outcome)"
  shows "pay_ok db'"
proof -
  let ?f = "\<lambda>s. s\<lparr>se_decision := consent_decision_str d, se_decided_at := Some at,
    se_used_at := Some at, se_client_ip := Some (va_client_ip audit), se_user_agent := Some (va_user_agent audit),
    se_hash := Some (po_hash p)\<rparr>"
  let ?db = "update_seat (po_id p) ?f db"
  from r obtain p' view where d: "decided_order d p at = Inr p'" and w: "save_and_view env p' ?db = Inr (db', view)"
    unfolding record_consent_def by (auto simp: rbind_eq_Inr_iff rmap_eq_Inr_iff Let_def)
  have db: "pay_ok ?db" by (rule update_seat_ok [OF ok p not_yet]) simp
  have mine: "(po_id p, se_subject s, consent_decision_str d, Some (po_hash p)) \<in> consents ?db"
  proof -
    have "(if se_payment s = po_id p then ?f s else s) \<in> set (pb_seats ?db)"
      unfolding update_seat_def using seat(1) by simp
    then have "?f s \<in> set (pb_seats ?db)" using seat(2) by simp
    then have "seat_key (?f s) \<in> consents ?db" unfolding consents_def by (intro UnI1 imageI)
    then show ?thesis using seat(2) by (simp add: seat_key_def)
  qed
  have p': "p \<in> set (gd_orders (pb_gov ?db))" using p by simp
  from decided_order_moves [OF d] have "moved p p'" and yes: "past_approval (po_state p') \<Longrightarrow> d = Approve_Consent" by blast+
  show ?thesis
  proof (rule save_and_view_ok [OF db p' \<open>moved p p'\<close> w])
    fix u assume "payment_requirement (po_terms p) = SubjectConsent u" "past_approval (po_state p')"
    with yes subject_asked [OF db p' _ mine] mine
    show "past_approval (po_state p) \<or> (po_id p, u, ''approve'', Some (po_hash p)) \<in> consents ?db" by simp
  qed
qed

lemma void_order_ok:
  assumes ok: "pay_ok db" and p: "p \<in> set (gd_orders (pb_gov db))" and v: "void_order env now p ending kind at db = Inr db'"
  shows "pay_ok db'"
proof -
  from v obtain p' db1 where r: "payment_reject p at = Inr p'" and w: "save_order p' db = Inr db1"
    and db': "db' = announce_consent_end env now p' ending kind db1"
    unfolding void_order_def by (auto simp: rbind_eq_Inr_iff rmap_eq_Inr_iff)
  from save_order_ok [OF ok p _ w] refused_moves(1) [OF r] have "pay_ok db1" by blast
  then show ?thesis unfolding db' by (rule same_pay_ok [rotated]) simp
qed

lemma find_in: "List.find P xs = Some x \<Longrightarrow> x \<in> set xs \<and> P x"
  by (induction xs) (auto split: if_splits)

lemma repeat_answer_same [simp]: "fst (repeat_answer env already d p db) = db"
  by (simp add: repeat_answer_def try_tx_def split: sum.splits)

text \<open>What holds before a transaction and after each of its ends holds after it.\<close>

lemma try_tx_keeps:
  "P db \<Longrightarrow> (\<And>x. m = Inr x \<Longrightarrow> P (fst (k x))) \<Longrightarrow> P (fst (try_tx db m k))"
  by (simp add: try_tx_def split: sum.splits)

lemma fst_keeps:
  "(c \<Longrightarrow> P (fst a)) \<Longrightarrow> (\<not> c \<Longrightarrow> P (fst b)) \<Longrightarrow> P (fst (if c then a else b))"
  "(x = None \<Longrightarrow> P (fst a)) \<Longrightarrow> (\<And>y. x = Some y \<Longrightarrow> P (fst (f y))) \<Longrightarrow> P (fst (case x of None \<Rightarrow> a | Some y \<Rightarrow> f y))"
  "(\<And>u v. z = (u, v) \<Longrightarrow> P (fst (g u v))) \<Longrightarrow> P (fst (case z of (u, v) \<Rightarrow> g u v))"
  "P db \<Longrightarrow> P (fst (db, r))"
  by (auto split: option.splits prod.splits)

lemmas try_tx_ok = try_tx_keeps [where P = pay_ok]
lemmas fst_ok = fst_keeps [where P = pay_ok]

lemma submit_consent_ok:
  assumes ok: "pay_ok db" shows "pay_ok (fst (submit_consent env now tok code d audit at db))"
proof (cases "List.find (\<lambda>s. se_token_hash s = tok) (pb_seats db)")
  case None
  with ok show ?thesis by (simp add: submit_consent_def)
next
  case (Some s)
  show ?thesis
  proof (cases "order_locked env db (se_payment s)")
    case (Inl e)
    with Some ok show ?thesis by (simp add: submit_consent_def try_tx_def)
  next
    case (Inr p)
    note p = order_locked_in [OF this]
    have seat: "s \<in> set (pb_seats db)" using find_in [OF Some] by simp
    have charged: "pay_ok (update_seat i (\<lambda>r. r\<lparr>se_attempts := n\<rparr>) db)" for i n
      by (rule same_pay_ok [OF same_pay_charge ok]) (simp add: seat_key_def)
    have burned: "pay_ok (update_seat i (\<lambda>r. r\<lparr>se_burned_at := t\<rparr>) (update_seat i (\<lambda>r. r\<lparr>se_attempts := n\<rparr>) db))" for i n t
      by (rule same_pay_ok [OF same_pay_charge charged]) (simp add: seat_key_def)
    have void: "pay_ok db'" if "void_order env now p ending kind at db1 = Inr db'" "pay_ok db1"
      "gd_orders (pb_gov db1) = gd_orders (pb_gov db)" for ending kind db1 db'
      using void_order_ok [OF that(2) _ that(1)] p that(3) by simp
    have answer: "pay_ok db'"
      if "record_consent env p d audit at (update_seat i (\<lambda>r. r\<lparr>se_attempts := n\<rparr>) db) = Inr (db', out)"
        "payment_is_pending (po_state p)" for i n db' out
    proof (rule record_consent_ok [OF charged _ pending_not_past [OF that(2)] _ _ that(1)])
      show "p \<in> set (gd_orders (pb_gov (update_seat i (\<lambda>r. r\<lparr>se_attempts := n\<rparr>) db)))" using p by simp
      let ?s = "if se_payment s = i then s\<lparr>se_attempts := n\<rparr> else s"
      show "?s \<in> set (pb_seats (update_seat i (\<lambda>r. r\<lparr>se_attempts := n\<rparr>) db))" using seat by (force simp: update_seat_def)
      show "se_payment ?s = po_id p" using p by simp
    qed
    show ?thesis
      unfolding submit_consent_def Some option.case Inr try_tx_def [of _ "Inr p"] sum.case
      unfolding Let_def
      apply (intro try_tx_ok fst_ok ok charged)
      apply (simp_all only: repeat_answer_same ok)
      subgoal by (erule void) (rule burned, simp)
      subgoal by (erule answer) simp
      subgoal by (erule void) (simp_all add: ok)
      done
  qed
qed

lemma answer_session_consent_ok:
  assumes ok: "pay_ok db" shows "pay_ok (fst (answer_session_consent env now i subject d audit at db))"
proof (cases "order_locked env db i")
  case (Inl e)
  with ok show ?thesis by (simp add: answer_session_consent_def)
next
  case (Inr p)
  note p = order_locked_in [OF this]
  show ?thesis
  proof (cases "session_of_payment db i")
    case None
    with ok Inr show ?thesis by (simp add: answer_session_consent_def)
  next
    case (Some seat)
    obtain s u where seat: "seat = (s, u)" by (cases seat)
    with Some have s: "s \<in> set (pb_sessions db)" "ss_payment s = i"
      by (auto simp: session_of_payment_def join_user_def bind_eq_Some_conv dest: find_in)
    let ?f = "\<lambda>s. s\<lparr>ss_decision := consent_decision_str d, ss_decided_at := Some at,
      ss_client_ip := Some (va_client_ip audit), ss_user_agent := Some (va_user_agent audit), ss_hash := Some (po_hash p)\<rparr>"
    let ?db = "update_session i ?f db"
    have answer: "pay_ok db'" if d: "decided_order d p at = Inr p'" and w: "save_order p' ?db = Inr db'"
      and pending: "payment_is_pending (po_state p)" for p' db'
    proof -
      have db: "pay_ok ?db" using update_session_ok [OF ok conjunct1 [OF p] pending_not_past [OF pending], of ?f] p by simp
      have p': "p \<in> set (gd_orders (pb_gov ?db))" using p by simp
      have "(if ss_payment s = i then ?f s else s) \<in> set (pb_sessions ?db)" unfolding update_session_def using s(1) by simp
      then have "?f s \<in> set (pb_sessions ?db)" using s(2) by simp
      then have "session_key (?f s) \<in> consents ?db" unfolding consents_def by (intro UnI2 imageI)
      then have mine: "(po_id p, ss_subject s, consent_decision_str d, Some (po_hash p)) \<in> consents ?db"
        using s(2) p by (simp add: session_key_def)
      from decided_order_moves [OF d] have "moved p p'" and yes: "past_approval (po_state p') \<Longrightarrow> d = Approve_Consent" by blast+
      show ?thesis
      proof (rule save_order_ok [OF db p' \<open>moved p p'\<close> w])
        fix u assume "payment_requirement (po_terms p) = SubjectConsent u" "past_approval (po_state p')"
        with yes subject_asked [OF db p' _ mine] mine
        show "past_approval (po_state p) \<or> (po_id p, u, ''approve'', Some (po_hash p)) \<in> consents ?db" by simp
      qed
    qed
    have told: "pay_ok (withdraw_notices now j kind db')" if "pay_ok db'" for db' j kind
      using that by (rule same_pay_ok [rotated]) simp
    show ?thesis
      unfolding answer_session_consent_def Inr Some sum.case option.case Let_def
      apply (intro try_tx_ok fst_ok ok told)
      apply (simp_all only: repeat_answer_same ok)
      subgoal by (erule answer) simp_all
      subgoal by (erule void_order_ok [OF ok conjunct1 [OF p]])
      done
  qed
qed

lemma pay_key_ok_of: "pay_ok db \<Longrightarrow> p \<in> set (gd_orders (pb_gov db)) \<Longrightarrow> pay_key_ok (decided_elsewhere db) (consents db) (pay_key p)"
  by (simp add: pay_ok_def consent_ok_def)

lemma elsewhere_not_investor:
  "pay_ok db \<Longrightarrow> p \<in> set (gd_orders (pb_gov db)) \<Longrightarrow> po_id p \<in> decided_elsewhere db \<Longrightarrow>
    payment_requirement (po_terms p) \<noteq> SubjectConsent u"
  by (drule (1) pay_key_ok_of) (auto simp: pay_key_ok_def pay_key_def)

lemma record_approval_ok:
  assumes ok: "pay_ok db" and r: "record_approval env i consilium at db = Inr (db', view)" shows "pay_ok db'"
proof -
  from r obtain p p' where l: "order_locked env db i = Inr p" and q: "require_linked db i consilium = Inr ()"
    and a: "payment_approve p at = Inr p'" and w: "save_and_view env p' db = Inr (db', view)"
    by (auto simp: record_approval_def rbind_eq_Inr_iff)
  note p = order_locked_in [OF l]
  have "i \<in> decided_elsewhere db"
    using q by (auto simp: require_linked_def consilium_of_def decided_elsewhere_def split: option.splits if_splits
        dest!: map_of_SomeD) force
  then show ?thesis
    using save_and_view_ok [OF ok conjunct1 [OF p] _ w] approve_moves [OF a] elsewhere_not_investor [OF ok conjunct1 [OF p]] p
    by blast
qed

lemma record_rejection_ok:
  assumes ok: "pay_ok db" and r: "record_rejection env i at db = Inr (db', view)" shows "pay_ok db'"
proof -
  from r obtain g p where g: "reject_order_on env i at (pb_gov db) = Inr (g, p)" and db': "db' = on_gov db g"
    by (auto simp: record_rejection_def rbind_eq_Inr_iff rmap_eq_Inr_iff Let_def)
  from g obtain p0 where p0: "p0 \<in> set (gd_orders (pb_gov db))"
    and step: "g = pb_gov db \<or> (\<exists>p1. payment_reject p0 at = Inr p1 \<and> persist_order p1 (pb_gov db) = Inr g)"
    by (auto simp: reject_order_on_def rbind_eq_Inr_iff rmap_eq_Inr_iff payment_locked_def ok_or_def
        split: option.splits if_splits dest: find_in)
  from step show ?thesis
  proof
    assume "g = pb_gov db"
    with ok db' show ?thesis by simp
  next
    assume "\<exists>p1. payment_reject p0 at = Inr p1 \<and> persist_order p1 (pb_gov db) = Inr g"
    then obtain p1 where r1: "payment_reject p0 at = Inr p1" and w: "persist_order p1 (pb_gov db) = Inr g" by blast
    from refused_moves(1) [OF r1] have "moved p0 p1" "\<not> past_approval (po_state p1)" by blast+
    with persist_order_ok [OF ok p0 _ w] show ?thesis unfolding db' by blast
  qed
qed

lemma cancel_order_ok:
  assumes ok: "pay_ok db" and r: "cancel_order env now i who at db = Inr (db', view)" shows "pay_ok db'"
proof -
  let ?db = "withdraw_consent now i db"
  have db: "pay_ok ?db" using ok by (rule same_pay_ok [rotated]) simp
  from r obtain p p' where l: "order_locked env ?db i = Inr p" and a: "payment_cancel p at = Inr p'"
    and w: "save_and_view env p' ?db = Inr (db', view)"
    by (auto simp: cancel_order_def Let_def rbind_eq_Inr_iff split: if_splits)
  from save_and_view_ok [OF db conjunct1 [OF order_locked_in [OF l]] _ w] refused_moves(3) [OF a] show ?thesis by blast
qed

lemma expire_order_ok:
  assumes ok: "pay_ok db" shows "pay_ok (fst (expire_order env now i at db))"
proof -
  let ?db = "withdraw_consent now i db"
  have db: "pay_ok ?db" using ok by (rule same_pay_ok [rotated]) simp
  have "pay_ok db'" if "order_locked env ?db i = Inr p" "rbind (payment_expire p at) (\<lambda>p. save_order p ?db) = Inr db'" for p db'
  proof -
    from that(2) obtain p' where a: "payment_expire p at = Inr p'" and w: "save_order p' ?db = Inr db'"
      by (auto simp: rbind_eq_Inr_iff)
    from save_order_ok [OF db conjunct1 [OF order_locked_in [OF that(1)]] _ w] refused_moves(2) [OF a] show ?thesis by blast
  qed
  then show ?thesis unfolding expire_order_def Let_def by (intro try_tx_ok fst_ok ok)
qed

lemma expire_orders_ok: "pay_ok db \<Longrightarrow> pay_ok (fst (expire_orders env now at db))"
proof -
  have "pay_ok db \<Longrightarrow> pay_ok (fst (expire_each (\<lambda>i. expire_order env now i at) ids db))" for ids
  proof (induction ids arbitrary: db)
    case (Cons i ids)
    from expire_order_ok [OF Cons.prems, of env now i at] Cons.IH show ?case
      by (auto split: prod.splits) (metis fst_conv)
  qed simp
  then show "pay_ok db \<Longrightarrow> pay_ok (fst (expire_orders env now at db))" by (simp add: expire_orders_def)
qed

lemma update_approval_same: "(\<And>a. ar_payment (f a) = ar_payment a) \<Longrightarrow> same_pay db (update_approval i f db)"
proof -
  assume keeps: "\<And>a. ar_payment (f a) = ar_payment a"
  have "map ar_payment (pb_approvals (update_approval i f db)) = map ar_payment (pb_approvals db)"
    by (simp add: update_approval_def keeps)
  from arg_cong [OF this, of set] have "ar_payment ` set (pb_approvals (update_approval i f db)) = ar_payment ` set (pb_approvals db)"
    by (simp only: list.set_map)
  then show "same_pay db (update_approval i f db)"
    unfolding same_pay_def decided_elsewhere_def consents_def by (simp add: update_approval_def)
qed

lemma record_concierge_approval_ok:
  assumes ok: "pay_ok db" and r: "record_concierge_approval env i approval execute_by at db = Inr (db', view)" shows "pay_ok db'"
proof -
  let ?f = "\<lambda>a. a\<lparr>ar_approval := (if ar_approval a = None then Some approval else ar_approval a),
    ar_execute_by := (if ar_execute_by a = None \<and> execute_by \<noteq> 0 then Some execute_by else ar_execute_by a)\<rparr>"
  let ?db = "update_approval i ?f db"
  from r obtain p a where l: "order_locked env db i = Inr p" and a: "concierge_of_payment db i = Some a"
    and step: "db' = ?db \<or> (\<exists>p'. payment_approve p at = Inr p' \<and> save_and_view env p' ?db = Inr (db', view))"
    by (auto simp: record_concierge_approval_def rbind_eq_Inr_iff rmap_eq_Inr_iff ok_or_def Let_def split: option.splits if_splits)
  note p = order_locked_in [OF l]
  have same: "same_pay db ?db" by (rule update_approval_same) simp
  note db = same_pay_ok [OF same ok]
  have "i \<in> decided_elsewhere db"
    using find_in [OF a [unfolded concierge_of_payment_def]] by (auto simp: decided_elsewhere_def)
  then have others: "payment_requirement (po_terms p) \<noteq> SubjectConsent u" for u
    using elsewhere_not_investor [OF ok conjunct1 [OF p]] p by simp
  have p': "p \<in> set (gd_orders (pb_gov ?db))" using p by simp
  from step show ?thesis
  proof
    assume "db' = ?db" with db show ?thesis by simp
  next
    assume "\<exists>p'. payment_approve p at = Inr p' \<and> save_and_view env p' ?db = Inr (db', view)"
    then obtain q where q: "payment_approve p at = Inr q" "save_and_view env q ?db = Inr (db', view)" by blast
    from save_and_view_ok [OF db p' _ q(2)] approve_moves [OF q(1)] others show ?thesis by blast
  qed
qed

lemma approval_rounds_same:
  "approval_opened env now i approval level db = Inr db' \<Longrightarrow> same_pay db db'"
  "same_pay db (approval_postpone now i delay why db)"
  "same_pay db (approval_reported now i refused db)"
  "same_pay db (approval_withdrawn now i db)"
  by (auto simp: approval_opened_def approval_postpone_def approval_reported_def approval_withdrawn_def
      split: option.splits if_splits intro!: update_approval_same)

section \<open>Execution\<close>

lemma void_withdrawal_same:
  "void_withdrawal env w db = Inr (db', dispatched) \<Longrightarrow> same_pay db db' \<and> pb_gov db' = pb_gov db"
  by (auto simp: void_withdrawal_def same_pay_def decided_elsewhere_def consents_def split: option.splits sum.splits domain_error.splits)

text \<open>What an execution can write: nothing of the order, or a state past its approval.\<close>

lemma execution_saves:
  assumes ok: "pay_ok db" and p: "p \<in> set (gd_orders (pb_gov db))"
  shows "rbind (payment_mark_executed p effect at) (\<lambda>p. save_and_view env p db) = Inr (db', view) \<Longrightarrow> pay_ok db'"
    "rbind (payment_mark_execution_failed p why at) (\<lambda>p. save_and_view env p db) = Inr (db', view) \<Longrightarrow> pay_ok db'"
    "rbind (payment_mark_execution_failed p why at) (\<lambda>p. rmap (\<lambda>db. (p, db)) (save_order p db)) = Inr (q, db') \<Longrightarrow> pay_ok db'"
  by (auto simp: rbind_eq_Inr_iff rmap_eq_Inr_iff
      dest!: executed_moves save_and_view_ok [OF ok p, rotated] save_order_ok [OF ok p, rotated])

lemma case_keeps:
  "(\<And>e. o1 = Payment_Executed e \<Longrightarrow> P (fst (f e))) \<Longrightarrow> (\<And>r. o1 = Payment_Failed r \<Longrightarrow> P (fst (g r))) \<Longrightarrow>
    (\<And>c w. o1 = Consent_Void c w \<Longrightarrow> P (fst (h c w))) \<Longrightarrow>
    P (fst (case o1 of Payment_Executed e \<Rightarrow> f e | Payment_Failed r \<Rightarrow> g r | Consent_Void c w \<Rightarrow> h c w))"
  "(\<And>w. e = Withdrawal_Effect w \<Longrightarrow> P (fst (k w))) \<Longrightarrow> (e = Transfer_Effect \<Longrightarrow> P (fst t)) \<Longrightarrow>
    P (fst (case e of Transfer_Effect \<Rightarrow> t | Withdrawal_Effect w \<Rightarrow> k w))"
  "(b \<Longrightarrow> P (fst x)) \<Longrightarrow> (\<not> b \<Longrightarrow> P (fst y)) \<Longrightarrow> P (fst (case b of True \<Rightarrow> x | False \<Rightarrow> y))"
  by (auto split: payment_outcome.splits payment_effect.splits bool.splits)

lemmas case_ok = case_keeps [where P = pay_ok]

lemma record_payment_execution_ok:
  assumes ok: "pay_ok db" shows "pay_ok (fst (record_payment_execution env now i outcome at db))"
proof (cases "order_locked env db i")
  case (Inl e)
  with ok show ?thesis by (simp add: record_payment_execution_def try_tx_def)
next
  case (Inr p)
  note p = conjunct1 [OF order_locked_in [OF this]]
  have voided: "pay_ok db1 \<and> p \<in> set (gd_orders (pb_gov db1))" if "void_withdrawal env w db = Inr (db1, dispatched)" for w db1 dispatched
    using void_withdrawal_same [OF that] same_pay_ok [OF _ ok] p by simp
  have told: "pay_ok (announce_consent_end env now q ending kind db')" if "pay_ok db'" for q ending kind db'
    using that by (rule same_pay_ok [rotated]) simp
  show ?thesis
    unfolding record_payment_execution_def Inr try_tx_def [of _ "Inr p"] sum.case
    unfolding Let_def
    apply (intro try_tx_ok fst_ok case_ok ok told)
    apply (auto simp only: fst_conv prod.inject dest: voided execution_saves [OF ok p]
        execution_saves [OF conjunct1 [OF voided] conjunct2 [OF voided]])
    done
qed

text \<open>The state an order is found in.\<close>

definition paid_state :: "pay_db \<Rightarrow> uuid \<Rightarrow> payment_state option" where
  "paid_state db i = map_option (snd o snd o snd) (List.find (\<lambda>k. fst k = i) (map pay_key (gd_orders (pb_gov db))))"

lemma find_map: "List.find P (map f xs) = map_option f (List.find (P o f) xs)"
  by (induction xs) auto

lemma paid_state_locked: "order_locked env db i = Inr p \<Longrightarrow> paid_state db i = Some (po_state p)"
  by (auto simp: paid_state_def find_map o_def pay_key_def order_locked_def payment_locked_def ok_or_def split: option.splits)

lemma paid_state_same: "same_pay a b \<Longrightarrow> paid_state b i = paid_state a i"
  by (simp add: paid_state_def same_pay_def)

lemma paid_state_gov: "pb_gov b = pb_gov a \<Longrightarrow> paid_state b i = paid_state a i"
  by (simp add: paid_state_def)

lemma paid_state_saved:
  assumes "paid_state db i = Some s" "po_id p = i" "moved p p'" "save_order p' db = Inr db'"
  shows "paid_state db' i = Some (po_state p')"
proof -
  from assms(4) obtain g where w: "persist_order p' (pb_gov db) = Inr g" and db': "db' = on_gov db g"
    by (auto simp: save_order_def rmap_eq_Inr_iff)
  have "List.find (\<lambda>k. fst k = i) (map (\<lambda>k. if fst k = i then (i, t, h, s') else k) os) = Some (i, t, h, s')"
    if "List.find (\<lambda>k. fst k = i) os \<noteq> None" for os :: "pay_key_type list" and t h s'
    using that by (induction os) auto
  moreover have "map pay_key (gd_orders (pb_gov db')) =
      map (\<lambda>k. if fst k = i then (i, po_terms p, po_hash p, po_state p') else k) (map pay_key (gd_orders (pb_gov db)))"
    using persist_order_keys [OF w assms(3)] assms(2) by (simp add: db')
  ultimately have "List.find (\<lambda>k. fst k = i) (map pay_key (gd_orders (pb_gov db'))) =
      Some (i, po_terms p, po_hash p, po_state p')"
    if "List.find (\<lambda>k. fst k = i) (map pay_key (gd_orders (pb_gov db))) \<noteq> None"
    using that by (simp only: if_True)
  with assms(1) show ?thesis by (auto simp: paid_state_def)
qed

lemma viewed_is_saved: "save_and_view env p db = Inr (db', view) \<Longrightarrow> save_order p db = Inr db'"
  by (auto simp: save_and_view_def rbind_eq_Inr_iff rmap_eq_Inr_iff)

lemma failed_state: "payment_mark_execution_failed p why at = Inr p' \<Longrightarrow> po_state p' = ExecutionFailed_Payment"
  by (auto simp: payment_mark_execution_failed_def Let_def split: if_splits)

lemma executed_from: "payment_mark_executed p e at = Inr p' \<Longrightarrow> po_state p \<noteq> Executed_Payment \<Longrightarrow> po_state p = Approved_Payment"
  by (auto simp: payment_mark_executed_def split: if_splits)

text \<open>The withdrawal an outcome names, and one too far along to be called back.\<close>

fun names_withdrawal :: "payment_outcome \<Rightarrow> uuid option" where
  "names_withdrawal (Payment_Executed (Withdrawal_Effect w)) = Some w"
| "names_withdrawal (Payment_Executed Transfer_Effect) = None"
| "names_withdrawal (Payment_Failed _) = None"
| "names_withdrawal (Consent_Void _ w) = w"

definition past_recall :: "gov_env \<Rightarrow> pay_db \<Rightarrow> payment_outcome \<Rightarrow> bool" where
  "past_recall env db outcome \<longleftrightarrow>
     (\<exists>w why. names_withdrawal outcome = Some w \<and> cancel_on (ge_show env) (pb_withdrawals db) w = Inl (Conflict why))"

lemma void_dispatched: "void_withdrawal env (Some w) db = Inr (db', True) \<Longrightarrow> \<exists>why. cancel_on (ge_show env) (pb_withdrawals db) w = Inl (Conflict why)"
  by (auto simp: void_withdrawal_def split: sum.splits domain_error.splits)

lemma executing:
  assumes l: "order_locked env db i = Inr p" and before: "po_state p \<noteq> Executed_Payment"
    and after: "paid_state (fst (record_payment_execution env now i outcome at db)) i = Some Executed_Payment"
  shows "po_state p = Approved_Payment \<and>
    ((\<exists>e. outcome = Payment_Executed e) \<and> seat_invalidation env db i = None \<or> past_recall env db outcome)"
proof (rule ccontr)
  assume no: "\<not> ?thesis"
  let ?Q = "\<lambda>db. paid_state db i \<noteq> Some Executed_Payment"
  have i: "po_id p = i" using order_locked_in [OF l] by simp
  have start: "paid_state db i = Some (po_state p)" by (rule paid_state_locked [OF l])
  then have still: "?Q db" using before by simp
  have voided: "paid_state db1 i = Some (po_state p)" if "void_withdrawal env w db = Inr (db1, b)" for w db1 b
    using paid_state_gov [OF conjunct2 [OF void_withdrawal_same [OF that]]] start by (rule trans)
  have failed: False if "payment_mark_execution_failed p why at = Inr q" "save_order q db1 = Inr db2"
    "paid_state db1 i = Some (po_state p)" "paid_state db2 i = Some Executed_Payment" for why q db1 db2
    using paid_state_saved [OF that(3) i _ that(2)] executed_moves(2) [OF that(1)] failed_state [OF that(1)] that(4) by simp
  have stands: False if "payment_mark_executed p e at = Inr q" "consent_void env p (Payment_Executed e') db = None"
    "outcome = Payment_Executed e'" for e e' q
    using that(2,3) executed_from [OF that(1) before] no i by (auto simp: consent_void_def split: option.splits)
  have recalled: False if "payment_mark_executed p e at = Inr q" "consent_void env p outcome db = Some (cause, Some w, err)"
    "void_withdrawal env (Some w) db = Inr (db1, dispatched)" dispatched for e q cause w err db1 dispatched
  proof -
    have "names_withdrawal outcome = Some w"
      using that(2) by (auto simp: consent_void_def split: payment_outcome.splits option.splits payment_effect.splits if_splits)
    with void_dispatched [of env w db db1] that(3,4) have "past_recall env db outcome" by (auto simp: past_recall_def)
    with executed_from [OF that(1) before] no show False by simp
  qed
  have told: "?Q (announce_consent_end env now q ending kind db')" if "?Q db'" for q ending kind db'
    using that by (simp only: paid_state_same [OF announce_consent_end_same] not_False_eq_True)
  have "?Q (fst (record_payment_execution env now i outcome at db))"
    unfolding record_payment_execution_def l try_tx_def [of _ "Inr p"] sum.case Let_def
    apply (intro try_tx_keeps [where P = ?Q] fst_keeps [where P = ?Q] case_keeps [where P = ?Q] still told)
    apply (simp_all add: rbind_eq_Inr_iff rmap_eq_Inr_iff)
    apply (auto simp only: dest!: viewed_is_saved)
    apply (auto simp only: start option.inject payment_state.distinct dest: stands recalled failed voided)
    done
  with after show False by simp
qed

section \<open>Every history\<close>

text \<open>
  The histories of the payment tables.  \<open>pay_other\<close> is everything else that shares the database:
  users, token versions, mails, notices, withdrawals and consilia change, the payment's rows do not.
\<close>

inductive pay_reach :: "gov_env \<Rightarrow> pay_db \<Rightarrow> bool" for env where
  pay_start: "gd_orders (pb_gov db) = [] \<Longrightarrow> pb_links db = [] \<Longrightarrow> pb_seats db = [] \<Longrightarrow> pb_sessions db = [] \<Longrightarrow>
    pb_approvals db = [] \<Longrightarrow> pay_reach env db"
| pay_open: "pay_reach env db \<Longrightarrow> open_order env now url (payment_open_for i terms hash initiator at ttl) seat db = Inr db' \<Longrightarrow>
    pay_reach env db'"
| pay_approve: "pay_reach env db \<Longrightarrow> record_approval env i consilium at db = Inr (db', view) \<Longrightarrow> pay_reach env db'"
| pay_refuse: "pay_reach env db \<Longrightarrow> record_rejection env i at db = Inr (db', view) \<Longrightarrow> pay_reach env db'"
| pay_cancel: "pay_reach env db \<Longrightarrow> cancel_order env now i who at db = Inr (db', view) \<Longrightarrow> pay_reach env db'"
| pay_expire: "pay_reach env db \<Longrightarrow> pay_reach env (fst (expire_orders env now at db))"
| pay_mailed: "pay_reach env db \<Longrightarrow> pay_reach env (fst (submit_consent env now tok code d audit at db))"
| pay_session: "pay_reach env db \<Longrightarrow> pay_reach env (fst (answer_session_consent env now i subject d audit at db))"
| pay_decided: "pay_reach env db \<Longrightarrow> record_concierge_approval env i approval execute_by at db = Inr (db', view) \<Longrightarrow> pay_reach env db'"
| pay_proposed: "pay_reach env db \<Longrightarrow> approval_opened env now i approval level db = Inr db' \<Longrightarrow> pay_reach env db'"
| pay_postponed: "pay_reach env db \<Longrightarrow> pay_reach env (approval_postpone now i delay why db)"
| pay_reported: "pay_reach env db \<Longrightarrow> pay_reach env (approval_reported now i refused db)"
| pay_called_back: "pay_reach env db \<Longrightarrow> pay_reach env (approval_withdrawn now i db)"
| pay_executed: "pay_reach env db \<Longrightarrow> pay_reach env (fst (record_payment_execution env now i outcome at db))"
| pay_other: "pay_reach env db \<Longrightarrow> gd_orders (pb_gov db') = gd_orders (pb_gov db) \<Longrightarrow> pb_links db' = pb_links db \<Longrightarrow>
    pb_seats db' = pb_seats db \<Longrightarrow> pb_sessions db' = pb_sessions db \<Longrightarrow> pb_approvals db' = pb_approvals db \<Longrightarrow>
    pay_reach env db'"

lemma pay_reach_ok: "pay_reach env db \<Longrightarrow> pay_ok db"
proof (induction rule: pay_reach.induct)
  case (pay_start db)
  then show ?case by (simp add: pay_ok_def consent_ok_def decided_elsewhere_def consents_def)
next
  case (pay_open db now url i terms hash initiator at ttl seat db')
  from open_order_ok [OF pay_open.IH pay_open.hyps(2)] show ?case by (simp add: payment_open_for_def)
next
  case (pay_other db db')
  then have "same_pay db db'" by (simp add: same_pay_def decided_elsewhere_def consents_def)
  from same_pay_ok [OF this pay_other.IH] show ?case .
qed (blast intro: record_approval_ok record_rejection_ok cancel_order_ok expire_orders_ok submit_consent_ok
  answer_session_consent_ok record_concierge_approval_ok record_payment_execution_ok
  same_pay_ok [OF approval_rounds_same(1)] same_pay_ok [OF approval_rounds_same(2)]
  same_pay_ok [OF approval_rounds_same(3)] same_pay_ok [OF approval_rounds_same(4)])+

text \<open>\<open>consent_signed\<close>: a seat of the payment, mailed or in the cabinet, holds the subject's approval of the order's hash.\<close>

definition consent_signed :: "pay_db \<Rightarrow> payment_order \<Rightarrow> uuid \<Rightarrow> bool" where
  "consent_signed db p u \<longleftrightarrow>
     (\<exists>s \<in> set (pb_seats db). se_payment s = po_id p \<and> se_subject s = u \<and> se_decision s = ''approve'' \<and>
        se_hash s = Some (po_hash p)) \<or>
     (\<exists>s \<in> set (pb_sessions db). ss_payment s = po_id p \<and> ss_subject s = u \<and> ss_decision s = ''approve'' \<and>
        ss_hash s = Some (po_hash p))"

text \<open>
  C3: an investor's money moves on the investor's word.  Over every history of the payment tables: when
  recording an execution turns an order whose source is an investor's own claim into an executed one,
  the order was approved, a seat of that very payment holds the approval of that very investor for
  the order's own hash, and either the consent's pins (the token version and the mailbox) still hold
  as the execution is recorded or the withdrawal is already past the point where it can be
  called back.
\<close>
theorem investor_money_needs_consent:
  assumes "pay_reach env db" "order_locked env db i = Inr p" "payment_requirement (po_terms p) = SubjectConsent u"
    and "po_state p \<noteq> Executed_Payment"
    and "order_locked env (fst (record_payment_execution env now i outcome at db)) i = Inr p'" "po_state p' = Executed_Payment"
  shows "po_state p = Approved_Payment \<and> consent_signed db p u \<and>
    (seat_invalidation env db i = None \<or> past_recall env db outcome)"
proof -
  have "paid_state (fst (record_payment_execution env now i outcome at db)) i = Some Executed_Payment"
    using paid_state_locked [OF assms(5)] assms(6) by simp
  note stands = executing [OF assms(2,4) this]
  from pay_key_ok_of [OF pay_reach_ok [OF assms(1)] conjunct1 [OF order_locked_in [OF assms(2)]]] assms(3) stands
  have "(po_id p, u, ''approve'', Some (po_hash p)) \<in> consents db"
    by (simp add: pay_key_ok_def pay_key_def past_approval_def)
  then have "consent_signed db p u" by (auto simp: consent_signed_def consents_def seat_key_def session_key_def)
  with stands show ?thesis by blast
qed

section \<open>A history\<close>

text \<open>An investor's transfer to another, opened, confirmed in the cabinet and carried out.\<close>

definition pay_env :: gov_env where
  "pay_env = \<lparr>ge_show = (\<lambda>_. ''''), ge_digest = (\<lambda>s. if s = ''i@x'' then s else ''H''), ge_url = ''u'',
     ge_mail_wired = True\<rparr>"

definition pay_user :: user_row where
  "pay_user = \<lparr>ur_id = 7, ur_email = ''i@x'', ur_role = ''investor'', ur_frozen = False, ur_status = ''active'', ur_concierge = Some 7\<rparr>"

definition pay_tables :: "payment_order list \<Rightarrow> session_row list \<Rightarrow> pay_db" where
  "pay_tables os ss = \<lparr>pb_gov = \<lparr>gd_users = [pay_user], gd_roster_changes = [], gd_consilia = [], gd_voters = [], gd_consents = [],
     gd_mails = [], gd_orders = os, gd_fee_changes = [], gd_titles = [], gd_positions = [], gd_event_log = [], gd_outbox = []\<rparr>,
     pb_versions = [], pb_links = [], pb_seats = [], pb_sessions = ss, pb_approvals = [], pb_notices = [],
     pb_withdrawals = \<lparr>wst_rows = [], wst_outbox = []\<rparr>\<rparr>"

definition pay_terms :: payment_terms where
  "pay_terms = \<lparr>pt_from = User_Party 7, pt_to = Internal (User_Party 8), pt_amount = Usdt 5, pt_reason = PaymentReason ''rent''\<rparr>"

definition pay_pending :: payment_order where
  "pay_pending = (payment_open_for 9 pay_terms ''H'' 7 0 100)\<lparr>po_pending := []\<rparr>"

definition pay_asked :: session_row where
  "pay_asked = \<lparr>ss_payment = 9, ss_subject = 7, ss_decision = ''pending'', ss_decided_at = None, ss_version_at_open = 0,
     ss_email_hash_at_open = ''i@x'', ss_client_ip = None, ss_user_agent = None, ss_hash = None\<rparr>"

definition pay_approved :: payment_order where
  "pay_approved = pay_pending\<lparr>po_state := Approved_Payment, po_decided_at := Some 1, po_version := 4\<rparr>"

definition pay_answered :: session_row where
  "pay_answered = pay_asked\<lparr>ss_decision := ''approve'', ss_decided_at := Some 1, ss_client_ip := Some ''ip'',
     ss_user_agent := Some ''ua'', ss_hash := Some ''H''\<rparr>"

lemmas pay_sample_defs = pay_env_def pay_user_def pay_tables_def pay_terms_def pay_pending_def pay_asked_def pay_approved_def
  pay_answered_def payment_open_for_def

text \<open>A cabinet seat is taken once its subject can be told.\<close>

lemma enqueue_first: "pb_notices db = [] \<Longrightarrow> find_user (pb_gov db) (sn_user n) \<noteq> None \<Longrightarrow>
   enqueue_notice n w db = Inr (db\<lparr>pb_notices := [\<lparr>nt_notice = n, nt_payment = w, nt_sent_at = None, nt_withdrawn_at = None\<rparr>]\<rparr>)"
  by (simp add: enqueue_notice_def)

lemma seat_session_taken:
  assumes "pb_notices db = []" "pb_sessions db = []" "find_user (pb_gov db) (st_subject session) = Some u" "ur_concierge u \<noteq> None"
  shows "\<exists>n. seat_session env order session db = Inr (db\<lparr>pb_sessions := [\<lparr>ss_payment = po_id order, ss_subject = st_subject session,
     ss_decision = ''pending'', ss_decided_at = None, ss_version_at_open = st_version_at_open session,
     ss_email_hash_at_open = st_email_hash_at_open session, ss_client_ip = None, ss_user_agent = None, ss_hash = None\<rparr>],
     pb_notices := n\<rparr>)"
  unfolding seat_session_def Let_def using assms by (auto simp: enqueue_first simp del: append_Cons)

lemma pay_opened:
  "\<exists>db. open_order pay_env 0 '''' (payment_open_for 9 pay_terms ''H'' 7 0 100)
     (Seat_Session \<lparr>st_subject = 7, st_version_at_open = 0, st_email_hash_at_open = ''i@x''\<rparr>) (pay_tables [] []) = Inr db \<and>
     gd_orders (pb_gov db) = [pay_pending] \<and> pb_links db = [] \<and> pb_seats db = [] \<and> pb_sessions db = [pay_asked] \<and> pb_approvals db = []"
proof -
  let ?order = "payment_open_for 9 pay_terms ''H'' 7 0 100"
  let ?session = "\<lparr>st_subject = 7, st_version_at_open = 0, st_email_hash_at_open = ''i@x''\<rparr>"
  have inserted: "insert_payment 0 ?order (pay_tables [] []) = Inr (pay_tables [pay_pending] [])"
    by (simp add: insert_payment_def find_user_def Let_def pay_sample_defs)
  obtain n where "seat_session pay_env ?order ?session (pay_tables [pay_pending] []) =
      Inr ((pay_tables [pay_pending] [])\<lparr>pb_sessions := [pay_asked], pb_notices := n\<rparr>)"
    using seat_session_taken [of "pay_tables [pay_pending] []" ?session pay_user pay_env ?order]
    by (auto simp: find_user_def pay_tables_def pay_user_def pay_asked_def payment_open_for_def)
  moreover have "require_seat_matches (Seat_Session ?session) (payment_requirement (po_terms ?order)) = Inr ()"
    by (simp add: payment_requirement_def payment_open_for_def pay_terms_def)
  ultimately have "open_order pay_env 0 '''' ?order (Seat_Session ?session) (pay_tables [] []) =
      Inr (log_order ?order ((pay_tables [pay_pending] [])\<lparr>pb_sessions := [pay_asked], pb_notices := n\<rparr>))"
    by (simp add: open_order_def inserted rmap_def)
  then show ?thesis by (simp add: log_order_def log_events_def) (simp add: pay_tables_def)
qed

lemma pay_confirmed:
  "let db = fst (answer_session_consent pay_env 1 9 7 Approve_Consent \<lparr>va_client_ip = ''ip'', va_user_agent = ''ua''\<rparr> 1
       (pay_tables [pay_pending] [pay_asked]))
   in gd_orders (pb_gov db) = [pay_approved] \<and> pb_links db = [] \<and> pb_seats db = [] \<and> pb_sessions db = [pay_answered] \<and> pb_approvals db = []"
proof -
  let ?seat = "(pay_asked, pay_user)" and ?db = "pay_tables [pay_pending] [pay_asked]"
  let ?audit = "\<lparr>va_client_ip = ''ip'', va_user_agent = ''ua''\<rparr>"
  have l: "order_locked pay_env ?db 9 = Inr pay_pending"
    by (simp add: order_locked_def payment_locked_def ok_or_def pay_tables_def pay_pending_def payment_open_for_def)
  have s: "session_of_payment ?db 9 = Some ?seat"
    by (simp add: session_of_payment_def join_user_def find_user_def pay_tables_def pay_asked_def pay_user_def)
  have d: "consent_decision_parse (ss_decision pay_asked) = Inr Pending_Consent" "ss_subject pay_asked = 7"
    by (simp_all add: consent_decision_parse_def pay_asked_def)
  have open_still: "payment_is_pending (po_state pay_pending)" "\<not> sint (po_expires_at pay_pending) \<le> sint (1 :: i64)"
    by (simp_all add: payment_is_pending_def pay_pending_def payment_open_for_def i64_saturating_add_def i64_clamp_def)
  have pins: "session_invalidation pay_env ?db ?seat = None"
    by (simp add: session_invalidation_def pins_moved_def token_floor_def pay_asked_def pay_user_def pay_env_def pay_tables_def)
  obtain raised where a: "payment_approve pay_pending 1 = Inr raised" and r: "raised\<lparr>po_pending := []\<rparr> = pay_approved"
    by (simp add: payment_approve_def payment_require_pending_def payment_is_pending_def payment_raise_def saturating_add_def Let_def
        pay_pending_def pay_approved_def payment_open_for_def pay_terms_def payment_tier_def)
  let ?db1 = "update_session 9 (\<lambda>s. s\<lparr>ss_decision := consent_decision_str Approve_Consent,
    ss_decided_at := Some 1, ss_client_ip := Some ''ip'', ss_user_agent := Some ''ua'', ss_hash := Some (po_hash pay_pending)\<rparr>) ?db"
  let ?db2 = "log_order raised (pay_tables [pay_approved] [pay_answered])"
  have id: "po_id raised = 9" using r by (auto simp: pay_approved_def pay_pending_def payment_open_for_def dest: arg_cong [of _ _ po_id])
  have "?db1 = pay_tables [pay_pending] [pay_answered]"
    by (simp add: update_session_def pay_tables_def pay_answered_def pay_asked_def pay_pending_def payment_open_for_def)
  then have w: "save_order raised ?db1 = Inr ?db2"
    by (simp add: save_order_def persist_order_def rmap_def r id log_order_def log_events_def pay_tables_def pay_pending_def payment_open_for_def)
  let ?db3 = "withdraw_notices 1 9 CONSENT_NOTICE_KIND ?db2"
  have "\<exists>view. payment_view_of pay_env ?db3 pay_approved = Inr view"
    by (simp add: payment_view_of_def initiator_email_of_def ok_or_def find_user_def consent_of_payment_def session_of_payment_def
        join_user_def view_session_def consent_decision_parse_def withdraw_notices_def log_order_def log_events_def rmap_def
        pay_tables_def pay_user_def pay_answered_def pay_asked_def pay_approved_def pay_pending_def payment_open_for_def)
  then obtain view where v: "payment_view_of pay_env ?db3 (raised\<lparr>po_pending := []\<rparr>) = Inr view" unfolding r by blast
  have "fst (answer_session_consent pay_env 1 9 7 Approve_Consent ?audit 1 ?db) = ?db3"
    unfolding answer_session_consent_def l s d sum.case option.case fst_conv Let_def try_tx_def
    using a w v d open_still pins by simp
  then show ?thesis
    by (simp add: Let_def withdraw_notices_def log_order_def log_events_def pay_tables_def)
qed

lemma pay_reached: "pay_reach pay_env (pay_tables [pay_approved] [pay_answered])"
proof -
  have "pay_reach pay_env (pay_tables [] [])" by (rule pay_start) (simp_all add: pay_tables_def)
  moreover obtain db where "open_order pay_env 0 '''' (payment_open_for 9 pay_terms ''H'' 7 0 100)
     (Seat_Session \<lparr>st_subject = 7, st_version_at_open = 0, st_email_hash_at_open = ''i@x''\<rparr>) (pay_tables [] []) = Inr db"
    "gd_orders (pb_gov db) = [pay_pending]" "pb_links db = []" "pb_seats db = []" "pb_sessions db = [pay_asked]" "pb_approvals db = []"
    using pay_opened by blast
  ultimately have "pay_reach pay_env db" by (blast intro: pay_open)
  then have "pay_reach pay_env (pay_tables [pay_pending] [pay_asked])"
    by (rule pay_other) (simp_all add: pay_tables_def \<open>gd_orders (pb_gov db) = [pay_pending]\<close> \<open>pb_links db = []\<close>
      \<open>pb_seats db = []\<close> \<open>pb_sessions db = [pay_asked]\<close> \<open>pb_approvals db = []\<close>)
  from pay_session [OF this, of 1 9 7 Approve_Consent "\<lparr>va_client_ip = ''ip'', va_user_agent = ''ua''\<rparr>" 1] show ?thesis
    by (rule pay_other) (use pay_confirmed in \<open>simp_all add: Let_def pay_tables_def [of "[pay_approved]"]\<close>)
qed

lemma pay_carried_out:
  "\<exists>p'. order_locked pay_env (fst (record_payment_execution pay_env 2 9 (Payment_Executed Transfer_Effect) 2
       (pay_tables [pay_approved] [pay_answered]))) 9 = Inr p' \<and> po_state p' = Executed_Payment"
  by (simp add: record_payment_execution_def order_locked_def payment_locked_def consent_void_def seat_invalidation_def
      consent_of_payment_def session_of_payment_def join_user_def find_user_def session_invalidation_def pins_moved_def token_floor_def
      payment_mark_executed_def payment_tier_def payment_raise_def saturating_add_def save_and_view_def save_order_def persist_order_def
      log_events_def payment_view_of_def initiator_email_of_def view_session_def consent_decision_parse_def
      try_tx_def [of _ "Inr _"] ok_or_def rmap_def Let_def pay_sample_defs)

theorem investor_money_needs_consent_witness:
  "payment_requirement pay_terms = SubjectConsent 7 \<and> consent_signed (pay_tables [pay_approved] [pay_answered]) pay_approved 7"
proof -
  obtain p' where "order_locked pay_env (fst (record_payment_execution pay_env 2 9 (Payment_Executed Transfer_Effect) 2
       (pay_tables [pay_approved] [pay_answered]))) 9 = Inr p'" "po_state p' = Executed_Payment" using pay_carried_out by blast
  moreover have "order_locked pay_env (pay_tables [pay_approved] [pay_answered]) 9 = Inr pay_approved"
    by (simp add: order_locked_def payment_locked_def ok_or_def pay_sample_defs)
  moreover have r: "payment_requirement (po_terms pay_approved) = SubjectConsent 7" "po_state pay_approved \<noteq> Executed_Payment"
    by (simp_all add: payment_requirement_def pay_sample_defs)
  ultimately have "consent_signed (pay_tables [pay_approved] [pay_answered]) pay_approved 7"
    using investor_money_needs_consent [OF pay_reached] by blast
  then show ?thesis by (simp add: payment_requirement_def pay_terms_def)
qed

end
