(* ===== verification/WithdrawalUse.thy ===== *)
theory WithdrawalUse
  imports Withdrawals Compartments
begin

text \<open>
  The withdrawal use cases (\<^verbatim>\<open>application/withdrawals.rs\<close>), the gates an outgoing payment clears
  (\<^verbatim>\<open>ports/outflow.rs\<close>, \<^verbatim>\<open>infrastructure/outflow.rs\<close>, the verification gate of \<^verbatim>\<open>config.rs\<close>) and the
  worker that drains the queue (\<^verbatim>\<open>infrastructure/dispatcher.rs\<close>).  What the ledger, the custody and the
  operator's switches answer when asked is an argument; the wake-up of the relay is not modelled.
\<close>

section \<open>The gates\<close>

definition KYC_LEVEL_VERIFIED :: u32 where
  "KYC_LEVEL_VERIFIED = 1"

record kyc_gate =
  kg_enforced :: bool

definition KYC_ENFORCED :: kyc_gate where
  "KYC_ENFORCED = \<lparr>kg_enforced = True\<rparr>"

definition KYC_LIFTED :: kyc_gate where
  "KYC_LIFTED = \<lparr>kg_enforced = False\<rparr>"

definition kyc_read :: "string option \<Rightarrow> kyc_gate" where
  "kyc_read raw =
     (case map_option trim raw of
        None \<Rightarrow> KYC_ENFORCED
      | Some value \<Rightarrow>
          if value = '''' then KYC_ENFORCED
          else if eq_ignore_ascii_case value ''false'' \<or> value = ''0'' then KYC_LIFTED
          else KYC_ENFORCED)"

definition kyc_admits :: "kyc_gate \<Rightarrow> u32 \<Rightarrow> bool" where
  "kyc_admits gate level \<longleftrightarrow> \<not> kg_enforced gate \<or> KYC_LEVEL_VERIFIED \<le> level"

text \<open>A user's row, as the policy reads it: a tier that is no tier counts as none.\<close>

definition standing_of :: "bool \<Rightarrow> string \<Rightarrow> int \<Rightarrow> payout_standing" where
  "standing_of frozen status kyc_level =
     \<lparr>ps_blocked = (frozen \<or> status = ''disabled''), ps_kyc_level = (if 0 \<le> kyc_level \<and> kyc_level < 2 ^ 32 then word_of_int kyc_level else 0)\<rparr>"

definition read_only_of :: "bool option \<Rightarrow> bool" where
  "read_only_of row = (case row of None \<Rightarrow> False | Some v \<Rightarrow> v)"

text \<open>What is answered to the questions a withdrawal asks.\<close>

record outflow_env =
  oe_show :: "uuid \<Rightarrow> string"
  oe_paused :: "bool result"
  oe_standing :: "uuid \<Rightarrow> payout_standing option result"
  oe_frozen :: "network list result"
  oe_configured :: "network list"
  oe_kyc :: kyc_gate
  oe_spendable :: "account_key \<Rightarrow> ledger_error + u128"
  oe_spendable_locked :: "account_key \<Rightarrow> ledger_error + u128"
  oe_rail :: "network \<Rightarrow> ledger_error + u128"
  oe_onchain :: "network \<Rightarrow> usdt option result"

definition OUTFLOWS_PAUSED :: string where
  "OUTFLOWS_PAUSED = ''money movements are temporarily paused (read-only mode)''"

definition ACCOUNT_FROZEN :: string where
  "ACCOUNT_FROZEN = ''account is frozen''"

definition UNVERIFIED :: domain_error where
  "UNVERIFIED = Forbidden ''identity verification required to withdraw''"

definition require_configured :: "outflow_env \<Rightarrow> network \<Rightarrow> unit result" where
  "require_configured env n =
     (if n \<in> set (oe_configured env) then Inr () else Inl (Validation (network_str n @ '' withdrawals are not available'')))"

definition require_unfrozen_rail :: "outflow_env \<Rightarrow> network \<Rightarrow> unit result" where
  "require_unfrozen_rail env n =
     rbind (oe_frozen env) (\<lambda>frozen.
       if n \<in> set frozen
       then Inl (Precondition (network_str n @ '' is frozen by an operator '' @ em_dash @ '' withdrawals on it are paused''))
       else Inr ())"

definition require_outflows_enabled :: "outflow_env \<Rightarrow> unit result" where
  "require_outflows_enabled env =
     rbind (oe_paused env) (\<lambda>paused. if paused then Inl (Precondition OUTFLOWS_PAUSED) else Inr ())"

definition policy_standing :: "outflow_env \<Rightarrow> uuid \<Rightarrow> payout_standing result" where
  "policy_standing env user =
     rbind (oe_standing env user) (\<lambda>standing. ok_or standing (NotFound ''user'' (oe_show env user)))"

definition admit_user_account :: "outflow_env \<Rightarrow> uuid \<Rightarrow> unit result" where
  "admit_user_account env user =
     rbind (policy_standing env user) (\<lambda>standing.
       if ps_blocked standing then Inl (Precondition ACCOUNT_FROZEN)
       else if \<not> kyc_admits (oe_kyc env) (ps_kyc_level standing) then Inl UNVERIFIED
       else Inr ())"

definition admit_user_withdrawal :: "outflow_env \<Rightarrow> uuid \<Rightarrow> network \<Rightarrow> unit result" where
  "admit_user_withdrawal env user n =
     rbind (require_configured env n) (\<lambda>_. rbind (require_unfrozen_rail env n) (\<lambda>_. admit_user_account env user))"

definition INSUFFICIENT_TO_WITHDRAW :: string where
  "INSUFFICIENT_TO_WITHDRAW = ''insufficient available balance to withdraw''"

definition require_solvent :: "outflow_env \<Rightarrow> withdrawal_source \<Rightarrow> usdt \<Rightarrow> unit result" where
  "require_solvent env source amount =
     rbind (from_ledger (oe_spendable env (source_claim_key source))) (\<lambda>s.
       if Usdt s < amount then Inl (Validation INSUFFICIENT_TO_WITHDRAW) else Inr ())"

text \<open>\<open>Inr False\<close> is accept-and-queue: a chain that cannot be read never refuses a withdrawal.\<close>

definition rail_covers :: "outflow_env \<Rightarrow> network \<Rightarrow> usdt \<Rightarrow> bool result" where
  "rail_covers env n net =
     rbind (from_ledger (oe_rail env n)) (\<lambda>posted.
       Inr (case oe_onchain env n of
              Inr (Some onchain) \<Rightarrow> net \<le> min (Usdt posted) onchain
            | Inr None \<Rightarrow> net \<le> Usdt posted
            | Inl _ \<Rightarrow> False))"

section \<open>Requesting\<close>

datatype withdrawal_opening = Opening_Immediate | Opening_Keyed string | Opening_Queued

fun dispatches_immediately :: "withdrawal_opening \<Rightarrow> bool" where
  "dispatches_immediately Opening_Queued = False"
| "dispatches_immediately _ = True"

definition replay :: "withdrawal \<Rightarrow> network \<Rightarrow> wallet_address \<Rightarrow> usdt \<Rightarrow> withdrawal result" where
  "replay first n address amount =
     (if wd_network first = n \<and> wd_address first = address \<and> wd_amount first = amount then Inr first
      else Inl (Conflict ''idempotency_key was already used for a different withdrawal''))"

definition open_withdrawal ::
  "outflow_env \<Rightarrow> withdrawal_store \<Rightarrow> uuid \<Rightarrow> withdrawal_source \<Rightarrow> network \<Rightarrow> wallet_address \<Rightarrow> usdt \<Rightarrow> withdrawal_opening \<Rightarrow>
   (withdrawal_store \<times> withdrawal) result" where
  "open_withdrawal env s i source n address amount how =
     rbind (withdrawal_request i source n address amount (withdrawal_fee_for source n)) (\<lambda>w.
     rbind (require_solvent env source amount) (\<lambda>_.
     rbind (if dispatches_immediately how
            then rbind (rail_covers env n (net_amount w)) (\<lambda>covered. if covered then withdrawal_dispatch w else Inr w)
            else Inr w) (\<lambda>w.
       let guard = claim_covers_check (usdt_units amount) INSUFFICIENT_TO_WITHDRAW (oe_spendable_locked env (source_claim_key source))
       in case (how, source) of
            (Opening_Keyed key, User_Source user) \<Rightarrow>
              rbind (withdrawal_open_keyed s w guard user key) (\<lambda>(s, first).
                case first of
                  Some first \<Rightarrow> rmap (\<lambda>first. (s, first)) (replay first n (wd_address w) amount)
                | None \<Rightarrow> Inr (s, w\<lparr>wd_pending := []\<rparr>))
          | _ \<Rightarrow> rmap (\<lambda>s. (s, w\<lparr>wd_pending := []\<rparr>)) (withdrawal_open s w guard))))"

definition request_withdrawal ::
  "outflow_env \<Rightarrow> withdrawal_store \<Rightarrow> uuid \<Rightarrow> uuid \<Rightarrow> network \<Rightarrow> wallet_address \<Rightarrow> usdt \<Rightarrow> (withdrawal_store \<times> withdrawal) result" where
  "request_withdrawal env s i user n address amount =
     rbind (admit_user_withdrawal env user n) (\<lambda>_.
       open_withdrawal env s i (User_Source user) n address amount Opening_Immediate)"

definition MAX_WITHDRAWAL_KEY :: nat where
  "MAX_WITHDRAWAL_KEY = 128"

text \<open>\<open>fresh\<close>: the id minted for it, when the key is new.\<close>

definition request_withdrawal_keyed ::
  "outflow_env \<Rightarrow> withdrawal_store \<Rightarrow> uuid \<Rightarrow> uuid \<Rightarrow> network \<Rightarrow> wallet_address \<Rightarrow> usdt \<Rightarrow> string \<Rightarrow>
   (withdrawal_store \<times> withdrawal) result" where
  "request_withdrawal_keyed env s fresh user n address amount key =
     (if key = [] \<or> MAX_WITHDRAWAL_KEY < length key
      then Inl (Validation (''idempotency_key must be 1..'' @ show_nat MAX_WITHDRAWAL_KEY @ '' bytes''))
      else
        case find_withdrawal_by_key s user key of
          Some first \<Rightarrow> rmap (\<lambda>first. (s, first)) (replay first n address amount)
        | None \<Rightarrow>
            rbind (admit_user_withdrawal env user n) (\<lambda>_.
              open_withdrawal env s fresh (User_Source user) n address amount (Opening_Keyed key)))"

definition queue_withdrawal ::
  "outflow_env \<Rightarrow> withdrawal_store \<Rightarrow> uuid \<Rightarrow> uuid \<Rightarrow> network \<Rightarrow> wallet_address \<Rightarrow> usdt \<Rightarrow> (withdrawal_store \<times> withdrawal) result" where
  "queue_withdrawal env s i user n address amount =
     rbind (admit_user_withdrawal env user n) (\<lambda>_.
       open_withdrawal env s i (User_Source user) n address amount Opening_Queued)"

text \<open>The open-time pre-checks: the shape and the balance, under an id that is thrown away.\<close>

definition check_user_withdrawal :: "outflow_env \<Rightarrow> uuid \<Rightarrow> uuid \<Rightarrow> network \<Rightarrow> wallet_address \<Rightarrow> usdt \<Rightarrow> unit result" where
  "check_user_withdrawal env fresh user n address amount =
     rbind (admit_user_withdrawal env user n) (\<lambda>_.
     rbind (withdrawal_request fresh (User_Source user) n address amount (withdrawal_fee_for (User_Source user) n)) (\<lambda>_.
       require_solvent env (User_Source user) amount))"

definition queue_treasury_withdrawal ::
  "outflow_env \<Rightarrow> withdrawal_store \<Rightarrow> uuid \<Rightarrow> uuid \<Rightarrow> network \<Rightarrow> wallet_address \<Rightarrow> usdt \<Rightarrow> (withdrawal_store \<times> withdrawal) result" where
  "queue_treasury_withdrawal env s i payment n address amount =
     rbind (require_configured env n) (\<lambda>_. rbind (require_unfrozen_rail env n) (\<lambda>_.
       open_withdrawal env s i (Treasury_Source payment) n address amount Opening_Queued))"

definition check_treasury_withdrawal :: "outflow_env \<Rightarrow> uuid \<Rightarrow> uuid \<Rightarrow> network \<Rightarrow> wallet_address \<Rightarrow> usdt \<Rightarrow> unit result" where
  "check_treasury_withdrawal env fresh payment n address amount =
     rbind (require_configured env n) (\<lambda>_. rbind (require_unfrozen_rail env n) (\<lambda>_.
     rbind (withdrawal_request fresh (Treasury_Source payment) n address amount (withdrawal_fee_for (Treasury_Source payment) n)) (\<lambda>_.
       require_solvent env (Treasury_Source payment) amount)))"

section \<open>Paying out\<close>

definition require_dispatchable :: "outflow_env \<Rightarrow> withdrawal \<Rightarrow> unit result" where
  "require_dispatchable env w =
     rbind (require_outflows_enabled env) (\<lambda>_. rbind (require_unfrozen_rail env (wd_network w)) (\<lambda>_.
       case source_user (wd_source w) of
         None \<Rightarrow> Inr ()
       | Some owner \<Rightarrow>
           rbind (oe_standing env owner) (\<lambda>standing.
           rbind (ok_or standing (Precondition (''the withdrawal's owner has no control-plane row '' @ em_dash @ '' dispatch refused''))) (\<lambda>standing.
             if ps_blocked standing then Inl (Precondition ACCOUNT_FROZEN)
             else if \<not> kyc_admits (oe_kyc env) (ps_kyc_level standing) then Inl UNVERIFIED
             else Inr ()))))"

definition dispatch_withdrawal :: "outflow_env \<Rightarrow> withdrawal_store \<Rightarrow> uuid \<Rightarrow> withdrawal_store result" where
  "dispatch_withdrawal env s i =
     rbind (ok_or (find_withdrawal s i) (NotFound ''withdrawal'' (oe_show env i))) (\<lambda>existing.
     rbind (require_dispatchable env existing) (\<lambda>_.
       if (case oe_onchain env (wd_network existing) of Inr (Some onchain) \<Rightarrow> onchain < net_amount existing | _ \<Rightarrow> False)
       then Inl (Validation (''rail treasury underfunded on-chain '' @ em_dash @ '' withdrawal left queued''))
       else store_dispatch (oe_show env) s i))"

definition cancel_withdrawal :: "outflow_env \<Rightarrow> withdrawal_store \<Rightarrow> uuid \<Rightarrow> uuid \<Rightarrow> withdrawal_store result" where
  "cancel_withdrawal env s i user =
     rbind (ok_or (find_withdrawal s i) (NotFound ''withdrawal'' (oe_show env i))) (\<lambda>existing.
       if source_user (wd_source existing) \<noteq> Some user then Inl (Forbidden ''not your withdrawal'')
       else cancel_on (oe_show env) s i)"

definition list_withdrawals :: "withdrawal_store \<Rightarrow> uuid \<Rightarrow> withdrawal list" where
  "list_withdrawals s user =
     rev (filter (\<lambda>w. source_user (wd_source w) = Some user) (map wr_withdrawal (wst_rows s)))"

section \<open>The dispatcher\<close>

definition DISPATCH_INTERVAL_SECS :: nat where
  "DISPATCH_INTERVAL_SECS = 30"

text \<open>
  One queued withdrawal of a sweep.  \<open>envs i\<close>: what is answered when \<open>i\<close> is taken up; \<open>spent\<close>: the net sent per
  rail since the sweep began.
\<close>

definition rail_room :: "u128 \<Rightarrow> usdt \<Rightarrow> usdt \<Rightarrow> bool" where
  "rail_room balance spent net =
     (case usdt_checked_sub (Usdt balance) spent of Some remaining \<Rightarrow> net \<le> remaining | None \<Rightarrow> False)"

definition dispatch_one ::
  "network list \<Rightarrow> outflow_env \<Rightarrow> uuid \<Rightarrow> withdrawal_store \<times> (network \<Rightarrow> usdt) \<Rightarrow> (withdrawal_store \<times> (network \<Rightarrow> usdt)) \<times> bool" where
  "dispatch_one frozen env i st =
     (case st of (s, spent) \<Rightarrow>
        case find_withdrawal s i of
          None \<Rightarrow> (st, False)
        | Some w \<Rightarrow>
            let net = net_amount w; n = wd_network w in
            if n \<in> set frozen then (st, False)
            else if (case oe_rail env n of Inr posted \<Rightarrow> \<not> rail_room posted (spent n) net | Inl _ \<Rightarrow> True) then (st, False)
            else if (case oe_onchain env n of
                       Inr None \<Rightarrow> False
                     | Inr (Some onchain) \<Rightarrow> \<not> rail_room (usdt_units onchain) (spent n) net
                     | Inl _ \<Rightarrow> True) then (st, False)
            else
              case dispatch_withdrawal env s i of
                Inl _ \<Rightarrow> (st, False)
              | Inr s' \<Rightarrow>
                  ((s', spent(n := (case usdt_checked_add (spent n) net of Some added \<Rightarrow> added | None \<Rightarrow> Usdt (- 1)))), True))"

fun dispatch_each ::
  "network list \<Rightarrow> (uuid \<Rightarrow> outflow_env) \<Rightarrow> uuid list \<Rightarrow> withdrawal_store \<times> (network \<Rightarrow> usdt) \<Rightarrow>
   (withdrawal_store \<times> (network \<Rightarrow> usdt)) \<times> nat" where
  "dispatch_each frozen envs [] st = (st, 0)"
| "dispatch_each frozen envs (i # ids) st =
     (case dispatch_one frozen (envs i) i st of (st, sent) \<Rightarrow>
        case dispatch_each frozen envs ids st of (st, n) \<Rightarrow> (st, if sent then n + 1 else n))"

text \<open>\<open>env\<close>: what is answered as the sweep begins.\<close>

definition dispatcher_sweep ::
  "outflow_env \<Rightarrow> (uuid \<Rightarrow> outflow_env) \<Rightarrow> withdrawal_store \<Rightarrow> withdrawal_store \<times> nat" where
  "dispatcher_sweep env envs s =
     (case require_outflows_enabled env of
        Inl _ \<Rightarrow> (s, 0)
      | Inr _ \<Rightarrow>
          case oe_frozen env of
            Inl _ \<Rightarrow> (s, 0)
          | Inr frozen \<Rightarrow>
              let queued = map wd_id (filter (\<lambda>w. wd_state w = Queued_Withdrawal) (map wr_withdrawal (wst_rows s)));
                  (st, n) = dispatch_each frozen envs queued (s, \<lambda>_. USDT_ZERO)
              in (fst st, n))"

end
