(* ===== verification/PayUse.thy ===== *)
theory PayUse
  imports PaySafety WithdrawalUse
begin

text \<open>
  The payment use cases (\<^verbatim>\<open>application/payments.rs\<close>) and the switches that choose a new order's seat
  (\<^verbatim>\<open>config.rs\<close>): what is checked as an order is opened, the seat its source asks for, and the execution
  that turns an approved order into one withdrawal or one settled transfer.  The registry, the ledger
  and the gates of the withdrawal path answer through arguments; the ids and secrets drawn at random are
  arguments too.
\<close>

section \<open>The switches\<close>

datatype approval_mode = Concierge_Mode | Consilium_Mode

record approval_modes =
  am_fund :: approval_mode
  am_session :: approval_mode

definition mode_parse :: "string option \<Rightarrow> approval_mode \<Rightarrow> approval_mode" where
  "mode_parse raw fallback =
     (case map_option trim raw of
        None \<Rightarrow> fallback
      | Some value \<Rightarrow>
          if value = '''' then fallback
          else if eq_ignore_ascii_case value ''concierge'' then Concierge_Mode
          else if eq_ignore_ascii_case value ''consilium'' then Consilium_Mode
          else fallback)"

definition DEFAULT_MODES :: approval_modes where
  "DEFAULT_MODES = \<lparr>am_fund = Consilium_Mode, am_session = Concierge_Mode\<rparr>"

definition modes_read :: "string option \<Rightarrow> string option \<Rightarrow> string option \<Rightarrow> approval_modes" where
  "modes_read legacy fund session =
     (let legacy_set = (case legacy of None \<Rightarrow> False | Some raw \<Rightarrow> trim raw \<noteq> '''');
          invalid = (case legacy of None \<Rightarrow> True
            | Some raw \<Rightarrow> to_ascii_lowercase (trim raw) \<notin> {''concierge'', ''consilium''});
          both = mode_parse legacy Concierge_Mode;
          (fund_default, session_default) =
            (if legacy_set \<and> \<not> invalid then (both, both) else (am_fund DEFAULT_MODES, am_session DEFAULT_MODES))
      in \<lparr>am_fund = mode_parse fund fund_default, am_session = mode_parse session session_default\<rparr>)"

definition mode_of :: "approval_modes \<Rightarrow> payment_approval \<Rightarrow> approval_mode" where
  "mode_of modes requirement =
     (case requirement of OwnerConsilium_Approval \<Rightarrow> am_fund modes | SubjectConsent _ \<Rightarrow> am_session modes)"

section \<open>The ports\<close>

record pay_ports =
  pp_gov :: gov_env
  pp_out :: outflow_env
  pp_modes :: approval_modes
  pp_registered :: "service_id \<Rightarrow> bool result"
  pp_verified :: "uuid \<Rightarrow> bool"
  pp_reserve_id :: "uuid \<Rightarrow> u128"
  pp_reservation :: "uuid \<Rightarrow> reservation_status result"
  pp_transfer_exists :: "u128 \<Rightarrow> ledger_error + bool"
  pp_withdrawal_id :: "uuid \<Rightarrow> uuid"
  pp_consent_url :: string

record pay_fresh =
  pf_order :: uuid
  pf_consilium :: uuid
  pf_secrets :: "uuid \<Rightarrow> string \<times> string"

section \<open>Opening\<close>

definition TREASURY_SPENDING_CLOSED :: string where
  "TREASURY_SPENDING_CLOSED = ''treasury spending waits for scope approvals''"

fun spending_closed :: "party \<Rightarrow> bool" where
  "spending_closed Treasury = True"
| "spending_closed (User_Party _) = False"
| "spending_closed (Service_Party _) = False"

definition require_registered :: "pay_ports \<Rightarrow> payment_destination \<Rightarrow> unit result" where
  "require_registered ports to =
     (case to of
        Internal (Service_Party service) \<Rightarrow>
          rbind (pp_registered ports service) (\<lambda>known.
            if known then Inr ()
            else Inl (Validation (''no product is registered as service '' @ service_id_str service)))
      | _ \<Rightarrow> Inr ())"

definition check_executable :: "pay_ports \<Rightarrow> uuid \<Rightarrow> payment_terms \<Rightarrow> unit result" where
  "check_executable ports fresh terms =
     rbind (require_registered ports (pt_to terms)) (\<lambda>_.
       case pt_to terms of
         External n address \<Rightarrow>
           (case pt_from terms of
              Service_Party _ \<Rightarrow>
                Inl (Validation (''an external payment can leave only from an investor's claim; an allocation's cash '' @
                  ''reaches the chain through a holder's redemption and their own withdrawal''))
            | User_Party user \<Rightarrow> check_user_withdrawal (pp_out ports) fresh user n address (pt_amount terms)
            | Treasury \<Rightarrow> check_treasury_withdrawal (pp_out ports) fresh fresh n address (pt_amount terms))
       | Internal _ \<Rightarrow>
           rbind (case pt_from terms of User_Party user \<Rightarrow> admit_user_account (pp_out ports) user | _ \<Rightarrow> Inr ()) (\<lambda>_.
           rbind (from_ledger (oe_spendable (pp_out ports) (payment_source_claim terms))) (\<lambda>spendable.
             if Usdt spendable < pt_amount terms
             then Inl (Validation ''the source claim's available balance does not cover the payment'')
             else Inr ())))"

text \<open>The investor's standing, pinned as the seat is made.\<close>

definition subject_of :: "pay_ports \<Rightarrow> pay_db \<Rightarrow> uuid \<Rightarrow> user_row result" where
  "subject_of ports db subject =
     ok_or (find_user (pb_gov db) subject) (NotFound ''user'' (ge_show (pp_gov ports) subject))"

definition mint_consent ::
  "pay_ports \<Rightarrow> (uuid \<Rightarrow> string \<times> string) \<Rightarrow> pay_db \<Rightarrow> uuid \<Rightarrow> consent_credential result" where
  "mint_consent ports secrets db subject =
     rbind (subject_of ports db subject) (\<lambda>user.
       if ur_status user \<noteq> ''active''
       then Inl (Precondition ''the investor's account is not active, so their consent cannot be asked for'')
       else if \<not> pp_verified ports subject
       then Inl (Validation ''the investor's mailbox is not verified, so no consent can be mailed to it'')
       else
         let secret = mint_credential (pp_gov ports) secrets subject in
         Inr \<lparr>cc_subject = subject, cc_token = vc_token secret, cc_code = vc_code secret, cc_token_hash = vc_token_hash secret,
           cc_code_hash = vc_code_hash secret, cc_version_at_open = token_floor db subject,
           cc_email_hash_at_open = ge_digest (pp_gov ports) (ur_email user)\<rparr>)"

definition pin_session :: "pay_ports \<Rightarrow> pay_db \<Rightarrow> uuid \<Rightarrow> session_seat result" where
  "pin_session ports db subject =
     rbind (subject_of ports db subject) (\<lambda>user.
       if ur_status user \<noteq> ''active''
       then Inl (Precondition ''the investor's account is not active, so their confirmation cannot be asked for'')
       else Inr \<lparr>st_subject = subject, st_version_at_open = token_floor db subject,
         st_email_hash_at_open = ge_digest (pp_gov ports) (ur_email user)\<rparr>)"

definition open_payment_consilium ::
  "pay_ports \<Rightarrow> pay_fresh \<Rightarrow> int \<Rightarrow> uuid \<Rightarrow> payment_order \<Rightarrow> i64 \<Rightarrow> gov_db \<Rightarrow> gov_db result" where
  "open_payment_consilium ports fresh db_now initiator order now db =
     (let env = pp_gov ports; terms = Payment_Subject (order_subject order) in
      rbind (require_settled_roster db Payment_Kind now) (\<lambda>_.
      rbind (consilium_open (pf_consilium fresh) terms (ge_digest env (consilium_bytes (ge_show env) terms)) initiator
          (owner_roster db) now) (\<lambda>c.
        open_on env db_now c (map (mint_credential env (pf_secrets fresh)) (cn_eligible c)) db)))"

definition payment_found :: "gov_env \<Rightarrow> pay_db \<Rightarrow> uuid \<Rightarrow> payment_view result" where
  "payment_found env db i =
     rbind (find_payment env db i) (\<lambda>view. ok_or view (NotFound ''payment'' (ge_show env i)))"

text \<open>
  The consilium is committed before the order: when the order is then refused, the consilium is
  withdrawn, and a withdrawal that fails is only reported.
\<close>

definition open_payment ::
  "pay_ports \<Rightarrow> pay_fresh \<Rightarrow> int \<Rightarrow> uuid \<Rightarrow> payment_terms \<Rightarrow> i64 \<Rightarrow> pay_db \<Rightarrow> pay_db \<times> payment_view result" where
  "open_payment ports fresh db_now initiator terms now db =
     (let env = pp_gov ports; requirement = payment_requirement terms; mode = mode_of (pp_modes ports) requirement;
          by_owners = (mode = Concierge_Mode \<and> requirement = OwnerConsilium_Approval);
          hash = ge_digest env (payment_terms_bytes (ge_show env) terms);
          order = (if by_owners then payment_open_for (pf_order fresh) terms hash initiator now CONCIERGE_TTL_SECS
                   else payment_open (pf_order fresh) terms hash initiator now);
          seat_and_show = (\<lambda>seat db. try_tx db (open_order env db_now (pp_consent_url ports) order seat db)
            (\<lambda>opened. (opened, payment_found env opened (po_id order))))
      in
      try_tx db (if mode = Consilium_Mode then require_governance_mail (ge_mail_wired env) else Inr ()) (\<lambda>_.
      if spending_closed (pt_from terms) then (db, Inl (Precondition TREASURY_SPENDING_CLOSED))
      else
      try_tx db (if by_owners then rmap (\<lambda>_. ()) (payment_approval_fields (ge_show env) terms (destination_label (ge_show env) terms))
                 else Inr ()) (\<lambda>_.
      try_tx db (check_executable ports (pf_order fresh) terms) (\<lambda>_.
        case (mode, requirement) of
          (Concierge_Mode, SubjectConsent subject) \<Rightarrow>
            try_tx db (pin_session ports db subject) (\<lambda>seat. seat_and_show (Seat_Session seat) db)
        | (Concierge_Mode, OwnerConsilium_Approval) \<Rightarrow>
            if has_open_against db (pt_from terms) then (db, Inl already_open) else seat_and_show Seat_Concierge db
        | (Consilium_Mode, SubjectConsent subject) \<Rightarrow>
            try_tx db (mint_consent ports (pf_secrets fresh) db subject) (\<lambda>credential. seat_and_show (Seat_Consent credential) db)
        | (Consilium_Mode, OwnerConsilium_Approval) \<Rightarrow>
            if has_open_against db (pt_from terms) then (db, Inl already_open)
            else
              try_tx db (open_payment_consilium ports fresh db_now initiator order now (pb_gov db)) (\<lambda>g.
                let seated = on_gov db g in
                case open_order env db_now (pp_consent_url ports) order (Seat_Consilium (pf_consilium fresh)) seated of
                  Inr opened \<Rightarrow> (opened, payment_found env opened (po_id order))
                | Inl err \<Rightarrow> (on_gov db (fst (cancel env db_now (pf_consilium fresh) initiator now g)), Inl err))))))"

definition cancel_payment :: "gov_env \<Rightarrow> int \<Rightarrow> uuid \<Rightarrow> uuid \<Rightarrow> i64 \<Rightarrow> pay_db \<Rightarrow> pay_db \<times> payment_view result" where
  "cancel_payment env db_now i who now db =
     try_tx db (cancel_order env db_now i who now db) (\<lambda>(cancelled, view).
       case yv_consilium view of
         None \<Rightarrow> (cancelled, Inr view)
       | Some consilium \<Rightarrow> (on_gov cancelled (fst (cancel env db_now consilium who now (pb_gov cancelled))), Inr view))"

section \<open>Execution\<close>

definition payment_failure_reason :: "domain_error \<Rightarrow> string" where
  "payment_failure_reason err =
     (case err of
        Repository _ \<Rightarrow> ''the withdrawal could not be created because of an internal error; an operator has been alerted''
      | _ \<Rightarrow> error_display err)"

definition settle_on_the_ledger :: "pay_ports \<Rightarrow> uuid \<Rightarrow> payment_outcome option result" where
  "settle_on_the_ledger ports i =
     rbind (pp_reservation ports i) (\<lambda>status.
       case status of
         Reservation_Applied \<Rightarrow>
           rmap (\<lambda>there. if there then Some (Payment_Executed Transfer_Effect) else None)
             (from_ledger (pp_transfer_exists ports (pp_reserve_id ports i)))
       | Reservation_Pending \<Rightarrow> Inr None
       | Reservation_Parked \<Rightarrow>
           Inr (Some (Payment_Failed ''the reservation against the source claim was refused by the ledger and never applied'')))"

text \<open>The withdrawal is committed by its own transaction: the tables change even when the order is not recorded.\<close>

definition create_withdrawal ::
  "pay_ports \<Rightarrow> payment_order \<Rightarrow> withdrawal_store \<Rightarrow> withdrawal_store \<times> payment_outcome result" where
  "create_withdrawal ports order s =
     (case pt_to (po_terms order) of
        Internal _ \<Rightarrow> (s, Inr (Payment_Failed ''an internal payment has no withdrawal to create''))
      | External n address \<Rightarrow>
          let w = pp_withdrawal_id ports (po_id order); amount = pt_amount (po_terms order) in
          if find_withdrawal s w \<noteq> None then (s, Inr (Payment_Executed (Withdrawal_Effect w)))
          else
            let opened = (\<lambda>requested.
                  case requested of
                    Inr (s', created) \<Rightarrow> (s', Inr (Payment_Executed (Withdrawal_Effect (wd_id created))))
                  | Inl err \<Rightarrow>
                      (s, if find_withdrawal s w \<noteq> None then Inr (Payment_Executed (Withdrawal_Effect w))
                          else case err of Precondition _ \<Rightarrow> Inl err | _ \<Rightarrow> Inr (Payment_Failed (payment_failure_reason err))))
            in case pt_from (po_terms order) of
                 User_Party user \<Rightarrow> opened (queue_withdrawal (pp_out ports) s w user n address amount)
               | Treasury \<Rightarrow> opened (queue_treasury_withdrawal (pp_out ports) s w (po_id order) n address amount)
               | Service_Party _ \<Rightarrow> (s, Inr (Payment_Failed ''an external payment cannot leave from this source'')))"

definition execute_payment :: "pay_ports \<Rightarrow> int \<Rightarrow> uuid \<Rightarrow> i64 \<Rightarrow> pay_db \<Rightarrow> pay_db \<times> payment_view result" where
  "execute_payment ports db_now i now db =
     (let env = pp_gov ports; note_down = (\<lambda>outcome db. record_payment_execution env db_now i outcome now db) in
      try_tx db (payment_found env db i) (\<lambda>view.
        let order = yv_order view in
        if po_state order = Executed_Payment then (db, Inr view)
        else if po_state order \<noteq> Approved_Payment
        then (db, Inl (Conflict (''payment is '' @ payment_state_str (po_state order) @ '', not executable'')))
        else
        try_tx db (require_outflows_enabled (pp_out ports)) (\<lambda>_.
          if ge_digest env (payment_terms_bytes (ge_show env) (po_terms order)) \<noteq> po_hash order
          then note_down (Payment_Failed ''the stored terms no longer match the payload hash that was approved'') db
          else if (case Option.bind (yv_concierge view) gv_execute_by of None \<Rightarrow> False | Some by_then \<Rightarrow> sint by_then < sint now)
          then note_down (Payment_Failed ''the approval's execution window lapsed before the payment was carried out'') db
          else if spending_closed (pt_from (po_terms order))
          then note_down (Payment_Failed TREASURY_SPENDING_CLOSED) db
          else
            case consent_invalidated view of
              Some cause \<Rightarrow>
                note_down (Consent_Void cause
                  (if payment_tier (po_terms order) = External_Tier then Some (pp_withdrawal_id ports i) else None)) db
            | None \<Rightarrow>
                if payment_tier (po_terms order) = External_Tier then
                  (case create_withdrawal ports order (pb_withdrawals db) of (s, made) \<Rightarrow>
                     let db' = db\<lparr>pb_withdrawals := s\<rparr> in
                     try_tx db' made (\<lambda>outcome. note_down outcome db'))
                else
                  try_tx db (settle_on_the_ledger ports i) (\<lambda>settled.
                    case settled of
                      None \<Rightarrow> (db, Inr view)
                    | Some outcome \<Rightarrow> note_down outcome db))))"

definition answer_and_execute ::
  "(uuid \<Rightarrow> pay_db \<Rightarrow> pay_db \<times> payment_view result) \<Rightarrow> pay_db \<times> consent_outcome result \<Rightarrow> pay_db \<times> consent_outcome result" where
  "answer_and_execute run answered =
     (case answered of
        (db, Inl e) \<Rightarrow> (db, Inl e)
      | (db, Inr outcome) \<Rightarrow>
          (if co_approved outcome then fst (run (po_id (yv_order (co_payment outcome))) db) else db, Inr outcome))"

definition submit_payment_consent ::
  "pay_ports \<Rightarrow> int \<Rightarrow> string \<Rightarrow> string \<Rightarrow> consent_decision \<Rightarrow> vote_audit \<Rightarrow> i64 \<Rightarrow> pay_db \<Rightarrow> pay_db \<times> consent_outcome result" where
  "submit_payment_consent ports db_now token code decision audit now db =
     answer_and_execute (\<lambda>i. execute_payment ports db_now i now)
       (submit_consent (pp_gov ports) db_now (token_digest (pp_gov ports) token) code decision audit now db)"

definition answer_payment_consent ::
  "pay_ports \<Rightarrow> int \<Rightarrow> uuid \<Rightarrow> uuid \<Rightarrow> consent_decision \<Rightarrow> vote_audit \<Rightarrow> i64 \<Rightarrow> pay_db \<Rightarrow> pay_db \<times> consent_outcome result" where
  "answer_payment_consent ports db_now subject i decision audit now db =
     answer_and_execute (\<lambda>i. execute_payment ports db_now i now)
       (answer_session_consent (pp_gov ports) db_now i subject decision audit now db)"

definition payment_invitation :: "gov_env \<Rightarrow> string \<Rightarrow> i64 \<Rightarrow> pay_db \<Rightarrow> consent_invitation result" where
  "payment_invitation env token now db = read_invitation env (token_digest env token) now db"

definition find_for_subject :: "gov_env \<Rightarrow> uuid \<Rightarrow> uuid \<Rightarrow> pay_db \<Rightarrow> payment_view result" where
  "find_for_subject env i subject db =
     rbind (find_for_session_subject env i subject db) (\<lambda>view. ok_or view consent_not_found)"

section \<open>The sweep\<close>

record payment_sweep_report =
  yr_expired :: nat
  yr_executed :: nat
  yr_failures :: nat
  yr_deferred :: nat

fun execute_payments ::
  "(uuid \<Rightarrow> pay_db \<Rightarrow> pay_db \<times> payment_view result) \<Rightarrow> uuid list \<Rightarrow> payment_sweep_report \<Rightarrow> pay_db \<Rightarrow> pay_db \<times> payment_sweep_report" where
  "execute_payments run [] report db = (db, report)"
| "execute_payments run (i # ids) report db =
     (case run i db of (db, r) \<Rightarrow>
        execute_payments run ids
          (case r of
             Inl _ \<Rightarrow> report
           | Inr view \<Rightarrow>
               (case po_state (yv_order view) of
                  Executed_Payment \<Rightarrow> report\<lparr>yr_executed := yr_executed report + 1\<rparr>
                | Approved_Payment \<Rightarrow> report\<lparr>yr_deferred := yr_deferred report + 1\<rparr>
                | _ \<Rightarrow> report\<lparr>yr_failures := yr_failures report + 1\<rparr>)) db)"

definition sweep_payments :: "pay_ports \<Rightarrow> int \<Rightarrow> i64 \<Rightarrow> pay_db \<Rightarrow> pay_db \<times> payment_sweep_report" where
  "sweep_payments ports db_now now db =
     (case expire_orders (pp_gov ports) db_now now db of (db, expired) \<Rightarrow>
        execute_payments (\<lambda>i. execute_payment ports db_now i now) (orders_awaiting_execution db)
          \<lparr>yr_expired = expired, yr_executed = 0, yr_failures = 0, yr_deferred = 0\<rparr> db)"

end
