(* ===== verification/DispatchSafety.thy ===== *)
theory DispatchSafety
  imports WithdrawalUse
begin

text \<open>
  What a sweep of the dispatcher may send: never more on a rail than the rail was seen to hold, however
  long the queue, and nothing for an owner, on a rail or on a platform that is held.
\<close>

section \<open>What is in flight\<close>

definition in_flight_net :: "network \<Rightarrow> withdrawal \<Rightarrow> nat" where
  "in_flight_net n w = (if wd_state w = Processing_Withdrawal \<and> wd_network w = n then usdt_val (net_amount w) else 0)"

text \<open>The net of every withdrawal handed to the rail's custody.\<close>

definition processing_net :: "withdrawal_store \<Rightarrow> network \<Rightarrow> nat" where
  "processing_net s n = sum_list (map (\<lambda>r. in_flight_net n (wr_withdrawal r)) (wst_rows s))"

definition distinct_ids :: "withdrawal_store \<Rightarrow> bool" where
  "distinct_ids s \<longleftrightarrow> distinct (map (\<lambda>r. wd_id (wr_withdrawal r)) (wst_rows s))"

lemma found_row: "find_withdrawal s i = Some w \<Longrightarrow> \<exists>r \<in> set (wst_rows s). wr_withdrawal r = w \<and> wd_id w = i"
proof -
  have "List.find P (map f xs) = Some y \<Longrightarrow> \<exists>x \<in> set xs. f x = y \<and> P y" for P f and xs :: "withdrawal_row list" and y :: withdrawal
    by (induction xs) (auto split: if_splits)
  then show "find_withdrawal s i = Some w \<Longrightarrow> ?thesis" unfolding find_withdrawal_def by fast
qed

lemma persist_rows:
  "wst_rows (withdrawal_persist s w) =
     map (\<lambda>r. if wd_id (wr_withdrawal r) = wd_id w then r\<lparr>wr_withdrawal := w\<lparr>wd_pending := []\<rparr>\<rparr> else r) (wst_rows s)"
  by (simp add: withdrawal_persist_def withdrawal_drain_def)

lemma persist_distinct: "distinct_ids s \<Longrightarrow> distinct_ids (withdrawal_persist s w)"
proof -
  have "map (\<lambda>r. wd_id (wr_withdrawal r)) (wst_rows (withdrawal_persist s w)) = map (\<lambda>r. wd_id (wr_withdrawal r)) (wst_rows s)"
    by (simp add: persist_rows)
  then show "distinct_ids s \<Longrightarrow> ?thesis" by (simp only: distinct_ids_def)
qed

lemma sum_changed:
  assumes "distinct (map k xs)" "x \<in> set xs"
  shows "sum_list (map (\<lambda>y. f (if k y = k x then g y else y)) xs) + f x = sum_list (map f xs) + (f (g x) :: nat)"
  using assms
proof (induction xs)
  case (Cons y ys)
  show ?case
  proof (cases "y = x")
    case True
    with Cons.prems(1) have "k x \<notin> k ` set ys" by simp
    then have "\<forall>z \<in> set ys. k z \<noteq> k x" by (metis imageI)
    then have same: "map (\<lambda>y. f (if k y = k x then g y else y)) ys = map f ys" by simp
    show ?thesis using True by (simp add: same del: map_eq_conv)
  next
    case False
    with Cons.prems have "k y \<noteq> k x" "x \<in> set ys" by auto
    with Cons show ?thesis by simp
  qed
qed simp

text \<open>A dispatch puts at most its own net in flight.\<close>

lemma dispatched_shape:
  "withdrawal_dispatch w = Inr w' \<Longrightarrow>
    wd_id w' = wd_id w \<and> wd_network w' = wd_network w \<and> wd_amount w' = wd_amount w \<and> wd_fee w' = wd_fee w \<and>
    wd_source w' = wd_source w \<and> wd_state w' = Processing_Withdrawal"
  by (auto simp: withdrawal_dispatch_def withdrawal_raise_def split: if_splits)

lemma store_dispatch_Inr:
  "store_dispatch sh s i = Inr s' \<longleftrightarrow>
     (\<exists>w w'. find_withdrawal s i = Some w \<and> withdrawal_dispatch w = Inr w' \<and> s' = withdrawal_persist s w')"
  by (auto simp: store_dispatch_def withdrawal_apply_def rbind_eq_Inr_iff rmap_eq_Inr_iff ok_or_def split: option.splits)

lemma store_dispatch_net:
  assumes "store_dispatch sh s i = Inr s'" "find_withdrawal s i = Some w" "distinct_ids s"
  shows "distinct_ids s' \<and> processing_net s' n \<le> processing_net s n + (if n = wd_network w then usdt_val (net_amount w) else 0)"
proof -
  from assms(1,2) obtain w' where w': "withdrawal_dispatch w = Inr w'" and s': "s' = withdrawal_persist s w'"
    by (auto simp: store_dispatch_Inr)
  from found_row [OF assms(2)] obtain r where r: "r \<in> set (wst_rows s)" "wr_withdrawal r = w" by blast
  note shape = dispatched_shape [OF w']
  let ?k = "\<lambda>r. wd_id (wr_withdrawal r)" and ?f = "\<lambda>r. in_flight_net n (wr_withdrawal r)"
  let ?g = "\<lambda>r. r\<lparr>wr_withdrawal := w'\<lparr>wd_pending := []\<rparr>\<rparr>"
  have "processing_net s' n + ?f r = processing_net s n + ?f (?g r)"
    using sum_changed [of ?k "wst_rows s" r ?f ?g] assms(3) r shape
    by (simp add: processing_net_def s' persist_rows distinct_ids_def o_def)
  moreover have "?f (?g r) = (if n = wd_network w then usdt_val (net_amount w) else 0)"
    using shape by (simp add: in_flight_net_def net_amount_def)
  ultimately show ?thesis using persist_distinct [OF assms(3)] s' by simp
qed

section \<open>Within the rail\<close>

definition within :: "(network \<Rightarrow> nat) \<Rightarrow> (network \<Rightarrow> nat) \<Rightarrow> withdrawal_store \<times> (network \<Rightarrow> usdt) \<Rightarrow> bool" where
  "within before room = (\<lambda>(s, spent). distinct_ids s \<and>
     (\<forall>n. processing_net s n \<le> before n + usdt_val (spent n) \<and> usdt_val (spent n) \<le> room n))"

lemma dispatch_withdrawal_stores: "dispatch_withdrawal env s i = Inr s' \<Longrightarrow> store_dispatch (oe_show env) s i = Inr s'"
  by (auto simp: dispatch_withdrawal_def rbind_eq_Inr_iff split: if_splits)

lemma dispatch_one_within:
  assumes st: "within before room st" and seen: "\<And>n posted. oe_rail env n = Inr posted \<Longrightarrow> unat posted \<le> room n"
  shows "within before room (fst (dispatch_one frozen env i st))"
proof (cases "snd (dispatch_one frozen env i st)")
  case False
  then have "fst (dispatch_one frozen env i st) = st"
    by (auto simp: dispatch_one_def Let_def split: prod.splits option.splits if_splits sum.splits)
  with st show ?thesis by simp
next
  case True
  obtain s spent where s: "st = (s, spent)" by (cases st)
  with True obtain w s' posted where w: "find_withdrawal s i = Some w" and d: "dispatch_withdrawal env s i = Inr s'"
    and posted: "oe_rail env (wd_network w) = Inr posted" and room: "rail_room posted (spent (wd_network w)) (net_amount w)"
    and after: "fst (dispatch_one frozen env i st) = (s', spent(wd_network w :=
      (case usdt_checked_add (spent (wd_network w)) (net_amount w) of Some added \<Rightarrow> added | None \<Rightarrow> Usdt (- 1))))"
    by (auto simp: dispatch_one_def Let_def split: option.splits if_splits sum.splits)
  from room have fits: "usdt_val (spent (wd_network w)) + usdt_val (net_amount w) \<le> unat posted"
    by (auto simp: rail_room_def nat_arith split: option.splits)
  then have "usdt_val (spent (wd_network w)) + usdt_val (net_amount w) < 2 ^ 128"
    by (rule order_le_less_trans) (rule order_less_le_trans [OF unsigned_less], simp)
  then obtain added where added: "usdt_checked_add (spent (wd_network w)) (net_amount w) = Some added"
    "usdt_val added = usdt_val (spent (wd_network w)) + usdt_val (net_amount w)"
    by (cases "usdt_checked_add (spent (wd_network w)) (net_amount w)") (auto simp: nat_arith)
  have sent: "distinct_ids s' \<and>
      processing_net s' n \<le> processing_net s n + (if n = wd_network w then usdt_val (net_amount w) else 0)" for n
    by (rule store_dispatch_net [OF dispatch_withdrawal_stores [OF d] w]) (use st s in \<open>simp add: within_def\<close>)
  have before: "processing_net s n \<le> before n + usdt_val (spent n)" "usdt_val (spent n) \<le> room n" for n
    using st s by (simp_all add: within_def)
  have "processing_net s' n \<le> before n + usdt_val ((spent(wd_network w := added)) n) \<and>
      usdt_val ((spent(wd_network w := added)) n) \<le> room n" for n
    using sent [of n] before [of n] fits seen [OF posted] added(2) by (cases "n = wd_network w") simp_all
  then show ?thesis unfolding after using sent by (simp add: within_def added(1))
qed

lemma dispatch_each_within:
  assumes "within before room st" "\<And>i n posted. i \<in> set ids \<Longrightarrow> oe_rail (envs i) n = Inr posted \<Longrightarrow> unat posted \<le> room n"
  shows "within before room (fst (dispatch_each frozen envs ids st))"
  using assms
proof (induction ids arbitrary: st)
  case (Cons i ids)
  have first: "within before room (fst (dispatch_one frozen (envs i) i st))"
    by (rule dispatch_one_within [OF Cons.prems(1)], rule Cons.prems(2), simp_all)
  have "within before room (fst (dispatch_each frozen envs ids (fst (dispatch_one frozen (envs i) i st))))"
    by (rule Cons.IH [OF first], rule Cons.prems(2), simp_all)
  then show ?case by (simp add: case_prod_beta)
qed simp

lemma within_room:
  assumes "within before room st" shows "processing_net (fst st) n \<le> before n + room n"
proof -
  from assms have "processing_net (fst st) n \<le> before n + usdt_val (snd st n)" "usdt_val (snd st n) \<le> room n"
    by (auto simp: within_def case_prod_beta)
  then show ?thesis by simp
qed

text \<open>
  C11: one sweep never promises a rail more than it was seen to hold.  However long the queue and
  whatever changes between two of its withdrawals: if no reading of a rail's balance during the
  sweep exceeds some amount, the net handed to that rail's custody by the whole sweep does not exceed
  that amount, because what the sweep already sent is taken off before each comparison.
\<close>
theorem sweep_within_rail:
  assumes "distinct_ids s" "\<And>i n posted. oe_rail (envs i) n = Inr posted \<Longrightarrow> unat posted \<le> room n"
  shows "processing_net (fst (dispatcher_sweep env envs s)) n \<le> processing_net s n + room n"
proof -
  have start: "within (processing_net s) room (s, \<lambda>_. USDT_ZERO)"
    using assms(1) by (simp add: within_def USDT_ZERO_def)
  have "within (processing_net s) room (fst (dispatch_each frozen envs ids (s, \<lambda>_. USDT_ZERO)))" for frozen ids
    by (rule dispatch_each_within [OF start]) (rule assms(2))
  from within_room [OF this] show ?thesis
    by (simp add: dispatcher_sweep_def Let_def case_prod_beta split: sum.splits)
qed

section \<open>Nothing that is held\<close>

text \<open>What a payout has to clear as it leaves: the pause, the rail's freeze, the owner's standing.\<close>

definition cleared :: "outflow_env \<Rightarrow> withdrawal \<Rightarrow> bool" where
  "cleared env w \<longleftrightarrow> oe_paused env = Inr False \<and> (\<exists>frozen. oe_frozen env = Inr frozen \<and> wd_network w \<notin> set frozen) \<and>
     (\<forall>u. source_user (wd_source w) = Some u \<longrightarrow>
        (\<exists>st. oe_standing env u = Inr (Some st) \<and> \<not> ps_blocked st \<and> kyc_admits (oe_kyc env) (ps_kyc_level st)))"

lemma require_dispatchable_Inr: "require_dispatchable env w = Inr u \<longleftrightarrow> cleared env w"
  by (auto simp: require_dispatchable_def require_outflows_enabled_def require_unfrozen_rail_def cleared_def rbind_eq_Inr_iff
      ok_or_def split: option.splits if_splits)

lemma dispatch_withdrawal_Inr:
  assumes "dispatch_withdrawal env s i = Inr s'"
  shows "\<exists>w. find_withdrawal s i = Some w \<and> cleared env w \<and> store_dispatch (oe_show env) s i = Inr s'"
proof -
  from assms obtain w where w: "find_withdrawal s i = Some w" "require_dispatchable env w = Inr ()"
    by (auto simp: dispatch_withdrawal_def rbind_eq_Inr_iff ok_or_def split: option.splits)
  then have "cleared env w" by (simp only: require_dispatchable_Inr)
  with w dispatch_withdrawal_stores [OF assms] show ?thesis by blast
qed

lemma find_persist:
  assumes "find_withdrawal s (wd_id w) \<noteq> None"
  shows "find_withdrawal (withdrawal_persist s w) i = (if i = wd_id w then Some (w\<lparr>wd_pending := []\<rparr>) else find_withdrawal s i)"
proof -
  have "List.find (\<lambda>v. wd_id v = i) (map wr_withdrawal (map (\<lambda>r. if wd_id (wr_withdrawal r) = wd_id w
        then r\<lparr>wr_withdrawal := w\<lparr>wd_pending := []\<rparr>\<rparr> else r) rows)) =
      (if i = wd_id w then Some (w\<lparr>wd_pending := []\<rparr>) else List.find (\<lambda>v. wd_id v = i) (map wr_withdrawal rows))"
    if "i = wd_id w \<longrightarrow> List.find (\<lambda>v. wd_id v = wd_id w) (map wr_withdrawal rows) \<noteq> None" for rows
    using that by (induction rows) (auto split: if_splits)
  with assms show ?thesis unfolding find_withdrawal_def persist_rows by blast
qed

definition waits_or_cleared :: "(uuid \<Rightarrow> outflow_env) \<Rightarrow> uuid \<Rightarrow> withdrawal \<Rightarrow> withdrawal_store \<Rightarrow> bool" where
  "waits_or_cleared envs i w s \<longleftrightarrow>
     (\<exists>v. find_withdrawal s i = Some v \<and> wd_network v = wd_network w \<and> wd_source v = wd_source w \<and>
        (wd_state v = Queued_Withdrawal \<or> cleared (envs i) w))"

lemma dispatch_one_holds:
  assumes "waits_or_cleared envs i w (fst st)"
  shows "waits_or_cleared envs i w (fst (fst (dispatch_one frozen (envs j) j st)))"
proof (cases "snd (dispatch_one frozen (envs j) j st)")
  case False
  then have "fst (dispatch_one frozen (envs j) j st) = st"
    by (auto simp: dispatch_one_def Let_def split: prod.splits option.splits if_splits sum.splits)
  with assms show ?thesis by simp
next
  case True
  then obtain s' where d: "dispatch_withdrawal (envs j) (fst st) j = Inr s'" and after: "fst (fst (dispatch_one frozen (envs j) j st)) = s'"
    by (auto simp: dispatch_one_def Let_def split: prod.splits option.splits if_splits sum.splits)
  then obtain u u' where u: "find_withdrawal (fst st) j = Some u" "cleared (envs j) u" "withdrawal_dispatch u = Inr u'"
    and s': "s' = withdrawal_persist (fst st) u'" by (auto dest!: dispatch_withdrawal_Inr simp: store_dispatch_Inr)
  note shape = dispatched_shape [OF u(3)]
  have id: "wd_id u' = j" using shape found_row [OF u(1)] by auto
  have found: "find_withdrawal s' i = (if i = j then Some (u'\<lparr>wd_pending := []\<rparr>) else find_withdrawal (fst st) i)"
    using find_persist [of "fst st" u' i] u(1) id by (simp add: s')
  show ?thesis
  proof (cases "i = j")
    case True
    with assms u(1) have "wd_network u = wd_network w" "wd_source u = wd_source w" by (auto simp: waits_or_cleared_def)
    with True found shape u(2) after show ?thesis by (simp add: waits_or_cleared_def cleared_def)
  next
    case False
    with found assms after show ?thesis by (simp add: waits_or_cleared_def)
  qed
qed

lemma dispatch_each_holds:
  "waits_or_cleared envs i w (fst st) \<Longrightarrow> waits_or_cleared envs i w (fst (fst (dispatch_each frozen envs ids st)))"
  by (induction ids arbitrary: st) (simp_all add: case_prod_beta dispatch_one_holds)

text \<open>
  C12: nothing that is held leaves.  A withdrawal that was queued as a sweep began and is with custody as it
  ends was let through at the moment it was taken up: the platform was not paused, its rail was not
  frozen, and its owner, when it has one, had a row, was not blocked and had the verified tier
  the gate asks for, whatever held when it was admitted.
\<close>
theorem sweep_respects_holds:
  assumes "find_withdrawal s i = Some w" "wd_state w = Queued_Withdrawal"
    and "find_withdrawal (fst (dispatcher_sweep env envs s)) i = Some w'" "wd_state w' = Processing_Withdrawal"
  shows "oe_paused env = Inr False \<and> cleared (envs i) w"
proof -
  have "waits_or_cleared envs i w (fst (s, \<lambda>_. USDT_ZERO))" using assms(1,2) by (simp add: waits_or_cleared_def)
  from dispatch_each_holds [OF this]
  have kept: "waits_or_cleared envs i w (fst (fst (dispatch_each frozen envs ids (s, \<lambda>_. USDT_ZERO))))" for frozen ids .
  show ?thesis
  proof (cases "fst (dispatcher_sweep env envs s) = s")
    case True
    with assms show ?thesis by simp
  next
    case False
    then obtain frozen ids where enabled: "require_outflows_enabled env = Inr ()"
      and swept: "fst (dispatcher_sweep env envs s) = fst (fst (dispatch_each frozen envs ids (s, \<lambda>_. USDT_ZERO)))"
      by (auto simp: dispatcher_sweep_def Let_def case_prod_beta split: sum.splits)
    from enabled have "oe_paused env = Inr False"
      by (auto simp: require_outflows_enabled_def rbind_eq_Inr_iff split: if_splits)
    moreover have "cleared (envs i) w" using kept [of frozen ids] assms(3,4) unfolding swept by (auto simp: waits_or_cleared_def)
    ultimately show ?thesis by blast
  qed
qed

section \<open>A sweep\<close>

text \<open>Two withdrawals wait, the rail covers one of them, and the owner of a third is frozen.\<close>

definition payout_row :: "uuid \<Rightarrow> uuid \<Rightarrow> withdrawal_row" where
  "payout_row i u = \<lparr>wr_withdrawal = \<lparr>wd_id = i, wd_source = User_Source u, wd_network = Bep20,
     wd_address = \<lparr>wa_network = Bep20, wa_value = ''x''\<rparr>, wd_amount = Usdt 5, wd_fee = Usdt 1,
     wd_state = Queued_Withdrawal, wd_tx_ref = None, wd_pending = []\<rparr>, wr_key = None\<rparr>"

definition payout_store :: withdrawal_store where
  "payout_store = \<lparr>wst_rows = [payout_row 1 8, payout_row 2 7, payout_row 3 7], wst_outbox = []\<rparr>"

definition payout_env :: outflow_env where
  "payout_env = \<lparr>oe_show = (\<lambda>_. ''''), oe_paused = Inr False,
     oe_standing = (\<lambda>u. Inr (Some \<lparr>ps_blocked = (u = 8), ps_kyc_level = 1\<rparr>)), oe_frozen = Inr [Trc20], oe_configured = [Bep20],
     oe_kyc = KYC_ENFORCED, oe_spendable = (\<lambda>_. Inr 0), oe_spendable_locked = (\<lambda>_. Inr 0), oe_rail = (\<lambda>_. Inr 6),
     oe_onchain = (\<lambda>_. Inr None)\<rparr>"

lemma payout_swept:
  "map (\<lambda>r. wd_state (wr_withdrawal r)) (wst_rows (fst (dispatcher_sweep payout_env (\<lambda>_. payout_env) payout_store))) =
     [Queued_Withdrawal, Processing_Withdrawal, Queued_Withdrawal]"
  by (simp add: dispatcher_sweep_def require_outflows_enabled_def dispatch_one_def dispatch_withdrawal_def require_dispatchable_def
      require_unfrozen_rail_def find_withdrawal_def ok_or_def net_amount_def usdt_checked_sub_def usdt_checked_add_def checked_sub_def
      checked_add_def rail_room_def less_eq_usdt_def store_dispatch_def withdrawal_apply_def withdrawal_dispatch_def withdrawal_raise_def
      withdrawal_persist_def withdrawal_drain_def rmap_def kyc_admits_def KYC_ENFORCED_def KYC_LEVEL_VERIFIED_def USDT_ZERO_def Let_def
      payout_store_def payout_row_def payout_env_def)

lemma payout_sent:
  "\<exists>w'. find_withdrawal (fst (dispatcher_sweep payout_env (\<lambda>_. payout_env) payout_store)) 2 = Some w' \<and> wd_state w' = Processing_Withdrawal"
  by (simp add: dispatcher_sweep_def require_outflows_enabled_def dispatch_one_def dispatch_withdrawal_def require_dispatchable_def
      require_unfrozen_rail_def find_withdrawal_def ok_or_def net_amount_def usdt_checked_sub_def usdt_checked_add_def checked_sub_def
      checked_add_def rail_room_def less_eq_usdt_def store_dispatch_def withdrawal_apply_def withdrawal_dispatch_def withdrawal_raise_def
      withdrawal_persist_def withdrawal_drain_def rmap_def kyc_admits_def KYC_ENFORCED_def KYC_LEVEL_VERIFIED_def USDT_ZERO_def Let_def
      payout_store_def payout_row_def payout_env_def)

theorem sweep_within_rail_witness:
  "processing_net (fst (dispatcher_sweep payout_env (\<lambda>_. payout_env) payout_store)) Bep20 \<le> 6"
proof -
  have "distinct_ids payout_store" by (simp add: distinct_ids_def payout_store_def payout_row_def)
  moreover have "oe_rail payout_env n = Inr posted \<Longrightarrow> unat posted \<le> 6" for n posted by (auto simp: payout_env_def)
  ultimately have "processing_net (fst (dispatcher_sweep payout_env (\<lambda>_. payout_env) payout_store)) Bep20 \<le> processing_net payout_store Bep20 + 6"
    by (rule sweep_within_rail [where room = "\<lambda>_. 6"])
  then show ?thesis by (simp add: processing_net_def in_flight_net_def payout_store_def payout_row_def)
qed

theorem sweep_respects_holds_witness:
  "cleared payout_env (wr_withdrawal (payout_row 2 7)) \<and> \<not> cleared payout_env (wr_withdrawal (payout_row 1 8))"
proof -
  obtain w' where "find_withdrawal (fst (dispatcher_sweep payout_env (\<lambda>_. payout_env) payout_store)) 2 = Some w'"
    "wd_state w' = Processing_Withdrawal" using payout_sent by blast
  moreover have "find_withdrawal payout_store 2 = Some (wr_withdrawal (payout_row 2 7))"
    by (simp add: find_withdrawal_def payout_store_def payout_row_def)
  moreover have "wd_state (wr_withdrawal (payout_row 2 7)) = Queued_Withdrawal" by (simp add: payout_row_def)
  ultimately have "cleared payout_env (wr_withdrawal (payout_row 2 7))" using sweep_respects_holds by blast
  moreover have "\<not> cleared payout_env (wr_withdrawal (payout_row 1 8))" by (simp add: cleared_def payout_env_def payout_row_def)
  ultimately show ?thesis by blast
qed

end
