(* ===== verification/PayUseSafety.thy ===== *)
theory PayUseSafety
  imports PayUse DispatchSafety
begin

text \<open>
  What carrying out a payment promises: the order is recorded as executed only under an open platform, on the
  very terms that were approved, and only once its effect exists, the withdrawal in its store or the
  reservation on the ledger.
\<close>

section \<open>The effect comes first\<close>

lemma queue_creates:
  "queue_withdrawal out s w user n address amount = Inr (s', created) \<Longrightarrow> wd_id created = w \<and> find_withdrawal s' w \<noteq> None"
  "queue_treasury_withdrawal out s w payment n address amount = Inr (s', created) \<Longrightarrow> wd_id created = w \<and> find_withdrawal s' w \<noteq> None"
proof -
  have shape: "withdrawal_request w source n address amount fee = Inr v \<Longrightarrow> wd_id v = w" for source fee v
    by (auto simp: withdrawal_request_def rbind_eq_Inr_iff split: if_splits)
  have found: "find_withdrawal s' (wd_id v) \<noteq> None" if "withdrawal_insert s v key = Inr s'" for v key
    using that by (auto simp: withdrawal_insert_def withdrawal_drain_def find_withdrawal_def find_None_iff split: if_splits)
  have made: "wd_id created = w \<and> find_withdrawal s' w \<noteq> None"
    if "open_withdrawal out s w source n address amount Opening_Queued = Inr (s', created)" for source
    using that found by (auto simp: open_withdrawal_def rbind_eq_Inr_iff rmap_eq_Inr_iff Let_def withdrawal_open_def
        dest!: shape split: withdrawal_source.splits) 
  show "queue_withdrawal out s w user n address amount = Inr (s', created) \<Longrightarrow> wd_id created = w \<and> find_withdrawal s' w \<noteq> None"
    "queue_treasury_withdrawal out s w payment n address amount = Inr (s', created) \<Longrightarrow> wd_id created = w \<and> find_withdrawal s' w \<noteq> None"
    by (auto simp: queue_withdrawal_def queue_treasury_withdrawal_def rbind_eq_Inr_iff dest: made)
qed

lemma create_withdrawal_makes:
  assumes "create_withdrawal ports order s = (s', Inr (Payment_Executed e))"
  shows "e = Withdrawal_Effect (pp_withdrawal_id ports (po_id order)) \<and> find_withdrawal s' (pp_withdrawal_id ports (po_id order)) \<noteq> None"
  using assms unfolding create_withdrawal_def Let_def
  by (auto split: payment_destination.splits party.splits if_splits sum.splits domain_error.splits dest: queue_creates)

lemma create_withdrawal_outcome:
  "create_withdrawal ports order s = (s', Inr outcome) \<Longrightarrow> (\<exists>e. outcome = Payment_Executed e) \<or> (\<exists>r. outcome = Payment_Failed r)"
  unfolding create_withdrawal_def Let_def
  by (auto split: payment_destination.splits party.splits if_splits sum.splits domain_error.splits)

lemma settle_outcome:
  "settle_on_the_ledger ports i = Inr (Some outcome) \<Longrightarrow>
    (\<exists>r. outcome = Payment_Failed r) \<or>
    outcome = Payment_Executed Transfer_Effect \<and> pp_reservation ports i = Inr Reservation_Applied \<and>
      pp_transfer_exists ports (pp_reserve_id ports i) = Inr True"
  unfolding settle_on_the_ledger_def rbind_eq_Inr_iff
  by (elim exE conjE, rename_tac status, case_tac status) (auto simp: rmap_eq_Inr_iff split: if_splits)

text \<open>Recording an execution loses no withdrawal.\<close>

lemma void_withdrawal_finds:
  assumes "void_withdrawal env w db = Inr (db', dispatched)"
  shows "find_withdrawal (pb_withdrawals db') v = None \<longleftrightarrow> find_withdrawal (pb_withdrawals db) v = None"
proof -
  have "find_withdrawal s' v = None \<longleftrightarrow> find_withdrawal s v = None" if "cancel_on sh s u = Inr s'" for sh s u s'
  proof -
    from that obtain x y where x: "find_withdrawal s u = Some x" "withdrawal_cancel x = Inr y" and s': "s' = withdrawal_persist s y"
      by (auto simp: cancel_on_def withdrawal_apply_def rbind_eq_Inr_iff rmap_eq_Inr_iff ok_or_def split: option.splits)
    have "wd_id y = u" using x found_row [OF x(1)] by (auto simp: withdrawal_cancel_def withdrawal_raise_def split: if_splits)
    with x(1) find_persist [of s y v] show ?thesis by (auto simp: s')
  qed
  with assms show ?thesis by (auto simp: void_withdrawal_def split: option.splits sum.splits domain_error.splits)
qed

lemma past_recall_found:
  "past_recall env db outcome \<Longrightarrow> \<exists>w. names_withdrawal outcome = Some w \<and> find_withdrawal (pb_withdrawals db) w \<noteq> None"
  by (auto simp: past_recall_def cancel_on_def withdrawal_apply_def ok_or_def rbind_def split: option.splits)

definition same_finds :: "pay_db \<Rightarrow> pay_db \<Rightarrow> bool" where
  "same_finds a b \<longleftrightarrow> (\<forall>w. find_withdrawal (pb_withdrawals b) w = None \<longleftrightarrow> find_withdrawal (pb_withdrawals a) w = None)"

lemma same_finds_of: "pb_withdrawals b = pb_withdrawals a \<Longrightarrow> same_finds a b"
  by (simp add: same_finds_def)

lemma save_order_withdrawals: "save_order p db = Inr db' \<Longrightarrow> pb_withdrawals db' = pb_withdrawals db"
  by (auto simp: save_order_def rmap_eq_Inr_iff)

lemma announce_withdrawals: "pb_withdrawals (announce_consent_end env now p ending kind db) = pb_withdrawals db"
proof -
  have mailed: "queue_consent_end env now p ending db = Inr db' \<Longrightarrow> pb_withdrawals db' = pb_withdrawals db" for db'
    unfolding queue_consent_end_def Let_def
    by (cases "payment_requirement (po_terms p)") (auto simp: rmap_eq_Inr_iff split: option.splits if_split_asm prod.splits)
  have notice: "fold_result (\<lambda>(u, body). enqueue_notice (n u body) w) us db = Inr db' \<Longrightarrow> pb_withdrawals db' = pb_withdrawals db"
    for n w us db'
    by (erule fold_keeps [where r = "\<lambda>a b. pb_withdrawals b = pb_withdrawals a"])
      (auto simp: enqueue_notice_def split: if_splits)
  have told: "queue_session_end env p ending db = Inr db' \<Longrightarrow> pb_withdrawals db' = pb_withdrawals db" for db'
    unfolding queue_session_end_def Let_def
    by (cases "payment_requirement (po_terms p)"; cases ending)
      (simp_all only: prod.case payment_approval.case consent_end.case sum.inject notice)
  show ?thesis using mailed told by (auto simp: announce_consent_end_def split: seat_kind.splits sum.splits)
qed

lemma execution_finds: "same_finds db (fst (record_payment_execution env now i outcome at db))"
proof (cases "order_locked env db i")
  case (Inl e)
  then show ?thesis by (simp add: record_payment_execution_def try_tx_def same_finds_def)
next
  case (Inr p)
  let ?Q = "same_finds db"
  have voided: "?Q db1" if "void_withdrawal env w db = Inr (db1, b)" for w db1 b
    using void_withdrawal_finds [OF that] by (simp add: same_finds_def)
  have saved: "?Q db2" if "save_order q db1 = Inr db2" "?Q db1" for q db1 db2
    using save_order_withdrawals [OF that(1)] that(2) by (simp add: same_finds_def)
  have told: "?Q (announce_consent_end env now q ending kind db')" if "?Q db'" for q ending kind db'
    using that by (simp add: same_finds_def announce_withdrawals)
  have start: "?Q db" by (simp add: same_finds_def)
  show ?thesis
    unfolding record_payment_execution_def Inr try_tx_def [of _ "Inr p"] sum.case Let_def
    apply (intro try_tx_keeps [where P = ?Q] fst_keeps [where P = ?Q] case_keeps [where P = ?Q] start told)
    apply (simp_all only: rbind_eq_Inr_iff rmap_eq_Inr_iff)
    apply (auto simp only: prod.inject dest!: viewed_is_saved intro: voided saved start)
    done
qed

section \<open>Carried out as approved\<close>

text \<open>What an attempt comes to once every check of the order has passed.\<close>

definition carried_out :: "pay_ports \<Rightarrow> int \<Rightarrow> uuid \<Rightarrow> i64 \<Rightarrow> pay_db \<Rightarrow> payment_view \<Rightarrow> payment_order \<Rightarrow> pay_db" where
  "carried_out ports db_now i now db view p =
     fst (case consent_invalidated view of
        Some cause \<Rightarrow> record_payment_execution (pp_gov ports) db_now i (Consent_Void cause
          (if payment_tier (po_terms p) = External_Tier then Some (pp_withdrawal_id ports i) else None)) now db
      | None \<Rightarrow>
          if payment_tier (po_terms p) = External_Tier then
            (case create_withdrawal ports p (pb_withdrawals db) of (s, made) \<Rightarrow>
               try_tx (db\<lparr>pb_withdrawals := s\<rparr>) made (\<lambda>outcome.
                 record_payment_execution (pp_gov ports) db_now i outcome now (db\<lparr>pb_withdrawals := s\<rparr>)))
          else
            try_tx db (settle_on_the_ledger ports i) (\<lambda>settled.
              case settled of None \<Rightarrow> (db, Inr view)
              | Some outcome \<Rightarrow> record_payment_execution (pp_gov ports) db_now i outcome now db))"

lemma failure_executes_nothing:
  assumes "order_locked env db i = Inr p" "po_state p \<noteq> Executed_Payment"
  shows "paid_state (fst (record_payment_execution env db_now i (Payment_Failed r) now db)) i \<noteq> Some Executed_Payment"
  using executing [OF assms, of db_now "Payment_Failed r" now] by (auto simp: past_recall_def)

lemma execution_opens:
  assumes p: "order_locked (pp_gov ports) db i = Inr p" "po_state p \<noteq> Executed_Payment"
    and done_with: "paid_state (fst (execute_payment ports db_now i now db)) i = Some Executed_Payment"
  obtains view where "payment_found (pp_gov ports) db i = Inr view" "yv_order view = p"
    "po_state p = Approved_Payment" "oe_paused (pp_out ports) = Inr False"
proof -
  have start: "paid_state db i = Some (po_state p)" by (rule paid_state_locked [OF p(1)])
  note step = execute_payment_def Let_def try_tx_def
  from done_with start p(2) obtain view where view: "payment_found (pp_gov ports) db i = Inr view"
    by (auto simp: step split: sum.splits)
  have same: "yv_order view = p"
    using view p(1) by (auto simp: payment_found_def find_payment_def payment_view_of_def order_locked_def payment_locked_def
        ok_or_def rbind_eq_Inr_iff rmap_eq_Inr_iff split: option.splits)
  have approved: "po_state p = Approved_Payment"
    using done_with start p(2) by (auto simp: step view same split: if_splits)
  have "oe_paused (pp_out ports) = Inr False"
    using done_with start p(2) approved
    by (auto simp: step view same require_outflows_enabled_def rbind_def split: sum.splits if_splits)
  with view same approved show thesis by (rule that)
qed

lemma execution_clears:
  assumes p: "order_locked (pp_gov ports) db i = Inr p" "po_state p \<noteq> Executed_Payment"
    and view: "payment_found (pp_gov ports) db i = Inr view" "yv_order view = p"
    and approved: "po_state p = Approved_Payment" and enabled: "oe_paused (pp_out ports) = Inr False"
    and done_with: "paid_state (fst (execute_payment ports db_now i now db)) i = Some Executed_Payment"
  shows "ge_digest (pp_gov ports) (payment_terms_bytes (ge_show (pp_gov ports)) (po_terms p)) = po_hash p \<and>
    \<not> spending_closed (pt_from (po_terms p)) \<and>
    fst (execute_payment ports db_now i now db) = carried_out ports db_now i now db view p"
proof -
  let ?after = "fst (execute_payment ports db_now i now db)"
  have on: "require_outflows_enabled (pp_out ports) = Inr ()" using enabled by (simp add: require_outflows_enabled_def)
  note step = execute_payment_def Let_def try_tx_def [of _ "Inr _"] view approved on
  have unfailed: "?after \<noteq> fst (record_payment_execution (pp_gov ports) db_now i (Payment_Failed r) now db)" for r
    using failure_executes_nothing [OF p, of db_now r now] done_with by auto
  have hash: "ge_digest (pp_gov ports) (payment_terms_bytes (ge_show (pp_gov ports)) (po_terms p)) = po_hash p"
    using unfailed [of "''the stored terms no longer match the payload hash that was approved''"]
    by (rule contrapos_np) (simp add: step)
  let ?lapsed = "case Option.bind (yv_concierge view) gv_execute_by of None \<Rightarrow> False | Some by_then \<Rightarrow> sint by_then < sint now"
  have timely: "\<not> ?lapsed"
    using unfailed [of "''the approval's execution window lapsed before the payment was carried out''"]
    by (rule contrapos_nn) (simp add: step hash)
  have unclosed: "\<not> spending_closed (pt_from (po_terms p))"
    using unfailed [of TREASURY_SPENDING_CLOSED] by (rule contrapos_nn) (use timely in \<open>simp add: step hash\<close>)
  from timely unclosed have "?after = carried_out ports db_now i now db view p"
    by (simp add: step hash carried_out_def split: option.splits)
  with hash unclosed show ?thesis by simp
qed

lemma withdrawal_comes_first:
  assumes p: "order_locked (pp_gov ports) db i = Inr p" "po_state p \<noteq> Executed_Payment"
    and external: "payment_tier (po_terms p) = External_Tier" and standing: "consent_invalidated view = None"
    and done_with: "paid_state (carried_out ports db_now i now db view p) i = Some Executed_Payment"
  shows "find_withdrawal (pb_withdrawals (carried_out ports db_now i now db view p)) (pp_withdrawal_id ports i) \<noteq> None"
proof -
  have id: "po_id p = i" using order_locked_in [OF p(1)] by simp
  obtain s made where c: "create_withdrawal ports p (pb_withdrawals db) = (s, made)"
    by (cases "create_withdrawal ports p (pb_withdrawals db)")
  let ?db = "db\<lparr>pb_withdrawals := s\<rparr>" and ?after = "carried_out ports db_now i now db view p"
  have moved: "order_locked (pp_gov ports) ?db i = Inr p" using p(1) by (simp add: order_locked_def)
  have t: "?after = fst (try_tx ?db made (\<lambda>outcome. record_payment_execution (pp_gov ports) db_now i outcome now ?db))"
    using external standing c by (simp add: carried_out_def)
  have "paid_state ?db i = Some (po_state p)" by (rule paid_state_locked [OF moved])
  then obtain outcome where m: "made = Inr outcome" using t done_with p(2) by (cases made) (auto simp: try_tx_def)
  with t have t: "?after = fst (record_payment_execution (pp_gov ports) db_now i outcome now ?db)" by (simp add: try_tx_def)
  obtain e where "outcome = Payment_Executed e"
    using create_withdrawal_outcome [OF c [unfolded m]] t done_with failure_executes_nothing [OF moved p(2)] by auto
  with create_withdrawal_makes [of ports p "pb_withdrawals db" s e] c m id
  have "find_withdrawal (pb_withdrawals ?db) (pp_withdrawal_id ports i) \<noteq> None" by simp
  then show ?thesis using execution_finds [of ?db "pp_gov ports" db_now i outcome now] t by (simp add: same_finds_def)
qed

lemma reservation_comes_first:
  assumes p: "order_locked (pp_gov ports) db i = Inr p" "po_state p \<noteq> Executed_Payment"
    and internal: "payment_tier (po_terms p) \<noteq> External_Tier" and standing: "consent_invalidated view = None"
    and done_with: "paid_state (carried_out ports db_now i now db view p) i = Some Executed_Payment"
  shows "pp_reservation ports i = Inr Reservation_Applied \<and> pp_transfer_exists ports (pp_reserve_id ports i) = Inr True"
proof -
  have t: "carried_out ports db_now i now db view p = fst (try_tx db (settle_on_the_ledger ports i) (\<lambda>settled.
      case settled of None \<Rightarrow> (db, Inr view)
      | Some outcome \<Rightarrow> record_payment_execution (pp_gov ports) db_now i outcome now db))"
    using internal standing by (simp add: carried_out_def)
  obtain outcome where m: "settle_on_the_ledger ports i = Inr (Some outcome)"
    using t done_with paid_state_locked [OF p(1)] p(2) by (auto simp: try_tx_def split: sum.splits option.splits)
  with t have "carried_out ports db_now i now db view p = fst (record_payment_execution (pp_gov ports) db_now i outcome now db)"
    by (simp add: try_tx_def)
  with settle_outcome [OF m] done_with failure_executes_nothing [OF p] show ?thesis by auto
qed

lemma void_consent_executes:
  assumes p: "order_locked (pp_gov ports) db i = Inr p" "po_state p \<noteq> Executed_Payment"
    and fallen: "consent_invalidated view = Some cause"
    and done_with: "paid_state (carried_out ports db_now i now db view p) i = Some Executed_Payment"
  shows "payment_tier (po_terms p) = External_Tier \<and>
    find_withdrawal (pb_withdrawals (carried_out ports db_now i now db view p)) (pp_withdrawal_id ports i) \<noteq> None"
proof -
  let ?outcome = "Consent_Void cause (if payment_tier (po_terms p) = External_Tier then Some (pp_withdrawal_id ports i) else None)"
  have t: "carried_out ports db_now i now db view p = fst (record_payment_execution (pp_gov ports) db_now i ?outcome now db)"
    using fallen by (simp add: carried_out_def)
  with done_with have "past_recall (pp_gov ports) db ?outcome" using executing [OF p, of db_now ?outcome now] by simp
  from past_recall_found [OF this] have "payment_tier (po_terms p) = External_Tier"
    "find_withdrawal (pb_withdrawals db) (pp_withdrawal_id ports i) \<noteq> None" by (auto split: if_splits)
  then show ?thesis using execution_finds [of db "pp_gov ports" db_now i ?outcome now] t by (simp add: same_finds_def)
qed

text \<open>
  C4: a payment is carried out as it was approved, and its effect comes first.  When an execution
  attempt turns an order into an executed one: money may leave the platform, the stored terms still hash
  to what was approved, they do not spend banking's treasury, the order was approved, and its effect
  already exists: for an external payment the withdrawal under the id derived from the order is in the
  store, and for an internal one the reservation was applied by the relay and is a transfer of the ledger.
\<close>
theorem payment_carried_out_as_approved:
  assumes "order_locked (pp_gov ports) db i = Inr p" "po_state p \<noteq> Executed_Payment"
    and "order_locked (pp_gov ports) (fst (execute_payment ports db_now i now db)) i = Inr p'" "po_state p' = Executed_Payment"
  shows "oe_paused (pp_out ports) = Inr False \<and> po_state p = Approved_Payment \<and>
    ge_digest (pp_gov ports) (payment_terms_bytes (ge_show (pp_gov ports)) (po_terms p)) = po_hash p \<and>
    pt_from (po_terms p) \<noteq> Treasury \<and>
    (if payment_tier (po_terms p) = External_Tier
     then find_withdrawal (pb_withdrawals (fst (execute_payment ports db_now i now db))) (pp_withdrawal_id ports i) \<noteq> None
     else pp_reservation ports i = Inr Reservation_Applied \<and> pp_transfer_exists ports (pp_reserve_id ports i) = Inr True)"
proof -
  let ?after = "fst (execute_payment ports db_now i now db)"
  have finished: "paid_state ?after i = Some Executed_Payment" using paid_state_locked [OF assms(3)] assms(4) by simp
  from execution_opens [OF assms(1,2) finished] obtain view
    where view: "payment_found (pp_gov ports) db i = Inr view" "yv_order view = p"
      and open_for: "po_state p = Approved_Payment" "oe_paused (pp_out ports) = Inr False" .
  note clear = execution_clears [OF assms(1,2) view open_for finished]
  have out: "paid_state (carried_out ports db_now i now db view p) i = Some Executed_Payment" using clear finished by simp
  show ?thesis
    using open_for clear withdrawal_comes_first [OF assms(1,2) _ _ out] reservation_comes_first [OF assms(1,2) _ _ out]
      void_consent_executes [OF assms(1,2) _ out]
    by (cases "consent_invalidated view") auto
qed

section \<open>A transfer carried out\<close>

definition pay_sample_ports :: pay_ports where
  "pay_sample_ports = \<lparr>pp_gov = pay_env, pp_out = payout_env, pp_modes = DEFAULT_MODES, pp_registered = (\<lambda>_. Inr True),
     pp_verified = (\<lambda>_. True), pp_reserve_id = (\<lambda>i. 77), pp_reservation = (\<lambda>_. Inr Reservation_Applied),
     pp_transfer_exists = (\<lambda>_. Inr True), pp_withdrawal_id = (\<lambda>i. 55), pp_consent_url = ''u''\<rparr>"

lemma pay_terms_hash: "ge_digest pay_env (payment_terms_bytes (ge_show pay_env) pay_terms) = ''H''"
  by (simp add: pay_env_def payment_terms_bytes_def PAYMENT_TERMS_DOMAIN_def push_field_def Let_def pay_terms_def)

lemma pay_seen:
  "\<exists>view. payment_found pay_env (pay_tables [pay_approved] [pay_answered]) 9 = Inr view \<and> yv_order view = pay_approved \<and>
     yv_concierge view = None \<and> consent_invalidated view = None"
  by (simp add: payment_found_def find_payment_def payment_view_of_def initiator_email_of_def ok_or_def find_user_def
      consent_of_payment_def session_of_payment_def join_user_def view_session_def consent_decision_parse_def rmap_def
      consent_invalidated_def session_invalidation_def pins_moved_def token_floor_def concierge_of_payment_def
      pay_tables_def pay_user_def pay_answered_def pay_asked_def pay_approved_def pay_pending_def payment_open_for_def pay_env_def)

lemma pay_attempted:
  "fst (execute_payment pay_sample_ports 2 9 2 (pay_tables [pay_approved] [pay_answered])) =
   fst (record_payment_execution pay_env 2 9 (Payment_Executed Transfer_Effect) 2 (pay_tables [pay_approved] [pay_answered]))"
proof -
  obtain view where view: "payment_found pay_env (pay_tables [pay_approved] [pay_answered]) 9 = Inr view" "yv_order view = pay_approved"
     "yv_concierge view = None" "consent_invalidated view = None" using pay_seen by blast
  have p: "po_state pay_approved = Approved_Payment" "po_terms pay_approved = pay_terms" "po_hash pay_approved = ''H''"
    "payment_tier pay_terms = Internal_Tier" "\<not> spending_closed (pt_from pay_terms)"
    by (simp_all add: pay_approved_def pay_pending_def payment_open_for_def pay_terms_def payment_tier_def)
  have settled: "settle_on_the_ledger pay_sample_ports 9 = Inr (Some (Payment_Executed Transfer_Effect))"
    by (simp add: settle_on_the_ledger_def pay_sample_ports_def from_ledger_def rmap_def)
  have gov: "pp_gov pay_sample_ports = pay_env" and on: "require_outflows_enabled (pp_out pay_sample_ports) = Inr ()"
    by (simp_all add: pay_sample_ports_def require_outflows_enabled_def payout_env_def)
  show ?thesis
    using pay_terms_hash by (simp add: execute_payment_def Let_def try_tx_def [of _ "Inr _"] gov view p on settled)
qed

theorem payment_carried_out_as_approved_witness:
  "oe_paused (pp_out pay_sample_ports) = Inr False \<and> po_state pay_approved = Approved_Payment \<and>
   pp_transfer_exists pay_sample_ports (pp_reserve_id pay_sample_ports 9) = Inr True"
proof -
  obtain p' where done_with: "order_locked pay_env (fst (record_payment_execution pay_env 2 9 (Payment_Executed Transfer_Effect) 2
       (pay_tables [pay_approved] [pay_answered]))) 9 = Inr p'" "po_state p' = Executed_Payment" using pay_carried_out by blast
  have gov: "pp_gov pay_sample_ports = pay_env" by (simp add: pay_sample_ports_def)
  have l: "order_locked (pp_gov pay_sample_ports) (pay_tables [pay_approved] [pay_answered]) 9 = Inr pay_approved"
    by (simp add: order_locked_def payment_locked_def ok_or_def pay_tables_def pay_approved_def pay_pending_def payment_open_for_def)
  have state: "po_state pay_approved \<noteq> Executed_Payment" "payment_tier (po_terms pay_approved) \<noteq> External_Tier"
    by (simp_all add: pay_approved_def pay_pending_def payment_open_for_def pay_terms_def payment_tier_def)
  have "order_locked (pp_gov pay_sample_ports) (fst (execute_payment pay_sample_ports 2 9 2 (pay_tables [pay_approved] [pay_answered]))) 9 = Inr p'"
    unfolding pay_attempted gov by (rule done_with(1))
  from payment_carried_out_as_approved [OF l state(1) this done_with(2)] state(2) show ?thesis by simp
qed

end
