(* ===== verification/Registry.thy ===== *)
theory Registry
  imports Allocations
begin

text \<open>
  The registry of investable products: the aggregate (\<^verbatim>\<open>domain/src/allocations.rs\<close>), its tables and
  transactions (\<^verbatim>\<open>infrastructure/allocations.rs\<close>) and the use cases in front of them
  (\<^verbatim>\<open>application/allocations.rs\<close>).  A transaction is a function to a result: what it would have
  written is dropped with an error.  The mirror of the identity plane and the order in which the
  database sorts slugs are arguments.
\<close>

section \<open>Lifecycle, access, icons\<close>

datatype allocation_state = Draft_Allocation | Open_Allocation | Closed_Allocation

fun allocation_state_str :: "allocation_state \<Rightarrow> string" where
  "allocation_state_str Draft_Allocation = ''draft''"
| "allocation_state_str Open_Allocation = ''open''"
| "allocation_state_str Closed_Allocation = ''closed''"

definition allocation_state_parse :: "string \<Rightarrow> allocation_state result" where
  "allocation_state_parse raw =
     (if raw = ''draft'' then Inr Draft_Allocation
      else if raw = ''open'' then Inr Open_Allocation
      else if raw = ''closed'' then Inr Closed_Allocation
      else Inl (Validation (''unknown allocation state: '' @ raw)))"

interpretation allocation_state_text: exact_codec allocation_state_str allocation_state_parse
proof
  show "allocation_state_parse (allocation_state_str x) = Inr x" for x
    by (cases x) (simp_all add: allocation_state_parse_def)
  show "allocation_state_parse s = Inr x \<Longrightarrow> allocation_state_str x = s" for s x
    by (auto simp: allocation_state_parse_def split: if_splits)
qed

text \<open>The declaration order of the levels is the access policy: it is the order of the type.\<close>

datatype allocation_access = Hidden | View | Invest

fun access_rank :: "allocation_access \<Rightarrow> nat" where
  "access_rank Hidden = 0"
| "access_rank View = 1"
| "access_rank Invest = 2"

lemma access_rank_inject: "access_rank a = access_rank b \<longleftrightarrow> a = b"
  by (cases a; cases b) simp_all

instantiation allocation_access :: linorder
begin

definition less_eq_allocation_access :: "allocation_access \<Rightarrow> allocation_access \<Rightarrow> bool" where
  "less_eq_allocation_access a b \<longleftrightarrow> access_rank a \<le> access_rank b"

definition less_allocation_access :: "allocation_access \<Rightarrow> allocation_access \<Rightarrow> bool" where
  "less_allocation_access a b \<longleftrightarrow> access_rank a < access_rank b"

instance
  by standard (auto simp: less_eq_allocation_access_def less_allocation_access_def access_rank_inject)

end

definition DEFAULT_ACCESS :: allocation_access where
  "DEFAULT_ACCESS = View"

fun access_str :: "allocation_access \<Rightarrow> string" where
  "access_str Hidden = ''hidden''"
| "access_str View = ''view''"
| "access_str Invest = ''invest''"

definition access_parse :: "string \<Rightarrow> allocation_access result" where
  "access_parse raw =
     (if raw = ''hidden'' then Inr Hidden
      else if raw = ''view'' then Inr View
      else if raw = ''invest'' then Inr Invest
      else Inl (Validation (''unknown allocation access level: '' @ raw)))"

interpretation access_text: exact_codec access_str access_parse
proof
  show "access_parse (access_str x) = Inr x" for x
    by (cases x) (simp_all add: access_parse_def)
  show "access_parse s = Inr x \<Longrightarrow> access_str x = s" for s x
    by (auto simp: access_parse_def split: if_splits)
qed

definition access_effective :: "allocation_access \<Rightarrow> allocation_access option \<Rightarrow> allocation_access" where
  "access_effective base grant = (case grant of None \<Rightarrow> base | Some granted \<Rightarrow> max base granted)"

definition permits_viewing :: "allocation_access \<Rightarrow> bool" where
  "permits_viewing a \<longleftrightarrow> View \<le> a"

definition permits_investing :: "allocation_access \<Rightarrow> bool" where
  "permits_investing a \<longleftrightarrow> Invest \<le> a"

datatype allocation_icon =
    Fund_Icon | RealEstate_Icon | Trading_Icon | Yield_Icon | Venture_Icon
  | Treasury_Icon | Commodity_Icon | Credit_Icon | Index_Icon | Arbitrage_Icon

fun icon_next :: "allocation_icon \<Rightarrow> allocation_icon option" where
  "icon_next Fund_Icon = Some RealEstate_Icon"
| "icon_next RealEstate_Icon = Some Trading_Icon"
| "icon_next Trading_Icon = Some Yield_Icon"
| "icon_next Yield_Icon = Some Venture_Icon"
| "icon_next Venture_Icon = Some Treasury_Icon"
| "icon_next Treasury_Icon = Some Commodity_Icon"
| "icon_next Commodity_Icon = Some Credit_Icon"
| "icon_next Credit_Icon = Some Index_Icon"
| "icon_next Index_Icon = Some Arbitrage_Icon"
| "icon_next Arbitrage_Icon = None"

fun icon_str :: "allocation_icon \<Rightarrow> string" where
  "icon_str Fund_Icon = ''fund''"
| "icon_str RealEstate_Icon = ''real_estate''"
| "icon_str Trading_Icon = ''trading''"
| "icon_str Yield_Icon = ''yield''"
| "icon_str Venture_Icon = ''venture''"
| "icon_str Treasury_Icon = ''treasury''"
| "icon_str Commodity_Icon = ''commodity''"
| "icon_str Credit_Icon = ''credit''"
| "icon_str Index_Icon = ''index''"
| "icon_str Arbitrage_Icon = ''arbitrage''"

definition icon_parse :: "string \<Rightarrow> allocation_icon result" where
  "icon_parse raw =
     (if raw = ''fund'' then Inr Fund_Icon
      else if raw = ''real_estate'' then Inr RealEstate_Icon
      else if raw = ''trading'' then Inr Trading_Icon
      else if raw = ''yield'' then Inr Yield_Icon
      else if raw = ''venture'' then Inr Venture_Icon
      else if raw = ''treasury'' then Inr Treasury_Icon
      else if raw = ''commodity'' then Inr Commodity_Icon
      else if raw = ''credit'' then Inr Credit_Icon
      else if raw = ''index'' then Inr Index_Icon
      else if raw = ''arbitrage'' then Inr Arbitrage_Icon
      else Inl (Validation (''unknown allocation icon: '' @ raw)))"

interpretation icon_text: exact_codec icon_str icon_parse
proof
  show "icon_parse (icon_str x) = Inr x" for x
    by (cases x) (simp_all add: icon_parse_def)
  show "icon_parse s = Inr x \<Longrightarrow> icon_str x = s" for s x
    by (auto simp: icon_parse_def split: if_splits)
qed

definition DEFAULT_ICON :: allocation_icon where
  "DEFAULT_ICON = Fund_Icon"

text \<open>The two loops over the chain of icons: each visits the variants after the one it holds.\<close>

definition icons_after :: "allocation_icon \<Rightarrow> nat" where
  "icons_after i =
     (case i of Fund_Icon \<Rightarrow> 9 | RealEstate_Icon \<Rightarrow> 8 | Trading_Icon \<Rightarrow> 7 | Yield_Icon \<Rightarrow> 6 | Venture_Icon \<Rightarrow> 5
      | Treasury_Icon \<Rightarrow> 4 | Commodity_Icon \<Rightarrow> 3 | Credit_Icon \<Rightarrow> 2 | Index_Icon \<Rightarrow> 1 | Arbitrage_Icon \<Rightarrow> 0)"

function count_icons :: "nat \<Rightarrow> allocation_icon \<Rightarrow> nat" where
  "count_icons count icon = (case icon_next icon of None \<Rightarrow> count | Some i \<Rightarrow> count_icons (count + 1) i)"
  by auto

termination count_icons
  by (relation "measure (icons_after \<circ> snd)") (auto simp: icons_after_def elim!: icon_next.elims)

function fill_icons :: "allocation_icon list \<Rightarrow> nat \<Rightarrow> allocation_icon \<Rightarrow> allocation_icon list" where
  "fill_icons all k icon =
     (case icon_next icon of None \<Rightarrow> all | Some i \<Rightarrow> fill_icons (all[k := i]) (k + 1) i)"
  by auto

termination fill_icons
  by (relation "measure (icons_after \<circ> snd \<circ> snd)") (auto simp: icons_after_def elim!: icon_next.elims)

declare count_icons.simps [simp del] fill_icons.simps [simp del]

definition ICON_COUNT :: nat where
  "ICON_COUNT = count_icons 1 Fund_Icon"

definition ICON_ALL :: "allocation_icon list" where
  "ICON_ALL = fill_icons (replicate ICON_COUNT Fund_Icon) 1 Fund_Icon"

lemma icon_vocabulary: "ICON_COUNT = 10" "set ICON_ALL = UNIV" "distinct ICON_ALL"
proof -
  show count: "ICON_COUNT = 10"
    by (simp add: ICON_COUNT_def count_icons.simps)
  have all: "ICON_ALL = [Fund_Icon, RealEstate_Icon, Trading_Icon, Yield_Icon, Venture_Icon, Treasury_Icon,
      Commodity_Icon, Credit_Icon, Index_Icon, Arbitrage_Icon]"
    by (simp add: ICON_ALL_def count fill_icons.simps numeral_eq_Suc)
  show "set ICON_ALL = UNIV"
    unfolding all by (auto simp: UNIV_eq_I) (metis allocation_icon.exhaust)
  show "distinct ICON_ALL" by (simp add: all)
qed

section \<open>The product\<close>

datatype allocation_event =
    Allocation_Registered uuid service_id string string shares allocation_icon allocation_access allocation_backing
  | Allocation_DetailsUpdated uuid service_id string string allocation_icon
  | Allocation_CapUpdated uuid service_id shares
  | Allocation_Opened uuid service_id
  | Allocation_Closed uuid service_id
  | Allocation_AccessChanged uuid service_id allocation_access
  | Allocation_BackingChanged uuid service_id allocation_backing
  | Allocation_AccessGranted uuid service_id uuid allocation_access uuid
  | Allocation_AccessRevoked uuid service_id uuid uuid

record allocation =
  al_id :: uuid
  al_service :: service_id
  al_title :: string
  al_summary :: string
  al_state :: allocation_state
  al_unit_cap :: shares
  al_icon :: allocation_icon
  al_access :: allocation_access
  al_backing :: allocation_backing
  al_pending :: "allocation_event list"

definition MAX_TITLE_LEN :: nat where
  "MAX_TITLE_LEN = 120"

definition MAX_SUMMARY_LEN :: nat where
  "MAX_SUMMARY_LEN = 280"

definition DEFAULT_UNIT_CAP :: shares where
  "DEFAULT_UNIT_CAP = Shares (100000000 * 1000000000000000000)"

definition FEE_ALLOCATION_ID :: uuid where
  "FEE_ALLOCATION_ID = 0x680240f51c4158e2987ce52dbe2faa01"

definition FUND_ALLOCATION_ID :: uuid where
  "FUND_ALLOCATION_ID = 0x7533b90592005ffbb053844c9c8da99a"

definition reserved_allocation_id :: "service_id \<Rightarrow> uuid option" where
  "reserved_allocation_id service =
     (if service = service_fee then Some FEE_ALLOCATION_ID
      else if service = service_fund then Some FUND_ALLOCATION_ID
      else None)"

definition quoted_service :: "service_id \<Rightarrow> string" where
  "quoted_service service = [CHR 0x27] @ service_id_str service @ [CHR 0x27]"

definition validate_title :: "string \<Rightarrow> string result" where
  "validate_title raw =
     (let title = trim raw in
      if title = [] then Inl (Validation ''allocation title must not be empty'')
      else if MAX_TITLE_LEN < chars_count title
      then Inl (Validation (''allocation title must be at most '' @ show_nat MAX_TITLE_LEN @ '' characters''))
      else if contains_url title \<or> CHR ''@'' \<in> set title
      then Inl (Validation ''allocation title must not contain a link or an address'')
      else Inr title)"

definition validate_summary :: "string \<Rightarrow> string result" where
  "validate_summary raw =
     (let summary = trim raw in
      if MAX_SUMMARY_LEN < chars_count summary
      then Inl (Validation (''allocation summary must be at most '' @ show_nat MAX_SUMMARY_LEN @ '' characters''))
      else Inr summary)"

definition allocation_register ::
  "uuid \<Rightarrow> service_id \<Rightarrow> string \<Rightarrow> string \<Rightarrow> allocation_icon \<Rightarrow> allocation result" where
  "allocation_register i service raw_title raw_summary icon =
     (if service_is_reserved service
      then Inl (Validation (quoted_service service @ '' is a reserved allocation and cannot be registered''))
      else rbind (validate_title raw_title) (\<lambda>title.
        rbind (validate_summary raw_summary) (\<lambda>summary.
        Inr \<lparr>al_id = i, al_service = service, al_title = title, al_summary = summary, al_state = Draft_Allocation,
          al_unit_cap = DEFAULT_UNIT_CAP, al_icon = icon, al_access = DEFAULT_ACCESS, al_backing = Cash,
          al_pending = [Allocation_Registered i service title summary DEFAULT_UNIT_CAP icon DEFAULT_ACCESS Cash]\<rparr>)))"

definition allocation_raise :: "allocation_event \<Rightarrow> allocation \<Rightarrow> allocation" where
  "allocation_raise e a = a\<lparr>al_pending := al_pending a @ [e]\<rparr>"

definition allocation_update_details :: "string \<Rightarrow> string \<Rightarrow> allocation_icon option \<Rightarrow> allocation \<Rightarrow> allocation result" where
  "allocation_update_details raw_title raw_summary icon a =
     rbind (validate_title raw_title) (\<lambda>title.
     rbind (validate_summary raw_summary) (\<lambda>summary.
     let b = a\<lparr>al_title := title, al_summary := summary,
               al_icon := (case icon of Some picked \<Rightarrow> picked | None \<Rightarrow> al_icon a)\<rparr>
     in Inr (allocation_raise (Allocation_DetailsUpdated (al_id b) (al_service b) (al_title b) (al_summary b) (al_icon b)) b)))"

definition allocation_open :: "allocation \<Rightarrow> allocation" where
  "allocation_open a =
     (if al_state a = Open_Allocation then a
      else allocation_raise (Allocation_Opened (al_id a) (al_service a)) (a\<lparr>al_state := Open_Allocation\<rparr>))"

definition allocation_close :: "allocation \<Rightarrow> allocation" where
  "allocation_close a =
     (if al_state a = Closed_Allocation then a
      else allocation_raise (Allocation_Closed (al_id a) (al_service a)) (a\<lparr>al_state := Closed_Allocation\<rparr>))"

definition allocation_set_unit_cap :: "shares \<Rightarrow> allocation \<Rightarrow> allocation result" where
  "allocation_set_unit_cap cap a =
     (if shares_is_zero cap
      then Inl (Validation (''allocation unit cap must be greater than zero '' @ em_dash @
        '' close the allocation to stop new money''))
      else if cap = al_unit_cap a then Inr a
      else Inr (allocation_raise (Allocation_CapUpdated (al_id a) (al_service a) cap) (a\<lparr>al_unit_cap := cap\<rparr>)))"

definition remaining_capacity :: "allocation \<Rightarrow> shares \<Rightarrow> shares" where
  "remaining_capacity a issued =
     (case shares_checked_sub (al_unit_cap a) issued of Some left \<Rightarrow> left | None \<Rightarrow> SHARES_ZERO)"

definition ensure_capacity :: "allocation \<Rightarrow> shares \<Rightarrow> shares \<Rightarrow> unit result" where
  "ensure_capacity a issued minting =
     rbind (ok_or (shares_checked_add issued minting)
       (Validation (''allocation '' @ quoted_service (al_service a) @ '' cannot mint that many units''))) (\<lambda>after.
     if al_unit_cap a < after
     then Inl (Validation (''allocation '' @ quoted_service (al_service a) @ '' has '' @
       shares_to_decimal_string (remaining_capacity a issued) @ '' units left of its '' @
       shares_to_decimal_string (al_unit_cap a) @ '' unit cap '' @ em_dash @ '' this subscription would mint '' @
       shares_to_decimal_string minting))
     else Inr ())"

definition allocation_set_access :: "allocation_access \<Rightarrow> allocation \<Rightarrow> allocation" where
  "allocation_set_access level a =
     (if level = al_access a then a
      else allocation_raise (Allocation_AccessChanged (al_id a) (al_service a) level) (a\<lparr>al_access := level\<rparr>))"

definition allocation_set_backing :: "allocation_backing \<Rightarrow> allocation \<Rightarrow> allocation" where
  "allocation_set_backing backing a =
     (if backing = al_backing a then a
      else allocation_raise (Allocation_BackingChanged (al_id a) (al_service a) backing) (a\<lparr>al_backing := backing\<rparr>))"

definition mark_in_kind :: "allocation \<Rightarrow> allocation" where
  "mark_in_kind a = allocation_set_backing InKind a"

definition ensure_cash_backed :: "allocation \<Rightarrow> unit result" where
  "ensure_cash_backed a =
     (case al_backing a of
        Cash \<Rightarrow> Inr ()
      | InKind \<Rightarrow> Inl (Precondition (''units of '' @ quoted_service (al_service a) @ '' are not backed by fund cash '' @
          em_dash @ '' sell them on the book instead of redeeming'')))"

definition allocation_grant_access :: "uuid \<Rightarrow> allocation_access \<Rightarrow> uuid \<Rightarrow> allocation \<Rightarrow> allocation result" where
  "allocation_grant_access user level granted_by a =
     (if \<not> permits_viewing level
      then Inl (Validation (''an access grant must be '' @ [CHR 0x27] @ access_str View @ [CHR 0x27] @ '' or '' @
        [CHR 0x27] @ access_str Invest @ [CHR 0x27] @ '' '' @ em_dash @
        '' a grant only ever raises an investor above the default; revoke it to take one back''))
      else Inr (allocation_raise (Allocation_AccessGranted (al_id a) (al_service a) user level granted_by) a))"

definition allocation_revoke_access :: "uuid \<Rightarrow> uuid \<Rightarrow> allocation \<Rightarrow> allocation" where
  "allocation_revoke_access user revoked_by a =
     allocation_raise (Allocation_AccessRevoked (al_id a) (al_service a) user revoked_by) a"

definition ensure_subscribable :: "allocation \<Rightarrow> allocation_access \<Rightarrow> unit result" where
  "ensure_subscribable a caller =
     (case al_state a of
        Draft_Allocation \<Rightarrow>
          Inl (Validation (''allocation '' @ quoted_service (al_service a) @ '' is not open for subscriptions yet''))
      | Closed_Allocation \<Rightarrow>
          Inl (Validation (''allocation '' @ quoted_service (al_service a) @ '' is closed to new subscriptions''))
      | Open_Allocation \<Rightarrow>
          if permits_investing caller then Inr ()
          else Inl (Precondition (''allocation '' @ quoted_service (al_service a) @
            '' is not open to you for investment '' @ em_dash @ '' an operator must grant you '' @
            [CHR 0x27] @ access_str Invest @ [CHR 0x27] @ '' access'')))"

definition ensure_redeemable :: "allocation \<Rightarrow> unit result" where
  "ensure_redeemable a =
     (case al_state a of
        Open_Allocation \<Rightarrow> Inr ()
      | Closed_Allocation \<Rightarrow> Inr ()
      | Draft_Allocation \<Rightarrow> Inl (Validation (''allocation '' @ quoted_service (al_service a) @ '' has never been open'')))"

definition is_listed_for :: "allocation \<Rightarrow> allocation_access \<Rightarrow> bool" where
  "is_listed_for a caller \<longleftrightarrow> al_state a = Open_Allocation \<and> permits_viewing caller"

definition allocation_drain :: "allocation \<Rightarrow> allocation \<times> allocation_event list" where
  "allocation_drain a = (a\<lparr>al_pending := []\<rparr>, al_pending a)"

end
