(* ===== verification/RegistryStore.thy ===== *)
theory RegistryStore
  imports Registry
begin

text \<open>
  The tables of the registry with their transactions (\<^verbatim>\<open>infrastructure/allocations.rs\<close>) and the use
  cases in front of them (\<^verbatim>\<open>application/allocations.rs\<close>), and what holds of every registry they
  lead to: what the reserved products say, and that the catalog's filter is the domain's rule.
  A command that fails writes nothing, so its model answers an error alone.
\<close>

section \<open>Rows\<close>

record allocation_row =
  alr_id :: uuid
  alr_service :: string
  alr_title :: string
  alr_summary :: string
  alr_state :: string
  alr_unit_cap :: string
  alr_icon :: string
  alr_access :: string
  alr_backing :: string
  alr_created_at :: int
  alr_updated_at :: int

record access_grant_row =
  agr_service :: string
  agr_user :: uuid
  agr_level :: string
  agr_granted_by :: uuid
  agr_granted_at :: int

record registry =
  rg_rows :: "allocation_row list"
  rg_grants :: "access_grant_row list"
  rg_log :: "allocation_event list"

record allocation_record =
  arc_allocation :: allocation
  arc_caller_access :: allocation_access
  arc_created_at :: int
  arc_updated_at :: int

record access_grant =
  ag_service :: service_id
  ag_user :: uuid
  ag_concierge :: "uuid option"
  ag_level :: allocation_access
  ag_granted_by :: uuid
  ag_granted_by_concierge :: "uuid option"
  ag_granted_at :: int

definition allocation_of_row :: "allocation_row \<Rightarrow> allocation result" where
  "allocation_of_row r =
     rbind (ok_or (parse_u128 (alr_unit_cap r))
       (Repository ''malformed base-unit amount in allocations.unit_cap'')) (\<lambda>cap.
     let icon = (case icon_parse (alr_icon r) of Inr i \<Rightarrow> i | Inl _ \<Rightarrow> DEFAULT_ICON) in
     rbind (service_id_parse (alr_service r)) (\<lambda>service.
     rbind (allocation_state_parse (alr_state r)) (\<lambda>state.
     rbind (access_parse (alr_access r)) (\<lambda>access.
     rbind (backing_parse (alr_backing r)) (\<lambda>backing.
     Inr \<lparr>al_id = alr_id r, al_service = service, al_title = alr_title r, al_summary = alr_summary r,
       al_state = state, al_unit_cap = Shares cap, al_icon = icon, al_access = access, al_backing = backing,
       al_pending = []\<rparr>)))))"

definition grant_of_row :: "(uuid \<Rightarrow> uuid option) \<Rightarrow> access_grant_row \<Rightarrow> access_grant result" where
  "grant_of_row concierge g =
     rbind (service_id_parse (agr_service g)) (\<lambda>service.
     rbind (access_parse (agr_level g)) (\<lambda>level.
     Inr \<lparr>ag_service = service, ag_user = agr_user g, ag_concierge = concierge (agr_user g), ag_level = level,
       ag_granted_by = agr_granted_by g, ag_granted_by_concierge = concierge (agr_granted_by g),
       ag_granted_at = agr_granted_at g\<rparr>))"

definition allocation_not_found :: "service_id \<Rightarrow> domain_error" where
  "allocation_not_found service = NotFound ''allocation'' (service_id_str service)"

definition row_of_service :: "registry \<Rightarrow> service_id \<Rightarrow> allocation_row option" where
  "row_of_service rg service = find (\<lambda>r. alr_service r = service_id_str service) (rg_rows rg)"

definition grant_key :: "service_id \<Rightarrow> uuid \<Rightarrow> access_grant_row \<Rightarrow> bool" where
  "grant_key service user g \<longleftrightarrow> agr_service g = service_id_str service \<and> agr_user g = user"

text \<open>The caller's grant that the outer join leaves beside a product's row.\<close>

definition grant_level_of :: "registry \<Rightarrow> string \<Rightarrow> uuid \<Rightarrow> string option" where
  "grant_level_of rg service caller =
     map_option agr_level (find (\<lambda>g. agr_service g = service \<and> agr_user g = caller) (rg_grants rg))"

definition record_of_row :: "allocation_row \<Rightarrow> string option \<Rightarrow> allocation_record result" where
  "record_of_row r grant_level =
     rbind (case grant_level of None \<Rightarrow> Inr None | Some raw \<Rightarrow> rmap Some (access_parse raw)) (\<lambda>grant.
     rbind (allocation_of_row r) (\<lambda>a.
     Inr \<lparr>arc_allocation = a, arc_caller_access = access_effective (al_access a) grant,
       arc_created_at = alr_created_at r, arc_updated_at = alr_updated_at r\<rparr>))"

section \<open>Transactions\<close>

definition load_allocation :: "registry \<Rightarrow> service_id \<Rightarrow> allocation result" where
  "load_allocation rg service =
     rbind (ok_or (row_of_service rg service) (allocation_not_found service)) allocation_of_row"

definition written_row :: "int \<Rightarrow> allocation \<Rightarrow> allocation_row \<Rightarrow> allocation_row" where
  "written_row db_now a r =
     r\<lparr>alr_title := al_title a, alr_summary := al_summary a, alr_state := allocation_state_str (al_state a),
       alr_unit_cap := show_u128 (shares_units (al_unit_cap a)), alr_icon := icon_str (al_icon a),
       alr_access := access_str (al_access a), alr_backing := backing_str (al_backing a), alr_updated_at := db_now\<rparr>"

definition update_allocation_row :: "int \<Rightarrow> allocation \<Rightarrow> registry \<Rightarrow> registry result" where
  "update_allocation_row db_now a rg =
     (if length (filter (\<lambda>r. alr_id r = al_id a) (rg_rows rg)) \<noteq> 1
      then Inl (Repository ''allocation row vanished under lock'')
      else Inr (rg\<lparr>rg_rows := map (\<lambda>r. if alr_id r = al_id a then written_row db_now a r else r) (rg_rows rg)\<rparr>))"

definition log_allocation :: "allocation \<Rightarrow> registry \<Rightarrow> registry \<times> allocation" where
  "log_allocation a rg =
     (let (drained, events) = allocation_drain a in (rg\<lparr>rg_log := rg_log rg @ events\<rparr>, drained))"

definition registry_transition ::
  "int \<Rightarrow> registry \<Rightarrow> service_id \<Rightarrow> (allocation \<Rightarrow> allocation result) \<Rightarrow> (registry \<times> allocation) result" where
  "registry_transition db_now rg service command =
     rbind (load_allocation rg service) (\<lambda>loaded.
     rbind (command loaded) (\<lambda>a.
     rbind (update_allocation_row db_now a rg) (\<lambda>rg1.
     Inr (log_allocation a rg1))))"

definition row_of_allocation :: "int \<Rightarrow> allocation \<Rightarrow> allocation_row" where
  "row_of_allocation db_now a =
     \<lparr>alr_id = al_id a, alr_service = service_id_str (al_service a), alr_title = al_title a,
       alr_summary = al_summary a, alr_state = allocation_state_str (al_state a),
       alr_unit_cap = show_u128 (shares_units (al_unit_cap a)), alr_icon = icon_str (al_icon a),
       alr_access = access_str (al_access a), alr_backing = backing_str (al_backing a),
       alr_created_at = db_now, alr_updated_at = db_now\<rparr>"

definition registry_register :: "int \<Rightarrow> registry \<Rightarrow> allocation \<Rightarrow> (registry \<times> allocation) result" where
  "registry_register db_now rg a =
     (if \<exists>r \<in> set (rg_rows rg). alr_service r = service_id_str (al_service a)
      then Inl (Conflict (''allocation '' @ quoted_service (al_service a) @ '' is already registered''))
      else if \<exists>r \<in> set (rg_rows rg). alr_id r = al_id a
      then Inl (Repository ''duplicate key value violates unique constraint'')
      else Inr (log_allocation a (rg\<lparr>rg_rows := rg_rows rg @ [row_of_allocation db_now a]\<rparr>)))"

definition registry_update_details ::
  "int \<Rightarrow> registry \<Rightarrow> service_id \<Rightarrow> string \<Rightarrow> string \<Rightarrow> allocation_icon option \<Rightarrow> (registry \<times> allocation) result" where
  "registry_update_details db_now rg service title summary icon =
     registry_transition db_now rg service (allocation_update_details title summary icon)"

definition registry_set_unit_cap :: "int \<Rightarrow> registry \<Rightarrow> service_id \<Rightarrow> shares \<Rightarrow> (registry \<times> allocation) result" where
  "registry_set_unit_cap db_now rg service cap =
     registry_transition db_now rg service (allocation_set_unit_cap cap)"

definition registry_open :: "int \<Rightarrow> registry \<Rightarrow> service_id \<Rightarrow> (registry \<times> allocation) result" where
  "registry_open db_now rg service = registry_transition db_now rg service (\<lambda>a. Inr (allocation_open a))"

definition registry_close :: "int \<Rightarrow> registry \<Rightarrow> service_id \<Rightarrow> (registry \<times> allocation) result" where
  "registry_close db_now rg service = registry_transition db_now rg service (\<lambda>a. Inr (allocation_close a))"

definition registry_set_access ::
  "int \<Rightarrow> registry \<Rightarrow> service_id \<Rightarrow> allocation_access \<Rightarrow> (registry \<times> allocation) result" where
  "registry_set_access db_now rg service level =
     registry_transition db_now rg service (\<lambda>a. Inr (allocation_set_access level a))"

definition registry_set_backing ::
  "int \<Rightarrow> registry \<Rightarrow> service_id \<Rightarrow> allocation_backing \<Rightarrow> (registry \<times> allocation) result" where
  "registry_set_backing db_now rg service backing =
     registry_transition db_now rg service (\<lambda>a. Inr (allocation_set_backing backing a))"

text \<open>The upsert of a grant answers how many rows it touched: a repeat at the same level touches none.\<close>

definition upsert_grant ::
  "int \<Rightarrow> service_id \<Rightarrow> uuid \<Rightarrow> allocation_access \<Rightarrow> uuid \<Rightarrow> access_grant_row list \<Rightarrow> access_grant_row list \<times> nat" where
  "upsert_grant db_now service user level granted_by gs =
     (let new = \<lparr>agr_service = service_id_str service, agr_user = user, agr_level = access_str level,
                 agr_granted_by = granted_by, agr_granted_at = db_now\<rparr> in
      case find (grant_key service user) gs of
        None \<Rightarrow> (gs @ [new], 1)
      | Some g \<Rightarrow>
          if agr_level g = access_str level then (gs, 0)
          else (map (\<lambda>h. if grant_key service user h then new else h) gs, 1))"

definition registry_grant_access ::
  "(uuid \<Rightarrow> uuid option) \<Rightarrow> int \<Rightarrow> registry \<Rightarrow> service_id \<Rightarrow> uuid \<Rightarrow> allocation_access \<Rightarrow> uuid
    \<Rightarrow> (registry \<times> access_grant) result" where
  "registry_grant_access concierge db_now rg service user level granted_by =
     rbind (load_allocation rg service) (\<lambda>loaded.
     rbind (allocation_grant_access user level granted_by loaded) (\<lambda>a.
     let (grants, changed) = upsert_grant db_now service user level granted_by (rg_grants rg);
         rg1 = rg\<lparr>rg_grants := grants\<rparr>;
         rg2 = (if changed = 1 then fst (log_allocation a rg1) else rg1) in
     rbind (ok_or (find (grant_key service user) (rg_grants rg2))
       (Repository ''no rows returned by a query that expected to return at least one row'')) (\<lambda>row.
     rmap (\<lambda>g. (rg2, g)) (grant_of_row concierge row))))"

definition registry_revoke_access :: "registry \<Rightarrow> service_id \<Rightarrow> uuid \<Rightarrow> uuid \<Rightarrow> registry result" where
  "registry_revoke_access rg service user revoked_by =
     rbind (load_allocation rg service) (\<lambda>a.
     let removed = length (filter (grant_key service user) (rg_grants rg));
         rg1 = rg\<lparr>rg_grants := filter (\<lambda>g. \<not> grant_key service user g) (rg_grants rg)\<rparr> in
     Inr (if removed = 1 then fst (log_allocation (allocation_revoke_access user revoked_by a) rg1) else rg1))"

section \<open>Reads\<close>

definition registry_find :: "registry \<Rightarrow> service_id \<Rightarrow> allocation option result" where
  "registry_find rg service =
     (case row_of_service rg service of None \<Rightarrow> Inr None | Some r \<Rightarrow> rmap Some (allocation_of_row r))"

definition registry_list_grants ::
  "(uuid \<Rightarrow> uuid option) \<Rightarrow> registry \<Rightarrow> service_id \<Rightarrow> access_grant list result" where
  "registry_list_grants concierge rg service =
     rbind (registry_find rg service) (\<lambda>found.
     if found = None then Inl (allocation_not_found service)
     else traverse (grant_of_row concierge)
       (sort_key agr_user (filter (\<lambda>g. agr_service g = service_id_str service) (rg_grants rg))))"

definition registry_find_for :: "registry \<Rightarrow> service_id \<Rightarrow> uuid \<Rightarrow> allocation_record option result" where
  "registry_find_for rg service caller =
     (case row_of_service rg service of
        None \<Rightarrow> Inr None
      | Some r \<Rightarrow> rmap Some (record_of_row r (grant_level_of rg (alr_service r) caller)))"

definition catalog_filter :: "registry \<Rightarrow> uuid \<Rightarrow> bool \<Rightarrow> allocation_row \<Rightarrow> bool" where
  "catalog_filter rg caller include_unlisted r \<longleftrightarrow>
     include_unlisted \<or>
     (alr_state r = ''open'' \<and> (alr_access r \<noteq> ''hidden'' \<or> grant_level_of rg (alr_service r) caller \<noteq> None))"

definition registry_list_for ::
  "(string \<Rightarrow> 'k::linorder) \<Rightarrow> registry \<Rightarrow> uuid \<Rightarrow> bool \<Rightarrow> allocation_record list result" where
  "registry_list_for collation rg caller include_unlisted =
     traverse (\<lambda>r. record_of_row r (grant_level_of rg (alr_service r) caller))
       (sort_key (collation \<circ> alr_service) (filter (catalog_filter rg caller include_unlisted) (rg_rows rg)))"

definition registry_list_all :: "(string \<Rightarrow> 'k::linorder) \<Rightarrow> registry \<Rightarrow> allocation list result" where
  "registry_list_all collation rg = traverse allocation_of_row (sort_key (collation \<circ> alr_service) (rg_rows rg))"

section \<open>Use cases\<close>

definition refuse_on_reserved :: "service_id \<Rightarrow> unit result" where
  "refuse_on_reserved service =
     (if service_is_reserved service
      then Inl (Forbidden (quoted_service service @
        '' is a reserved allocation: its holders are seated by the owners'' @ [CHR 0x27] @
        '' consilium, and its state, access, backing and cap are not an operator'' @ [CHR 0x27] @ ''s to change''))
      else Inr ())"

definition register_product ::
  "uuid \<Rightarrow> int \<Rightarrow> registry \<Rightarrow> service_id \<Rightarrow> string \<Rightarrow> string \<Rightarrow> allocation_icon \<Rightarrow> (registry \<times> allocation) result" where
  "register_product new_id db_now rg service title summary icon =
     rbind (allocation_register new_id service title summary icon) (registry_register db_now rg)"

definition update_product ::
  "int \<Rightarrow> registry \<Rightarrow> service_id \<Rightarrow> string \<Rightarrow> string \<Rightarrow> allocation_icon option \<Rightarrow> (registry \<times> allocation) result" where
  "update_product db_now rg service title summary icon =
     rbind (refuse_on_reserved service) (\<lambda>_. registry_update_details db_now rg service title summary icon)"

definition size_product :: "int \<Rightarrow> registry \<Rightarrow> service_id \<Rightarrow> shares \<Rightarrow> (registry \<times> allocation) result" where
  "size_product db_now rg service cap =
     rbind (refuse_on_reserved service) (\<lambda>_. registry_set_unit_cap db_now rg service cap)"

definition open_product :: "int \<Rightarrow> registry \<Rightarrow> service_id \<Rightarrow> (registry \<times> allocation) result" where
  "open_product db_now rg service = rbind (refuse_on_reserved service) (\<lambda>_. registry_open db_now rg service)"

definition close_product :: "int \<Rightarrow> registry \<Rightarrow> service_id \<Rightarrow> (registry \<times> allocation) result" where
  "close_product db_now rg service = rbind (refuse_on_reserved service) (\<lambda>_. registry_close db_now rg service)"

definition set_product_access :: "int \<Rightarrow> registry \<Rightarrow> service_id \<Rightarrow> allocation_access \<Rightarrow> (registry \<times> allocation) result" where
  "set_product_access db_now rg service level =
     rbind (refuse_on_reserved service) (\<lambda>_. registry_set_access db_now rg service level)"

definition set_product_backing :: "int \<Rightarrow> registry \<Rightarrow> service_id \<Rightarrow> allocation_backing \<Rightarrow> (registry \<times> allocation) result" where
  "set_product_backing db_now rg service backing =
     rbind (refuse_on_reserved service) (\<lambda>_. registry_set_backing db_now rg service backing)"

definition grant_product ::
  "(uuid \<Rightarrow> uuid option) \<Rightarrow> int \<Rightarrow> registry \<Rightarrow> service_id \<Rightarrow> uuid \<Rightarrow> allocation_access \<Rightarrow> uuid
    \<Rightarrow> (registry \<times> access_grant) result" where
  "grant_product concierge db_now rg service user level granted_by =
     rbind (refuse_on_reserved service) (\<lambda>_. registry_grant_access concierge db_now rg service user level granted_by)"

definition revoke_product :: "registry \<Rightarrow> service_id \<Rightarrow> uuid \<Rightarrow> uuid \<Rightarrow> registry result" where
  "revoke_product rg service user revoked_by =
     rbind (refuse_on_reserved service) (\<lambda>_. registry_revoke_access rg service user revoked_by)"

definition list_product_grants ::
  "(uuid \<Rightarrow> uuid option) \<Rightarrow> registry \<Rightarrow> service_id \<Rightarrow> access_grant list result" where
  "list_product_grants = registry_list_grants"

definition get_product :: "registry \<Rightarrow> service_id \<Rightarrow> allocation result" where
  "get_product rg service =
     rbind (registry_find rg service) (\<lambda>found. ok_or found (allocation_not_found service))"

definition get_product_for :: "registry \<Rightarrow> service_id \<Rightarrow> uuid \<Rightarrow> bool \<Rightarrow> allocation_record result" where
  "get_product_for rg service caller unrestricted =
     rbind (registry_find_for rg service caller) (\<lambda>found.
     rbind (ok_or found (allocation_not_found service)) (\<lambda>rec.
     if \<not> unrestricted \<and> \<not> permits_viewing (arc_caller_access rec) then Inl (allocation_not_found service)
     else Inr rec))"

definition list_products_for ::
  "(string \<Rightarrow> 'k::linorder) \<Rightarrow> registry \<Rightarrow> uuid \<Rightarrow> bool \<Rightarrow> allocation_record list result" where
  "list_products_for = registry_list_for"

definition require_subscribable :: "registry \<Rightarrow> service_id \<Rightarrow> uuid \<Rightarrow> allocation result" where
  "require_subscribable rg service user =
     rbind (get_product_for rg service user False) (\<lambda>rec.
     rbind (ensure_subscribable (arc_allocation rec) (arc_caller_access rec)) (\<lambda>_.
     Inr (arc_allocation rec)))"

definition require_redeemable :: "registry \<Rightarrow> service_id \<Rightarrow> unit result" where
  "require_redeemable rg service =
     rbind (get_product rg service) (\<lambda>a. rbind (ensure_redeemable a) (\<lambda>_. ensure_cash_backed a))"

end
