(* ===== verification/RegistrySafety.thy ===== *)
theory RegistrySafety
  imports RegistryStore
begin

text \<open>
  What the registry of products promises whatever operators ask of it: the reserved allocations stay
  as the platform wrote them, and the catalog a caller is shown is exactly what the domain's rule of
  lifecycle and access admits.
\<close>

section \<open>Runs of commands\<close>

datatype registry_command =
    Register_Product uuid service_id string string allocation_icon
  | Update_Product service_id string string "allocation_icon option"
  | Size_Product service_id shares
  | Open_Product service_id
  | Close_Product service_id
  | Access_Product service_id allocation_access
  | Backing_Product service_id allocation_backing
  | Grant_Product service_id uuid allocation_access uuid
  | Revoke_Product service_id uuid uuid

fun registry_do :: "(uuid \<Rightarrow> uuid option) \<Rightarrow> int \<Rightarrow> registry_command \<Rightarrow> registry \<Rightarrow> registry result" where
  "registry_do conc t (Register_Product i s title summary icon) rg = rmap fst (register_product i t rg s title summary icon)"
| "registry_do conc t (Update_Product s title summary icon) rg = rmap fst (update_product t rg s title summary icon)"
| "registry_do conc t (Size_Product s cap) rg = rmap fst (size_product t rg s cap)"
| "registry_do conc t (Open_Product s) rg = rmap fst (open_product t rg s)"
| "registry_do conc t (Close_Product s) rg = rmap fst (close_product t rg s)"
| "registry_do conc t (Access_Product s level) rg = rmap fst (set_product_access t rg s level)"
| "registry_do conc t (Backing_Product s b) rg = rmap fst (set_product_backing t rg s b)"
| "registry_do conc t (Grant_Product s user level by_user) rg = rmap fst (grant_product conc t rg s user level by_user)"
| "registry_do conc t (Revoke_Product s user by_user) rg = revoke_product rg s user by_user"

text \<open>A refused command leaves the tables as they were.\<close>

definition registry_step :: "(uuid \<Rightarrow> uuid option) \<Rightarrow> int \<times> registry_command \<Rightarrow> registry \<Rightarrow> registry" where
  "registry_step conc c rg = (case registry_do conc (fst c) (snd c) rg of Inl _ \<Rightarrow> rg | Inr rg' \<Rightarrow> rg')"

definition registry_run :: "(uuid \<Rightarrow> uuid option) \<Rightarrow> (int \<times> registry_command) list \<Rightarrow> registry \<Rightarrow> registry" where
  "registry_run conc cs = fold (registry_step conc) cs"

lemma registry_run_keeps:
  assumes "\<And>t c rg rg'. registry_do conc t c rg = Inr rg' \<Longrightarrow> P rg \<Longrightarrow> P rg'" "P rg"
  shows "P (registry_run conc cs rg)"
  using assms(2)
  by (induction cs arbitrary: rg) (auto simp: registry_run_def registry_step_def split: sum.splits dest: assms(1))

section \<open>The reserved allocations\<close>

definition reserved_name :: "string \<Rightarrow> bool" where
  "reserved_name s \<longleftrightarrow> s = RESERVED_FEE \<or> s = RESERVED_FUND"

definition reserved_part :: "registry \<Rightarrow> allocation_row list \<times> access_grant_row list" where
  "reserved_part rg =
     (filter (\<lambda>r. reserved_name (alr_service r)) (rg_rows rg), filter (\<lambda>g. reserved_name (agr_service g)) (rg_grants rg))"

lemma reserved_named: "service_is_reserved s \<longleftrightarrow> reserved_name (service_id_str s)"
  by (simp add: service_is_reserved_def reserved_name_def)

lemma filter_map_other:
  assumes "\<And>x. x \<in> set xs \<Longrightarrow> P (f x) \<longleftrightarrow> P x" "\<And>x. x \<in> set xs \<Longrightarrow> P x \<Longrightarrow> f x = x"
  shows "filter P (map f xs) = filter P xs"
  using assms by (induction xs) auto

lemma single_match:
  assumes "length (filter P xs) = 1" "x \<in> set xs" "P x" "y \<in> set xs" "P y"
  shows "x = y"
proof -
  obtain z where "filter P xs = [z]" using assms(1) by (auto simp: length_Suc_conv)
  moreover have "x \<in> set (filter P xs)" "y \<in> set (filter P xs)" using assms by auto
  ultimately show ?thesis by simp
qed

lemma load_allocation_row:
  assumes "load_allocation rg s = Inr a"
  obtains r where "r \<in> set (rg_rows rg)" "alr_service r = service_id_str s" "al_id a = alr_id r"
  using assms
  by (auto simp: load_allocation_def row_of_service_def allocation_of_row_def result_iffs Let_def find_Some_iff)
    (metis allocation.select_convs(1) nth_mem)

lemma log_allocation_part [simp]:
  "rg_rows (fst (log_allocation a rg)) = rg_rows rg" "rg_grants (fst (log_allocation a rg)) = rg_grants rg"
  by (simp_all add: log_allocation_def allocation_drain_def)

lemma logged_part: "log_allocation a rg = (rg', b) \<Longrightarrow> rg_rows rg' = rg_rows rg \<and> rg_grants rg' = rg_grants rg"
  by (metis log_allocation_part fst_conv)

lemma transition_parts:
  assumes t: "registry_transition t rg s f = Inr (rg', b)" and id: "\<And>a b. f a = Inr b \<Longrightarrow> al_id b = al_id a"
    and ordinary: "\<not> service_is_reserved s"
  shows "reserved_part rg' = reserved_part rg \<and> rg_grants rg' = rg_grants rg"
proof -
  from t obtain loaded a rg1 where l: "load_allocation rg s = Inr loaded" and a: "f loaded = Inr a"
    and u: "update_allocation_row t a rg = Inr rg1" and rg': "rg' = fst (log_allocation a rg1)"
    by (auto simp: registry_transition_def rbind_eq_Inr_iff)
  from l obtain r where r: "r \<in> set (rg_rows rg)" "alr_service r = service_id_str s" "al_id loaded = alr_id r"
    by (rule load_allocation_row)
  have own: "al_id a = alr_id r" using id [OF a] r(3) by simp
  from u have one: "length (filter (\<lambda>x. alr_id x = al_id a) (rg_rows rg)) = 1"
    and rg1: "rg1 = rg\<lparr>rg_rows := map (\<lambda>x. if alr_id x = al_id a then written_row t a x else x) (rg_rows rg)\<rparr>"
    by (auto simp: update_allocation_row_def split: if_splits)
  have other: "\<not> reserved_name (alr_service x)" if "x \<in> set (rg_rows rg)" "alr_id x = al_id a" for x
    using single_match [OF one that r(1)] own r(2) ordinary by (simp add: reserved_named)
  have "filter (\<lambda>x. reserved_name (alr_service x)) (rg_rows rg1) = filter (\<lambda>x. reserved_name (alr_service x)) (rg_rows rg)"
    unfolding rg1 by (simp, rule filter_map_other) (auto simp: written_row_def dest: other)
  then show ?thesis by (simp add: reserved_part_def rg' rg1)
qed

lemma upsert_others:
  assumes "\<not> service_is_reserved s" "upsert_grant t s user level by_user gs = (gs', n)"
  shows "filter (\<lambda>g. reserved_name (agr_service g)) gs' = filter (\<lambda>g. reserved_name (agr_service g)) gs"
proof -
  have "filter (\<lambda>g. reserved_name (agr_service g)) (map (\<lambda>h. if grant_key s user h then new else h) gs) =
      filter (\<lambda>g. reserved_name (agr_service g)) gs" if "agr_service new = service_id_str s" for new
    using assms(1) that by (intro filter_map_other) (auto simp: grant_key_def reserved_named)
  with assms show ?thesis
    by (auto simp: upsert_grant_def Let_def reserved_named split: option.splits if_splits)
qed

lemma command_ids:
  "allocation_update_details title summary icon a = Inr b \<Longrightarrow> al_id b = al_id a"
  "allocation_set_unit_cap cap a = Inr b \<Longrightarrow> al_id b = al_id a"
  "al_id (allocation_open a) = al_id a" "al_id (allocation_close a) = al_id a"
  "al_id (allocation_set_access level a) = al_id a" "al_id (allocation_set_backing backing a) = al_id a"
  by (auto simp: allocation_update_details_def allocation_set_unit_cap_def allocation_open_def allocation_close_def
      allocation_set_access_def allocation_set_backing_def allocation_raise_def rbind_eq_Inr_iff Let_def split: if_splits)

lemma refuse_on_reserved_Inr [simp]: "refuse_on_reserved s = Inr u \<longleftrightarrow> \<not> service_is_reserved s"
  by (simp add: refuse_on_reserved_def)

lemmas product_commands = update_product_def size_product_def open_product_def close_product_def set_product_access_def
  set_product_backing_def registry_update_details_def registry_set_unit_cap_def registry_open_def registry_close_def
  registry_set_access_def registry_set_backing_def

text \<open>What a grant writes, and what a command that is none leaves alone.\<close>

lemma grant_writes:
  assumes "registry_grant_access conc t rg s user level by_user = Inr (rg', g)"
  obtains gs n where "permits_viewing level" "upsert_grant t s user level by_user (rg_grants rg) = (gs, n)"
    "rg_rows rg' = rg_rows rg" "rg_grants rg' = gs"
proof -
  obtain gs n where u: "upsert_grant t s user level by_user (rg_grants rg) = (gs, n)"
    by (cases "upsert_grant t s user level by_user (rg_grants rg)")
  with assms have "permits_viewing level" "rg_rows rg' = rg_rows rg" "rg_grants rg' = gs"
    by (auto simp: registry_grant_access_def allocation_grant_access_def result_iffs Let_def split: if_splits)
  with u show thesis by (blast intro: that)
qed

lemma command_writes:
  assumes "registry_do conc t c rg = Inr rg'" "\<And>s user level by_user. c \<noteq> Grant_Product s user level by_user"
    "\<And>s user by_user. c \<noteq> Revoke_Product s user by_user"
  shows "reserved_part rg' = reserved_part rg \<and> rg_grants rg' = rg_grants rg"
proof (cases c)
  case (Register_Product i s title summary icon)
  then show ?thesis using assms(1)
    by (auto simp: register_product_def allocation_register_def registry_register_def row_of_allocation_def reserved_part_def
        reserved_named result_iffs split: if_splits dest!: logged_part)
next
  case (Update_Product s title summary icon)
  with assms(1) show ?thesis by (auto simp: product_commands result_iffs command_ids dest!: transition_parts [rotated 2])
qed (use assms in \<open>auto simp: product_commands result_iffs command_ids dest!: transition_parts [rotated 2]\<close>)

lemma reserved_step:
  assumes step: "registry_do conc t c rg = Inr rg'"
  shows "reserved_part rg' = reserved_part rg"
proof (cases c)
  case (Grant_Product s user level by_user)
  with step show ?thesis
    by (auto simp: grant_product_def result_iffs reserved_part_def elim!: grant_writes dest: upsert_others)
next
  case (Revoke_Product s user by_user)
  moreover have "filter (\<lambda>g. reserved_name (agr_service g)) (filter (\<lambda>g. \<not> grant_key s user g) gs) =
      filter (\<lambda>g. reserved_name (agr_service g)) gs" if "\<not> service_is_reserved s" for gs
    using that by (auto simp: grant_key_def reserved_named intro!: filter_cong)
  ultimately show ?thesis using step
    by (auto simp: revoke_product_def registry_revoke_access_def result_iffs Let_def reserved_part_def split: if_splits)
qed (use command_writes [OF step] in simp_all)

text \<open>
  C40: no sequence of operator commands, well-formed or not, registers, renames, resizes, opens, closes,
  relocks or rebacks a reserved allocation, or lets anyone into it or out of it: the rows of fee and fund
  and the grants on them are the ones the sequence began with.
\<close>
theorem reserved_products_fixed: "reserved_part (registry_run conc cs rg) = reserved_part rg"
  by (rule registry_run_keeps [where P = "\<lambda>x. reserved_part x = reserved_part rg"]) (auto dest: reserved_step)

section \<open>The catalog\<close>

text \<open>The column's check: a grant admits to viewing at least.\<close>

definition grants_ok :: "registry \<Rightarrow> bool" where
  "grants_ok rg \<longleftrightarrow> (\<forall>g \<in> set (rg_grants rg). agr_level g = access_str View \<or> agr_level g = access_str Invest)"

lemma upsert_grants_ok:
  assumes "permits_viewing level" "upsert_grant t s user level by_user gs = (gs', n)" "g \<in> set gs'"
  shows "g \<in> set gs \<or> agr_level g = access_str View \<or> agr_level g = access_str Invest"
proof -
  have "level = View \<or> level = Invest" using assms(1) by (cases level) (auto simp: permits_viewing_def less_eq_allocation_access_def)
  with assms(2,3) show ?thesis
    by (auto simp: upsert_grant_def Let_def split: option.splits if_splits)
qed

lemma grants_ok_step:
  assumes step: "registry_do conc t c rg = Inr rg'" and ok: "grants_ok rg"
  shows "grants_ok rg'"
proof (cases c)
  case (Grant_Product s user level by_user)
  with step ok show ?thesis
    by (auto simp: grant_product_def result_iffs grants_ok_def elim!: grant_writes dest: upsert_grants_ok)
next
  case (Revoke_Product s user by_user)
  with step ok show ?thesis
    by (auto simp: revoke_product_def registry_revoke_access_def result_iffs Let_def grants_ok_def split: if_splits)
qed (use command_writes [OF step] ok in \<open>simp_all add: grants_ok_def\<close>)

lemma traverse_Inr:
  "traverse f xs = Inr ys \<longleftrightarrow> list_all2 (\<lambda>x y. f x = Inr y) xs ys"
  by (induction xs arbitrary: ys) (auto simp: result_iffs list_all2_Cons1)

lemma traverse_mem:
  assumes "traverse f xs = Inr ys"
  shows "y \<in> set ys \<longleftrightarrow> (\<exists>x \<in> set xs. f x = Inr y)"
proof -
  have l: "list_all2 (\<lambda>x y. f x = Inr y) xs ys" using assms by (simp add: traverse_Inr)
  show ?thesis
  proof
    assume "y \<in> set ys"
    with l show "\<exists>x \<in> set xs. f x = Inr y" by (force simp: list_all2_conv_all_nth in_set_conv_nth)
  next
    assume "\<exists>x \<in> set xs. f x = Inr y"
    then obtain x where "x \<in> set xs" "f x = Inr y" by blast
    with l show "y \<in> set ys"
      by (force simp: list_all2_conv_all_nth in_set_conv_nth)
  qed
qed

lemma catalog_row:
  assumes ok: "grants_ok rg" and rec: "record_of_row r (grant_level_of rg (alr_service r) caller) = Inr rec"
  shows "catalog_filter rg caller False r \<longleftrightarrow> is_listed_for (arc_allocation rec) (arc_caller_access rec)"
proof -
  let ?g = "grant_level_of rg (alr_service r) caller"
  from rec obtain grant a where grant: "(case ?g of None \<Rightarrow> Inr None | Some raw \<Rightarrow> rmap Some (access_parse raw)) = Inr grant"
    and a: "allocation_of_row r = Inr a" "arc_allocation rec = a" "arc_caller_access rec = access_effective (al_access a) grant"
    by (auto simp: record_of_row_def result_iffs)
  from a(1) have row: "allocation_state_parse (alr_state r) = Inr (al_state a)" "access_parse (alr_access r) = Inr (al_access a)"
    by (auto simp: allocation_of_row_def result_iffs Let_def)
  have state: "alr_state r = ''open'' \<longleftrightarrow> al_state a = Open_Allocation"
    using row(1) by (auto simp: allocation_state_parse_def split: if_splits)
  have shown: "alr_access r \<noteq> ''hidden'' \<longleftrightarrow> View \<le> al_access a"
    using row(2) by (auto simp: access_parse_def less_eq_allocation_access_def split: if_splits)
  have granted: "?g = None \<and> grant = None \<or> ?g \<noteq> None \<and> (\<exists>l. grant = Some l \<and> View \<le> l)"
  proof (cases ?g)
    case None
    with grant show ?thesis by simp
  next
    case (Some raw)
    then have "raw = access_str View \<or> raw = access_str Invest"
      using ok by (auto simp: grant_level_of_def grants_ok_def find_Some_iff dest: nth_mem)
    with grant Some show ?thesis by (auto simp: access_parse_def less_eq_allocation_access_def rmap_def)
  qed
  show ?thesis
    using granted by (auto simp: catalog_filter_def is_listed_for_def permits_viewing_def a access_effective_def state shown
        le_max_iff_disj)
qed

text \<open>
  C39: the catalog's filter in SQL, which knows no ranking of access levels, is the domain's rule.  After any
  operator commands, the products a caller is listed are exactly the ones that are open and that the
  caller's effective level, the higher of the product's own and their grant, lets them see.
\<close>
theorem catalog_lists_admitted:
  assumes "grants_ok rg" "list_products_for collation (registry_run conc cs rg) caller False = Inr recs"
  shows "rec \<in> set recs \<longleftrightarrow> (\<exists>r \<in> set (rg_rows (registry_run conc cs rg)).
    record_of_row r (grant_level_of (registry_run conc cs rg) (alr_service r) caller) = Inr rec \<and>
    is_listed_for (arc_allocation rec) (arc_caller_access rec))"
proof -
  let ?rg = "registry_run conc cs rg"
  have ok: "grants_ok ?rg" using assms(1) by (rule registry_run_keeps [rotated]) (rule grants_ok_step)
  have "rec \<in> set recs \<longleftrightarrow> (\<exists>r \<in> set (rg_rows ?rg). catalog_filter ?rg caller False r \<and>
      record_of_row r (grant_level_of ?rg (alr_service r) caller) = Inr rec)"
    using traverse_mem [OF assms(2) [unfolded list_products_for_def registry_list_for_def]] by auto
  with catalog_row [OF ok] show ?thesis by blast
qed

text \<open>Two open products, one of them hidden from all but the user 7; then the other is hidden too.\<close>

definition sample_product :: "uuid \<Rightarrow> string \<Rightarrow> string \<Rightarrow> allocation_row" where
  "sample_product i name level =
     \<lparr>alr_id = i, alr_service = name, alr_title = ''T'', alr_summary = '''', alr_state = ''open'', alr_unit_cap = show_u128 10,
       alr_icon = ''fund'', alr_access = level, alr_backing = ''cash'', alr_created_at = 1, alr_updated_at = 1\<rparr>"

definition sample_registry :: registry where
  "sample_registry = \<lparr>rg_rows = [sample_product 1 ''a'' ''view'', sample_product 2 ''b'' ''hidden''],
     rg_grants = [\<lparr>agr_service = ''b'', agr_user = 7, agr_level = ''invest'', agr_granted_by = 8, agr_granted_at = 1\<rparr>],
     rg_log = []\<rparr>"

definition sample_commands :: "(int \<times> registry_command) list" where
  "sample_commands = [(2, Access_Product (ServiceId ''a'') Hidden), (3, Access_Product service_fee Invest)]"

definition sample_listed :: allocation_record where
  "sample_listed = \<lparr>arc_allocation = \<lparr>al_id = 2, al_service = ServiceId ''b'', al_title = ''T'', al_summary = '''',
       al_state = Open_Allocation, al_unit_cap = Shares 10, al_icon = Fund_Icon, al_access = Hidden, al_backing = Cash,
       al_pending = []\<rparr>, arc_caller_access = Invest, arc_created_at = 1, arc_updated_at = 1\<rparr>"

lemma sample_names:
  "service_id_parse ''a'' = Inr (ServiceId ''a'')" "service_id_parse ''b'' = Inr (ServiceId ''b'')"
  by (simp_all add: service_id_parse_def trim_graphic graphic_def byte_def is_ascii_alphanumeric_def is_ascii_alphabetic_def
      is_ascii_digit_def)

lemma sample_run:
  "registry_run (\<lambda>_. None) sample_commands sample_registry =
     sample_registry\<lparr>rg_rows := [(sample_product 1 ''a'' ''hidden'')\<lparr>alr_updated_at := 2\<rparr>, sample_product 2 ''b'' ''hidden''],
       rg_log := [Allocation_AccessChanged 1 (ServiceId ''a'') Hidden]\<rparr>"
proof -
  have first: "set_product_access 2 sample_registry (ServiceId ''a'') Hidden =
     Inr (sample_registry\<lparr>rg_rows := [(sample_product 1 ''a'' ''hidden'')\<lparr>alr_updated_at := 2\<rparr>, sample_product 2 ''b'' ''hidden''],
       rg_log := [Allocation_AccessChanged 1 (ServiceId ''a'') Hidden]\<rparr>,
       \<lparr>al_id = 1, al_service = ServiceId ''a'', al_title = ''T'', al_summary = '''', al_state = Open_Allocation,
         al_unit_cap = Shares 10, al_icon = Fund_Icon, al_access = Hidden, al_backing = Cash, al_pending = []\<rparr>)"
    by (simp add: product_commands refuse_on_reserved_def service_is_reserved_def RESERVED_FEE_def RESERVED_FUND_def
        registry_transition_def load_allocation_def row_of_service_def sample_registry_def sample_product_def allocation_of_row_def
        sample_names allocation_state_parse_def access_parse_def backing_parse_def icon_parse_def allocation_set_access_def
        allocation_raise_def update_allocation_row_def written_row_def log_allocation_def allocation_drain_def)
  show ?thesis
    by (simp add: registry_run_def registry_step_def sample_commands_def first)
      (simp add: set_product_access_def refuse_on_reserved_def service_is_reserved_def service_fee_def)
qed

lemma sample_catalog:
  "list_products_for (\<lambda>_. 0 :: nat) (registry_run (\<lambda>_. None) sample_commands sample_registry) 7 False = Inr [sample_listed]"
  unfolding sample_run
  by (simp add: list_products_for_def registry_list_for_def catalog_filter_def grant_level_of_def sample_registry_def
      sample_product_def record_of_row_def access_parse_def allocation_of_row_def sample_names allocation_state_parse_def
      backing_parse_def icon_parse_def access_effective_def max_def less_eq_allocation_access_def sample_listed_def)

theorem catalog_lists_admitted_witness:
  "\<exists>r \<in> set (rg_rows (registry_run (\<lambda>_. None) sample_commands sample_registry)).
     record_of_row r (grant_level_of (registry_run (\<lambda>_. None) sample_commands sample_registry) (alr_service r) 7) = Inr sample_listed \<and>
     is_listed_for (arc_allocation sample_listed) (arc_caller_access sample_listed)"
proof -
  have "grants_ok sample_registry" by (simp add: grants_ok_def sample_registry_def)
  from catalog_lists_admitted [OF this sample_catalog, of sample_listed] show ?thesis by simp
qed

end
