(* ===== verification/FundStore.thy ===== *)
theory FundStore
  imports FeeStore FundUnits LedgerPlans
begin

text \<open>
  The tables the units of a fund are dealt over: the valuation marks (\<^verbatim>\<open>infrastructure/nav.rs\<close>),
  subscriptions (\<^verbatim>\<open>subscriptions.rs\<close>), redemptions (\<^verbatim>\<open>redemptions.rs\<close>), issuances
  (\<^verbatim>\<open>issuance.rs\<close>) and the positions (\<^verbatim>\<open>positions.rs\<close>) that the relay projects a settled deal
  on (\<^verbatim>\<open>relay.rs\<close>), each settling the fee accrued so far first (\<^verbatim>\<open>fee_accrual.rs\<close>).  A command
  that fails writes nothing, so its model answers an error alone.  A stamp is a number of
  microseconds.  A position's columns are decimal texts of any length that SQL computes on: natural
  numbers here, read back as 128-bit words.  How the database divides two of them is an argument.
\<close>

section \<open>Rows\<close>

record mark_row =
  mk_id :: uuid
  mk_service :: string
  mk_aum :: string
  mk_units :: string
  mk_nav :: string
  mk_posted_by :: string
  mk_posted_at :: int

record subscription_row =
  sbr_id :: uuid
  sbr_user :: uuid
  sbr_service :: string
  sbr_cash :: string
  sbr_nav :: string
  sbr_units :: string

record redemption_row =
  rdr_id :: uuid
  rdr_user :: uuid
  rdr_service :: string
  rdr_units :: string
  rdr_nav :: "string option"
  rdr_cash :: "string option"
  rdr_state :: string
  rdr_created_at :: int

record fund_position_row =
  pw_user :: uuid
  pw_service :: string
  pw_cost_basis :: nat
  pw_units :: nat
  pw_high_water_mark :: nat
  pw_fee_debt :: nat
  pw_accrued_at :: int
  pw_crystallized_at :: int

record issuance_row =
  isr_id :: uuid
  isr_service :: string
  isr_holder_kind :: string
  isr_holder_id :: "uuid option"
  isr_holder_service :: "string option"
  isr_source :: string
  isr_units :: string
  isr_nav :: string
  isr_cost_basis :: string
  isr_key :: string
  isr_state :: string
  isr_created_at :: int
  isr_applied_at :: "int option"

record saga_step =
  ss_event :: uuid
  ss_leg :: int
  ss_role :: string
  ss_transfer :: u128

record fund_db =
  fd_marks :: "mark_row list"
  fd_subscriptions :: "subscription_row list"
  fd_redemptions :: "redemption_row list"
  fd_positions :: "fund_position_row list"
  fd_issuances :: "issuance_row list"
  fd_steps :: "saga_step list"
  fd_outbox :: "relay_event list"

text \<open>What the tables ask of outside them.\<close>

record fund_env =
  fe_show :: "uuid \<Rightarrow> string"
  fe_policy :: "service_id \<Rightarrow> fee_policy option result"
  fe_div :: "nat \<Rightarrow> nat \<Rightarrow> nat"
  fe_email :: "uuid \<Rightarrow> string option"
  fe_protocol :: "string \<Rightarrow> string"

definition parse_stored :: "string \<Rightarrow> string \<Rightarrow> u128 result" where
  "parse_stored what raw = ok_or (parse_u128 raw) (Repository (''malformed '' @ what))"

definition read_stored :: "string \<Rightarrow> nat \<Rightarrow> u128 result" where
  "read_stored what n = (if n < 2 ^ 128 then Inr (word_of_nat n) else Inl (Repository (''malformed '' @ what)))"

definition stored_duplicate :: domain_error where
  "stored_duplicate = Repository ''duplicate key value violates unique constraint''"

section \<open>Valuation marks\<close>

record valuation =
  vl_service :: service_id
  vl_aum :: usdt
  vl_units :: shares
  vl_nav :: nav
  vl_posted_by :: string
  vl_posted_at :: i64

definition floor_seconds :: "int \<Rightarrow> i64" where
  "floor_seconds micros = word_of_int (micros div 1000000)"

definition micros_of :: "i64 \<Rightarrow> int" where
  "micros_of secs = sint secs * 1000000"

definition parse_mark_units :: "string \<Rightarrow> u128 result" where
  "parse_mark_units raw = ok_or (parse_u128 raw) (Repository ''malformed base-unit amount in fund_valuations'')"

definition valuation_of_row :: "mark_row \<Rightarrow> valuation result" where
  "valuation_of_row r =
     rbind (service_id_parse (mk_service r)) (\<lambda>service.
     rbind (parse_mark_units (mk_aum r)) (\<lambda>aum.
     rbind (parse_mark_units (mk_units r)) (\<lambda>units.
     rbind (parse_mark_units (mk_nav r)) (\<lambda>price.
     Inr \<lparr>vl_service = service, vl_aum = Usdt aum, vl_units = Shares units, vl_nav = Nav price,
       vl_posted_by = mk_posted_by r, vl_posted_at = floor_seconds (mk_posted_at r)\<rparr>))))"

definition marks_of :: "fund_db \<Rightarrow> service_id \<Rightarrow> mark_row list" where
  "marks_of db service = sort_key mk_posted_at (filter (\<lambda>r. mk_service r = service_id_str service) (fd_marks db))"

definition newest_mark :: "mark_row list \<Rightarrow> mark_row option" where
  "newest_mark rows = (if rows = [] then None else Some (last rows))"

definition oldest_mark :: "mark_row list \<Rightarrow> mark_row option" where
  "oldest_mark rows = (if rows = [] then None else Some (hd rows))"

fun valuation_found :: "mark_row option \<Rightarrow> valuation option result" where
  "valuation_found None = Inr None"
| "valuation_found (Some r) = rmap Some (valuation_of_row r)"

definition nav_current :: "fund_db \<Rightarrow> service_id \<Rightarrow> valuation option result" where
  "nav_current db service = valuation_found (newest_mark (marks_of db service))"

definition nav_anchor :: "fund_db \<Rightarrow> service_id \<Rightarrow> i64 \<Rightarrow> valuation option result" where
  "nav_anchor db service at =
     (let aged = newest_mark (filter (\<lambda>r. mk_posted_at r \<le> micros_of at) (marks_of db service)) in
      valuation_found (case aged of Some r \<Rightarrow> Some r | None \<Rightarrow> oldest_mark (marks_of db service)))"

definition nav_posted_by_since :: "fund_db \<Rightarrow> service_id \<Rightarrow> string \<Rightarrow> i64 \<Rightarrow> bool" where
  "nav_posted_by_since db service subject since \<longleftrightarrow>
     (\<exists>r \<in> set (fd_marks db). mk_service r = service_id_str service \<and> mk_posted_by r = subject \<and>
        micros_of since < mk_posted_at r)"

definition nav_history :: "fund_db \<Rightarrow> service_id \<Rightarrow> i64 \<Rightarrow> i64 \<Rightarrow> nat \<Rightarrow> valuation list result" where
  "nav_history db service from_unix to_unix limit =
     rmap rev (traverse valuation_of_row
       (take limit (rev (filter (\<lambda>r. micros_of from_unix \<le> mk_posted_at r \<and>
          mk_posted_at r < micros_of (i64_saturating_add to_unix 1)) (marks_of db service)))))"

definition nav_find :: "fund_db \<Rightarrow> uuid \<Rightarrow> valuation option result" where
  "nav_find db i = valuation_found (find (\<lambda>r. mk_id r = i) (fd_marks db))"

definition nav_record ::
  "int \<Rightarrow> uuid \<Rightarrow> service_id \<Rightarrow> usdt \<Rightarrow> shares \<Rightarrow> nav \<Rightarrow> string \<Rightarrow> fund_db \<Rightarrow> (fund_db \<times> i64) result" where
  "nav_record db_now i service aum units price posted_by db =
     (if \<exists>r \<in> set (fd_marks db). mk_id r = i then Inl stored_duplicate
      else Inr (db\<lparr>fd_marks := fd_marks db @ [\<lparr>mk_id = i, mk_service = service_id_str service,
          mk_aum = show_u128 (usdt_units aum), mk_units = show_u128 (shares_units units),
          mk_nav = show_u128 (nav_units price), mk_posted_by = posted_by, mk_posted_at = db_now\<rparr>]\<rparr>,
        floor_seconds db_now))"

section \<open>Positions\<close>

definition position_key :: "uuid \<Rightarrow> string \<Rightarrow> fund_position_row \<Rightarrow> bool" where
  "position_key user service p \<longleftrightarrow> pw_user p = user \<and> pw_service p = service"

definition find_position :: "fund_db \<Rightarrow> uuid \<Rightarrow> string \<Rightarrow> fund_position_row option" where
  "find_position db user service = find (position_key user service) (fd_positions db)"

definition update_position :: "uuid \<Rightarrow> string \<Rightarrow> (fund_position_row \<Rightarrow> fund_position_row) \<Rightarrow> fund_db \<Rightarrow> fund_db" where
  "update_position user service f db =
     db\<lparr>fd_positions := map (\<lambda>p. if position_key user service p then f p else p) (fd_positions db)\<rparr>"

text \<open>The mark the accrual prices a position at is the newest one's column alone.\<close>

definition latest_nav :: "fund_db \<Rightarrow> service_id \<Rightarrow> nav option result" where
  "latest_nav db service =
     (case newest_mark (marks_of db service) of
        None \<Rightarrow> Inr None
      | Some r \<Rightarrow> rmap (\<lambda>n. Some (Nav n)) (parse_stored ''nav'' (mk_nav r)))"

definition row_accrued :: "fund_env \<Rightarrow> fund_db \<Rightarrow> service_id \<Rightarrow> fund_position_row \<Rightarrow> u128 \<Rightarrow> i64 \<Rightarrow> usdt result" where
  "row_accrued env db service row units now_unix =
     rbind (fe_policy env service) (\<lambda>stored.
     case stored of
       None \<Rightarrow> Inr USDT_ZERO
     | Some policy \<Rightarrow>
         if management_bps policy = 0 then Inr USDT_ZERO
         else
           rbind (read_stored ''cost basis'' (pw_cost_basis row)) (\<lambda>cost.
           rbind (read_stored ''high-water mark'' (pw_high_water_mark row)) (\<lambda>mark.
           rbind (case basis policy of MarketValue \<Rightarrow> latest_nav db service | InvestedCapital \<Rightarrow> Inr None) (\<lambda>latest.
           accrued_management (Some policy) latest
             \<lparr>fp_units = Shares units, fp_cost_basis = Usdt cost, fp_fee_debt = USDT_ZERO, fp_high_water_mark = Nav mark,
              fp_accrued_at = word_of_int (epoch_seconds (pw_accrued_at row)),
              fp_crystallized_at = word_of_int (epoch_seconds (pw_crystallized_at row))\<rparr>
             (Shares units) now_unix))))"

definition settle_accrual :: "fund_env \<Rightarrow> uuid \<Rightarrow> service_id \<Rightarrow> i64 \<Rightarrow> fund_db \<Rightarrow> fund_db result" where
  "settle_accrual env user service now_unix db =
     (let name = service_id_str service in
      case find_position db user name of
        None \<Rightarrow> Inr db
      | Some row \<Rightarrow>
          rbind (read_stored ''position units'' (pw_units row)) (\<lambda>units.
          if units = 0
          then Inr (update_position user name
                 (\<lambda>p. p\<lparr>pw_accrued_at := micros_of now_unix, pw_crystallized_at := micros_of now_unix\<rparr>) db)
          else
            rbind (row_accrued env db service row units now_unix) (\<lambda>accrued.
            rbind (read_stored ''fee debt'' (pw_fee_debt row)) (\<lambda>debt.
            rbind (ok_or (usdt_checked_add (Usdt debt) accrued) (Repository ''carried fee debt overflows'')) (\<lambda>carried.
            Inr (update_position user name
              (\<lambda>p. p\<lparr>pw_fee_debt := usdt_val carried, pw_accrued_at := micros_of now_unix\<rparr>) db))))))"

text \<open>The upsert of a buy, and the pro-rata cut of a sale, which stops at nothing.\<close>

definition raise_position :: "int \<Rightarrow> uuid \<Rightarrow> service_id \<Rightarrow> usdt \<Rightarrow> shares \<Rightarrow> nav \<Rightarrow> fund_db \<Rightarrow> fund_db" where
  "raise_position db_now user service cash units price db =
     (let name = service_id_str service in
      case find_position db user name of
        None \<Rightarrow> db\<lparr>fd_positions := fd_positions db @ [\<lparr>pw_user = user, pw_service = name,
            pw_cost_basis = usdt_val cash, pw_units = shares_val units, pw_high_water_mark = nav_val price,
            pw_fee_debt = 0, pw_accrued_at = db_now, pw_crystallized_at = db_now\<rparr>]\<rparr>
      | Some _ \<Rightarrow> update_position user name
          (\<lambda>p. p\<lparr>pw_cost_basis := pw_cost_basis p + usdt_val cash, pw_units := pw_units p + shares_val units,
              pw_high_water_mark := max (pw_high_water_mark p) (nav_val price)\<rparr>) db)"

definition cut_position :: "fund_env \<Rightarrow> uuid \<Rightarrow> service_id \<Rightarrow> shares \<Rightarrow> fund_db \<Rightarrow> fund_db" where
  "cut_position env user service units db =
     update_position user (service_id_str service)
       (\<lambda>p. p\<lparr>pw_cost_basis := (if shares_val units < pw_units p
                 then fe_div env (pw_cost_basis p * (pw_units p - shares_val units)) (pw_units p) else 0),
            pw_units := pw_units p - shares_val units\<rparr>) db"

text \<open>An error inside a projection is the driver's, whose rendering is an argument.\<close>

definition as_protocol :: "fund_env \<Rightarrow> string \<Rightarrow> 'a result \<Rightarrow> string + 'a" where
  "as_protocol env what m = (case m of Inl e \<Rightarrow> Inl (fe_protocol env (what @ error_display e)) | Inr x \<Rightarrow> Inr x)"

definition project_holder_position ::
  "fund_env \<Rightarrow> int \<Rightarrow> i64 \<Rightarrow> unit_holder \<Rightarrow> issuance_source \<Rightarrow> service_id \<Rightarrow> shares \<Rightarrow> nav \<Rightarrow> usdt \<Rightarrow> fund_db
    \<Rightarrow> string + fund_db" where
  "project_holder_position env db_now now_unix holder source service units price cost db =
     (case holder of
        Allocation_Holder _ \<Rightarrow> Inr db
      | User_Holder user \<Rightarrow>
          rbind (as_protocol env ''carry fee accrual before issuance basis change: ''
                   (settle_accrual env user service now_unix db)) (\<lambda>db1.
          Inr (case source of
                 Mint_Source \<Rightarrow> raise_position db_now user service cost units price db1
               | Retire_Source \<Rightarrow> cut_position env user service units db1)))"

section \<open>What the relay projects once a deal is on the ledger\<close>

definition PROJECTION_LEG :: int where
  "PROJECTION_LEG = 100"

text \<open>The marker of an event is written once; a redelivery finds it and projects nothing.\<close>

definition project_once ::
  "uuid \<Rightarrow> string \<Rightarrow> u128 \<Rightarrow> (fund_db \<Rightarrow> string + fund_db) \<Rightarrow> fund_db \<Rightarrow> string + fund_db" where
  "project_once event role marker apply_to db =
     (if \<exists>s \<in> set (fd_steps db). ss_event s = event \<and> ss_leg s = PROJECTION_LEG then Inr db
      else if \<exists>s \<in> set (fd_steps db). ss_transfer s = marker then Inl ''duplicate key value violates unique constraint''
      else apply_to (db\<lparr>fd_steps := fd_steps db @
        [\<lparr>ss_event = event, ss_leg = PROJECTION_LEG, ss_role = role, ss_transfer = marker\<rparr>]\<rparr>))"

definition project_subscription ::
  "fund_env \<Rightarrow> tid \<Rightarrow> int \<Rightarrow> i64 \<Rightarrow> outbox_row \<Rightarrow> subscription_event \<Rightarrow> fund_db \<Rightarrow> string + fund_db" where
  "project_subscription env tid db_now now_unix row e db =
     (case e of Subscribed i user service cash price units \<Rightarrow>
        project_once (ob_event_id row) ''subscribe_position'' (tid (ob_aggregate_id row) ''subscribe:position'')
          (\<lambda>db. rbind (as_protocol env ''carry fee accrual before subscribe basis change: ''
                      (settle_accrual env user service now_unix db)) (\<lambda>db1.
             Inr (raise_position db_now user service cash units price db1))) db)"

definition apply_issuance :: "int \<Rightarrow> uuid \<Rightarrow> fund_db \<Rightarrow> fund_db" where
  "apply_issuance db_now i db =
     db\<lparr>fd_issuances := map (\<lambda>r. if isr_id r = i \<and> isr_state r = ''queued''
          then r\<lparr>isr_state := ''applied'', isr_applied_at := Some db_now\<rparr> else r) (fd_issuances db)\<rparr>"

definition project_issuance ::
  "fund_env \<Rightarrow> tid \<Rightarrow> int \<Rightarrow> i64 \<Rightarrow> outbox_row \<Rightarrow> issuance_event \<Rightarrow> fund_db \<Rightarrow> string + fund_db" where
  "project_issuance env tid db_now now_unix row e db =
     (case e of Issued i service holder source units price cost \<Rightarrow>
        project_once (ob_event_id row) ''issue_applied'' (tid (ob_aggregate_id row) ''issue:applied'')
          (\<lambda>db. project_holder_position env db_now now_unix holder source service units price cost
                  (apply_issuance db_now (ob_aggregate_id row) db)) db)"

definition buyer_paid :: "fund_env \<Rightarrow> side \<Rightarrow> usdt \<Rightarrow> usdt \<Rightarrow> string + usdt" where
  "buyer_paid env taker_side notional fee =
     (case taker_side of
        Buy \<Rightarrow> ok_or (usdt_checked_add notional fee) (fe_protocol env ''trade cost overflows'')
      | Sell \<Rightarrow> Inr notional)"

definition project_trade ::
  "fund_env \<Rightarrow> tid \<Rightarrow> int \<Rightarrow> i64 \<Rightarrow> outbox_row \<Rightarrow> book_event \<Rightarrow> fund_db \<Rightarrow> string + fund_db" where
  "project_trade env tid db_now now_unix row e db =
     (case e of
        TradeExecuted _ service buyer seller _ _ taker_side amount _ notional fee price _ \<Rightarrow>
          project_once (ob_event_id row) ''book_trade_position'' (tid (ob_aggregate_id row) ''book:trade:position'')
            (\<lambda>db. rbind (buyer_paid env taker_side notional fee) (\<lambda>paid.
               rbind (as_protocol env ''carry fee accrual before buy basis change: ''
                        (settle_accrual env buyer service now_unix db)) (\<lambda>db1.
               rbind (as_protocol env ''carry fee accrual before sell basis change: ''
                        (settle_accrual env seller service now_unix
                          (raise_position db_now buyer service paid amount price db1))) (\<lambda>db2.
               Inr (cut_position env seller service amount db2))))) db
      | _ \<Rightarrow> Inr db)"

end
