(* ===== verification/FundDeals.thy ===== *)
theory FundDeals
  imports FundStore
begin

text \<open>
  The commands over the tables of \<open>FundStore\<close>: opening a subscription
  (\<^verbatim>\<open>infrastructure/subscriptions.rs\<close>), opening, settling, failing and cancelling a redemption
  (\<^verbatim>\<open>redemptions.rs\<close>), recording an issuance (\<^verbatim>\<open>issuance.rs\<close>), and the reads of a position
  (\<^verbatim>\<open>positions.rs\<close>).  The spend guard a subscription runs under the claim's lock answers through an
  argument.
\<close>

section \<open>Subscriptions\<close>

definition subscription_of_row :: "subscription_row \<Rightarrow> subscription result" where
  "subscription_of_row r =
     rbind (service_id_parse (sbr_service r)) (\<lambda>service.
     rbind (parse_stored ''subscription cash'' (sbr_cash r)) (\<lambda>cash.
     rbind (parse_stored ''subscription nav'' (sbr_nav r)) (\<lambda>price.
     rbind (parse_stored ''subscription units'' (sbr_units r)) (\<lambda>units.
     Inr \<lparr>sb_id = sbr_id r, sb_user = sbr_user r, sb_service = service, sb_cash = Usdt cash, sb_nav = Nav price,
       sb_units = Shares units, sb_pending = []\<rparr>))))"

definition row_of_subscription :: "subscription \<Rightarrow> subscription_row" where
  "row_of_subscription s =
     \<lparr>sbr_id = sb_id s, sbr_user = sb_user s, sbr_service = service_id_str (sb_service s),
       sbr_cash = show_u128 (usdt_units (sb_cash s)), sbr_nav = show_u128 (nav_units (sb_nav s)),
       sbr_units = show_u128 (shares_units (sb_units s))\<rparr>"

definition open_subscription :: "unit result \<Rightarrow> subscription \<Rightarrow> fund_db \<Rightarrow> (fund_db \<times> subscription) result" where
  "open_subscription guard_answer s db =
     rbind guard_answer (\<lambda>_.
     if \<exists>r \<in> set (fd_subscriptions db). sbr_id r = sb_id s then Inl stored_duplicate
     else Inr (db\<lparr>fd_subscriptions := fd_subscriptions db @ [row_of_subscription s],
                  fd_outbox := fd_outbox db @ map Subscription_Fact (sb_pending s)\<rparr>,
               s\<lparr>sb_pending := []\<rparr>))"

definition find_subscription :: "fund_db \<Rightarrow> uuid \<Rightarrow> subscription option result" where
  "find_subscription db i =
     (case find (\<lambda>r. sbr_id r = i) (fd_subscriptions db) of
        None \<Rightarrow> Inr None
      | Some r \<Rightarrow> rmap Some (subscription_of_row r))"

section \<open>Redemptions\<close>

fun read_optional :: "string \<Rightarrow> string option \<Rightarrow> u128 option result" where
  "read_optional what None = Inr None"
| "read_optional what (Some raw) = rmap Some (parse_stored what raw)"

definition redemption_of_row :: "redemption_row \<Rightarrow> redemption result" where
  "redemption_of_row r =
     rbind (read_optional ''redemption nav'' (rdr_nav r)) (\<lambda>price.
     rbind (read_optional ''redemption cash'' (rdr_cash r)) (\<lambda>cash.
     rbind (service_id_parse (rdr_service r)) (\<lambda>service.
     rbind (parse_stored ''redemption units'' (rdr_units r)) (\<lambda>units.
     rbind (redemption_state_parse (rdr_state r)) (\<lambda>state.
     Inr \<lparr>rd_id = rdr_id r, rd_user = rdr_user r, rd_service = service, rd_units = Shares units,
       rd_nav = map_option Nav price, rd_cash = map_option Usdt cash, rd_state = state, rd_pending = []\<rparr>)))))"

definition row_of_redemption :: "int \<Rightarrow> redemption \<Rightarrow> redemption_row" where
  "row_of_redemption db_now r =
     \<lparr>rdr_id = rd_id r, rdr_user = rd_user r, rdr_service = service_id_str (rd_service r),
       rdr_units = show_u128 (shares_units (rd_units r)),
       rdr_nav = map_option (show_u128 \<circ> nav_units) (rd_nav r),
       rdr_cash = map_option (show_u128 \<circ> usdt_units) (rd_cash r),
       rdr_state = redemption_state_str (rd_state r), rdr_created_at = db_now\<rparr>"

definition redemption_not_found :: "fund_env \<Rightarrow> uuid \<Rightarrow> domain_error" where
  "redemption_not_found env i = NotFound ''redemption'' (fe_show env i)"

definition find_redemption_row :: "fund_db \<Rightarrow> uuid \<Rightarrow> redemption_row option" where
  "find_redemption_row db i = find (\<lambda>r. rdr_id r = i) (fd_redemptions db)"

definition load_redemption :: "fund_env \<Rightarrow> uuid \<Rightarrow> fund_db \<Rightarrow> redemption result" where
  "load_redemption env i db =
     rbind (ok_or (find_redemption_row db i) (redemption_not_found env i)) redemption_of_row"

definition write_redemption :: "redemption \<Rightarrow> fund_db \<Rightarrow> fund_db result" where
  "write_redemption r db =
     (if length (filter (\<lambda>x. rdr_id x = rd_id r) (fd_redemptions db)) \<noteq> 1
      then Inl (Repository ''redemption row vanished under lock'')
      else Inr (db\<lparr>fd_redemptions := map (\<lambda>x. if rdr_id x = rd_id r
             then x\<lparr>rdr_state := redemption_state_str (rd_state r),
                    rdr_nav := map_option (show_u128 \<circ> nav_units) (rd_nav r),
                    rdr_cash := map_option (show_u128 \<circ> usdt_units) (rd_cash r)\<rparr> else x) (fd_redemptions db)\<rparr>))"

definition drain_redemption :: "redemption \<Rightarrow> fund_db \<Rightarrow> fund_db \<times> redemption" where
  "drain_redemption r db =
     (let (drained, events) = redemption_drain r in (db\<lparr>fd_outbox := fd_outbox db @ map Redemption_Fact events\<rparr>, drained))"

definition open_redemption :: "int \<Rightarrow> redemption \<Rightarrow> fund_db \<Rightarrow> (fund_db \<times> redemption) result" where
  "open_redemption db_now r db =
     (if \<exists>x \<in> set (fd_redemptions db). rdr_id x = rd_id r then Inl stored_duplicate
      else Inr (drain_redemption r (db\<lparr>fd_redemptions := fd_redemptions db @ [row_of_redemption db_now r]\<rparr>)))"

definition reduce_cost_basis :: "fund_env \<Rightarrow> i64 \<Rightarrow> redemption \<Rightarrow> fund_db \<Rightarrow> fund_db result" where
  "reduce_cost_basis env now_unix r db =
     rbind (settle_accrual env (rd_user r) (rd_service r) now_unix db) (\<lambda>db1.
     let name = service_id_str (rd_service r); units = shares_val (rd_units r) in
     if length (filter (\<lambda>p. position_key (rd_user r) name p \<and> units \<le> pw_units p) (fd_positions db1)) \<noteq> 1
     then Inl (Conflict (''position projection has not caught up to the subscribe '' @ em_dash @ '' retry the settle''))
     else Inr (update_position (rd_user r) name
       (\<lambda>p. if units \<le> pw_units p
            then p\<lparr>pw_cost_basis := fe_div env (pw_cost_basis p * (pw_units p - units)) (pw_units p),
                   pw_units := pw_units p - units\<rparr>
            else p) db1))"

definition settle_stored :: "fund_env \<Rightarrow> i64 \<Rightarrow> uuid \<Rightarrow> nav \<Rightarrow> fund_db \<Rightarrow> (fund_db \<times> redemption) result" where
  "settle_stored env now_unix i price db =
     rbind (load_redemption env i db) (\<lambda>loaded.
     if rd_state loaded = Completed_Redemption then Inr (db, loaded)
     else rbind (redemption_settle loaded price) (\<lambda>r.
       rbind (write_redemption r db) (\<lambda>db1.
       rbind (reduce_cost_basis env now_unix r db1) (\<lambda>db2.
       Inr (drain_redemption r db2)))))"

definition redemption_transition ::
  "fund_env \<Rightarrow> (redemption \<Rightarrow> redemption result) \<Rightarrow> uuid \<Rightarrow> fund_db \<Rightarrow> (fund_db \<times> redemption) result" where
  "redemption_transition env command i db =
     rbind (load_redemption env i db) (\<lambda>loaded.
     rbind (command loaded) (\<lambda>r.
     rbind (write_redemption r db) (\<lambda>db1.
     Inr (drain_redemption r db1))))"

definition fail_stored :: "fund_env \<Rightarrow> uuid \<Rightarrow> fund_db \<Rightarrow> (fund_db \<times> redemption) result" where
  "fail_stored env i db = redemption_transition env redemption_fail i db"

definition cancel_stored :: "fund_env \<Rightarrow> uuid \<Rightarrow> fund_db \<Rightarrow> (fund_db \<times> redemption) result" where
  "cancel_stored env i db = redemption_transition env redemption_cancel i db"

definition find_redemption :: "fund_db \<Rightarrow> uuid \<Rightarrow> redemption option result" where
  "find_redemption db i =
     (case find_redemption_row db i of None \<Rightarrow> Inr None | Some r \<Rightarrow> rmap Some (redemption_of_row r))"

definition redemptions_of_user :: "fund_db \<Rightarrow> uuid \<Rightarrow> redemption list result" where
  "redemptions_of_user db user =
     traverse redemption_of_row
       (rev (sort_key rdr_created_at (filter (\<lambda>r. rdr_user r = user) (fd_redemptions db))))"

record queued_redemption =
  qr_id :: uuid
  qr_user :: uuid
  qr_email :: string
  qr_service :: service_id
  qr_units :: shares
  qr_created_at :: i64

definition queued_redemptions :: "fund_env \<Rightarrow> fund_db \<Rightarrow> queued_redemption list result" where
  "queued_redemptions env db =
     traverse (\<lambda>r.
         rbind (service_id_parse (rdr_service r)) (\<lambda>service.
         rbind (parse_stored ''redemption units'' (rdr_units r)) (\<lambda>units.
         Inr \<lparr>qr_id = rdr_id r, qr_user = rdr_user r,
           qr_email = (case fe_email env (rdr_user r) of Some e \<Rightarrow> e | None \<Rightarrow> ''''), qr_service = service,
           qr_units = Shares units, qr_created_at = word_of_int (epoch_seconds (rdr_created_at r))\<rparr>)))
       (sort_key rdr_created_at (filter (\<lambda>r. rdr_state r = ''queued'') (fd_redemptions db)))"

section \<open>Issuances\<close>

record issued_record =
  ir_issuance :: unit_issuance
  ir_created_at :: int
  ir_applied_at :: "int option"

datatype company_movement = Minted_To_Company | Handed_To uuid

datatype stored_issuance =
    Live_Issuance issued_record
  | Retired_Company uuid service_id company_movement shares int "int option"

definition RETIRED_COMPANY :: string where
  "RETIRED_COMPANY = ''company''"

definition live_issuance_of_row :: "issuance_row \<Rightarrow> issued_record result" where
  "live_issuance_of_row r =
     rbind (service_id_parse (isr_service r)) (\<lambda>service.
     rbind (case isr_holder_service r of None \<Rightarrow> Inr None | Some raw \<Rightarrow> rmap Some (service_id_parse raw)) (\<lambda>holder_service.
     rbind (holder_from_parts (isr_holder_kind r) (isr_holder_id r) holder_service) (\<lambda>holder.
     rbind (issuance_source_parse (isr_source r)) (\<lambda>source.
     rbind (parse_stored ''issuance units'' (isr_units r)) (\<lambda>units.
     rbind (parse_stored ''issuance nav'' (isr_nav r)) (\<lambda>price.
     rbind (parse_stored ''issuance cost basis'' (isr_cost_basis r)) (\<lambda>cost.
     rbind (issuance_key_parse (isr_key r)) (\<lambda>key.
     rbind (issuance_state_parse (isr_state r)) (\<lambda>state.
     Inr \<lparr>ir_issuance = \<lparr>ui_id = isr_id r, ui_service = service, ui_holder = holder, ui_source = source,
            ui_units = Shares units, ui_nav = Nav price, ui_cost_basis = Usdt cost, ui_key = key, ui_state = state,
            ui_pending = []\<rparr>,
          ir_created_at = epoch_seconds (isr_created_at r), ir_applied_at = map_option epoch_seconds (isr_applied_at r)\<rparr>)))))))))"

definition company_movement_of :: "fund_env \<Rightarrow> issuance_row \<Rightarrow> company_movement option result" where
  "company_movement_of env r =
     (if isr_holder_kind r = RETIRED_COMPANY \<and> isr_source r = ''mint'' \<and> isr_holder_id r = None
      then Inr (Some Minted_To_Company)
      else case isr_holder_id r of
        Some user \<Rightarrow>
          if isr_holder_kind r = ''user'' \<and> isr_source r = RETIRED_COMPANY then Inr (Some (Handed_To user))
          else if isr_holder_kind r = RETIRED_COMPANY \<or> isr_source r = RETIRED_COMPANY
          then Inl (Repository (''issuance '' @ fe_show env (isr_id r) @ '' names the retired company stake in a shape it never had''))
          else Inr None
      | None \<Rightarrow>
          if isr_holder_kind r = RETIRED_COMPANY \<or> isr_source r = RETIRED_COMPANY
          then Inl (Repository (''issuance '' @ fe_show env (isr_id r) @ '' names the retired company stake in a shape it never had''))
          else Inr None)"

definition stored_issuance_of_row :: "fund_env \<Rightarrow> issuance_row \<Rightarrow> stored_issuance result" where
  "stored_issuance_of_row env r =
     rbind (company_movement_of env r) (\<lambda>movement.
     case movement of
       None \<Rightarrow> rmap Live_Issuance (live_issuance_of_row r)
     | Some m \<Rightarrow>
         rbind (service_id_parse (isr_service r)) (\<lambda>service.
         rbind (parse_stored ''issuance units'' (isr_units r)) (\<lambda>units.
         Inr (Retired_Company (isr_id r) service m (Shares units) (epoch_seconds (isr_created_at r))
           (map_option epoch_seconds (isr_applied_at r))))))"

definition issuance_row_by_key :: "fund_db \<Rightarrow> service_id \<Rightarrow> issuance_key \<Rightarrow> issuance_row option" where
  "issuance_row_by_key db service key =
     find (\<lambda>r. isr_service r = service_id_str service \<and> isr_key r = issuance_key_str key) (fd_issuances db)"

definition issuance_by_key :: "fund_env \<Rightarrow> fund_db \<Rightarrow> service_id \<Rightarrow> issuance_key \<Rightarrow> stored_issuance option result" where
  "issuance_by_key env db service key =
     (case issuance_row_by_key db service key of
        None \<Rightarrow> Inr None
      | Some r \<Rightarrow> rmap Some (stored_issuance_of_row env r))"

definition row_of_issuance :: "int \<Rightarrow> unit_issuance \<Rightarrow> issuance_row" where
  "row_of_issuance db_now u =
     \<lparr>isr_id = ui_id u, isr_service = service_id_str (ui_service u), isr_holder_kind = holder_kind_str (ui_holder u),
       isr_holder_id = holder_user_id (ui_holder u),
       isr_holder_service = map_option service_id_str (holder_service_id (ui_holder u)),
       isr_source = issuance_source_str (ui_source u), isr_units = show_u128 (shares_units (ui_units u)),
       isr_nav = show_u128 (nav_units (ui_nav u)), isr_cost_basis = show_u128 (usdt_units (ui_cost_basis u)),
       isr_key = issuance_key_str (ui_key u), isr_state = issuance_state_str (ui_state u),
       isr_created_at = db_now, isr_applied_at = None\<rparr>"

datatype issue_outcome = Recorded_Issuance issued_record | Existing_Issuance issued_record

definition quoted_key :: "issuance_key \<Rightarrow> string" where
  "quoted_key key = ''idempotency key '' @ [CHR 0x27] @ issuance_key_str key @ [CHR 0x27]"

definition company_key_conflict :: "issuance_key \<Rightarrow> service_id \<Rightarrow> domain_error" where
  "company_key_conflict key service =
     Conflict (quoted_key key @ '' already names a historical company-stake issuance on '' @
       [CHR 0x27] @ service_id_str service @ [CHR 0x27])"

definition issue_stored :: "fund_env \<Rightarrow> int \<Rightarrow> unit_issuance \<Rightarrow> fund_db \<Rightarrow> (fund_db \<times> issue_outcome) result" where
  "issue_stored env db_now u db =
     (case issuance_row_by_key db (ui_service u) (ui_key u) of
        Some _ \<Rightarrow>
          rbind (issuance_by_key env db (ui_service u) (ui_key u)) (\<lambda>found.
          rbind (ok_or found (Repository ''issuance key conflicted but no row was found'')) (\<lambda>existing.
          case existing of
            Live_Issuance rec \<Rightarrow> Inr (db, Existing_Issuance rec)
          | Retired_Company _ _ _ _ _ _ \<Rightarrow> Inl (company_key_conflict (ui_key u) (ui_service u))))
      | None \<Rightarrow>
          if \<exists>r \<in> set (fd_issuances db). isr_id r = ui_id u then Inl stored_duplicate
          else
            let row = row_of_issuance db_now u in
            rbind (live_issuance_of_row row) (\<lambda>rec.
            Inr (db\<lparr>fd_issuances := fd_issuances db @ [row],
                    fd_outbox := fd_outbox db @ map Issuance_Fact (ui_pending u)\<rparr>, Recorded_Issuance rec)))"

definition find_issuance :: "fund_env \<Rightarrow> fund_db \<Rightarrow> uuid \<Rightarrow> stored_issuance option result" where
  "find_issuance env db i =
     (case find (\<lambda>r. isr_id r = i) (fd_issuances db) of
        None \<Rightarrow> Inr None
      | Some r \<Rightarrow> rmap Some (stored_issuance_of_row env r))"

text \<open>The sum runs in the database, over the digits of the rows.\<close>

definition queued_mint_units :: "fund_db \<Rightarrow> service_id \<Rightarrow> shares result" where
  "queued_mint_units db service =
     rmap Shares (read_stored ''queued mint units''
       (sum_list (map (\<lambda>r. decimal_value (isr_units r) 0)
         (filter (\<lambda>r. isr_service r = service_id_str service \<and> isr_state r = ''queued'' \<and> isr_source r = ''mint'')
           (fd_issuances db)))))"

section \<open>Positions, as read\<close>

record stored_position =
  sp_service :: service_id
  sp_cost_basis :: usdt
  sp_high_water_mark :: nav

definition parse_position_units :: "nat \<Rightarrow> u128 result" where
  "parse_position_units n =
     (if n < 2 ^ 128 then Inr (word_of_nat n) else Inl (Repository ''malformed base-unit amount in fund_positions''))"

definition stored_position_of :: "fund_position_row \<Rightarrow> stored_position result" where
  "stored_position_of p =
     rbind (service_id_parse (pw_service p)) (\<lambda>service.
     rbind (parse_position_units (pw_cost_basis p)) (\<lambda>cost.
     rbind (parse_position_units (pw_high_water_mark p)) (\<lambda>mark.
     Inr \<lparr>sp_service = service, sp_cost_basis = Usdt cost, sp_high_water_mark = Nav mark\<rparr>)))"

definition read_position :: "fund_db \<Rightarrow> uuid \<Rightarrow> service_id \<Rightarrow> stored_position option result" where
  "read_position db user service =
     (case find_position db user (service_id_str service) of
        None \<Rightarrow> Inr None
      | Some p \<Rightarrow> rmap Some (stored_position_of p))"

definition list_stored_positions :: "(string \<Rightarrow> 'k::linorder) \<Rightarrow> fund_db \<Rightarrow> uuid \<Rightarrow> stored_position list result" where
  "list_stored_positions collation db user =
     traverse stored_position_of (sort_key (collation \<circ> pw_service) (filter (\<lambda>p. pw_user p = user) (fd_positions db)))"

end
