(* ===== verification/FundUse.thy ===== *)
theory FundUse
  imports FundDeals RegistryStore ConsiliumUse
begin

text \<open>
  Dealing in the units of a fund (\<^verbatim>\<open>application/funds.rs\<close>): the price everything is dealt at, posted
  for a product and computed for a reserved allocation, the gates a subscription and a redemption clear,
  the valuation an operator may post, what a holder is shown; and units minted or retired by an
  operator or the owners (\<^verbatim>\<open>application/issuance.rs\<close>) with the picture of who owns an allocation
  (\<^verbatim>\<open>application/ownership.rs\<close>).  What the ledger answers is an argument; fresh ids and the clocks
  are arguments; the wake-up of the relay is not modelled.
\<close>

datatype holding_scope = Product_Scope service_id | Holder_Scope unit_holder

record unit_flow =
  uf_at :: int
  uf_delta :: int

record fund_ports =
  fu_env :: fund_env
  fu_balance :: "account_key \<Rightarrow> ledger_error + ledger_balance"
  fu_spendable :: "account_key \<Rightarrow> ledger_error + u128"
  fu_spendable_locked :: "account_key \<Rightarrow> ledger_error + u128"
  fu_holdings :: "holding_scope \<Rightarrow> ledger_error + (account_key \<times> u128) list"
  fu_flows :: "uuid \<Rightarrow> service_id \<Rightarrow> unit_flow list result"
  fu_user_active :: "uuid \<Rightarrow> bool option result"

definition MAX_NAV_MOVE_PCT :: u128 where
  "MAX_NAV_MOVE_PCT = 50"

definition NAV_MOVE_WINDOW_SECS :: i64 where
  "NAV_MOVE_WINDOW_SECS = 7 * 24 * 60 * 60"

definition VALUATION_REDEEM_COOLDOWN_SECS :: i64 where
  "VALUATION_REDEEM_COOLDOWN_SECS = 7 * 24 * 60 * 60"

definition MAX_NAV_AGE_SECS :: i64 where
  "MAX_NAV_AGE_SECS = 24 * 60 * 60"

definition MAX_NAV_HISTORY_MARKS :: nat where
  "MAX_NAV_HISTORY_MARKS = 2000"

section \<open>The price\<close>

record nav_quote =
  nq_nav :: nav
  nq_aum :: "usdt option"
  nq_posted_at :: i64

definition quote_seed :: nav_quote where
  "quote_seed = \<lparr>nq_nav = NAV_SEED, nq_aum = None, nq_posted_at = 0\<rparr>"

definition quote_is_stale :: "nav_quote \<Rightarrow> i64 \<Rightarrow> bool" where
  "quote_is_stale q now_unix \<longleftrightarrow>
     nq_posted_at q \<noteq> 0 \<and> sint MAX_NAV_AGE_SECS < sint (i64_saturating_sub now_unix (nq_posted_at q))"

definition ledger_read :: "fund_ports \<Rightarrow> account_key \<Rightarrow> ledger_balance result" where
  "ledger_read ports key = from_ledger (fu_balance ports key)"

definition marked_quote :: "fund_db \<Rightarrow> service_id \<Rightarrow> nav_quote result" where
  "marked_quote db service =
     rmap (\<lambda>found. case found of
         Some v \<Rightarrow> \<lparr>nq_nav = vl_nav v, nq_aum = Some (vl_aum v), nq_posted_at = vl_posted_at v\<rparr>
       | None \<Rightarrow> quote_seed) (nav_current db service)"

definition value_holding :: "fund_db \<Rightarrow> account_key \<times> u128 \<Rightarrow> usdt \<times> i64 \<Rightarrow> (usdt \<times> i64) result" where
  "value_holding db h acc =
     (case (h, acc) of ((key, units), (worth, oldest)) \<Rightarrow>
        if units = 0 then Inr acc
        else case of_holding key of
          None \<Rightarrow> Inr acc
        | Some (product, _) \<Rightarrow>
            rbind (marked_quote db product) (\<lambda>q.
            rbind (nav_value (nq_nav q) (Shares units)) (\<lambda>holding.
            rbind (ok_or (usdt_checked_add worth holding) (Repository ''allocation value overflows'')) (\<lambda>grown.
            Inr (grown, if nq_posted_at q \<noteq> 0 \<and> (oldest = 0 \<or> sint (nq_posted_at q) < sint oldest)
                      then nq_posted_at q else oldest)))))"

definition nav_of :: "fund_ports \<Rightarrow> fund_db \<Rightarrow> service_id \<Rightarrow> nav_quote result" where
  "nav_of ports db service =
     (if \<not> service_is_reserved service then marked_quote db service
      else
        rbind (ledger_read ports (ServiceClaim service)) (\<lambda>claim.
        rbind (from_ledger (fu_holdings ports (Holder_Scope (Allocation_Holder service)))) (\<lambda>holdings.
        rbind (fold_result (value_holding db) holdings (Usdt (lb_posted claim), 0)) (\<lambda>(worth, oldest).
        rbind (ledger_read ports (SharesOutstanding service)) (\<lambda>supply.
        let outstanding = Shares (lb_posted supply) in
        rbind (if shares_is_zero outstanding then Inr NAV_SEED else nav_from_aum worth outstanding) (\<lambda>price.
        Inr \<lparr>nq_nav = price, nq_aum = Some worth, nq_posted_at = oldest\<rparr>))))))"

definition dealing_nav :: "fund_ports \<Rightarrow> fund_db \<Rightarrow> service_id \<Rightarrow> i64 \<Rightarrow> nav result" where
  "dealing_nav ports db service now_unix =
     rbind (nav_of ports db service) (\<lambda>q.
     if quote_is_stale q now_unix
     then Inl (Validation (''fund nav is stale '' @ em_dash @ '' a fresh valuation is required before dealing''))
     else Inr (nq_nav q))"

definition issued_units :: "fund_ports \<Rightarrow> service_id \<Rightarrow> shares result" where
  "issued_units ports service =
     rmap (\<lambda>b. Shares (saturating_add (lb_posted b) (lb_pending b))) (ledger_read ports (SharesOutstanding service))"

definition issued_supply :: "fund_ports \<Rightarrow> service_id \<Rightarrow> shares result" where
  "issued_supply ports service = rmap (\<lambda>b. Shares (lb_posted b)) (ledger_read ports (SharesOutstanding service))"

section \<open>Who may read\<close>

definition holds_units :: "fund_ports \<Rightarrow> service_id \<Rightarrow> uuid \<Rightarrow> bool result" where
  "holds_units ports service user =
     rbind (ledger_read ports (UserShares service user)) (\<lambda>free.
     rbind (ledger_read ports (BookShares service user)) (\<lambda>escrowed.
     Inr (lb_posted free \<noteq> 0 \<or> lb_posted escrowed \<noteq> 0)))"

definition allocation_for_holder ::
  "fund_ports \<Rightarrow> registry \<Rightarrow> service_id \<Rightarrow> uuid \<Rightarrow> bool \<Rightarrow> allocation_record result" where
  "allocation_for_holder ports rg service caller unrestricted =
     (let answer = get_product_for rg service caller unrestricted in
      case answer of
        Inl (NotFound entity i) \<Rightarrow>
          rbind (holds_units ports service caller) (\<lambda>holds.
          if holds
          then rbind (registry_find_for rg service caller) (\<lambda>found. ok_or found (allocation_not_found service))
          else answer)
      | _ \<Rightarrow> answer)"

section \<open>Subscribing\<close>

definition INSUFFICIENT_TO_SUBSCRIBE :: string where
  "INSUFFICIENT_TO_SUBSCRIBE = ''insufficient available balance to subscribe''"

definition subscribe ::
  "fund_ports \<Rightarrow> registry \<Rightarrow> uuid \<Rightarrow> uuid \<Rightarrow> service_id \<Rightarrow> usdt \<Rightarrow> i64 \<Rightarrow> fund_db \<Rightarrow> (fund_db \<times> subscription) result" where
  "subscribe ports rg new_id user service cash now_unix db =
     (if service_is_reserved service
      then Inl (Forbidden (''units of the reserved '' @ quoted_service service @
        '' allocation are seated only by a holder grant or a seed, never bought''))
      else
        rbind (require_subscribable rg service user) (\<lambda>a.
        let covers = claim_covers_check (usdt_units cash) INSUFFICIENT_TO_SUBSCRIBE in
        rbind (covers (fu_spendable ports (UserClaim user))) (\<lambda>_.
        rbind (dealing_nav ports db service now_unix) (\<lambda>price.
        rbind (issued_units ports service) (\<lambda>issued.
        rbind (shares_from_cash cash price) (\<lambda>minting.
        rbind (ensure_capacity a issued minting) (\<lambda>_.
        rbind (subscription_open new_id user service cash price) (\<lambda>s.
        open_subscription (covers (fu_spendable_locked ports (UserClaim user))) s db))))))))"

definition price_fund_seed ::
  "fund_ports \<Rightarrow> registry \<Rightarrow> uuid \<Rightarrow> uuid \<Rightarrow> usdt \<Rightarrow> i64 \<Rightarrow> fund_db \<Rightarrow> subscription result" where
  "price_fund_seed ports rg i depositor cash now_unix db =
     rbind (get_product rg service_fund) (\<lambda>a.
     rbind (ensure_subscribable a Invest) (\<lambda>_.
     rbind (dealing_nav ports db service_fund now_unix) (\<lambda>price.
     rbind (issued_units ports service_fund) (\<lambda>issued.
     rbind (shares_from_cash cash price) (\<lambda>minting.
     rbind (ensure_capacity a issued minting) (\<lambda>_.
     subscription_open i depositor service_fund cash price))))))"

section \<open>Redeeming\<close>

definition COOLDOWN_DAYS :: string where
  "COOLDOWN_DAYS = show_i64 (word_of_int (sint VALUATION_REDEEM_COOLDOWN_SECS div (24 * 60 * 60)))"

fun refuse_posted_holding ::
  "fund_ports \<Rightarrow> fund_db \<Rightarrow> service_id \<Rightarrow> string \<Rightarrow> i64 \<Rightarrow> (account_key \<times> u128) list \<Rightarrow> unit result" where
  "refuse_posted_holding ports db service subject since [] = Inr ()"
| "refuse_posted_holding ports db service subject since ((key, units) # rest) =
     (if units = 0 then refuse_posted_holding ports db service subject since rest
      else case of_holding key of
        None \<Rightarrow> refuse_posted_holding ports db service subject since rest
      | Some (product, _) \<Rightarrow>
          if nav_posted_by_since db product subject since
          then Inl (Precondition (''you posted a valuation for '' @ quoted_service product @ '', which the '' @
            quoted_service service @ '' allocation holds, within the last '' @ COOLDOWN_DAYS @
            '' days '' @ em_dash @ '' dealing in it is refused until the mark ages out''))
          else refuse_posted_holding ports db service subject since rest)"

definition refuse_recent_poster :: "fund_ports \<Rightarrow> fund_db \<Rightarrow> service_id \<Rightarrow> uuid \<Rightarrow> i64 \<Rightarrow> unit result" where
  "refuse_recent_poster ports db service user now_unix =
     (let since = i64_saturating_sub now_unix VALUATION_REDEEM_COOLDOWN_SECS;
          subject = fe_show (fu_env ports) user in
      if \<not> service_is_reserved service then
        (if nav_posted_by_since db service subject since
         then Inl (Precondition (''you posted a valuation for this fund within the last '' @ COOLDOWN_DAYS @
           '' days '' @ em_dash @ '' redemption is refused until it ages out''))
         else Inr ())
      else
        rbind (from_ledger (fu_holdings ports (Holder_Scope (Allocation_Holder service))))
          (refuse_posted_holding ports db service subject since))"

definition settle_redemption :: "fund_ports \<Rightarrow> uuid \<Rightarrow> i64 \<Rightarrow> i64 \<Rightarrow> fund_db \<Rightarrow> (fund_db \<times> redemption) result" where
  "settle_redemption ports i now_unix settled_at db =
     rbind (find_redemption db i) (\<lambda>found.
     rbind (ok_or found (redemption_not_found (fu_env ports) i)) (\<lambda>existing.
     if rd_state existing = Completed_Redemption then Inr (db, existing)
     else
       rbind (refuse_recent_poster ports db (rd_service existing) (rd_user existing) now_unix) (\<lambda>_.
       rbind (dealing_nav ports db (rd_service existing) now_unix) (\<lambda>price.
       settle_stored (fu_env ports) settled_at i price db))))"

definition request_redemption ::
  "fund_ports \<Rightarrow> registry \<Rightarrow> int \<Rightarrow> uuid \<Rightarrow> uuid \<Rightarrow> service_id \<Rightarrow> shares \<Rightarrow> i64 \<Rightarrow> i64 \<Rightarrow> fund_db
    \<Rightarrow> fund_db \<times> redemption result" where
  "request_redemption ports rg db_now new_id user service units now_unix settled_at db =
     try_tx db (require_redeemable rg service) (\<lambda>_.
     try_tx db (refuse_recent_poster ports db service user now_unix) (\<lambda>_.
     try_tx db (ledger_read ports (UserShares service user)) (\<lambda>holding.
     if Shares (lb_available holding) < units then (db, Inl (Validation ''insufficient units to redeem''))
     else
     try_tx db (dealing_nav ports db service now_unix) (\<lambda>price.
     try_tx db (nav_value price units) (\<lambda>cash_out.
     try_tx db (ledger_read ports (ServiceClaim service)) (\<lambda>fund.
     let covered = cash_out \<le> Usdt (lb_available fund) in
     if \<not> covered \<and> service_is_reserved service
     then (db, Inl (Validation (''the '' @ quoted_service service @
       '' allocation'' @ [CHR 0x27] @ ''s cash cannot cover this redemption '' @ em_dash @
       '' settle fee units into it first, or redeem fewer units'')))
     else
     try_tx db (redemption_request new_id user service units) (\<lambda>r.
     try_tx db (open_redemption db_now r db) (\<lambda>(db1, opened).
     if \<not> covered then (db1, Inr opened)
     else case settle_redemption ports new_id now_unix settled_at db1 of
       Inr (db2, settled) \<Rightarrow> (db2, Inr settled)
     | Inl (Conflict why) \<Rightarrow>
         (db1, rbind (find_redemption db1 new_id) (\<lambda>found. ok_or found (redemption_not_found (fu_env ports) new_id)))
     | Inl e \<Rightarrow> (db1, Inl e)))))))))"

definition cancel_redemption :: "fund_ports \<Rightarrow> uuid \<Rightarrow> uuid \<Rightarrow> fund_db \<Rightarrow> (fund_db \<times> redemption) result" where
  "cancel_redemption ports i user db =
     rbind (find_redemption db i) (\<lambda>found.
     rbind (ok_or found (redemption_not_found (fu_env ports) i)) (\<lambda>existing.
     if rd_user existing \<noteq> user then Inl (Forbidden ''not your redemption'')
     else cancel_stored (fu_env ports) i db))"

definition fail_redemption :: "fund_ports \<Rightarrow> uuid \<Rightarrow> fund_db \<Rightarrow> (fund_db \<times> redemption) result" where
  "fail_redemption ports i db = fail_stored (fu_env ports) i db"

definition list_redemptions :: "fund_db \<Rightarrow> uuid \<Rightarrow> redemption list result" where
  "list_redemptions db user = redemptions_of_user db user"

section \<open>Posting a valuation\<close>

definition u128_saturating_mul :: "u128 \<Rightarrow> u128 \<Rightarrow> u128" where
  "u128_saturating_mul a b = (case checked_mul a b of Some c \<Rightarrow> c | None \<Rightarrow> - 1)"

definition abs_diff :: "u128 \<Rightarrow> u128 \<Rightarrow> u128" where
  "abs_diff a b = (if a \<le> b then b - a else a - b)"

definition nav_move_exceeds :: "nav \<Rightarrow> nav \<Rightarrow> u128 \<Rightarrow> bool" where
  "nav_move_exceeds prev new pct \<longleftrightarrow>
     u128_saturating_mul (nav_units prev) pct < u128_saturating_mul (abs_diff (nav_units prev) (nav_units new)) 100"

definition right_arrow :: string where
  "right_arrow = [CHR 0xE2, CHR 0x86, CHR 0x92]"

definition move_guard_tripped :: "nav \<Rightarrow> nav \<Rightarrow> string \<Rightarrow> domain_error" where
  "move_guard_tripped prev new against =
     Validation (''nav move '' @ nav_to_decimal_string prev @ '' '' @ right_arrow @ '' '' @ nav_to_decimal_string new @
       '' exceeds '' @ show_u128 MAX_NAV_MOVE_PCT @ ''% against '' @ against @ '' '' @ em_dash @
       '' open a valuation-override consilium for the owners to approve it'')"

definition record_valuation ::
  "fund_ports \<Rightarrow> int \<Rightarrow> uuid \<Rightarrow> service_id \<Rightarrow> usdt \<Rightarrow> string \<Rightarrow> fund_db \<Rightarrow> (fund_db \<times> valuation) result" where
  "record_valuation ports db_now i service aum posted_by db =
     rbind (issued_supply ports service) (\<lambda>units.
     rbind (nav_from_aum aum units) (\<lambda>derived.
     rbind (nav_record db_now i service aum units derived posted_by db) (\<lambda>(db1, posted_at).
     Inr (db1, \<lparr>vl_service = service, vl_aum = aum, vl_units = units, vl_nav = derived,
       vl_posted_by = posted_by, vl_posted_at = posted_at\<rparr>))))"

definition check_move :: "fund_db \<Rightarrow> service_id \<Rightarrow> nav \<Rightarrow> i64 \<Rightarrow> unit result" where
  "check_move db service derived now_unix =
     rbind (nav_current db service) (\<lambda>current.
     case current of
       None \<Rightarrow> Inr ()
     | Some prev \<Rightarrow>
         if nav_move_exceeds (vl_nav prev) derived MAX_NAV_MOVE_PCT
         then Inl (move_guard_tripped (vl_nav prev) derived ''the previous mark'')
         else
           rbind (nav_anchor db service (i64_saturating_sub now_unix NAV_MOVE_WINDOW_SECS)) (\<lambda>found.
           case found of
             None \<Rightarrow> Inr ()
           | Some anchor \<Rightarrow>
               if nav_move_exceeds (vl_nav anchor) derived MAX_NAV_MOVE_PCT
               then Inl (move_guard_tripped (vl_nav anchor) derived ''the mark anchoring the rolling window'')
               else Inr ()))"

definition post_fund_valuation ::
  "fund_ports \<Rightarrow> registry \<Rightarrow> int \<Rightarrow> uuid \<Rightarrow> service_id \<Rightarrow> usdt \<Rightarrow> string \<Rightarrow> i64 \<Rightarrow> fund_db
    \<Rightarrow> (fund_db \<times> valuation) result" where
  "post_fund_valuation ports rg db_now new_id service aum posted_by now_unix db =
     rbind (refuse_mark_on_reserved service) (\<lambda>_.
     rbind (get_product rg service) (\<lambda>_.
     rbind (issued_supply ports service) (\<lambda>units.
     rbind (nav_from_aum aum units) (\<lambda>derived.
     rbind (check_move db service derived now_unix) (\<lambda>_.
     record_valuation ports db_now new_id service aum posted_by db)))))"

section \<open>What a holder is shown\<close>

record position_view =
  pv_service :: service_id
  pv_units :: shares
  pv_units_in_orders :: shares
  pv_nav :: nav
  pv_value :: usdt
  pv_cost_basis :: usdt
  pv_nav_as_of :: i64

definition build_position_view ::
  "fund_ports \<Rightarrow> fund_db \<Rightarrow> uuid \<Rightarrow> service_id \<Rightarrow> usdt \<Rightarrow> position_view result" where
  "build_position_view ports db user service cost_basis =
     rbind (ledger_read ports (UserShares service user)) (\<lambda>free.
     rbind (ledger_read ports (BookShares service user)) (\<lambda>escrowed.
     rbind (nav_of ports db service) (\<lambda>q.
     rbind (ok_or (shares_checked_add (Shares (lb_posted free)) (Shares (lb_posted escrowed)))
       (Validation ''position units overflow'')) (\<lambda>owned.
     rbind (nav_value (nq_nav q) owned) (\<lambda>worth.
     Inr \<lparr>pv_service = service, pv_units = Shares (lb_posted free), pv_units_in_orders = Shares (lb_posted escrowed),
       pv_nav = nq_nav q, pv_value = worth, pv_cost_basis = cost_basis, pv_nav_as_of = nq_posted_at q\<rparr>)))))"

definition get_position :: "fund_ports \<Rightarrow> fund_db \<Rightarrow> uuid \<Rightarrow> service_id \<Rightarrow> position_view result" where
  "get_position ports db user service =
     rbind (read_position db user service) (\<lambda>found.
     build_position_view ports db user service (case found of Some p \<Rightarrow> sp_cost_basis p | None \<Rightarrow> USDT_ZERO))"

definition list_positions ::
  "(string \<Rightarrow> 'k::linorder) \<Rightarrow> fund_ports \<Rightarrow> fund_db \<Rightarrow> uuid \<Rightarrow> position_view list result" where
  "list_positions collation ports db user =
     rbind (list_stored_positions collation db user) (\<lambda>rows.
     rmap (filter (\<lambda>v. \<not> shares_is_zero (pv_units v) \<or> \<not> shares_is_zero (pv_units_in_orders v)))
       (traverse (\<lambda>p. build_position_view ports db user (sp_service p) (sp_cost_basis p)) rows))"

record fund_nav_view =
  fv_service :: service_id
  fv_nav :: nav
  fv_aum :: "usdt option"
  fv_units_outstanding :: shares
  fv_unit_cap :: shares
  fv_remaining_capacity :: shares
  fv_posted_at :: i64
  fv_stale :: bool

definition fund_nav_view_of ::
  "fund_ports \<Rightarrow> registry \<Rightarrow> fund_db \<Rightarrow> service_id \<Rightarrow> uuid \<Rightarrow> bool \<Rightarrow> i64 \<Rightarrow> fund_nav_view result" where
  "fund_nav_view_of ports rg db service caller unrestricted now_unix =
     rbind (allocation_for_holder ports rg service caller unrestricted) (\<lambda>rec.
     rbind (ledger_read ports (SharesOutstanding service)) (\<lambda>b.
     let a = arc_allocation rec in
     rbind (nav_of ports db service) (\<lambda>q.
     Inr \<lparr>fv_service = service, fv_nav = nq_nav q, fv_aum = nq_aum q, fv_units_outstanding = Shares (lb_posted b),
       fv_unit_cap = al_unit_cap a,
       fv_remaining_capacity = remaining_capacity a (Shares (saturating_add (lb_posted b) (lb_pending b))),
       fv_posted_at = nq_posted_at q, fv_stale = quote_is_stale q now_unix\<rparr>)))"

end
