(* ===== verification/FundIssue.thy ===== *)
theory FundIssue
  imports FundUse "HOL-Library.AList" "HOL-Library.List_Lexorder"
begin

text \<open>
  Units without cash: minted in kind by an operator, granted by the owners in a reserved allocation, or
  retired (\<^verbatim>\<open>application/issuance.rs\<close>); who owns an allocation (\<^verbatim>\<open>application/ownership.rs\<close>); and the
  history of a price with a holder's share in it (\<^verbatim>\<open>application/funds.rs\<close>).  The flag of a product's
  backing is written in a transaction of its own before the issuance is, so the two tables are threaded
  separately.
\<close>

section \<open>Minting and retiring\<close>

record issue_request =
  iq_service :: service_id
  iq_holder :: unit_holder
  iq_units :: shares
  iq_cost_basis :: "usdt option"
  iq_key :: issuance_key

definition same_request_or_conflict :: "issue_request \<Rightarrow> issuance_source \<Rightarrow> issued_record \<Rightarrow> issued_record result" where
  "same_request_or_conflict q source existing =
     (if issuance_matches_request (ir_issuance existing) (iq_holder q) source (iq_units q) then Inr existing
      else Inl (Conflict (quoted_key (iq_key q) @ '' already names a different issuance on '' @ quoted_service (iq_service q))))"

definition same_stored_request_or_conflict ::
  "issue_request \<Rightarrow> issuance_source \<Rightarrow> stored_issuance \<Rightarrow> issued_record result" where
  "same_stored_request_or_conflict q source existing =
     (case existing of
        Live_Issuance rec \<Rightarrow> same_request_or_conflict q source rec
      | Retired_Company _ _ _ _ _ _ \<Rightarrow> Inl (company_key_conflict (iq_key q) (iq_service q)))"

definition require_holder :: "fund_ports \<Rightarrow> registry \<Rightarrow> unit_holder \<Rightarrow> unit result" where
  "require_holder ports rg holder =
     (case holder of
        User_Holder user \<Rightarrow>
          rbind (fu_user_active ports user) (\<lambda>found.
          rbind (ok_or found (NotFound ''user'' (fe_show (fu_env ports) user))) (\<lambda>active.
          if active then Inr ()
          else Inl (Precondition (''user '' @ fe_show (fu_env ports) user @
            '' is not active, so no units can be minted to them''))))
      | Allocation_Holder service \<Rightarrow> rmap (\<lambda>_. ()) (get_product rg service))"

definition record_issuance ::
  "fund_ports \<Rightarrow> int \<Rightarrow> issue_request \<Rightarrow> issuance_source \<Rightarrow> unit_issuance \<Rightarrow> fund_db
    \<Rightarrow> (fund_db \<times> issued_record) result" where
  "record_issuance ports db_now q source u db =
     rbind (issue_stored (fu_env ports) db_now u db) (\<lambda>(db1, outcome).
     case outcome of
       Recorded_Issuance rec \<Rightarrow> Inr (db1, rec)
     | Existing_Issuance existing \<Rightarrow> rmap (Pair db1) (same_request_or_conflict q source existing))"

text \<open>The checks of a mint, in order: what is left is the product as read and the aggregate to record.\<close>

definition mint_checks ::
  "fund_ports \<Rightarrow> registry \<Rightarrow> uuid \<Rightarrow> issue_request \<Rightarrow> i64 \<Rightarrow> fund_db \<Rightarrow> (allocation \<times> unit_issuance) result" where
  "mint_checks ports rg new_id q now_unix db =
     rbind (ensure_may_hold (iq_holder q) (iq_service q)) (\<lambda>_.
     rbind (get_product rg (iq_service q)) (\<lambda>a.
     rbind (require_holder ports rg (iq_holder q)) (\<lambda>_.
     rbind (dealing_nav ports db (iq_service q) now_unix) (\<lambda>price.
     rbind (issued_units ports (iq_service q)) (\<lambda>issued.
     rbind (ensure_capacity a issued (iq_units q)) (\<lambda>_.
     rmap (Pair a)
       (issuance_issue new_id (iq_service q) (iq_holder q) (iq_units q) price (iq_cost_basis q) (iq_key q))))))))"

definition mint ::
  "fund_ports \<Rightarrow> int \<Rightarrow> uuid \<Rightarrow> issue_request \<Rightarrow> i64 \<Rightarrow> registry \<times> fund_db
    \<Rightarrow> (registry \<times> fund_db) \<times> issued_record result" where
  "mint ports db_now new_id q now_unix st =
     (case st of (rg, db) \<Rightarrow>
        try_tx st (issuance_by_key (fu_env ports) db (iq_service q) (iq_key q)) (\<lambda>found.
        case found of
          Some existing \<Rightarrow> (st, same_stored_request_or_conflict q Mint_Source existing)
        | None \<Rightarrow>
            try_tx st (mint_checks ports rg new_id q now_unix db) (\<lambda>(a, u).
            try_tx st
              (if al_backing a = Cash \<and> \<not> service_is_reserved (iq_service q)
               then rmap fst (registry_set_backing db_now rg (iq_service q) InKind) else Inr rg) (\<lambda>rg1.
            try_tx (rg1, db) (record_issuance ports db_now q Mint_Source u db) (\<lambda>(db1, rec).
            ((rg1, db1), Inr rec))))))"

definition issue_units ::
  "fund_ports \<Rightarrow> int \<Rightarrow> uuid \<Rightarrow> issue_request \<Rightarrow> i64 \<Rightarrow> registry \<times> fund_db
    \<Rightarrow> (registry \<times> fund_db) \<times> issued_record result" where
  "issue_units ports db_now new_id q now_unix st =
     (if service_is_reserved (iq_service q)
      then (st, Inl (Forbidden (quoted_service (iq_service q) @ '' is a reserved allocation: its units are granted by the owners'' @
        [CHR 0x27] @ '' consilium (a holder grant), never issued by hand'')))
      else case iq_holder q of
        Allocation_Holder holder \<Rightarrow>
          (st, Inl (Forbidden (''the '' @ quoted_service holder @ '' allocation'' @ [CHR 0x27] @
            ''s units of a product are its fee class, minted only by the fee accrual '' @ em_dash @
            '' never issued by hand'')))
      | User_Holder _ \<Rightarrow> mint ports db_now new_id q now_unix st)"

definition grant_units ::
  "fund_ports \<Rightarrow> int \<Rightarrow> uuid \<Rightarrow> issue_request \<Rightarrow> i64 \<Rightarrow> registry \<times> fund_db
    \<Rightarrow> (registry \<times> fund_db) \<times> issued_record result" where
  "grant_units ports db_now new_id q now_unix st =
     (if \<not> service_is_reserved (iq_service q)
      then (st, Inl (Validation (quoted_service (iq_service q) @
        '' is a product, not a reserved allocation: its units are issued, not granted'')))
      else mint ports db_now new_id q now_unix st)"

definition retire_checks ::
  "fund_ports \<Rightarrow> registry \<Rightarrow> uuid \<Rightarrow> issue_request \<Rightarrow> bool \<Rightarrow> i64 \<Rightarrow> fund_db \<Rightarrow> unit_issuance result" where
  "retire_checks ports rg new_id q force now_unix db =
     rbind (ensure_may_hold (iq_holder q) (iq_service q)) (\<lambda>_.
     rbind (get_product rg (iq_service q)) (\<lambda>a.
     if al_state a \<noteq> Closed_Allocation \<and> \<not> force
     then Inl (Precondition (''allocation '' @ quoted_service (iq_service q) @ '' is open '' @ em_dash @
       '' close it before retiring units, or set force to retire on a live product''))
     else
     rbind (require_holder ports rg (iq_holder q)) (\<lambda>_.
     rbind (dealing_nav ports db (iq_service q) now_unix) (\<lambda>price.
     rbind (holder_shares_key (iq_holder q) (iq_service q)) (\<lambda>key.
     rbind (ledger_read ports key) (\<lambda>b.
     let held = Shares (lb_available b) in
     if held < iq_units q
     then Inl (Validation (''holder holds '' @ shares_to_decimal_string held @ '' available units of '' @
       quoted_service (iq_service q) @ '' (units resting on the book or reserved by a redemption cannot be retired), cannot retire '' @
       shares_to_decimal_string (iq_units q)))
     else issuance_retire new_id (iq_service q) (iq_holder q) (iq_units q) price (iq_cost_basis q) (iq_key q)))))))"

definition retire_units ::
  "fund_ports \<Rightarrow> registry \<Rightarrow> int \<Rightarrow> uuid \<Rightarrow> issue_request \<Rightarrow> bool \<Rightarrow> i64 \<Rightarrow> fund_db
    \<Rightarrow> (fund_db \<times> issued_record) result" where
  "retire_units ports rg db_now new_id q force now_unix db =
     (if service_is_reserved (iq_service q)
      then Inl (Forbidden (quoted_service (iq_service q) @
        '' is a reserved allocation: a holder leaves it by redeeming at NAV, never by an operator'' @ [CHR 0x27] @ ''s burn''))
      else
        rbind (issuance_by_key (fu_env ports) db (iq_service q) (iq_key q)) (\<lambda>found.
        case found of
          Some existing \<Rightarrow> rmap (Pair db) (same_stored_request_or_conflict q Retire_Source existing)
        | None \<Rightarrow>
            rbind (retire_checks ports rg new_id q force now_unix db) (\<lambda>u.
            record_issuance ports db_now q Retire_Source u db)))"

section \<open>Who owns an allocation\<close>

record allocation_claim =
  acl_posted :: usdt
  acl_available :: usdt
  acl_reserved :: usdt

definition claim_of_balance :: "ledger_balance \<Rightarrow> allocation_claim" where
  "claim_of_balance b =
     \<lparr>acl_posted = Usdt (lb_posted b), acl_available = Usdt (lb_available b), acl_reserved = Usdt (lb_locked b)\<rparr>"

type_synonym unit_holding = "unit_holder \<times> shares"

record allocation_ownership =
  ao_service :: service_id
  ao_claim :: allocation_claim
  ao_units_outstanding :: shares
  ao_holders :: "unit_holding list"
  ao_product_units :: "(service_id \<times> shares) list"

definition held_units :: "allocation_ownership \<Rightarrow> shares" where
  "held_units o1 =
     foldl (\<lambda>held line. case shares_checked_add held (snd line) of Some s \<Rightarrow> s | None \<Rightarrow> Shares (- 1)) SHARES_ZERO (ao_holders o1)"

definition units_reconcile :: "allocation_ownership \<Rightarrow> bool" where
  "units_reconcile o1 \<longleftrightarrow> held_units o1 = ao_units_outstanding o1"

definition has_value :: "allocation_ownership \<Rightarrow> bool" where
  "has_value o1 \<longleftrightarrow>
     \<not> usdt_is_zero (acl_posted (ao_claim o1)) \<or> (\<exists>line \<in> set (ao_product_units o1). \<not> shares_is_zero (snd line))"

definition is_unheld :: "allocation_ownership \<Rightarrow> bool" where
  "is_unheld o1 \<longleftrightarrow> shares_is_zero (ao_units_outstanding o1) \<and> has_value o1"

definition add_holding :: "account_key \<times> u128 \<Rightarrow> unit_holding list \<Rightarrow> unit_holding list result" where
  "add_holding h by_holder =
     (case h of (key, units) \<Rightarrow>
        if units = 0 then Inr by_holder
        else case of_holding key of
          None \<Rightarrow> Inr by_holder
        | Some (_, holder) \<Rightarrow>
            rbind (ok_or (shares_checked_add (case map_of by_holder holder of Some s \<Rightarrow> s | None \<Rightarrow> SHARES_ZERO) (Shares units))
              (Repository ''a holder's units overflow'')) (\<lambda>line.
            Inr (AList.update holder line by_holder)))"

fun product_units_of :: "(account_key \<times> u128) list \<Rightarrow> (service_id \<times> shares) list" where
  "product_units_of [] = []"
| "product_units_of ((key, units) # rest) =
     (if units = 0 then product_units_of rest
      else case of_holding key of
        None \<Rightarrow> product_units_of rest
      | Some (product, _) \<Rightarrow> (product, Shares units) # product_units_of rest)"

text \<open>Holders by what they hold, the largest first, then by kind and name, in the order of their bytes.\<close>

definition holder_identity :: "(uuid \<Rightarrow> string) \<Rightarrow> unit_holder \<Rightarrow> string \<times> string" where
  "holder_identity show_uuid holder =
     (holder_kind_str holder,
      case holder_user_id holder of
        Some u \<Rightarrow> show_uuid u
      | None \<Rightarrow> (case holder_service_id holder of Some s \<Rightarrow> service_id_str s | None \<Rightarrow> ''''))"

definition byte_order :: "string \<Rightarrow> nat list" where
  "byte_order s = map byte s"

definition sort_holders :: "(uuid \<Rightarrow> string) \<Rightarrow> unit_holding list \<Rightarrow> unit_holding list" where
  "sort_holders show_uuid hs =
     sort_key (\<lambda>line. - int (shares_val (snd line)))
       (sort_key (byte_order \<circ> fst \<circ> holder_identity show_uuid \<circ> fst)
         (sort_key (byte_order \<circ> snd \<circ> holder_identity show_uuid \<circ> fst) hs))"

definition ownership_of :: "fund_ports \<Rightarrow> service_id \<Rightarrow> allocation_ownership result" where
  "ownership_of ports service =
     rbind (ledger_read ports (ServiceClaim service)) (\<lambda>claim.
     rbind (ledger_read ports (SharesOutstanding service)) (\<lambda>supply.
     rbind (from_ledger (fu_holdings ports (Product_Scope service))) (\<lambda>holdings.
     rbind (fold_result add_holding holdings []) (\<lambda>by_holder.
     rbind (if service_is_reserved service
            then from_ledger (fu_holdings ports (Holder_Scope (Allocation_Holder service))) else Inr []) (\<lambda>owned.
     Inr \<lparr>ao_service = service, ao_claim = claim_of_balance claim, ao_units_outstanding = Shares (lb_posted supply),
       ao_holders = sort_holders (fe_show (fu_env ports)) by_holder,
       ao_product_units = sort_key (byte_order \<circ> service_id_str \<circ> fst) (product_units_of owned)\<rparr>)))))"

record unit_holders_view =
  uhv_service :: service_id
  uhv_units_outstanding :: shares
  uhv_holders :: "unit_holding list"
  uhv_queued_units :: shares

definition unit_holders :: "fund_ports \<Rightarrow> registry \<Rightarrow> fund_db \<Rightarrow> service_id \<Rightarrow> unit_holders_view result" where
  "unit_holders ports rg db service =
     rbind (get_product rg service) (\<lambda>_.
     rbind (queued_mint_units db service) (\<lambda>queued.
     rbind (ownership_of ports service) (\<lambda>o1.
     Inr \<lparr>uhv_service = ao_service o1, uhv_units_outstanding = ao_units_outstanding o1, uhv_holders = ao_holders o1,
       uhv_queued_units = queued\<rparr>)))"

section \<open>The history of a price\<close>

type_synonym participation_point = "int \<times> usdt"

definition i128_clamp :: "int \<Rightarrow> int" where
  "i128_clamp k = max (- (2 ^ 127)) (min (2 ^ 127 - 1) k)"

text \<open>What arrived after each flow: one entry more than there are flows, the last one nothing.\<close>

fun flows_after :: "unit_flow list \<Rightarrow> int list" where
  "flows_after [] = [0]"
| "flows_after (f # fs) = (let rest = flows_after fs in i128_clamp (hd rest + uf_delta f) # rest)"

definition units_at :: "u128 \<Rightarrow> unit_flow list \<Rightarrow> int \<Rightarrow> shares" where
  "units_at live flows t =
     (let i = length (takeWhile (\<lambda>f. uf_at f \<le> t) flows);
          units = i128_clamp (min (uint live) (2 ^ 127 - 1) - flows_after flows ! i)
      in Shares (if units < 0 then 0 else word_of_int units))"

definition price_at :: "valuation option \<Rightarrow> valuation list \<Rightarrow> int \<Rightarrow> nav" where
  "price_at pre_window marks t =
     (let i = length (takeWhile (\<lambda>m. sint (vl_posted_at m) \<le> t) marks) in
      if i = 0
      then (case pre_window of
              Some v \<Rightarrow> if sint (vl_posted_at v) \<le> t then vl_nav v else NAV_SEED
            | None \<Rightarrow> NAV_SEED)
      else vl_nav (marks ! (i - 1)))"

definition participation_instants :: "unit_flow list \<Rightarrow> valuation list \<Rightarrow> int \<Rightarrow> int \<Rightarrow> int list" where
  "participation_instants flows marks from_unix to_unix =
     (let first_flow = (case flows of [] \<Rightarrow> to_unix | f # _ \<Rightarrow> uf_at f);
          instants = (if 0 < from_unix then [from_unix] else []) @ map (sint \<circ> vl_posted_at) marks @
            filter (\<lambda>t. from_unix \<le> t \<and> t \<le> to_unix) (map uf_at flows) @ [to_unix]
      in remdups (sort (filter (\<lambda>t. first_flow \<le> t) instants)))"

definition participation_series ::
  "u128 \<Rightarrow> unit_flow list \<Rightarrow> valuation option \<Rightarrow> valuation list \<Rightarrow> int \<Rightarrow> int \<Rightarrow> participation_point list result" where
  "participation_series live flows pre_window marks from_unix to_unix =
     (if flows = [] \<and> live = 0 then Inr []
      else traverse (\<lambda>t. rmap (Pair t) (nav_value (price_at pre_window marks t) (units_at live flows t)))
        (participation_instants flows marks from_unix to_unix))"

record fund_history_view =
  hv_service :: service_id
  hv_marks :: "valuation list"
  hv_participation :: "participation_point list"
  hv_truncated :: bool

definition history_window :: "i64 \<Rightarrow> bool \<Rightarrow> valuation list \<Rightarrow> i64" where
  "history_window from_unix truncated marks =
     (if 0 < sint from_unix then from_unix else if truncated then vl_posted_at (hd marks) else 0)"

definition fund_nav_history ::
  "fund_ports \<Rightarrow> registry \<Rightarrow> fund_db \<Rightarrow> service_id \<Rightarrow> uuid \<Rightarrow> bool \<Rightarrow> i64 \<Rightarrow> i64 \<Rightarrow> i64 \<Rightarrow> fund_history_view result" where
  "fund_nav_history ports rg db service caller unrestricted from_unix asked_to now_unix =
     rbind (allocation_for_holder ports rg service caller unrestricted) (\<lambda>_.
     let to_unix = (if asked_to = 0 then now_unix else if sint asked_to \<le> sint now_unix then asked_to else now_unix) in
     if sint from_unix < 0 \<or> sint to_unix < sint from_unix
     then Inl (Validation (''history window is empty '' @ em_dash @ '' `from` must not be after `to`''))
     else
     rbind (nav_history db service from_unix to_unix (MAX_NAV_HISTORY_MARKS + 1)) (\<lambda>read.
     let truncated = MAX_NAV_HISTORY_MARKS < length read;
         marks = (if truncated then tl read else read);
         window_start = history_window from_unix truncated marks in
     rbind (if 0 < sint window_start
            then rmap (\<lambda>found. case found of
                     Some v \<Rightarrow> if sint (vl_posted_at v) \<le> sint window_start then Some v else None
                   | None \<Rightarrow> None) (nav_anchor db service window_start)
            else Inr None) (\<lambda>pre_window.
     rbind (ledger_read ports (UserShares service caller)) (\<lambda>free.
     rbind (ledger_read ports (BookShares service caller)) (\<lambda>escrowed.
     rbind (ok_or (checked_add (lb_posted free) (lb_posted escrowed)) (Validation ''position units overflow'')) (\<lambda>live.
     rbind (fu_flows ports caller service) (\<lambda>flows.
     rbind (participation_series live flows pre_window marks (sint from_unix) (sint to_unix)) (\<lambda>points.
     Inr \<lparr>hv_service = service, hv_marks = marks, hv_participation = points, hv_truncated = truncated\<rparr>)))))))) "

end
