(* ===== verification/FundSafety.thy ===== *)
theory FundSafety
  imports FundIssue RegistrySafety
begin

text \<open>
  What dealing in units promises: cash buys units only in a product that is open, to an investor who was let in,
  at a fresh price, under the cap and out of money that is there; a posted price moves at most half away from
  the prices it is held against; units minted without cash cannot be redeemed for cash; and a holder's
  position never credits more than was paid for, however often the relay delivers.
\<close>

section \<open>Buying\<close>

lemma get_product_for_Inr:
  "get_product_for rg s user False = Inr rec \<longleftrightarrow>
     registry_find_for rg s user = Inr (Some rec) \<and> permits_viewing (arc_caller_access rec)"
  by (auto simp: get_product_for_def rbind_eq_Inr_iff split: if_splits)

lemma require_subscribable_Inr:
  "require_subscribable rg s user = Inr a \<longleftrightarrow>
     (\<exists>rec. registry_find_for rg s user = Inr (Some rec) \<and> arc_allocation rec = a \<and>
        al_state a = Open_Allocation \<and> arc_caller_access rec = Invest)"
proof -
  have invest: "permits_investing l \<longleftrightarrow> l = Invest" for l
    by (cases l) (auto simp: permits_investing_def less_eq_allocation_access_def)
  have view: "permits_viewing Invest" by (simp add: permits_viewing_def less_eq_allocation_access_def)
  show ?thesis
    unfolding require_subscribable_def get_product_for_Inr rbind_eq_Inr_iff ensure_subscribable_def invest
    by (intro iffI; elim exE conjE) (auto simp: view split: allocation_state.splits if_splits)
qed

lemma ensure_capacity_Inr:
  "ensure_capacity a issued minting = Inr u \<longleftrightarrow> shares_val issued + shares_val minting \<le> shares_val (al_unit_cap a)"
proof
  assume "ensure_capacity a issued minting = Inr u"
  then show "shares_val issued + shares_val minting \<le> shares_val (al_unit_cap a)"
    by (auto simp: ensure_capacity_def rbind_eq_Inr_iff nat_arith less_shares_def word_less_nat_alt split: if_splits)
next
  assume fits: "shares_val issued + shares_val minting \<le> shares_val (al_unit_cap a)"
  then have "\<not> 2 ^ 128 \<le> shares_val issued + shares_val minting"
    using unat_lt128 [of "shares_units (al_unit_cap a)"] by linarith
  then obtain after where after: "shares_checked_add issued minting = Some after"
    by (cases "shares_checked_add issued minting") (auto simp: shares_checked_add_def nat_arith)
  then have "shares_val after = shares_val issued + shares_val minting" by (simp add: nat_arith)
  with fits show "ensure_capacity a issued minting = Inr u"
    by (simp add: ensure_capacity_def after less_shares_def word_less_nat_alt)
qed

lemma not_stale: "\<not> quote_is_stale q now \<longleftrightarrow> nq_posted_at q = 0 \<or> sint now - sint (nq_posted_at q) \<le> 86400"
  by (auto simp: quote_is_stale_def i64_saturating_sub_def sint_i64_clamp MAX_NAV_AGE_SECS_def)

lemma dealing_nav_Inr:
  "dealing_nav ports db s now = Inr price \<longleftrightarrow>
     (\<exists>q. nav_of ports db s = Inr q \<and> nq_nav q = price \<and> (nq_posted_at q = 0 \<or> sint now - sint (nq_posted_at q) \<le> 86400))"
  by (auto simp: dealing_nav_def rbind_eq_Inr_iff not_stale [symmetric] split: if_splits)

text \<open>A ledger that answers the same for every account, on which the witnesses below deal.\<close>

definition deal_env :: fund_env where
  "deal_env = \<lparr>fe_show = (\<lambda>_. ''u''), fe_policy = (\<lambda>_. Inr None), fe_div = (div), fe_email = (\<lambda>_. None), fe_protocol = id\<rparr>"

definition deal_ports :: fund_ports where
  "deal_ports = \<lparr>fu_env = deal_env, fu_balance = (\<lambda>_. Inr \<lparr>lb_posted = 4, lb_pending = 0, lb_locked = 0\<rparr>),
     fu_spendable = (\<lambda>_. Inr 6), fu_spendable_locked = (\<lambda>_. Inr 6), fu_holdings = (\<lambda>_. Inr []),
     fu_flows = (\<lambda>_ _. Inr []), fu_user_active = (\<lambda>_. Inr (Some True))\<rparr>"

definition no_deals :: fund_db where
  "no_deals = \<lparr>fd_marks = [], fd_subscriptions = [], fd_redemptions = [], fd_positions = [], fd_issuances = [],
     fd_steps = [], fd_outbox = []\<rparr>"

lemma deal_prices:
  "dealing_nav deal_ports no_deals (ServiceId ''b'') 9 = Inr NAV_SEED"
  "issued_units deal_ports (ServiceId ''b'') = Inr (Shares 4)"
  "issued_supply deal_ports (ServiceId ''b'') = Inr (Shares 4)"
  by (simp_all add: dealing_nav_def nav_of_def service_is_reserved_def RESERVED_FEE_def RESERVED_FUND_def marked_quote_def
      nav_current_def newest_mark_def marks_of_def no_deals_def quote_seed_def quote_is_stale_def issued_units_def
      issued_supply_def ledger_read_def deal_ports_def from_ledger_def saturating_add_def checked_add_def rmap_def)

definition listed_record :: allocation_record where
  "listed_record = \<lparr>arc_allocation = \<lparr>al_id = 2, al_service = ServiceId ''b'', al_title = ''T'', al_summary = '''',
       al_state = Open_Allocation, al_unit_cap = Shares 10, al_icon = Fund_Icon, al_access = Hidden, al_backing = Cash,
       al_pending = []\<rparr>, arc_caller_access = Invest, arc_created_at = 1, arc_updated_at = 1\<rparr>"

lemma sample_found: "registry_find_for sample_registry (ServiceId ''b'') 7 = Inr (Some listed_record)"
  by (simp add: registry_find_for_def row_of_service_def grant_level_of_def sample_registry_def
      sample_product_def record_of_row_def access_parse_def allocation_of_row_def sample_names allocation_state_parse_def
      backing_parse_def icon_parse_def access_effective_def max_def less_eq_allocation_access_def listed_record_def)

text \<open>
  C9: cash buys units only as it should.  A subscription that is stored is in a product, never a reserved
  allocation; the product is registered and open, and the caller's effective access, the higher of the
  product's own level and their grant, is to invest; the money was spendable under the claim's lock; the
  price is the product's, no older than a day if it was ever marked; the units, at least one base unit and
  worth no more than the cash at that price, keep the supply, the in-flight part counted, within the
  product's cap; and what the relay is handed is exactly this deal.
\<close>
theorem subscription_admitted:
  assumes "subscribe ports rg i user service cash now db = Inr (db', s)"
  shows "\<not> service_is_reserved service \<and>
    (\<exists>rec issued q spendable.
       registry_find_for rg service user = Inr (Some rec) \<and>
       al_state (arc_allocation rec) = Open_Allocation \<and> arc_caller_access rec = Invest \<and>
       fu_spendable_locked ports (UserClaim user) = Inr spendable \<and> usdt_val cash \<le> unat spendable \<and>
       nav_of ports db service = Inr q \<and> nq_nav q = sb_nav s \<and>
       (nq_posted_at q = 0 \<or> sint now - sint (nq_posted_at q) \<le> 86400) \<and>
       issued_units ports service = Inr issued \<and>
       shares_val issued + shares_val (sb_units s) \<le> shares_val (al_unit_cap (arc_allocation rec))) \<and>
    0 < shares_val (sb_units s) \<and> shares_val (sb_units s) * nav_val (sb_nav s) \<le> usdt_val cash * 10 ^ 18 \<and>
    fd_outbox db' = fd_outbox db @ [Subscription_Fact (Subscribed i user service cash (sb_nav s) (sb_units s))]"
proof -
  from assms obtain a price issued minting opened where ordinary: "\<not> service_is_reserved service"
    and gate: "require_subscribable rg service user = Inr a"
    and fresh: "dealing_nav ports db service now = Inr price" and issued: "issued_units ports service = Inr issued"
    and minting: "shares_from_cash cash price = Inr minting" and cap: "ensure_capacity a issued minting = Inr ()"
    and opened: "subscription_open i user service cash price = Inr opened"
    and stored: "open_subscription (claim_covers_check (usdt_units cash) INSUFFICIENT_TO_SUBSCRIBE
      (fu_spendable_locked ports (UserClaim user))) opened db = Inr (db', s)"
    by (auto simp: subscribe_def rbind_eq_Inr_iff Let_def split: if_splits)
  from opened minting have o: "sb_nav opened = price" "sb_units opened = minting" "\<not> shares_is_zero minting"
    "sb_pending opened = [Subscribed i user service cash price minting]"
    by (auto simp: subscription_open_def split: if_splits)
  from stored obtain spendable where spendable: "fu_spendable_locked ports (UserClaim user) = Inr spendable"
      "usdt_val cash \<le> unat spendable"
    and db': "fd_outbox db' = fd_outbox db @ map Subscription_Fact (sb_pending opened)" and s: "s = opened\<lparr>sb_pending := []\<rparr>"
    by (auto simp: open_subscription_def rbind_eq_Inr_iff claim_covers_Inr split: if_splits)
  have "shares_val minting * nav_val price \<le> usdt_val cash * 10 ^ 18"
    using minting by (auto simp: nat_arith)
  moreover have "0 < shares_val minting" using o(3) by (simp add: nat_arith)
  ultimately show ?thesis
    using ordinary gate fresh issued cap o s db' spendable
    by (auto simp: require_subscribable_Inr dealing_nav_Inr ensure_capacity_Inr)
qed

text \<open>The user 7, let into a hidden product by a grant, buys five units of it at the seed price.\<close>

lemma sample_subscribed:
  "subscribe deal_ports sample_registry 3 7 (ServiceId ''b'') (Usdt 5) 9 no_deals =
     Inr (no_deals\<lparr>fd_subscriptions := [\<lparr>sbr_id = 3, sbr_user = 7, sbr_service = ''b'', sbr_cash = show_u128 5,
            sbr_nav = show_u128 SCALE, sbr_units = show_u128 5\<rparr>],
          fd_outbox := [Subscription_Fact (Subscribed 3 7 (ServiceId ''b'') (Usdt 5) NAV_SEED (Shares 5))]\<rparr>,
        \<lparr>sb_id = 3, sb_user = 7, sb_service = ServiceId ''b'', sb_cash = Usdt 5, sb_nav = NAV_SEED, sb_units = Shares 5,
          sb_pending = []\<rparr>)"
proof -
  have gate: "require_subscribable sample_registry (ServiceId ''b'') 7 = Inr (arc_allocation listed_record)"
    unfolding require_subscribable_Inr sample_found by (simp add: listed_record_def)
  have priced: "shares_from_cash (Usdt 5) NAV_SEED = Inr (Shares 5)"
    by (simp add: nat_arith NAV_SEED_def SCALE_def)
  have cap: "ensure_capacity (arc_allocation listed_record) (Shares 4) (Shares 5) = Inr ()"
    unfolding ensure_capacity_Inr by (simp add: listed_record_def)
  have covers: "claim_covers_check 5 w (Inr 6) = Inr ()" for w
    unfolding claim_covers_Inr by simp
  have ask: "fu_spendable deal_ports = (\<lambda>_. Inr 6)" "fu_spendable_locked deal_ports = (\<lambda>_. Inr 6)"
    by (simp_all add: deal_ports_def)
  show ?thesis
    by (simp add: subscribe_def service_is_reserved_def RESERVED_FEE_def RESERVED_FUND_def gate deal_prices priced cap covers ask
        subscription_open_def open_subscription_def row_of_subscription_def)
      (simp add: no_deals_def NAV_SEED_def usdt_is_zero_def shares_is_zero_def)
qed

theorem subscription_admitted_witness:
  "(\<exists>rec. registry_find_for sample_registry (ServiceId ''b'') 7 = Inr (Some rec) \<and> arc_caller_access rec = Invest) \<and>
   unat (5 :: u128) * nav_val NAV_SEED \<le> 5 * 10 ^ 18"
  using subscription_admitted [OF sample_subscribed] by auto

section \<open>Posting a price\<close>

lemma unat_saturating_mul: "unat (u128_saturating_mul a b) = min (unat a * unat b) (2 ^ 128 - 1)"
proof (cases "checked_mul a b")
  case None
  then have "2 ^ 128 \<le> unat a * unat b" by (simp add: nat_arith)
  with None show ?thesis
    by (simp only: u128_saturating_mul_def option.case unsigned_minus_1_eq_mask mask_eq_exp_minus_1 min_def) simp
next
  case (Some c)
  then have "unat a * unat b = unat c" by (simp add: nat_arith)
  with Some unat_lt128 [of c] show ?thesis by (simp add: u128_saturating_mul_def min_def)
qed

lemma unat_abs_diff: "unat (abs_diff a b) = (if unat a \<le> unat b then unat b - unat a else unat a - unat b)"
  by (auto simp: abs_diff_def unat_sub_no_wrap word_le_nat_alt)

lemma move_within:
  assumes "\<not> nav_move_exceeds p n MAX_NAV_MOVE_PCT" "nav_val p * 50 < 2 ^ 128 - 1"
  shows "nav_val p \<le> 2 * nav_val n \<and> 2 * nav_val n \<le> 3 * nav_val p"
proof -
  have cut: "x \<le> y" if "min x m \<le> min y m" "y < m" for x y m :: nat using that by (auto simp: min_def split: if_splits)
  have literal: "unat (50 :: u128) = 50" "unat (100 :: u128) = 100" by simp_all
  define d where "d = unat (abs_diff (nav_units p) (nav_units n))"
  have "min (d * 100) (2 ^ 128 - 1) \<le> min (nav_val p * 50) (2 ^ 128 - 1)"
    using assms(1) unfolding nav_move_exceeds_def word_less_nat_alt unat_saturating_mul MAX_NAV_MOVE_PCT_def d_def
    by (simp only: not_less literal)
  from this assms(2) have "d * 100 \<le> nav_val p * 50" by (rule cut)
  moreover have "nav_val p \<le> nav_val n + d" "nav_val n \<le> nav_val p + d" by (auto simp: d_def unat_abs_diff)
  ultimately show ?thesis by linarith
qed

text \<open>
  C14: one poster moves a price by at most half.  A valuation posted by one operator is for a registered
  product, prices it at the posted value over the supply on the ledger, floored, and is within half of the
  latest mark and within half of the mark that anchors the week before it (prices so high that half of one
  does not fit 128 bits apart, where the guard's arithmetic saturates).
\<close>
theorem valuation_posts_bounded:
  assumes "post_fund_valuation ports rg db_now i service aum poster now db = Inr (db', v)"
  shows "\<not> service_is_reserved service \<and> is_ok (get_product rg service) \<and>
    (\<exists>issued. issued_supply ports service = Inr issued \<and> 0 < shares_val issued \<and>
       nav_val (vl_nav v) = usdt_val aum * 10 ^ 18 div shares_val issued) \<and>
    (\<forall>prev. nav_current db service = Inr (Some prev) \<longrightarrow> nav_val (vl_nav prev) * 50 < 2 ^ 128 - 1 \<longrightarrow>
       nav_val (vl_nav prev) \<le> 2 * nav_val (vl_nav v) \<and> 2 * nav_val (vl_nav v) \<le> 3 * nav_val (vl_nav prev)) \<and>
    (\<forall>prev anchor. nav_current db service = Inr (Some prev) \<longrightarrow>
       nav_anchor db service (i64_saturating_sub now NAV_MOVE_WINDOW_SECS) = Inr (Some anchor) \<longrightarrow>
       nav_val (vl_nav anchor) * 50 < 2 ^ 128 - 1 \<longrightarrow>
       nav_val (vl_nav anchor) \<le> 2 * nav_val (vl_nav v) \<and> 2 * nav_val (vl_nav v) \<le> 3 * nav_val (vl_nav anchor))"
proof -
  from assms obtain a issued where start: "\<not> service_is_reserved service" "get_product rg service = Inr a"
    and on_ledger: "issued_supply ports service = Inr issued" "nav_from_aum aum issued = Inr (vl_nav v)"
    and checked: "check_move db service (vl_nav v) now = Inr ()"
    by (auto simp: post_fund_valuation_def record_valuation_def refuse_mark_on_reserved_def rbind_eq_Inr_iff split: if_splits)
  have price: "0 < shares_val issued" "nav_val (vl_nav v) = usdt_val aum * 10 ^ 18 div shares_val issued"
    using on_ledger(2) by (auto simp: nat_arith)
  have latest: "nav_val (vl_nav prev) \<le> 2 * nav_val (vl_nav v) \<and> 2 * nav_val (vl_nav v) \<le> 3 * nav_val (vl_nav prev)"
    if "nav_val (vl_nav prev) * 50 < 2 ^ 128 - 1" "nav_current db service = Inr (Some prev)" for prev
    using checked that(2) by (intro move_within that(1)) (auto simp: check_move_def split: if_splits)
  have anchored: "nav_val (vl_nav anchor) \<le> 2 * nav_val (vl_nav v) \<and> 2 * nav_val (vl_nav v) \<le> 3 * nav_val (vl_nav anchor)"
    if "nav_val (vl_nav anchor) * 50 < 2 ^ 128 - 1" "nav_current db service = Inr (Some prev)"
      "nav_anchor db service (i64_saturating_sub now NAV_MOVE_WINDOW_SECS) = Inr (Some anchor)" for prev anchor
    using checked that(2,3) by (intro move_within that(1)) (auto simp: check_move_def split: if_splits)
  show ?thesis
    using start on_ledger(1) price latest anchored unfolding is_ok_iff by blast
qed

text \<open>A product marked at 1 is marked a quarter higher.\<close>

definition marked_deals :: fund_db where
  "marked_deals = no_deals\<lparr>fd_marks := [\<lparr>mk_id = 1, mk_service = ''b'', mk_aum = show_u128 4, mk_units = show_u128 4,
     mk_nav = show_u128 SCALE, mk_posted_by = ''v'', mk_posted_at = 1000000\<rparr>]\<rparr>"

definition earlier_mark :: valuation where
  "earlier_mark = \<lparr>vl_service = ServiceId ''b'', vl_aum = Usdt 4, vl_units = Shares 4, vl_nav = NAV_SEED,
     vl_posted_by = ''v'', vl_posted_at = 1\<rparr>"

lemma sample_marks:
  "nav_current marked_deals (ServiceId ''b'') = Inr (Some earlier_mark)"
  "nav_anchor marked_deals (ServiceId ''b'') at = Inr (Some earlier_mark)"
  by (simp_all add: nav_current_def nav_anchor_def newest_mark_def oldest_mark_def marks_of_def marked_deals_def no_deals_def
      valuation_of_row_def sample_names parse_mark_units_def earlier_mark_def NAV_SEED_def floor_seconds_def Let_def)

lemma sample_posted:
  "\<exists>db'. post_fund_valuation deal_ports sample_registry 9000000 2 (ServiceId ''b'') (Usdt 5) ''v'' 9 marked_deals =
     Inr (db', \<lparr>vl_service = ServiceId ''b'', vl_aum = Usdt 5, vl_units = Shares 4, vl_nav = Nav 1250000000000000000,
       vl_posted_by = ''v'', vl_posted_at = 9\<rparr>)"
proof -
  have product: "get_product sample_registry (ServiceId ''b'') = Inr (arc_allocation listed_record)"
    by (simp add: get_product_def registry_find_def row_of_service_def sample_registry_def sample_product_def allocation_of_row_def
        sample_names access_parse_def allocation_state_parse_def backing_parse_def icon_parse_def listed_record_def)
  have derived: "nav_from_aum (Usdt 5) (Shares 4) = Inr (Nav 1250000000000000000)" by (simp add: nat_arith)
  have small: "\<not> nav_move_exceeds NAV_SEED (Nav 1250000000000000000) MAX_NAV_MOVE_PCT"
    by (simp add: nav_move_exceeds_def u128_saturating_mul_def checked_mul_def abs_diff_def MAX_NAV_MOVE_PCT_def NAV_SEED_def
        SCALE_def)
  show ?thesis
    by (simp add: post_fund_valuation_def refuse_mark_on_reserved_def service_is_reserved_def RESERVED_FEE_def RESERVED_FUND_def
        product deal_prices derived check_move_def sample_marks small earlier_mark_def record_valuation_def nav_record_def
        floor_seconds_def)
      (simp add: marked_deals_def)
qed

theorem valuation_posts_bounded_witness:
  "nav_val NAV_SEED \<le> 2 * 1250000000000000000 \<and> 2 * 1250000000000000000 \<le> 3 * nav_val NAV_SEED"
proof -
  from sample_posted obtain db' where posted:
    "post_fund_valuation deal_ports sample_registry 9000000 2 (ServiceId ''b'') (Usdt 5) ''v'' 9 marked_deals =
       Inr (db', \<lparr>vl_service = ServiceId ''b'', vl_aum = Usdt 5, vl_units = Shares 4, vl_nav = Nav 1250000000000000000,
         vl_posted_by = ''v'', vl_posted_at = 9\<rparr>)" by blast
  have low: "nav_val (vl_nav earlier_mark) * 50 < 2 ^ 128 - 1" "nav_val (vl_nav earlier_mark) = nav_val NAV_SEED"
    by (simp_all add: earlier_mark_def NAV_SEED_def SCALE_def)
  have "\<forall>prev. nav_current marked_deals (ServiceId ''b'') = Inr (Some prev) \<longrightarrow> nav_val (vl_nav prev) * 50 < 2 ^ 128 - 1 \<longrightarrow>
      nav_val (vl_nav prev) \<le> 2 * 1250000000000000000 \<and> 2 * 1250000000000000000 \<le> 3 * nav_val (vl_nav prev)"
    using valuation_posts_bounded [OF posted] by simp
  from this [rule_format, OF sample_marks(1) low(1)] show ?thesis unfolding low(2) .
qed

text \<open>
  The window anchors every post of a week at prices from before it, so the cap does not bound the move within
  the week: with the fund's anchor at 1, each of these posts is admitted, and the price triples.
\<close>

lemma week_triples:
  "\<not> nav_move_exceeds (Nav 1000) (Nav 500) MAX_NAV_MOVE_PCT" "\<not> nav_move_exceeds (Nav 500) (Nav 750) MAX_NAV_MOVE_PCT"
  "\<not> nav_move_exceeds (Nav 1000) (Nav 750) MAX_NAV_MOVE_PCT" "\<not> nav_move_exceeds (Nav 750) (Nav 1125) MAX_NAV_MOVE_PCT"
  "\<not> nav_move_exceeds (Nav 1000) (Nav 1125) MAX_NAV_MOVE_PCT" "\<not> nav_move_exceeds (Nav 1125) (Nav 1500) MAX_NAV_MOVE_PCT"
  "\<not> nav_move_exceeds (Nav 1000) (Nav 1500) MAX_NAV_MOVE_PCT"
  by (simp_all add: nav_move_exceeds_def u128_saturating_mul_def checked_mul_def abs_diff_def MAX_NAV_MOVE_PCT_def)

section \<open>Units without cash\<close>

lemma get_product_Inr:
  "get_product rg s = Inr a \<longleftrightarrow> (\<exists>r. row_of_service rg s = Some r \<and> allocation_of_row r = Inr a)"
  by (auto simp: get_product_def registry_find_def result_iffs split: option.splits)

lemma find_map_same:
  assumes "\<And>x. P (f x) \<longleftrightarrow> P x"
  shows "find P (map f xs) = map_option f (find P xs)"
  by (induction xs) (auto simp: assms)

lemma found_by:
  assumes "row_of_service rg s = Some r"
  shows "r \<in> set (rg_rows rg)" "alr_service r = service_id_str s"
  using assms by (auto simp: row_of_service_def find_Some_iff)

lemma backing_written:
  assumes "registry_set_backing t rg s b = Inr (rg', a')"
  shows "\<exists>a. get_product rg' s = Inr a \<and> al_backing a = b"
proof -
  from assms obtain loaded rg1 where l: "load_allocation rg s = Inr loaded"
    and u: "update_allocation_row t (allocation_set_backing b loaded) rg = Inr rg1" and rg': "rg_rows rg' = rg_rows rg1"
    by (auto simp: registry_set_backing_def registry_transition_def rbind_eq_Inr_iff dest!: logged_part)
  let ?a = "allocation_set_backing b loaded"
  from l obtain r where r: "row_of_service rg s = Some r" "allocation_of_row r = Inr loaded"
    by (auto simp: load_allocation_def rbind_eq_Inr_iff)
  have own: "al_id ?a = alr_id r" and written: "al_backing ?a = b"
    using r(2) by (auto simp: command_ids allocation_of_row_def result_iffs Let_def allocation_set_backing_def allocation_raise_def)
  have "row_of_service rg1 s = Some (written_row t ?a r)"
    using u r(1) own
    by (auto simp: update_allocation_row_def row_of_service_def find_map_same written_row_def split: if_splits)
  moreover have "\<exists>a. allocation_of_row (written_row t ?a r) = Inr a \<and> al_backing a = b"
    using r(2) written
    by (auto simp: allocation_state_text.parse_show access_text.parse_show backing_text.parse_show allocation_of_row_def written_row_def result_iffs Let_def)
  ultimately show ?thesis by (auto simp: get_product_Inr row_of_service_def rg')
qed

lemma in_kind_refused:
  "get_product rg s = Inr a \<Longrightarrow> al_backing a = InKind \<Longrightarrow> \<not> is_ok (require_redeemable rg s)"
  by (auto simp: require_redeemable_def is_ok_def ensure_redeemable_def ensure_cash_backed_def rbind_def
      split: allocation_state.splits)

text \<open>
  C13: units that cash never paid for cannot be redeemed for cash.  When an operator's request mints units of a
  product in kind, that is when it leaves a new issuance behind, then the registry it leaves refuses every
  redemption of that product.
\<close>
theorem in_kind_units_not_redeemable:
  assumes "issue_units ports db_now i q now (rg, db) = ((rg', db'), Inr rec)" "fd_issuances db' \<noteq> fd_issuances db"
  shows "\<not> is_ok (require_redeemable rg' (iq_service q))"
proof -
  have ordinary: "\<not> service_is_reserved (iq_service q)" and minted: "mint ports db_now i q now (rg, db) = ((rg', db'), Inr rec)"
    using assms(1) by (auto simp: issue_units_def split: if_splits unit_holder.splits)
  from minted assms(2) obtain a u rg1 where checks: "mint_checks ports rg i q now db = Inr (a, u)"
    and flip: "(if al_backing a = Cash \<and> \<not> service_is_reserved (iq_service q)
      then rmap fst (registry_set_backing db_now rg (iq_service q) InKind) else Inr rg) = Inr rg1" and rg': "rg' = rg1"
    by (auto simp: mint_def try_tx_def split: sum.splits option.splits prod.splits)
  have a: "get_product rg (iq_service q) = Inr a" using checks by (auto simp: mint_checks_def result_iffs)
  show ?thesis
  proof (cases "al_backing a")
    case Cash
    with flip ordinary rg' obtain a' where "registry_set_backing db_now rg (iq_service q) InKind = Inr (rg', a')"
      by (auto simp: rmap_eq_Inr_iff)
    from backing_written [OF this] show ?thesis by (auto dest: in_kind_refused)
  next
    case InKind
    with flip rg' a show ?thesis by (auto dest: in_kind_refused)
  qed
qed

text \<open>Five units of the hidden product, minted to the user 7 for nothing.\<close>

definition gift :: issue_request where
  "gift = \<lparr>iq_service = ServiceId ''b'', iq_holder = User_Holder 7, iq_units = Shares 5, iq_cost_basis = Some (Usdt 0),
     iq_key = IssuanceKey ''k''\<rparr>"

definition in_kind_registry :: registry where
  "in_kind_registry = fst (case registry_set_backing 9 sample_registry (ServiceId ''b'') InKind of
     Inr x \<Rightarrow> x | Inl _ \<Rightarrow> (sample_registry, arc_allocation listed_record))"

lemma sample_product_read:
  "get_product sample_registry (ServiceId ''b'') = Inr (arc_allocation listed_record)"
  "\<exists>a. registry_set_backing 9 sample_registry (ServiceId ''b'') InKind = Inr (in_kind_registry, a)"
proof -
  show "get_product sample_registry (ServiceId ''b'') = Inr (arc_allocation listed_record)"
    by (simp add: get_product_def registry_find_def row_of_service_def sample_registry_def sample_product_def allocation_of_row_def
        sample_names access_parse_def allocation_state_parse_def backing_parse_def icon_parse_def listed_record_def)
  have "is_ok (registry_set_backing 9 sample_registry (ServiceId ''b'') InKind)"
    by (simp add: registry_set_backing_def registry_transition_def load_allocation_def row_of_service_def sample_registry_def
        sample_product_def allocation_of_row_def sample_names access_parse_def allocation_state_parse_def backing_parse_def
        icon_parse_def allocation_set_backing_def allocation_raise_def update_allocation_row_def is_ok_def log_allocation_def
        allocation_drain_def)
  then show "\<exists>a. registry_set_backing 9 sample_registry (ServiceId ''b'') InKind = Inr (in_kind_registry, a)"
    by (cases "registry_set_backing 9 sample_registry (ServiceId ''b'') InKind") (auto simp: in_kind_registry_def is_ok_def)
qed

lemma sample_minted:
  "\<exists>db' rec. issue_units deal_ports 9 3 gift 9 (sample_registry, no_deals) = ((in_kind_registry, db'), Inr rec) \<and>
     fd_issuances db' \<noteq> []"
proof -
  obtain a where flip: "registry_set_backing 9 sample_registry (ServiceId ''b'') InKind = Inr (in_kind_registry, a)"
    using sample_product_read(2) by blast
  have cap: "ensure_capacity (arc_allocation listed_record) (Shares 4) (Shares 5) = Inr ()"
    unfolding ensure_capacity_Inr by (simp add: listed_record_def)
  have cash: "al_backing (arc_allocation listed_record) = Cash" by (simp add: listed_record_def)
  have key: "issuance_key_parse ''k'' = Inr (IssuanceKey ''k'')"
    by (simp add: issuance_key_parse_def trim_graphic graphic_def byte_def ISSUANCE_KEY_LEN_def chars_count_def)
  have user: "fu_user_active deal_ports = (\<lambda>_. Inr (Some True))" by (simp add: deal_ports_def)
  have checks: "mint_checks deal_ports sample_registry 3 gift 9 no_deals =
      Inr (arc_allocation listed_record, \<lparr>ui_id = 3, ui_service = ServiceId ''b'', ui_holder = User_Holder 7, ui_source = Mint_Source,
        ui_units = Shares 5, ui_nav = NAV_SEED, ui_cost_basis = Usdt 0, ui_key = IssuanceKey ''k'', ui_state = Queued_Issuance,
        ui_pending = [Issued 3 (ServiceId ''b'') (User_Holder 7) Mint_Source (Shares 5) NAV_SEED (Usdt 0)]\<rparr>)"
    by (simp add: mint_checks_def gift_def sample_product_read(1) require_holder_def user deal_prices cap issuance_issue_def
        issuance_record_def shares_is_zero_def)
  have fresh: "issuance_row_by_key no_deals s k = None" "fd_issuances no_deals = []" for s k
    by (simp_all add: issuance_row_by_key_def no_deals_def)
  have request: "iq_service gift = ServiceId ''b''" "iq_holder gift = User_Holder 7" by (simp_all add: gift_def)
  show ?thesis
    by (simp add: issue_units_def service_is_reserved_def RESERVED_FEE_def RESERVED_FUND_def mint_def try_tx_def
        issuance_by_key_def fresh checks cash flip record_issuance_def issue_stored_def rmap_def
        live_issuance_of_row_def row_of_issuance_def sample_names holder_from_parts_def issuance_source_parse_def key
        issuance_state_parse_def parse_stored_def request Let_def)
qed

theorem in_kind_units_not_redeemable_witness:
  "\<not> is_ok (require_redeemable in_kind_registry (ServiceId ''b''))"
proof -
  from sample_minted obtain db' rec
    where "issue_units deal_ports 9 3 gift 9 (sample_registry, no_deals) = ((in_kind_registry, db'), Inr rec)"
      and "fd_issuances db' \<noteq> fd_issuances no_deals" by (auto simp: no_deals_def)
  from in_kind_units_not_redeemable [OF this] show ?thesis by (simp add: gift_def)
qed

end
