(* ===== verification/FundPositions.thy ===== *)
theory FundPositions
  imports FundDeals
begin

text \<open>
  What a holder's position may say over every history of deliveries and settlements: the projection of a
  deal is applied once however often the relay delivers it, and neither the cost basis nor the units a
  position carries exceed what the holder's deals brought in.
\<close>

section \<open>Histories\<close>

datatype position_command =
    Deliver_Subscription outbox_row subscription_event
  | Deliver_Issuance outbox_row issuance_event
  | Deliver_Trade outbox_row book_event
  | Settle_Redemption_Row uuid nav

text \<open>What a delivered fact brings a holder: whom, in what, the cash paid and the units.\<close>

type_synonym credit = "uuid \<times> (uuid \<times> string) \<times> nat \<times> nat"

fun subscription_credit :: "uuid \<Rightarrow> subscription_event \<Rightarrow> credit list" where
  "subscription_credit e (Subscribed i user service cash price units) =
     [(e, (user, service_id_str service), usdt_val cash, shares_val units)]"

fun issuance_credit :: "uuid \<Rightarrow> issuance_event \<Rightarrow> credit list" where
  "issuance_credit e (Issued i service (User_Holder user) Mint_Source units price cost) =
     [(e, (user, service_id_str service), usdt_val cost, shares_val units)]"
| "issuance_credit e (Issued i service holder source units price cost) = []"

fun trade_credit :: "fund_env \<Rightarrow> uuid \<Rightarrow> book_event \<Rightarrow> credit list" where
  "trade_credit env e (TradeExecuted _ service buyer _ _ _ taker_side amount _ notional fee _ _) =
     (case buyer_paid env taker_side notional fee of
        Inr paid \<Rightarrow> [(e, (buyer, service_id_str service), usdt_val paid, shares_val amount)]
      | Inl _ \<Rightarrow> [])"
| "trade_credit env e _ = []"

text \<open>The state with the credits so far: a fact is credited when its marker is first written.\<close>

definition marked :: "uuid \<Rightarrow> fund_db \<Rightarrow> bool" where
  "marked e db \<longleftrightarrow> (\<exists>s \<in> set (fd_steps db). ss_event s = e \<and> ss_leg s = PROJECTION_LEG)"

definition deliver_fact :: "uuid \<Rightarrow> credit list \<Rightarrow> (fund_db \<Rightarrow> string + fund_db) \<Rightarrow> fund_db \<times> credit list \<Rightarrow> fund_db \<times> credit list" where
  "deliver_fact e gains project st =
     (case project (fst st) of
        Inl _ \<Rightarrow> st
      | Inr db \<Rightarrow> (db, if marked e (fst st) then snd st else snd st @ gains))"

fun position_step ::
  "fund_env \<Rightarrow> tid \<Rightarrow> int \<times> i64 \<times> position_command \<Rightarrow> fund_db \<times> credit list \<Rightarrow> fund_db \<times> credit list" where
  "position_step env tid (db_now, now, Deliver_Subscription row e) st =
     deliver_fact (ob_event_id row) (subscription_credit (ob_event_id row) e) (project_subscription env tid db_now now row e) st"
| "position_step env tid (db_now, now, Deliver_Issuance row e) st =
     deliver_fact (ob_event_id row) (issuance_credit (ob_event_id row) e) (project_issuance env tid db_now now row e) st"
| "position_step env tid (db_now, now, Deliver_Trade row e) st =
     deliver_fact (ob_event_id row) (trade_credit env (ob_event_id row) e) (project_trade env tid db_now now row e) st"
| "position_step env tid (db_now, now, Settle_Redemption_Row i price) st =
     (case settle_stored env now i price (fst st) of Inl _ \<Rightarrow> st | Inr (db, r) \<Rightarrow> (db, snd st))"

definition position_run ::
  "fund_env \<Rightarrow> tid \<Rightarrow> (int \<times> i64 \<times> position_command) list \<Rightarrow> fund_db \<Rightarrow> fund_db \<times> credit list" where
  "position_run env tid cs db = fold (position_step env tid) cs (db, [])"

section \<open>What a position may carry\<close>

definition paid_cash :: "credit list \<Rightarrow> uuid \<times> string \<Rightarrow> nat" where
  "paid_cash G k = sum_list (map (fst \<circ> snd \<circ> snd) (filter (\<lambda>c. fst (snd c) = k) G))"

definition paid_units :: "credit list \<Rightarrow> uuid \<times> string \<Rightarrow> nat" where
  "paid_units G k = sum_list (map (snd \<circ> snd \<circ> snd) (filter (\<lambda>c. fst (snd c) = k) G))"

definition key_of :: "fund_position_row \<Rightarrow> uuid \<times> string" where
  "key_of p = (pw_user p, pw_service p)"

definition row_within :: "credit list \<Rightarrow> fund_position_row \<Rightarrow> bool" where
  "row_within G p \<longleftrightarrow> pw_cost_basis p \<le> paid_cash G (key_of p) \<and> pw_units p \<le> paid_units G (key_of p)"

definition all_within :: "credit list \<Rightarrow> fund_db \<Rightarrow> bool" where
  "all_within G db \<longleftrightarrow> (\<forall>p \<in> set (fd_positions db). row_within G p)"

text \<open>The database's division rounds no further than to the next number up.\<close>

definition careful :: "fund_env \<Rightarrow> bool" where
  "careful env \<longleftrightarrow> (\<forall>a b. 0 < b \<longrightarrow> fe_div env a b * b < a + b)"

lemma careful_cut:
  assumes "careful env" "u \<le> U" "0 < U"
  shows "fe_div env (c * (U - u)) U \<le> c"
proof -
  have "fe_div env (c * (U - u)) U * U < c * (U - u) + U" using assms by (simp add: careful_def)
  also have "\<dots> \<le> c * U + U" by simp
  also have "\<dots> = (c + 1) * U" by simp
  finally show ?thesis using mult_less_cancel2 by (metis Suc_eq_plus1 less_Suc_eq_le)
qed

lemma paid_append [simp]:
  "paid_cash (G @ H) k = paid_cash G k + paid_cash H k" "paid_units (G @ H) k = paid_units G k + paid_units H k"
  by (simp_all add: paid_cash_def paid_units_def)

lemma all_within_more: "all_within G db \<Longrightarrow> all_within (G @ H) db"
  by (auto simp: all_within_def row_within_def intro: trans_le_add1)

lemma update_position_within:
  assumes "all_within G db" "\<And>p. row_within G p \<Longrightarrow> position_key user service p \<Longrightarrow> row_within G (f p)"
  shows "all_within G (update_position user service f db)"
  using assms by (auto simp: all_within_def update_position_def)

lemma update_position_steps [simp]: "fd_steps (update_position user service f db) = fd_steps db"
  by (simp add: update_position_def)

lemma settle_accrual_within:
  assumes "settle_accrual env user s now db = Inr db'" "all_within G db"
  shows "all_within G db' \<and> fd_steps db' = fd_steps db"
  using assms by (auto simp: settle_accrual_def Let_def rbind_eq_Inr_iff row_within_def key_of_def
      intro!: update_position_within split: option.splits if_splits)

lemma raise_position_within:
  assumes "all_within G db"
  shows "all_within (G @ [(e, (user, service_id_str s), usdt_val cash, shares_val units)]) (raise_position t user s cash units price db)"
    (is "all_within (G @ [?c]) _")
proof (cases "find_position db user (service_id_str s)")
  case None
  have "row_within (G @ [?c]) \<lparr>pw_user = user, pw_service = service_id_str s, pw_cost_basis = usdt_val cash,
      pw_units = shares_val units, pw_high_water_mark = nav_val price, pw_fee_debt = 0, pw_accrued_at = t, pw_crystallized_at = t\<rparr>"
    by (simp add: row_within_def key_of_def) (simp add: paid_cash_def paid_units_def)
  with None all_within_more [OF assms, of "[?c]"] show ?thesis by (auto simp: raise_position_def all_within_def)
next
  case (Some q)
  have one: "paid_cash [?c] k = (if (user, service_id_str s) = k then usdt_val cash else 0)"
    "paid_units [?c] k = (if (user, service_id_str s) = k then shares_val units else 0)" for k
    by (simp_all add: paid_cash_def paid_units_def)
  have "row_within (G @ [?c]) (if position_key user (service_id_str s) p
      then p\<lparr>pw_cost_basis := pw_cost_basis p + usdt_val cash, pw_units := pw_units p + shares_val units,
             pw_high_water_mark := max (pw_high_water_mark p) (nav_val price)\<rparr> else p)" if "row_within G p" for p
    using that by (auto simp: row_within_def key_of_def position_key_def one)
  with Some assms show ?thesis
    unfolding raise_position_def all_within_def update_position_def by (fastforce split del: if_split)
qed

lemma raise_position_steps [simp]: "fd_steps (raise_position t user s cash units price db) = fd_steps db"
  by (simp add: raise_position_def Let_def split: option.splits)

lemma cut_within:
  assumes "careful env" "all_within G db"
  shows "all_within G (cut_position env user s units db)"
proof -
  have "fe_div env (c * (U - u)) U \<le> b" if "c \<le> b" "u < U" for c u U b
    using careful_cut [OF assms(1), of u U c] that by simp
  then show ?thesis
    unfolding cut_position_def
    by (intro update_position_within assms(2)) (auto simp: row_within_def key_of_def)
qed

lemma cut_steps [simp]: "fd_steps (cut_position env user s units db) = fd_steps db"
  by (simp add: cut_position_def)

lemma settled_units:
  assumes "rd_state r \<noteq> Completed_Redemption" "redemption_settle r price = Inr r'"
  shows "0 < shares_val (rd_units r')"
  using assms by (auto simp: redemption_settle_def redemption_raise_def rbind_eq_Inr_iff nat_arith split: if_splits intro!: Nat.gr0I)

lemma settle_stored_within:
  assumes "careful env" "settle_stored env now i price db = Inr (db', r)" "all_within G db"
  shows "all_within G db' \<and> fd_steps db' = fd_steps db"
proof (cases "db' = db")
  case False
  with assms(2) obtain r0 r' db1 db2 where done_with: "rd_state r0 \<noteq> Completed_Redemption" "redemption_settle r0 price = Inr r'"
    and "write_redemption r' db = Inr db1" and cut: "reduce_cost_basis env now r' db1 = Inr db2"
    and db': "db' = fst (drain_redemption r' db2)"
    by (auto simp: settle_stored_def rbind_eq_Inr_iff split: if_splits)
  then have same: "fd_positions db1 = fd_positions db" "fd_steps db1 = fd_steps db"
    by (auto simp: write_redemption_def split: if_splits)
  have one: "all_within G db1" using assms(3) same by (simp add: all_within_def)
  let ?u = "shares_val (rd_units r')" and ?name = "service_id_str (rd_service r')"
  let ?f = "\<lambda>p. if ?u \<le> pw_units p
    then p\<lparr>pw_cost_basis := fe_div env (pw_cost_basis p * (pw_units p - ?u)) (pw_units p), pw_units := pw_units p - ?u\<rparr> else p"
  from cut obtain db3 where settled: "settle_accrual env (rd_user r') (rd_service r') now db1 = Inr db3"
    and db2: "db2 = update_position (rd_user r') ?name ?f db3"
    by (auto simp: reduce_cost_basis_def rbind_eq_Inr_iff Let_def split: if_splits)
  have positive: "0 < ?u" by (rule settled_units [OF done_with])
  have "row_within G (?f p)" if "row_within G p" for p
    using careful_cut [OF assms(1), of ?u "pw_units p" "pw_cost_basis p"] that positive
    by (cases "?u \<le> pw_units p") (auto simp: row_within_def key_of_def)
  then have "all_within G db2" unfolding db2 by (intro update_position_within) (use settle_accrual_within [OF settled one] in blast)+
  moreover have "fd_steps db2 = fd_steps db" using settle_accrual_within [OF settled one] same by (simp add: db2)
  ultimately show ?thesis by (simp add: db' drain_redemption_def redemption_drain_def all_within_def)
qed (use assms in simp)

lemma project_once_cases:
  assumes "project_once e role marker f db = Inr db'"
  obtains "marked e db" "db' = db"
  | s where "\<not> marked e db" "f (db\<lparr>fd_steps := fd_steps db @ [s]\<rparr>) = Inr db'" "ss_event s = e" "ss_leg s = PROJECTION_LEG"
  using assms by (auto simp: project_once_def marked_def split: if_splits)

lemma as_protocol_Inr [simp]: "as_protocol env what m = Inr x \<longleftrightarrow> m = Inr x"
  by (cases m) (simp_all add: as_protocol_def)

text \<open>A projection adds its credit, and writes nothing to the steps beyond its marker.\<close>

definition brings :: "fund_env \<Rightarrow> credit list \<Rightarrow> (fund_db \<Rightarrow> string + fund_db) \<Rightarrow> bool" where
  "brings env gains f \<longleftrightarrow> (\<forall>G db db'. f db = Inr db' \<longrightarrow> all_within G db \<longrightarrow> all_within (G @ gains) db' \<and> fd_steps db' = fd_steps db)"

lemma subscription_brings:
  "brings env (subscription_credit e (Subscribed i user s cash price units))
     (\<lambda>db. rbind (as_protocol env what (settle_accrual env user s now db)) (\<lambda>db1. Inr (raise_position t user s cash units price db1)))"
  by (auto simp: brings_def rbind_eq_Inr_iff dest: settle_accrual_within intro: raise_position_within)

lemma issuance_brings:
  assumes "careful env"
  shows "brings env (issuance_credit e (Issued i s holder source units price cost))
    (\<lambda>db. project_holder_position env t now holder source s units price cost (apply_issuance t j db))"
proof -
  have same: "all_within G (apply_issuance t j db) = all_within G db" "fd_steps (apply_issuance t j db) = fd_steps db" for G db
    by (simp_all add: apply_issuance_def all_within_def)
  show ?thesis
  proof (cases holder)
    case (User_Holder user)
    then show ?thesis
      using same by (cases source) (auto simp: brings_def project_holder_position_def rbind_eq_Inr_iff
          dest!: settle_accrual_within intro: raise_position_within cut_within [OF assms])
  next
    case (Allocation_Holder a)
    then show ?thesis using same by (auto simp: brings_def project_holder_position_def)
  qed
qed

lemma trade_brings:
  assumes "careful env"
  shows "brings env (trade_credit env e (TradeExecuted i s buyer seller b o1 taker amount p notional fee price payee))
    (\<lambda>db. rbind (buyer_paid env taker notional fee) (\<lambda>paid.
       rbind (as_protocol env w (settle_accrual env buyer s now db)) (\<lambda>db1.
       rbind (as_protocol env w' (settle_accrual env seller s now (raise_position t buyer s paid amount price db1))) (\<lambda>db2.
       Inr (cut_position env seller s amount db2)))))"
  by (auto simp: brings_def rbind_eq_Inr_iff dest!: settle_accrual_within intro!: cut_within [OF assms] dest: raise_position_within)

definition run_within :: "fund_db \<times> credit list \<Rightarrow> bool" where
  "run_within st \<longleftrightarrow> all_within (snd st) (fst st) \<and> distinct (map fst (snd st)) \<and> (\<forall>e \<in> fst ` set (snd st). marked e (fst st))"

lemma deliver_within:
  assumes "brings env gains f" "run_within st" "length gains \<le> 1" "\<forall>g \<in> set gains. fst g = e"
  shows "run_within (deliver_fact e gains (project_once e role marker f) st)"
proof (cases "project_once e role marker f (fst st)")
  case (Inl x)
  with assms(2) show ?thesis by (simp add: deliver_fact_def)
next
  case (Inr db')
  then show ?thesis
  proof (cases rule: project_once_cases)
    case 1
    with assms(2) Inr show ?thesis by (simp add: deliver_fact_def)
  next
    case (2 s)
    have "all_within (snd st) ((fst st)\<lparr>fd_steps := fd_steps (fst st) @ [s]\<rparr>)"
      using assms(2) by (simp add: run_within_def all_within_def)
    with 2(2) assms(1) have after: "all_within (snd st @ gains) db'" "fd_steps db' = fd_steps (fst st) @ [s]"
      by (auto simp: brings_def)
    have seen: "marked x db' \<longleftrightarrow> marked x (fst st) \<or> x = e" for x
      using 2(3,4) by (auto simp: marked_def after(2))
    have "e \<notin> fst ` set (snd st)" using assms(2) 2(1) by (auto simp: run_within_def)
    moreover have "distinct (map fst gains)" using assms(3) by (cases gains rule: list.exhaust) auto
    ultimately show ?thesis
      using assms(2,4) Inr 2(1) after(1) seen by (auto simp: deliver_fact_def run_within_def)
  qed
qed

text \<open>The three projections in their one form.\<close>

lemma projections:
  "project_subscription env tid t now row (Subscribed i user s cash price units) =
     project_once (ob_event_id row) ''subscribe_position'' (tid (ob_aggregate_id row) ''subscribe:position'')
       (\<lambda>db. rbind (as_protocol env ''carry fee accrual before subscribe basis change: '' (settle_accrual env user s now db))
          (\<lambda>db1. Inr (raise_position t user s cash units price db1)))"
  "project_issuance env tid t now row (Issued i s holder source units price cost) =
     project_once (ob_event_id row) ''issue_applied'' (tid (ob_aggregate_id row) ''issue:applied'')
       (\<lambda>db. project_holder_position env t now holder source s units price cost (apply_issuance t (ob_aggregate_id row) db))"
  "project_trade env tid t now row (TradeExecuted i s buyer seller b o1 taker amount p notional fee price payee) =
     project_once (ob_event_id row) ''book_trade_position'' (tid (ob_aggregate_id row) ''book:trade:position'')
       (\<lambda>db. rbind (buyer_paid env taker notional fee) (\<lambda>paid.
          rbind (as_protocol env ''carry fee accrual before buy basis change: '' (settle_accrual env buyer s now db)) (\<lambda>db1.
          rbind (as_protocol env ''carry fee accrual before sell basis change: ''
            (settle_accrual env seller s now (raise_position t buyer s paid amount price db1))) (\<lambda>db2.
          Inr (cut_position env seller s amount db2)))))"
  by (simp_all add: fun_eq_iff project_subscription_def project_issuance_def project_trade_def)

lemma position_step_within:
  assumes "careful env" "run_within st"
  shows "run_within (position_step env tid c st)"
proof -
  obtain t now cmd where c: "c = (t, now, cmd)" by (cases c)
  show ?thesis
  proof (cases cmd)
    case (Deliver_Subscription row e)
    obtain i user s cash price units where e: "e = Subscribed i user s cash price units" by (cases e)
    show ?thesis unfolding c Deliver_Subscription e position_step.simps projections
      by (rule deliver_within [OF subscription_brings assms(2)]) simp_all
  next
    case (Deliver_Issuance row e)
    obtain i s holder source units price cost where e: "e = Issued i s holder source units price cost" by (cases e)
    have "length (issuance_credit x e) \<le> 1 \<and> (\<forall>g \<in> set (issuance_credit x e). fst g = x)" for x
      unfolding e by (cases holder; cases source) simp_all
    then show ?thesis unfolding c Deliver_Issuance position_step.simps e projections
      by (intro deliver_within [OF issuance_brings [OF assms(1)] assms(2)]) blast+
  next
    case (Deliver_Trade row e)
    show ?thesis
    proof (cases e)
      case (TradeExecuted i s buyer seller b o1 taker amount p notional fee price payee)
      have "length (trade_credit env x e) \<le> 1 \<and> (\<forall>g \<in> set (trade_credit env x e). fst g = x)" for x
        unfolding TradeExecuted by (simp split: sum.splits)
      then show ?thesis unfolding c Deliver_Trade position_step.simps TradeExecuted projections
        by (intro deliver_within [OF trade_brings [OF assms(1)] assms(2)]) blast+
    qed (use assms(2) in \<open>auto simp: c Deliver_Trade project_trade_def deliver_fact_def run_within_def\<close>)
  next
    case (Settle_Redemption_Row i price)
    show ?thesis
    proof (cases "settle_stored env now i price (fst st)")
      case (Inl x)
      with assms(2) show ?thesis by (simp add: c Settle_Redemption_Row)
    next
      case (Inr x)
      then obtain db r where x: "settle_stored env now i price (fst st) = Inr (db, r)" by (cases x) auto
      from settle_stored_within [OF assms(1) this, of "snd st"] assms(2) show ?thesis
        by (simp add: c Settle_Redemption_Row x run_within_def marked_def)
    qed
  qed
qed

text \<open>
  C10: a position never says more than was paid for.  Over every sequence of deliveries of subscriptions,
  issuances and trades, in any order and repeated at will, and of settlements of redemptions, starting with no
  position: each fact is credited at most once, and the cost basis and the units of a holder's position are at
  most the cash and the units that the credited facts brought that holder in that product.
\<close>
theorem positions_never_inflated:
  assumes "careful env" "fd_positions db0 = []"
    and "position_run env tid cs db0 = (db, credits)" "find_position db user service = Some p"
  shows "distinct (map fst credits) \<and> pw_cost_basis p \<le> paid_cash credits (user, service) \<and>
    pw_units p \<le> paid_units credits (user, service)"
proof -
  have "run_within (fold (position_step env tid) cs st)" if "run_within st" for st
    using that
  proof (induction cs arbitrary: st)
    case (Cons c cs)
    show ?case unfolding fold_Cons comp_apply by (rule Cons.IH) (rule position_step_within [OF assms(1) Cons.prems])
  qed simp
  from this [of "(db0, [])"] assms(2,3) have "run_within (db, credits)"
    by (simp add: position_run_def run_within_def all_within_def)
  with assms(4) show ?thesis
    by (auto simp: run_within_def all_within_def row_within_def find_position_def find_Some_iff position_key_def key_of_def
        dest: nth_mem)
qed

text \<open>A subscription delivered twice is credited once.\<close>

definition buyer_env :: fund_env where
  "buyer_env = \<lparr>fe_show = (\<lambda>_. ''u''), fe_policy = (\<lambda>_. Inr None), fe_div = (div), fe_email = (\<lambda>_. None), fe_protocol = id\<rparr>"

definition no_positions :: fund_db where
  "no_positions = \<lparr>fd_marks = [], fd_subscriptions = [], fd_redemptions = [], fd_positions = [], fd_issuances = [],
     fd_steps = [], fd_outbox = []\<rparr>"

definition bought_once :: "int \<times> i64 \<times> position_command" where
  "bought_once = (1, 1, Deliver_Subscription
     \<lparr>ob_seq = 1, ob_event_id = 5, ob_aggregate_id = 6,
       ob_fact = Subscription_Fact (Subscribed 6 7 (ServiceId ''a'') (Usdt 3) NAV_SEED (Shares 3)), ob_attempts = 0\<rparr>
     (Subscribed 6 7 (ServiceId ''a'') (Usdt 3) NAV_SEED (Shares 3)))"

lemma careful_division: "careful buyer_env"
proof -
  have "a div b * b < a + b" if "0 < b" for a b :: nat using that by (metis add.commute div_times_less_eq_dividend less_add_same_cancel2 order_le_less_trans)
  then show ?thesis by (simp add: careful_def buyer_env_def)
qed

lemma bought_twice:
  "\<exists>db p. position_run buyer_env (\<lambda>_ _. 8) [bought_once, bought_once] no_positions = (db, [(5, (7, ''a''), 3, 3)]) \<and>
     find_position db 7 ''a'' = Some p \<and> pw_units p = 3"
  by (simp add: position_run_def bought_once_def deliver_fact_def marked_def no_positions_def project_subscription_def project_once_def
      settle_accrual_def find_position_def position_key_def raise_position_def as_protocol_def Let_def)

theorem positions_never_inflated_witness:
  "\<exists>db p. find_position db 7 ''a'' = Some p \<and> pw_units p = 3 \<and> pw_cost_basis p \<le> paid_cash [(5, (7, ''a''), 3, 3)] (7, ''a'')"
proof -
  from bought_twice obtain db p
    where run: "position_run buyer_env (\<lambda>_ _. 8) [bought_once, bought_once] no_positions = (db, [(5, (7, ''a''), 3, 3)])"
      and held: "find_position db 7 ''a'' = Some p" "pw_units p = 3" by blast
  have none: "fd_positions no_positions = []" by (simp add: no_positions_def)
  from positions_never_inflated [OF careful_division none run held(1)] held show ?thesis by blast
qed

end
