(* ===== verification/Spec2Isabelle.thy ===== *)
theory Spec2Isabelle
  imports FeeStore BookReach Compartments SignerBoot SignerSafety Consilium PayoutSafety ApprovalCatalog HoldSaga FundSagas RelaySafety RelayProgress MailSafety ConsiliumSafety PayUseSafety
    RegistrySafety FundSafety FundPositions
begin

text \<open>
  A verification development for the money core of banking: the domain crate
  (\<^verbatim>\<open>src/domain\<close>), the hub that runs it (\<^verbatim>\<open>src/piggybank/core\<close>) and the service that holds the keys
  (\<^verbatim>\<open>src/piggybank/signer\<close>).

  The system.  The hub keeps two planes.  The control plane is Postgres: a use case
  (\<^verbatim>\<open>application/*.rs\<close>) checks a request, calls an aggregate of the domain crate and hands it to a
  store (\<^verbatim>\<open>infrastructure/*.rs\<close>), which writes the rows and the facts raised, in one transaction, the
  facts going to an outbox.  The money plane is a ledger of accounts and two-phase transfers
  (TigerBeetle).  The relay drains the outbox in order, plans the ledger operations of each fact,
  checks that they may still run, applies them, asks custody to broadcast where money leaves, and
  stamps the row.  Custody asks the signer for signatures; the signer trusts nobody and holds every
  call against its own policy and spend ledger.  Decisions over other people's money are taken by
  the owners' consilium (mailed codes, a majority of owners), by an investor's own consent, or by the
  identity plane.

  How the model reads.  A \<^verbatim>\<open>Result\<close> is a sum, \<^verbatim>\<open>Err\<close> to the left, with the source's messages.  A
  machine integer is a word of its width and its checked, wrapping and saturating operations are
  those of Rust; a string is its UTF-8 bytes.  A struct is a record with one field per field, an enum
  a datatype with one constructor per variant.  A transaction is a function of the tables it writes:
  it answers the tables it leaves, which are the ones it began with when it fails, except where the
  source commits before answering an error (a wrong code is counted).  Row locks become the order in
  which transactions run, and what is proved over a store is proved over every sequence of them.

  What is an argument.  Code outside the repository is never given a definition: the digest
  (SHA-256), the uuid crate's text of an id and the v5 ids of transfers (\<open>tid\<close>), the keccak hash,
  signatures, the address parsers of the hex, bs58 and tonlib crates, the random codes and tokens.  A
  theorem that needs something of one of them says it as a hypothesis (\<open>uuid_text\<close>: a printed id is
  read back and holds no colon), and its witness gives a function for which it holds.  What another
  service answers (the ledger's balances, custody, the chain, the identity plane, the operator's
  switches) is an argument too, a record of answers per call, so that a theorem holds whatever they
  say.  The database's clock is an argument of the transaction that reads it.

  The theories, bottom up.

  The language.  \<open>Prelude\<close> has the integers, \<open>Errors\<close> the error type and its sequencing,
  \<open>RustStr\<close> the string operations, \<open>Codec\<close> the interface of enumerations with a stored name
  (a locale, interpreted at every one), \<open>Canonical\<close> the encodings a payload hash is taken over
  (the locale \<open>prefix_code\<close>), \<open>WideMul\<close> the 256-bit multiply-and-divide under every price,
  with its equivalence to floored division.

  The domain crate.  \<open>Money\<close> (\<^verbatim>\<open>money.rs\<close>), \<open>ScopeIds\<close> and \<open>Scopes\<close> (\<^verbatim>\<open>scopes.rs\<close>),
  \<open>Balance\<close> (\<^verbatim>\<open>balance.rs\<close>: services, parties, accounts, keys), \<open>Allocations\<close> (the backing of a
  product, of \<^verbatim>\<open>allocations.rs\<close>; the rest of that file is \<open>Registry\<close>), \<open>FeeTerms\<close> and \<open>Fees\<close> (\<^verbatim>\<open>fees.rs\<close>), \<open>BookTypes\<close> and
  \<open>Orders\<close> (\<^verbatim>\<open>book.rs\<close>), \<open>Withdrawals\<close> (\<^verbatim>\<open>withdrawals.rs\<close>), \<open>FundUnits\<close> (\<^verbatim>\<open>subscriptions.rs\<close>,
  \<^verbatim>\<open>redemptions.rs\<close>, \<^verbatim>\<open>issuance.rs\<close>), \<open>Payments\<close> (\<^verbatim>\<open>payments.rs\<close>), \<open>Consilium\<close> (\<^verbatim>\<open>consilium.rs\<close>),
  \<open>ScopeLedger\<close>, \<open>ScopeMoney\<close>, \<open>ScopePayouts\<close> and \<open>ApprovalCatalog\<close>
  (\<^verbatim>\<open>scope_ledger.rs\<close>, \<^verbatim>\<open>scope_charges.rs\<close>, \<^verbatim>\<open>scope_invoices.rs\<close>, \<^verbatim>\<open>scope_operations.rs\<close>).

  The hub.  \<open>Matching\<close> is the price-time engine behind the trait it implements (the locale
  \<open>matching_engine\<close>), with a declarative reference it equals; \<open>BookStore\<close> the book's
  transactions, \<open>BookInv\<close> and \<open>BookReach\<close> their invariant: every escrow covered at every prefix
  of the outbox, the book never crossed.  \<open>FeeStore\<close> is assessing, charging and accruing fees;
  \<open>Compartments\<close> the moves between a user's compartments with their limits.  \<open>LedgerPort\<close> is
  the interface of the ledger, \<open>LedgerPlans\<close> what every fact becomes on it, \<open>Relay\<close> one
  delivery and one pass of the relay, \<open>RelaySafety\<close> that money sent out is never also given back,
  \<open>RelayProgress\<close> that no row blocks the queue: a failing row is parked after
  \<open>MAX_RETRYABLE_ATTEMPTS\<close> attempts, so 49 passes are enough for the head to leave.
  \<open>Sagas\<close> states what the ledger then holds and the locale of a saga that keeps an aggregate and
  that account in step; \<open>WithdrawalSaga\<close>, \<open>HoldSaga\<close> and \<open>FundSagas\<close> interpret it.
  \<open>GovernanceMail\<close> has the mails, \<open>GovStore\<close> their queue, \<open>MailSafety\<close> that a spent mail
  holds no secret.  \<open>ConsiliumStore\<close> and \<open>ConsiliumUse\<close> are the consilium's rows, votes and
  execution, \<open>ConsiliumFrame\<close> and \<open>ConsiliumSafety\<close> what holds over all their histories.
  \<open>PayStore\<close> and \<open>PayConsent\<close> are the store of payment orders with its four kinds of seat,
  \<open>PaySafety\<close> that an investor's money leaves only on that investor's consent,
  \<open>WithdrawalUse\<close> the gates of money out and the dispatcher, \<open>DispatchSafety\<close> what a sweep
  never does, \<open>PayUse\<close> and \<open>PayUseSafety\<close> the opening and the execution of a payment.
  \<open>PaymentSafety\<close> and \<open>PayoutSafety\<close> are the aggregates' own histories and what the signed
  bytes bind.

  Products and their units.  \<open>Registry\<close> is the product aggregate (\<^verbatim>\<open>allocations.rs\<close>),
  \<open>RegistryStore\<close> its rows, the grants of access and the operators' commands, \<open>RegistrySafety\<close>
  that no command touches a reserved allocation and that the catalog's SQL filter is the domain's
  rule.  \<open>FundStore\<close> has the tables the units are dealt over and the projections the relay makes
  of a settled deal, \<open>FundDeals\<close> the commands over them, \<open>FundUse\<close> the use cases that price,
  subscribe, redeem and post a valuation, \<open>FundIssue\<close> minting and retiring without cash, who owns
  an allocation and the history of a price.  \<open>FundSafety\<close> shows what a subscription has cleared,
  how far one poster moves a price and that units minted in kind are never redeemed for cash;
  \<open>FundPositions\<close> that a position never says more than was paid for, over every order and
  repetition of deliveries.  Here a request reads one answer per ledger account throughout, how the
  database divides two numerics is an argument (\<open>fe_div\<close>; what is needed of it is that it rounds by
  less than one), so are its collation and the rendering of a driver error.

  The signer.  \<open>EvmTx\<close> encodes a transaction and its signing payload, \<open>SignerPolicy\<close> the policy
  with its brake, \<open>SignerBoot\<close> what a policy that boots satisfies, \<open>SignerService\<close> the six
  handlers over the spend ledger and the pins, \<open>SignerSafety\<close> the ceilings over any hour of any
  sequence of calls.

  Termination.  Loops are structural recursion, or carry a measure: trimming a text by the bytes that
  are left, clipping one to whole characters by its length.  The long division counts the bits still
  to shift, so nothing runs on fuel.

  Assumptions a reader should know.  The matching engine is only asked to keep its contract.  The
  relay's answers are those of one delivery; a broadcast is recorded before it is sent, which custody
  does and the guards of the relay rely on.  What an approval is spent on is an argument of the
  consilium's \<open>execute\<close>.  Where a statement orders rows by a timestamp the model uses the stamp
  the database wrote, in whole seconds, or in microseconds where a window depends on it.

  Not modelled.  The edges decide no money rule: the HTTP backend of the cabinet, the gRPC
  services, the authentication plane, configuration and process start.  Calls to chain nodes, key
  storage and the TON and TRON encoders are thin over external crates; the watchers turn what nodes
  say into the commands modelled here.  Read models, notices of scopes, reconciliation and the
  one-off export only read.  Of the rest of the hub, left for want of room: the stores and use
  cases of the scope ledger, holds, charges, invoices, mandates and operations (their aggregates and
  plans are modelled), the users and their roles, and the rounds in which approvals are put to the
  identity plane.
\<close>

end
